(* ===== verification/Prelude.thy ===== *)
theory Prelude
  imports
    Main
    "HOL-Library.Sublist"
    "HOL-Library.Char_ord"
    "HOL-Library.List_Lexorder"
    "HOL-Library.Multiset"
    "HOL-Library.AList"
begin

text \<open>
  Shared ground of the development: the names of the types every component uses, the
  collections of rewrite rules the component proofs rest on, and the generic lemmas on
  lists, options and association lists.

  A Go string is a byte string, so it is modelled by a list of 8-bit characters; the
  order of \<open>List_Lexorder\<close> with \<open>Char_ord\<close> is the bytewise order that Go's \<open>slices.Sort\<close> and
  \<open>strings.Compare\<close> use on strings.
\<close>

type_synonym gostring = "char list"

text \<open>Rewrite rules: for the Go string functions, for float64, for the run state.\<close>

named_theorems gostr "facts on the Go string functions"
named_theorems gofloat "facts on float64 comparisons and arithmetic"
named_theorems runfacts "facts on the state of the attractor loop"
named_theorems framefacts "fields an operation leaves alone"

section \<open>Lists\<close>

lemma last_snoc_nth: "xs \<noteq> [] \<Longrightarrow> xs ! (length xs - 1) = last xs"
  by (simp add: last_conv_nth)

lemma prefix_dropE:
  assumes "prefix p s"
  shows "p @ drop (length p) s = s"
  using assms by (auto simp: prefix_def)

lemma not_prefix_hd: "s \<noteq> [] \<Longrightarrow> hd s \<noteq> c \<Longrightarrow> \<not> prefix (c # p) s"
  by (cases s) auto

lemma takeWhile_eq_all: "list_all P xs \<Longrightarrow> takeWhile P xs = xs"
  by (induction xs) auto

lemma dropWhile_none: "list_all P xs \<Longrightarrow> dropWhile P xs = []"
  by (induction xs) auto

lemma sum_list_le_length: "(\<And>x. x \<in> set xs \<Longrightarrow> f x \<le> (k::nat)) \<Longrightarrow> sum_list (map f xs) \<le> k * length xs"
  by (induction xs) (auto, fastforce)

lemma set_map_filter: "y \<in> set (List.map_filter f xs) \<longleftrightarrow> (\<exists>x \<in> set xs. f x = Some y)"
  by (induction xs) (auto simp: List.map_filter_simps split: option.splits)

lemma map_filter_append: "List.map_filter f (xs @ ys) = List.map_filter f xs @ List.map_filter f ys"
  by (simp add: List.map_filter_def)

lemma find_append:
  "find P (xs @ ys) = (case find P xs of Some x \<Rightarrow> Some x | None \<Rightarrow> find P ys)"
  by (induction xs) auto

lemma find_SomeD: "find P xs = Some x \<Longrightarrow> P x \<and> x \<in> set xs"
  by (induction xs) (auto split: if_splits)

section \<open>Option and sum\<close>

lemma case_option_Some_iff:
  "(case x of None \<Rightarrow> None | Some y \<Rightarrow> f y) = Some z \<longleftrightarrow> (\<exists>y. x = Some y \<and> f y = Some z)"
  by (cases x) auto

lemma case_sum_Inr_iff:
  "(case x of Inl e \<Rightarrow> Inl e | Inr y \<Rightarrow> f y) = Inr z \<longleftrightarrow> (\<exists>y. x = Inr y \<and> f y = Inr z)"
  by (cases x) auto

text \<open>
  A Go \<open>error\<close>: its message and the sentinel errors it is or wraps, as \<open>errors.Is\<close> finds them.
\<close>

record goerr =
  er_msg :: gostring
  er_is :: "gostring list"

definition errors_Is :: "goerr \<Rightarrow> gostring \<Rightarrow> bool" where
  "errors_Is e sentinel = List.member (er_is e) sentinel"

text \<open>\<open>errors.New\<close>: a sentinel is named by its own message. \<open>fmt.Errorf("...: %w", err)\<close>: a prefix
  on the message of an error that stays wrapped.\<close>

definition new_err :: "gostring \<Rightarrow> goerr" where
  "new_err m = \<lparr>er_msg = m, er_is = [m]\<rparr>"

definition wrap_err :: "gostring \<Rightarrow> goerr \<Rightarrow> goerr" where
  "wrap_err pre e = \<lparr>er_msg = pre @ '': '' @ er_msg e, er_is = er_is e\<rparr>"

lemma errors_Is_wrap [simp]: "errors_Is (wrap_err pre e) s = errors_Is e s"
  by (simp add: errors_Is_def wrap_err_def)

lemma errors_Is_new [simp]: "errors_Is (new_err m) s \<longleftrightarrow> s = m"
  by (auto simp: errors_Is_def new_err_def)

section \<open>Go maps\<close>

text \<open>
  A Go map is an association list: lookup is \<open>map_of\<close>, assignment \<open>m[k] = v\<close> is
  \<open>AList.update\<close>, \<open>delete\<close> is \<open>AList.delete\<close>. The order of the list carries no meaning in the
  code (Go iterates over a map in an unspecified order), so where the code ranges over a map
  and the order shows, the model takes the order as a parameter or sorts as the code does.
\<close>

type_synonym 'v gomap = "(gostring \<times> 'v) list"

definition gm_get :: "'v gomap \<Rightarrow> gostring \<Rightarrow> 'v option" where
  "gm_get m k = map_of m k"

definition gm_put :: "gostring \<Rightarrow> 'v \<Rightarrow> 'v gomap \<Rightarrow> 'v gomap" where
  "gm_put k v m = AList.update k v m"

definition gm_keys :: "'v gomap \<Rightarrow> gostring list" where
  "gm_keys m = map fst m"

definition gm_wf :: "'v gomap \<Rightarrow> bool" where
  "gm_wf m = distinct (map fst m)"

text \<open>\<open>slices.Sorted(maps.Keys(m))\<close>.\<close>

definition gm_sorted_keys :: "'v gomap \<Rightarrow> gostring list" where
  "gm_sorted_keys m = sort (remdups (gm_keys m))"

text \<open>\<open>maps.Copy(dst, src)\<close>: every entry of \<open>src\<close> is assigned in \<open>dst\<close>.\<close>

definition gm_copy :: "'v gomap \<Rightarrow> 'v gomap \<Rightarrow> 'v gomap" where
  "gm_copy dst src = fold (\<lambda>(k, v) m. gm_put k v m) src dst"

text \<open>The laws of a finite map, stated once for every client.\<close>

locale finite_map =
  fixes get :: "'m \<Rightarrow> 'k \<Rightarrow> 'v option"
    and put :: "'k \<Rightarrow> 'v \<Rightarrow> 'm \<Rightarrow> 'm"
    and keys :: "'m \<Rightarrow> 'k list"
    and wf :: "'m \<Rightarrow> bool"
  assumes get_put: "get (put k v m) k' = (if k' = k then Some v else get m k')"
    and wf_put: "wf m \<Longrightarrow> wf (put k v m)"
    and keys_get: "k \<in> set (keys m) \<longleftrightarrow> get m k \<noteq> None"
begin

definition put_all :: "('k \<times> 'v) list \<Rightarrow> 'm \<Rightarrow> 'm" where
  "put_all xs m = fold (\<lambda>(k, v) m. put k v m) xs m"

lemma put_all_Nil [simp]: "put_all [] m = m"
  by (simp add: put_all_def)

lemma put_all_Cons [simp]: "put_all ((k, v) # xs) m = put_all xs (put k v m)"
  by (simp add: put_all_def)

lemma get_put_all:
  "get (put_all xs m) k = (case map_of (rev xs) k of Some v \<Rightarrow> Some v | None \<Rightarrow> get m k)"
proof (induction xs arbitrary: m)
  case Nil
  then show ?case by simp
next
  case (Cons x xs)
  then show ?case
    by (cases x) (auto simp: get_put map_add_def split: option.splits)
qed

lemma wf_put_all: "wf m \<Longrightarrow> wf (put_all xs m)"
  by (induction xs arbitrary: m) (auto simp: wf_put)

lemma keys_put: "set (keys (put k v m)) = insert k (set (keys m))"
  by (auto simp: keys_get get_put split: if_splits)

lemma keys_put_all: "set (keys (put_all xs m)) = fst ` set xs \<union> set (keys m)"
proof (induction xs arbitrary: m)
  case Nil
  then show ?case by simp
next
  case (Cons x xs)
  then show ?case by (cases x) (simp add: keys_put insert_commute)
qed

end

interpretation gm: finite_map gm_get gm_put gm_keys gm_wf
  by unfold_locales
    (auto simp: gm_get_def gm_put_def gm_keys_def gm_wf_def update_conv' distinct_update
      map_of_eq_None_iff)

lemma gm_copy_put_all: "gm_copy dst src = gm.put_all src dst"
  by (simp add: gm_copy_def gm.put_all_def)

lemma gm_get_Nil [simp]: "gm_get [] k = None"
  by (simp add: gm_get_def)

lemma gm_wf_Nil [simp]: "gm_wf []"
  by (simp add: gm_wf_def)

lemma gm_get_put [simp]: "gm_get (gm_put k v m) k' = (if k' = k then Some v else gm_get m k')"
  by (rule gm.get_put)

lemma gm_wf_put [simp]: "gm_wf m \<Longrightarrow> gm_wf (gm_put k v m)"
  by (rule gm.wf_put)

lemma gm_wf_copy [simp]: "gm_wf dst \<Longrightarrow> gm_wf (gm_copy dst src)"
  by (simp add: gm_copy_put_all gm.wf_put_all)

lemma map_of_rev_distinct: "distinct (map fst xs) \<Longrightarrow> map_of (rev xs) = map_of xs"
  by (rule map_of_eqI) (auto simp: map_of_eq_Some_iff rev_map [symmetric])

lemma gm_get_copy:
  assumes "gm_wf src"
  shows "gm_get (gm_copy dst src) k =
    (case gm_get src k of Some v \<Rightarrow> Some v | None \<Rightarrow> gm_get dst k)"
  using assms gm.get_put_all [of src dst k]
  by (simp add: gm_copy_put_all map_of_rev_distinct gm_wf_def) (simp add: gm_get_def)

lemma gm_keys_iff: "k \<in> set (gm_keys m) \<longleftrightarrow> gm_get m k \<noteq> None"
  by (rule gm.keys_get)

lemma gm_sorted_keys_set [simp]: "set (gm_sorted_keys m) = set (gm_keys m)"
  by (simp add: gm_sorted_keys_def)

lemma gm_sorted_keys_sorted [simp]: "sorted (gm_sorted_keys m)"
  by (simp add: gm_sorted_keys_def)

lemma gm_sorted_keys_distinct [simp]: "distinct (gm_sorted_keys m)"
  by (simp add: gm_sorted_keys_def)

lemma gm_sorted_keys_cong: "(\<And>k. gm_get m k = None \<longleftrightarrow> gm_get m' k = None) \<Longrightarrow>
  gm_sorted_keys m = gm_sorted_keys m'"
proof -
  assume same: "\<And>k. gm_get m k = None \<longleftrightarrow> gm_get m' k = None"
  have "set (gm_keys m) = set (gm_keys m')"
    using same by (auto simp: gm_keys_iff)
  then show ?thesis
    by (intro sorted_distinct_set_unique) auto
qed

end
