(* ===== verification/Go_Strings.thy ===== *)
theory Go_Strings
  imports Prelude
begin

text \<open>
  The functions of Go's \<open>strings\<close>, \<open>strconv\<close>, \<open>unicode/utf8\<close> and \<open>path/filepath\<close> packages that
  the program calls, on byte strings. They model the standard library, not code of the
  repository; every component theory is written over them.
\<close>

abbreviation NL :: char where "NL \<equiv> CHR 0x0A"

section \<open>Prefixes, search, cutting\<close>

abbreviation has_prefix :: "gostring \<Rightarrow> gostring \<Rightarrow> bool" where
  "has_prefix s p \<equiv> prefix p s"

abbreviation has_suffix :: "gostring \<Rightarrow> gostring \<Rightarrow> bool" where
  "has_suffix s p \<equiv> suffix p s"

text \<open>\<open>strings.Index\<close> and \<open>strings.LastIndex\<close>; \<open>None\<close> is the code's -1.\<close>

fun str_index :: "gostring \<Rightarrow> gostring \<Rightarrow> nat option" where
  "str_index [] p = (if p = [] then Some 0 else None)"
| "str_index (c # s) p = (if prefix p (c # s) then Some 0 else map_option Suc (str_index s p))"

fun str_last_index :: "gostring \<Rightarrow> gostring \<Rightarrow> nat option" where
  "str_last_index [] p = (if p = [] then Some 0 else None)"
| "str_last_index (c # s) p =
     (case str_last_index s p of
        Some i \<Rightarrow> Some (Suc i)
      | None \<Rightarrow> if prefix p (c # s) then Some 0 else None)"

definition str_contains :: "gostring \<Rightarrow> gostring \<Rightarrow> bool" where
  "str_contains s p \<longleftrightarrow> str_index s p \<noteq> None"

text \<open>\<open>strings.Cut\<close>: before, after, found.\<close>

definition str_cut :: "gostring \<Rightarrow> gostring \<Rightarrow> gostring \<times> gostring \<times> bool" where
  "str_cut s sep = (case str_index s sep of
      None \<Rightarrow> (s, [], False)
    | Some i \<Rightarrow> (take i s, drop (i + length sep) s, True))"

text \<open>\<open>strings.CutPrefix\<close>.\<close>

definition cut_prefix :: "gostring \<Rightarrow> gostring \<Rightarrow> gostring \<times> bool" where
  "cut_prefix s p = (if prefix p s then (drop (length p) s, True) else (s, False))"

text \<open>\<open>strings.Split\<close> by a one-byte separator, and \<open>strings.Join\<close>.\<close>

fun split_on :: "char \<Rightarrow> gostring \<Rightarrow> gostring list" where
  "split_on c [] = [[]]"
| "split_on c (x # xs) =
     (if x = c then [] # split_on c xs
      else (case split_on c xs of [] \<Rightarrow> [[x]] | y # ys \<Rightarrow> (x # y) # ys))"

fun str_join :: "gostring \<Rightarrow> gostring list \<Rightarrow> gostring" where
  "str_join sep [] = []"
| "str_join sep [x] = x"
| "str_join sep (x # y # ys) = x @ sep @ str_join sep (y # ys)"

text \<open>\<open>strings.ReplaceAll\<close> with a non-empty \<open>old\<close>: leftmost, non-overlapping occurrences.\<close>

function replace_all :: "gostring \<Rightarrow> gostring \<Rightarrow> gostring \<Rightarrow> gostring" where
  "replace_all old new s =
     (case s of
        [] \<Rightarrow> []
      | c # cs \<Rightarrow>
          if old \<noteq> [] \<and> prefix old s then new @ replace_all old new (drop (length old) s)
          else c # replace_all old new cs)"
  by pat_completeness auto
termination
  by (relation "measure (\<lambda>(old, new, s). length s)") auto

declare replace_all.simps [simp del]

lemma str_index_Some:
  "str_index s p = Some i \<Longrightarrow> i + length p \<le> length s \<and> prefix p (drop i s)"
  by (induction s p arbitrary: i rule: str_index.induct)
    (auto split: if_splits dest: prefix_length_le)

lemma str_last_index_Some:
  "str_last_index s p = Some i \<Longrightarrow> i + length p \<le> length s \<and> prefix p (drop i s)"
  by (induction s p arbitrary: i rule: str_last_index.induct)
    (auto split: if_splits option.splits dest: prefix_length_le)

lemma str_index_single: "str_index s [c] = (if c \<in> set s then Some (length (takeWhile (\<lambda>x. x \<noteq> c) s)) else None)"
  by (induction s) auto

lemma str_last_index_append:
  "c \<notin> set t \<Longrightarrow> str_last_index (s @ c # t) [c] = Some (length s)"
proof (induction s)
  case Nil
  have "c \<notin> set t \<Longrightarrow> str_last_index t [c] = None" for t
    by (induction t) auto
  with Nil show ?case by simp
next
  case (Cons x s)
  then show ?case by simp
qed

lemma split_on_ne [simp]: "split_on c s \<noteq> []"
  by (cases s) (auto split: list.splits)

lemma split_on_no_sep: "c \<notin> set s \<Longrightarrow> split_on c s = [s]"
  by (induction s) auto

lemma split_on_append_sep: "c \<notin> set s \<Longrightarrow> split_on c (s @ c # t) = s # split_on c t"
  by (induction s) auto

lemma split_on_parts: "x \<in> set (split_on c s) \<Longrightarrow> c \<notin> set x"
proof (induction s arbitrary: x)
  case Nil
  then show ?case by simp
next
  case (Cons a s)
  obtain y ys where ys: "split_on c s = y # ys"
    by (cases "split_on c s") auto
  with Cons show ?case
    by (auto split: if_splits)
qed

lemma str_join_split_on [simp]: "str_join [c] (split_on c s) = s"
proof (induction s)
  case Nil
  then show ?case by simp
next
  case (Cons a s)
  obtain y ys where ys: "split_on c s = y # ys"
    by (cases "split_on c s") auto
  with Cons show ?case
    by (cases ys) auto
qed

lemma split_on_join:
  "xs \<noteq> [] \<Longrightarrow> \<forall>x \<in> set xs. c \<notin> set x \<Longrightarrow> split_on c (str_join [c] xs) = xs"
proof (induction xs rule: induct_list012)
  case (3 x y zs)
  then show ?case by (simp add: split_on_append_sep)
qed (auto simp: split_on_no_sep)

lemma length_split_on: "length (split_on c s) = Suc (count_list s c)"
proof (induction s)
  case (Cons a s)
  obtain y ys where "split_on c s = y # ys"
    by (cases "split_on c s") auto
  with Cons show ?case by auto
qed simp

lemma set_str_join: "set (str_join sep xs) \<subseteq> \<Union> (set ` set xs) \<union> set sep"
  by (induction sep xs rule: str_join.induct) auto

section \<open>White space\<close>

text \<open>The UTF-8 encodings of the runes \<open>unicode.IsSpace\<close> accepts.\<close>

definition white_runes :: "gostring list" where
  "white_runes =
     map (\<lambda>c. [c]) [CHR 0x09, CHR 0x0A, CHR 0x0B, CHR 0x0C, CHR 0x0D, CHR 0x20] @
     [[CHR 0xC2, CHR 0x85], [CHR 0xC2, CHR 0xA0], [CHR 0xE1, CHR 0x9A, CHR 0x80]] @
     map (\<lambda>b. [CHR 0xE2, CHR 0x80, b])
       [CHR 0x80, CHR 0x81, CHR 0x82, CHR 0x83, CHR 0x84, CHR 0x85, CHR 0x86, CHR 0x87,
        CHR 0x88, CHR 0x89, CHR 0x8A, CHR 0xA8, CHR 0xA9, CHR 0xAF] @
     [[CHR 0xE2, CHR 0x81, CHR 0x9F], [CHR 0xE3, CHR 0x80, CHR 0x80]]"

function strip_lead :: "gostring list \<Rightarrow> gostring \<Rightarrow> gostring" where
  "strip_lead ws s =
     (case find (\<lambda>w. w \<noteq> [] \<and> prefix w s) ws of
        None \<Rightarrow> s
      | Some w \<Rightarrow> strip_lead ws (drop (length w) s))"
  by pat_completeness auto
termination
proof (relation "measure (\<lambda>(ws, s). length s)", goal_cases)
  case (2 ws s w)
  then have "w \<noteq> []" and "prefix w s"
    by (auto simp: find_Some_iff)
  then show ?case
    by (auto dest: prefix_length_le simp: prefix_def)
qed simp

declare strip_lead.simps [simp del]

definition trim_left :: "gostring \<Rightarrow> gostring" where
  "trim_left s = strip_lead white_runes s"

definition trim_right :: "gostring \<Rightarrow> gostring" where
  "trim_right s = rev (strip_lead (map rev white_runes) (rev s))"

text \<open>\<open>strings.TrimSpace\<close>.\<close>

definition trim_space :: "gostring \<Rightarrow> gostring" where
  "trim_space s = trim_right (trim_left s)"

text \<open>\<open>strings.TrimRight(s, "\n")\<close>.\<close>

definition trim_right_nl :: "gostring \<Rightarrow> gostring" where
  "trim_right_nl s = rev (dropWhile (\<lambda>c. c = NL) (rev s))"

lemma strip_lead_Nil [simp]: "strip_lead ws [] = []"
proof -
  have "find (\<lambda>w. w \<noteq> [] \<and> prefix w []) ws = None"
    by (auto simp: find_None_iff)
  then show ?thesis
    by (subst strip_lead.simps) simp
qed

lemma strip_lead_no: "list_all (\<lambda>w. w = [] \<or> \<not> prefix w s) ws \<Longrightarrow> strip_lead ws s = s"
proof -
  assume "list_all (\<lambda>w. w = [] \<or> \<not> prefix w s) ws"
  then have "find (\<lambda>w. w \<noteq> [] \<and> prefix w s) ws = None"
    by (auto simp: find_None_iff list_all_iff)
  then show ?thesis
    by (subst strip_lead.simps) simp
qed

lemma strip_lead_done: "list_all (\<lambda>w. w = [] \<or> \<not> prefix w (strip_lead ws s)) ws"
proof (induction ws s rule: strip_lead.induct)
  case (1 ws s)
  show ?case
  proof (cases "find (\<lambda>w. w \<noteq> [] \<and> prefix w s) ws")
    case None
    then have "strip_lead ws s = s"
      by (subst strip_lead.simps) simp
    with None show ?thesis
      by (auto simp: find_None_iff list_all_iff)
  next
    case (Some w)
    with 1 show ?thesis
      by (subst strip_lead.simps) simp
  qed
qed

lemma strip_lead_suffix: "suffix (strip_lead ws s) s"
proof (induction ws s rule: strip_lead.induct)
  case (1 ws s)
  show ?case
  proof (cases "find (\<lambda>w. w \<noteq> [] \<and> prefix w s) ws")
    case None
    then show ?thesis by (subst strip_lead.simps) simp
  next
    case (Some w)
    with 1 have "suffix (strip_lead ws (drop (length w) s)) (drop (length w) s)" by simp
    then have "suffix (strip_lead ws (drop (length w) s)) s"
      using suffix_drop suffix_order.trans by blast
    with Some show ?thesis by (subst strip_lead.simps) simp
  qed
qed

lemma strip_lead_idem [simp]: "strip_lead ws (strip_lead ws s) = strip_lead ws s"
  by (rule strip_lead_no [OF strip_lead_done])

lemma trim_left_suffix: "suffix (trim_left s) s"
  by (simp add: trim_left_def strip_lead_suffix)

lemma trim_right_prefix: "prefix (trim_right s) s"
  using strip_lead_suffix [of "map rev white_runes" "rev s"]
  by (simp add: trim_right_def suffix_to_prefix)

lemma trim_space_Nil [simp]: "trim_space [] = []"
  by (simp add: trim_space_def trim_left_def trim_right_def)

lemma trim_space_sublist: "sublist (trim_space s) s"
  using trim_left_suffix [of s] trim_right_prefix [of "trim_left s"]
  by (metis prefix_imp_sublist sublist_order.order.trans suffix_imp_sublist trim_space_def)

lemma trim_space_set: "set (trim_space s) \<subseteq> set s"
  using trim_space_sublist set_mono_sublist by blast

text \<open>A byte that neither starts nor ends the encoding of a white rune.\<close>

definition plain_byte :: "char \<Rightarrow> bool" where
  "plain_byte c \<longleftrightarrow> c \<notin> hd ` set white_runes \<and> c \<notin> last ` set white_runes"

lemma plain_byte_code: "plain_byte c \<longleftrightarrow> \<not> List.member (map hd white_runes @ map last white_runes) c"
  by (auto simp: plain_byte_def)

lemma white_runes_ne: "[] \<notin> set white_runes"
  by (simp add: white_runes_def)

lemma strip_lead_plain_hd:
  assumes "s \<noteq> []" and "plain_byte (hd s)"
  shows "strip_lead white_runes s = s"
proof (rule strip_lead_no, unfold list_all_iff, rule ballI)
  fix w
  assume w: "w \<in> set white_runes"
  then have ne: "w \<noteq> []" using white_runes_ne by auto
  have "hd s = hd w" if "prefix w s"
    using ne that by (metis hd_append2 prefix_def)
  with w assms(2) show "w = [] \<or> \<not> prefix w s"
    by (auto simp: plain_byte_def)
qed

lemma strip_lead_plain_last:
  assumes "s \<noteq> []" and "plain_byte (last s)"
  shows "strip_lead (map rev white_runes) (rev s) = rev s"
proof (rule strip_lead_no, unfold list_all_iff, rule ballI)
  fix w'
  assume "w' \<in> set (map rev white_runes)"
  then obtain w where w: "w \<in> set white_runes" and w': "w' = rev w" by auto
  then have ne: "w \<noteq> []" using white_runes_ne by auto
  have "last s = last w" if "prefix (rev w) (rev s)"
    using ne that by (metis Nil_is_rev_conv hd_append2 hd_rev prefix_def)
  with w assms(2) show "w' = [] \<or> \<not> prefix w' (rev s)"
    by (auto simp: plain_byte_def w')
qed

lemma trim_space_plain [gostr]:
  "s \<noteq> [] \<Longrightarrow> plain_byte (hd s) \<Longrightarrow> plain_byte (last s) \<Longrightarrow> trim_space s = s"
  by (simp add: trim_space_def trim_left_def trim_right_def strip_lead_plain_hd
      strip_lead_plain_last)


section \<open>Lower and upper case\<close>

text \<open>
  \<open>strings.ToLower\<close> as far as the code's comparisons with ASCII names see it: the ASCII letters,
  and the two runes outside ASCII whose lower case is an ASCII letter (U+0130, the dotted
  capital I, and U+212A, the Kelvin sign). Every other rune keeps bytes outside ASCII.
\<close>

definition lower_byte :: "char \<Rightarrow> char" where
  "lower_byte c = (if CHR ''A'' \<le> c \<and> c \<le> CHR ''Z'' then char_of (of_char c + (32::nat)) else c)"

fun to_lower :: "gostring \<Rightarrow> gostring" where
  "to_lower [] = []"
| "to_lower (c # s) =
     (if prefix [CHR 0xC4, CHR 0xB0] (c # s) then CHR ''i'' # to_lower (drop 1 s)
      else if prefix [CHR 0xE2, CHR 0x84, CHR 0xAA] (c # s) then CHR ''k'' # to_lower (drop 2 s)
      else lower_byte c # to_lower s)"

definition upper_byte :: "char \<Rightarrow> char" where
  "upper_byte c = (if CHR ''a'' \<le> c \<and> c \<le> CHR ''z'' then char_of (of_char c - (32::nat)) else c)"

text \<open>\<open>strings.ToUpper\<close> on ASCII strings (the only use is on the feedback kinds).\<close>

definition to_upper :: "gostring \<Rightarrow> gostring" where
  "to_upper s = map upper_byte s"

section \<open>Decimal numbers\<close>

definition digit_char :: "nat \<Rightarrow> char" where
  "digit_char d = char_of (48 + d)"

definition is_digit :: "char \<Rightarrow> bool" where
  "is_digit c \<longleftrightarrow> CHR ''0'' \<le> c \<and> c \<le> CHR ''9''"

definition digit_val :: "char \<Rightarrow> nat" where
  "digit_val c = of_char c - 48"

fun nat_str :: "nat \<Rightarrow> gostring" where
  "nat_str n = (if n < 10 then [digit_char n] else nat_str (n div 10) @ [digit_char (n mod 10)])"

declare nat_str.simps [simp del]

text \<open>\<open>strconv.Itoa\<close> and the verb \<open>%d\<close>.\<close>

definition int_str :: "int \<Rightarrow> gostring" where
  "int_str i = (if i < 0 then CHR ''-'' # nat_str (nat (- i)) else nat_str (nat i))"

text \<open>The value of a string of digits.\<close>

definition digits_val :: "gostring \<Rightarrow> nat" where
  "digits_val s = fold (\<lambda>c v. 10 * v + digit_val c) s 0"

lemma digit_char_val [simp]: "d < 10 \<Longrightarrow> digit_val (digit_char d) = d"
  by (simp add: digit_val_def digit_char_def of_char_of)

lemma digit_char_is_digit [simp]: "d < 10 \<Longrightarrow> is_digit (digit_char d)"
  by (simp add: is_digit_def digit_char_def less_eq_char_def of_char_of)

lemma nat_str_ne [simp]: "nat_str n \<noteq> []"
  by (subst nat_str.simps) simp

lemma nat_str_digits: "c \<in> set (nat_str n) \<Longrightarrow> is_digit c"
proof (induction n rule: nat_str.induct)
  case (1 n)
  then show ?case
    by (cases "n < 10") (auto simp: nat_str.simps [of n])
qed

lemma digits_val_nat_str [simp]: "digits_val (nat_str n) = n"
proof (induction n rule: nat_str.induct)
  case (1 n)
  then show ?case
    by (cases "n < 10") (auto simp: nat_str.simps [of n] digits_val_def)
qed

lemma nat_str_inj: "nat_str m = nat_str n \<Longrightarrow> m = n"
  by (metis digits_val_nat_str)

lemma int_str_inj: "int_str i = int_str j \<Longrightarrow> i = j"
proof -
  have nd: "\<not> is_digit (CHR ''-'')" by (simp add: is_digit_def less_eq_char_def)
  have "hd (nat_str n) \<noteq> CHR ''-''" for n
    using nd nat_str_digits [of "hd (nat_str n)" n] by (metis list.set_sel(1) nat_str_ne)
  moreover assume "int_str i = int_str j"
  ultimately show "i = j"
    by (auto simp: int_str_def split: if_splits dest: nat_str_inj)
      (metis list.sel(1))+
qed

section \<open>Quoting\<close>

text \<open>
  \<open>%q\<close> of \<open>fmt\<close>: quotes, backslashes and control characters are escaped; a byte from 0x80 up is taken to
  be part of a printable character.
\<close>

definition quote_char :: "char \<Rightarrow> gostring" where
  "quote_char c =
     (if c = CHR 0x22 then [CHR 0x5C, CHR 0x22]
      else if c = CHR 0x5C then [CHR 0x5C, CHR 0x5C]
      else if c = CHR 0x07 then [CHR 0x5C, CHR ''a'']
      else if c = CHR 0x08 then [CHR 0x5C, CHR ''b'']
      else if c = CHR 0x0C then [CHR 0x5C, CHR ''f'']
      else if c = NL then [CHR 0x5C, CHR ''n'']
      else if c = CHR 0x0D then [CHR 0x5C, CHR ''r'']
      else if c = CHR 0x09 then [CHR 0x5C, CHR ''t'']
      else if c = CHR 0x0B then [CHR 0x5C, CHR ''v'']
      else if of_char c < (32::nat) \<or> of_char c = (127::nat) then
        [CHR 0x5C, CHR ''x'', ''0123456789abcdef'' ! (of_char c div 16), ''0123456789abcdef'' ! (of_char c mod 16)]
      else [c])"

definition go_quote :: "gostring \<Rightarrow> gostring" where
  "go_quote s = [CHR 0x22] @ concat (map quote_char s) @ [CHR 0x22]"

text \<open>\<open>%v\<close> of a string slice.\<close>

definition fmt_strings :: "gostring list \<Rightarrow> gostring" where
  "fmt_strings xs = ''['' @ str_join '' '' xs @ '']''"

end
