(* ===== verification/Go_Float.thy ===== *)
theory Go_Float
  imports Go_Strings Complex_Main "HOL-Library.Log_Nat"
begin

text \<open>
  Go's \<open>float64\<close>: NaN, the infinities and the finite values as rationals, with IEEE 754
  comparisons and arithmetic rounded to nearest, ties to even. The sign of zero is not
  represented (the code divides by a value only after testing it, and prints no zero it
  computed as negative). \<open>fmt_f\<close> is the verb \<open>%.<n>f\<close>, which rounds the exact value half to even.
\<close>

datatype float64 = FNaN | FInf bool | FNum rat

section \<open>Rounding\<close>

definition rhe :: "rat \<Rightarrow> int" where
  "rhe r = (let f = \<lfloor>r\<rfloor>; d = r - of_int f in
     if d < 1 / 2 then f else if 1 / 2 < d then f + 1 else if even f then f else f + 1)"

definition pow2 :: "int \<Rightarrow> rat" where
  "pow2 e = (if 0 \<le> e then 2 ^ nat e else 1 / 2 ^ nat (- e))"

text \<open>The exponent \<open>e\<close> with \<open>2^e \<le> r < 2^(e+1)\<close>, for positive \<open>r\<close>.\<close>

definition ilog2 :: "rat \<Rightarrow> int" where
  "ilog2 r = (let (n, d) = quotient_of r; e = bitlen n - bitlen d in
     if pow2 e \<le> r then e else e - 1)"

text \<open>The spacing of the float64 values around a positive \<open>r\<close> is \<open>2^ulp_exp r\<close>.\<close>

definition ulp_exp :: "rat \<Rightarrow> int" where
  "ulp_exp r = max (ilog2 r - 52) (- 1074)"

definition round_abs :: "rat \<Rightarrow> rat" where
  "round_abs r = (if r = 0 then 0 else of_int (rhe (r / pow2 (ulp_exp r))) * pow2 (ulp_exp r))"

definition fl :: "rat \<Rightarrow> float64" where
  "fl r = (let v = round_abs \<bar>r\<bar> in
     if pow2 1024 \<le> v then FInf (r < 0) else FNum (if r < 0 then - v else v))"

section \<open>Comparisons and arithmetic\<close>

fun fless :: "float64 \<Rightarrow> float64 \<Rightarrow> bool" where
  "fless FNaN _ = False"
| "fless _ FNaN = False"
| "fless (FInf s) (FInf t) = (s \<and> \<not> t)"
| "fless (FInf s) (FNum _) = s"
| "fless (FNum _) (FInf t) = (\<not> t)"
| "fless (FNum a) (FNum b) = (a < b)"

fun feq :: "float64 \<Rightarrow> float64 \<Rightarrow> bool" where
  "feq FNaN _ = False"
| "feq _ FNaN = False"
| "feq x y = (x = y)"

definition fleq :: "float64 \<Rightarrow> float64 \<Rightarrow> bool" where
  "fleq x y \<longleftrightarrow> fless x y \<or> feq x y"

fun fadd :: "float64 \<Rightarrow> float64 \<Rightarrow> float64" where
  "fadd FNaN _ = FNaN"
| "fadd _ FNaN = FNaN"
| "fadd (FInf s) (FInf t) = (if s = t then FInf s else FNaN)"
| "fadd (FInf s) (FNum _) = FInf s"
| "fadd (FNum _) (FInf t) = FInf t"
| "fadd (FNum a) (FNum b) = fl (a + b)"

fun fneg :: "float64 \<Rightarrow> float64" where
  "fneg FNaN = FNaN"
| "fneg (FInf s) = FInf (\<not> s)"
| "fneg (FNum a) = FNum (- a)"

definition fsub :: "float64 \<Rightarrow> float64 \<Rightarrow> float64" where
  "fsub x y = fadd x (fneg y)"

fun fmul :: "float64 \<Rightarrow> float64 \<Rightarrow> float64" where
  "fmul FNaN _ = FNaN"
| "fmul _ FNaN = FNaN"
| "fmul (FInf s) (FInf t) = FInf (s \<noteq> t)"
| "fmul (FInf s) (FNum b) = (if b = 0 then FNaN else FInf (s \<noteq> (b < 0)))"
| "fmul (FNum a) (FInf t) = (if a = 0 then FNaN else FInf ((a < 0) \<noteq> t))"
| "fmul (FNum a) (FNum b) = fl (a * b)"

fun fdiv :: "float64 \<Rightarrow> float64 \<Rightarrow> float64" where
  "fdiv FNaN _ = FNaN"
| "fdiv _ FNaN = FNaN"
| "fdiv (FInf s) (FInf t) = FNaN"
| "fdiv (FInf s) (FNum b) = FInf (s \<noteq> (b < 0))"
| "fdiv (FNum a) (FInf t) = FNum 0"
| "fdiv (FNum a) (FNum b) = (if b = 0 then (if a = 0 then FNaN else FInf (a < 0)) else fl (a / b))"

text \<open>\<open>float64(i)\<close> for an integer, and \<open>x == 0\<close>.\<close>

definition f_of_int :: "int \<Rightarrow> float64" where
  "f_of_int i = fl (of_int i)"

abbreviation fzero :: float64 where "fzero \<equiv> FNum 0"

section \<open>Printing\<close>

definition pad_left :: "nat \<Rightarrow> gostring \<Rightarrow> gostring" where
  "pad_left n s = replicate (n - length s) (CHR ''0'') @ s"

text \<open>A non-negative rational with \<open>p\<close> digits after the point.\<close>

definition fmt_abs :: "nat \<Rightarrow> rat \<Rightarrow> gostring" where
  "fmt_abs p r =
     (let n = nat (rhe (r * 10 ^ p)) in
      if p = 0 then nat_str n
      else nat_str (n div 10 ^ p) @ ''.'' @ pad_left p (nat_str (n mod 10 ^ p)))"

fun fmt_f :: "nat \<Rightarrow> float64 \<Rightarrow> gostring" where
  "fmt_f p FNaN = ''NaN''"
| "fmt_f p (FInf s) = (if s then ''-Inf'' else ''+Inf'')"
| "fmt_f p (FNum r) = (if r < 0 then CHR ''-'' # fmt_abs p (- r) else fmt_abs p r)"

section \<open>Facts on rounding\<close>

lemma pow2_pos [simp]: "0 < pow2 e"
  by (simp add: pow2_def)

lemma pow2_nz [simp]: "pow2 e \<noteq> 0"
  by (metis pow2_pos order_less_irrefl)

lemma pow2_powi: "pow2 e = 2 powi e"
  by (simp add: pow2_def power_int_def field_simps)

lemma pow2_add: "pow2 (a + b) = pow2 a * pow2 b"
  by (simp add: pow2_powi power_int_add)

lemma pow2_mono: "a \<le> b \<Longrightarrow> pow2 a \<le> pow2 b"
  by (simp add: pow2_powi power_int_increasing)

lemma pow2_less: "pow2 a < pow2 b \<longleftrightarrow> a < b"
  using pow2_mono [of a b] pow2_mono [of b a]
  by (metis linorder_not_less order_less_irrefl order_le_less pow2_powi power_int_strict_increasing
      one_less_numeral_iff semiring_norm(76))

lemma pow2_0 [simp]: "pow2 0 = 1"
  by (simp add: pow2_def)

lemma pow2_nat: "0 \<le> e \<Longrightarrow> pow2 e = of_int (2 ^ nat e)"
  by (simp add: pow2_def)

lemma rhe_bounds: "of_int (rhe r) \<le> r + 1 / 2 \<and> r - 1 / 2 \<le> of_int (rhe r)"
proof -
  have h: "of_int \<lfloor>r\<rfloor> \<le> r" "r < of_int \<lfloor>r\<rfloor> + 1" by linarith+
  consider (lo) "r - of_int \<lfloor>r\<rfloor> < 1 / 2" | (hi) "1 / 2 < r - of_int \<lfloor>r\<rfloor>"
    | (tie) "r - of_int \<lfloor>r\<rfloor> = 1 / 2" by linarith
  then show ?thesis
  proof cases
    case lo
    then have "rhe r = \<lfloor>r\<rfloor>" unfolding rhe_def Let_def by simp
    with lo h show ?thesis by linarith
  next
    case hi
    then have "rhe r = \<lfloor>r\<rfloor> + 1" unfolding rhe_def Let_def by simp
    with hi h show ?thesis by linarith
  next
    case tie
    have "rhe r = \<lfloor>r\<rfloor> \<or> rhe r = \<lfloor>r\<rfloor> + 1" unfolding rhe_def Let_def by simp
    with tie h show ?thesis by (elim disjE) linarith+
  qed
qed

lemma rhe_int [simp]: "rhe (of_int k) = k"
  by (simp add: rhe_def)

lemma rhe_mono: "a \<le> b \<Longrightarrow> rhe a \<le> rhe b"
proof -
  assume ab: "a \<le> b"
  have fl: "\<lfloor>a\<rfloor> \<le> \<lfloor>b\<rfloor>" using ab by (rule floor_mono)
  show ?thesis
  proof (cases "\<lfloor>a\<rfloor> = \<lfloor>b\<rfloor>")
    case True
    then show ?thesis using ab by (auto simp: rhe_def Let_def)
  next
    case False
    with fl have lt: "\<lfloor>a\<rfloor> + 1 \<le> \<lfloor>b\<rfloor>" by simp
    have "rhe a \<le> \<lfloor>a\<rfloor> + 1" and "\<lfloor>b\<rfloor> \<le> rhe b" by (auto simp: rhe_def Let_def)
    with lt show ?thesis by linarith
  qed
qed

lemma rhe_nonneg: "0 \<le> r \<Longrightarrow> 0 \<le> rhe r"
  using rhe_mono [of 0 r] rhe_int [of 0] by simp

lemma ilog2_bounds:
  assumes "0 < r"
  shows "pow2 (ilog2 r) \<le> r \<and> r < pow2 (ilog2 r + 1)"
proof -
  obtain n d where q: "quotient_of r = (n, d)" by force
  then have d: "0 < d" and r: "r = of_int n / of_int d"
    by (auto simp: quotient_of_denom_pos quotient_of_div)
  with assms have n: "0 < n" by (simp add: zero_less_divide_iff)
  have bn: "2 ^ nat (bitlen n - 1) \<le> n" "n < 2 ^ nat (bitlen n)"
    and bd: "2 ^ nat (bitlen d - 1) \<le> d" "d < 2 ^ nat (bitlen d)"
    using bitlen_bounds [OF n] bitlen_bounds [OF d] by auto
  have pos: "1 \<le> bitlen n" "1 \<le> bitlen d"
    using bn bd n d by (auto simp: bitlen_def floorlog_def)
  have n1: "pow2 (bitlen n - 1) \<le> of_int n" and n2: "of_int n < pow2 (bitlen n)"
    and d1: "pow2 (bitlen d - 1) \<le> of_int d" and d2: "of_int d < pow2 (bitlen d)"
    using bn bd pos by (simp_all add: pow2_nat)
  let ?e = "bitlen n - bitlen d"
  have up: "r < pow2 (?e + 1)"
  proof -
    have "pow2 (?e + 1) * pow2 (bitlen d - 1) = pow2 (bitlen n)"
      by (simp flip: pow2_add)
    with n2 d1 have "of_int n < pow2 (?e + 1) * of_int d"
      by (metis order_less_le_trans mult_le_cancel_left_pos pow2_pos)
    with d show ?thesis by (simp add: r field_simps)
  qed
  have lo: "pow2 (?e - 1) \<le> r"
  proof -
    have "pow2 (?e - 1) * pow2 (bitlen d) = pow2 (bitlen n - 1)"
      by (simp flip: pow2_add)
    moreover have "pow2 (?e - 1) * of_int d \<le> pow2 (?e - 1) * pow2 (bitlen d)"
      using d2 by simp
    ultimately have "pow2 (?e - 1) * of_int d \<le> of_int n" using n1 by linarith
    with d show ?thesis by (simp add: r field_simps)
  qed
  show ?thesis
    using up lo by (auto simp: ilog2_def q Let_def)
qed

lemma ilog2_mono: "0 < a \<Longrightarrow> a \<le> b \<Longrightarrow> ilog2 a \<le> ilog2 b"
proof -
  assume a: "0 < a" and ab: "a \<le> b"
  have "pow2 (ilog2 a) < pow2 (ilog2 b + 1)"
    using ilog2_bounds [of a] ilog2_bounds [of b] a ab by linarith
  then show ?thesis by (simp add: pow2_less)
qed

lemma ulp_exp_mono: "0 < a \<Longrightarrow> a \<le> b \<Longrightarrow> ulp_exp a \<le> ulp_exp b"
  using ilog2_mono [of a b] by (simp add: ulp_exp_def)


lemma round_abs_0 [simp]: "round_abs 0 = 0"
  by (simp add: round_abs_def)

lemma round_abs_nonneg: "0 \<le> r \<Longrightarrow> 0 \<le> round_abs r"
  by (simp add: round_abs_def rhe_nonneg less_imp_le)

lemma round_abs_exact:
  assumes "v = of_int m * pow2 e" and "v \<noteq> 0" and "ulp_exp v \<le> e"
  shows "round_abs v = v"
proof -
  have "v / pow2 (ulp_exp v) = of_int m * pow2 (e - ulp_exp v)"
    using assms(1) by (simp add: pow2_powi power_int_diff)
  also have "\<dots> = of_int (m * 2 ^ nat (e - ulp_exp v))"
    using assms(3) by (simp add: pow2_nat)
  finally have "v / pow2 (ulp_exp v) = of_int (m * 2 ^ nat (e - ulp_exp v))" .
  then have "of_int (rhe (v / pow2 (ulp_exp v))) = v / pow2 (ulp_exp v)"
    by (simp del: of_int_mult)
  with assms(2) show ?thesis by (simp add: round_abs_def)
qed

lemma ulp_exp_le: "0 < v \<Longrightarrow> v < pow2 (e + 53) \<Longrightarrow> - 1074 \<le> e \<Longrightarrow> ulp_exp v \<le> e"
proof -
  assume v: "0 < v" "v < pow2 (e + 53)" and e: "- 1074 \<le> e"
  have "pow2 (ilog2 v) < pow2 (e + 53)"
    using ilog2_bounds [OF v(1)] v(2) by linarith
  with e show ?thesis by (simp add: pow2_less ulp_exp_def)
qed

lemma below_ulp: "0 < r \<Longrightarrow> r < pow2 (ulp_exp r + 53)"
proof -
  assume r: "0 < r"
  have "ilog2 r + 1 \<le> ulp_exp r + 53" by (simp add: ulp_exp_def)
  from pow2_mono [OF this] ilog2_bounds [OF r] show ?thesis by linarith
qed

lemma rhe_scaled_le:
  assumes "0 < r"
  shows "rhe (r / pow2 (ulp_exp r)) \<le> 2 ^ 53"
proof -
  have "r / pow2 (ulp_exp r) \<le> of_int (2 ^ 53)"
    using below_ulp [OF assms] by (simp add: pow2_add divide_le_eq pow2_nat mult.commute)
  from rhe_mono [OF this] show ?thesis by (simp only: rhe_int)
qed

text \<open>Rounding is idempotent: what it returns is a float64 value.\<close>

lemma round_abs_idem:
  assumes "0 \<le> r"
  shows "round_abs (round_abs r) = round_abs r"
proof (cases "round_abs r = 0")
  case False
  then have r: "0 < r" using assms by (cases "r = 0") auto
  let ?e = "ulp_exp r" and ?m = "rhe (r / pow2 (ulp_exp r))"
  have v: "round_abs r = of_int ?m * pow2 ?e" using r by (simp add: round_abs_def)
  have e: "- 1074 \<le> ?e" by (simp add: ulp_exp_def)
  have pos: "0 < round_abs r" using round_abs_nonneg [of r] r False by simp
  show ?thesis
  proof (cases "?m = 2 ^ 53")
    case True
    have "round_abs r = of_int (2 ^ 52) * pow2 (?e + 1)"
      using v True by (simp add: pow2_add pow2_nat)
    moreover have "ulp_exp (round_abs r) \<le> ?e + 1"
      using v True e pos
      by (intro ulp_exp_le) (auto simp: pow2_add pow2_nat)
    ultimately show ?thesis using False by (intro round_abs_exact)
  next
    case m: False
    then have "?m < 2 ^ 53" using rhe_scaled_le [OF r] by simp
    then have "(of_int ?m :: rat) < of_int (2 ^ 53)" by (simp only: of_int_less_iff)
    then have "round_abs r < pow2 (?e + 53)"
      using v by (simp add: pow2_add pow2_nat mult.commute)
    then have "ulp_exp (round_abs r) \<le> ?e" using pos e by (intro ulp_exp_le)
    with v False show ?thesis by (rule round_abs_exact)
  qed
qed simp

lemma round_abs_mono:
  assumes "0 \<le> a" and "a \<le> b"
  shows "round_abs a \<le> round_abs b"
proof (cases "a = 0")
  case True
  with assms show ?thesis by (simp add: round_abs_nonneg)
next
  case False
  then have a: "0 < a" and b: "0 < b" using assms by auto
  have le: "ulp_exp a \<le> ulp_exp b" using a assms(2) by (rule ulp_exp_mono)
  show ?thesis
  proof (cases "ulp_exp a = ulp_exp b")
    case True
    have "rhe (a / pow2 (ulp_exp b)) \<le> rhe (b / pow2 (ulp_exp b))"
      using assms(2) by (intro rhe_mono divide_right_mono) (auto simp: less_imp_le)
    with True a b show ?thesis by (simp add: round_abs_def)
  next
    case False
    with le have lt: "ulp_exp a + 53 \<le> ulp_exp b + 52" by simp
    from False le have eb: "ulp_exp b = ilog2 b - 52" by (auto simp: ulp_exp_def split: if_splits)
    have "pow2 (ulp_exp b) * of_int (2 ^ 52) \<le> b"
      using ilog2_bounds [OF b] eb pow2_add [of "ulp_exp b" 52] by (simp add: pow2_nat)
    then have "of_int (2 ^ 52) \<le> b / pow2 (ulp_exp b)"
      by (simp add: le_divide_eq mult.commute)
    from rhe_mono [OF this] have "2 ^ 52 \<le> rhe (b / pow2 (ulp_exp b))"
      by (simp only: rhe_int)
    then have "of_int (2 ^ 52) \<le> (of_int (rhe (b / pow2 (ulp_exp b))) :: rat)"
      by (simp only: of_int_le_iff)
    then have hi: "pow2 (ulp_exp b + 52) \<le> round_abs b"
      using b by (simp add: round_abs_def pow2_add pow2_nat mult.commute)
    have "of_int (rhe (a / pow2 (ulp_exp a))) \<le> (of_int (2 ^ 53) :: rat)"
      using rhe_scaled_le [OF a] by (simp only: of_int_le_iff)
    then have "round_abs a \<le> pow2 (ulp_exp a + 53)"
      using a by (simp add: round_abs_def pow2_add pow2_nat mult.commute)
    with hi pow2_mono [OF lt] show ?thesis by linarith
  qed
qed

section \<open>Facts on comparisons and sums\<close>

text \<open>The values a float64 can have: NaN, the infinities and the fixed points of rounding.\<close>

fun fwf :: "float64 \<Rightarrow> bool" where
  "fwf (FNum r) = (round_abs \<bar>r\<bar> = \<bar>r\<bar> \<and> \<bar>r\<bar> < pow2 1024)"
| "fwf _ = True"

lemma fwf_fl [simp]: "fwf (fl r)"
  by (auto simp: fl_def Let_def round_abs_idem round_abs_nonneg)

lemma fl_wf: "fwf (FNum r) \<Longrightarrow> fl r = FNum r"
  by (auto simp: fl_def Let_def)

lemma fless_irrefl [gofloat, simp]: "\<not> fless x x"
  by (cases x) auto

lemma fless_trans: "fless x y \<Longrightarrow> fless y z \<Longrightarrow> fless x z"
  by (cases x; cases y; cases z) auto

lemma fleq_FNum [gofloat, simp]: "fleq (FNum a) (FNum b) = (a \<le> b)"
  by (auto simp: fleq_def)

lemma fleq_NaN [gofloat, simp]: "\<not> fleq FNaN x" "\<not> fleq x FNaN"
  by (cases x; simp add: fleq_def)+

lemma fleq_trans: "fleq x y \<Longrightarrow> fleq y z \<Longrightarrow> fleq x z"
  by (cases x; cases y; cases z) (auto simp: fleq_def split: if_splits)

lemma fleq_refl: "x \<noteq> FNaN \<Longrightarrow> fleq x x"
  by (cases x) (auto simp: fleq_def)

lemma fless_imp_fleq: "fless x y \<Longrightarrow> fleq x y"
  by (simp add: fleq_def)

lemma fless_not_fleq: "fless x y \<Longrightarrow> \<not> fleq y x"
  by (cases x; cases y) (auto simp: fleq_def)

lemma not_fless: "x \<noteq> FNaN \<Longrightarrow> y \<noteq> FNaN \<Longrightarrow> \<not> fless x y \<longleftrightarrow> fleq y x"
  by (cases x; cases y) (auto simp: fleq_def)

lemma fless_fleq_trans: "fless x y \<Longrightarrow> fleq y z \<Longrightarrow> fless x z"
  by (cases x; cases y; cases z) (auto simp: fleq_def split: if_splits)

lemma fleq_fless_trans: "fleq x y \<Longrightarrow> fless y z \<Longrightarrow> fless x z"
  by (cases x; cases y; cases z) (auto simp: fleq_def split: if_splits)

lemma fl_mono:
  assumes "a \<le> b"
  shows "fleq (fl a) (fl b)"
proof -
  consider "0 \<le> a" | "a < 0" "0 \<le> b" | "b < 0" using assms by linarith
  then show ?thesis
  proof cases
    case 1
    with assms have "round_abs a \<le> round_abs b" by (intro round_abs_mono)
    with 1 assms show ?thesis by (auto simp: fl_def Let_def fleq_def)
  next
    case 2
    then have "0 \<le> round_abs (- a)" "0 \<le> round_abs b" by (simp_all add: round_abs_nonneg)
    with 2 show ?thesis by (auto simp: fl_def Let_def fleq_def)
  next
    case 3
    with assms have "round_abs (- b) \<le> round_abs (- a)" by (intro round_abs_mono) auto
    with 3 assms show ?thesis by (auto simp: fl_def Let_def fleq_def)
  qed
qed

text \<open>Adding a non-negative amount never lowers a float64.\<close>

lemma fadd_increases:
  assumes "fwf x" and "x \<noteq> FNaN" and "fleq fzero y" and "x \<noteq> FInf True"
  shows "fleq x (fadd x y)"
proof (cases x)
  case (FNum a)
  show ?thesis
  proof (cases y)
    case y: (FNum b)
    with assms(3) have "a \<le> a + b" by simp
    from fl_mono [OF this] show ?thesis using FNum y assms(1) fl_wf [of a] by simp
  next
    case (FInf t)
    with assms(3) FNum show ?thesis by (auto simp: fleq_def)
  qed (use assms in simp)
next
  case (FInf s)
  with assms show ?thesis by (cases y) (auto simp: fleq_def)
qed (use assms in simp)

lemma fadd_nonneg: "fleq fzero x \<Longrightarrow> fleq fzero y \<Longrightarrow> fleq fzero (fadd x y)"
proof (cases x; cases y)
  fix a b
  assume "fleq fzero x" "fleq fzero y" "x = FNum a" "y = FNum b"
  then have "fleq (fl 0) (fl (a + b))" by (intro fl_mono) simp
  moreover have "fl 0 = fzero" by (simp add: fl_def not_le)
  ultimately show "fleq fzero (fadd x y)"
    using \<open>x = FNum a\<close> \<open>y = FNum b\<close> by (simp only: fadd.simps)
qed (auto simp: fleq_def)

lemma fwf_fadd [simp]: "fwf (fadd x y)"
  by (cases x; cases y) auto

lemma fwf_fmul [simp]: "fwf (fmul x y)"
  by (cases x; cases y) auto

lemma fwf_fdiv [simp]: "fwf (fdiv x y)"
  by (cases x; cases y) auto

section \<open>Exact and finite values\<close>

lemma fl_small_int:
  assumes "0 \<le> k" and "k < 2 ^ 53"
  shows "fl (of_int k) = FNum (of_int k)"
proof (cases "k = 0")
  case True
  then show ?thesis by (simp add: fl_def not_le)
next
  case False
  have "(of_int k :: rat) < of_int (2 ^ 53)" using assms(2) by (simp only: of_int_less_iff)
  also have "of_int (2 ^ 53) = pow2 (0 + 53)" by (simp only: pow2_nat) simp
  finally have lt: "(of_int k :: rat) < pow2 (0 + 53)" .
  then have "ulp_exp (of_int k) \<le> 0"
    using False assms(1) lt by (intro ulp_exp_le) auto
  then have r: "round_abs (of_int k) = of_int k"
    using False by (intro round_abs_exact [of _ k 0]) simp_all
  have "(of_int k :: rat) < pow2 1024"
    using lt pow2_mono [of "0 + 53" 1024] by linarith
  then have "\<not> pow2 1024 \<le> round_abs \<bar>of_int k\<bar>" using r assms(1) by (simp add: not_le)
  then show ?thesis using r assms(1) by (simp add: fl_def Let_def)
qed

lemma fl_not_NaN [simp]: "fl r \<noteq> FNaN" "FNaN \<noteq> fl r"
  by (auto simp: fl_def Let_def)

lemma fleq_constrs [gofloat]:
  "fleq (FInf s) (FInf t) = (s \<or> \<not> t)" "fleq (FInf s) (FNum b) = s" "fleq (FNum a) (FInf t) = (\<not> t)"
  by (auto simp: fleq_def)

lemma fleq_Inf: "x \<noteq> FNaN \<Longrightarrow> fleq (FInf True) x" "x \<noteq> FNaN \<Longrightarrow> fleq x (FInf False)"
  by (cases x; auto simp: fleq_def)+

text \<open>Short dyadic fractions are represented exactly.\<close>

lemma fl_dyadic:
  assumes "0 < m" and "m < 2 ^ 53" and "- 1074 \<le> e" and "e \<le> 900"
  shows "fl (of_int m * pow2 e) = FNum (of_int m * pow2 e)"
proof -
  let ?v = "of_int m * pow2 e :: rat"
  have pos: "0 < ?v" using assms(1) by simp
  have "(of_int m :: rat) < of_int (2 ^ 53)" using assms(2) by (simp only: of_int_less_iff)
  also have "of_int (2 ^ 53) = pow2 53" by (simp only: pow2_nat) simp
  finally have lt: "?v < pow2 (53 + e)"
    unfolding pow2_add by (intro mult_strict_right_mono) simp_all
  then have "ulp_exp ?v \<le> e"
    using pos assms(3) by (intro ulp_exp_le) (simp_all add: add.commute)
  then have r: "round_abs ?v = ?v" using pos assms(1) by (intro round_abs_exact [OF refl]) simp_all
  have "pow2 (53 + e) \<le> pow2 1024" using assms(4) by (intro pow2_mono) simp
  with lt have "\<not> pow2 1024 \<le> round_abs \<bar>?v\<bar>" using r pos by simp
  then show ?thesis using r pos by (simp add: fl_def Let_def)
qed

lemma fl_finite:
  assumes "0 \<le> r" and "r \<le> pow2 900"
  shows "\<exists>v. fl r = FNum v \<and> 0 \<le> v"
proof -
  have "fl (of_int 1 * pow2 900) = FNum (of_int 1 * pow2 900)" by (rule fl_dyadic) simp_all
  with fl_mono [OF assms(2)] have "fleq (fl r) (FNum (pow2 900))" by simp
  moreover have "fl 0 = FNum 0" using fl_small_int [of 0] by simp
  with fl_mono [OF assms(1)] have "fleq (FNum 0) (fl r)" by simp
  ultimately show ?thesis by (cases "fl r") (auto simp: gofloat)
qed

lemma fdiv_mono: "0 < d \<Longrightarrow> fleq x y \<Longrightarrow> fleq (fdiv x (FNum d)) (fdiv y (FNum d))"
  by (cases x; cases y) (auto simp: gofloat intro!: fl_mono fleq_Inf divide_right_mono)

lemma fmul_mono: "0 \<le> a \<Longrightarrow> p \<le> q \<Longrightarrow> fleq (fmul (FNum a) (FNum p)) (fmul (FNum a) (FNum q))"
  by (auto intro: fl_mono mult_left_mono)

lemma fadd_mono:
  assumes "fleq fzero x" "fleq x x'" "fleq fzero y" "fleq y y'"
  shows "fleq (fadd x y) (fadd x' y')"
proof -
  have nn: "fadd x y \<noteq> FNaN" using assms by (cases x; cases y) (auto simp: gofloat)
  show ?thesis
  proof (cases "x' = FInf False \<or> y' = FInf False")
    case True
    then have "fadd x' y' = FInf False"
      using assms by (cases x'; cases y'; cases x; cases y) (auto simp: gofloat)
    with fleq_Inf(2) nn show ?thesis by simp
  next
    case False
    then obtain a b c d where "x = FNum a" "x' = FNum b" "y = FNum c" "y' = FNum d"
      using assms by (cases x; cases x'; cases y; cases y') (auto simp: gofloat)
    with assms show ?thesis by (auto intro: fl_mono)
  qed
qed

text \<open>Rounding by the interval and the nearest integer, for the values a proof computes.\<close>

lemma rhe_nearest:
  assumes "\<bar>x - of_int k\<bar> < 1 / 2 \<or> \<bar>x - of_int k\<bar> = 1 / 2 \<and> even k"
  shows "rhe x = k"
proof (cases "\<bar>x - of_int k\<bar> < 1 / 2")
  case True
  then have "(of_int (rhe x) :: rat) < of_int k + 1" "(of_int k :: rat) < of_int (rhe x) + 1"
    using rhe_bounds [of x] by linarith+
  then have "(of_int (rhe x) :: rat) < of_int (k + 1)" "(of_int k :: rat) < of_int (rhe x + 1)" by simp_all
  then have "rhe x < k + 1" "k < rhe x + 1" by (simp_all only: of_int_less_iff)
  then show ?thesis by linarith
next
  case False
  with assms have d: "\<bar>x - of_int k\<bar> = 1 / 2" and k: "even k" by auto
  from d have x: "x = of_int k + 1 / 2 \<or> x = of_int (k - 1) + 1 / 2" unfolding of_int_diff of_int_1 by linarith
  have f: "\<lfloor>of_int j + 1 / 2 :: rat\<rfloor> = j" for j :: int by linarith
  from x show ?thesis
  proof
    assume "x = of_int k + 1 / 2"
    then show ?thesis using k f [of k] by (simp add: rhe_def)
  next
    assume "x = of_int (k - 1) + 1 / 2"
    then show ?thesis using k f [of "k - 1"] by (simp add: rhe_def del: of_int_diff)
  qed
qed

lemma ilog2_unique:
  assumes "pow2 e \<le> r" "r < pow2 (e + 1)"
  shows "ilog2 r = e"
proof -
  have r: "0 < r" using assms(1) pow2_pos [of e] by linarith
  have "pow2 (ilog2 r) < pow2 (e + 1)" "pow2 e < pow2 (ilog2 r + 1)"
    using ilog2_bounds [OF r] assms by linarith+
  then show ?thesis by (simp add: pow2_less)
qed

lemma fl_eval:
  assumes "pow2 (e + 52) \<le> r" "r < pow2 (e + 53)" "- 1074 \<le> e" "e \<le> 900" 
    "\<bar>r / pow2 e - of_int k\<bar> < 1 / 2 \<or> \<bar>r / pow2 e - of_int k\<bar> = 1 / 2 \<and> even k"
  shows "fl r = FNum (of_int k * pow2 e)"
proof -
  have r: "0 < r" using assms(1) pow2_pos [of "e + 52"] by linarith
  have u: "ulp_exp r = e"
    using ilog2_unique [OF assms(1)] assms(2,3) by (simp add: ulp_exp_def add.assoc)
  have k: "rhe (r / pow2 e) = k" by (rule rhe_nearest [OF assms(5)])
  have v: "round_abs r = of_int k * pow2 e" using r by (simp add: round_abs_def u k)
  have "k \<le> 2 ^ 53" using rhe_scaled_le [OF r] by (simp add: u k)
  then have "(of_int k :: rat) \<le> of_int (2 ^ 53)" by (simp only: of_int_le_iff)
  then have "of_int k * pow2 e \<le> pow2 53 * pow2 e" by (intro mult_right_mono less_imp_le [OF pow2_pos]) (simp add: pow2_nat)
  also have "\<dots> = pow2 (53 + e)" by (simp only: pow2_add)
  also have "\<dots> < pow2 1024" using assms(4) by (simp add: pow2_less)
  finally show ?thesis using r by (simp add: fl_def v Let_def not_le [symmetric])
qed

end
