(* ===== verification/Escalation.thy ===== *)
theory Escalation
  imports Prelude
begin

text \<open>
  \<open>internal/attractor/escalation.go\<close>: the two model tiers and the switch between them. The
  array access \<open>models[currentTier-1]\<close> is an option, \<open>None\<close> for the panic of an index out of
  range; the invariant shows that it never happens.
\<close>

definition tierFrugal :: int where "tierFrugal = 1"
definition tierPrimary :: int where "tierPrimary = 2"

definition tier_string :: "int \<Rightarrow> gostring" where
  "tier_string t =
     (if t = tierFrugal then ''frugal'' else if t = tierPrimary then ''primary'' else ''unknown'')"

definition escalateAfterFailures :: int where "escalateAfterFailures = 2"
definition downgradeAfterImprovements :: int where "downgradeAfterImprovements = 5"

record escalationState =
  currentTier :: int
  consecutiveFailures :: int
  consecutiveImprove :: int
  models :: "gostring list"

definition newEscalationState :: "gostring \<Rightarrow> gostring \<Rightarrow> escalationState option" where
  "newEscalationState frugalModel primaryModel =
     (if frugalModel = [] then None
      else Some \<lparr>currentTier = tierFrugal, consecutiveFailures = 0, consecutiveImprove = 0,
                 models = [frugalModel, primaryModel]\<rparr>)"

definition esc_currentModel :: "escalationState \<Rightarrow> gostring option" where
  "esc_currentModel e =
     (let i = currentTier e - 1 in
      if 0 \<le> i \<and> i < int (length (models e)) then Some (models e ! nat i) else None)"

definition recordOutcome :: "bool \<Rightarrow> escalationState \<Rightarrow> escalationState" where
  "recordOutcome improved e =
     (if improved then
        let e1 = e\<lparr>consecutiveImprove := consecutiveImprove e + 1, consecutiveFailures := 0\<rparr> in
        if downgradeAfterImprovements \<le> consecutiveImprove e1 \<and> tierFrugal < currentTier e1
        then e1\<lparr>currentTier := tierFrugal, consecutiveImprove := 0\<rparr>
        else e1
      else
        let e1 = e\<lparr>consecutiveFailures := consecutiveFailures e + 1, consecutiveImprove := 0\<rparr> in
        if escalateAfterFailures \<le> consecutiveFailures e1 \<and> currentTier e1 < tierPrimary
        then e1\<lparr>currentTier := tierPrimary, consecutiveFailures := 0\<rparr>
        else e1)"

lemmas esc_consts = tierFrugal_def tierPrimary_def escalateAfterFailures_def
  downgradeAfterImprovements_def

section \<open>Reachable states and their invariant\<close>

inductive esc_reachable :: "gostring \<Rightarrow> gostring \<Rightarrow> escalationState \<Rightarrow> bool"
  for fm :: gostring and pm :: gostring where
  start: "newEscalationState fm pm = Some e \<Longrightarrow> esc_reachable fm pm e"
| step: "esc_reachable fm pm e \<Longrightarrow> esc_reachable fm pm (recordOutcome b e)"

definition esc_inv :: "gostring \<Rightarrow> gostring \<Rightarrow> escalationState \<Rightarrow> bool" where
  "esc_inv fm pm e \<longleftrightarrow>
     (currentTier e = tierFrugal \<or> currentTier e = tierPrimary) \<and> models e = [fm, pm] \<and>
     0 \<le> consecutiveFailures e \<and> 0 \<le> consecutiveImprove e \<and>
     (consecutiveFailures e = 0 \<or> consecutiveImprove e = 0) \<and>
     (currentTier e = tierFrugal \<longrightarrow> consecutiveFailures e < escalateAfterFailures) \<and>
     (currentTier e = tierPrimary \<longrightarrow> consecutiveImprove e < downgradeAfterImprovements)"

lemma esc_inv_new: "newEscalationState fm pm = Some e \<Longrightarrow> esc_inv fm pm e"
  by (auto simp: newEscalationState_def esc_inv_def esc_consts split: if_splits)

lemma esc_inv_step: "esc_inv fm pm e \<Longrightarrow> esc_inv fm pm (recordOutcome b e)"
  by (auto simp: recordOutcome_def esc_inv_def esc_consts Let_def)

lemma esc_reachable_inv: "esc_reachable fm pm e \<Longrightarrow> esc_inv fm pm e"
  by (induction rule: esc_reachable.induct) (auto intro: esc_inv_new esc_inv_step)

text \<open>C10. In every reachable escalation state the tier is frugal or primary, the lookup of the
  tier's model never indexes out of range and gives the frugal or the primary model
  accordingly, a frugal state has fewer than 2 pending failures and a primary state fewer
  than 5 pending improvements, and at most one of the two counters is non-zero.\<close>

theorem escalation_invariant:
  assumes "esc_reachable fm pm e"
  shows "esc_inv fm pm e \<and>
    esc_currentModel e = Some (if currentTier e = tierFrugal then fm else pm)"
  using esc_reachable_inv [OF assms]
  by (auto simp: esc_inv_def esc_currentModel_def esc_consts)

theorem escalation_invariant_witness:
  "esc_currentModel (recordOutcome False (recordOutcome False
     \<lparr>currentTier = 1, consecutiveFailures = 0, consecutiveImprove = 0,
      models = [''haiku'', ''opus'']\<rparr>)) = Some ''opus''"
proof -
  let ?e = "\<lparr>currentTier = 1, consecutiveFailures = 0, consecutiveImprove = 0,
      models = [''haiku'', ''opus'']\<rparr>"
  have "esc_reachable ''haiku'' ''opus'' (recordOutcome False (recordOutcome False ?e))"
    by (intro esc_reachable.intros) (simp add: newEscalationState_def tierFrugal_def)
  from escalation_invariant [OF this] show ?thesis
    by (simp add: recordOutcome_def esc_consts)
qed

section \<open>Refinement of the policy the documentation states\<close>

text \<open>
  The policy over the sequence of outcomes (newest first): the length of the run of equal
  outcomes at its head, and the tier it leads to.
\<close>

definition run_of :: "bool \<Rightarrow> bool list \<Rightarrow> nat" where
  "run_of b os = length (takeWhile (\<lambda>x. x = b) os)"

fun policy_primary :: "bool list \<Rightarrow> bool" where
  "policy_primary [] = False"
| "policy_primary (b # os) =
     (if policy_primary os then run_of True (b # os) < 5 else 2 \<le> run_of False (b # os))"

definition esc_run :: "escalationState \<Rightarrow> bool list \<Rightarrow> escalationState" where
  "esc_run e os = foldr recordOutcome os e"

lemma esc_run_simps [simp]:
  "esc_run e [] = e" "esc_run e (b # os) = recordOutcome b (esc_run e os)"
  by (simp_all add: esc_run_def)

lemma run_of_Cons [simp]: "run_of b (c # os) = (if c = b then Suc (run_of b os) else 0)"
  by (simp add: run_of_def)

lemma run_of_Nil [simp]: "run_of b [] = 0"
  by (simp add: run_of_def)

lemma esc_refine:
  assumes "newEscalationState fm pm = Some e0"
  shows "let e = esc_run e0 os in
     currentTier e = (if policy_primary os then tierPrimary else tierFrugal) \<and>
     (policy_primary os \<longrightarrow> consecutiveImprove e = int (run_of True os)) \<and>
     (\<not> policy_primary os \<longrightarrow> consecutiveFailures e = int (run_of False os))"
proof (induction os)
  case Nil
  with assms show ?case
    by (auto simp: newEscalationState_def split: if_splits)
next
  case (Cons b os)
  then show ?case
    by (cases "policy_primary os"; cases b)
      (auto simp: Let_def recordOutcome_def esc_consts)
qed

text \<open>C11. The counters implement the documented policy on the sequence of outcomes: from a fresh
  state, after any outcomes, the tier is primary exactly when the policy says so, that is, a
  frugal run is escalated by its second consecutive non-improving iteration and a primary run
  goes back to frugal at its fifth consecutive improvement.\<close>

theorem escalation_refines_policy:
  assumes "newEscalationState fm pm = Some e0"
  shows "currentTier (esc_run e0 os) = (if policy_primary os then tierPrimary else tierFrugal)"
  using esc_refine [OF assms, of os] by (simp add: Let_def)

theorem escalation_refines_policy_witness:
  "currentTier (esc_run \<lparr>currentTier = 1, consecutiveFailures = 0, consecutiveImprove = 0,
      models = [''haiku'', ''opus'']\<rparr> [True, True, True, True, True, False, False]) = tierFrugal"
proof -
  have "newEscalationState ''haiku'' ''opus'' = Some \<lparr>currentTier = 1, consecutiveFailures = 0,
      consecutiveImprove = 0, models = [''haiku'', ''opus'']\<rparr>"
    by (simp add: newEscalationState_def tierFrugal_def)
  from escalation_refines_policy [OF this, of "[True, True, True, True, True, False, False]"]
  show ?thesis by simp
qed

end
