(* ===== verification/Oscillation.thy ===== *)
theory Oscillation
  imports Go_Strings
begin

text \<open>
  \<open>internal/attractor/oscillation.go\<close>: the hash of a generated file set and the A-B-A-B test on
  the last four hashes. SHA-256 (with the hexadecimal print of its digest) is the parameter
  \<open>sha\<close>: the theorems hold for every hash function, and state where the code relies on more.
\<close>

type_synonym files = "gostring gomap"

definition file_content :: "files \<Rightarrow> gostring \<Rightarrow> gostring" where
  "file_content files p = (case gm_get files p of Some c \<Rightarrow> c | None \<Rightarrow> [])"

definition hash_entry :: "gostring \<Rightarrow> gostring \<Rightarrow> gostring" where
  "hash_entry p c = p @ [CHR 0x00] @ c @ [CHR 0x01]"

definition hash_encode :: "files \<Rightarrow> gostring" where
  "hash_encode files = concat (map (\<lambda>p. hash_entry p (file_content files p)) (gm_sorted_keys files))"

definition hashFiles :: "(gostring \<Rightarrow> gostring) \<Rightarrow> files \<Rightarrow> gostring" where
  "hashFiles sha files = sha (hash_encode files)"

definition detectOscillation :: "gostring list \<Rightarrow> bool" where
  "detectOscillation hashes =
     (let n = length hashes in
      if n < 4 then False
      else hashes ! (n - 1) = hashes ! (n - 3) \<and> hashes ! (n - 2) = hashes ! (n - 4))"

lemma length_4: "length xs = 4 \<Longrightarrow> \<exists>a b c d. xs = [a, b, c, d]"
  by (auto simp: numeral_eq_Suc length_Suc_conv)

text \<open>The oscillation test accepts exactly the hash histories that end in A, B, A, B.\<close>

theorem detectOscillation_iff:
  "detectOscillation hs \<longleftrightarrow> (\<exists>pre a b. hs = pre @ [a, b, a, b])"
proof (cases "length hs < 4")
  case False
  define pre where "pre = take (length hs - 4) hs"
  have "length (drop (length hs - 4) hs) = 4" using False by simp
  then obtain a b c d where "drop (length hs - 4) hs = [a, b, c, d]"
    using length_4 by blast
  then have hs: "hs = pre @ [a, b, c, d]"
    unfolding pre_def by (metis append_take_drop_id)
  then have "detectOscillation hs \<longleftrightarrow> a = c \<and> b = d"
    by (auto simp: detectOscillation_def Let_def nth_append numeral_eq_Suc)
  then show ?thesis unfolding hs by auto
qed (auto simp: detectOscillation_def)

text \<open>The hash depends only on the contents of the file map, not on the order in which its
  entries are stored or visited.\<close>

theorem hashFiles_order_independent:
  assumes "\<And>p. gm_get m p = gm_get m' p"
  shows "hashFiles sha m = hashFiles sha m'"
proof -
  have "gm_sorted_keys m = gm_sorted_keys m'"
    by (rule gm_sorted_keys_cong) (simp add: assms)
  moreover have "file_content m = file_content m'"
    by (rule ext) (simp add: file_content_def assms)
  ultimately show ?thesis by (simp add: hashFiles_def hash_encode_def)
qed

theorem hashFiles_order_independent_witness:
  "hashFiles id [(''a'', ''x''), (''b'', ''y'')] = hashFiles id [(''b'', ''y''), (''a'', ''x'')]"
  by (rule hashFiles_order_independent) (simp add: gm_get_def)

section \<open>When the encoding tells file sets apart\<close>

definition sep_free :: "gostring \<Rightarrow> bool" where
  "sep_free s \<longleftrightarrow> CHR 0x00 \<notin> set s \<and> CHR 0x01 \<notin> set s"

definition sep_free_files :: "files \<Rightarrow> bool" where
  "sep_free_files m \<longleftrightarrow> list_all (\<lambda>(p, c). sep_free p \<and> sep_free c) m"

lemma split_first:
  assumes "xs @ c # ys = xs' @ c # ys'" and "c \<notin> set xs" and "c \<notin> set xs'"
  shows "xs = xs' \<and> ys = ys'"
  using assms
proof (induction xs arbitrary: xs')
  case Nil
  then show ?case by (cases xs') auto
next
  case (Cons x xs)
  then show ?case by (cases xs') auto
qed

lemma encode_inj:
  assumes "concat (map (\<lambda>p. hash_entry p (f p)) ps) = concat (map (\<lambda>p. hash_entry p (g p)) qs)"
    and "\<forall>p \<in> set ps. sep_free p \<and> sep_free (f p)" and "\<forall>q \<in> set qs. sep_free q \<and> sep_free (g q)"
  shows "ps = qs \<and> (\<forall>p \<in> set ps. f p = g p)"
  using assms
proof (induction ps arbitrary: qs)
  case Nil
  then show ?case by (cases qs) (auto simp: hash_entry_def)
next
  case (Cons p ps)
  then obtain q qs' where qs: "qs = q # qs'"
    by (cases qs) (auto simp: hash_entry_def)
  have one: "p @ CHR 0x00 # (f p @ CHR 0x01 # concat (map (\<lambda>p. hash_entry p (f p)) ps)) =
    q @ CHR 0x00 # (g q @ CHR 0x01 # concat (map (\<lambda>p. hash_entry p (g p)) qs'))"
    using Cons.prems(1) qs by (simp add: hash_entry_def)
  then have pq: "p = q" and rest: "f p @ CHR 0x01 # concat (map (\<lambda>p. hash_entry p (f p)) ps) =
    g q @ CHR 0x01 # concat (map (\<lambda>p. hash_entry p (g p)) qs')"
    using split_first [OF one] Cons.prems(2,3) qs by (auto simp: sep_free_def)
  from split_first [OF rest] have "f p = g q"
    "concat (map (\<lambda>p. hash_entry p (f p)) ps) = concat (map (\<lambda>p. hash_entry p (g p)) qs')"
    using Cons.prems(2,3) qs by (auto simp: sep_free_def)
  with Cons.IH [of qs'] Cons.prems(2,3) qs pq show ?case by auto
qed

lemma sep_free_content:
  "sep_free_files m \<Longrightarrow> p \<in> set (gm_keys m) \<Longrightarrow> sep_free p \<and> sep_free (file_content m p)"
  by (fastforce simp: gm_keys_iff file_content_def gm_get_def sep_free_files_def list_all_iff
      dest: map_of_SomeD)

text \<open>With a collision-free hash, two file sets whose paths and contents hold no byte 0 or 1
  have the same hash only if they are the same files: no confusion of paths and contents.\<close>

theorem hashFiles_injective:
  assumes "inj sha" and "sep_free_files m" and "sep_free_files m'"
    and "hashFiles sha m = hashFiles sha m'"
  shows "gm_get m p = gm_get m' p"
proof -
  from assms(1,4) have enc: "hash_encode m = hash_encode m'"
    by (auto simp: hashFiles_def dest: injD)
  from enc have keys: "gm_sorted_keys m = gm_sorted_keys m' \<and>
    (\<forall>p \<in> set (gm_sorted_keys m). file_content m p = file_content m' p)"
    unfolding hash_encode_def
    using sep_free_content [OF assms(2)] sep_free_content [OF assms(3)]
    by (intro encode_inj) auto
  have dom: "p \<in> set (gm_keys m) \<longleftrightarrow> p \<in> set (gm_keys m')"
    using keys gm_sorted_keys_set [of m] gm_sorted_keys_set [of m'] by simp
  have con: "p \<in> set (gm_keys m) \<Longrightarrow> file_content m p = file_content m' p"
    using keys gm_sorted_keys_set [of m] by simp
  show ?thesis
    using dom con
    by (cases "gm_get m p"; cases "gm_get m' p") (simp_all add: gm_keys_iff file_content_def)
qed

theorem hashFiles_injective_witness:
  "inj (id :: gostring \<Rightarrow> gostring) \<and> hashFiles id [(''a'', ''x'')] = hashFiles id [(''a'', ''x'')] \<and>
   gm_get [(''a'', ''x'')] ''a'' = gm_get [(''a'', ''x'')] ''a''"
proof -
  have s: "sep_free_files [(''a'', ''x'')]" by (simp add: sep_free_files_def sep_free_def)
  show ?thesis
    using hashFiles_injective [OF inj_on_id s s refl, of "''a''"] by simp
qed

text \<open>Without that condition the separators do not prevent confusion: a single file whose
  content holds the bytes 1 and 0 has, under every hash function, the hash of two files.\<close>

theorem hashFiles_confusion:
  "hashFiles sha [(''a'', ''x'' @ [CHR 0x01] @ ''b'' @ [CHR 0x00] @ ''y'')] =
   hashFiles sha [(''a'', ''x''), (''b'', ''y'')]"
proof -
  have "hash_encode [(''a'', ''x'' @ [CHR 0x01] @ ''b'' @ [CHR 0x00] @ ''y'')] =
    hash_encode [(''a'', ''x''), (''b'', ''y'')]"
    by (simp add: hash_encode_def hash_entry_def gm_sorted_keys_def gm_keys_def file_content_def
        gm_get_def less_eq_char_def)
  then show ?thesis by (simp add: hashFiles_def)
qed

end
