(* ===== verification/Toposort.thy ===== *)
theory Toposort
  imports Prelude
begin

text \<open>
  \<open>internal/attractor/toposort.go\<close>: Kahn's algorithm over the gene components, with the maps
  \<open>byName\<close>, \<open>inDegree\<close> and \<open>dependents\<close> and the queue of the code. The lemmas carry the loop
  invariant; the properties say that a result is a dependency-first order of all components
  and that the cycle error is returned exactly when there is no such order.
\<close>

record component =
  c_Name :: gostring
  c_Interface :: gostring
  c_Patterns :: gostring
  c_DependsOn :: "gostring list"

definition zero_component :: component where
  "zero_component = \<lparr>c_Name = [], c_Interface = [], c_Patterns = [], c_DependsOn = []\<rparr>"

datatype topo_error = UnknownDependency gostring gostring | TopoSortCycle

text \<open>Go's zero value for a missing key.\<close>

definition deg :: "int gomap \<Rightarrow> gostring \<Rightarrow> int" where
  "deg m k = (case gm_get m k of None \<Rightarrow> 0 | Some v \<Rightarrow> v)"

definition adj :: "gostring list gomap \<Rightarrow> gostring \<Rightarrow> gostring list" where
  "adj m k = (case gm_get m k of None \<Rightarrow> [] | Some v \<Rightarrow> v)"

fun count_deps :: "gostring \<Rightarrow> gostring list \<Rightarrow> component gomap \<Rightarrow> int gomap \<Rightarrow> topo_error + int gomap" where
  "count_deps n [] byName indeg = Inr indeg"
| "count_deps n (dep # ds) byName indeg =
     (if gm_get byName dep = None then Inl (UnknownDependency n dep)
      else count_deps n ds byName (gm_put n (deg indeg n + 1) indeg))"

fun count_all :: "component list \<Rightarrow> component gomap \<Rightarrow> int gomap \<Rightarrow> topo_error + int gomap" where
  "count_all [] byName indeg = Inr indeg"
| "count_all (c # cs) byName indeg =
     (case count_deps (c_Name c) (c_DependsOn c) byName indeg of
        Inl e \<Rightarrow> Inl e
      | Inr indeg' \<Rightarrow> count_all cs byName indeg')"

definition name_map :: "component list \<Rightarrow> component gomap" where
  "name_map components = fold (\<lambda>c m. gm_put (c_Name c) c m) components []"

definition buildTopoGraph :: "component list \<Rightarrow> topo_error + (component gomap \<times> int gomap)" where
  "buildTopoGraph components =
     (let byName = name_map components;
          indeg0 = fold (\<lambda>c m. gm_put (c_Name c) 0 m) components []
      in case count_all components byName indeg0 of
           Inl e \<Rightarrow> Inl e
         | Inr indeg \<Rightarrow> Inr (byName, indeg))"

definition dependents_of :: "component list \<Rightarrow> gostring list gomap" where
  "dependents_of components =
     fold (\<lambda>c m. fold (\<lambda>dep m. gm_put dep (adj m dep @ [c_Name c]) m) (c_DependsOn c) m) components []"

fun relax :: "gostring list \<Rightarrow> int gomap \<Rightarrow> gostring list \<Rightarrow> int gomap \<times> gostring list" where
  "relax [] indeg queue = (indeg, queue)"
| "relax (d # ds) indeg queue =
     (let indeg' = gm_put d (deg indeg d - 1) indeg in
      if deg indeg' d = 0 then relax ds indeg' (queue @ [d]) else relax ds indeg' queue)"

lemma deg_put [simp]: "deg (gm_put k v m) k' = (if k' = k then v else deg m k')"
  by (simp add: deg_def)

lemma finite_pos: "finite {k. 0 < deg m k}"
proof -
  have "{k. 0 < deg m k} \<subseteq> dom (map_of m)"
    by (auto simp: deg_def gm_get_def split: option.splits)
  then show ?thesis by (rule finite_subset) (simp add: finite_dom_map_of)
qed

text \<open>Each entry of the queue is paid for: by a degree that dropped to zero.\<close>

lemma relax_measure:
  "length (snd (relax ds indeg q)) + card {k. 0 < deg (fst (relax ds indeg q)) k} \<le>
   length q + card {k. 0 < deg indeg k}"
proof (induction ds indeg q rule: relax.induct)
  case (1 indeg q)
  then show ?case by simp
next
  case (2 d ds indeg q)
  let ?i = "gm_put d (deg indeg d - 1) indeg"
  show ?case
  proof (cases "deg indeg d = 1")
    case True
    then have "{k. 0 < deg ?i k} = {k. 0 < deg indeg k} - {d}" by auto
    then have "card {k. 0 < deg indeg k} = Suc (card {k. 0 < deg ?i k})"
      using True card_Suc_Diff1 [OF finite_pos, of d indeg] by simp
    with 2(1) [OF refl] True show ?thesis by (simp add: Let_def)
  next
    case False
    then have "{k. 0 < deg ?i k} = {k. 0 < deg indeg k}" by auto
    with 2(2) [OF refl] False show ?thesis by (simp add: Let_def)
  qed
qed

function kahn_loop :: "gostring list gomap \<Rightarrow> component gomap \<Rightarrow> gostring list \<Rightarrow> int gomap \<Rightarrow>
    component list \<Rightarrow> component list" where
  "kahn_loop dependents byName [] indeg acc = acc"
| "kahn_loop dependents byName (name # queue) indeg acc =
     (let acc' = acc @ [case gm_get byName name of None \<Rightarrow> zero_component | Some c \<Rightarrow> c];
          r = relax (adj dependents name) indeg queue
      in kahn_loop dependents byName (snd r) (fst r) acc')"
  by pat_completeness auto
termination
proof (relation "measure (\<lambda>(dependents, byName, q, indeg, acc). length q + card {k. 0 < deg indeg k})",
    goal_cases)
  case (2 dependents byName name queue indeg acc acc' r)
  then show ?case using relax_measure [of "adj dependents name" indeg queue] by simp
qed simp

definition kahnSort :: "component list \<Rightarrow> component gomap \<Rightarrow> int gomap \<Rightarrow> topo_error + component list" where
  "kahnSort components byName indeg =
     (let dependents = dependents_of components;
          queue = map c_Name (filter (\<lambda>c. deg indeg (c_Name c) = 0) components);
          sorted = kahn_loop dependents byName queue indeg []
      in if length sorted \<noteq> length components then Inl TopoSortCycle else Inr sorted)"

definition topoSort :: "component list \<Rightarrow> topo_error + component list" where
  "topoSort components =
     (case buildTopoGraph components of
        Inl e \<Rightarrow> Inl e
      | Inr (byName, indeg) \<Rightarrow> kahnSort components byName indeg)"

section \<open>What the maps hold\<close>

text \<open>The dependencies declared for a name, over all components of that name.\<close>

definition deps_of :: "component list \<Rightarrow> gostring \<Rightarrow> gostring list" where
  "deps_of cs n = concat (map c_DependsOn (filter (\<lambda>c. c_Name c = n) cs))"

definition names_of :: "component list \<Rightarrow> gostring set" where
  "names_of cs = c_Name ` set cs"

definition deps_known :: "component list \<Rightarrow> bool" where
  "deps_known cs \<longleftrightarrow> (\<forall>c \<in> set cs. \<forall>d \<in> set (c_DependsOn c). d \<in> names_of cs)"

lemma get_name_map: "gm_get (fold (\<lambda>c m. gm_put (c_Name c) c m) cs m) n =
    (case find (\<lambda>c. c_Name c = n) (rev cs) of Some c \<Rightarrow> Some c | None \<Rightarrow> gm_get m n)"
proof (induction cs arbitrary: m)
  case (Cons c cs)
  then show ?case by (auto simp: find_append split: option.splits)
qed simp

lemma name_map_None: "gm_get (name_map cs) n = None \<longleftrightarrow> n \<notin> names_of cs"
proof -
  have "find (\<lambda>c. c_Name c = n) (rev cs) = None \<longleftrightarrow> n \<notin> names_of cs"
    by (auto simp: find_None_iff names_of_def)
  then show ?thesis
    by (cases "find (\<lambda>c. c_Name c = n) (rev cs)") (simp_all add: name_map_def get_name_map)
qed

lemma name_map_distinct:
  assumes "distinct (map c_Name cs)" and "c \<in> set cs"
  shows "gm_get (name_map cs) (c_Name c) = Some c"
proof -
  obtain c' where c': "find (\<lambda>x. c_Name x = c_Name c) (rev cs) = Some c'"
    using assms(2) by (cases "find (\<lambda>x. c_Name x = c_Name c) (rev cs)") (auto simp: find_None_iff)
  then have "c' \<in> set cs" "c_Name c' = c_Name c"
    using find_SomeD [OF c'] by auto
  with assms have "c' = c" by (auto simp: distinct_map dest: inj_onD)
  with c' show ?thesis by (simp add: name_map_def get_name_map)
qed

lemma count_deps_Inr:
  "\<forall>d \<in> set ds. gm_get byName d \<noteq> None \<Longrightarrow>
   \<exists>g. count_deps n ds byName indeg = Inr g \<and>
     (\<forall>k. deg g k = deg indeg k + (if k = n then int (length ds) else 0))"
  by (induction n ds byName indeg rule: count_deps.induct) auto

lemma count_deps_Inl:
  "(\<exists>e. count_deps n ds byName indeg = Inl e) \<longleftrightarrow> (\<exists>d \<in> set ds. gm_get byName d = None)"
  by (induction n ds byName indeg rule: count_deps.induct) auto

lemma count_all_Inr:
  "\<forall>c \<in> set cs. \<forall>d \<in> set (c_DependsOn c). gm_get byName d \<noteq> None \<Longrightarrow>
   \<exists>g. count_all cs byName indeg = Inr g \<and>
     (\<forall>k. deg g k = deg indeg k + int (length (deps_of cs k)))"
proof (induction cs byName indeg rule: count_all.induct)
  case (2 c cs byName indeg)
  then obtain g where g: "count_deps (c_Name c) (c_DependsOn c) byName indeg = Inr g"
    "\<forall>k. deg g k = deg indeg k + (if k = c_Name c then int (length (c_DependsOn c)) else 0)"
    using count_deps_Inr [of "c_DependsOn c" byName "c_Name c" indeg] by auto
  with 2 show ?case by (auto simp: deps_of_def)
qed (simp add: deps_of_def)

lemma count_all_Inl:
  "(\<exists>e. count_all cs byName indeg = Inl e) \<longleftrightarrow>
   (\<exists>c \<in> set cs. \<exists>d \<in> set (c_DependsOn c). gm_get byName d = None)"
proof (induction cs byName indeg rule: count_all.induct)
  case (2 c cs byName indeg)
  then show ?case
    using count_deps_Inl [of "c_Name c" "c_DependsOn c" byName indeg]
    by (cases "count_deps (c_Name c) (c_DependsOn c) byName indeg") auto
qed simp

lemma deg_zeros: "\<forall>k. deg m k = 0 \<Longrightarrow> deg (fold (\<lambda>c m. gm_put (c_Name c) 0 m) cs m) k = 0"
  by (induction cs arbitrary: m) auto

lemma adj_put [simp]: "adj (gm_put k v m) k' = (if k' = k then v else adj m k')"
  by (simp add: adj_def)

lemma count_dependents_inner:
  "count_list (adj (fold (\<lambda>dep m. gm_put dep (adj m dep @ [n]) m) ds m) d) k =
   count_list (adj m d) k + (if k = n then count_list ds d else 0)"
  by (induction ds arbitrary: m) auto

text \<open>How often \<open>n\<close> is listed under \<open>d\<close> is how often it declares \<open>d\<close>.\<close>

lemma count_dependents: "count_list (adj (dependents_of cs) d) n = count_list (deps_of cs n) d"
proof -
  have "count_list (adj (fold (\<lambda>c m. fold (\<lambda>dep m. gm_put dep (adj m dep @ [c_Name c]) m)
      (c_DependsOn c) m) cs m) d) n = count_list (adj m d) n + count_list (deps_of cs n) d" for m
    by (induction cs arbitrary: m) (auto simp: deps_of_def count_dependents_inner)
  from this [of "[]"] show ?thesis by (simp add: dependents_of_def adj_def)
qed

section \<open>One relaxation\<close>

text \<open>Names whose degree drops from positive to zero are appended to the queue, once each.\<close>

lemma relax_spec:
  "\<exists>pushed. snd (relax ds g q) = q @ pushed \<and> distinct pushed \<and>
     set pushed = {n \<in> set ds. 0 < deg g n \<and> deg g n \<le> int (count_list ds n)} \<and>
     (\<forall>n. deg (fst (relax ds g q)) n = deg g n - int (count_list ds n))"
proof (induction ds g q rule: relax.induct)
  case (1 g q)
  then show ?case by (auto intro: exI [of _ "[]"])
next
  case (2 d ds g q)
  let ?g = "gm_put d (deg g d - 1) g"
  have mem: "n \<in> set ds \<longleftrightarrow> 0 < count_list ds n" for n
    using count_list_0_iff [of ds n] by auto
  show ?case
  proof (cases "deg g d = 1")
    case True
    from 2(1) [OF refl] True obtain pushed where p:
      "snd (relax ds ?g (q @ [d])) = (q @ [d]) @ pushed" "distinct pushed"
      "set pushed = {n \<in> set ds. 0 < deg ?g n \<and> deg ?g n \<le> int (count_list ds n)}"
      "\<forall>n. deg (fst (relax ds ?g (q @ [d]))) n = deg ?g n - int (count_list ds n)"
      by auto
    with True show ?thesis
      by (intro exI [of _ "d # pushed"]) (auto simp: Let_def)
  next
    case False
    from 2(2) [OF refl] False obtain pushed where p:
      "snd (relax ds ?g q) = q @ pushed" "distinct pushed"
      "set pushed = {n \<in> set ds. 0 < deg ?g n \<and> deg ?g n \<le> int (count_list ds n)}"
      "\<forall>n. deg (fst (relax ds ?g q)) n = deg ?g n - int (count_list ds n)"
      by auto
    have "n \<in> set pushed \<longleftrightarrow>
        n \<in> set (d # ds) \<and> 0 < deg g n \<and> deg g n \<le> int (count_list (d # ds) n)" for n
    proof (cases "n = d")
      case True
      with False p(3) mem [of d] show ?thesis by simp linarith
    next
      case neq: False
      with p(3) show ?thesis by simp
    qed
    then have "set pushed = {n \<in> set (d # ds). 0 < deg g n \<and> deg g n \<le> int (count_list (d # ds) n)}"
      by blast
    moreover have "deg (fst (relax (d # ds) g q)) n = deg g n - int (count_list (d # ds) n)" for n
      using p(4) False by (simp add: Let_def)
    ultimately show ?thesis
      using p(1,2) False by (intro exI [of _ pushed]) (simp add: Let_def)
  qed
qed

section \<open>The loop invariant\<close>

text \<open>A list of names in which every name comes after the names it depends on.\<close>

definition dep_ordered :: "component list \<Rightarrow> gostring list \<Rightarrow> bool" where
  "dep_ordered cs P \<longleftrightarrow> (\<forall>i < length P. set (deps_of cs (P ! i)) \<subseteq> set (take i P))"

definition open_deps :: "component list \<Rightarrow> gostring set \<Rightarrow> gostring \<Rightarrow> nat" where
  "open_deps cs P n = length (filter (\<lambda>d. d \<notin> P) (deps_of cs n))"

definition kahn_inv :: "component list \<Rightarrow> gostring list \<Rightarrow> gostring list \<Rightarrow> int gomap \<Rightarrow> bool" where
  "kahn_inv cs P Q g \<longleftrightarrow>
     distinct (P @ Q) \<and> set (P @ Q) \<subseteq> names_of cs \<and>
     (\<forall>n. deg g n = int (open_deps cs (set P) n)) \<and>
     (\<forall>n \<in> names_of cs. deg g n = 0 \<longleftrightarrow> n \<in> set (P @ Q)) \<and>
     dep_ordered cs P"

lemma dep_ordered_snoc:
  "dep_ordered cs P \<Longrightarrow> set (deps_of cs n) \<subseteq> set P \<Longrightarrow> dep_ordered cs (P @ [n])"
  by (auto simp: dep_ordered_def nth_append less_Suc_eq)

lemma open_deps_0: "open_deps cs P n = 0 \<longleftrightarrow> set (deps_of cs n) \<subseteq> P"
  by (auto simp: open_deps_def filter_empty_conv)

lemma open_deps_insert:
  "n \<notin> P \<Longrightarrow> open_deps cs P k = open_deps cs (insert n P) k + count_list (deps_of cs k) n"
proof -
  assume "n \<notin> P"
  then have "length (filter (\<lambda>d. d \<notin> P) ds) =
      length (filter (\<lambda>d. d \<notin> insert n P) ds) + count_list ds n" for ds
    by (induction ds) auto
  then show ?thesis by (simp add: open_deps_def)
qed

lemma deps_of_names: "d \<in> set (deps_of cs n) \<Longrightarrow> n \<in> names_of cs"
  by (auto simp: deps_of_def names_of_def)

lemma kahn_inv_step:
  assumes inv: "kahn_inv cs P (n # Q) g"
  defines "r \<equiv> relax (adj (dependents_of cs) n) g Q"
  shows "kahn_inv cs (P @ [n]) (snd r) (fst r)"
proof -
  let ?ds = "adj (dependents_of cs) n"
  obtain pushed where r: "snd r = Q @ pushed" and dp: "distinct pushed"
    and sp: "set pushed = {k \<in> set ?ds. 0 < deg g k \<and> deg g k \<le> int (count_list ?ds k)}"
    and g': "\<forall>k. deg (fst r) k = deg g k - int (count_list ?ds k)"
    using relax_spec [of ?ds g Q] unfolding r_def by blast
  from inv have dist: "distinct (P @ n # Q)" and sub: "set (P @ n # Q) \<subseteq> names_of cs"
    and dg: "\<And>k. deg g k = int (open_deps cs (set P) k)"
    and zero: "\<And>k. k \<in> names_of cs \<Longrightarrow> deg g k = 0 \<longleftrightarrow> k \<in> set (P @ n # Q)"
    and ord: "dep_ordered cs P"
    unfolding kahn_inv_def by blast+
  have nP: "n \<notin> set P" using dist by auto
  have dg': "deg (fst r) k = int (open_deps cs (set (P @ [n])) k)" for k
    using g' dg [of k] open_deps_insert [OF nP, of cs k] by (simp add: count_dependents)
  have mem: "k \<in> set ?ds \<longleftrightarrow> 0 < count_list ?ds k" for k
    using count_list_0_iff [of ?ds k] by auto
  have pn: "set pushed \<subseteq> names_of cs"
  proof
    fix k
    assume "k \<in> set pushed"
    then have "0 < count_list (deps_of cs k) n" unfolding sp by (auto simp: mem count_dependents)
    then have "n \<in> set (deps_of cs k)" using count_list_0_iff [of "deps_of cs k" n] by auto
    then show "k \<in> names_of cs" by (rule deps_of_names)
  qed
  have zp: "\<And>k. k \<in> set pushed \<Longrightarrow> deg g k \<noteq> 0" unfolding sp by auto
  have disj: "set pushed \<inter> set (P @ n # Q) = {}"
    using zp zero sub by blast
  have zero': "deg (fst r) k = 0 \<longleftrightarrow> k \<in> set ((P @ [n]) @ snd r)" if k: "k \<in> names_of cs" for k
  proof (cases "k \<in> set (P @ n # Q)")
    case True
    then have "deg g k = 0" using zero k by simp
    with dg' [of k] g' have "deg (fst r) k = 0" by simp
    with True show ?thesis by (auto simp: r)
  next
    case False
    then have "0 < deg g k" using zero [OF k] dg [of k] by simp
    then have "deg (fst r) k = 0 \<longleftrightarrow> k \<in> set pushed"
      unfolding sp using g' dg' [of k] mem [of k] by auto
    with False show ?thesis by (auto simp: r)
  qed
  have "set (deps_of cs n) \<subseteq> set P"
    using zero [of n] sub dg [of n] by (simp add: open_deps_0)
  with ord have "dep_ordered cs (P @ [n])" by (rule dep_ordered_snoc)
  moreover have "distinct ((P @ [n]) @ snd r)" using dist dp disj by (auto simp: r)
  moreover have "set ((P @ [n]) @ snd r) \<subseteq> names_of cs" using sub pn by (auto simp: r)
  ultimately show ?thesis using dg' zero' unfolding kahn_inv_def by blast
qed

definition comp_at :: "component gomap \<Rightarrow> gostring \<Rightarrow> component" where
  "comp_at byName n = (case gm_get byName n of None \<Rightarrow> zero_component | Some c \<Rightarrow> c)"

lemma kahn_loop_inv:
  assumes "kahn_inv cs P Q g"
  shows "\<exists>P' g'. kahn_loop (dependents_of cs) byName Q g (map (comp_at byName) P) =
      map (comp_at byName) P' \<and> kahn_inv cs P' [] g'"
  using assms
proof (induction "dependents_of cs" byName Q g "map (comp_at byName) P" arbitrary: P
    rule: kahn_loop.induct)
  case (1 byName indeg)
  then show ?case by auto
next
  case (2 byName n Q g)
  let ?r = "relax (adj (dependents_of cs) n) g Q"
  have "\<exists>P' g'. kahn_loop (dependents_of cs) byName (snd ?r) (fst ?r)
      (map (comp_at byName) (P @ [n])) = map (comp_at byName) P' \<and> kahn_inv cs P' [] g'"
    by (rule "2.hyps") (simp_all add: comp_at_def kahn_inv_step [OF "2.prems"])
  then show ?case by (simp add: comp_at_def Let_def)
qed

lemma buildTopoGraph_Inl:
  "(\<exists>e. buildTopoGraph cs = Inl e) \<longleftrightarrow> \<not> deps_known cs"
proof -
  let ?r = "count_all cs (name_map cs) (fold (\<lambda>c m. gm_put (c_Name c) 0 m) cs [])"
  have "(\<exists>e. buildTopoGraph cs = Inl e) \<longleftrightarrow> (\<exists>e. ?r = Inl e)"
    by (cases ?r) (simp_all add: buildTopoGraph_def)
  then show ?thesis
    unfolding count_all_Inl by (simp add: deps_known_def name_map_None)
qed

lemma count_deps_unknown: "count_deps n ds byName g = Inl e \<Longrightarrow> \<exists>d. e = UnknownDependency n d"
  by (induction n ds byName g rule: count_deps.induct) (auto split: if_splits)

lemma count_all_unknown: "count_all cs byName g = Inl e \<Longrightarrow> \<exists>n d. e = UnknownDependency n d"
  by (induction cs byName g rule: count_all.induct)
    (auto split: sum.splits dest: count_deps_unknown)

lemma buildTopoGraph_unknown: "buildTopoGraph cs = Inl e \<Longrightarrow> \<exists>n d. e = UnknownDependency n d"
  by (auto simp: buildTopoGraph_def Let_def split: sum.splits dest: count_all_unknown)

lemma buildTopoGraph_Inr:
  assumes "deps_known cs"
  shows "\<exists>g. buildTopoGraph cs = Inr (name_map cs, g) \<and>
    (\<forall>k. deg g k = int (length (deps_of cs k)))"
proof -
  let ?z = "fold (\<lambda>c m. gm_put (c_Name c) 0 m) cs []"
  have z: "deg ?z k = 0" for k by (rule deg_zeros) (simp add: deg_def)
  from assms have "\<forall>c \<in> set cs. \<forall>d \<in> set (c_DependsOn c). gm_get (name_map cs) d \<noteq> None"
    by (auto simp: deps_known_def name_map_None)
  from count_all_Inr [OF this, of ?z] z show ?thesis
    by (auto simp: buildTopoGraph_def Let_def)
qed

lemma kahn_start:
  assumes "distinct (map c_Name cs)" and "\<And>k. deg g k = int (length (deps_of cs k))"
  shows "kahn_inv cs [] (map c_Name (filter (\<lambda>c. deg g (c_Name c) = 0) cs)) g"
  using assms
  by (auto simp: kahn_inv_def dep_ordered_def open_deps_def names_of_def
      distinct_map_filter)

text \<open>At the end of the loop the processed names are those of degree zero.\<close>

lemma topoSort_run:
  assumes "distinct (map c_Name cs)" and "deps_known cs"
  shows "\<exists>P g. kahn_inv cs P [] g \<and>
    topoSort cs = (if length P \<noteq> length cs then Inl TopoSortCycle
                   else Inr (map (comp_at (name_map cs)) P))"
proof -
  obtain g where g: "buildTopoGraph cs = Inr (name_map cs, g)"
    "\<And>k. deg g k = int (length (deps_of cs k))"
    using buildTopoGraph_Inr [OF assms(2)] by blast
  from kahn_loop_inv [OF kahn_start [OF assms(1) g(2)], of "name_map cs"]
  obtain P g' where "kahn_loop (dependents_of cs) (name_map cs)
      (map c_Name (filter (\<lambda>c. deg g (c_Name c) = 0) cs)) g [] = map (comp_at (name_map cs)) P"
    "kahn_inv cs P [] g'" by auto
  with g(1) show ?thesis
    by (auto simp: topoSort_def kahnSort_def Let_def)
qed

section \<open>Properties\<close>

text \<open>A dependency-first order of the components: a permutation in which every dependency of a
  component stands before it.\<close>

definition topo_order :: "component list \<Rightarrow> component list \<Rightarrow> bool" where
  "topo_order cs s \<longleftrightarrow> mset s = mset cs \<and>
     (\<forall>i < length s. set (c_DependsOn (s ! i)) \<subseteq> c_Name ` set (take i s))"

definition acyclic_deps :: "component list \<Rightarrow> bool" where
  "acyclic_deps cs \<longleftrightarrow>
     (\<exists>rank :: gostring \<Rightarrow> nat. \<forall>c \<in> set cs. \<forall>d \<in> set (c_DependsOn c). rank d < rank (c_Name c))"

lemma comp_at_names:
  assumes "distinct (map c_Name cs)" and "n \<in> names_of cs"
  shows "comp_at (name_map cs) n \<in> set cs \<and> c_Name (comp_at (name_map cs) n) = n"
proof -
  from assms(2) obtain c where "c \<in> set cs" "n = c_Name c" by (auto simp: names_of_def)
  with name_map_distinct [OF assms(1)] show ?thesis by (auto simp: comp_at_def)
qed

lemma kahn_full:
  assumes d: "distinct (map c_Name cs)" and inv: "kahn_inv cs P [] g"
  shows "length P = length cs \<longleftrightarrow> set P = names_of cs"
proof -
  have dP: "distinct P" and sub: "set P \<subseteq> names_of cs" using inv by (auto simp: kahn_inv_def)
  have "card (names_of cs) = length cs"
    using distinct_card [OF d] by (simp add: names_of_def)
  with distinct_card [OF dP] show ?thesis
    using card_subset_eq [OF _ sub] by (auto simp: names_of_def)
qed

lemma kahn_topo_order:
  assumes d: "distinct (map c_Name cs)" and inv: "kahn_inv cs P [] g" and full: "set P = names_of cs"
  shows "topo_order cs (map (comp_at (name_map cs)) P)"
proof -
  let ?f = "comp_at (name_map cs)"
  have dP: "distinct P" and ord: "dep_ordered cs P" using inv by (auto simp: kahn_inv_def)
  have "mset P = mset (map c_Name cs)"
    using dP d full by (subst set_eq_iff_mset_eq_distinct [symmetric]) (auto simp: names_of_def)
  then have "mset (map ?f P) = mset (map ?f (map c_Name cs))" by (metis mset_map)
  also have "map ?f (map c_Name cs) = cs"
    using name_map_distinct [OF d] by (auto simp: comp_at_def intro!: map_idI)
  finally have perm: "mset (map ?f P) = mset cs" .
  have "set (c_DependsOn (?f (P ! i))) \<subseteq> c_Name ` set (take i (map ?f P))" if i: "i < length P" for i
  proof -
    have "P ! i \<in> names_of cs" using i full nth_mem by blast
    note at = comp_at_names [OF d this]
    then have "set (c_DependsOn (?f (P ! i))) \<subseteq> set (deps_of cs (P ! i))"
      by (auto simp: deps_of_def)
    also have "\<dots> \<subseteq> set (take i P)" using ord i by (auto simp: dep_ordered_def)
    also have "set (take i P) = c_Name ` set (take i (map ?f P))"
      using comp_at_names [OF d] full set_take_subset [of i P] by (force simp: take_map image_iff)
    finally show ?thesis .
  qed
  with perm show ?thesis by (simp add: topo_order_def)
qed

lemma acyclic_full:
  assumes inv: "kahn_inv cs P [] g" and known: "deps_known cs" and ac: "acyclic_deps cs"
  shows "set P = names_of cs"
proof (rule ccontr)
  assume "set P \<noteq> names_of cs"
  with inv obtain n0 where "n0 \<in> names_of cs - set P" by (auto simp: kahn_inv_def)
  moreover from ac obtain rank :: "gostring \<Rightarrow> nat" where
    rank: "\<And>c d. c \<in> set cs \<Longrightarrow> d \<in> set (c_DependsOn c) \<Longrightarrow> rank d < rank (c_Name c)"
    by (auto simp: acyclic_deps_def)
  ultimately obtain n where n: "n \<in> names_of cs - set P"
    and least: "\<And>m. rank m < rank n \<Longrightarrow> m \<notin> names_of cs - set P"
    using exists_least_iff [of "\<lambda>k. \<exists>n. n \<in> names_of cs - set P \<and> rank n = k"] by metis
  from n inv have "open_deps cs (set P) n \<noteq> 0" by (auto simp: kahn_inv_def)
  then obtain d where d: "d \<in> set (deps_of cs n)" "d \<notin> set P" by (auto simp: open_deps_0)
  then obtain c where c: "c \<in> set cs" "c_Name c = n" "d \<in> set (c_DependsOn c)"
    by (auto simp: deps_of_def)
  with known have "d \<in> names_of cs" by (auto simp: deps_known_def)
  with least [of d] rank [OF c(1,3)] c(2) d(2) show False by simp
qed

lemma topo_order_acyclic:
  assumes d: "distinct (map c_Name cs)" and t: "topo_order cs s"
  shows "acyclic_deps cs"
proof -
  let ?ns = "map c_Name s"
  define rank where "rank n = length (takeWhile (\<lambda>x. x \<noteq> n) ?ns)" for n
  from t have perm: "mset s = mset cs" by (simp add: topo_order_def)
  have "mset ?ns = mset (map c_Name cs)" using perm by (metis mset_map)
  then have dn: "distinct ?ns" using d by (metis mset_eq_imp_distinct_iff)
  have "rank e < rank (c_Name c)" if c: "c \<in> set cs" and e: "e \<in> set (c_DependsOn c)" for c e
  proof -
    from c perm obtain i where i: "i < length s" "s ! i = c"
      by (metis in_set_conv_nth mset_eq_setD)
    have at: "rank (?ns ! j) = j" if "j < length s" for j
    proof -
      have "takeWhile (\<lambda>x. x \<noteq> ?ns ! j) ?ns = take j ?ns"
        using that nth_eq_iff_index_eq [OF dn] by (intro takeWhile_eq_take_P_nth) auto
      then show ?thesis using that by (simp add: rank_def)
    qed
    from t i e have "e \<in> set (take i ?ns)" by (force simp: topo_order_def take_map)
    then obtain j where "j < i" "?ns ! j = e" using i(1) by (auto simp: in_set_conv_nth)
    with at [of j] at [of i] i show ?thesis by simp
  qed
  then show ?thesis unfolding acyclic_deps_def by blast
qed

text \<open>The outcomes of the sort, for the callers.\<close>

lemma topoSort_unknown: "\<not> deps_known cs \<Longrightarrow> \<exists>n d. topoSort cs = Inl (UnknownDependency n d)"
proof -
  assume "\<not> deps_known cs"
  then obtain e where e: "topoSort cs = Inl e" "buildTopoGraph cs = Inl e"
    using buildTopoGraph_Inl [of cs] by (auto simp: topoSort_def)
  show ?thesis using buildTopoGraph_unknown [OF e(2)] e(1) by auto
qed

lemma topoSort_succeeds:
  assumes "distinct (map c_Name cs)" "deps_known cs" "acyclic_deps cs"
  shows "\<exists>s. topoSort cs = Inr s"
proof -
  from topoSort_run [OF assms(1,2)] obtain P g where inv: "kahn_inv cs P [] g"
    and run: "topoSort cs = (if length P \<noteq> length cs then Inl TopoSortCycle
      else Inr (map (comp_at (name_map cs)) P))" by blast
  have "length P = length cs"
    using kahn_full [OF assms(1) inv] acyclic_full [OF inv assms(2,3)] by blast
  with run show ?thesis by simp
qed

text \<open>C8. Every successful sort lists each component once, and each component after all the
  components it depends on.\<close>

theorem topoSort_sound:
  assumes "distinct (map c_Name cs)" and "topoSort cs = Inr s"
  shows "topo_order cs s"
proof -
  have "deps_known cs"
    using buildTopoGraph_Inl [of cs] assms(2) by (auto simp: topoSort_def)
  from topoSort_run [OF assms(1) this] obtain P g where inv: "kahn_inv cs P [] g"
    and "topoSort cs = (if length P \<noteq> length cs then Inl TopoSortCycle
      else Inr (map (comp_at (name_map cs)) P))" by blast
  with assms(2) have "length P = length cs" "s = map (comp_at (name_map cs)) P"
    by (auto split: if_splits)
  with kahn_topo_order [OF assms(1) inv] kahn_full [OF assms(1) inv] show ?thesis by simp
qed

text \<open>A diamond: \<open>d\<close> needs \<open>b\<close> and \<open>c\<close>, which both need \<open>a\<close>.\<close>

definition mk_comp :: "gostring \<Rightarrow> gostring list \<Rightarrow> component" where
  "mk_comp n ds = zero_component\<lparr>c_Name := n, c_DependsOn := ds\<rparr>"

definition diamond :: "component list" where
  "diamond = [mk_comp ''d'' [''b'', ''c''], mk_comp ''b'' [''a''], mk_comp ''c'' [''a''], mk_comp ''a'' []]"

lemma diamond_sorted: "topoSort diamond =
    Inr [mk_comp ''a'' [], mk_comp ''b'' [''a''], mk_comp ''c'' [''a''], mk_comp ''d'' [''b'', ''c'']]"
  by code_simp

lemma diamond_distinct: "distinct (map c_Name diamond)"
  by code_simp

theorem topoSort_sound_witness:
  "topo_order diamond
     [mk_comp ''a'' [], mk_comp ''b'' [''a''], mk_comp ''c'' [''a''], mk_comp ''d'' [''b'', ''c'']]"
  by (rule topoSort_sound [OF diamond_distinct diamond_sorted])

text \<open>C9. The three outcomes: an unknown dependency is reported exactly when some component
  names one, and otherwise the cycle error is returned exactly when no ranking of the names puts
  every dependency below its dependent; in the remaining case the sort succeeds.\<close>

theorem topoSort_outcomes:
  assumes "distinct (map c_Name cs)"
  shows "((\<exists>n d. topoSort cs = Inl (UnknownDependency n d)) \<longleftrightarrow> \<not> deps_known cs) \<and>
    (topoSort cs = Inl TopoSortCycle \<longleftrightarrow> deps_known cs \<and> \<not> acyclic_deps cs) \<and>
    ((\<exists>s. topoSort cs = Inr s) \<longleftrightarrow> deps_known cs \<and> acyclic_deps cs)"
proof (cases "deps_known cs")
  case True
  from topoSort_run [OF assms True] obtain P g where inv: "kahn_inv cs P [] g"
    and run: "topoSort cs = (if length P \<noteq> length cs then Inl TopoSortCycle
      else Inr (map (comp_at (name_map cs)) P))" by blast
  have "length P = length cs \<longleftrightarrow> acyclic_deps cs"
    using kahn_full [OF assms inv] acyclic_full [OF inv True] kahn_topo_order [OF assms inv]
      topo_order_acyclic [OF assms] by blast
  with run True show ?thesis by auto
next
  case False
  with topoSort_unknown [OF False] show ?thesis by auto
qed

theorem topoSort_outcomes_witness:
  "(\<exists>s. topoSort diamond = Inr s) \<longleftrightarrow> deps_known diamond \<and> acyclic_deps diamond"
  using topoSort_outcomes [OF diamond_distinct] by blast

end
