(* ===== verification/Go_Path.thy ===== *)
theory Go_Path
  imports Go_Strings
begin

text \<open>
  Go's \<open>path/filepath\<close> on Unix, as far as the program uses it: \<open>Clean\<close>, \<open>Join\<close>, \<open>Abs\<close> (with the
  working directory as a parameter), \<open>Base\<close>. The lemmas say what cleaning does to the
  components of a path, which is what the containment checks of the attractor rest on.
\<close>

abbreviation SEP :: char where "SEP \<equiv> CHR ''/''"

definition dotdot :: gostring where "dotdot = ''..''"

text \<open>
  \<open>filepath.Clean\<close> reads the components from left to right and keeps a stack of the components
  written so far (here top first).
\<close>

definition clean_step :: "bool \<Rightarrow> gostring \<Rightarrow> gostring list \<Rightarrow> gostring list" where
  "clean_step rooted c out =
     (if c = [] \<or> c = ''.'' then out
      else if c = dotdot then
        (case out of
           [] \<Rightarrow> if rooted then [] else [dotdot]
         | t # ts \<Rightarrow> if t = dotdot then dotdot # out else ts)
      else c # out)"

definition is_rooted :: "gostring \<Rightarrow> bool" where
  "is_rooted p \<longleftrightarrow> prefix [SEP] p"

definition clean_comps :: "gostring \<Rightarrow> gostring list" where
  "clean_comps p = rev (fold (clean_step (is_rooted p)) (split_on SEP p) [])"

definition clean_path :: "gostring \<Rightarrow> gostring" where
  "clean_path p =
     (let cs = clean_comps p in
      if is_rooted p then SEP # str_join [SEP] cs
      else if cs = [] then ''.'' else str_join [SEP] cs)"

definition join_path :: "gostring list \<Rightarrow> gostring" where
  "join_path es =
     (case dropWhile (\<lambda>e. e = []) es of [] \<Rightarrow> [] | es' \<Rightarrow> clean_path (str_join [SEP] es'))"

text \<open>\<open>filepath.Abs\<close> in working directory \<open>cwd\<close>.\<close>

definition abs_path :: "gostring \<Rightarrow> gostring \<Rightarrow> gostring" where
  "abs_path cwd p = (if is_rooted p then clean_path p else join_path [cwd, p])"

text \<open>\<open>filepath.Base\<close>.\<close>

definition base_path :: "gostring \<Rightarrow> gostring" where
  "base_path p =
     (if p = [] then ''.''
      else
        let q = rev (dropWhile (\<lambda>c. c = SEP) (rev p));
            b = rev (takeWhile (\<lambda>c. c \<noteq> SEP) (rev q))
        in if b = [] then [SEP] else b)"

text \<open>\<open>filepath.Dir\<close>: everything up to the last separator, cleaned.\<close>

definition dir_path :: "gostring \<Rightarrow> gostring" where
  "dir_path p = clean_path (rev (dropWhile (\<lambda>c. c \<noteq> SEP) (rev p)))"

text \<open>\<open>filepath.Ext\<close>: from the last dot of the last element.\<close>

definition path_ext :: "gostring \<Rightarrow> gostring" where
  "path_ext p =
     (let t = takeWhile (\<lambda>c. c \<noteq> CHR ''.'' \<and> c \<noteq> SEP) (rev p) in
      if length t < length p \<and> rev p ! length t = CHR ''.'' then CHR ''.'' # rev t else [])"

section \<open>Components of a cleaned path\<close>

definition normal_comp :: "gostring \<Rightarrow> bool" where
  "normal_comp c \<longleftrightarrow> c \<noteq> [] \<and> c \<noteq> ''.'' \<and> c \<noteq> dotdot \<and> SEP \<notin> set c"

text \<open>A stack is some normal components above a run of dot-dots, which a rooted path lacks.\<close>

definition stack_ok :: "bool \<Rightarrow> gostring list \<Rightarrow> bool" where
  "stack_ok rooted out \<longleftrightarrow>
     (\<exists>ts k. out = ts @ replicate k dotdot \<and> list_all normal_comp ts \<and> (rooted \<longrightarrow> k = 0))"

lemma stack_ok_Nil [simp]: "stack_ok rooted []"
  by (auto simp: stack_ok_def)

lemma dotdot_not_normal [simp]: "\<not> normal_comp dotdot"
  by (simp add: normal_comp_def)

lemma clean_step_ok:
  assumes "stack_ok rooted out" and "SEP \<notin> set c"
  shows "stack_ok rooted (clean_step rooted c out)"
proof -
  from assms(1) obtain ts k where out: "out = ts @ replicate k dotdot"
    and ts: "list_all normal_comp ts" and k: "rooted \<Longrightarrow> k = 0"
    by (auto simp: stack_ok_def)
  consider "c = [] \<or> c = ''.''" | "c = dotdot" | "normal_comp c"
    using assms(2) by (auto simp: normal_comp_def)
  then show ?thesis
  proof cases
    case 1
    with assms(1) show ?thesis by (simp add: clean_step_def)
  next
    case 2
    then have c: "c \<noteq> []" "c \<noteq> ''.''" by (auto simp: dotdot_def)
    show ?thesis
    proof (cases ts)
      case Nil
      show ?thesis
      proof (cases "k")
        case 0
        with Nil out have "clean_step rooted c out = [] @ replicate (if rooted then 0 else 1) dotdot"
          using c 2 by (simp add: clean_step_def)
        then show ?thesis unfolding stack_ok_def
          by (intro exI [of _ "[]"] exI [of _ "if rooted then 0 else 1"]) simp
      next
        case (Suc k')
        with Nil out k have "clean_step rooted c out = [] @ replicate (Suc k) dotdot" "\<not> rooted"
          using c 2 by (auto simp: clean_step_def)
        then show ?thesis unfolding stack_ok_def
          by (intro exI [of _ "[]"] exI [of _ "Suc k"]) simp
      qed
    next
      case (Cons t ts')
      with ts have "t \<noteq> dotdot" by auto
      with Cons out c 2 have "clean_step rooted c out = ts' @ replicate k dotdot"
        by (simp add: clean_step_def)
      with Cons ts k show ?thesis unfolding stack_ok_def by auto
    qed
  next
    case 3
    then have "clean_step rooted c out = (c # ts) @ replicate k dotdot"
      by (auto simp: clean_step_def normal_comp_def out)
    with 3 ts k show ?thesis unfolding stack_ok_def
      by (intro exI [of _ "c # ts"] exI [of _ k]) auto
  qed
qed

lemma fold_clean_ok:
  "stack_ok rooted out \<Longrightarrow> \<forall>c \<in> set cs. SEP \<notin> set c \<Longrightarrow>
   stack_ok rooted (fold (clean_step rooted) cs out)"
  by (induction cs arbitrary: out) (auto intro: clean_step_ok)

lemma clean_comps_ok: "stack_ok (is_rooted p) (rev (clean_comps p))"
  unfolding clean_comps_def by (auto intro!: fold_clean_ok dest: split_on_parts)

text \<open>
  Running the components over a rooted stack \<open>base\<close> instead of from nothing: the dot-dots the
  unrooted run keeps at its bottom eat components of the base.
\<close>

lemma clean_step_shift:
  assumes "list_all normal_comp ts" and "list_all normal_comp base" and "SEP \<notin> set c"
  shows "\<exists>ts' k'. clean_step False c (ts @ replicate k dotdot) = ts' @ replicate k' dotdot \<and>
      list_all normal_comp ts' \<and>
      clean_step True c (ts @ drop k base) = ts' @ drop k' base"
proof -
  consider "c = [] \<or> c = ''.''" | "c = dotdot" | "normal_comp c"
    using assms(3) by (auto simp: normal_comp_def)
  then show ?thesis
  proof cases
    case 1
    with assms(1) show ?thesis
      by (intro exI [of _ ts] exI [of _ k]) (auto simp: clean_step_def)
  next
    case 2
    then have c: "c \<noteq> []" "c \<noteq> ''.''" by (auto simp: dotdot_def)
    show ?thesis
    proof (cases ts)
      case (Cons t ts')
      with assms(1) have "t \<noteq> dotdot" by auto
      with Cons c 2 assms(1) show ?thesis
        by (intro exI [of _ ts'] exI [of _ k]) (auto simp: clean_step_def)
    next
      case Nil
      have "clean_step False c (replicate k dotdot) = replicate (Suc k) dotdot"
        using c 2 by (cases k) (auto simp: clean_step_def)
      moreover have "clean_step True c (drop k base) = drop (Suc k) base"
      proof (cases "drop k base")
        case Nil
        with c 2 show ?thesis by (auto simp: clean_step_def)
      next
        case (Cons b bs)
        with assms(2) have "b \<noteq> dotdot"
          by (metis dotdot_not_normal in_set_dropD list.pred_set list.set_intros(1))
        with Cons c 2 show ?thesis
          by (simp add: clean_step_def) (metis drop_Suc list.sel(3) tl_drop)
      qed
      ultimately show ?thesis using Nil
        by (intro exI [of _ "[]"] exI [of _ "Suc k"]) simp
    qed
  next
    case 3
    with assms(1) show ?thesis
      by (intro exI [of _ "c # ts"] exI [of _ k]) (auto simp: clean_step_def normal_comp_def)
  qed
qed

lemma fold_clean_shift:
  assumes "list_all normal_comp base" and "\<forall>c \<in> set cs. SEP \<notin> set c" and "list_all normal_comp ts"
  shows "\<exists>ts' k'. fold (clean_step False) cs (ts @ replicate k dotdot) = ts' @ replicate k' dotdot \<and>
      list_all normal_comp ts' \<and>
      fold (clean_step True) cs (ts @ drop k base) = ts' @ drop k' base"
  using assms(2,3)
proof (induction cs arbitrary: ts k)
  case Nil
  then show ?case by auto
next
  case (Cons c cs)
  from clean_step_shift [OF Cons.prems(2) assms(1), of c k] Cons.prems(1)
  obtain ts' k' where
    "clean_step False c (ts @ replicate k dotdot) = ts' @ replicate k' dotdot"
    "list_all normal_comp ts'" "clean_step True c (ts @ drop k base) = ts' @ drop k' base"
    by auto
  with Cons.IH [of ts' k'] Cons.prems(1) show ?case by auto
qed

section \<open>Absolute paths by their components\<close>

definition abs_of :: "gostring list \<Rightarrow> gostring" where
  "abs_of cs = SEP # str_join [SEP] cs"

lemma split_on_append2: "split_on c (s @ c # t) = split_on c s @ split_on c t"
proof (induction s)
  case (Cons x s)
  then show ?case by (cases "split_on c s") auto
qed simp

lemma is_rooted_abs_of [simp]: "is_rooted (abs_of cs)"
  by (simp add: is_rooted_def abs_of_def)

lemma abs_of_append: "cs \<noteq> [] \<Longrightarrow> abs_of cs @ SEP # t = abs_of (cs @ split_on SEP t)"
proof -
  have "str_join [SEP] cs @ SEP # t = str_join [SEP] (cs @ split_on SEP t)" if "cs \<noteq> []" for cs
    using that
  proof (induction cs rule: induct_list012)
    case (2 x)
    then show ?case by (cases "split_on SEP t") (auto, metis str_join_split_on)
  next
    case (3 x y zs)
    then show ?case by simp
  qed simp
  then show "cs \<noteq> [] \<Longrightarrow> ?thesis" by (simp add: abs_of_def)
qed

lemma normal_no_sep: "list_all normal_comp cs \<Longrightarrow> \<forall>x \<in> set cs. SEP \<notin> set x"
  by (auto simp: list_all_iff normal_comp_def)

lemma split_abs_of:
  "list_all normal_comp cs \<Longrightarrow> split_on SEP (abs_of cs) = [] # (if cs = [] then [[]] else cs)"
  using split_on_join [OF _ normal_no_sep, of cs] by (auto simp: abs_of_def)

lemma abs_of_inj:
  assumes "abs_of xs = abs_of ys" and "list_all normal_comp xs" and "list_all normal_comp ys"
  shows "xs = ys"
proof -
  have ne: "\<not> normal_comp []" by (simp add: normal_comp_def)
  have "(if xs = [] then [[]] else xs) = (if ys = [] then [[]] else ys)"
    using split_abs_of [OF assms(2)] split_abs_of [OF assms(3)] assms(1) by simp
  with assms(2,3) ne show ?thesis by (auto split: if_splits)
qed

lemma fold_clean_normal:
  "list_all normal_comp cs \<Longrightarrow> fold (clean_step r) cs out = rev cs @ out"
  by (induction cs arbitrary: out) (auto simp: clean_step_def normal_comp_def)

lemma clean_step_skip [simp]: "clean_step r [] out = out"
  by (simp add: clean_step_def)

lemma clean_abs_of [simp]: "list_all normal_comp cs \<Longrightarrow> clean_path (abs_of cs) = abs_of cs"
proof -
  assume cs: "list_all normal_comp cs"
  then have "clean_comps (abs_of cs) = cs"
    by (simp add: clean_comps_def split_abs_of fold_clean_normal)
  then show ?thesis by (simp add: clean_path_def abs_of_def is_rooted_def)
qed

text \<open>Joining a relative path to an absolute directory runs its components over the directory's.\<close>

definition over :: "gostring list \<Rightarrow> gostring \<Rightarrow> gostring list" where
  "over base p = rev (fold (clean_step True) (split_on SEP p) (rev base))"

lemma join_abs_of:
  assumes "list_all normal_comp base"
  shows "join_path [abs_of base, p] = abs_of (over base p)"
proof -
  have "str_join [SEP] [abs_of base, p] = abs_of base @ SEP # p" by simp
  moreover have r: "\<And>base. is_rooted (abs_of base @ SEP # p)" by (simp add: is_rooted_def abs_of_def)
  moreover have "clean_comps (abs_of base @ SEP # p) = over base p"
    using assms unfolding clean_comps_def split_on_append2 over_def
    by (auto simp: r split_abs_of fold_clean_normal)
  moreover have "abs_of base \<noteq> []" by (simp add: abs_of_def)
  ultimately show ?thesis
    by (simp add: join_path_def clean_path_def abs_of_def)
qed

text \<open>The outcome: a part of the base above which the path goes up, then normal components.\<close>

definition ups :: "gostring \<Rightarrow> nat" where
  "ups p = length (filter (\<lambda>c. c = dotdot) (fold (clean_step False) (split_on SEP p) []))"

definition downs :: "gostring \<Rightarrow> gostring list" where
  "downs p = rev (filter (\<lambda>c. c \<noteq> dotdot) (fold (clean_step False) (split_on SEP p) []))"

lemma over_split:
  assumes "list_all normal_comp base"
  shows "fold (clean_step False) (split_on SEP p) [] = rev (downs p) @ replicate (ups p) dotdot \<and>
    list_all normal_comp (downs p) \<and> over base p = take (length base - ups p) base @ downs p"
proof -
  have b: "list_all normal_comp (rev base)" using assms by (simp add: list_all_iff)
  obtain ts k where f: "fold (clean_step False) (split_on SEP p) [] = ts @ replicate k dotdot"
    and ts: "list_all normal_comp ts"
    and t: "fold (clean_step True) (split_on SEP p) (rev base) = ts @ drop k (rev base)"
    using fold_clean_shift [OF b, of "split_on SEP p" "[]" 0] split_on_parts [of _ SEP p] by auto
  have none: "filter (\<lambda>c. c = dotdot) ts = []" "filter (\<lambda>c. c \<noteq> dotdot) ts = ts"
    using ts by (auto simp: list_all_iff filter_empty_conv filter_id_conv normal_comp_def)
  then have "ups p = k" "downs p = rev ts" by (simp_all add: ups_def downs_def f)
  with f ts t show ?thesis
    by (simp add: over_def rev_drop list_all_iff)
qed

lemma over_normal: "list_all normal_comp base \<Longrightarrow> list_all normal_comp (over base p)"
  using over_split [of base p] by (auto simp: list_all_iff dest: in_set_takeD)

section \<open>Parents are shorter\<close>

definition comp_size :: "gostring list \<Rightarrow> nat" where
  "comp_size cs = sum_list (map (\<lambda>c. if c = [] then 0 else Suc (length c)) cs)"

lemma comp_size_simps [simp]:
  "comp_size [] = 0" "comp_size (c # cs) = (if c = [] then 0 else Suc (length c)) + comp_size cs"
  "comp_size (cs @ ds) = comp_size cs + comp_size ds" "comp_size (rev cs) = comp_size cs"
  by (simp_all add: comp_size_def rev_map [symmetric])

lemma comp_size_clean: "comp_size (fold (clean_step r) cs out) \<le> comp_size cs + comp_size out"
proof (induction cs arbitrary: out)
  case (Cons c cs)
  have "comp_size (clean_step r c out) \<le> comp_size [c] + comp_size out"
    by (auto simp: clean_step_def split: list.split)
  with Cons [of "clean_step r c out"] show ?case by simp
qed simp

lemma comp_size_split: "comp_size (split_on c s) + length (filter (\<lambda>x. x = []) (split_on c s)) = Suc (length s)"
proof (induction s)
  case (Cons x s)
  then show ?case by (cases "split_on c s") (auto split: if_splits)
qed simp

lemma length_join: "xs \<noteq> [] \<Longrightarrow> [] \<notin> set xs \<Longrightarrow> Suc (length (str_join [SEP] xs)) = comp_size xs"
  by (induction "[SEP]" xs rule: str_join.induct) auto

lemma clean_no_empty: "[] \<notin> set out \<Longrightarrow> [] \<notin> set (fold (clean_step r) cs out)"
proof (induction cs arbitrary: out)
  case (Cons c cs)
  have "[] \<notin> set (clean_step r c out)" using Cons.prems by (auto simp: clean_step_def dotdot_def split: list.split)
  then show ?case using Cons.IH by simp
qed simp

lemma split_trailing: "split_on c (s @ [c]) = split_on c s @ [[]]"
  using split_on_append2 [of c s "[]"] by simp

lemma clean_path_shorter:
  "clean_path (s @ [SEP]) = [SEP] \<or> clean_path (s @ [SEP]) = ''.'' \<or> length (clean_path (s @ [SEP])) < length (s @ [SEP])"
proof -
  let ?p = "s @ [SEP]"
  have cs: "comp_size (clean_comps ?p) \<le> comp_size (split_on SEP s)"
    using comp_size_clean [of "is_rooted ?p" "split_on SEP ?p" "[]"] by (simp add: clean_comps_def split_trailing)
  have ne: "[] \<notin> set (clean_comps ?p)" using clean_no_empty [of "[]"] by (simp add: clean_comps_def)
  have e: "comp_size (split_on SEP s) \<le> Suc (length s)" using comp_size_split [of SEP s] by simp
  have r: "is_rooted s \<Longrightarrow> comp_size (split_on SEP s) \<le> length s"
    using comp_size_split [of SEP s] by (cases s) (auto simp: is_rooted_def)
  show ?thesis
  proof (cases "clean_comps ?p = []")
    case True
    then show ?thesis by (simp add: clean_path_def)
  next
    case False
    note l = length_join [OF this ne]
    show ?thesis
    proof (cases "is_rooted ?p")
      case True
      then have "s = [] \<or> is_rooted s" by (cases s) (auto simp: is_rooted_def)
      then show ?thesis using True l cs r by (auto simp: clean_path_def Let_def)
    next
      case False
      then show ?thesis using l cs e \<open>clean_comps ?p \<noteq> []\<close> by (simp add: clean_path_def Let_def)
    qed
  qed
qed

lemma dir_path_shorter: "dir_path p = [SEP] \<or> dir_path p = ''.'' \<or> length (dir_path p) < length p"
proof (cases "dropWhile (\<lambda>c. c \<noteq> SEP) (rev p)")
  case Nil
  have "clean_path [] = ''.''" by code_simp
  then show ?thesis unfolding dir_path_def Nil by simp
next
  case (Cons c r)
  then have c: "c = SEP" using hd_dropWhile [of "\<lambda>c. c \<noteq> SEP" "rev p"] by simp
  have "length (c # r) \<le> length p" using length_dropWhile_le [of "\<lambda>c. c \<noteq> SEP" "rev p"] Cons by simp
  then show ?thesis using clean_path_shorter [of "rev r"] Cons c by (auto simp: dir_path_def)
qed

end
