(* ===== verification/Fileparse.thy ===== *)
theory Fileparse
  imports Go_Path Oscillation
begin

text \<open>
  \<open>internal/attractor/fileparse.go\<close> and the file writing of \<open>attractor.go\<close>: the block format in
  which a model returns files, the path checks, the merge with the previous best files and the
  containment check in front of every write. The operating system is a parameter.
\<close>

datatype file_error =
    NoFiles
  | PathTraversal
  | SliceBounds
  | AbsDirError
  | AbsPathError gostring
  | EscapesWorkspace gostring
  | MkdirError gostring
  | WriteError gostring

definition filePrefix :: gostring where "filePrefix = ''=== FILE: ''"
definition fileSuffix :: gostring where "fileSuffix = '' ===''"
definition fileEnd :: gostring where "fileEnd = ''=== END FILE ===''"
definition unchangedPrefix :: gostring where "unchangedPrefix = ''=== UNCHANGED: ''"
definition unchangedSuffix :: gostring where "unchangedSuffix = '' ===''"



record parseResult =
  pr_Files :: files
  pr_DroppedFiles :: "gostring list"
  pr_Truncated :: bool

text \<open>Go's slice expression \<open>s[a:b]\<close>, whose bounds are checked at run time.\<close>

definition go_slice :: "gostring \<Rightarrow> nat \<Rightarrow> nat \<Rightarrow> gostring option" where
  "go_slice s a b = (if a \<le> b \<and> b \<le> length s then Some (take (b - a) (drop a s)) else None)"

text \<open>\<open>Inr None\<close> is the \<open>("", false)\<close> of the code; \<open>Inl SliceBounds\<close> its run-time panic.\<close>

definition extractFilePath :: "gostring \<Rightarrow> file_error + gostring option" where
  "extractFilePath trimmed =
     (if \<not> has_prefix trimmed filePrefix \<or> \<not> has_suffix trimmed fileSuffix then Inr None
      else case go_slice trimmed (length filePrefix) (length trimmed - length fileSuffix) of
             None \<Rightarrow> Inl SliceBounds
           | Some s \<Rightarrow> let path = trim_space s in if path = [] then Inr None else Inr (Some path))"

definition isUnchangedMarker :: "gostring \<Rightarrow> bool" where
  "isUnchangedMarker trimmed \<longleftrightarrow> has_prefix trimmed unchangedPrefix \<and> has_suffix trimmed unchangedSuffix"

definition validatePath :: "gostring \<Rightarrow> file_error option" where
  "validatePath path =
     (if has_prefix path [SEP] then Some PathTraversal
      else if List.member (split_on SEP (clean_path path)) dotdot then Some PathTraversal
      else None)"

definition normalizeTrailingNewline :: "gostring \<Rightarrow> gostring" where
  "normalizeTrailingNewline s = (let t = trim_right_nl s in if t = [] then [NL] else t @ [NL])"

record parseState =
  ps_files :: files
  ps_dropped :: "gostring list"
  ps_path :: gostring
  ps_content :: gostring

definition parse_start :: parseState where
  "parse_start = \<lparr>ps_files = [], ps_dropped = [], ps_path = [], ps_content = []\<rparr>"

text \<open>One pass of the loop of \<open>ParseFilesWithMetadata\<close>.\<close>

definition parse_line :: "gostring \<Rightarrow> parseState \<Rightarrow> file_error + parseState" where
  "parse_line line s =
     (let trimmed = trim_space line in
      if ps_path s = [] \<and> isUnchangedMarker trimmed then Inr s
      else case extractFilePath trimmed of
             Inl e \<Rightarrow> Inl e
           | Inr (Some path) \<Rightarrow>
               (case validatePath path of
                  Some e \<Rightarrow> Inl e
                | None \<Rightarrow>
                    Inr (s\<lparr>ps_dropped := (if ps_path s \<noteq> [] then ps_dropped s @ [ps_path s] else ps_dropped s),
                           ps_path := path, ps_content := []\<rparr>))
           | Inr None \<Rightarrow>
               if trimmed = fileEnd \<and> ps_path s \<noteq> [] then
                 Inr (s\<lparr>ps_files := gm_put (ps_path s) (normalizeTrailingNewline (ps_content s)) (ps_files s),
                        ps_path := [], ps_content := []\<rparr>)
               else if ps_path s \<noteq> [] then Inr (s\<lparr>ps_content := ps_content s @ line @ [NL]\<rparr>)
               else Inr s)"

fun parse_lines :: "gostring list \<Rightarrow> parseState \<Rightarrow> file_error + parseState" where
  "parse_lines [] s = Inr s"
| "parse_lines (l # ls) s = (case parse_line l s of Inl e \<Rightarrow> Inl e | Inr s' \<Rightarrow> parse_lines ls s')"

definition ParseFilesWithMetadata :: "gostring \<Rightarrow> file_error + parseResult" where
  "ParseFilesWithMetadata output =
     (case parse_lines (split_on NL output) parse_start of
        Inl e \<Rightarrow> Inl e
      | Inr s \<Rightarrow>
          let truncated = (ps_path s \<noteq> []);
              dropped = (if truncated then ps_dropped s @ [ps_path s] else ps_dropped s)
          in if ps_files s = [] then Inl NoFiles
             else Inr \<lparr>pr_Files = ps_files s, pr_DroppedFiles = dropped, pr_Truncated = truncated\<rparr>)"

definition ParseFiles :: "gostring \<Rightarrow> file_error + files" where
  "ParseFiles output = (case ParseFilesWithMetadata output of Inl e \<Rightarrow> Inl e | Inr r \<Rightarrow> Inr (pr_Files r))"

definition mergeFiles :: "files \<Rightarrow> files \<Rightarrow> files" where
  "mergeFiles newFiles prevFiles = gm_copy (gm_copy [] prevFiles) newFiles"

section \<open>Writing files\<close>

text \<open>
  What the code asks of the operating system: the working directory, which \<open>filepath.Abs\<close> may
  fail to learn, and the two calls that change the file system, each with its success flag.
\<close>

record 'fs os =
  os_Getwd :: "gostring option"
  os_MkdirAll :: "gostring \<Rightarrow> 'fs \<Rightarrow> 'fs \<times> bool"
  os_WriteFile :: "gostring \<Rightarrow> gostring \<Rightarrow> 'fs \<Rightarrow> 'fs \<times> bool"

definition os_Abs :: "'fs os \<Rightarrow> gostring \<Rightarrow> gostring option" where
  "os_Abs w p = (if is_rooted p then Some (clean_path p)
                 else case os_Getwd w of None \<Rightarrow> None | Some cwd \<Rightarrow> Some (join_path [cwd, p]))"

definition writeOneFile :: "'fs os \<Rightarrow> gostring \<Rightarrow> gostring \<Rightarrow> gostring \<Rightarrow> 'fs \<Rightarrow> 'fs \<times> file_error option" where
  "writeOneFile w absDir path content fs =
     (let fullPath = join_path [absDir, path] in
      case os_Abs w fullPath of
        None \<Rightarrow> (fs, Some (AbsPathError path))
      | Some absPath \<Rightarrow>
          if \<not> has_prefix absPath (absDir @ [SEP]) then (fs, Some (EscapesWorkspace path))
          else case os_MkdirAll w (dir_path absPath) fs of
                 (fs1, ok1) \<Rightarrow>
                   if \<not> ok1 then (fs1, Some (MkdirError (dir_path path)))
                   else case os_WriteFile w absPath content fs1 of
                          (fs2, ok2) \<Rightarrow> (fs2, if ok2 then None else Some (WriteError path)))"

fun write_each :: "'fs os \<Rightarrow> gostring \<Rightarrow> files \<Rightarrow> 'fs \<Rightarrow> 'fs \<times> file_error option" where
  "write_each w absDir [] fs = (fs, None)"
| "write_each w absDir ((path, content) # rest) fs =
     (case writeOneFile w absDir path content fs of
        (fs', Some e) \<Rightarrow> (fs', Some e)
      | (fs', None) \<Rightarrow> write_each w absDir rest fs')"

definition writeFiles :: "'fs os \<Rightarrow> gostring \<Rightarrow> files \<Rightarrow> 'fs \<Rightarrow> 'fs \<times> file_error option" where
  "writeFiles w dir fls fs =
     (case os_Abs w dir of
        None \<Rightarrow> (fs, Some AbsDirError)
      | Some absDir \<Rightarrow> write_each w absDir fls fs)"

section \<open>Headers\<close>

lemma plain_eq: "plain_byte (CHR ''='')"
  unfolding plain_byte_code by code_simp

lemma trim_marker:
  "prefix ''==='' s \<Longrightarrow> suffix ''==='' s \<Longrightarrow> trim_space s = s"
proof -
  assume "prefix ''==='' s" "suffix ''==='' s"
  then obtain a b where s: "s = ''==='' @ a" "s = b @ ''===''" by (elim prefixE suffixE)
  then have "s \<noteq> []" by simp
  moreover have "hd s = CHR ''=''" using s(1) by simp
  moreover have "last s = CHR ''=''" using s(2) by simp
  ultimately show ?thesis using plain_eq by (intro trim_space_plain) simp_all
qed

definition header :: "gostring \<Rightarrow> gostring" where
  "header p = filePrefix @ p @ fileSuffix"

lemma trim_header [simp]: "trim_space (header p) = header p"
  by (rule trim_marker) (auto simp: header_def filePrefix_def fileSuffix_def suffix_def)

lemma trim_fileEnd [simp]: "trim_space fileEnd = fileEnd"
  by (rule trim_marker) (auto simp: fileEnd_def suffix_def)

lemma header_not_unchanged [simp]: "\<not> isUnchangedMarker (header p)"
  by (simp add: isUnchangedMarker_def header_def filePrefix_def unchangedPrefix_def)

lemma extract_header [simp]:
  "trim_space p = p \<Longrightarrow> p \<noteq> [] \<Longrightarrow> extractFilePath (header p) = Inr (Some p)"
  by (simp add: extractFilePath_def header_def go_slice_def suffix_def)

lemma extract_fileEnd [simp]: "extractFilePath fileEnd = Inr None"
  by (simp add: extractFilePath_def fileEnd_def filePrefix_def)

lemma extract_Nil [simp]: "extractFilePath [] = Inr None"
  by (simp add: extractFilePath_def filePrefix_def)

text \<open>A header of exactly this form, with one space, passes both marker tests and crosses the
  bounds of the slice that is then taken.\<close>

definition crashing_header :: gostring where "crashing_header = ''=== FILE: ===''"

text \<open>Extracting a path from a header line panics on \<open>=== FILE: ===\<close> and on no other line.\<close>

theorem extractFilePath_panics_iff:
  "(\<exists>e. extractFilePath s = Inl e) \<longleftrightarrow> s = crashing_header"
proof -
  have fwd: "s = crashing_header"
    if pre: "prefix filePrefix s" and suf: "suffix fileSuffix s" and len: "length s < 14"
  proof -
    from pre obtain r where s: "s = filePrefix @ r" by (auto simp: prefix_def)
    with len have "length r < 4" by (simp add: filePrefix_def)
    then consider "r = []" | a where "r = [a]" | a b where "r = [a, b]" | a b c where "r = [a, b, c]"
      by (cases r; cases "tl r"; cases "tl (tl r)"; cases "tl (tl (tl r))") auto
    then show ?thesis
      using suf by cases (auto simp: s suffix_to_prefix filePrefix_def fileSuffix_def crashing_header_def)
  qed
  have "(\<exists>e. extractFilePath s = Inl e) \<longleftrightarrow>
      prefix filePrefix s \<and> suffix fileSuffix s \<and> length s < 14"
    by (auto simp: extractFilePath_def go_slice_def Let_def filePrefix_def fileSuffix_def
        split: if_splits)
  with fwd show ?thesis
    by (auto simp: crashing_header_def filePrefix_def fileSuffix_def suffix_to_prefix)
qed

section \<open>Round trip\<close>

text \<open>The block format in which \<open>buildPatchMessages\<close> shows the files to a model and in which the
  model is told to answer.\<close>

definition render_file :: "gostring \<times> gostring \<Rightarrow> gostring" where
  "render_file f = header (fst f) @ [NL] @ snd f @ fileEnd @ [NL, NL]"

definition render_files :: "files \<Rightarrow> gostring" where
  "render_files fs = concat (map render_file fs)"

definition body_line :: "gostring \<Rightarrow> bool" where
  "body_line l \<longleftrightarrow> extractFilePath (trim_space l) = Inr None \<and> trim_space l \<noteq> fileEnd"

definition path_ok :: "gostring \<Rightarrow> bool" where
  "path_ok p \<longleftrightarrow> p \<noteq> [] \<and> trim_space p = p \<and> NL \<notin> set p \<and> validatePath p = None"

definition file_ok :: "gostring \<times> gostring \<Rightarrow> bool" where
  "file_ok f \<longleftrightarrow> path_ok (fst f) \<and> normalizeTrailingNewline (snd f) = snd f \<and>
     list_all body_line (split_on NL (snd f))"

lemma normalize_ends: "\<exists>t. normalizeTrailingNewline s = t @ [NL]"
  by (simp add: normalizeTrailingNewline_def Let_def)

lemma trim_right_nl_simps [simp]:
  "trim_right_nl [] = []"
  "trim_right_nl (t @ [NL]) = trim_right_nl t"
  "trim_right_nl (trim_right_nl t) = trim_right_nl t"
  by (simp_all add: trim_right_nl_def dropWhile_idem)

lemma normalize_idem [simp]:
  "normalizeTrailingNewline (normalizeTrailingNewline s) = normalizeTrailingNewline s"
  using trim_right_nl_simps(2) [of "[]"]
  by (cases "trim_right_nl s = []") (simp_all add: normalizeTrailingNewline_def Let_def)

lemma join_lines: "concat (map (\<lambda>l. l @ [NL]) (split_on NL t)) = t @ [NL]"
proof (induction t)
  case (Cons x t)
  then show ?case by (cases "split_on NL t") auto
qed simp

lemma parse_lines_append:
  "parse_lines (ls @ ms) s = (case parse_lines ls s of Inl e \<Rightarrow> Inl e | Inr s' \<Rightarrow> parse_lines ms s')"
  by (induction ls arbitrary: s) (auto split: sum.splits)

lemma parse_body:
  "list_all body_line ls \<Longrightarrow> ps_path s \<noteq> [] \<Longrightarrow>
   parse_lines ls s = Inr (s\<lparr>ps_content := ps_content s @ concat (map (\<lambda>l. l @ [NL]) ls)\<rparr>)"
  by (induction ls arbitrary: s) (auto simp: parse_line_def body_line_def Let_def)

lemma parse_outside:
  "list_all (\<lambda>l. extractFilePath (trim_space l) = Inr None) ls \<Longrightarrow> ps_path s = [] \<Longrightarrow>
   parse_lines ls s = Inr s"
  by (induction ls arbitrary: s) (auto simp: parse_line_def Let_def)

lemma gm_put_fresh: "gm_get m k = None \<Longrightarrow> gm_put k v m = m @ [(k, v)]"
  unfolding gm_get_def gm_put_def by (induction m) (auto split: if_splits)

lemma split_render:
  assumes "file_ok f"
  shows "\<exists>ls. split_on NL (render_file f @ rest) = header (fst f) # ls @ [fileEnd, []] @ split_on NL rest \<and>
    list_all body_line ls \<and> concat (map (\<lambda>l. l @ [NL]) ls) = snd f"
proof -
  have nl: "NL \<notin> set (header (fst f))" "NL \<notin> set fileEnd"
    using assms by (auto simp: file_ok_def path_ok_def header_def filePrefix_def fileSuffix_def
        fileEnd_def)
  obtain t where t: "snd f = t @ [NL]"
    using normalize_ends [of "snd f"] assms by (auto simp: file_ok_def)
  have "render_file f @ rest = header (fst f) @ NL # (t @ NL # (fileEnd @ NL # ([] @ NL # rest)))"
    by (simp add: render_file_def t)
  then have "split_on NL (render_file f @ rest) =
      header (fst f) # split_on NL t @ [fileEnd, []] @ split_on NL rest"
    by (simp only: split_on_append2 split_on_no_sep [OF nl(1)] split_on_no_sep [OF nl(2)]) simp
  moreover have "list_all body_line (split_on NL t)"
    using assms by (simp add: file_ok_def t split_on_append2)
  ultimately show ?thesis using join_lines [of t] t by auto
qed

lemma parse_render_file:
  assumes f: "file_ok f" and fresh: "gm_get (ps_files s) (fst f) = None" and out: "ps_path s = []"
    "ps_content s = []"
  shows "parse_lines (split_on NL (render_file f @ rest)) s =
    parse_lines (split_on NL rest) (s\<lparr>ps_files := ps_files s @ [f]\<rparr>)"
proof -
  obtain ls where sp: "split_on NL (render_file f @ rest) =
      header (fst f) # ls @ [fileEnd, []] @ split_on NL rest"
    and ls: "list_all body_line ls" "concat (map (\<lambda>l. l @ [NL]) ls) = snd f"
    using split_render [OF f] by blast
  let ?s1 = "s\<lparr>ps_path := fst f, ps_content := []\<rparr>"
  have p: "fst f \<noteq> []" "trim_space (fst f) = fst f" "validatePath (fst f) = None"
    using f by (simp_all add: file_ok_def path_ok_def)
  have head: "parse_line (header (fst f)) s = Inr ?s1"
    using p out by (simp add: parse_line_def)
  have body: "parse_lines ls ?s1 = Inr (?s1\<lparr>ps_content := snd f\<rparr>)"
    using parse_body [OF ls(1), of ?s1] p ls(2) by simp
  have close: "parse_line fileEnd (?s1\<lparr>ps_content := snd f\<rparr>) =
      Inr (s\<lparr>ps_files := ps_files s @ [f]\<rparr>)"
    using p out f gm_put_fresh [OF fresh, of "snd f"] by (simp add: parse_line_def file_ok_def)
  show ?thesis
    using head body close out
    by (simp add: sp parse_lines_append) (simp add: parse_line_def Let_def)
qed

lemma parse_render_files:
  "list_all file_ok fs \<Longrightarrow> distinct (map fst (ps_files s @ fs)) \<Longrightarrow> ps_path s = [] \<Longrightarrow> ps_content s = [] \<Longrightarrow>
   parse_lines (split_on NL (render_files fs)) s = Inr (s\<lparr>ps_files := ps_files s @ fs\<rparr>)"
proof (induction fs arbitrary: s)
  case Nil
  then show ?case by (simp add: render_files_def parse_line_def)
next
  case (Cons f fs)
  from Cons.prems have "gm_get (ps_files s) (fst f) = None"
    by (auto simp: gm_get_def map_of_eq_None_iff)
  from parse_render_file [OF _ this, of "render_files fs"] Cons
  show ?case by (simp add: render_files_def)
qed

text \<open>C18. Files printed in the block format, after any text without headers, are parsed back:
  the same paths with the same contents, nothing dropped, not truncated.\<close>

theorem ParseFiles_roundtrip:
  assumes "fs \<noteq> []" and "list_all file_ok fs" and "distinct (map fst fs)"
    and "list_all (\<lambda>l. extractFilePath (trim_space l) = Inr None) (split_on NL pre)"
  shows "ParseFilesWithMetadata (pre @ [NL] @ render_files fs) =
    Inr \<lparr>pr_Files = fs, pr_DroppedFiles = [], pr_Truncated = False\<rparr>"
proof -
  have "parse_lines (split_on NL (pre @ NL # render_files fs)) parse_start =
      Inr (parse_start\<lparr>ps_files := fs\<rparr>)"
    using parse_outside [OF assms(4), of parse_start] parse_render_files [OF assms(2), of parse_start] assms(3)
    by (simp add: split_on_append2 parse_lines_append) (simp add: parse_start_def)
  with assms(1) show ?thesis by (simp add: ParseFilesWithMetadata_def parse_start_def)
qed

definition sample_files :: files where
  "sample_files = [(''cmd/main.go'', ''package main'' @ [NL]), (''go.mod'', ''module x'' @ [NL, NL] @ ''go 1.22'' @ [NL])]"

lemma sample_ok: "list_all file_ok sample_files"
  by code_simp

theorem ParseFiles_roundtrip_witness:
  "ParseFilesWithMetadata (''Sure, here it is:'' @ [NL] @ render_files sample_files) =
    Inr \<lparr>pr_Files = sample_files, pr_DroppedFiles = [], pr_Truncated = False\<rparr>"
proof (rule ParseFiles_roundtrip [OF _ sample_ok])
  show "list_all (\<lambda>l. extractFilePath (trim_space l) = Inr None) (split_on NL ''Sure, here it is:'')"
    by code_simp
qed (simp_all add: sample_files_def)

section \<open>What a successful parse contains\<close>

definition parse_safe :: "parseState \<Rightarrow> bool" where
  "parse_safe s \<longleftrightarrow> gm_wf (ps_files s) \<and> (ps_path s \<noteq> [] \<longrightarrow> validatePath (ps_path s) = None) \<and>
     (\<forall>(p, c) \<in> set (ps_files s). p \<noteq> [] \<and> validatePath p = None \<and> normalizeTrailingNewline c = c)"

lemma gm_put_set: "set (gm_put k v m) \<subseteq> insert (k, v) (set m)"
  unfolding gm_put_def by (induction m) auto

lemma parse_line_cases:
  assumes "parse_line l s = Inr s'"
  obtains (same) "ps_files s' = ps_files s" "ps_path s' = ps_path s"
  | (header) "ps_files s' = ps_files s" "validatePath (ps_path s') = None"
  | (close) "ps_files s' = gm_put (ps_path s) (normalizeTrailingNewline (ps_content s)) (ps_files s)"
      "ps_path s \<noteq> []" "ps_path s' = []"
  using assms unfolding parse_line_def Let_def
  by (simp split: if_split_asm sum.split_asm option.split_asm) (auto split: if_split_asm)

lemma parse_line_safe: "parse_line l s = Inr s' \<Longrightarrow> parse_safe s \<Longrightarrow> parse_safe s'"
proof -
  assume safe: "parse_safe s" and step: "parse_line l s = Inr s'"
  from step show ?thesis
  proof (cases rule: parse_line_cases)
    case close
    then show ?thesis
      using safe gm_put_set [of "ps_path s" "normalizeTrailingNewline (ps_content s)" "ps_files s"]
      unfolding parse_safe_def by auto
  qed (use safe in \<open>simp_all add: parse_safe_def\<close>)
qed

lemma parse_lines_safe: "parse_lines ls s = Inr s' \<Longrightarrow> parse_safe s \<Longrightarrow> parse_safe s'"
  by (induction ls arbitrary: s) (auto split: sum.splits dest: parse_line_safe)

lemma Parse_safe:
  assumes "ParseFilesWithMetadata out = Inr r"
  shows "gm_wf (pr_Files r) \<and> pr_Files r \<noteq> [] \<and>
    (\<forall>(p, c) \<in> set (pr_Files r). p \<noteq> [] \<and> validatePath p = None \<and> normalizeTrailingNewline c = c)"
proof -
  obtain s where run: "parse_lines (split_on NL out) parse_start = Inr s"
    and r: "ps_files s \<noteq> []" "pr_Files r = ps_files s"
    using assms unfolding ParseFilesWithMetadata_def Let_def
    by (simp split: sum.split_asm if_split_asm) auto
  have "parse_safe parse_start" by (simp add: parse_safe_def parse_start_def)
  from parse_lines_safe [OF run this] r show ?thesis by (simp add: parse_safe_def)
qed

section \<open>Containment\<close>

text \<open>The two calls of a permitted write, at an absolute path.\<close>

definition os_put :: "'fs os \<Rightarrow> gostring \<Rightarrow> gostring \<Rightarrow> gostring \<Rightarrow> 'fs \<Rightarrow> 'fs \<times> file_error option" where
  "os_put w target path content fs =
     (case os_MkdirAll w (dir_path target) fs of
        (fs1, False) \<Rightarrow> (fs1, Some (MkdirError (dir_path path)))
      | (fs1, True) \<Rightarrow>
          (case os_WriteFile w target content fs1 of
             (fs2, ok) \<Rightarrow> (fs2, if ok then None else Some (WriteError path))))"

lemma prefix_abs_of:
  assumes "list_all normal_comp base" "base \<noteq> []" "list_all normal_comp cs"
  shows "prefix (abs_of base @ [SEP]) (abs_of cs) \<longleftrightarrow> strict_prefix base cs"
proof
  assume "prefix (abs_of base @ [SEP]) (abs_of cs)"
  then obtain t where "abs_of cs = abs_of base @ SEP # t" by (auto simp: prefix_def)
  with assms(2) have eq: "abs_of cs = abs_of (base @ split_on SEP t)" by (simp add: abs_of_append)
  then have "split_on SEP (abs_of cs) = [] # (base @ split_on SEP t)"
    using assms by (simp add: abs_of_append [symmetric] split_on_append2 split_abs_of)
  with assms(1-3) have "cs = base @ split_on SEP t"
    by (cases "cs = []") (auto simp: split_abs_of normal_comp_def Cons_eq_append_conv)
  then show "strict_prefix base cs" by (auto simp: strict_prefix_def)
next
  assume "strict_prefix base cs"
  then obtain us where us: "cs = base @ us" "us \<noteq> []" by (auto simp: strict_prefix_def prefix_def)
  then obtain c ts where cs: "cs = base @ c # ts" by (cases us) auto
  have "split_on SEP (str_join [SEP] (c # ts)) = c # ts"
    using assms(3) cs by (intro split_on_join normal_no_sep) auto
  with abs_of_append [OF assms(2), of "str_join [SEP] (c # ts)"] cs
  have "abs_of cs = abs_of base @ SEP # str_join [SEP] (c # ts)" by simp
  then show "prefix (abs_of base @ [SEP]) (abs_of cs)" by (simp add: prefix_def)
qed

lemma writeOneFile_over:
  assumes "list_all normal_comp base" "base \<noteq> []"
  shows "writeOneFile w (abs_of base) path content fs =
    (if strict_prefix base (over base path) then os_put w (abs_of (over base path)) path content fs
     else (fs, Some (EscapesWorkspace path)))"
proof -
  note n = over_normal [OF assms(1), of path]
  have "os_Abs w (abs_of (over base path)) = Some (abs_of (over base path))"
    using n by (simp add: os_Abs_def)
  then show ?thesis
    using prefix_abs_of [OF assms n]
    by (simp add: writeOneFile_def join_abs_of [OF assms(1)] os_put_def Let_def
        split: prod.split bool.split)
qed

text \<open>Containment: whatever the path, \<open>writeOneFile\<close> either leaves the file system alone and
  reports the traversal, or touches exactly one absolute path, whose components are those of the
  workspace followed by at least one more, none of them a dot-dot.\<close>

theorem writeOneFile_contained:
  assumes "list_all normal_comp base" and "base \<noteq> []"
  shows "writeOneFile w (abs_of base) path content fs = (fs, Some (EscapesWorkspace path)) \<or>
    (\<exists>ts. ts \<noteq> [] \<and> list_all normal_comp ts \<and>
       writeOneFile w (abs_of base) path content fs = os_put w (abs_of (base @ ts)) path content fs)"
proof (cases "strict_prefix base (over base path)")
  case True
  then obtain ts where ts: "over base path = base @ ts" "ts \<noteq> []"
    by (auto simp: strict_prefix_def prefix_def)
  with over_normal [OF assms(1), of path] have "list_all normal_comp ts" by simp
  with ts True show ?thesis by (auto simp: writeOneFile_over [OF assms])
next
  case False
  then show ?thesis by (simp add: writeOneFile_over [OF assms])
qed

definition log_os :: "(gostring \<times> gostring) list os" where
  "log_os = \<lparr>os_Getwd = None, os_MkdirAll = (\<lambda>d fs. (fs, True)),
             os_WriteFile = (\<lambda>p c fs. (fs @ [(p, c)], True))\<rparr>"

theorem writeOneFile_contained_witness:
  "writeOneFile log_os (abs_of [''work'', ''iter_1'']) ''../iter_2/x'' ''data'' [] =
     ([], Some (EscapesWorkspace ''../iter_2/x''))"
proof -
  have "\<not> strict_prefix [''work'', ''iter_1''] (over [''work'', ''iter_1''] ''../iter_2/x'')" by code_simp
  then have "writeOneFile log_os (abs_of [''work'', ''iter_1'']) ''../iter_2/x'' ''data'' [] \<noteq>
      os_put log_os (abs_of ([''work'', ''iter_1''] @ ts)) ''../iter_2/x'' ''data'' []" for ts
    by (subst writeOneFile_over) (code_simp, simp_all add: os_put_def log_os_def)
  moreover have "list_all normal_comp [''work'', ''iter_1'']" by code_simp
  ultimately show ?thesis
    using writeOneFile_contained [of "[''work'', ''iter_1'']" log_os "''../iter_2/x''" "''data''" "[]"]
    by blast
qed

lemma validatePath_ups: "validatePath path = None \<longleftrightarrow> \<not> is_rooted path \<and> ups path = 0"
proof (cases "is_rooted path")
  case True
  then show ?thesis by (simp add: validatePath_def is_rooted_def)
next
  case False
  have cs: "clean_comps path = replicate (ups path) dotdot @ downs path" "list_all normal_comp (downs path)"
    using over_split [of "[]" path] False by (simp_all add: clean_comps_def)
  have nosep: "\<forall>x \<in> set (clean_comps path). SEP \<notin> set x"
    using normal_no_sep [OF cs(2)] by (auto simp: cs(1) dotdot_def)
  have nd: "dotdot \<notin> set (downs path)"
    using cs(2) by (auto simp: list_all_iff)
  have "split_on SEP (clean_path path) = (if clean_comps path = [] then [''.''] else clean_comps path)"
    using False split_on_join [OF _ nosep] by (simp add: clean_path_def Let_def)
  moreover have "dotdot \<in> set (clean_comps path) \<longleftrightarrow> ups path \<noteq> 0"
    using nd by (auto simp: cs(1))
  moreover have "dotdot \<noteq> ''.''" by (simp add: dotdot_def)
  ultimately show ?thesis
    using False by (auto simp: validatePath_def is_rooted_def)
qed

text \<open>A path the parser accepts is written under the workspace at its own cleaned
  components. The one exception is a path that cleans to nothing, such as \<open>.\<close>: the parser accepts
  it and the write then reports a traversal.\<close>

theorem validatePath_write:
  assumes "list_all normal_comp base" and "base \<noteq> []" and "validatePath path = None"
  shows "writeOneFile w (abs_of base) path content fs =
    (if downs path = [] then (fs, Some (EscapesWorkspace path))
     else os_put w (abs_of (base @ downs path)) path content fs)"
proof -
  have "over base path = base @ downs path"
    using over_split [OF assms(1), of path] assms(3) by (simp add: validatePath_ups)
  then show ?thesis
    by (simp add: writeOneFile_over [OF assms(1,2)] strict_prefix_def)
qed

theorem validatePath_write_witness:
  "writeOneFile log_os (abs_of [''work'']) ''a/../b/./c.go'' ''data'' [] =
     ([(''/work/b/c.go'', ''data'')], None) \<and>
   writeOneFile log_os (abs_of [''work'']) ''a/..'' ''data'' [] = ([], Some (EscapesWorkspace ''a/..''))"
proof -
  have b: "list_all normal_comp [''work'']" by code_simp
  have v: "validatePath ''a/../b/./c.go'' = None" "validatePath ''a/..'' = None" by code_simp+
  have d: "downs ''a/../b/./c.go'' = [''b'', ''c.go'']" "downs ''a/..'' = []" by code_simp+
  show ?thesis
    using validatePath_write [OF b _ v(1), of log_os "''data''" "[]"]
      validatePath_write [OF b _ v(2), of log_os "''data''" "[]"]
    by (simp add: d os_put_def log_os_def abs_of_def)
qed

text \<open>The files of a successful parse are non-empty, have distinct paths that pass the
  traversal check, and contents ending in exactly one newline; so every one of them can only be
  written inside the workspace.\<close>

theorem ParseFiles_safe:
  assumes "ParseFilesWithMetadata out = Inr r" and "list_all normal_comp base" and "base \<noteq> []"
  shows "pr_Files r \<noteq> [] \<and> distinct (map fst (pr_Files r)) \<and>
    (\<forall>(p, c) \<in> set (pr_Files r). normalizeTrailingNewline c = c \<and>
       writeOneFile w (abs_of base) p c fs =
         (if downs p = [] then (fs, Some (EscapesWorkspace p))
          else os_put w (abs_of (base @ downs p)) p c fs))"
  using Parse_safe [OF assms(1)] assms(2,3)
  by (auto simp: gm_wf_def writeOneFile_over strict_prefix_def validatePath_ups over_split)

lemma sample_parsed: "ParseFilesWithMetadata (render_files sample_files) =
    Inr \<lparr>pr_Files = sample_files, pr_DroppedFiles = [], pr_Truncated = False\<rparr>"
  using parse_render_files [OF sample_ok, of parse_start]
  by (simp add: ParseFilesWithMetadata_def parse_start_def) (simp add: sample_files_def)

theorem ParseFiles_safe_witness:
  "distinct (map fst sample_files) \<and>
   writeOneFile log_os (abs_of [''work'']) ''go.mod'' ''x'' [] = ([(''/work/go.mod'', ''x'')], None)"
proof -
  have b: "list_all normal_comp [''work'']" by code_simp
  have v: "validatePath ''go.mod'' = None" by code_simp
  have d: "downs ''go.mod'' = [''go.mod'']" by code_simp
  have "writeOneFile log_os (abs_of [''work'']) ''go.mod'' ''x'' [] =
      os_put log_os (abs_of ([''work''] @ downs ''go.mod'')) ''go.mod'' ''x'' []"
    using over_split [OF b, of "''go.mod''"] v d
    by (simp add: writeOneFile_over [OF b] validatePath_ups strict_prefix_def)
  with ParseFiles_safe [OF sample_parsed b, of log_os "[]"] show ?thesis
    by (simp add: d os_put_def log_os_def abs_of_def)
qed

section \<open>Merging\<close>

text \<open>Carry-forward: a merged file set maps a path to the new content where the new output has
  the path, and to the previous content otherwise.\<close>

theorem mergeFiles_lookup:
  assumes "gm_wf newFiles" and "gm_wf prevFiles"
  shows "gm_get (mergeFiles newFiles prevFiles) p =
    (case gm_get newFiles p of Some c \<Rightarrow> Some c | None \<Rightarrow> gm_get prevFiles p)"
  using assms by (simp add: mergeFiles_def gm_get_copy gm_wf_def split: option.split)

theorem mergeFiles_lookup_witness:
  "gm_get (mergeFiles [(''a'', ''2'')] [(''a'', ''1''), (''b'', ''1'')]) ''b'' = Some ''1''"
  using mergeFiles_lookup [of "[(''a'', ''2'')]" "[(''a'', ''1''), (''b'', ''1'')]" "''b''"]
  by (simp add: gm_wf_def gm_get_def)

end
