(* ===== verification/Go_Parse.thy ===== *)
theory Go_Parse
  imports Go_Strings Go_Float
begin

text \<open>
  Go's \<open>strconv.ParseFloat(s, 64)\<close> and \<open>strconv.Atoi\<close>: the literal syntax (decimal and hexadecimal,
  exponents, underscores between digits, the special values), correct rounding, and the range
  error on overflow. \<open>None\<close> is any error. A negative zero is identified with zero.
\<close>

definition lower_ascii :: "gostring \<Rightarrow> gostring" where
  "lower_ascii s = map lower_byte s"

definition split_sign :: "gostring \<Rightarrow> bool \<times> gostring" where
  "split_sign s = (case s of
      [] \<Rightarrow> (False, [])
    | c # t \<Rightarrow> if c = CHR ''-'' then (True, t) else if c = CHR ''+'' then (False, t) else (False, s))"

definition parse_special :: "gostring \<Rightarrow> float64 option" where
  "parse_special s =
     (let (neg, t) = split_sign s; l = lower_ascii t in
      if l = ''inf'' \<or> l = ''infinity'' then Some (FInf neg)
      else if lower_ascii s = ''nan'' then Some FNaN
      else None)"

definition hex_digit :: "bool \<Rightarrow> char \<Rightarrow> nat option" where
  "hex_digit hex c =
     (let l = lower_byte c in
      if is_digit c then Some (digit_val c)
      else if hex \<and> CHR ''a'' \<le> l \<and> l \<le> CHR ''f'' then Some (of_char l - 87)
      else None)"

text \<open>The digits of the mantissa, how many of them stand after the point, and the rest.\<close>

fun scan_mant :: "bool \<Rightarrow> bool \<Rightarrow> gostring \<Rightarrow> nat list \<times> nat \<times> gostring" where
  "scan_mant hex dot [] = ([], 0, [])"
| "scan_mant hex dot (c # s) =
     (if c = CHR ''_'' then scan_mant hex dot s
      else if c = CHR ''.'' then (if dot then ([], 0, c # s) else scan_mant hex True s)
      else case hex_digit hex c of
             None \<Rightarrow> ([], 0, c # s)
           | Some d \<Rightarrow> (case scan_mant hex dot s of (ds, k, r) \<Rightarrow> (d # ds, (if dot then Suc k else k), r)))"

fun scan_exp_digits :: "nat \<Rightarrow> gostring \<Rightarrow> nat \<times> gostring" where
  "scan_exp_digits e [] = (e, [])"
| "scan_exp_digits e (c # s) =
     (if c = CHR ''_'' then scan_exp_digits e s
      else if is_digit c then scan_exp_digits (if e < 10000 then e * 10 + digit_val c else e) s
      else (e, c # s))"

text \<open>The optional exponent: its value, or \<open>None\<close> for a syntax error.\<close>

definition scan_exp :: "bool \<Rightarrow> gostring \<Rightarrow> (int \<times> gostring) option" where
  "scan_exp hex s =
     (case s of
        c # t \<Rightarrow>
          if lower_byte c = (if hex then CHR ''p'' else CHR ''e'') then
            (case split_sign t of (neg, u) \<Rightarrow>
               (case u of
                  [] \<Rightarrow> None
                | d # _ \<Rightarrow>
                    if is_digit d then
                      (case scan_exp_digits 0 u of (e, r) \<Rightarrow> Some (if neg then - int e else int e, r))
                    else None))
          else if hex then None else Some (0, s)
      | [] \<Rightarrow> if hex then None else Some (0, s))"

fun underscore_scan :: "bool \<Rightarrow> char \<Rightarrow> gostring \<Rightarrow> bool" where
  "underscore_scan hex saw [] = (saw \<noteq> CHR ''_'')"
| "underscore_scan hex saw (c # s) =
     (if hex_digit hex c \<noteq> None then underscore_scan hex (CHR ''0'') s
      else if c = CHR ''_'' then saw = CHR ''0'' \<and> underscore_scan hex (CHR ''_'') s
      else saw \<noteq> CHR ''_'' \<and> underscore_scan hex (CHR ''!'') s)"

definition underscoreOK :: "gostring \<Rightarrow> bool" where
  "underscoreOK s =
     (let t = snd (split_sign s); p = lower_ascii (take 2 t) in
      if p = ''0b'' \<or> p = ''0o'' \<or> p = ''0x'' then underscore_scan (p = ''0x'') (CHR ''0'') (drop 2 t)
      else underscore_scan False (CHR ''^'') t)"

definition digits_num :: "nat \<Rightarrow> nat list \<Rightarrow> nat" where
  "digits_num b ds = fold (\<lambda>d v. b * v + d) ds 0"

definition parse_number :: "gostring \<Rightarrow> rat option" where
  "parse_number s =
     (let (neg, t) = split_sign s;
          hex = (3 \<le> length t \<and> lower_ascii (take 2 t) = ''0x'');
          u = (if hex then drop 2 t else t);
          (ds, k, r) = scan_mant hex False u
      in if ds = [] then None
         else case scan_exp hex r of
                None \<Rightarrow> None
              | Some (e, rest) \<Rightarrow>
                  if rest \<noteq> [] \<or> (List.member s (CHR ''_'') \<and> \<not> underscoreOK s) then None
                  else let m = (of_nat (digits_num (if hex then 16 else 10) ds) :: rat);
                           v = (if hex then m * pow2 (e - 4 * int k)
                                else if 0 \<le> e - int k then m * 10 ^ nat (e - int k)
                                else m / 10 ^ nat (int k - e))
                       in Some (if neg then - v else v))"

definition ParseFloat :: "gostring \<Rightarrow> float64 option" where
  "ParseFloat s =
     (case parse_special s of
        Some f \<Rightarrow> Some f
      | None \<Rightarrow>
          (case parse_number s of
             None \<Rightarrow> None
           | Some r \<Rightarrow> (case fl r of FInf _ \<Rightarrow> None | f \<Rightarrow> Some f)))"

section \<open>Reading back a formatted score\<close>

lemma is_digit_facts:
  assumes "is_digit c"
  shows "c \<noteq> CHR ''_''" "c \<noteq> CHR ''.''" "c \<noteq> CHR ''-''" "c \<noteq> CHR ''+''"
    "c \<noteq> CHR ''/''" "c \<noteq> CHR ''(''" "c \<noteq> CHR '')''" "c \<noteq> CHR ''n''" "c \<noteq> CHR ''N''"
    "c \<noteq> CHR ''i''" "lower_byte c = c"
  using assms by (auto simp: is_digit_def less_eq_char_def lower_byte_def)

lemma hex_digit_decimal [simp]: "is_digit c \<Longrightarrow> hex_digit h c = Some (digit_val c)"
  by (simp add: hex_digit_def Let_def)

lemma scan_mant_digits:
  "list_all is_digit s \<Longrightarrow> scan_mant hex dot s = (map digit_val s, (if dot then length s else 0), [])"
  by (induction hex dot s rule: scan_mant.induct) (auto simp: is_digit_facts)

lemma digits_num_val: "digits_num 10 (map digit_val s) = digits_val s"
  by (simp add: digits_num_def digits_val_def fold_map comp_def)

lemma nat_str_all_digits: "list_all is_digit (nat_str n)"
  using nat_str_digits [of _ n] by (simp add: list_all_iff)

lemma split_sign_digits: "s \<noteq> [] \<Longrightarrow> list_all is_digit s \<Longrightarrow> split_sign s = (False, s)"
  by (cases s) (auto simp: split_sign_def is_digit_facts)

lemma parse_number_digits:
  assumes "s \<noteq> []" and "list_all is_digit s"
  shows "parse_number s = Some (of_nat (digits_val s))"
proof -
  have nx: "lower_ascii (take 2 s) \<noteq> ''0x''"
  proof
    assume "lower_ascii (take 2 s) = ''0x''"
    then have "CHR ''x'' \<in> lower_byte ` set s"
      unfolding lower_ascii_def by (metis image_set in_mono list.set_intros set_take_subset image_mono insert_iff list.simps(15))
    with assms(2) have "is_digit (CHR ''x'')" by (auto simp: list_all_iff is_digit_facts)
    then show False by (simp add: is_digit_def less_eq_char_def)
  qed
  have nu: "CHR ''_'' \<notin> set s" using assms(2) is_digit_facts(1) by (auto simp: list_all_iff)
  show ?thesis
    using assms nx nu
    by (simp add: parse_number_def split_sign_digits scan_mant_digits scan_exp_def digits_num_val Let_def)
qed

lemma parse_special_digits:
  assumes "s \<noteq> []" and "list_all is_digit s"
  shows "parse_special s = None"
proof -
  from assms obtain c t where s: "s = c # t" "is_digit c" by (cases s) auto
  have l: "lower_ascii s = c # lower_ascii t" using s is_digit_facts [OF s(2)] by (simp add: lower_ascii_def)
  have "c \<noteq> CHR ''i''" "c \<noteq> CHR ''n''" using is_digit_facts [OF s(2)] by blast+
  with l show ?thesis
    by (simp add: parse_special_def split_sign_digits [OF assms] Let_def)
qed

text \<open>\<open>%.0f\<close> rounds to the nearest integer, halves to even; the parser returns that integer.\<close>

lemma ParseFloat_fmt:
  assumes "0 \<le> r" and "r < 2 ^ 52"
  shows "ParseFloat (fmt_f 0 (FNum r)) = Some (FNum (of_int (rhe r)))"
proof -
  have nn: "0 \<le> rhe r" by (rule rhe_nonneg [OF assms(1)])
  have "rhe r \<le> rhe (of_int (2 ^ 52))" using assms(2) by (intro rhe_mono) simp
  then have lt: "rhe r < 2 ^ 53" by (simp only: rhe_int) simp
  have "fmt_f 0 (FNum r) = nat_str (nat (rhe r))" using assms(1) by (simp add: fmt_abs_def)
  moreover have "ParseFloat (nat_str (nat (rhe r))) = Some (FNum (of_int (rhe r)))"
    using nn fl_small_int [OF nn lt] nat_str_all_digits
    by (simp add: ParseFloat_def parse_special_digits parse_number_digits)
  ultimately show ?thesis by simp
qed

end
