(* ===== verification/Regression.thy ===== *)
theory Regression
  imports Go_Parse
begin

text \<open>
  \<open>internal/attractor/regression.go\<close> and the scenario summary lines of \<open>prompts.go\<close>: the text
  format in which the validator hands scenario scores to the loop, the parsers that read it back,
  and the comparison of two validated iterations.
\<close>

text \<open>The UTF-8 bytes of the check mark, the ballot x and the right arrow.\<close>

definition check_mark :: gostring where "check_mark = [CHR 0xE2, CHR 0x9C, CHR 0x93]"
definition ballot_x :: gostring where "ballot_x = [CHR 0xE2, CHR 0x9C, CHR 0x97]"
definition right_arrow :: gostring where "right_arrow = [CHR 0xE2, CHR 0x86, CHR 0x92]"

definition passScenarioPrefix :: gostring where "passScenarioPrefix = check_mark @ '' ''"
definition failScenarioPrefix :: gostring where "failScenarioPrefix = ballot_x @ '' ''"

definition FormatScenarioFailureLine :: "gostring \<Rightarrow> float64 \<Rightarrow> gostring" where
  "FormatScenarioFailureLine sid score = failScenarioPrefix @ sid @ '' ('' @ fmt_f 0 score @ ''/100)''"

definition parseScenarioLine :: "gostring \<Rightarrow> (gostring \<times> float64) option" where
  "parseScenarioLine line =
     (let (rest, hasFail) = cut_prefix line failScenarioPrefix;
          (rest2, hasPass) = cut_prefix line passScenarioPrefix
      in if \<not> hasFail \<and> \<not> hasPass then None
         else let rest = (if hasFail then rest else rest2) in
           case str_last_index rest ''('' of
             None \<Rightarrow> None
           | Some parenIdx \<Rightarrow>
               let sid = trim_space (take parenIdx rest);
                   scoreStr = drop (parenIdx + 1) rest
               in case str_index scoreStr ''/100)'' of
                    None \<Rightarrow> None
                  | Some slashIdx \<Rightarrow>
                      (case ParseFloat (take slashIdx scoreStr) of
                         None \<Rightarrow> None
                       | Some s \<Rightarrow> Some (sid, s)))"

definition first_line :: "gostring \<Rightarrow> gostring" where
  "first_line entry = trim_space (fst (str_cut entry [NL]))"

fun parseAll_loop :: "gostring list \<Rightarrow> float64 gomap \<Rightarrow> float64 gomap" where
  "parseAll_loop [] result = result"
| "parseAll_loop (entry # es) result =
     (case parseScenarioLine (first_line entry) of
        None \<Rightarrow> parseAll_loop es result
      | Some (sid, score) \<Rightarrow> parseAll_loop es (gm_put sid score result))"

definition parseAllScenarios :: "gostring list \<Rightarrow> float64 gomap" where
  "parseAllScenarios failures = parseAll_loop failures []"

fun parseFailed_loop :: "gostring list \<Rightarrow> float64 gomap \<Rightarrow> float64 gomap" where
  "parseFailed_loop [] result = result"
| "parseFailed_loop (entry # es) result =
     (case parseScenarioLine (first_line entry) of
        None \<Rightarrow> parseFailed_loop es result
      | Some (sid, score) \<Rightarrow>
          if \<not> has_prefix (first_line entry) failScenarioPrefix then parseFailed_loop es result
          else parseFailed_loop es (gm_put sid score result))"

definition parseFailedScenarios :: "gostring list \<Rightarrow> float64 gomap" where
  "parseFailedScenarios failures = parseFailed_loop failures []"

record regression =
  rg_ScenarioID :: gostring
  rg_PrevScore :: float64
  rg_CurrScore :: float64
  rg_PrevIteration :: int
  rg_CurrIteration :: int

definition detectRegressions :: "float64 gomap \<Rightarrow> int \<Rightarrow> float64 gomap \<Rightarrow> int \<Rightarrow> float64 \<Rightarrow> regression list" where
  "detectRegressions prevScores prevIteration currScores currIteration threshold =
     (if prevScores = [] then []
      else sort_key rg_ScenarioID
        (List.map_filter
          (\<lambda>(sid, curr).
             case gm_get prevScores sid of
               None \<Rightarrow> None
             | Some prev \<Rightarrow>
                 if fleq threshold prev \<and> fless curr threshold then
                   Some \<lparr>rg_ScenarioID = sid, rg_PrevScore = prev, rg_CurrScore = curr,
                         rg_PrevIteration = prevIteration, rg_CurrIteration = currIteration\<rparr>
                 else None)
          currScores))"

definition formatRegressions :: "regression list \<Rightarrow> gostring" where
  "formatRegressions regressions =
     concat (map (\<lambda>r. ''scenario '' @ [CHR 0x27] @ rg_ScenarioID r @ [CHR 0x27] @ '' dropped from '' @
        fmt_f 0 (rg_PrevScore r) @ '' '' @ right_arrow @ '' '' @ fmt_f 0 (rg_CurrScore r) @
        '' (iteration '' @ int_str (rg_PrevIteration r) @ '' '' @ right_arrow @ '' '' @
        int_str (rg_CurrIteration r) @ '')'' @ [NL]) regressions)"

section \<open>The line format\<close>

lemma plain_ends: "plain_byte (CHR '')'')" "plain_byte (CHR '' '') = False"
  unfolding plain_byte_code by code_simp+

text \<open>A string that trimming leaves alone is left alone from either end.\<close>

lemma trim_fixed_ends:
  assumes "trim_space s = s"
  shows "trim_left s = s" "trim_right s = s"
proof -
  have "length (trim_right (trim_left s)) \<le> length (trim_left s)" "length (trim_left s) \<le> length s"
    using trim_right_prefix [THEN prefix_length_le] trim_left_suffix [THEN suffix_length_le] by blast+
  with assms have "length (trim_left s) = length s" by (simp add: trim_space_def)
  then show l: "trim_left s = s"
    using trim_left_suffix [of s] by (metis suffix_length_suffix suffix_order.order_antisym suffix_order.order_refl order_refl)
  with assms show "trim_right s = s" by (simp add: trim_space_def)
qed

lemma white_space_last:
  "list_all (\<lambda>w. w = '' '' \<or> last w \<noteq> CHR '' '') white_runes"
  by code_simp

lemma trim_left_snoc_space:
  assumes "trim_left s = s" and "s \<noteq> []"
  shows "trim_left (s @ '' '') = s @ '' ''"
  unfolding trim_left_def
proof (rule strip_lead_no, unfold list_all_iff, intro ballI)
  fix w
  assume w: "w \<in> set white_runes"
  have "w = [] \<or> \<not> prefix w s"
    using strip_lead_done [of white_runes s] w assms(1) by (simp add: trim_left_def list_all_iff)
  moreover have "w = '' '' \<or> last w \<noteq> CHR '' ''"
    using white_space_last w by (simp only: list_all_iff)
  ultimately show "w = [] \<or> \<not> prefix w (s @ '' '')"
    using assms(2) by (auto simp: prefix_append prefix_Cons append_eq_Cons_conv)
qed

lemma trim_right_snoc_space [simp]: "trim_right (s @ '' '') = trim_right s"
proof -
  have f: "find (\<lambda>w. w \<noteq> [] \<and> prefix w (CHR '' '' # t)) (map rev white_runes) = Some '' ''" for t
    by (simp add: white_runes_def)
  have "strip_lead (map rev white_runes) (CHR '' '' # t) = strip_lead (map rev white_runes) t" for t
    by (rule trans [OF strip_lead.simps]) (simp only: f option.case, simp)
  then show ?thesis by (simp add: trim_right_def)
qed

lemma trim_snoc_space: "trim_space s = s \<Longrightarrow> trim_space (s @ '' '') = s"
proof (cases "s = []")
  case True
  then show ?thesis by simp code_simp
next
  case False
  assume t: "trim_space s = s"
  show ?thesis
    using trim_left_snoc_space [OF trim_fixed_ends(1) [OF t] False] trim_fixed_ends(2) [OF t]
    by (simp add: trim_space_def)
qed

text \<open>A mark, a name and a score, as both formatters write them.\<close>

definition score_line :: "bool \<Rightarrow> gostring \<Rightarrow> float64 \<Rightarrow> gostring" where
  "score_line pass sid score =
     (if pass then passScenarioPrefix else failScenarioPrefix) @ sid @ '' ('' @ fmt_f 0 score @ ''/100)''"

lemma FormatScenarioFailureLine_score_line: "FormatScenarioFailureLine sid score = score_line False sid score"
  by (simp add: FormatScenarioFailureLine_def score_line_def)

lemma trim_mark:
  assumes "prefix [CHR 0xE2, CHR 0x9C] s" and "last s = CHR '')''"
  shows "trim_space s = s"
proof -
  from assms(1) obtain t where s: "s = CHR 0xE2 # CHR 0x9C # t" by (auto simp: prefix_def)
  have l: "trim_left s = s"
    unfolding trim_left_def by (rule strip_lead_no) (simp add: s white_runes_def)
  have "s \<noteq> []" by (simp add: s)
  with assms(2) plain_ends have "trim_right s = s"
    by (simp add: trim_right_def strip_lead_plain_last)
  with l show ?thesis by (simp add: trim_space_def)
qed

lemma trim_score_line [simp]: "trim_space (score_line p sid score) = score_line p sid score"
  by (rule trim_mark)
    (auto simp: score_line_def passScenarioPrefix_def failScenarioPrefix_def check_mark_def ballot_x_def)

lemma fmt_score [simp]: "fmt_abs 0 r = nat_str (nat (rhe r))"
  by (simp add: fmt_abs_def)

lemma str_index_skip: "\<forall>c \<in> set s. c \<noteq> d \<Longrightarrow> str_index (s @ d # t) (d # p) =
    map_option (\<lambda>i. length s + i) (str_index (d # t) (d # p))"
  by (induction s) (auto simp: option.map_comp comp_def)

lemma parse_score_line:
  assumes "trim_space sid = sid" and "0 \<le> r" and "r < 2 ^ 52"
  shows "parseScenarioLine (score_line p sid (FNum r)) = Some (sid, FNum (of_int (rhe r)))"
proof -
  let ?n = "nat_str (nat (rhe r))"
  have ne: "\<forall>c \<in> set ?n. c \<noteq> CHR ''/'' \<and> c \<noteq> CHR ''(''"
    using nat_str_digits is_digit_facts(5,6) by blast
  define rest where "rest = sid @ '' ('' @ ?n @ ''/100)''"
  have cut: "score_line p sid (FNum r) = (if p then passScenarioPrefix else failScenarioPrefix) @ rest"
    using assms(2) by (simp add: score_line_def fmt_score rest_def)
  have np: "\<not> prefix failScenarioPrefix (passScenarioPrefix @ rest)"
    by (simp add: failScenarioPrefix_def passScenarioPrefix_def ballot_x_def check_mark_def)
  have li: "str_last_index rest ''('' = Some (length sid + 1)"
    using str_last_index_append [of "CHR ''(''" "?n @ ''/100)''" "sid @ '' ''"] ne
    by (auto simp: rest_def)
  have tk: "take (length sid + 1) rest = sid @ '' ''" "drop (length sid + 1 + 1) rest = ?n @ ''/100)''"
    by (simp_all add: rest_def)
  have ix: "str_index (?n @ ''/100)'') ''/100)'' = Some (length ?n)"
    using str_index_skip [of ?n "CHR ''/''" "''100)''" "''100)''"] ne by simp
  have pf: "ParseFloat ?n = Some (FNum (of_int (rhe r)))"
    using ParseFloat_fmt [OF assms(2,3)] assms(2) by (simp add: fmt_score)
  show ?thesis
    unfolding cut parseScenarioLine_def
    using np li tk ix pf trim_snoc_space [OF assms(1)]
    by (cases p) (simp_all add: cut_prefix_def Let_def)
qed

text \<open>An entry of the validator's report: pass or fail, scenario, score, and further lines.\<close>

record entry =
  en_pass :: bool
  en_id :: gostring
  en_score :: rat
  en_tail :: "gostring list"

definition entry_text :: "entry \<Rightarrow> gostring" where
  "entry_text e = str_join [NL] (score_line (en_pass e) (en_id e) (FNum (en_score e)) # en_tail e)"

definition entry_ok :: "entry \<Rightarrow> bool" where
  "entry_ok e \<longleftrightarrow> trim_space (en_id e) = en_id e \<and> NL \<notin> set (en_id e) \<and>
     0 \<le> en_score e \<and> en_score e < 2 ^ 52"

definition rounded :: "entry \<Rightarrow> float64" where
  "rounded e = FNum (of_int (rhe (en_score e)))"

lemma str_cut_head:
  assumes "NL \<notin> set l"
  shows "fst (str_cut (str_join [NL] (l # ls)) [NL]) = l"
proof (cases ls)
  case Nil
  then show ?thesis using assms by (simp add: str_cut_def str_index_single)
next
  case (Cons a as)
  have "takeWhile (\<lambda>x. x \<noteq> NL) (l @ NL # t) = l" for t using assms by (simp add: takeWhile_append)
  then show ?thesis using Cons by (simp add: str_cut_def str_index_single)
qed

lemma score_line_no_NL:
  "NL \<notin> set sid \<Longrightarrow> NL \<notin> set (score_line p sid (FNum r))"
proof -
  assume "NL \<notin> set sid"
  moreover have "NL \<notin> set (nat_str n)" for n
    using nat_str_digits [of NL n] by (auto simp: is_digit_def less_eq_char_def)
  ultimately show ?thesis
    by (simp add: score_line_def passScenarioPrefix_def failScenarioPrefix_def check_mark_def ballot_x_def)
qed

lemma entry_first_line: "entry_ok e \<Longrightarrow>
    first_line (entry_text e) = score_line (en_pass e) (en_id e) (FNum (en_score e))"
  by (simp add: first_line_def entry_text_def str_cut_head score_line_no_NL entry_ok_def del: str_join.simps)

lemma entry_parse: "entry_ok e \<Longrightarrow> parseScenarioLine (first_line (entry_text e)) = Some (en_id e, rounded e)"
  by (simp add: entry_first_line parse_score_line entry_ok_def rounded_def)

lemma entry_fails: "entry_ok e \<Longrightarrow> has_prefix (first_line (entry_text e)) failScenarioPrefix \<longleftrightarrow> \<not> en_pass e"
  by (simp add: entry_first_line score_line_def)
    (simp add: passScenarioPrefix_def failScenarioPrefix_def check_mark_def ballot_x_def)

lemma parseAll_entries: "list_all entry_ok es \<Longrightarrow>
    parseAll_loop (map entry_text es) m = fold (\<lambda>e. gm_put (en_id e) (rounded e)) es m"
  by (induction es arbitrary: m) (simp_all add: entry_parse)

lemma parseFailed_entries: "list_all entry_ok es \<Longrightarrow>
    parseFailed_loop (map entry_text es) m =
    fold (\<lambda>e. gm_put (en_id e) (rounded e)) (filter (\<lambda>e. \<not> en_pass e) es) m"
  by (induction es arbitrary: m) (simp_all add: entry_parse entry_fails)

text \<open>Reading back the validator's report: whatever the scenario names and the detail lines
  below them, \<open>parseAllScenarios\<close> recovers every scenario with its score rounded to an integer
  (half to even), and \<open>parseFailedScenarios\<close> those of the failing ones.\<close>

theorem parse_report:
  assumes "list_all entry_ok es"
  shows "parseAllScenarios (map entry_text es) = fold (\<lambda>e. gm_put (en_id e) (rounded e)) es [] \<and>
    parseFailedScenarios (map entry_text es) =
      fold (\<lambda>e. gm_put (en_id e) (rounded e)) (filter (\<lambda>e. \<not> en_pass e) es) []"
  using assms by (simp add: parseAllScenarios_def parseFailedScenarios_def parseAll_entries parseFailed_entries)

definition sample_report :: "entry list" where
  "sample_report =
     [\<lparr>en_pass = True, en_id = ''login (basic)'', en_score = 189 / 2, en_tail = []\<rparr>,
      \<lparr>en_pass = False, en_id = ''create/100)'', en_score = 40, en_tail = [''  step (3/100)'', []]\<rparr>]"

lemma rhe_samples: "rhe (189 / 2) = 94" "rhe 40 = 40"
  by code_simp+

theorem parse_report_witness:
  "parseAllScenarios (map entry_text sample_report) = [(''login (basic)'', FNum 94), (''create/100)'', FNum 40)] \<and>
   parseFailedScenarios (map entry_text sample_report) = [(''create/100)'', FNum 40)]"
proof -
  have "trim_space ''login (basic)'' = ''login (basic)''" "trim_space ''create/100)'' = ''create/100)''"
    by code_simp+
  then have "list_all entry_ok sample_report" by (simp add: sample_report_def entry_ok_def)
  from parse_report [OF this] show ?thesis
    by (simp add: sample_report_def rounded_def rhe_samples gm_put_def)
qed

section \<open>Regressions\<close>

definition regressed :: "float64 gomap \<Rightarrow> float64 gomap \<Rightarrow> float64 \<Rightarrow> gostring \<Rightarrow> float64 \<Rightarrow> float64 \<Rightarrow> bool" where
  "regressed prevScores currScores threshold sid p c \<longleftrightarrow>
     gm_get prevScores sid = Some p \<and> gm_get currScores sid = Some c \<and> fleq threshold p \<and> fless c threshold"

lemma map_filter_ids:
  "(\<And>x y. f x = Some y \<Longrightarrow> g y = fst x) \<Longrightarrow> distinct (map fst xs) \<Longrightarrow>
   distinct (map g (List.map_filter f xs)) \<and> set (map g (List.map_filter f xs)) \<subseteq> fst ` set xs"
  by (induction xs) (auto simp: List.map_filter_simps split: option.splits)

text \<open>The regressions reported are exactly the scenarios present in both snapshots that were at
  or above the threshold and are now below it, each once, with both scores and iterations, in
  increasing order of their names.\<close>

theorem detectRegressions_spec:
  fixes prevScores threshold i j
  assumes "gm_wf currScores"
  defines "rs \<equiv> detectRegressions prevScores i currScores j threshold"
  shows "(r \<in> set rs \<longleftrightarrow>
      regressed prevScores currScores threshold (rg_ScenarioID r) (rg_PrevScore r) (rg_CurrScore r) \<and>
      rg_PrevIteration r = i \<and> rg_CurrIteration r = j) \<and>
    sorted_wrt (<) (map rg_ScenarioID rs)"
proof (cases "prevScores = []")
  case True
  then show ?thesis by (simp add: rs_def detectRegressions_def regressed_def)
next
  case False
  let ?f = "\<lambda>(sid, curr). case gm_get prevScores sid of None \<Rightarrow> None
    | Some prev \<Rightarrow> if fleq threshold prev \<and> fless curr threshold then
        Some \<lparr>rg_ScenarioID = sid, rg_PrevScore = prev, rg_CurrScore = curr,
              rg_PrevIteration = i, rg_CurrIteration = j\<rparr> else None"
  have rs: "rs = sort_key rg_ScenarioID (List.map_filter ?f currScores)"
    using False by (simp add: rs_def detectRegressions_def)
  have "(sid, c) \<in> set currScores \<longleftrightarrow> gm_get currScores sid = Some c" for sid c
    using assms(1) by (simp add: gm_get_def gm_wf_def map_of_eq_Some_iff)
  moreover have "?f (sid, c) = Some r \<longleftrightarrow>
      (\<exists>p. gm_get prevScores sid = Some p \<and> fleq threshold p \<and> fless c threshold \<and>
        r = \<lparr>rg_ScenarioID = sid, rg_PrevScore = p, rg_CurrScore = c,
             rg_PrevIteration = i, rg_CurrIteration = j\<rparr>)" for sid c
    by (auto split: option.splits if_splits)
  ultimately have mem: "r \<in> set rs \<longleftrightarrow>
      regressed prevScores currScores threshold (rg_ScenarioID r) (rg_PrevScore r) (rg_CurrScore r) \<and>
      rg_PrevIteration r = i \<and> rg_CurrIteration r = j"
    unfolding rs set_sort set_map_filter Bex_def split_paired_Ex
    by (cases r) (auto simp: regressed_def)
  have "distinct (map rg_ScenarioID (List.map_filter ?f currScores))"
  proof (rule conjunct1 [OF map_filter_ids])
    show "rg_ScenarioID y = fst x" if "?f x = Some y" for x y
      using that by (auto split: option.splits if_splits prod.splits)
    show "distinct (map fst currScores)" using assms(1) by (simp add: gm_wf_def)
  qed
  then have "distinct (map rg_ScenarioID rs)"
    by (simp add: rs distinct_map)
  moreover have "sorted (map rg_ScenarioID rs)" by (simp add: rs)
  ultimately have "sorted_wrt (<) (map rg_ScenarioID rs)"
    by (simp add: strict_sorted_iff)
  with mem show ?thesis by blast
qed

theorem detectRegressions_spec_witness:
  "map rg_ScenarioID (detectRegressions [(''a'', FNum 95), (''b'', FNum 96), (''c'', FNum 97)] 1
     [(''c'', FNum 20), (''a'', FNum 95), (''b'', FNum 94)] 2 (FNum 95)) = [''b'', ''c''] \<and>
   sorted_wrt (<) (map rg_ScenarioID (detectRegressions [(''a'', FNum 95), (''b'', FNum 96), (''c'', FNum 97)] 1
     [(''c'', FNum 20), (''a'', FNum 95), (''b'', FNum 94)] 2 (FNum 95)))"
proof -
  have wf: "gm_wf [(''c'', FNum 20), (''a'', FNum 95), (''b'', FNum 94)]" by (simp add: gm_wf_def)
  have "map rg_ScenarioID (detectRegressions [(''a'', FNum 95), (''b'', FNum 96), (''c'', FNum 97)] 1
     [(''c'', FNum 20), (''a'', FNum 95), (''b'', FNum 94)] 2 (FNum 95)) = [''b'', ''c'']"
    by code_simp
  with detectRegressions_spec [OF wf] show ?thesis by blast
qed

end
