(* ===== verification/Go_Utf8.thy ===== *)
theory Go_Utf8
  imports Go_Strings
begin

text \<open>
  The part of \<open>unicode/utf8\<close> the program uses: the length of the rune at the head of a byte
  string, \<open>DecodeLastRuneInString\<close> as far as its callers look at it (is the last rune an
  error of size 1?), and well-formed UTF-8.
\<close>

definition cont_byte :: "char \<Rightarrow> bool" where
  "cont_byte c \<longleftrightarrow> 0x80 \<le> (of_char c :: nat) \<and> (of_char c :: nat) \<le> 0xBF"

text \<open>\<open>utf8.RuneStart\<close>.\<close>

definition rune_start :: "char \<Rightarrow> bool" where
  "rune_start c \<longleftrightarrow> \<not> cont_byte c"

text \<open>The second byte's range, from the accept ranges of Go's decoding table.\<close>

definition second_ok :: "nat \<Rightarrow> char \<Rightarrow> bool" where
  "second_ok x c \<longleftrightarrow> cont_byte c \<and>
     (x = 0xE0 \<longrightarrow> 0xA0 \<le> (of_char c :: nat)) \<and> (x = 0xED \<longrightarrow> (of_char c :: nat) \<le> 0x9F) \<and>
     (x = 0xF0 \<longrightarrow> 0x90 \<le> (of_char c :: nat)) \<and> (x = 0xF4 \<longrightarrow> (of_char c :: nat) \<le> 0x8F)"

text \<open>The number of bytes a lead byte announces; 0 for a byte that starts no rune.\<close>

definition lead_len :: "nat \<Rightarrow> nat" where
  "lead_len x =
     (if x < 0x80 then 1
      else if 0xC2 \<le> x \<and> x \<le> 0xDF then 2
      else if 0xE0 \<le> x \<and> x \<le> 0xEF then 3
      else if 0xF0 \<le> x \<and> x \<le> 0xF4 then 4
      else 0)"

text \<open>The size of the well-formed rune at the head of \<open>s\<close>, 0 if there is none.\<close>

definition rune_len :: "gostring \<Rightarrow> nat" where
  "rune_len s =
     (case s of
        [] \<Rightarrow> 0
      | a # r \<Rightarrow>
          let n = lead_len (of_char a) in
          if n \<le> 1 then n
          else if n - 1 \<le> length r \<and> second_ok (of_char a) (hd r) \<and> list_all cont_byte (take (n - 1) r)
          then n else 0)"

text \<open>
  Where \<open>DecodeLastRuneInString\<close> starts decoding: the nearest rune start among the three bytes
  before the last one, else the byte before these.
\<close>

definition last_start :: "gostring \<Rightarrow> nat" where
  "last_start s =
     (let n = length s; lim = n - 4 in
      case find (\<lambda>i. rune_start (s ! i)) (rev [lim..<n - 1]) of
        Some i \<Rightarrow> i
      | None \<Rightarrow> lim - 1)"

text \<open>\<open>r, size := utf8.DecodeLastRuneInString(s)\<close> with \<open>r == utf8.RuneError && size == 1\<close>.\<close>

definition last_rune_bad :: "gostring \<Rightarrow> bool" where
  "last_rune_bad s =
     (if s = [] then False
      else if (of_char (last s) :: nat) < 0x80 then False
      else let st = last_start s; k = rune_len (drop st s) in k = 0 \<or> st + k \<noteq> length s)"

function valid_utf8 :: "gostring \<Rightarrow> bool" where
  "valid_utf8 s =
     (if s = [] then True
      else if rune_len s = 0 then False
      else valid_utf8 (drop (rune_len s) s))"
  by pat_completeness auto
termination
  by (relation "measure length") auto

declare valid_utf8.simps [simp del]

lemma rune_len_le: "rune_len s \<le> length s"
  by (cases s) (auto simp: rune_len_def Let_def)

lemma rune_len_le4: "rune_len s \<le> 4"
  by (cases s) (auto simp: rune_len_def Let_def lead_len_def)

lemma cont_not_lead: "cont_byte c \<Longrightarrow> lead_len (of_char c) = 0"
  by (auto simp: cont_byte_def lead_len_def)

lemma lead_len_start: "lead_len (of_char c) \<noteq> 0 \<Longrightarrow> rune_start c"
  using cont_not_lead by (auto simp: rune_start_def)

lemma rune_len_app: "rune_len s \<noteq> 0 \<Longrightarrow> rune_len (s @ t) = rune_len s"
  by (cases s) (auto simp: rune_len_def Let_def hd_append split: if_splits)

lemma rune_len_take: "k = rune_len s \<Longrightarrow> rune_len (take k s) = k"
proof (cases s)
  case (Cons a r)
  assume k: "k = rune_len s"
  show ?thesis
  proof (cases "lead_len (of_char a) \<le> 1")
    case True
    with k Cons show ?thesis
      by (cases "lead_len (of_char a)") (auto simp: rune_len_def)
  next
    case False
    show ?thesis
    proof (cases "k = 0")
      case False
      with \<open>\<not> lead_len (of_char a) \<le> 1\<close> k Cons
      have kl: "k = lead_len (of_char a)" and len: "k - 1 \<le> length r"
        and s2: "second_ok (of_char a) (hd r)" and c: "list_all cont_byte (take (k - 1) r)"
        by (auto simp: rune_len_def Let_def split: if_splits)
      from kl \<open>\<not> lead_len (of_char a) \<le> 1\<close> obtain j where j: "k = Suc (Suc j)"
        by (metis One_nat_def Suc_le_mono le0 not0_implies_Suc)
      have "hd (take (k - 1) r) = hd r"
        using j by (cases r) auto
      with Cons j kl len s2 c show ?thesis
        by (auto simp: rune_len_def Let_def)
    qed (simp add: rune_len_def)
  qed
qed (simp add: rune_len_def)

lemma rune_len_cases:
  assumes "rune_len s = k" and "k \<noteq> 0"
  obtains a r where "s = a # r" "k = lead_len (of_char a)"
    "\<And>i. 0 < i \<Longrightarrow> i < k \<Longrightarrow> cont_byte (s ! i)" "k \<le> length s"
proof (cases s)
  case (Cons a r)
  have kl: "k = lead_len (of_char a)"
    using assms Cons by (auto simp: rune_len_def Let_def split: if_splits)
  have "cont_byte (s ! i)" if "0 < i" "i < k" for i
  proof -
    from assms Cons that kl have "list_all cont_byte (take (k - 1) r)" and "k - 1 \<le> length r"
      by (auto simp: rune_len_def Let_def split: if_splits)
    with that Cons show ?thesis
      by (auto simp: list_all_length nth_Cons')
  qed
  note cont = this
  have "k \<le> length s" using assms(1) rune_len_le [of s] by simp
  with Cons kl cont show ?thesis by (rule that)
qed (use assms in \<open>simp add: rune_len_def\<close>)

text \<open>A proper, non-empty prefix of a rune is no rune.\<close>

lemma rune_len_partial:
  assumes "rune_len s = k" and "0 < j" and "j < k"
  shows "rune_len (take j s) = 0"
proof -
  from assms obtain a r where s: "s = a # r" and k: "k = lead_len (of_char a)" and "k \<le> length s"
    by (metis less_nat_zero_code rune_len_cases)
  with assms show ?thesis
    by (cases j) (auto simp: rune_len_def Let_def)
qed

lemma find_rev_upt:
  assumes "lim \<le> i" and "i < m" and "P i" and "\<And>j. i < j \<Longrightarrow> j < m \<Longrightarrow> \<not> P j"
  shows "find P (rev [lim..<m]) = Some i"
proof -
  have "[lim..<m] = [lim..<i] @ i # [Suc i..<m]"
    using assms(1,2) by (metis le_add_diff_inverse less_imp_le_nat upt_add_eq_append upt_conv_Cons)
  moreover have "find P (rev [Suc i..<m]) = None"
    using assms(4) by (auto simp: find_None_iff)
  ultimately show ?thesis
    using assms(3) by (simp add: find_append)
qed


text \<open>The last rune of a string that ends in a well-formed rune is good.\<close>

lemma last_start_rune:
  assumes "rune_len r = length r" and "2 \<le> length r"
  shows "last_start (u @ r) = length u"
proof -
  have len: "length r \<le> 4" using assms(1) rune_len_le4 [of r] by simp
  from assms have "rune_len r = length r" "length r \<noteq> 0" by auto
  then obtain a t where r: "r = a # t" and k: "length r = lead_len (of_char a)"
    and c: "\<And>i. 0 < i \<Longrightarrow> i < length r \<Longrightarrow> cont_byte (r ! i)"
    by (rule rune_len_cases) metis
  have start: "rune_start ((u @ r) ! length u)"
    using k assms(2) r lead_len_start [of a] by (auto simp: nth_append)
  have rest: "\<not> rune_start ((u @ r) ! j)" if "length u < j" "j < length (u @ r) - 1" for j
    using c [of "j - length u"] that by (auto simp: nth_append rune_start_def)
  have "find (\<lambda>i. rune_start ((u @ r) ! i)) (rev [length (u @ r) - 4..<length (u @ r) - 1]) =
      Some (length u)"
    using len assms(2) start rest by (intro find_rev_upt) auto
  then show ?thesis by (simp add: last_start_def)
qed

lemma last_rune_good:
  assumes "rune_len r = length r" and "r \<noteq> []"
  shows "\<not> last_rune_bad (u @ r)"
proof (cases "length r = 1")
  case True
  then obtain a where r: "r = [a]" by (cases r) auto
  with assms have "lead_len (of_char a) = 1"
    by (auto simp: rune_len_def Let_def split: if_splits)
  then have "(of_char a :: nat) < 0x80"
    by (auto simp: lead_len_def split: if_splits)
  with r show ?thesis by (simp add: last_rune_bad_def)
next
  case False
  with assms have "2 \<le> length r" by (cases r) (auto simp: Suc_le_eq)
  with assms show ?thesis
    by (simp add: last_rune_bad_def last_start_rune Let_def)
qed

text \<open>A string cut inside a rune ends badly, as long as the cut is inside.\<close>

lemma last_rune_cut:
  assumes k: "rune_len r = k" and j: "0 < j" "j < k"
  shows "last_rune_bad (u @ take j r)"
proof -
  from k j have "k \<noteq> 0" by simp
  with k obtain a t where r: "r = a # t" and ka: "k = lead_len (of_char a)"
    and c: "\<And>i. 0 < i \<Longrightarrow> i < k \<Longrightarrow> cont_byte (r ! i)" and kl: "k \<le> length r"
    by (rule rune_len_cases) auto
  let ?p = "take j r" and ?s = "u @ take j r"
  have plen: "length ?p = j" using j kl by simp
  have ne: "?s \<noteq> []" using plen j by auto
  have k4: "k \<le> 4" using rune_len_le4 [of r] k by simp
  have lasts: "last ?s = r ! (j - 1)"
    using plen j by (simp add: last_append last_conv_nth flip: length_0_conv)
  have not_ascii: "\<not> (of_char (last ?s) :: nat) < 0x80"
  proof (cases "j = 1")
    case True
    with r lasts ka j show ?thesis by (auto simp: lead_len_def split: if_splits)
  next
    case False
    with c [of "j - 1"] j have "cont_byte (r ! (j - 1))" by simp
    with lasts show ?thesis by (simp add: cont_byte_def)
  qed
  have bad: "rune_len (drop (last_start ?s) ?s) = 0 \<or>
      last_start ?s + rune_len (drop (last_start ?s) ?s) \<noteq> length ?s"
  proof (cases "j = 1")
    case False
    have start: "rune_start (?s ! length u)"
      using ka j k4 r lead_len_start [of a] by (auto simp: nth_append take_Cons')
    have rest: "\<not> rune_start (?s ! i)" if "length u < i" "i < length ?s - 1" for i
      using c [of "i - length u"] that plen j by (auto simp: nth_append rune_start_def)
    have "find (\<lambda>i. rune_start (?s ! i)) (rev [length ?s - 4..<length ?s - 1]) = Some (length u)"
      using plen j k4 False start rest by (intro find_rev_upt) auto
    then have "last_start ?s = length u" by (simp add: last_start_def)
    with rune_len_partial [OF k j] show ?thesis by simp
  next
    case True
    have nc: "\<not> cont_byte (last ?s)"
      using lasts True r ka j cont_not_lead [of a] by auto
    have one: "lead_len (of_char (last ?s)) \<noteq> 1"
      using lasts True r ka j by auto
    show ?thesis
    proof (rule ccontr)
      let ?d = "drop (last_start ?s) ?s"
      assume "\<not> ?thesis"
      then have k0: "rune_len ?d \<noteq> 0" and full: "last_start ?s + rune_len ?d = length ?s"
        by auto
      then have kd: "rune_len ?d = length ?d" by simp
      from k0 kd obtain b q where d: "?d = b # q" and lb: "length ?d = lead_len (of_char b)"
        and cb: "\<And>i. 0 < i \<Longrightarrow> i < length ?d \<Longrightarrow> cont_byte (?d ! i)"
        by (metis rune_len_cases)
      have ld: "last ?s = last ?d" using d by (metis last_drop length_0_conv length_drop linorder_not_le list.distinct(1) zero_less_diff not_gr_zero)
      show False
      proof (cases "q = []")
        case True
        with d lb ld one show False by simp
      next
        case False
        then have "last ?d = ?d ! (length ?d - 1)" and "0 < length ?d - 1"
          using d by (auto simp: last_conv_nth)
        moreover have "cont_byte (?d ! (length ?d - 1))"
          using \<open>0 < length ?d - 1\<close> by (intro cb) arith+
        ultimately show False using nc ld by metis
      qed
    qed
  qed
  show ?thesis
    using ne not_ascii bad by (simp add: last_rune_bad_def Let_def)
qed


section \<open>Well-formed UTF-8\<close>

lemma valid_utf8_Nil [simp]: "valid_utf8 []"
  by (subst valid_utf8.simps) simp

lemma valid_utf8_rune:
  "rune_len r = length r \<Longrightarrow> r \<noteq> [] \<Longrightarrow> valid_utf8 (r @ s) = valid_utf8 s"
  by (subst valid_utf8.simps) (simp add: rune_len_app)

lemma valid_utf8_head:
  assumes "valid_utf8 s" and "s \<noteq> []"
  obtains r t where "s = r @ t" "rune_len r = length r" "r \<noteq> []" "valid_utf8 t"
proof -
  from assms have k: "rune_len s \<noteq> 0" and v: "valid_utf8 (drop (rune_len s) s)"
    using valid_utf8.simps [of s] by (simp_all split: if_splits)
  let ?r = "take (rune_len s) s"
  have len: "length ?r = rune_len s" using rune_len_le [of s] by simp
  have "rune_len ?r = length ?r" using rune_len_take [of "rune_len s" s] len by simp
  moreover have "?r \<noteq> []" using k len by auto
  moreover have "s = ?r @ drop (rune_len s) s" by simp
  ultimately show ?thesis using v that by blast
qed

lemma valid_utf8_append: "valid_utf8 s \<Longrightarrow> valid_utf8 (s @ t) = valid_utf8 t"
proof (induction "length s" arbitrary: s rule: less_induct)
  case less
  show ?case
  proof (cases "s = []")
    case False
    with less.prems obtain r q where s: "s = r @ q" and r: "rune_len r = length r" "r \<noteq> []"
      and q: "valid_utf8 q"
      by (rule valid_utf8_head)
    with less.hyps [of q] show ?thesis by (simp add: valid_utf8_rune)
  qed simp
qed

text \<open>Every non-empty well-formed string ends in a well-formed rune.\<close>

lemma valid_utf8_last:
  assumes "valid_utf8 s" and "s \<noteq> []"
  shows "\<exists>u r. s = u @ r \<and> rune_len r = length r \<and> r \<noteq> [] \<and> valid_utf8 u"
  using assms
proof (induction "length s" arbitrary: s rule: less_induct)
  case less
  from less.prems obtain r q where s: "s = r @ q" and r: "rune_len r = length r" "r \<noteq> []"
    and q: "valid_utf8 q"
    by (rule valid_utf8_head)
  show ?case
  proof (cases "q = []")
    case True
    with s r show ?thesis by (intro exI [of _ "[]"] exI [of _ r]) simp
  next
    case False
    with less.hyps [of q] s r q obtain u r' where "q = u @ r'" "rune_len r' = length r'" "r' \<noteq> []"
      "valid_utf8 u" by auto
    with s r show ?thesis
      by (intro exI [of _ "r @ u"] exI [of _ r']) (simp add: valid_utf8_rune)
  qed
qed

lemma valid_utf8_last_good: "valid_utf8 s \<Longrightarrow> \<not> last_rune_bad s"
proof (cases "s = []")
  case False
  assume "valid_utf8 s"
  with False obtain u r where "s = u @ r" "rune_len r = length r" "r \<noteq> []"
    using valid_utf8_last by blast
  then show ?thesis using last_rune_good by simp
qed (simp add: last_rune_bad_def)

text \<open>Cutting a well-formed string leaves a well-formed string and a cut rune, if any.\<close>

lemma valid_utf8_cut:
  assumes "valid_utf8 s"
  shows "\<exists>u r j. take n s = u @ take j r \<and> valid_utf8 u \<and> (j = 0 \<or> j < rune_len r)"
  using assms
proof (induction "length s" arbitrary: s n rule: less_induct)
  case less
  show ?case
  proof (cases "s = []")
    case True
    then show ?thesis by (intro exI [of _ "[]"] exI [of _ 0]) simp
  next
    case False
    with less.prems obtain r q where s: "s = r @ q" and r: "rune_len r = length r" "r \<noteq> []"
      and q: "valid_utf8 q"
      by (rule valid_utf8_head)
    show ?thesis
    proof (cases "n < length r")
      case True
      with s r show ?thesis
        by (intro exI [of _ "[]"] exI [of _ r] exI [of _ n]) simp
    next
      case False
      with less.hyps [of q "n - length r"] s r q obtain u r' j
        where "take (n - length r) q = u @ take j r'" "valid_utf8 u" "j = 0 \<or> j < rune_len r'"
        by auto
      with False s r show ?thesis
        by (intro exI [of _ "r @ u"] exI [of _ r'] exI [of _ j]) (simp add: valid_utf8_rune)
    qed
  qed
qed

end
