(* ===== verification/Feedback.thy ===== *)
theory Feedback
  imports Regression Go_Utf8
begin

text \<open>
  The feedback half of \<open>internal/attractor/prompts.go\<close>: the entries the loop records per
  iteration, how much of a validation report is kept at each fidelity, byte limits that respect
  UTF-8, the steering notice for scenarios that keep failing, and the cleaning of build logs.
\<close>

section \<open>Kinds, fidelity and limits\<close>

definition feedbackBuildError :: gostring where "feedbackBuildError = ''build_error''"
definition feedbackHealthError :: gostring where "feedbackHealthError = ''health_error''"
definition feedbackParseError :: gostring where "feedbackParseError = ''parse_error''"
definition feedbackRegression :: gostring where "feedbackRegression = ''regression''"
definition feedbackRunError :: gostring where "feedbackRunError = ''run_error''"
definition feedbackTestError :: gostring where "feedbackTestError = ''test_error''"
definition feedbackTruncation :: gostring where "feedbackTruncation = ''truncation''"
definition feedbackValidation :: gostring where "feedbackValidation = ''validation''"

lemmas feedback_kinds = feedbackBuildError_def feedbackHealthError_def feedbackParseError_def
  feedbackRegression_def feedbackRunError_def feedbackTestError_def feedbackTruncation_def
  feedbackValidation_def

definition maxFeedbackBytes :: nat where "maxFeedbackBytes = 12288"
definition maxFeedbackEntries :: nat where "maxFeedbackEntries = 3"
definition MaxObservedBytes :: nat where "MaxObservedBytes = 2000"
definition observedStandardLimit :: nat where "observedStandardLimit = 500"

definition StepPassPrefix :: gostring where "StepPassPrefix = (''  '' @ check_mark)"
definition StepFailPrefix :: gostring where "StepFailPrefix = (''  '' @ ballot_x)"

definition feedbackHeader :: "gostring \<Rightarrow> gostring" where
  "feedbackHeader kind =
     (if kind = feedbackBuildError then ''BUILD FAILURE''
      else if kind = feedbackHealthError then ''HEALTH CHECK FAILURE''
      else if kind = feedbackParseError then ''PARSE ERROR''
      else if kind = feedbackRegression then ''REGRESSIONS''
      else if kind = feedbackRunError then ''RUN FAILURE''
      else if kind = feedbackTestError then ''TEST FAILURE''
      else if kind = feedbackTruncation then ''TRUNCATION''
      else if kind = feedbackValidation then ''VALIDATION FAILURES''
      else to_upper kind)"

text \<open>\<open>feedbackFidelity\<close> is an integer; zero is the unset value.\<close>

type_synonym fidelity = int

definition fidelityCompact :: fidelity where "fidelityCompact = 1"
definition fidelityStandard :: fidelity where "fidelityStandard = 2"
definition fidelityFull :: fidelity where "fidelityFull = 3"

lemmas fidelities = fidelityCompact_def fidelityStandard_def fidelityFull_def

definition compactMaxIter :: int where "compactMaxIter = 2"
definition standardMaxIter :: int where "standardMaxIter = 4"

definition determineFidelity :: "int \<Rightarrow> int \<Rightarrow> fidelity" where
  "determineFidelity iteration stallCount =
     (let f = (if iteration \<le> compactMaxIter then fidelityCompact
               else if iteration \<le> standardMaxIter then fidelityStandard
               else fidelityFull)
      in if 2 \<le> stallCount \<and> f < fidelityFull then f + 1 else f)"

definition maxFeedbackForFidelity :: "fidelity \<Rightarrow> nat" where
  "maxFeedbackForFidelity f =
     (if f = fidelityCompact then 4096 else if f = fidelityStandard then 12288 else 24576)"

record iterationFeedback =
  fb_iteration :: int
  fb_kind :: gostring
  fb_message :: gostring
  fb_fidelity :: fidelity
  fb_failedScenarios :: "float64 gomap"

section \<open>Truncation\<close>

text \<open>The loop shared by \<open>trimUTF8Boundary\<close> and \<open>truncateObserved\<close>: while the last rune of the string
  does not decode, drop a byte.\<close>

function drop_bad_tail :: "gostring \<Rightarrow> gostring" where
  "drop_bad_tail s = (if s \<noteq> [] \<and> last_rune_bad s then drop_bad_tail (butlast s) else s)"
  by pat_completeness auto
termination by (relation "measure length") auto

declare drop_bad_tail.simps [simp del]

definition trimUTF8Boundary :: "gostring \<Rightarrow> nat \<Rightarrow> gostring" where
  "trimUTF8Boundary s limit = (if length s \<le> limit then s else drop_bad_tail (take limit s))"

definition truncateFeedback :: "gostring \<Rightarrow> nat \<Rightarrow> gostring" where
  "truncateFeedback s limit =
     (if length s \<le> limit then s else trimUTF8Boundary s limit @ ([NL] @ ''[truncated]''))"

definition ellipsis :: gostring where "ellipsis = [CHR 0xE2, CHR 0x80, CHR 0xA6]"

definition truncateObservedLine :: "gostring \<Rightarrow> nat \<Rightarrow> gostring" where
  "truncateObservedLine line maxBytes =
     (case str_index line '': '' of
        None \<Rightarrow> line
      | Some colonIdx \<Rightarrow>
          let content = drop (colonIdx + 2) line in
          if length content \<le> maxBytes then line
          else take (colonIdx + 2) line @ trimUTF8Boundary content maxBytes @ ellipsis)"

definition writeCategorizedFeedback :: "iterationFeedback list \<Rightarrow> gostring" where
  "writeCategorizedFeedback entries =
     concat (map (\<lambda>fb.
       let limit = (if fb_fidelity fb \<noteq> 0 then maxFeedbackForFidelity (fb_fidelity fb) else maxFeedbackBytes)
       in feedbackHeader (fb_kind fb) @ '' (iteration '' @ int_str (fb_iteration fb) @ ''):'' @ [NL] @
          truncateFeedback (fb_message fb) limit @ [NL, NL]) entries)"

section \<open>Validation reports\<close>

text \<open>The loop of \<open>filterFailureEntry\<close>: the lines kept, given whether a passing step is open.\<close>

fun filter_lines :: "fidelity \<Rightarrow> bool \<Rightarrow> gostring list \<Rightarrow> gostring list" where
  "filter_lines fidelity inPassingStep [] = []"
| "filter_lines fidelity inPassingStep (line # ls) =
     (if \<not> has_prefix line '' '' then line # filter_lines fidelity False ls
      else if fidelity = fidelityCompact then filter_lines fidelity inPassingStep ls
      else if has_prefix line StepPassPrefix then filter_lines fidelity True ls
      else let inPassing = (if has_prefix line StepFailPrefix then False else inPassingStep) in
        if inPassing then filter_lines fidelity inPassing ls
        else (if has_prefix line ''    Observed'' then truncateObservedLine line observedStandardLimit else line)
             # filter_lines fidelity inPassing ls)"

definition filterFailureEntry :: "gostring \<Rightarrow> fidelity \<Rightarrow> gostring" where
  "filterFailureEntry entry fidelity =
     (if fidelity = fidelityFull then entry
      else str_join [NL] (filter_lines fidelity False (split_on NL entry)))"

definition formatValidationFeedback :: "float64 \<Rightarrow> gostring list \<Rightarrow> fidelity \<Rightarrow> gostring" where
  "formatValidationFeedback satisfaction failures fidelity =
     ''Satisfaction score: '' @ fmt_f 1 satisfaction @ ''/100'' @ [NL] @
     (if failures \<noteq> [] then
        ''Scenario results:'' @ [NL] @ concat (map (\<lambda>f. filterFailureEntry f fidelity @ [NL]) failures)
      else [])"

definition extractFailureStrings :: "iterationFeedback list \<Rightarrow> gostring list" where
  "extractFailureStrings history = map fb_message (filter (\<lambda>fb. fb_message fb \<noteq> []) history)"

section \<open>Steering\<close>

text \<open>The two maps of \<open>buildSteeringText\<close>, kept together: a streak and the scores of the streak.\<close>

type_synonym streaks = "(int \<times> float64 list) gomap"

definition bump_streak :: "gostring \<times> float64 \<Rightarrow> streaks \<Rightarrow> streaks" where
  "bump_streak p m =
     (case gm_get m (fst p) of
        None \<Rightarrow> gm_put (fst p) (1, [snd p]) m
      | Some (k, ss) \<Rightarrow> gm_put (fst p) (k + 1, ss @ [snd p]) m)"

definition steer_entry :: "iterationFeedback \<Rightarrow> streaks \<Rightarrow> streaks" where
  "steer_entry fb m =
     (if fb_kind fb \<noteq> feedbackValidation then m
      else fold bump_streak (fb_failedScenarios fb)
        (filter (\<lambda>e. gm_get (fb_failedScenarios fb) (fst e) \<noteq> None) m))"

definition streaks_of :: "iterationFeedback list \<Rightarrow> streaks" where
  "streaks_of history = fold steer_entry history []"

definition formatScoreTrajectory :: "float64 list \<Rightarrow> gostring" where
  "formatScoreTrajectory scores = str_join ('' '' @ right_arrow @ '' '') (map (fmt_f 0) scores)"

definition stalling_of :: "streaks \<Rightarrow> gostring list" where
  "stalling_of m = sort (map fst (filter (\<lambda>e. 2 \<le> fst (snd e)) m))"

definition streak_at :: "streaks \<Rightarrow> gostring \<Rightarrow> int \<times> float64 list" where
  "streak_at m k = (case gm_get m k of None \<Rightarrow> (0, []) | Some v \<Rightarrow> v)"

definition buildSteeringText :: "iterationFeedback list \<Rightarrow> gostring" where
  "buildSteeringText history =
     (let m = streaks_of history; stalling = stalling_of m in
      if stalling = [] then []
      else (''STALL NOTICE: The following scenario(s) have failed in multiple consecutive '' @
            ''attempts. Try a fundamentally different implementation approach for each:'' @ [NL]) @
        concat (map (\<lambda>sid. ''- '' @ sid @ '' (score: '' @ formatScoreTrajectory (snd (streak_at m sid)) @
          ''/100, failing '' @ int_str (fst (streak_at m sid)) @ '' iterations in a row)'' @ [NL]) stalling))"

definition minimalismThreshold :: float64 where "minimalismThreshold = FNum 80"

definition buildMinimalismSuffix :: "float64 \<Rightarrow> float64 gomap \<Rightarrow> gostring" where
  "buildMinimalismSuffix score failedScenarios =
     (if failedScenarios = [] then []
      else ([NL] @ [NL] @ ''MINIMALISM REQUIREMENT: Current score is '') @ fmt_f 0 score @
        (''%. Implement the SMALLEST possible change to fix these failing scenarios:'' @ [NL]) @
        concat (map (\<lambda>name. ''- '' @ name @ '': '' @
          fmt_f 0 (case gm_get failedScenarios name of None \<Rightarrow> fzero | Some v \<Rightarrow> v) @ ''%'' @ [NL])
          (gm_sorted_keys failedScenarios)))"

section \<open>Build logs\<close>

definition buildLogNoisePrefixes :: "gostring list" where
  "buildLogNoisePrefixes =
     [''fetch '', ''OK:'', ''Get:'', ''Hit:'', ''Reading '', ''Building '', ''Selecting '', ''Preparing '',
      ''Unpacking '', ''Setting up '', ''Processing '', ''Downloading '', ''Installing '',
      ''  Downloading '', ''  Using '']"

definition isNoiseLine :: "gostring \<Rightarrow> bool" where
  "isNoiseLine trimmed =
     (list_ex (\<lambda>pfx. has_prefix trimmed pfx) buildLogNoisePrefixes \<or>
      (2 < length trimmed \<and> trimmed ! 0 = CHR ''('' \<and> is_digit (trimmed ! 1) \<and>
       str_contains (take (min 10 (length trimmed)) trimmed) ''/''))"

definition buildLogMarker :: gostring where "buildLogMarker = ([NL] @ ''Build log:'' @ [NL])"
definition preserveTail :: nat where "preserveTail = 50"

text \<open>The filter loop: the lines below index \<open>filterEnd\<close> are tested, the rest kept.\<close>

definition strip_lines :: "nat \<Rightarrow> gostring list \<Rightarrow> gostring list" where
  "strip_lines filterEnd lines =
     filter (\<lambda>l. \<not> isNoiseLine (trim_space l)) (take filterEnd lines) @ drop filterEnd lines"

definition stripBuildNoise :: "gostring \<Rightarrow> gostring" where
  "stripBuildNoise errMsg =
     (case str_index errMsg buildLogMarker of
        None \<Rightarrow> errMsg
      | Some idx \<Rightarrow>
          let pre = take (idx + length buildLogMarker) errMsg;
              logSection = drop (idx + length buildLogMarker) errMsg;
              lines = split_on NL logSection
          in if length lines \<le> preserveTail then errMsg
             else pre @ str_join [NL] (strip_lines (length lines - preserveTail) lines))"

section \<open>Truncation keeps runes whole\<close>

lemma drop_bad_tail_prefix: "prefix (drop_bad_tail s) s"
proof (induction s rule: drop_bad_tail.induct)
  case (1 s)
  show ?case
  proof (cases "s \<noteq> [] \<and> last_rune_bad s")
    case True
    with 1 have "prefix (drop_bad_tail (butlast s)) (butlast s)" by simp
    with True show ?thesis
      by (subst drop_bad_tail.simps) (auto intro: prefix_order.trans prefixeq_butlast)
  next
    case False
    then have "drop_bad_tail s = s" by (subst drop_bad_tail.simps) auto
    then show ?thesis by simp
  qed
qed

lemma drop_bad_tail_good: "\<not> last_rune_bad s \<Longrightarrow> drop_bad_tail s = s"
  by (subst drop_bad_tail.simps) simp

lemma drop_bad_tail_rune:
  assumes "valid_utf8 u" and "j = 0 \<or> j < rune_len r"
  shows "drop_bad_tail (u @ take j r) = u"
  using assms(2)
proof (induction j)
  case 0
  then show ?case using valid_utf8_last_good [OF assms(1)] by (simp add: drop_bad_tail_good)
next
  case (Suc j)
  then have j: "Suc j < rune_len r" by simp
  then have "last_rune_bad (u @ take (Suc j) r)" by (intro last_rune_cut [OF refl]) simp_all
  moreover have "Suc j \<le> length r" using j rune_len_le [of r] by simp
  then have "butlast (u @ take (Suc j) r) = u @ take j r" "u @ take (Suc j) r \<noteq> []"
    by (auto simp: butlast_append butlast_take take_eq_Nil)
  ultimately show ?case using Suc j by (subst drop_bad_tail.simps) simp
qed

lemma trim_boundary:
  assumes "valid_utf8 s" and "limit < length s"
  shows "\<exists>t. s = trimUTF8Boundary s limit @ t \<and> valid_utf8 (trimUTF8Boundary s limit) \<and>
    length (trimUTF8Boundary s limit) \<le> limit \<and> limit < length (trimUTF8Boundary s limit) + 4"
proof -
  obtain u r j where c: "take limit s = u @ take j r" "valid_utf8 u" "j = 0 \<or> j < rune_len r"
    using valid_utf8_cut [OF assms(1), of limit] by blast
  have t: "trimUTF8Boundary s limit = u"
    using assms(2) c drop_bad_tail_rune [OF c(2,3)] by (simp add: trimUTF8Boundary_def)
  have "length (take limit s) = length u + length (take j r)" using c(1) by simp
  moreover have "length (take j r) < 4" using c(3) rune_len_le4 [of r] by auto
  moreover have "length (take limit s) = limit" using assms(2) by simp
  ultimately have len: "length u \<le> limit" "limit < length u + 4" by simp_all
  have "s = u @ take j r @ drop limit s" using c(1) by (metis append_assoc append_take_drop_id)
  with t c(2) len show ?thesis by blast
qed

text \<open>Cutting valid UTF-8 to a byte limit returns a prefix of it that is valid UTF-8, within the
  limit, and less than one rune short of it; a string within the limit is returned unchanged.\<close>

theorem trimUTF8Boundary_spec:
  assumes "valid_utf8 s"
  shows "prefix (trimUTF8Boundary s limit) s \<and> valid_utf8 (trimUTF8Boundary s limit) \<and>
    length (trimUTF8Boundary s limit) \<le> limit \<and>
    (if length s \<le> limit then trimUTF8Boundary s limit = s
     else limit < length (trimUTF8Boundary s limit) + 4)"
proof (cases "length s \<le> limit")
  case True
  with assms show ?thesis by (simp add: trimUTF8Boundary_def)
next
  case False
  with trim_boundary [OF assms, of limit] show ?thesis by (auto simp: prefix_def)
qed

theorem trimUTF8Boundary_spec_witness:
  "prefix (trimUTF8Boundary (''ab'' @ ellipsis @ ''c'') 4) (''ab'' @ ellipsis @ ''c'') \<and>
   trimUTF8Boundary (''ab'' @ ellipsis @ ''c'') 4 = ''ab''"
proof -
  have v: "valid_utf8 (''ab'' @ ellipsis @ ''c'')" by code_simp
  moreover have "trimUTF8Boundary (''ab'' @ ellipsis @ ''c'') 4 = ''ab''" by code_simp
  ultimately show ?thesis using trimUTF8Boundary_spec [OF v, of 4] by blast
qed

section \<open>What filtering a report keeps\<close>

lemma filter_lines_compact:
  "filter_lines fidelityCompact b ls = filter (\<lambda>l. \<not> has_prefix l '' '') ls"
  by (induction ls arbitrary: b) auto

lemma filter_lines_headers:
  "filter (\<lambda>l. \<not> has_prefix l '' '') (filter_lines f b ls) = filter (\<lambda>l. \<not> has_prefix l '' '') ls"
proof (induction f b ls rule: filter_lines.induct)
  case (2 f b line ls)
  have t: "has_prefix (truncateObservedLine line n) '' ''" if sp: "has_prefix line '' ''" for n
  proof (cases "str_index line '': ''")
    case None
    then show ?thesis using sp by (simp add: truncateObservedLine_def)
  next
    case (Some i)
    obtain l where l: "line = CHR '' '' # l" using sp by (auto simp: prefix_def)
    then show ?thesis
      using Some by (simp add: truncateObservedLine_def Let_def del: str_index.simps)
  qed
  from 2 t show ?case by (auto simp: Let_def)
qed simp

text \<open>At compact fidelity exactly the unindented lines of an entry remain, and at every fidelity
  the unindented lines remain, in order and unchanged.\<close>

theorem filterFailureEntry_headers:
  "filterFailureEntry entry fidelityCompact =
     str_join [NL] (filter (\<lambda>l. \<not> has_prefix l '' '') (split_on NL entry)) \<and>
   filter (\<lambda>l. \<not> has_prefix l '' '') (filter_lines fidelity False (split_on NL entry)) =
     filter (\<lambda>l. \<not> has_prefix l '' '') (split_on NL entry)"
  by (simp add: filterFailureEntry_def filter_lines_compact filter_lines_headers)
    (simp add: fidelities)

section \<open>Steering\<close>

text \<open>The validation entries at the end of a history in which a scenario failed, newest first.\<close>

definition failing_run :: "iterationFeedback list \<Rightarrow> gostring \<Rightarrow> iterationFeedback list" where
  "failing_run history sid =
     takeWhile (\<lambda>fb. gm_get (fb_failedScenarios fb) sid \<noteq> None)
       (rev (filter (\<lambda>fb. fb_kind fb = feedbackValidation) history))"

definition run_scores :: "iterationFeedback list \<Rightarrow> gostring \<Rightarrow> float64 list" where
  "run_scores history sid = rev (map (\<lambda>fb. the (gm_get (fb_failedScenarios fb) sid)) (failing_run history sid))"

definition history_wf :: "iterationFeedback list \<Rightarrow> bool" where
  "history_wf history \<longleftrightarrow> list_all (\<lambda>fb. gm_wf (fb_failedScenarios fb)) history"

lemma gm_get_bump: "gm_get (bump_streak p m) k =
    (if k = fst p then Some (fst (streak_at m k) + 1, snd (streak_at m k) @ [snd p]) else gm_get m k)"
  by (auto simp: bump_streak_def streak_at_def split: option.splits prod.splits)

lemma gm_wf_bump: "gm_wf m \<Longrightarrow> gm_wf (bump_streak p m)"
  by (auto simp: bump_streak_def split: option.splits prod.splits)

lemma gm_wf_fold_bump: "gm_wf m \<Longrightarrow> gm_wf (fold bump_streak ps m)"
  by (induction ps arbitrary: m) (auto simp: gm_wf_bump)

lemma gm_get_fold_bump:
  "gm_wf ps \<Longrightarrow> gm_get (fold bump_streak ps m) k =
    (case gm_get ps k of None \<Rightarrow> gm_get m k
     | Some s \<Rightarrow> Some (fst (streak_at m k) + 1, snd (streak_at m k) @ [s]))"
proof (induction ps arbitrary: m)
  case (Cons p ps)
  then have "gm_wf ps" "gm_get ps (fst p) = None"
    by (auto simp: gm_wf_def gm_get_def map_of_eq_None_iff)
  with Cons.IH [of "bump_streak p m"] show ?case
    by (auto simp: gm_get_bump streak_at_def gm_get_def [of "p # ps"] split: option.splits)
      (auto simp: gm_get_def)
qed simp

lemma gm_get_filter: "gm_get (filter (\<lambda>e. P (fst e)) m) k = (if P k then gm_get m k else None)"
  unfolding gm_get_def by (induction m) auto

lemma gm_wf_filter: "gm_wf m \<Longrightarrow> gm_wf (filter P m)"
  by (simp add: gm_wf_def distinct_map_filter)

lemma failing_run_snoc:
  "failing_run (h @ [fb]) sid =
    (if fb_kind fb \<noteq> feedbackValidation then failing_run h sid
     else if gm_get (fb_failedScenarios fb) sid = None then []
     else fb # failing_run h sid)"
  by (simp add: failing_run_def)

lemma streaks_snoc: "streaks_of (h @ [fb]) = steer_entry fb (streaks_of h)"
  by (simp add: streaks_of_def)

lemma streaks_spec:
  assumes "history_wf history"
  shows "gm_wf (streaks_of history) \<and> gm_get (streaks_of history) sid =
    (if failing_run history sid = [] then None
     else Some (int (length (failing_run history sid)), run_scores history sid))"
  using assms
proof (induction history rule: rev_induct)
  case Nil
  then show ?case by (simp add: streaks_of_def failing_run_def)
next
  case (snoc fb h)
  then have IH: "gm_wf (streaks_of h)" "gm_get (streaks_of h) sid =
      (if failing_run h sid = [] then None
       else Some (int (length (failing_run h sid)), run_scores h sid))"
    and wf: "gm_wf (fb_failedScenarios fb)" by (simp_all add: history_wf_def)
  show ?case
  proof (cases "fb_kind fb = feedbackValidation")
    case False
    with IH show ?thesis by (simp add: streaks_snoc steer_entry_def failing_run_snoc run_scores_def)
  next
    case True
    let ?m = "filter (\<lambda>e. gm_get (fb_failedScenarios fb) (fst e) \<noteq> None) (streaks_of h)"
    have g: "gm_get ?m sid = (if gm_get (fb_failedScenarios fb) sid \<noteq> None then gm_get (streaks_of h) sid else None)"
      by (rule gm_get_filter)
    have "gm_get (streaks_of (h @ [fb])) sid =
        (case gm_get (fb_failedScenarios fb) sid of None \<Rightarrow> None
         | Some s \<Rightarrow> Some (fst (streak_at ?m sid) + 1, snd (streak_at ?m sid) @ [s]))"
      using True g by (simp add: streaks_snoc steer_entry_def gm_get_fold_bump [OF wf] split: option.split)
    moreover have "gm_wf (streaks_of (h @ [fb]))"
      using True IH by (simp add: streaks_snoc steer_entry_def gm_wf_fold_bump gm_wf_filter)
    ultimately show ?thesis
      using True g IH(2) by (auto simp: failing_run_snoc run_scores_def streak_at_def)
  qed
qed

text \<open>The steering notice lists, in increasing order and each once, exactly the scenarios that
  failed in each of the last two or more validation entries, whatever other entries lie between,
  with the length of that run and the scores along it.\<close>

theorem steering_spec:
  assumes "history_wf history"
  shows "sorted_wrt (<) (stalling_of (streaks_of history)) \<and>
    (sid \<in> set (stalling_of (streaks_of history)) \<longleftrightarrow> 2 \<le> length (failing_run history sid)) \<and>
    (sid \<in> set (stalling_of (streaks_of history)) \<longrightarrow>
       streak_at (streaks_of history) sid = (int (length (failing_run history sid)), run_scores history sid)) \<and>
    (buildSteeringText history = [] \<longleftrightarrow> (\<forall>k. length (failing_run history k) < 2))"
proof -
  let ?m = "streaks_of history"
  note sp = streaks_spec [OF assms]
  have wf: "gm_wf ?m" using sp by blast
  have mem: "k \<in> set (stalling_of ?m) \<longleftrightarrow> 2 \<le> length (failing_run history k)" for k
  proof -
    have "k \<in> set (stalling_of ?m) \<longleftrightarrow> (\<exists>v. gm_get ?m k = Some v \<and> 2 \<le> fst v)"
      using wf by (force simp: stalling_of_def gm_get_def gm_wf_def map_of_eq_Some_iff image_iff)
    then show ?thesis using sp [of k] by auto
  qed
  have d: "distinct (stalling_of ?m)"
    using wf by (simp add: stalling_of_def gm_wf_def distinct_map_filter)
  then have "sorted_wrt (<) (stalling_of ?m)"
    by (simp add: strict_sorted_iff) (simp add: stalling_of_def)
  moreover have "streak_at ?m sid = (int (length (failing_run history sid)), run_scores history sid)"
    if "2 \<le> length (failing_run history sid)"
    using sp [of sid] that by (auto simp: streak_at_def)
  moreover have "buildSteeringText history = [] \<longleftrightarrow> stalling_of ?m = []"
    by (simp add: buildSteeringText_def Let_def)
  moreover have "stalling_of ?m = [] \<longleftrightarrow> (\<forall>k. length (failing_run history k) < 2)"
    using mem by (metis empty_iff ex_in_conv list.set(1) not_le set_empty)
  ultimately show ?thesis using mem by blast
qed

definition val_fb :: "int \<Rightarrow> float64 gomap \<Rightarrow> iterationFeedback" where
  "val_fb i fs = \<lparr>fb_iteration = i, fb_kind = feedbackValidation, fb_message = ''m'',
                 fb_fidelity = 1, fb_failedScenarios = fs\<rparr>"

definition steer_history :: "iterationFeedback list" where
  "steer_history =
     [val_fb 1 [(''a'', FNum 10), (''b'', FNum 20)],
      \<lparr>fb_iteration = 2, fb_kind = feedbackBuildError, fb_message = ''x'', fb_fidelity = 0,
       fb_failedScenarios = []\<rparr>,
      val_fb 3 [(''b'', FNum 30), (''c'', FNum 0)]]"

theorem steering_spec_witness:
  "stalling_of (streaks_of steer_history) = [''b''] \<and>
   streak_at (streaks_of steer_history) ''b'' = (2, [FNum 20, FNum 30])"
proof -
  have w: "history_wf steer_history" by code_simp
  have l: "stalling_of (streaks_of steer_history) = [''b'']" by code_simp
  have "length (failing_run steer_history ''b'') = 2" "run_scores steer_history ''b'' = [FNum 20, FNum 30]"
    by code_simp+
  with steering_spec [OF w, of "''b''"] l show ?thesis by simp
qed

section \<open>Build logs\<close>

lemma trim_space_hd: "\<not> prefix '' '' (trim_space l)"
proof
  assume "prefix '' '' (trim_space l)"
  then have "prefix '' '' (trim_left l)"
    using trim_right_prefix [of "trim_left l"] by (auto simp: trim_space_def intro: prefix_order.trans)
  moreover have "'' '' \<in> set white_runes" by (simp add: white_runes_def)
  ultimately show False
    using strip_lead_done [of white_runes l] by (auto simp: trim_left_def list_all_iff)
qed

text \<open>The two indented entries of the noise table are dead: \<open>isNoiseLine\<close> is only asked about
  trimmed lines, and on those it answers as if the table ended before them.\<close>

theorem noise_indented_dead:
  "isNoiseLine (trim_space l) \<longleftrightarrow>
     list_ex (\<lambda>pfx. has_prefix (trim_space l) pfx) (take 13 buildLogNoisePrefixes) \<or>
     (2 < length (trim_space l) \<and> trim_space l ! 0 = CHR ''('' \<and> is_digit (trim_space l ! 1) \<and>
      str_contains (take (min 10 (length (trim_space l))) (trim_space l)) ''/'')"
proof -
  have "\<not> prefix (CHR '' '' # p) (trim_space l)" for p
    using trim_space_hd [of l] by (auto simp: prefix_def)
  then show ?thesis by (simp add: isNoiseLine_def buildLogNoisePrefixes_def)
qed

text \<open>Cleaning a build log keeps everything up to the log marker and the last fifty lines of
  the log; in between it only drops lines, and only noise lines.\<close>

theorem stripBuildNoise_spec:
  assumes "str_index errMsg buildLogMarker = Some idx"
  defines "pre \<equiv> take (idx + length buildLogMarker) errMsg"
    and "lines \<equiv> split_on NL (drop (idx + length buildLogMarker) errMsg)"
  shows "\<exists>kept. stripBuildNoise errMsg = pre @ str_join [NL] kept \<and> subseq kept lines \<and>
    suffix (drop (length lines - 50) lines) kept \<and>
    filter (\<lambda>l. \<not> isNoiseLine (trim_space l)) kept = filter (\<lambda>l. \<not> isNoiseLine (trim_space l)) lines"
proof (cases "length lines \<le> preserveTail")
  case True
  have "errMsg = pre @ str_join [NL] lines" by (simp add: pre_def lines_def)
  moreover have "stripBuildNoise errMsg = errMsg"
    using True assms(1) by (simp add: stripBuildNoise_def lines_def Let_def)
  moreover have "drop (length lines - 50) lines = lines" using True by (simp add: preserveTail_def)
  ultimately show ?thesis by (intro exI [of _ lines]) simp
next
  case False
  let ?P = "\<lambda>l. \<not> isNoiseLine (trim_space l)" and ?n = "length lines - 50"
  have "stripBuildNoise errMsg = pre @ str_join [NL] (strip_lines ?n lines)"
    using False assms(1) by (simp add: stripBuildNoise_def pre_def lines_def Let_def preserveTail_def)
  moreover have "subseq (strip_lines ?n lines) lines"
    unfolding strip_lines_def
    by (metis append_take_drop_id list_emb_append_mono subseq_filter_left subseq_order.refl)
  moreover have "filter ?P (strip_lines ?n lines) = filter ?P lines"
    using filter_append [of ?P "take ?n lines" "drop ?n lines"] by (simp add: strip_lines_def)
  moreover have "suffix (drop ?n lines) (strip_lines ?n lines)" by (simp add: strip_lines_def suffix_def)
  ultimately show ?thesis by blast
qed

definition sample_log :: gostring where
  "sample_log = ''build failed'' @ buildLogMarker @ ''fetch http://x'' @ [NL] @ ''main.go:3: bad'' @ [NL] @
     concat (replicate 50 [CHR ''.'', NL])"

lemma sample_log_index: "str_index sample_log buildLogMarker = Some 12"
  by code_simp

theorem stripBuildNoise_spec_witness:
  "\<exists>kept. stripBuildNoise sample_log = take 24 sample_log @ str_join [NL] kept \<and>
     suffix (drop (length (split_on NL (drop 24 sample_log)) - 50) (split_on NL (drop 24 sample_log))) kept"
proof -
  have "12 + length buildLogMarker = 24" by (simp add: buildLogMarker_def)
  with stripBuildNoise_spec [OF sample_log_index] show ?thesis by metis
qed

end
