(* ===== verification/Llm.thy ===== *)
theory Llm
  imports Go_Strings Go_Float
begin

text \<open>
  \<open>internal/llm\<close>: the request and response types of the model clients, the extraction of JSON from
  fenced output (\<open>json.go\<close>), the judge prompts (\<open>prompt.go\<close>) and the price table with its cost
  arithmetic on float64 (\<open>models.go\<close>). The HTTP clients behind the interface are not modelled.
\<close>

section \<open>Types of the client interface\<close>

record message =
  m_Role :: gostring
  m_Content :: gostring

record generateRequest =
  gr_SystemPrompt :: gostring
  gr_Messages :: "message list"
  gr_MaxTokens :: int
  gr_Model :: gostring
  gr_CacheControl :: "gostring option"
  gr_Temperature :: "float64 option"

record generateResponse =
  gp_Content :: gostring
  gp_InputTokens :: int
  gp_OutputTokens :: int
  gp_CacheHit :: bool
  gp_CostUSD :: float64
  gp_FinishReason :: gostring

record judgeRequest =
  jr_SystemPrompt :: gostring
  jr_UserPrompt :: gostring
  jr_Model :: gostring
  jr_CacheControl :: "gostring option"

record judgeDiagnostic =
  jd_Category :: gostring
  jd_Detail :: gostring

record judgeResponse =
  jp_Score :: int
  jp_Reasoning :: gostring
  jp_Failures :: "gostring list"
  jp_Diagnostics :: "judgeDiagnostic list"
  jp_CostUSD :: float64

record toolDef =
  td_Name :: gostring
  td_Description :: gostring
  td_InputSchema :: gostring

record toolCall =
  tc_ID :: gostring
  tc_Name :: gostring
  tc_Input :: gostring

record agentRequest =
  ar_SystemPrompt :: gostring
  ar_Messages :: "message list"
  ar_Tools :: "toolDef list"
  ar_Model :: gostring
  ar_MaxTokens :: int
  ar_MaxTurns :: int
  ar_CacheControl :: "gostring option"

record agentResponse =
  ap_Content :: gostring
  ap_Turns :: int
  ap_InputTokens :: int
  ap_OutputTokens :: int
  ap_TotalCost :: float64

section \<open>JSON in fences\<close>

definition fence :: gostring where "fence = ''```''"

definition ExtractJSON :: "gostring \<Rightarrow> gostring" where
  "ExtractJSON s0 =
     (let s = trim_space s0 in
      if has_prefix s fence then
        let s1 = (case str_index s [NL] of None \<Rightarrow> s | Some idx \<Rightarrow> drop (idx + 1) s);
            s2 = (case str_last_index s1 fence of None \<Rightarrow> s1 | Some idx \<Rightarrow> take idx s1)
        in trim_space s2
      else s)"

section \<open>Prompts of the judge\<close>

definition SatisfactionJudgeSystem :: gostring where
  "SatisfactionJudgeSystem =
     (''You are a QA evaluator. Score how well this software behavior matches the ex'' @
      ''pected behavior.'' @ [NL] @ [NL] @ ''Respond with JSON only:'' @ [NL] @ ''{'' @
      [CHR 0x22] @ ''score'' @ [CHR 0x22] @ '': <0-100>, '' @ [CHR 0x22] @ ''reasoning'' @
      [CHR 0x22] @ '': '' @ [CHR 0x22] @ ''<brief explanation>'' @ [CHR 0x22] @ '', '' @
      [CHR 0x22] @ ''failures'' @ [CHR 0x22] @ '': ['' @ [CHR 0x22] @ ''<specific failure>'' @
      [CHR 0x22] @ ''], '' @ [CHR 0x22] @ ''diagnostics'' @ [CHR 0x22] @ '': [{'' @ [CHR 0x22] @
      ''category'' @ [CHR 0x22] @ '': '' @ [CHR 0x22] @ ''<slug>'' @ [CHR 0x22] @ '', '' @
      [CHR 0x22] @ ''detail'' @ [CHR 0x22] @ '': '' @ [CHR 0x22] @ ''<one-line detail>'' @
      [CHR 0x22] @ ''}]}'' @ [NL] @ [NL] @
      ''Include the diagnostics array only when score < 100; each entry has a short '' @
      ''category slug and a one-line detail string.'' @ [NL] @ [NL] @ ''Scoring guide:'' @ [NL] @
      ''- 100: Perfect match to expected behavior'' @ [NL] @
      ''- 80-99: Works correctly with minor deviations'' @ [NL] @ ''- 50-79: Partially correct'' @
      [NL] @ ''- 1-49: Mostly broken but shows some correct behavior'' @ [NL] @
      ''- 0: Complete failure or error'' @ [NL] @ [NL] @
      ''For browser steps, the observed output shows the page state AFTER the action'' @
      '' was performed. Judge whether the resulting page content is consistent with '' @
      ''the expected outcome.'' @ [NL] @ [NL] @
      ''For gRPC steps, the observed output shows the method called, the gRPC status'' @
      '' code (OK, NOT_FOUND, INVALID_ARGUMENT, etc.), and the response body as JSON'' @
      ''. Status codes are gRPC-specific, not HTTP codes. Response JSON uses protobu'' @
      ''f encoding where zero-valued fields (0, 0.0, '' @ [CHR 0x22, CHR 0x22] @
      '', false) may be omitted '' @ [CHR 0xE2, CHR 0x80, CHR 0x94] @
      '' a missing field means its default/zero value, not an error. For streaming R'' @
      ''PCs, responses appear as a JSON array of messages.'')"

definition SatisfactionJudgeUser :: gostring where
  "SatisfactionJudgeUser =
     (''Scenario: {scenario_description}'' @ [NL] @ ''Step: {step_description}'' @ [NL] @ [NL] @
      ''Expected behavior: {expected}'' @ [NL] @ [NL] @ ''Actual observed behavior:'' @ [NL] @
      ''{observed}'')"

section \<open>Prices\<close>

record modelPricing =
  mp_InputPerMillion :: float64
  mp_OutputPerMillion :: float64
  mp_CacheWritePerMillion :: float64
  mp_CacheReadPerMillion :: float64

text \<open>A row of the table: the decimal constants, rounded to float64 as Go does.\<close>

definition pricing :: "rat \<Rightarrow> rat \<Rightarrow> rat \<Rightarrow> rat \<Rightarrow> modelPricing" where
  "pricing i out w r =
     \<lparr>mp_InputPerMillion = fl i, mp_OutputPerMillion = fl out,
      mp_CacheWritePerMillion = fl w, mp_CacheReadPerMillion = fl r\<rparr>"

definition pricingTable :: "(gostring \<times> modelPricing) list" where
  "pricingTable =
     [
      (''claude-sonnet-4-20250514'', pricing (3) (15) (15 / 4) (3 / 10)),
      (''claude-sonnet-4-6'', pricing (3) (15) (15 / 4) (3 / 10)),
      (''claude-haiku-3-5-20241022'', pricing (4 / 5) (4) (1) (2 / 25)),
      (''claude-haiku-4-5-20251001'', pricing (1) (5) (5 / 4) (1 / 10)),
      (''claude-haiku-4-5'', pricing (1) (5) (5 / 4) (1 / 10)),
      (''claude-opus-4-5'', pricing (5) (25) (25 / 4) (1 / 2)),
      (''gpt-4o'', pricing (5 / 2) (10) (5 / 2) (5 / 4)),
      (''gpt-4o-mini'', pricing (3 / 20) (3 / 5) (3 / 20) (3 / 40)),
      (''gpt-4.1'', pricing (2) (8) (2) (1 / 2)),
      (''gpt-4.1-mini'', pricing (2 / 5) (8 / 5) (2 / 5) (1 / 10)),
      (''gpt-4.1-nano'', pricing (1 / 10) (2 / 5) (1 / 10) (1 / 40)),
      (''gpt-5'', pricing (5 / 4) (10) (5 / 4) (1 / 8)),
      (''gpt-5-mini'', pricing (1 / 4) (2) (1 / 4) (1 / 40)),
      (''gpt-5-nano'', pricing (1 / 20) (2 / 5) (1 / 20) (1 / 200)),
      (''gpt-5.1'', pricing (5 / 4) (10) (5 / 4) (1 / 8)),
      (''gpt-5.2'', pricing (7 / 4) (14) (7 / 4) (7 / 40)),
      (''o1'', pricing (15) (60) (15) (15 / 2)),
      (''o3'', pricing (2) (8) (2) (1 / 2)),
      (''o3-mini'', pricing (11 / 10) (22 / 5) (11 / 10) (11 / 20)),
      (''o4-mini'', pricing (11 / 10) (22 / 5) (11 / 10) (11 / 40))]"

definition fallbackPricing :: modelPricing where
  "fallbackPricing = pricing 15 75 (75 / 4) (3 / 2)"

definition modelMaxOutputTokens :: "(gostring \<times> int) list" where
  "modelMaxOutputTokens =
     [
      (''claude-haiku-3-5-20241022'', 8192),
      (''claude-haiku-4-5-20251001'', 8192),
      (''claude-haiku-4-5'', 8192),
      (''claude-sonnet-4-20250514'', 16384),
      (''claude-sonnet-4-6'', 16384),
      (''claude-opus-4-5'', 32768),
      (''gpt-4o'', 16384),
      (''gpt-4o-mini'', 16384),
      (''gpt-4.1'', 32768),
      (''gpt-4.1-mini'', 32768),
      (''gpt-4.1-nano'', 32768),
      (''gpt-5'', 32768),
      (''gpt-5-mini'', 32768),
      (''gpt-5-nano'', 32768),
      (''gpt-5.1'', 32768),
      (''gpt-5.2'', 32768),
      (''o1'', 65536),
      (''o3'', 65536),
      (''o3-mini'', 65536),
      (''o4-mini'', 65536)]"

definition defaultMaxOutputTokens :: int where "defaultMaxOutputTokens = 8192"

definition MaxOutputTokens :: "gostring \<Rightarrow> int" where
  "MaxOutputTokens model =
     (case map_of modelMaxOutputTokens model of Some v \<Rightarrow> v | None \<Rightarrow> defaultMaxOutputTokens)"

definition per_million :: "int \<Rightarrow> float64 \<Rightarrow> float64" where
  "per_million tokens price = fdiv (fmul (f_of_int tokens) price) (FNum 1000000)"

definition CalculateCost :: "gostring \<Rightarrow> int \<Rightarrow> int \<Rightarrow> int \<Rightarrow> int \<Rightarrow> float64 \<times> bool" where
  "CalculateCost model regularInputTokens cacheCreationTokens cacheReadTokens outputTokens =
     (let (p, ok) = (case map_of pricingTable model of Some p \<Rightarrow> (p, True) | None \<Rightarrow> (fallbackPricing, False));
          cost = per_million regularInputTokens (mp_InputPerMillion p);
          cost = fadd cost (per_million cacheCreationTokens (mp_CacheWritePerMillion p));
          cost = fadd cost (per_million cacheReadTokens (mp_CacheReadPerMillion p));
          cost = fadd cost (per_million outputTokens (mp_OutputPerMillion p))
      in (cost, \<not> ok))"

definition HasModelPricing :: "gostring \<Rightarrow> bool" where
  "HasModelPricing model = (map_of pricingTable model \<noteq> None)"

section \<open>Costs\<close>

definition price_ok :: "modelPricing \<Rightarrow> bool" where
  "price_ok p \<longleftrightarrow> (\<forall>f \<in> {mp_InputPerMillion p, mp_OutputPerMillion p, mp_CacheWritePerMillion p,
     mp_CacheReadPerMillion p}. \<exists>v. f = FNum v \<and> 0 \<le> v \<and> fleq f (FNum 100))"

text \<open>A token count as the Go \<open>int\<close> of an API response.\<close>

definition token_ok :: "int \<Rightarrow> bool" where
  "token_ok t \<longleftrightarrow> 0 \<le> t \<and> t < 2 ^ 63"

definition price_le :: "float64 \<Rightarrow> float64 \<Rightarrow> bool" where
  "price_le f g \<longleftrightarrow> (\<exists>a b. f = FNum a \<and> g = FNum b \<and> 0 \<le> a \<and> a \<le> b)"

lemma token_float: "token_ok t \<Longrightarrow> \<exists>v. f_of_int t = FNum v \<and> 0 \<le> v"
proof -
  assume t: "token_ok t"
  then have "t \<le> 2 ^ 63" by (simp add: token_ok_def)
  then have "(of_int t :: rat) \<le> of_int (2 ^ 63)" by (simp only: of_int_le_iff)
  also have "of_int (2 ^ 63) = pow2 63" by (simp only: pow2_nat) simp
  also have "pow2 63 \<le> pow2 900" by (intro pow2_mono) simp
  finally show ?thesis using t fl_finite [of "of_int t"] by (simp add: f_of_int_def token_ok_def)
qed

lemma per_million_mono:
  assumes "token_ok t" and "price_le f g"
  shows "fleq fzero (per_million t f) \<and> fleq (per_million t f) (per_million t g)"
proof -
  obtain v where v: "f_of_int t = FNum v" "0 \<le> v" using token_float [OF assms(1)] by blast
  obtain a b where ab: "f = FNum a" "g = FNum b" "0 \<le> a" "a \<le> b"
    using assms(2) by (auto simp: price_le_def)
  have "fleq (fmul (FNum v) (FNum 0)) (fmul (FNum v) (FNum a))" using v ab by (intro fmul_mono)
  then have "fleq (fdiv (fl 0) (FNum 1000000)) (fdiv (fl (v * a)) (FNum 1000000))"
    by (intro fdiv_mono) simp_all
  moreover have "fl 0 = FNum 0" using fl_small_int [of 0] by simp
  moreover have "fleq (fmul (FNum v) (FNum a)) (fmul (FNum v) (FNum b))" using v ab by (intro fmul_mono)
  ultimately show ?thesis by (simp add: per_million_def v ab fdiv_mono)
qed

lemma price_le_fl: "0 \<le> a \<Longrightarrow> a \<le> b \<Longrightarrow> b \<le> 100 \<Longrightarrow> price_le (fl a) (fl b)"
proof -
  assume ab: "0 \<le> a" "a \<le> b" "b \<le> 100"
  have "(100 :: rat) \<le> 2 ^ 7" by simp
  also have "(2 :: rat) ^ 7 = pow2 7" by (simp only: pow2_nat) simp
  also have "pow2 7 \<le> pow2 900" by (intro pow2_mono) simp
  finally have "a \<le> pow2 900" "b \<le> pow2 900" using ab by linarith+
  with ab fl_finite [of a] fl_finite [of b] fl_mono [of a b] show ?thesis
    by (auto simp: price_le_def)
qed

lemma price_le_refl: "price_le f g \<Longrightarrow> price_le f f"
  by (auto simp: price_le_def)

definition row_below :: "modelPricing \<Rightarrow> modelPricing \<Rightarrow> bool" where
  "row_below p q \<longleftrightarrow> price_le (mp_InputPerMillion p) (mp_InputPerMillion q) \<and>
     price_le (mp_OutputPerMillion p) (mp_OutputPerMillion q) \<and>
     price_le (mp_CacheWritePerMillion p) (mp_CacheWritePerMillion q) \<and>
     price_le (mp_CacheReadPerMillion p) (fl (15 / 2))"

lemma table_below: "list_all (\<lambda>e. row_below (snd e) fallbackPricing) pricingTable"
  by (simp add: pricingTable_def fallbackPricing_def pricing_def row_below_def price_le_fl)

lemma lookup_below: "map_of pricingTable model = Some p \<Longrightarrow> row_below p fallbackPricing"
  using table_below by (auto simp: list_all_iff dest!: map_of_SomeD)

lemma fallback_below: "row_below fallbackPricing fallbackPricing"
  by (simp add: fallbackPricing_def pricing_def row_below_def price_le_fl)

definition cost_of :: "modelPricing \<Rightarrow> int \<Rightarrow> int \<Rightarrow> int \<Rightarrow> int \<Rightarrow> float64" where
  "cost_of p i w r out =
     fadd (fadd (fadd (per_million i (mp_InputPerMillion p)) (per_million w (mp_CacheWritePerMillion p)))
       (per_million r (mp_CacheReadPerMillion p))) (per_million out (mp_OutputPerMillion p))"

lemma CalculateCost_cost_of:
  "CalculateCost model i w r out =
    (case map_of pricingTable model of Some p \<Rightarrow> (cost_of p i w r out, False)
     | None \<Rightarrow> (cost_of fallbackPricing i w r out, True))"
  by (simp add: CalculateCost_def cost_of_def Let_def split: option.split)

lemma cost_of_nonneg:
  assumes "row_below p q" and "token_ok i" "token_ok w" "token_ok r" "token_ok out"
  shows "fleq fzero (cost_of p i w r out)"
  using assms per_million_mono
  by (auto simp: cost_of_def row_below_def intro!: fadd_nonneg)

text \<open>Every reported cost is a non-negative amount, for any model and any token counts, and the
  flag says exactly whether the model is missing from the price table.\<close>

theorem CalculateCost_nonneg:
  assumes "token_ok i" "token_ok w" "token_ok r" "token_ok out"
  shows "fleq fzero (fst (CalculateCost model i w r out)) \<and>
    (snd (CalculateCost model i w r out) \<longleftrightarrow> \<not> HasModelPricing model)"
  using assms cost_of_nonneg lookup_below [of model] fallback_below
  by (auto simp: CalculateCost_cost_of HasModelPricing_def split: option.split)

theorem CalculateCost_nonneg_witness:
  "fleq fzero (fst (CalculateCost ''gpt-5'' 1200 0 300 (2 ^ 63 - 1)))"
  using CalculateCost_nonneg [of 1200 0 300 "2 ^ 63 - 1" "''gpt-5''"] by (simp add: token_ok_def)

text \<open>As long as no tokens were read from a cache, the fallback price of an unknown model is an
  upper bound of what any known model would cost for the same request.\<close>

theorem fallback_dominates:
  assumes "token_ok i" "token_ok w" "token_ok out" and "HasModelPricing known" "\<not> HasModelPricing unknown"
  shows "fleq (fst (CalculateCost known i w 0 out)) (fst (CalculateCost unknown i w 0 out))"
proof -
  obtain p where p: "map_of pricingTable known = Some p" "map_of pricingTable unknown = None"
    using assms(4,5) by (auto simp: HasModelPricing_def)
  have rb: "row_below p fallbackPricing" by (rule lookup_below [OF p(1)])
  have z: "token_ok 0" by (simp add: token_ok_def)
  have cr: "per_million 0 f = fzero" if "price_le f g" for f g
  proof -
    have "fl 0 = FNum 0" using fl_small_int [of 0] by simp
    with that show ?thesis by (auto simp: price_le_def per_million_def f_of_int_def)
  qed
  have "per_million 0 (mp_CacheReadPerMillion p) = fzero"
    "per_million 0 (mp_CacheReadPerMillion fallbackPricing) = fzero"
    using cr [of "mp_CacheReadPerMillion p" "fl (15 / 2)"]
      cr [of "mp_CacheReadPerMillion fallbackPricing" "fl (15 / 2)"] rb fallback_below
    by (simp_all add: row_below_def)
  then have "per_million 0 (mp_CacheReadPerMillion p) = per_million 0 (mp_CacheReadPerMillion fallbackPricing)"
    by simp
  moreover have "fleq fzero (per_million 0 (mp_CacheReadPerMillion fallbackPricing))"
    using fallback_below per_million_mono [OF z] by (auto simp: row_below_def)
  moreover have "fleq fzero (per_million 0 (mp_CacheReadPerMillion fallbackPricing)) \<Longrightarrow>
      fleq (per_million 0 (mp_CacheReadPerMillion fallbackPricing))
        (per_million 0 (mp_CacheReadPerMillion fallbackPricing))"
    by (rule fleq_refl) auto
  ultimately show ?thesis
    using rb per_million_mono assms(1-3)
    by (auto simp: CalculateCost_cost_of p cost_of_def row_below_def intro!: fadd_mono fadd_nonneg)
qed

theorem fallback_dominates_witness:
  "fleq (fst (CalculateCost ''o1'' 1000 0 0 50)) (fst (CalculateCost ''my-model'' 1000 0 0 50))"
  using fallback_dominates [of 1000 0 50 "''o1''" "''my-model''"]
  by (simp add: token_ok_def HasModelPricing_def pricingTable_def)

text \<open>With cache reads the bound fails: one million cached tokens cost 7.50 on \<open>o1\<close> and 1.50 on a
  model the table does not know.\<close>

theorem fallback_underreports_cache:
  "fst (CalculateCost ''o1'' 0 0 1000000 0) = FNum (15 / 2) \<and>
   fst (CalculateCost ''my-model'' 0 0 1000000 0) = FNum (3 / 2)"
proof -
  have d: "fl (of_int m / 2) = FNum (of_int m / 2)" if "0 < m" "m < 2 ^ 53" for m
    using fl_dyadic [OF that, of "- 1"] by (simp add: pow2_def)
  have "fl (15 / 2) = FNum (15 / 2)" "fl (3 / 2) = FNum (3 / 2)" "fl (75 / 4) = FNum (75 / 4)"
    using d [of 15] d [of 3] fl_dyadic [of 75 "- 2"] by (simp_all add: pow2_def)
  moreover have "fl 0 = FNum 0" "fl 15 = FNum 15" "fl 60 = FNum 60" "fl 75 = FNum 75"
    "fl 1000000 = FNum 1000000" "fl 7500000 = FNum 7500000" "fl 1500000 = FNum 1500000"
    using fl_small_int [of 0] fl_small_int [of 15] fl_small_int [of 60] fl_small_int [of 75]
      fl_small_int [of 1000000] fl_small_int [of 7500000] fl_small_int [of 1500000] by simp_all
  ultimately show ?thesis
    by (simp add: CalculateCost_cost_of pricingTable_def pricing_def fallbackPricing_def cost_of_def
        per_million_def f_of_int_def)
qed

end
