(* ===== verification/Languages.thy ===== *)
theory Languages
  imports Go_Strings
begin

text \<open>
  \<open>internal/attractor/languages.go\<close>: the table of language templates whose examples and rules go
  into the system prompt and whose Dockerfiles complete a composed build.
\<close>

record exampleBlock =
  ex_EntryFile :: gostring
  ex_EntryContent :: gostring
  ex_Dockerfile :: gostring

record languageTemplate =
  lt_Name :: gostring
  lt_BaseImage :: gostring
  lt_HTTPExample :: exampleBlock
  lt_CLIExample :: exampleBlock
  lt_TUIExample :: exampleBlock
  lt_GRPCSetup :: gostring
  lt_DepRules :: gostring

text \<open>The zero value of a field that a table row leaves out.\<close>

definition no_example :: exampleBlock where
  "no_example = \<lparr>ex_EntryFile = [], ex_EntryContent = [], ex_Dockerfile = []\<rparr>"

definition go_http :: exampleBlock where
  "go_http =
     \<lparr>ex_EntryFile = ''main.go'',
      ex_EntryContent =
        (''package main'' @ [NL] @ [NL] @ ''import '' @ [CHR 0x22] @ ''net/http'' @
         [CHR 0x22, NL] @ [NL] @ ''func main() {'' @ [NL] @ [CHR 0x09] @ ''http.ListenAndServe('' @
         [CHR 0x22] @ '':8080'' @ [CHR 0x22] @ '', nil)'' @ [NL] @ ''}''),
      ex_Dockerfile =
        (''FROM golang:1.25-alpine'' @ [NL] @ ''WORKDIR /app'' @ [NL] @ ''COPY go.mod ./'' @ [NL] @
         ''COPY . .'' @ [NL] @ ''RUN go mod tidy'' @ [NL] @ ''RUN go build -o server .'' @ [NL] @
         ''CMD ['' @ [CHR 0x22] @ ''./server'' @ [CHR 0x22] @ '']'')\<rparr>"

definition go_cli :: exampleBlock where
  "go_cli =
     \<lparr>ex_EntryFile = ''main.go'',
      ex_EntryContent =
        (''package main'' @ [NL] @ [NL] @ ''import ('' @ [NL] @ [CHR 0x09, CHR 0x22] @ ''fmt'' @
         [CHR 0x22, NL] @ [CHR 0x09, CHR 0x22] @ ''os'' @ [CHR 0x22, NL] @ '')'' @ [NL] @ [NL] @
         ''func main() {'' @ [NL] @ [CHR 0x09] @ ''if len(os.Args) < 2 {'' @ [NL] @
         [CHR 0x09, CHR 0x09] @ ''fmt.Fprintln(os.Stderr, '' @ [CHR 0x22] @
         ''usage: myapp <command>'' @ [CHR 0x22] @ '')'' @ [NL] @ [CHR 0x09, CHR 0x09] @
         ''os.Exit(1)'' @ [NL] @ [CHR 0x09] @ ''}'' @ [NL] @ [CHR 0x09] @ ''fmt.Println('' @
         [CHR 0x22] @ ''Hello from'' @ [CHR 0x22] @ '', os.Args[1])'' @ [NL] @ ''}''),
      ex_Dockerfile =
        (''FROM golang:1.25-alpine'' @ [NL] @ ''WORKDIR /app'' @ [NL] @ ''COPY go.mod ./'' @ [NL] @
         ''COPY . .'' @ [NL] @ ''RUN go mod tidy'' @ [NL] @
         ''RUN go build -o /usr/local/bin/myapp .'')\<rparr>"

definition go_tui :: exampleBlock where
  "go_tui =
     \<lparr>ex_EntryFile = [],
      ex_EntryContent =
        [],
      ex_Dockerfile =
        (''FROM golang:1.25-alpine'' @ [NL] @ ''WORKDIR /app'' @ [NL] @ ''COPY go.mod ./'' @ [NL] @
         ''COPY . .'' @ [NL] @ ''RUN go mod tidy'' @ [NL] @
         ''RUN go build -o /usr/local/bin/myapp .'')\<rparr>"

definition go_template :: languageTemplate where
  "go_template =
     \<lparr>lt_Name = ''Go'', lt_BaseImage = ''golang:1.25-alpine'',
      lt_HTTPExample = go_http, lt_CLIExample = go_cli, lt_TUIExample = go_tui,
      lt_GRPCSetup =
        (''RUN apk add --no-cache protobuf-dev && go install google.golang.org/protobuf'' @
         ''/cmd/protoc-gen-go@latest && go install google.golang.org/grpc/cmd/protoc-ge'' @
         ''n-go-grpc@latest''),
      lt_DepRules =
        (''- For Go: use golang:1.25-alpine as the Docker base image '' @
         [CHR 0xE2, CHR 0x80, CHR 0x94] @
         '' older versions will fail to resolve modern dependencies'' @ [NL] @
         ''- For Go: use net/http (not gorilla/mux), use crypto/rand or math/rand for U'' @
         ''UIDs (not google/uuid)'' @ [NL] @ ''- For Go: generate only go.mod with no '' @
         [CHR 0x22] @ ''require'' @ [CHR 0x22] @
         '' block (or minimal requires). In the Dockerfile, COPY all source files first'' @
         '', THEN run '' @ [CHR 0x22] @ ''go mod tidy'' @ [CHR 0x22] @
         '' to resolve dependencies, THEN build. Example Dockerfile order: COPY go.mod '' @
         ''./ then COPY . . then RUN go mod tidy then RUN go build'')\<rparr>"

definition python_http :: exampleBlock where
  "python_http =
     \<lparr>ex_EntryFile = ''app.py'',
      ex_EntryContent =
        (''from http.server import HTTPServer, BaseHTTPRequestHandler'' @ [NL] @ [NL] @
         ''class Handler(BaseHTTPRequestHandler):'' @ [NL] @ ''    def do_GET(self):'' @ [NL] @
         ''        self.send_response(200)'' @ [NL] @ ''        self.end_headers()'' @ [NL] @
         ''        self.wfile.write(b'' @ [CHR 0x22] @ ''ok'' @ [CHR 0x22] @ '')'' @ [NL] @ [NL] @
         ''HTTPServer(('' @ [CHR 0x22, CHR 0x22] @ '', 8080), Handler).serve_forever()''),
      ex_Dockerfile =
        (''FROM python:3.12-slim'' @ [NL] @ ''WORKDIR /app'' @ [NL] @
         ''COPY requirements.txt ./'' @ [NL] @
         ''RUN pip install --no-cache-dir -r requirements.txt'' @ [NL] @ ''COPY . .'' @ [NL] @
         ''CMD ['' @ [CHR 0x22] @ ''python'' @ [CHR 0x22] @ '', '' @ [CHR 0x22] @ ''app.py'' @
         [CHR 0x22] @ '']'')\<rparr>"

definition python_cli :: exampleBlock where
  "python_cli =
     \<lparr>ex_EntryFile = ''app.py'',
      ex_EntryContent =
        (''import argparse'' @ [NL] @ [NL] @ ''def main():'' @ [NL] @
         ''    parser = argparse.ArgumentParser()'' @ [NL] @ ''    parser.add_argument('' @
         [CHR 0x22] @ ''command'' @ [CHR 0x22] @ '')'' @ [NL] @
         ''    args = parser.parse_args()'' @ [NL] @ ''    print(f'' @ [CHR 0x22] @
         ''Hello from {args.command}'' @ [CHR 0x22] @ '')'' @ [NL] @ [NL] @ ''if __name__ == '' @
         [CHR 0x22] @ ''__main__'' @ [CHR 0x22] @ '':'' @ [NL] @ ''    main()''),
      ex_Dockerfile =
        (''FROM python:3.12-slim'' @ [NL] @ ''WORKDIR /app'' @ [NL] @
         ''COPY requirements.txt ./'' @ [NL] @
         ''RUN pip install --no-cache-dir -r requirements.txt'' @ [NL] @ ''COPY . .'' @ [NL] @
         ''RUN ln -s /app/app.py /usr/local/bin/myapp && chmod +x /app/app.py'')\<rparr>"

definition python_template :: languageTemplate where
  "python_template =
     \<lparr>lt_Name = ''Python'', lt_BaseImage = ''python:3.12-slim'',
      lt_HTTPExample = python_http, lt_CLIExample = python_cli, lt_TUIExample = no_example,
      lt_GRPCSetup =
        ''RUN pip install grpcio grpcio-tools'',
      lt_DepRules =
        (''- For Python: prefer standard library (http.server, argparse, json) over thi'' @
         ''rd-party packages'' @ [NL] @ ''- For Python: generate only requirements.txt; use '' @
         [CHR 0x22] @ ''pip install'' @ [CHR 0x22] @ '' in the Dockerfile'')\<rparr>"

definition node_http :: exampleBlock where
  "node_http =
     \<lparr>ex_EntryFile = ''index.js'',
      ex_EntryContent =
        (''const http = require('' @ [CHR 0x22] @ ''http'' @ [CHR 0x22] @ '');'' @ [NL] @ [NL] @
         ''const server = http.createServer((req, res) => {'' @ [NL] @ ''  res.writeHead(200);'' @
         [NL] @ ''  res.end('' @ [CHR 0x22] @ ''ok'' @ [CHR 0x22] @ '');'' @ [NL] @ ''});'' @
         [NL] @ [NL] @ ''server.listen(8080);''),
      ex_Dockerfile =
        (''FROM node:22-alpine'' @ [NL] @ ''WORKDIR /app'' @ [NL] @ ''COPY package.json ./'' @
         [NL] @ ''RUN npm install'' @ [NL] @ ''COPY . .'' @ [NL] @ ''CMD ['' @ [CHR 0x22] @
         ''node'' @ [CHR 0x22] @ '', '' @ [CHR 0x22] @ ''index.js'' @ [CHR 0x22] @ '']'')\<rparr>"

definition node_cli :: exampleBlock where
  "node_cli =
     \<lparr>ex_EntryFile = ''index.js'',
      ex_EntryContent =
        (''const args = process.argv.slice(2);'' @ [NL] @ ''if (args.length < 1) {'' @ [NL] @
         ''  console.error('' @ [CHR 0x22] @ ''usage: myapp <command>'' @ [CHR 0x22] @ '');'' @
         [NL] @ ''  process.exit(1);'' @ [NL] @ ''}'' @ [NL] @ ''console.log('' @ [CHR 0x22] @
         ''Hello from'' @ [CHR 0x22] @ '', args[0]);''),
      ex_Dockerfile =
        (''FROM node:22-alpine'' @ [NL] @ ''WORKDIR /app'' @ [NL] @ ''COPY package.json ./'' @
         [NL] @ ''RUN npm install'' @ [NL] @ ''COPY . .'' @ [NL] @
         ''RUN ln -s /app/index.js /usr/local/bin/myapp && chmod +x /app/index.js'')\<rparr>"

definition node_template :: languageTemplate where
  "node_template =
     \<lparr>lt_Name = ''Node.js'', lt_BaseImage = ''node:22-alpine'',
      lt_HTTPExample = node_http, lt_CLIExample = node_cli, lt_TUIExample = no_example,
      lt_GRPCSetup =
        ''RUN npm install @grpc/grpc-js @grpc/proto-loader'',
      lt_DepRules =
        (''- For Node.js: prefer built-in modules (http, fs, path, crypto) over npm pac'' @
         ''kages'' @ [NL] @ ''- For Node.js: generate only package.json; use '' @ [CHR 0x22] @
         ''npm install'' @ [CHR 0x22] @ '' in the Dockerfile'')\<rparr>"

definition rust_http :: exampleBlock where
  "rust_http =
     \<lparr>ex_EntryFile = ''src/main.rs'',
      ex_EntryContent =
        (''use axum::{routing::get, Router};'' @ [NL] @ [NL] @ ''#[tokio::main]'' @ [NL] @
         ''async fn main() {'' @ [NL] @ ''    let app = Router::new().route('' @ [CHR 0x22] @
         ''/'' @ [CHR 0x22] @ '', get(|| async { '' @ [CHR 0x22] @ ''ok'' @ [CHR 0x22] @
         '' }));'' @ [NL] @ ''    let listener = tokio::net::TcpListener::bind('' @ [CHR 0x22] @
         ''0.0.0.0:8080'' @ [CHR 0x22] @ '').await.unwrap();'' @ [NL] @
         ''    axum::serve(listener, app).await.unwrap();'' @ [NL] @ ''}''),
      ex_Dockerfile =
        (''FROM rust:1.84-alpine AS builder'' @ [NL] @ ''RUN apk add --no-cache musl-dev'' @ [NL] @
         ''WORKDIR /app'' @ [NL] @ ''COPY Cargo.toml ./'' @ [NL] @ ''COPY src ./src'' @ [NL] @
         ''RUN cargo build --release'' @ [NL] @ [NL] @ ''FROM alpine:3.21'' @ [NL] @
         ''COPY --from=builder /app/target/release/myapp /usr/local/bin/'' @ [NL] @ ''CMD ['' @
         [CHR 0x22] @ ''myapp'' @ [CHR 0x22] @ '']'')\<rparr>"

definition rust_cli :: exampleBlock where
  "rust_cli =
     \<lparr>ex_EntryFile = ''src/main.rs'',
      ex_EntryContent =
        (''use std::env;'' @ [NL] @ [NL] @ ''fn main() {'' @ [NL] @
         ''    let args: Vec<String> = env::args().collect();'' @ [NL] @
         ''    if args.len() < 2 {'' @ [NL] @ ''        eprintln!('' @ [CHR 0x22] @
         ''usage: myapp <command>'' @ [CHR 0x22] @ '');'' @ [NL] @
         ''        std::process::exit(1);'' @ [NL] @ ''    }'' @ [NL] @ ''    println!('' @
         [CHR 0x22] @ ''Hello from {}'' @ [CHR 0x22] @ '', args[1]);'' @ [NL] @ ''}''),
      ex_Dockerfile =
        (''FROM rust:1.84-alpine AS builder'' @ [NL] @ ''RUN apk add --no-cache musl-dev'' @ [NL] @
         ''WORKDIR /app'' @ [NL] @ ''COPY Cargo.toml ./'' @ [NL] @ ''COPY src ./src'' @ [NL] @
         ''RUN cargo build --release'' @ [NL] @ [NL] @ ''FROM alpine:3.21'' @ [NL] @
         ''COPY --from=builder /app/target/release/myapp /usr/local/bin/myapp'')\<rparr>"

definition rust_template :: languageTemplate where
  "rust_template =
     \<lparr>lt_Name = ''Rust'', lt_BaseImage = ''rust:1.84-alpine'',
      lt_HTTPExample = rust_http, lt_CLIExample = rust_cli, lt_TUIExample = no_example,
      lt_GRPCSetup =
        (''RUN apk add --no-cache protobuf-dev'' @ [NL] @
         ''# Add tonic-build to build.rs for protobuf compilation''),
      lt_DepRules =
        (''- For Rust: prefer standard library where possible'' @ [NL] @
         ''- For Rust: generate Cargo.toml with dependencies; use multi-stage Dockerfil'' @
         ''e (builder + runtime)'' @ [NL] @ ''- For Rust: do NOT generate Cargo.lock '' @
         [CHR 0xE2, CHR 0x80, CHR 0x94] @ '' let cargo resolve dependencies at build time'')\<rparr>"

definition languageRegistry :: "(gostring \<times> languageTemplate) list" where
  "languageRegistry =
     [(''go'', go_template), (''python'', python_template), (''node'', node_template),
      (''rust'', rust_template)]"

definition LookupLanguage :: "gostring \<Rightarrow> languageTemplate option" where
  "LookupLanguage lang = map_of languageRegistry lang"

definition SupportedLanguages :: "gostring list" where
  "SupportedLanguages = sort (map fst languageRegistry)"

lemma SupportedLanguages_sorted: "SupportedLanguages = [''go'', ''node'', ''python'', ''rust'']"
  unfolding SupportedLanguages_def languageRegistry_def by code_simp

lemma LookupLanguage_iff: "LookupLanguage lang \<noteq> None \<longleftrightarrow> lang \<in> set SupportedLanguages"
  by (simp add: LookupLanguage_def SupportedLanguages_def map_of_eq_None_iff)

lemma LookupLanguage_Nil [simp]: "LookupLanguage [] = None"
  by (simp add: LookupLanguage_def languageRegistry_def)

end
