(* ===== verification/Prompts.thy ===== *)
theory Prompts
  imports Feedback Languages Llm Toposort
begin

text \<open>
  The prompt half of \<open>internal/attractor/prompts.go\<close>: the system prompts (specification, gene
  section, capability instructions, language example, dependency rules), the component prompt and
  the user messages of an iteration.
\<close>

datatype generationMode = modeFileFormat | modeToolUse

record scenarioCapabilities =
  NeedsHTTP :: bool
  NeedsExec :: bool
  NeedsBrowser :: bool
  NeedsGRPC :: bool
  NeedsWS :: bool
  NeedsTUI :: bool

definition systemPromptPrefix :: gostring where
  "systemPromptPrefix =
     (''You are a code generation agent. Your task is to generate a complete, workin'' @
      ''g application based on the following specification.'' @ [NL] @ [NL] @ ''SPECIFICATION:'' @
      [NL])"

definition genericDepRules :: gostring where
  "genericDepRules =
     ([NL] @ [NL] @ ''DEPENDENCY RULES:'' @ [NL] @
      ''- ALWAYS prefer standard library over third-party dependencies'' @ [NL] @
      ''- NEVER generate lock files or checksum files (go.sum, package-lock.json, ya'' @
      ''rn.lock, Cargo.lock, etc.) '' @ [CHR 0xE2, CHR 0x80, CHR 0x94] @
      '' you cannot compute valid hashes; the build will fail'' @ [NL] @
      ''- Let the package manager resolve and verify dependencies at build time'')"

definition geneSectionHeader :: gostring where
  "geneSectionHeader =
     ([NL] @ [NL] @ ''PROVEN PATTERNS (extracted from a working exemplar '' @
      [CHR 0xE2, CHR 0x80, CHR 0x94] @ '' synthesize equivalent behavior'' @ [NL] @
      ''adapted to the specification above. Preserve the structural approach and inv'' @
      ''ariants.'' @ [NL] @
      ''The SPECIFICATION always takes precedence over these patterns on any conflic'' @ ''t):'' @
      [NL] @ [NL])"

definition languageDisplayName :: "gostring \<Rightarrow> gostring" where
  "languageDisplayName lang = (case LookupLanguage lang of Some tmpl \<Rightarrow> lt_Name tmpl | None \<Rightarrow> lang)"

definition buildGeneSection :: "gostring \<Rightarrow> gostring \<Rightarrow> gostring \<Rightarrow> gostring" where
  "buildGeneSection genes language geneLanguage =
     geneSectionHeader @ genes @
     (if geneLanguage \<noteq> [] \<and> language \<noteq> [] \<and> geneLanguage \<noteq> language then
        ([NL] @ [NL] @ ''CROSS-LANGUAGE NOTE: The exemplar above is written in '') @ languageDisplayName geneLanguage @
        ''. You are generating '' @ languageDisplayName language @
        (''. Preserve the invariants, structural patterns, and architectural approach w'' @
         ''hile using idiomatic '') @
        languageDisplayName language @ '' constructs, libraries, and conventions.''
      else [])"

definition wsSupplementaryInstruction :: "scenarioCapabilities \<Rightarrow> gostring" where
  "wsSupplementaryInstruction caps =
     (if NeedsWS caps then ([NL] @ ''- The HTTP server must also handle WebSocket upgrade requests on port 8080'')
      else [])"

definition capabilityInstructions :: "scenarioCapabilities \<Rightarrow> gostring" where
  "capabilityInstructions caps =
     (let needsHTTP = NeedsHTTP caps \<or> NeedsBrowser caps; ws = wsSupplementaryInstruction caps in
      if needsHTTP \<and> NeedsGRPC caps then
          (''- Generate ALL files needed for a working application that serves both HTTP '' @
           ''and gRPC'' @ [NL] @ ''- Include a Dockerfile that builds and runs the application'' @
           [NL] @ ''- The application MUST listen on port 8080 for HTTP requests'' @ [NL] @
           ''- The application MUST serve gRPC on port 50051'' @ [NL] @
           ''- The gRPC server MUST enable server reflection so clients can discover serv'' @
           ''ices at runtime'' @ [NL] @
           ''- Include .proto files defining the service and compile them as part of the '' @
           ''Docker build'') @ ws
      else if NeedsExec caps \<and> NeedsGRPC caps then
          (''- Generate ALL files needed for a working application that serves both as a '' @
           ''CLI tool and a gRPC server'' @ [NL] @
           ''- Include a Dockerfile that builds the application and installs it in PATH'' @ [NL] @
           ''- The application MUST serve gRPC on port 50051'' @ [NL] @
           ''- The gRPC server MUST enable server reflection so clients can discover serv'' @
           ''ices at runtime'' @ [NL] @
           ''- The application must also support command-line invocation for CLI operatio'' @
           ''ns'' @ [NL] @
           ''- Include .proto files defining the service and compile them as part of the '' @
           ''Docker build'')
      else if NeedsGRPC caps then
          (''- Generate ALL files needed for a working gRPC application'' @ [NL] @
           ''- Include a Dockerfile that builds and runs the application with a gRPC serv'' @
           ''er on port 50051'' @ [NL] @
           ''- The gRPC server MUST enable server reflection so clients can discover serv'' @
           ''ices at runtime'' @ [NL] @
           ''- Include .proto files defining the service and compile them as part of the '' @
           ''Docker build'' @ [NL] @
           ''- Install protoc and any language-specific protobuf/gRPC compiler plugins in'' @
           '' the Dockerfile'')
      else if needsHTTP \<and> NeedsExec caps then
          (''- Generate ALL files needed for a working application that serves both as an'' @
           '' HTTP server AND a command-line tool'' @ [NL] @
           ''- Include a Dockerfile that builds the application and installs it in PATH'' @ [NL] @
           ''- The application MUST listen on port 8080 for HTTP requests'' @ [NL] @
           ''- The application must also support command-line invocation for CLI operatio'' @
           ''ns'') @ ws
      else if NeedsTUI caps \<and> NeedsExec caps then
          (''- Generate ALL files needed for a working terminal user interface (TUI) appl'' @
           ''ication'' @ [NL] @
           ''- Include a Dockerfile that builds the application. The built binary must be'' @
           '' available in PATH inside the container.'' @ [NL] @
           ''- The application is a full-screen TUI program that renders to the alternate'' @
           '' screen buffer'' @ [NL] @
           ''- The application must also support CLI subcommands for non-interactive oper'' @
           ''ations'' @ [NL] @ ''- Do NOT start an HTTP server or listen on any port'')
      else if NeedsTUI caps then
          (''- Generate ALL files needed for a working terminal user interface (TUI) appl'' @
           ''ication'' @ [NL] @
           ''- Include a Dockerfile that builds the application. The built binary must be'' @
           '' available in PATH inside the container.'' @ [NL] @
           ''- The application is a full-screen TUI program that renders to the alternate'' @
           '' screen buffer'' @ [NL] @ ''- Do NOT start an HTTP server or listen on any port'')
      else if NeedsExec caps then
          (''- Generate ALL files needed for a working command-line application'' @ [NL] @
           ''- Include a Dockerfile that builds the application. The built binary must be'' @
           '' available in PATH inside the container.'' @ [NL] @
           ''- Do NOT start a server or listen on any port. The application is a CLI tool'' @
           '' invoked via command-line arguments.'')
      else
          (''- Generate ALL files needed for a working application'' @ [NL] @
           ''- Include a Dockerfile that builds and runs the application on port 8080'') @ ws)"

definition capabilityTrailingInstructions :: "scenarioCapabilities \<Rightarrow> gostring" where
  "capabilityTrailingInstructions caps =
     (let needsHTTP = NeedsHTTP caps \<or> NeedsBrowser caps in
      if needsHTTP \<and> NeedsGRPC caps then
          ''- Include all .proto files and configuration files''
      else if NeedsExec caps \<and> NeedsGRPC caps then
          ''- Include all .proto files and configuration files''
      else if NeedsGRPC caps then
          (''- The application MUST serve gRPC on port 50051'' @ [NL] @
           ''- Include all .proto files and configuration files'')
      else if needsHTTP \<and> NeedsExec caps then
          ''- Include all dependencies and configuration files''
      else if NeedsTUI caps \<and> NeedsExec caps then
          (''- The Dockerfile must install the binary to a PATH location (e.g. /usr/local'' @
           ''/bin/)'' @ [NL] @
           ''- The application must render a full-screen TUI and respond to keyboard inpu'' @
           ''t'' @ [NL] @ ''- The application must also support CLI subcommands'' @ [NL] @
           ''- Include all dependencies and configuration files'')
      else if NeedsTUI caps then
          (''- The Dockerfile must install the binary to a PATH location (e.g. /usr/local'' @
           ''/bin/)'' @ [NL] @
           ''- The application must render a full-screen TUI and respond to keyboard inpu'' @
           ''t'' @ [NL] @ ''- Include all dependencies and configuration files'')
      else if NeedsExec caps then
          (''- The Dockerfile must install the binary to a PATH location (e.g. /usr/local'' @
           ''/bin/)'' @ [NL] @ ''- Include all dependencies and configuration files'')
      else
          (''- The application MUST listen on port 8080'' @ [NL] @
           ''- Include all dependencies and configuration files''))"

definition selectExampleBlock :: "languageTemplate \<Rightarrow> scenarioCapabilities \<Rightarrow> exampleBlock" where
  "selectExampleBlock tmpl caps =
     (if NeedsTUI caps then lt_TUIExample tmpl
      else if NeedsExec caps then lt_CLIExample tmpl
      else lt_HTTPExample tmpl)"

text \<open>A file block of an example: the content is followed by a newline of its own.\<close>

definition example_file :: "gostring \<Rightarrow> gostring \<Rightarrow> gostring" where
  "example_file path content = ''=== FILE: '' @ path @ ('' ==='' @ [NL]) @ content @ ([NL] @ ''=== END FILE ==='' @ [NL])"

definition buildGRPCExample :: "languageTemplate \<Rightarrow> gostring" where
  "buildGRPCExample tmpl =
     ([NL] @ ''EXAMPLE (showing correct format with two files):'' @ [NL] @ [NL]) @
     ''proto3'' @
     (''=== FILE: Dockerfile ==='' @ [NL] @ ''FROM '') @ lt_BaseImage tmpl @ [NL] @ lt_GRPCSetup tmpl @
     ([NL] @ ''WORKDIR /app'' @ [NL] @ ''COPY . .'' @ [NL] @
      ''RUN <compile .proto files to generate stubs>'' @ [NL] @
      ''RUN <install dependencies and build the application>'' @ [NL] @ ''CMD ['' @ [CHR 0x22] @
      ''./server'' @ [CHR 0x22] @ '']'' @ [NL] @ ''=== END FILE ==='' @ [NL])"

definition buildLanguageExample :: "languageTemplate \<Rightarrow> scenarioCapabilities \<Rightarrow> gostring" where
  "buildLanguageExample tmpl caps =
     (let needsHTTP = NeedsHTTP caps \<or> NeedsBrowser caps in
      if (needsHTTP \<and> NeedsGRPC caps) \<or> (NeedsExec caps \<and> NeedsGRPC caps) \<or>
         (NeedsTUI caps \<and> NeedsExec caps) \<or> (needsHTTP \<and> NeedsExec caps) then []
      else if NeedsGRPC caps then buildGRPCExample tmpl
      else let ex = selectExampleBlock tmpl caps in
        if ex_EntryFile ex = [] then
          (if ex_Dockerfile ex = [] then []
           else ([NL] @ ''EXAMPLE (showing correct Dockerfile format):'' @ [NL] @ [NL]) @
             example_file ''Dockerfile'' (ex_Dockerfile ex))
        else ([NL] @ ''EXAMPLE (showing correct format with two files):'' @ [NL] @ [NL]) @
             example_file (ex_EntryFile ex) (ex_EntryContent ex) @
             example_file ''Dockerfile'' (ex_Dockerfile ex))"

definition buildCapabilitySuffix :: "scenarioCapabilities \<Rightarrow> gostring \<Rightarrow> generationMode \<Rightarrow> gostring" where
  "buildCapabilitySuffix caps language mode =
     ([NL] @ [NL] @ ''INSTRUCTIONS:'' @ [NL]) @ capabilityInstructions caps @
     (case mode of
        modeToolUse \<Rightarrow>
          ([NL] @ ''- Use the write_file tool to create each file in the workspace'') @
          (if LookupLanguage language \<noteq> None then
             ([NL] @
             ''- Use read_file to inspect existing files and list_files to see what is pres'' @
             ''ent'') else []) @
          ([NL] @
           ''- Write ALL required files; do not skip any file needed for a working applic'' @
           ''ation'' @ [NL] @ ''- Minimize explanatory text; focus on writing the files'' @ [NL])
      | modeFileFormat \<Rightarrow>
          ([NL] @ ''- Output each file in this exact format:'' @ [NL] @ [NL] @
           ''=== FILE: path/to/file ==='' @ [NL] @ ''file content here'' @ [NL] @
           ''=== END FILE ==='' @ [NL]) @
          (case LookupLanguage language of Some tmpl \<Rightarrow> buildLanguageExample tmpl caps | None \<Rightarrow> []) @
          ([NL] @ ''- Generate ONLY the file blocks, minimize explanatory text'' @ [NL])) @
     capabilityTrailingInstructions caps"

definition buildDepRules :: "gostring \<Rightarrow> gostring" where
  "buildDepRules language =
     (case LookupLanguage language of
        Some tmpl \<Rightarrow> genericDepRules @ [NL] @ lt_DepRules tmpl
      | None \<Rightarrow> genericDepRules)"

definition buildSystemPrompt ::
    "gostring \<Rightarrow> scenarioCapabilities \<Rightarrow> gostring \<Rightarrow> gostring \<Rightarrow> gostring \<Rightarrow> generationMode \<Rightarrow> gostring" where
  "buildSystemPrompt spec caps language genes geneLanguage mode =
     systemPromptPrefix @ spec @
     (if genes \<noteq> [] then buildGeneSection genes language geneLanguage else []) @
     buildCapabilitySuffix caps language mode @ buildDepRules language"

definition buildComponentSuffix :: "gostring \<Rightarrow> gostring" where
  "buildComponentSuffix language =
     ([NL] @ [NL] @ ''INSTRUCTIONS:'' @ [NL]) @
     (''- Generate ONLY the source code files for this component'' @ [NL]) @
     (''- Do NOT generate a Dockerfile, dependency manifests, or build infrastructur'' @ ''e '' @
      [CHR 0xE2, CHR 0x80, CHR 0x94] @
      '' those will be generated in a separate integration step'' @ [NL]) @
     (''- Output each file in this exact format:'' @ [NL] @ [NL]) @
     (''=== FILE: path/to/file ==='' @ [NL] @ ''file content here'' @ [NL] @ ''=== END FILE ==='' @
      [NL]) @
     (case LookupLanguage language of
        None \<Rightarrow> []
      | Some tmpl \<Rightarrow>
          let ex = lt_HTTPExample tmpl in
          if ex_EntryFile ex \<noteq> [] then
            ([NL] @ ''EXAMPLE (showing correct format):'' @ [NL] @ [NL]) @ example_file (ex_EntryFile ex) (ex_EntryContent ex)
          else []) @
     ([NL] @ ''- Generate ONLY the file blocks, minimize explanatory text'' @ [NL])"

definition dep_section :: "component \<Rightarrow> gostring gomap \<Rightarrow> gostring" where
  "dep_section c depInterfaces =
     concat (map (\<lambda>name. case gm_get depInterfaces name of
         None \<Rightarrow> []
       | Some iface \<Rightarrow> ([NL] @ ''--- '') @ name @ ('' ---'' @ [NL]) @ iface @ [NL]) (sort (c_DependsOn c)))"

definition buildComponentPrompt :: "gostring \<Rightarrow> component \<Rightarrow> gostring gomap \<Rightarrow> gostring \<Rightarrow> gostring" where
  "buildComponentPrompt spec c depInterfaces language =
     systemPromptPrefix @ spec @ ([NL] @ [NL] @ ''COMPONENT CONTRACT:'' @ [NL]) @ c_Interface c @
     (if c_Patterns c \<noteq> [] then ([NL] @ [NL] @ ''COMPONENT PATTERNS:'' @ [NL]) @ c_Patterns c else []) @
     (if c_DependsOn c \<noteq> [] \<and> depInterfaces \<noteq> [] \<and> dep_section c depInterfaces \<noteq> [] then
        ([NL] @ [NL] @ ''DEPENDENCY INTERFACES:'' @ [NL]) @ dep_section c depInterfaces
      else []) @
     buildComponentSuffix language @ buildDepRules language"

section \<open>User messages\<close>

definition last_entries :: "iterationFeedback list \<Rightarrow> iterationFeedback list" where
  "last_entries history = drop (length history - maxFeedbackEntries) history"

definition steering_block :: "iterationFeedback list \<Rightarrow> gostring" where
  "steering_block history =
     (let t = buildSteeringText history in if t \<noteq> [] then t @ [NL] else [])"

definition user_message :: "gostring \<Rightarrow> message" where
  "user_message c = \<lparr>m_Role = ''user'', m_Content = c\<rparr>"

definition buildMessages :: "iterationFeedback list \<Rightarrow> generationMode \<Rightarrow> message list" where
  "buildMessages history mode =
     (if history = [] then
        [user_message (if mode = modeToolUse then
           (''Generate the application according to the specification. Use the write_file '' @
            ''tool to create each file.'')
         else
           (''Generate the application according to the specification. Output all files us'' @
            ''ing the === FILE: path === format.''))]
      else
        [user_message (
          (''The previous attempt did not fully satisfy the specification. Here is the fe'' @
           ''edback:'' @ [NL] @ [NL]) @
          steering_block history @ writeCategorizedFeedback (last_entries history) @
          (if mode = modeToolUse then
             (''Please generate a corrected version of the application. Use the write_file t'' @
             ''ool to create ALL required files.'')
           else
             (''Please generate a corrected version of the application. Output ALL files usi'' @
             ''ng the === FILE: path === format.'')))])"

definition content_of :: "gostring gomap \<Rightarrow> gostring \<Rightarrow> gostring" where
  "content_of m p = (case gm_get m p of None \<Rightarrow> [] | Some c \<Rightarrow> c)"

definition buildPatchMessages ::
    "iterationFeedback list \<Rightarrow> gostring gomap \<Rightarrow> float64 \<Rightarrow> int \<Rightarrow> generationMode \<Rightarrow> message list" where
  "buildPatchMessages history bestFiles bestScore omittedCount mode =
     [user_message (
       (case mode of
          modeToolUse \<Rightarrow>
            ''The current best version scored '' @ fmt_f 1 bestScore @ (''/100. Current files in the workspace:'' @ [NL] @ [NL]) @
            concat (map (\<lambda>p. ''- '' @ p @ [NL]) (gm_sorted_keys bestFiles)) @
            ([NL] @
             ''Use read_file to inspect any file you need to review before making changes.'' @
             [NL] @ [NL])
        | modeFileFormat \<Rightarrow>
            ''The current best version scored '' @ fmt_f 1 bestScore @ (''/100. Here are all current files:'' @ [NL] @ [NL]) @
            concat (map (\<lambda>p. ''=== FILE: '' @ p @ ('' ==='' @ [NL]) @ content_of bestFiles p @ (''=== END FILE ==='' @ [NL] @ [NL]))
              (gm_sorted_keys bestFiles)) @
            (if 0 < omittedCount then
               ''('' @ int_str omittedCount @ ('' other files not relevant to current failures, not shown)'' @ [NL] @ [NL]) else [])) @
       steering_block history @
       (if history \<noteq> [] then
          (if mode = modeToolUse then (''Here is the feedback:'' @ [NL] @ [NL]) else (''Failures to fix:'' @ [NL] @ [NL])) @
          writeCategorizedFeedback (last_entries history)
        else []) @
       (if mode = modeToolUse then
          (''Use the write_file tool to write any files that need to change. You only nee'' @
           ''d to write files that require modification; unchanged files are already pres'' @
           ''ent.'')
        else
          (''Output ONLY the files that need to change using the === FILE: path === forma'' @
           ''t. For files you are not changing, you may emit === UNCHANGED: path === as a'' @
           '' comment, but this is optional.'')))]"

end
