(* ===== verification/Prompt_Format.thy ===== *)
theory Prompt_Format
  imports Prompts Fileparse
begin

text \<open>
  The agreement of the two sides of the file format: what \<open>buildPatchMessages\<close> prints between its
  introduction and its instructions is parsed by \<open>ParseFilesWithMetadata\<close> back into the same
  files, and the examples the system prompt shows are blocks the parser accepts.
\<close>

definition sorted_files :: "files \<Rightarrow> files" where
  "sorted_files m = map (\<lambda>p. (p, content_of m p)) (gm_sorted_keys m)"

definition patch_intro :: "float64 \<Rightarrow> gostring" where
  "patch_intro bestScore = ''The current best version scored '' @ fmt_f 1 bestScore @
     ''/100. Here are all current files:''"

lemma patch_message_files:
  "\<exists>tail. m_Content (hd (buildPatchMessages history bestFiles bestScore omitted modeFileFormat)) =
     patch_intro bestScore @ [NL] @ [NL] @ render_files (sorted_files bestFiles) @ tail"
  by (simp add: buildPatchMessages_def user_message_def patch_intro_def render_files_def
      sorted_files_def render_file_def header_def filePrefix_def fileSuffix_def fileEnd_def comp_def)

lemma sorted_files_set:
  assumes "gm_wf m"
  shows "set (sorted_files m) = set m"
  using assms
  by (force simp: sorted_files_def content_of_def gm_keys_def gm_get_def gm_wf_def image_iff
      map_of_eq_Some_iff)

lemma sorted_files_get:
  assumes "gm_wf m"
  shows "gm_get (sorted_files m) p = gm_get m p"
proof -
  have d: "distinct (map fst (sorted_files m))" by (simp add: sorted_files_def comp_def)
  have "gm_get (sorted_files m) p = Some c \<longleftrightarrow> gm_get m p = Some c" for c
    using assms d sorted_files_set [OF assms]
    by (simp add: gm_get_def gm_wf_def map_of_eq_Some_iff)
  then show ?thesis by (cases "gm_get m p"; cases "gm_get (sorted_files m) p") auto
qed

text \<open>A line that starts with a letter is no header.\<close>

lemma letter_line:
  assumes "plain_byte c" and "c \<noteq> CHR ''=''"
  shows "extractFilePath (trim_space (c # l)) = Inr None"
proof -
  have "trim_left (c # l) = c # l"
    using assms(1) by (simp add: trim_left_def strip_lead_plain_hd)
  then have "prefix (trim_space (c # l)) (c # l)"
    using trim_right_prefix [of "c # l"] by (simp add: trim_space_def)
  then have "trim_space (c # l) = [] \<or> hd (trim_space (c # l)) = c"
    by (cases "trim_space (c # l)") (auto simp: prefix_def)
  then have "\<not> prefix filePrefix (trim_space (c # l))"
    using assms(2) by (auto simp: filePrefix_def prefix_def)
  then show ?thesis by (simp add: extractFilePath_def)
qed

lemma fmt_abs_no_NL: "NL \<notin> set (fmt_abs n r)"
proof -
  have "NL \<notin> set (nat_str k)" for k
    using nat_str_digits [of NL k] by (auto simp: is_digit_def less_eq_char_def)
  then show ?thesis by (auto simp: fmt_abs_def pad_left_def Let_def)
qed

lemma intro_lines:
  assumes "0 \<le> r"
  shows "list_all (\<lambda>l. extractFilePath (trim_space l) = Inr None) (split_on NL (patch_intro (FNum r) @ [NL]))"
proof -
  have "NL \<notin> set (patch_intro (FNum r))"
    using assms fmt_abs_no_NL [of 1 r] by (simp add: patch_intro_def)
  then have "split_on NL (patch_intro (FNum r) @ [NL]) = [patch_intro (FNum r), []]"
    using split_on_append_sep [of NL "patch_intro (FNum r)" "[]"] by simp
  moreover have "plain_byte (CHR ''T'')" unfolding plain_byte_code by code_simp
  then have "extractFilePath (trim_space (patch_intro (FNum r))) = Inr None"
    using letter_line by (simp add: patch_intro_def)
  ultimately show ?thesis by simp
qed

text \<open>C19. The patch prompt shows the best files in a form the parser reads back: the message up to
  its instructions parses into exactly those files, none dropped, none truncated.\<close>

theorem patch_prompt_roundtrip:
  assumes "list_all file_ok bestFiles" and "gm_wf bestFiles" and "bestFiles \<noteq> []" and "0 \<le> r"
  shows "\<exists>shown tail fs.
    m_Content (hd (buildPatchMessages history bestFiles (FNum r) omitted modeFileFormat)) = shown @ tail \<and>
    ParseFilesWithMetadata shown = Inr \<lparr>pr_Files = fs, pr_DroppedFiles = [], pr_Truncated = False\<rparr> \<and>
    (\<forall>p. gm_get fs p = gm_get bestFiles p)"
proof -
  let ?pre = "patch_intro (FNum r) @ [NL]" and ?fs = "sorted_files bestFiles"
  obtain tail where msg: "m_Content (hd (buildPatchMessages history bestFiles (FNum r) omitted modeFileFormat)) =
      (?pre @ [NL] @ render_files ?fs) @ tail"
    using patch_message_files [of history bestFiles "FNum r" omitted] by auto
  have ok: "list_all file_ok ?fs" "distinct (map fst ?fs)"
    using assms(1) sorted_files_set [OF assms(2)] by (auto simp: list_all_iff sorted_files_def comp_def)
  have ne: "?fs \<noteq> []" using sorted_files_set [OF assms(2)] assms(3) by (metis set_empty)
  have "parse_lines (split_on NL (?pre @ NL # render_files ?fs)) parse_start =
      Inr (parse_start\<lparr>ps_files := ?fs\<rparr>)"
    using parse_outside [OF intro_lines [OF assms(4)], of parse_start]
      parse_render_files [OF ok(1), of parse_start] ok(2)
    unfolding split_on_append2 [of NL ?pre] parse_lines_append by (simp add: parse_start_def)
  then have "ParseFilesWithMetadata (?pre @ [NL] @ render_files ?fs) =
      Inr \<lparr>pr_Files = ?fs, pr_DroppedFiles = [], pr_Truncated = False\<rparr>"
    using ne by (simp add: ParseFilesWithMetadata_def parse_start_def)
  with msg sorted_files_get [OF assms(2)] show ?thesis by blast
qed

theorem patch_prompt_roundtrip_witness:
  "\<exists>shown tail fs.
    m_Content (hd (buildPatchMessages [] sample_files (FNum 80) 2 modeFileFormat)) = shown @ tail \<and>
    ParseFilesWithMetadata shown = Inr \<lparr>pr_Files = fs, pr_DroppedFiles = [], pr_Truncated = False\<rparr> \<and>
    (\<forall>p. gm_get fs p = gm_get sample_files p)"
proof (rule patch_prompt_roundtrip [OF sample_ok])
  show "gm_wf sample_files" "sample_files \<noteq> []" by (simp_all add: sample_files_def gm_wf_def)
qed simp

definition http_caps :: scenarioCapabilities where
  "http_caps = \<lparr>NeedsHTTP = True, NeedsExec = False, NeedsBrowser = False, NeedsGRPC = False,
     NeedsWS = False, NeedsTUI = False\<rparr>"

definition cli_caps :: scenarioCapabilities where
  "cli_caps = http_caps\<lparr>NeedsHTTP := False, NeedsExec := True\<rparr>"

definition example_files :: "exampleBlock \<Rightarrow> files" where
  "example_files ex =
     [(ex_EntryFile ex, normalizeTrailingNewline (ex_EntryContent ex)),
      (''Dockerfile'', normalizeTrailingNewline (ex_Dockerfile ex))]"

text \<open>The example blocks of the system prompt follow the format they illustrate: for every
  supported language, the HTTP and the command-line example parse into their two files.\<close>

theorem language_examples_parse:
  "list_all (\<lambda>(k, t).
     ParseFiles (buildLanguageExample t http_caps) = Inr (example_files (lt_HTTPExample t)) \<and>
     ParseFiles (buildLanguageExample t cli_caps) = Inr (example_files (lt_CLIExample t))) languageRegistry"
  by code_simp

end
