(* ===== verification/Go_Json.thy ===== *)
theory Go_Json
  imports Go_Parse Go_Utf8
begin

text \<open>
  \<open>encoding/json\<close> as the program uses it: the syntax check of \<open>json.Unmarshal\<close> (RFC 8259, with Go's
  nesting limit), the decoding of strings (escapes, surrogates, the replacement of invalid UTF-8),
  and the decoding into the few Go types the program unmarshals into.
\<close>

datatype json =
    JNull
  | JBool bool
  | JNum gostring
  | JStr gostring
  | JArr "json list"
  | JObj "(gostring \<times> json) list"

section \<open>Strings\<close>

text \<open>Code points are integers, whose numerals evaluate in binary. The UTF-8 encoding of a code point; a lone surrogate is replaced by U+FFFD.\<close>

definition utf8_encode :: "int \<Rightarrow> gostring" where
  "utf8_encode n =
     (if n < 0x80 then [char_of n]
      else if n < 0x800 then [char_of (0xC0 + n div 0x40), char_of (0x80 + n mod 0x40)]
      else if 0xD800 \<le> n \<and> n < 0xE000 then [CHR 0xEF, CHR 0xBF, CHR 0xBD]
      else if n < 0x10000 then
        [char_of (0xE0 + n div 0x1000), char_of (0x80 + n div 0x40 mod 0x40), char_of (0x80 + n mod 0x40)]
      else if n < 0x110000 then
        [char_of (0xF0 + n div 0x40000), char_of (0x80 + n div 0x1000 mod 0x40),
         char_of (0x80 + n div 0x40 mod 0x40), char_of (0x80 + n mod 0x40)]
      else [CHR 0xEF, CHR 0xBF, CHR 0xBD])"

text \<open>The four hexadecimal digits of a \<open>\u\<close> escape.\<close>

definition hex4 :: "gostring \<Rightarrow> int option" where
  "hex4 s =
     (if length s < 4 then None
      else let ds = map (hex_digit True) (take 4 s) in
        if list_all (\<lambda>d. d \<noteq> None) ds then Some (fold (\<lambda>d v. 16 * v + int (the d)) ds 0) else None)"

abbreviation BACKSLASH :: char where "BACKSLASH \<equiv> CHR 0x5C"
abbreviation QUOTE :: char where "QUOTE \<equiv> CHR 0x22"

definition simple_escape :: "char \<Rightarrow> char option" where
  "simple_escape c =
     map_of [(QUOTE, QUOTE), (BACKSLASH, BACKSLASH), (CHR ''/'', CHR ''/''), (CHR ''b'', CHR 0x08),
       (CHR ''f'', CHR 0x0C), (CHR ''n'', CHR 0x0A), (CHR ''r'', CHR 0x0D), (CHR ''t'', CHR 0x09)] c"

text \<open>The decoded text of an escape after its backslash, and how many bytes it takes.\<close>

definition escape_at :: "gostring \<Rightarrow> (gostring \<times> nat) option" where
  "escape_at s =
     (case s of
        [] \<Rightarrow> None
      | c # r \<Rightarrow>
          if c = CHR ''u'' then
            (case hex4 r of
               None \<Rightarrow> None
             | Some hi \<Rightarrow>
                 if 0xD800 \<le> hi \<and> hi < 0xDC00 \<and> take 2 (drop 4 r) = [BACKSLASH, CHR ''u''] then
                   (case hex4 (drop 6 r) of
                      None \<Rightarrow> None
                    | Some lo \<Rightarrow>
                        if 0xDC00 \<le> lo \<and> lo < 0xE000 then
                          Some (utf8_encode (0x10000 + (hi - 0xD800) * 0x400 + (lo - 0xDC00)), 11)
                        else Some (utf8_encode hi, 5))
                 else Some (utf8_encode hi, 5))
          else (case simple_escape c of None \<Rightarrow> None | Some d \<Rightarrow> Some ([d], 1)))"

text \<open>The text up to the closing quote, decoded, and the rest after it.\<close>

function string_body :: "gostring \<Rightarrow> (gostring \<times> gostring) option" where
  "string_body s =
     (case s of
        [] \<Rightarrow> None
      | c # r \<Rightarrow>
          if c = QUOTE then Some ([], r)
          else if (of_char c :: nat) < 0x20 then None
          else if c = BACKSLASH then
            (case escape_at r of
               None \<Rightarrow> None
             | Some (t, k) \<Rightarrow> map_option (\<lambda>(u, rest). (t @ u, rest)) (string_body (drop k r)))
          else
            (let k = rune_len s in
             if k = 0 then map_option (\<lambda>(u, rest). ([CHR 0xEF, CHR 0xBF, CHR 0xBD] @ u, rest)) (string_body r)
             else map_option (\<lambda>(u, rest). (take k s @ u, rest)) (string_body (drop k s))))"
  by pat_completeness auto
termination by (relation "measure length") (auto simp: less_Suc_eq_le)

declare string_body.simps [simp del]

section \<open>Values\<close>

definition skip_ws :: "gostring \<Rightarrow> gostring" where
  "skip_ws s = dropWhile (\<lambda>c. c = CHR '' '' \<or> c = CHR 0x09 \<or> c = CHR 0x0A \<or> c = CHR 0x0D) s"

text \<open>A number by the grammar: optional minus, an integer part without leading zeros, an optional
  fraction and an optional exponent. The result is the literal and the rest.\<close>

definition take_digits :: "gostring \<Rightarrow> gostring \<times> gostring" where
  "take_digits s = (takeWhile is_digit s, dropWhile is_digit s)"

definition scan_sign :: "gostring \<Rightarrow> gostring \<times> gostring" where
  "scan_sign s = (case s of c # r \<Rightarrow> if c = CHR ''-'' then ([c], r) else ([], s) | [] \<Rightarrow> ([], s))"

definition scan_int :: "gostring \<Rightarrow> gostring \<times> gostring" where
  "scan_int s = (case s of c # r \<Rightarrow> if c = CHR ''0'' then ([c], r) else take_digits s | [] \<Rightarrow> ([], []))"

definition scan_frac :: "gostring \<Rightarrow> (gostring \<times> gostring) option" where
  "scan_frac s =
     (case s of
        c # r \<Rightarrow>
          if c = CHR ''.'' then (case take_digits r of (d, q) \<Rightarrow> if d = [] then None else Some (c # d, q))
          else Some ([], s)
      | [] \<Rightarrow> Some ([], s))"

definition scan_exponent :: "gostring \<Rightarrow> (gostring \<times> gostring) option" where
  "scan_exponent s =
     (case s of
        c # r \<Rightarrow>
          if c = CHR ''e'' \<or> c = CHR ''E'' then
            (let (es, q) = (case r of
                   d # q \<Rightarrow> if d = CHR ''+'' \<or> d = CHR ''-'' then ([d], q) else ([], r)
                 | [] \<Rightarrow> ([], r));
                 (ed, t) = take_digits q
             in if ed = [] then None else Some (c # es @ ed, t))
          else Some ([], s)
      | [] \<Rightarrow> Some ([], s))"

definition scan_number :: "gostring \<Rightarrow> (gostring \<times> gostring) option" where
  "scan_number s =
     (case scan_sign s of (sg, s1) \<Rightarrow>
      (case scan_int s1 of (ip, s2) \<Rightarrow>
         if ip = [] then None
         else
           (case scan_frac s2 of
              None \<Rightarrow> None
            | Some (fr, s3) \<Rightarrow> map_option (\<lambda>(ex, t). (sg @ ip @ fr @ ex, t)) (scan_exponent s3))))"

definition maxNestingDepth :: int where "maxNestingDepth = 10000"

text \<open>
  The value parser, with fuel for its recursion: every call but those of the two list loops
  consumes a byte, so twice the length of the text is enough. \<open>d\<close> is the nesting depth.
\<close>

fun jvalue :: "nat \<Rightarrow> int \<Rightarrow> gostring \<Rightarrow> (json \<times> gostring) option"
  and jelems :: "nat \<Rightarrow> int \<Rightarrow> gostring \<Rightarrow> (json list \<times> gostring) option"
  and jmembers :: "nat \<Rightarrow> int \<Rightarrow> gostring \<Rightarrow> ((gostring \<times> json) list \<times> gostring) option" where
  "jvalue 0 d s = None"
| "jvalue (Suc n) d s0 =
     (let s = skip_ws s0 in
      case s of
        [] \<Rightarrow> None
      | c # r \<Rightarrow>
          if c = QUOTE then map_option (\<lambda>(t, rest). (JStr t, rest)) (string_body r)
          else if c = CHR ''['' then
            (if maxNestingDepth \<le> d then None
             else let r' = skip_ws r in
               if prefix '']'' r' then Some (JArr [], drop 1 r')
               else map_option (\<lambda>(vs, rest). (JArr vs, rest)) (jelems n (d + 1) r'))
          else if c = CHR ''{'' then
            (if maxNestingDepth \<le> d then None
             else let r' = skip_ws r in
               if prefix ''}'' r' then Some (JObj [], drop 1 r')
               else map_option (\<lambda>(ms, rest). (JObj ms, rest)) (jmembers n (d + 1) r'))
          else if prefix ''null'' s then Some (JNull, drop 4 s)
          else if prefix ''true'' s then Some (JBool True, drop 4 s)
          else if prefix ''false'' s then Some (JBool False, drop 5 s)
          else map_option (\<lambda>(l, rest). (JNum l, rest)) (scan_number s))"
| "jelems 0 d s = None"
| "jelems (Suc n) d s =
     (case jvalue n d s of
        None \<Rightarrow> None
      | Some (v, rest) \<Rightarrow>
          (case skip_ws rest of
             [] \<Rightarrow> None
           | c # r \<Rightarrow>
               if c = CHR '','' then map_option (\<lambda>(vs, q). (v # vs, q)) (jelems n d r)
               else if c = CHR '']'' then Some ([v], r)
               else None))"
| "jmembers 0 d s = None"
| "jmembers (Suc n) d s0 =
     (case skip_ws s0 of
        [] \<Rightarrow> None
      | c # s \<Rightarrow>
          if c \<noteq> QUOTE then None
          else
            (case string_body s of
               None \<Rightarrow> None
             | Some (k, rest) \<Rightarrow>
                 (case skip_ws rest of
                    [] \<Rightarrow> None
                  | c # r \<Rightarrow>
                      if c \<noteq> CHR '':'' then None
                      else
                        (case jvalue n d r of
                           None \<Rightarrow> None
                         | Some (v, rest') \<Rightarrow>
                             (case skip_ws rest' of
                                [] \<Rightarrow> None
                              | c # q \<Rightarrow>
                                  if c = CHR '','' then map_option (\<lambda>(ms, t). ((k, v) # ms, t)) (jmembers n d q)
                                  else if c = CHR ''}'' then Some ([(k, v)], q)
                                  else None)))))"

text \<open>The whole text is one value, up to surrounding white space.\<close>

definition json_parse :: "gostring \<Rightarrow> json option" where
  "json_parse s =
     (case jvalue (2 * length s + 2) 0 s of
        None \<Rightarrow> None
      | Some (v, rest) \<Rightarrow> if skip_ws rest = [] then Some v else None)"

section \<open>Decoding\<close>

text \<open>Field names match exactly or, failing that, case-insensitively.\<close>

fun fold_key :: "gostring \<Rightarrow> gostring" where
  "fold_key [] = []"
| "fold_key (c # s) =
     (if prefix [CHR 0xC5, CHR 0xBF] (c # s) then CHR ''S'' # fold_key (drop 1 s)
      else if prefix [CHR 0xE2, CHR 0x84, CHR 0xAA] (c # s) then CHR ''K'' # fold_key (drop 2 s)
      else upper_byte c # fold_key s)"

definition field_of :: "gostring list \<Rightarrow> gostring \<Rightarrow> gostring option" where
  "field_of names k =
     (if List.member names k then Some k else find (\<lambda>n. fold_key n = fold_key k) names)"

text \<open>The values of one field, in the order of the text.\<close>

definition field_values :: "gostring list \<Rightarrow> (gostring \<times> json) list \<Rightarrow> gostring \<Rightarrow> json list" where
  "field_values names ms f = map snd (filter (\<lambda>m. field_of names (fst m) = Some f) ms)"

text \<open>Decoding into a string, an \<open>int\<close> and a slice: \<open>null\<close> leaves a scalar as it is and clears a
  slice; each further value of a duplicate key overwrites the earlier one.\<close>

definition dec_string :: "json \<Rightarrow> gostring \<Rightarrow> gostring option" where
  "dec_string v old = (case v of JStr s \<Rightarrow> Some s | JNull \<Rightarrow> Some old | _ \<Rightarrow> None)"

definition int_literal :: "gostring \<Rightarrow> int option" where
  "int_literal l =
     (let (neg, t) = split_sign l; v = int (digits_val t); i = (if neg then - v else v) in
      if t \<noteq> [] \<and> list_all is_digit t \<and> - (2 ^ 63) \<le> i \<and> i < 2 ^ 63 then Some i else None)"

definition dec_int :: "json \<Rightarrow> int \<Rightarrow> int option" where
  "dec_int v old = (case v of JNum l \<Rightarrow> int_literal l | JNull \<Rightarrow> Some old | _ \<Rightarrow> None)"

definition dec_all :: "('a \<Rightarrow> 'b option) \<Rightarrow> 'a list \<Rightarrow> 'b list option" where
  "dec_all f xs = (let ys = map f xs in if list_all (\<lambda>y. y \<noteq> None) ys then Some (map the ys) else None)"

definition dec_list :: "(json \<Rightarrow> 'b option) \<Rightarrow> json \<Rightarrow> 'b list option" where
  "dec_list f v = (case v of JArr vs \<Rightarrow> dec_all f vs | JNull \<Rightarrow> Some [] | _ \<Rightarrow> None)"

definition dec_strings :: "json \<Rightarrow> gostring list option" where
  "dec_strings = dec_list (\<lambda>v. dec_string v [])"

text \<open>All values of a field in turn, each decoded over the previous result.\<close>

definition dec_field :: "(json \<Rightarrow> 'a \<Rightarrow> 'a option) \<Rightarrow> json list \<Rightarrow> 'a \<Rightarrow> 'a option" where
  "dec_field f vs zero = fold (\<lambda>v acc. case acc of None \<Rightarrow> None | Some x \<Rightarrow> f v x) vs (Some zero)"

definition unmarshal_strings :: "gostring \<Rightarrow> gostring list option" where
  "unmarshal_strings s = (case json_parse s of None \<Rightarrow> None | Some v \<Rightarrow> dec_strings v)"

lemma json_samples:
  "json_parse (''{'' @ [QUOTE] @ ''a'' @ [QUOTE] @ '': [1, -2.5e3, null], '' @ [QUOTE, BACKSLASH] @ ''u00e9'' @ [QUOTE] @ '': true} '') =
     Some (JObj [(''a'', JArr [JNum ''1'', JNum ''-2.5e3'', JNull]), ([CHR 0xC3, CHR 0xA9], JBool True)])"
  "json_parse ''[1,]'' = None" "json_parse ''01'' = None" "json_parse ''[] x'' = None"
  by code_simp+

end
