(* ===== verification/Diagnosis.thy ===== *)
theory Diagnosis
  imports Prompts Go_Json Go_Path
begin

text \<open>
  \<open>internal/attractor/diagnosis.go\<close> and \<open>triage.go\<close>: the two prompts of the wonder/reflect cycle with
  the parser of the diagnosis between them, and the selection of the files a patch prompt shows.
  The model behind \<open>Generate\<close> is a parameter that acts on the state of the outside world.
\<close>

record diagnosis =
  dg_Hypotheses :: "gostring list"
  dg_RootCauses :: "gostring list"
  dg_SuggestedApproach :: gostring

datatype diagnosis_error = DiagnosisJSON | EmptySuggestedApproach

definition diagnosis_fields :: "gostring list" where
  "diagnosis_fields = [''hypotheses'', ''root_causes'', ''suggested_approach'']"

text \<open>\<open>json.Unmarshal\<close> into a fresh \<open>Diagnosis\<close>; \<open>null\<close> leaves it empty.\<close>

definition decode_diagnosis :: "json \<Rightarrow> diagnosis option" where
  "decode_diagnosis v =
     (case v of
        JNull \<Rightarrow> Some \<lparr>dg_Hypotheses = [], dg_RootCauses = [], dg_SuggestedApproach = []\<rparr>
      | JObj ms \<Rightarrow>
          (let vs = field_values diagnosis_fields ms in
           case (dec_field (\<lambda>v _. dec_strings v) (vs ''hypotheses'') [],
                 dec_field (\<lambda>v _. dec_strings v) (vs ''root_causes'') [],
                 dec_field dec_string (vs ''suggested_approach'') []) of
             (Some h, Some r, Some a) \<Rightarrow>
               Some \<lparr>dg_Hypotheses = h, dg_RootCauses = r, dg_SuggestedApproach = a\<rparr>
           | _ \<Rightarrow> None)
      | _ \<Rightarrow> None)"

definition parseDiagnosis :: "gostring \<Rightarrow> diagnosis_error + diagnosis" where
  "parseDiagnosis raw =
     (case (case json_parse (ExtractJSON raw) of None \<Rightarrow> None | Some v \<Rightarrow> decode_diagnosis v) of
        None \<Rightarrow> Inl DiagnosisJSON
      | Some d \<Rightarrow>
          if trim_space (dg_SuggestedApproach d) = [] then Inl EmptySuggestedApproach else Inr d)"

definition wonderTemperature :: float64 where "wonderTemperature = fl (4 / 5)"
definition reflectTemperature :: float64 where "reflectTemperature = fl (2 / 5)"

definition score_line_no :: "nat \<Rightarrow> float64 \<Rightarrow> gostring" where
  "score_line_no i s = ''  Iteration '' @ nat_str (i + 1) @ '': '' @ fmt_f 1 s @ ''/100'' @ [NL]"

definition buildWonderPrompt ::
    "iterationFeedback list \<Rightarrow> gostring gomap \<Rightarrow> float64 list \<Rightarrow> bool \<Rightarrow> gostring" where
  "buildWonderPrompt history bestFiles scoreHistory oscillating =
     (''You are a debugging expert. Analyze why the following code generation attemp'' @
      ''ts are failing.'' @ [NL] @ [NL]) @
     (if scoreHistory \<noteq> [] then
        (''SCORE HISTORY:'' @ [NL]) @
        concat (map (\<lambda>(i, s). score_line_no i s) (zip [0..<length scoreHistory] scoreHistory)) @ [NL]
      else []) @
     (if oscillating then
        (''OSCILLATION DETECTED: The generator is alternating between two implementatio'' @
         ''ns without progress. This is a key signal for your diagnosis.'' @ [NL] @ [NL])
      else []) @
     (''RECENT FAILURES:'' @ [NL]) @
     (if history = [] then (''  (no history available)'' @ [NL])
      else concat (map (\<lambda>fb. feedbackHeader (fb_kind fb) @ '' (iteration '' @ int_str (fb_iteration fb) @
        '':'' @ [NL] @ truncateFeedback (fb_message fb) (maxFeedbackForFidelity fidelityFull) @ [NL, NL])
        (last_entries history))) @
     (if bestFiles \<noteq> [] then
        (''BEST GENERATED CODE SO FAR:'' @ [NL]) @
        concat (map (\<lambda>p. ''=== FILE: '' @ p @ ('' ==='' @ [NL]) @ truncateFeedback (content_of bestFiles p) 4096 @
          (''=== END FILE ==='' @ [NL] @ [NL])) (gm_sorted_keys bestFiles))
      else []) @
     (''Respond with a JSON object containing your diagnosis:'' @ [NL] @ ''{'' @ [NL] @ ''  '' @
      [CHR 0x22] @ ''hypotheses'' @ [CHR 0x22] @ '': ['' @ [CHR 0x22] @ ''<possible cause 1>'' @
      [CHR 0x22] @ '', '' @ [CHR 0x22] @ ''<possible cause 2>'' @ [CHR 0x22] @ ''],'' @ [NL] @
      ''  '' @ [CHR 0x22] @ ''root_causes'' @ [CHR 0x22] @ '': ['' @ [CHR 0x22] @
      ''<confirmed root cause>'' @ [CHR 0x22] @ ''],'' @ [NL] @ ''  '' @ [CHR 0x22] @
      ''suggested_approach'' @ [CHR 0x22] @ '': '' @ [CHR 0x22] @
      ''<concrete description of a fundamentally different implementation approach t'' @
      ''o try>'' @ [CHR 0x22, NL] @ ''}'' @ [NL] @ [NL] @
      ''The suggested_approach must be specific and actionable '' @
      [CHR 0xE2, CHR 0x80, CHR 0x94] @
      '' describe the new architecture or algorithm to use, not just '' @ [CHR 0x22] @
      ''try something different'' @ [CHR 0x22] @
      ''. Only suggested_approach is required; hypotheses and root_causes may be emp'' @
      ''ty arrays if not applicable.'')"

definition bullet :: "gostring \<Rightarrow> gostring" where
  "bullet t = ''- '' @ t @ [NL]"

definition buildReflectPrompt :: "diagnosis \<Rightarrow> bool \<Rightarrow> gostring" where
  "buildReflectPrompt d minimalism =
     (''Based on the following diagnosis of why previous attempts failed, generate a'' @
      '' new implementation.'' @ [NL] @ [NL] @ ''DIAGNOSIS:'' @ [NL]) @
     (if dg_Hypotheses d \<noteq> [] then (''Hypotheses:'' @ [NL]) @ concat (map bullet (dg_Hypotheses d)) else []) @
     (if dg_RootCauses d \<noteq> [] then (''Root causes:'' @ [NL]) @ concat (map bullet (dg_RootCauses d)) else []) @
     ''Suggested approach: '' @ dg_SuggestedApproach d @ [NL] @
     (if minimalism then
        ([NL] @ ''MINIMALISM REQUIREMENT: The current solution is already scoring above 80%. I'' @
         ''mplement the SMALLEST possible change based on the diagnosis above. Do not r'' @
         ''efactor working parts.'' @ [NL])
      else []) @
     ([NL] @ ''Generate the complete corrected application. Output ALL files using the === '' @
      ''FILE: path === format.'')"

section \<open>Triage\<close>

definition entryPointNames :: "gostring list" where
  "entryPointNames =
     [''dockerfile'', ''main.go'', ''main.py'', ''main.rs'', ''app.py'', ''app.js'', ''server.js'',
      ''index.js'', ''index.ts'', ''go.mod'', ''cargo.toml'', ''package.json'', ''requirements.txt'']"

definition isEntryPoint :: "gostring \<Rightarrow> bool" where
  "isEntryPoint path = List.member entryPointNames (to_lower (base_path path))"

definition triage_request :: "gostring gomap \<Rightarrow> gostring list \<Rightarrow> gostring \<Rightarrow> generateRequest" where
  "triage_request allFiles failures model =
     \<lparr>gr_SystemPrompt =
        (''You are a code triage assistant. Respond with a raw JSON array only '' @
         [CHR 0xE2, CHR 0x80, CHR 0x94] @ '' no markdown, no explanation.''),
      gr_Messages = [user_message (
        (''Files in the current codebase:'' @ [NL]) @ concat (map (\<lambda>p. p @ [NL]) (gm_sorted_keys allFiles)) @
        ([NL] @ ''Failures to fix:'' @ [NL]) @ concat (map (\<lambda>f. f @ [NL]) failures) @
        ([NL] @ ''Return ONLY a JSON array of file paths (strings) that are most relevant to f'' @
         ''ixing these failures, no other text. Include only paths from the list above.''))],
      gr_MaxTokens = 1024, gr_Model = model, gr_CacheControl = None, gr_Temperature = None\<rparr>"

fun pick_suggested :: "gostring list \<Rightarrow> gostring gomap \<Rightarrow> gostring gomap \<Rightarrow> gostring gomap" where
  "pick_suggested [] allFiles result = result"
| "pick_suggested (p # ps) allFiles result =
     pick_suggested ps allFiles
       (case gm_get allFiles p of Some content \<Rightarrow> gm_put p content result | None \<Rightarrow> result)"

definition pick_entry_points :: "gostring gomap \<Rightarrow> gostring gomap \<Rightarrow> gostring gomap" where
  "pick_entry_points allFiles result =
     fold (\<lambda>(p, content) m. if isEntryPoint p then gm_put p content m else m) allFiles result"

text \<open>The answer of the model, as \<open>Generate\<close> returns it, with the world after the call.\<close>

type_synonym 'w generate = "generateRequest \<Rightarrow> 'w \<Rightarrow> (goerr + generateResponse) \<times> 'w"

definition triageFiles ::
    "'w generate \<Rightarrow> gostring gomap \<Rightarrow> gostring list \<Rightarrow> gostring \<Rightarrow> 'w \<Rightarrow>
     (gostring gomap \<times> float64 \<times> int) \<times> 'w" where
  "triageFiles generate allFiles failures model w =
     (if length allFiles \<le> 5 \<or> failures = [] then ((allFiles, fzero, 0), w)
      else
        (case generate (triage_request allFiles failures model) w of
           (Inl e, w') \<Rightarrow> ((allFiles, fzero, 0), w')
         | (Inr resp, w') \<Rightarrow>
             let tokens = gp_InputTokens resp + gp_OutputTokens resp in
             case unmarshal_strings (ExtractJSON (gp_Content resp)) of
               None \<Rightarrow> ((allFiles, gp_CostUSD resp, tokens), w')
             | Some suggested \<Rightarrow>
                 let result = pick_entry_points allFiles (pick_suggested suggested allFiles []) in
                 if result = [] then ((allFiles, gp_CostUSD resp, tokens), w')
                 else ((result, gp_CostUSD resp, tokens), w')))"

section \<open>Properties\<close>

lemma pick_suggested_get:
  "gm_get (pick_suggested ps all m) p =
    (if p \<in> set ps \<and> gm_get all p \<noteq> None then gm_get all p else gm_get m p)"
  by (induction ps all m rule: pick_suggested.induct) (auto split: option.splits)

lemma pick_suggested_wf: "gm_wf m \<Longrightarrow> gm_wf (pick_suggested ps all m)"
  by (induction ps all m rule: pick_suggested.induct) (auto split: option.splits)

lemma pick_entry_points_get:
  "gm_wf all \<Longrightarrow> gm_get (pick_entry_points all m) p =
    (if isEntryPoint p \<and> gm_get all p \<noteq> None then gm_get all p else gm_get m p)"
proof (induction all arbitrary: m)
  case Nil
  then show ?case by (simp add: pick_entry_points_def)
next
  case (Cons e all)
  obtain q c where e: "e = (q, c)" by (cases e)
  from Cons.prems have wf: "gm_wf all" "gm_get all q = None"
    by (auto simp: e gm_wf_def gm_get_def map_of_eq_None_iff)
  show ?case
    using Cons.IH [OF wf(1), of "if isEntryPoint q then gm_put q c m else m"] wf(2)
    by (auto simp: e pick_entry_points_def gm_get_def [of "(q, c) # all"] gm_get_def [of all])
qed

lemma pick_entry_points_wf: "gm_wf m \<Longrightarrow> gm_wf (pick_entry_points all m)"
  unfolding pick_entry_points_def by (induction all arbitrary: m) auto

text \<open>Triage narrows and never invents: each path of the result has the content it has among all
  files, every entry-point file is kept, and the result is not empty. When the call is skipped, fails
  or returns no usable answer, all files are returned.\<close>

theorem triageFiles_spec:
  assumes "gm_wf allFiles" and "allFiles \<noteq> []"
    and "triageFiles generate allFiles failures model w = ((result, cost, tokens), w')"
  shows "(\<forall>p. gm_get result p = gm_get allFiles p \<or> (gm_get result p = None \<and> \<not> isEntryPoint p)) \<and>
    gm_wf result \<and> result \<noteq> []"
proof (cases "result = allFiles")
  case True
  with assms show ?thesis by simp
next
  case False
  then obtain suggested where r: "result = pick_entry_points allFiles (pick_suggested suggested allFiles [])"
    "result \<noteq> []"
    using assms(3) by (auto simp: triageFiles_def Let_def split: if_splits prod.splits sum.splits option.splits)
  then show ?thesis
    by (auto simp: pick_entry_points_get [OF assms(1)] pick_suggested_get pick_entry_points_wf
        pick_suggested_wf)
qed

definition triage_answer :: "unit generate" where
  "triage_answer req w =
     (Inr \<lparr>gp_Content = [CHR ''['', QUOTE] @ ''b.go'' @ [QUOTE, CHR '']''], gp_InputTokens = 10,
           gp_OutputTokens = 2, gp_CacheHit = False, gp_CostUSD = FNum 1, gp_FinishReason = ''stop''\<rparr>, w)"

definition six_files :: "gostring gomap" where
  "six_files = [(''a.go'', ''1''), (''b.go'', ''2''), (''c.go'', ''3''), (''Dockerfile'', ''4''), (''d.go'', ''5''), (''e.go'', ''6'')]"

lemma six_triaged: "triageFiles triage_answer six_files [''f''] ''m'' () =
    (([(''b.go'', ''2''), (''Dockerfile'', ''4'')], FNum 1, 12), ())"
proof -
  have j: "unmarshal_strings (ExtractJSON ([CHR ''['', QUOTE] @ ''b.go'' @ [QUOTE, CHR '']''])) = Some [''b.go'']"
    by code_simp
  have e: "pick_entry_points six_files (pick_suggested [''b.go''] six_files []) = [(''b.go'', ''2''), (''Dockerfile'', ''4'')]"
    by code_simp
  show ?thesis using j e by (simp add: triageFiles_def triage_answer_def Let_def) (simp add: six_files_def)
qed

theorem triageFiles_spec_witness:
  "\<forall>p. gm_get [(''b.go'', ''2''), (''Dockerfile'', ''4'')] p = gm_get six_files p \<or>
     (gm_get [(''b.go'', ''2''), (''Dockerfile'', ''4'')] p = None \<and> \<not> isEntryPoint p)"
proof -
  have "gm_wf six_files" "six_files \<noteq> []" by (simp_all add: six_files_def gm_wf_def)
  from triageFiles_spec [OF this six_triaged] show ?thesis by blast
qed

lemma parseDiagnosis_approach: "parseDiagnosis raw = Inr d \<Longrightarrow> trim_space (dg_SuggestedApproach d) \<noteq> []"
  by (auto simp: parseDiagnosis_def split: option.splits if_splits)

end
