(* ===== verification/Spec_Doc.thy ===== *)
theory Spec_Doc
  imports Llm Prompts
begin

text \<open>
  \<open>internal/spec\<close>: the markdown specification parser (\<open>parser.go\<close>) and the multi-level summaries with
  which a large specification is fitted into a token budget (\<open>summary.go\<close>).
\<close>

record spec_section =
  sec_Heading :: gostring
  sec_Level :: nat
  sec_Content :: gostring

record spec =
  sp_Title :: gostring
  sp_Description :: gostring
  sp_Sections :: "spec_section list"
  sp_RawContent :: gostring
  sp_TestCommand :: gostring

definition HASH :: char where "HASH = CHR ''#''"

definition parseHeading :: "gostring \<Rightarrow> nat \<times> gostring" where
  "parseHeading line =
     (let trimmed = trim_space line in
      if \<not> has_prefix trimmed [HASH] then (0, [])
      else
        let level = length (takeWhile (\<lambda>c. c = HASH) trimmed); rest = drop level trimmed in
        if 6 < level then (0, [])
        else if rest = [] \<or> hd rest \<noteq> CHR '' '' then (0, [])
        else let t = trim_space rest in if t = [] then (0, []) else (level, t))"

record heading =
  hd_level :: nat
  hd_text :: gostring
  hd_line :: nat

text \<open>The first pass of \<open>Parse\<close>: the headings with their line numbers, outside fenced blocks.\<close>

fun scan_headings :: "nat \<Rightarrow> bool \<Rightarrow> gostring list \<Rightarrow> heading list" where
  "scan_headings i inFenced [] = []"
| "scan_headings i inFenced (line # ls) =
     (let trimmed = trim_space line;
          inFenced' = (if has_prefix trimmed ''```'' \<or> has_prefix trimmed ''~~~'' then \<not> inFenced else inFenced)
      in if inFenced' then scan_headings (i + 1) inFenced' ls
         else case parseHeading line of (level, t) \<Rightarrow>
           if 0 < level then \<lparr>hd_level = level, hd_text = t, hd_line = i\<rparr> # scan_headings (i + 1) inFenced' ls
           else scan_headings (i + 1) inFenced' ls)"

definition collectContent :: "gostring list \<Rightarrow> nat \<Rightarrow> nat \<Rightarrow> gostring" where
  "collectContent lines s e =
     (if e \<le> s then [] else trim_space (str_join [NL] (take (e - s) (drop s lines))))"

definition testCommandPrefix :: gostring where "testCommandPrefix = ''test-command:''"

definition extractTestCommand :: "gostring list \<Rightarrow> gostring" where
  "extractTestCommand lines =
     (case find (\<lambda>l. has_prefix (to_lower (trim_space l)) testCommandPrefix) lines of
        None \<Rightarrow> []
      | Some l \<Rightarrow> trim_space (drop (length testCommandPrefix) (trim_space l)))"

text \<open>The end of a section: the next heading of the same or a higher level, or the end of the text.\<close>

definition section_end :: "heading \<Rightarrow> heading list \<Rightarrow> nat \<Rightarrow> nat" where
  "section_end h later eof =
     (case find (\<lambda>g. hd_level g \<le> hd_level h) later of None \<Rightarrow> eof | Some g \<Rightarrow> hd_line g)"

fun build_sections :: "gostring list \<Rightarrow> heading list \<Rightarrow> spec_section list" where
  "build_sections lines [] = []"
| "build_sections lines (h # hs) =
     \<lparr>sec_Heading = hd_text h, sec_Level = hd_level h,
      sec_Content = collectContent lines (hd_line h + 1) (section_end h hs (length lines))\<rparr>
     # build_sections lines hs"

definition CRLF :: gostring where "CRLF = [CHR 0x0D, NL]"

definition spec_lines :: "gostring \<Rightarrow> gostring list" where
  "spec_lines raw = split_on NL (trim_right_nl (replace_all CRLF [NL] raw))"

definition Parse :: "gostring \<Rightarrow> goerr + spec" where
  "Parse raw =
     (if trim_space raw = [] then Inl (new_err ''spec: empty content'')
      else
        let lines = spec_lines raw;
            sp = \<lparr>sp_Title = [], sp_Description = [], sp_Sections = [],
                  sp_RawContent = trim_space (replace_all CRLF [NL] raw), sp_TestCommand = []\<rparr>
        in case scan_headings 0 False lines of
             [] \<Rightarrow> Inr sp
           | h # hs \<Rightarrow>
               let descEnd = (case hs of [] \<Rightarrow> length lines | g # _ \<Rightarrow> hd_line g) in
               Inr (sp\<lparr>sp_Title := hd_text h,
                       sp_Description := collectContent lines (hd_line h + 1) descEnd,
                       sp_TestCommand :=
                         extractTestCommand (take (descEnd - (hd_line h + 1)) (drop (hd_line h + 1) lines)),
                       sp_Sections := build_sections lines (h # hs)\<rparr>))"

section \<open>Summaries\<close>

record sectionSummary =
  ss_Heading :: gostring
  ss_Summary :: gostring

record summarizedSpec =
  su_Spec :: spec
  su_Sections :: "sectionSummary list"
  su_Outline :: gostring
  su_Abstract :: gostring

definition EstimateTokens :: "gostring \<Rightarrow> int" where
  "EstimateTokens t = int (length t) div 4"

definition buildSummarizePrompt :: "spec \<Rightarrow> gostring" where
  "buildSummarizePrompt s =
     (''Summarize the following specification at three levels of detail.'' @ [NL] @ [NL] @
      ''SPECIFICATION:'' @ [NL]) @ sp_RawContent s @
     ([NL] @ [NL] @ ''Respond in EXACTLY this format with these delimiters:'' @ [NL] @ [NL] @
      ''=== SECTION SUMMARIES ==='' @ [NL] @ ''For each section heading in the spec, write:'' @
      [NL] @ ''### <heading>'' @ [NL] @ ''<2-3 sentence summary>'' @ [NL] @ [NL] @
      ''=== OUTLINE ==='' @ [NL] @ ''List each heading with a one-line description.'' @ [NL] @
      [NL] @ ''=== ABSTRACT ==='' @ [NL] @ ''A single paragraph summarizing the entire spec.'' @
      [NL])"

definition extractBlock :: "gostring \<Rightarrow> gostring \<Rightarrow> gostring \<Rightarrow> gostring" where
  "extractBlock t startDelim endDelim =
     (case str_cut t startDelim of (_, after, found) \<Rightarrow>
        if \<not> found then []
        else (case str_cut after endDelim of (before, _, found2) \<Rightarrow> if \<not> found2 then after else before))"

text \<open>The loop of \<open>parseSectionSummaries\<close>: the open summary with its lines so far, and those done.\<close>

fun summaries_loop :: "(gostring \<times> gostring list) option \<Rightarrow> sectionSummary list \<Rightarrow> gostring list \<Rightarrow> sectionSummary list" where
  "summaries_loop current done [] =
     (case current of None \<Rightarrow> done
      | Some (h, ls) \<Rightarrow> done @ [\<lparr>ss_Heading = h, ss_Summary = trim_space (str_join [NL] ls)\<rparr>])"
| "summaries_loop current done (line # rest) =
     (let trimmed = trim_space line in
      if has_prefix trimmed ''### '' then
        summaries_loop (Some (trim_space (drop 4 trimmed), []))
          (case current of None \<Rightarrow> done
           | Some (h, ls) \<Rightarrow> done @ [\<lparr>ss_Heading = h, ss_Summary = trim_space (str_join [NL] ls)\<rparr>]) rest
      else
        summaries_loop (case current of None \<Rightarrow> None | Some (h, ls) \<Rightarrow> Some (h, ls @ [line])) done rest)"

definition parseSectionSummaries :: "gostring \<Rightarrow> sectionSummary list" where
  "parseSectionSummaries block = summaries_loop None [] (split_on NL block)"

definition sections_delim :: gostring where "sections_delim = ''=== SECTION SUMMARIES ===''"
definition outline_delim :: gostring where "outline_delim = ''=== OUTLINE ===''"
definition abstract_delim :: gostring where "abstract_delim = ''=== ABSTRACT ===''"

definition parseSummarizeResponse :: "spec \<Rightarrow> gostring \<Rightarrow> summarizedSpec" where
  "parseSummarizeResponse s response =
     (let sectionsBlock = extractBlock response sections_delim outline_delim in
      \<lparr>su_Spec = s,
       su_Sections = (if sectionsBlock \<noteq> [] then parseSectionSummaries sectionsBlock else []),
       su_Outline = trim_space (extractBlock response outline_delim abstract_delim),
       su_Abstract = (case str_cut response abstract_delim of (_, after, found) \<Rightarrow>
         if found then trim_space after else [])\<rparr>)"

definition summarize_request :: "spec \<Rightarrow> gostring \<Rightarrow> generateRequest" where
  "summarize_request s model =
     \<lparr>gr_SystemPrompt = ''You are a technical writer. Summarize specifications concisely and accurately.'',
      gr_Messages = [user_message (buildSummarizePrompt s)], gr_MaxTokens = 0, gr_Model = model,
      gr_CacheControl = None, gr_Temperature = None\<rparr>"

definition Summarize ::
    "(generateRequest \<Rightarrow> 'w \<Rightarrow> (goerr + generateResponse) \<times> 'w) \<Rightarrow> spec \<Rightarrow> gostring \<Rightarrow> 'w \<Rightarrow>
     (goerr + summarizedSpec \<times> float64) \<times> 'w" where
  "Summarize generate s model w =
     (if sp_Sections s = [] then
        (Inr (\<lparr>su_Spec = s, su_Sections = [], su_Outline = [], su_Abstract = sp_RawContent s\<rparr>, fzero), w)
      else
        (case generate (summarize_request s model) w of
           (Inl e, w') \<Rightarrow> (Inl (wrap_err ''summarize spec'' e), w')
         | (Inr resp, w') \<Rightarrow> (Inr (parseSummarizeResponse s (gp_Content resp), gp_CostUSD resp), w')))"

definition joinNonEmpty :: "gostring \<Rightarrow> gostring \<Rightarrow> gostring" where
  "joinNonEmpty a b = (if b = [] then a else if a = [] then b else a @ [NL, NL] @ b)"

definition buildSummaryMap :: "sectionSummary list \<Rightarrow> gostring gomap" where
  "buildSummaryMap summaries = fold (\<lambda>s m. gm_put (ss_Heading s) (ss_Summary s) m) summaries []"

text \<open>The set of matched headings: \<open>matched[sec.Heading]\<close>.\<close>

definition matchFailureSections :: "spec \<Rightarrow> gostring list \<Rightarrow> gostring list" where
  "matchFailureSections s failures =
     map sec_Heading
       (filter (\<lambda>sec. list_ex (\<lambda>f. str_contains (to_lower f) (to_lower (sec_Heading sec)) \<or>
            str_contains (to_lower (sec_Heading sec)) (to_lower f)) failures) (sp_Sections s))"

definition section_text :: "gostring \<Rightarrow> gostring \<Rightarrow> gostring" where
  "section_text heading body = ''## '' @ heading @ [NL] @ body @ [NL, NL]"

definition expandFailureSections :: "spec \<Rightarrow> sectionSummary list \<Rightarrow> gostring list \<Rightarrow> gostring" where
  "expandFailureSections s summaries failures =
     (let matched = matchFailureSections s failures; summaryMap = buildSummaryMap summaries in
      trim_space (concat (map (\<lambda>sec.
        if List.member matched (sec_Heading sec) then section_text (sec_Heading sec) (sec_Content sec)
        else case gm_get summaryMap (sec_Heading sec) of
          Some summary \<Rightarrow> section_text (sec_Heading sec) summary
        | None \<Rightarrow> section_text (sec_Heading sec) ''[section content omitted]'') (sp_Sections s))))"

definition expandFailureSectionsOnly :: "spec \<Rightarrow> gostring list \<Rightarrow> gostring" where
  "expandFailureSectionsOnly s failures =
     (let matched = matchFailureSections s failures in
      trim_space (concat (map (\<lambda>sec. section_text (sec_Heading sec) (sec_Content sec))
        (filter (\<lambda>sec. List.member matched (sec_Heading sec)) (sp_Sections s)))))"

definition truncation_note :: gostring where
  "truncation_note = ([NL] @ [NL] @ ''[... truncated to fit context budget ...]'')"

definition SelectContent :: "summarizedSpec \<Rightarrow> int \<Rightarrow> gostring list \<Rightarrow> gostring" where
  "SelectContent ss budget failures =
     (let raw = sp_RawContent (su_Spec ss);
          expanded = expandFailureSections (su_Spec ss) (su_Sections ss) failures;
          only = expandFailureSectionsOnly (su_Spec ss) failures;
          outlineExpanded = joinNonEmpty (su_Outline ss) only;
          abstractExpanded = joinNonEmpty (su_Abstract ss) only
      in if EstimateTokens raw \<le> budget then raw
         else if EstimateTokens expanded \<le> budget then expanded
         else if su_Outline ss \<noteq> [] \<and> EstimateTokens outlineExpanded \<le> budget then outlineExpanded
         else if su_Abstract ss \<noteq> [] \<and> EstimateTokens abstractExpanded \<le> budget then abstractExpanded
         else if su_Abstract ss \<noteq> [] then su_Abstract ss
         else if budget * 4 < int (length raw) then take (nat (budget * 4)) raw @ truncation_note
         else raw)"

section \<open>Properties\<close>

lemma parseHeading_ok:
  assumes "parseHeading line = (level, t)" and "0 < level"
  shows "level \<le> 6 \<and> t \<noteq> [] \<and> (\<exists>rest. t = trim_space rest)"
  using assms by (auto simp: parseHeading_def Let_def split: if_splits)

lemma scan_step:
  "\<exists>b'. scan_headings i b (line # ls) = scan_headings (i + 1) b' ls \<or>
     (\<exists>level t. parseHeading line = (level, t) \<and> 0 < level \<and>
       scan_headings i b (line # ls) = \<lparr>hd_level = level, hd_text = t, hd_line = i\<rparr> # scan_headings (i + 1) b' ls)"
  by (cases "parseHeading line") (auto simp: Let_def)

lemma scan_headings_ok:
  "h \<in> set (scan_headings i b ls) \<Longrightarrow>
   1 \<le> hd_level h \<and> hd_level h \<le> 6 \<and> hd_text h \<noteq> [] \<and> i \<le> hd_line h \<and> hd_line h < i + length ls"
proof (induction ls arbitrary: i b)
  case (Cons line ls)
  from scan_step [of i b line ls] obtain b' where
    "scan_headings i b (line # ls) = scan_headings (i + 1) b' ls \<or>
     (\<exists>level t. parseHeading line = (level, t) \<and> 0 < level \<and>
       scan_headings i b (line # ls) = \<lparr>hd_level = level, hd_text = t, hd_line = i\<rparr> # scan_headings (i + 1) b' ls)"
    by blast
  then show ?case
  proof (elim disjE exE conjE)
    assume "scan_headings i b (line # ls) = scan_headings (i + 1) b' ls"
    with Cons.prems Cons.IH [of "i + 1" b'] show ?thesis by (simp del: scan_headings.simps)
  next
    fix level t
    assume "parseHeading line = (level, t)" "0 < level"
      "scan_headings i b (line # ls) = \<lparr>hd_level = level, hd_text = t, hd_line = i\<rparr> # scan_headings (i + 1) b' ls"
    with Cons.prems Cons.IH [of "i + 1" b'] parseHeading_ok [of line level t] show ?thesis
      by (auto simp del: scan_headings.simps)
  qed
qed simp

lemma scan_headings_sorted: "sorted_wrt (<) (map hd_line (scan_headings i b ls))"
proof (induction ls arbitrary: i b)
  case (Cons line ls)
  have "i < hd_line h" if "h \<in> set (scan_headings (i + 1) c ls)" for h c
    using scan_headings_ok [OF that] by simp
  with Cons scan_step [of i b line ls] show ?case by (auto simp del: scan_headings.simps)
qed simp

lemma build_sections_map:
  "map sec_Heading (build_sections lines hs) = map hd_text hs \<and>
   map sec_Level (build_sections lines hs) = map hd_level hs"
  by (induction lines hs rule: build_sections.induct) auto

lemma section_end_bounds:
  assumes "sorted_wrt (<) (map hd_line (h # hs))" and "\<forall>g \<in> set hs. hd_line g < n" and "hd_line h < n"
  shows "hd_line h < section_end h hs n \<and> section_end h hs n \<le> n"
proof (cases "find (\<lambda>g. hd_level g \<le> hd_level h) hs")
  case None
  with assms(3) show ?thesis by (simp add: section_end_def)
next
  case (Some g)
  then have "g \<in> set hs" using find_SomeD [OF Some] by blast
  with assms Some show ?thesis by (auto simp: section_end_def less_imp_le)
qed

lemma sections_levels:
  "map (\<lambda>x. (sec_Level x, sec_Heading x)) (build_sections lines hs) = map (\<lambda>h. (hd_level h, hd_text h)) hs"
  by (induction lines hs rule: build_sections.induct) auto

text \<open>Parsing fails exactly on blank text. Otherwise the sections are the headings outside
  fenced blocks in document order, each with a level from one to six and a non-empty text, the
  title is the heading of the first one, and without headings there is neither title nor section.\<close>

theorem Parse_spec:
  "case Parse raw of
     Inl e \<Rightarrow> trim_space raw = []
   | Inr s \<Rightarrow> trim_space raw \<noteq> [] \<and>
       map (\<lambda>x. (sec_Level x, sec_Heading x)) (sp_Sections s) =
         map (\<lambda>h. (hd_level h, hd_text h)) (scan_headings 0 False (spec_lines raw)) \<and>
       list_all (\<lambda>x. 1 \<le> sec_Level x \<and> sec_Level x \<le> 6 \<and> sec_Heading x \<noteq> []) (sp_Sections s) \<and>
       sp_Title s = (case sp_Sections s of [] \<Rightarrow> [] | x # _ \<Rightarrow> sec_Heading x)"
proof (cases "trim_space raw = []")
  case True
  then show ?thesis by (simp add: Parse_def)
next
  case False
  let ?hs = "scan_headings 0 False (spec_lines raw)"
  have ok: "list_all (\<lambda>x. 1 \<le> sec_Level x \<and> sec_Level x \<le> 6 \<and> sec_Heading x \<noteq> [])
      (build_sections (spec_lines raw) ?hs)"
    unfolding list_all_iff
  proof
    fix x
    assume "x \<in> set (build_sections (spec_lines raw) ?hs)"
    then have "(sec_Level x, sec_Heading x) \<in> set (map (\<lambda>h. (hd_level h, hd_text h)) ?hs)"
      unfolding sections_levels [symmetric, of _ "spec_lines raw"] by simp
    then obtain h where "h \<in> set ?hs" "sec_Level x = hd_level h" "sec_Heading x = hd_text h" by auto
    with scan_headings_ok [of h] show "1 \<le> sec_Level x \<and> sec_Level x \<le> 6 \<and> sec_Heading x \<noteq> []" by auto
  qed
  show ?thesis
  proof (cases ?hs)
    case Nil
    with False show ?thesis by (simp add: Parse_def Let_def)
  next
    case (Cons h hs)
    with False ok show ?thesis
      by (simp add: Parse_def Let_def sections_levels del: list_all_iff)
  qed
qed

text \<open>Fitting a specification into a budget: the full text is used exactly as it is when it
  fits; any other result fits the budget too, unless it is the bare abstract, or, when there is no
  abstract, the text cut at four bytes per token with a note, which is always over the budget.\<close>

theorem SelectContent_budget:
  fixes ss failures
  assumes "0 \<le> budget"
  defines "out \<equiv> SelectContent ss budget failures" and "raw \<equiv> sp_RawContent (su_Spec ss)"
  shows "(EstimateTokens raw \<le> budget \<longrightarrow> out = raw) \<and>
    (EstimateTokens out \<le> budget \<or>
     (su_Abstract ss \<noteq> [] \<and> out = su_Abstract ss) \<or>
     (su_Abstract ss = [] \<and> out = take (nat (budget * 4)) raw @ truncation_note \<and> budget < EstimateTokens out))"
proof -
  have cut: "budget < EstimateTokens (take (nat (budget * 4)) raw @ truncation_note)"
    if "budget * 4 < int (length raw)"
  proof -
    have "length (take (nat (budget * 4)) raw) = nat (budget * 4)" using that by simp
    then have "int (length (take (nat (budget * 4)) raw @ truncation_note)) = budget * 4 + int (length truncation_note)"
      using assms(1) by simp
    moreover have "length truncation_note = 43" by (simp add: truncation_note_def)
    ultimately show ?thesis by (simp add: EstimateTokens_def)
  qed
  have whole: "budget * 4 < int (length raw)" if "budget < EstimateTokens raw"
    using that by (simp add: EstimateTokens_def)
  let ?only = "expandFailureSectionsOnly (su_Spec ss) failures"
  have out: "out = (if EstimateTokens raw \<le> budget then raw else
    let e = expandFailureSections (su_Spec ss) (su_Sections ss) failures;
        o1 = joinNonEmpty (su_Outline ss) ?only; a1 = joinNonEmpty (su_Abstract ss) ?only in
    if EstimateTokens e \<le> budget then e
    else if su_Outline ss \<noteq> [] \<and> EstimateTokens o1 \<le> budget then o1
    else if su_Abstract ss \<noteq> [] \<and> EstimateTokens a1 \<le> budget then a1
    else if su_Abstract ss \<noteq> [] then su_Abstract ss
    else if budget * 4 < int (length raw) then take (nat (budget * 4)) raw @ truncation_note
    else raw)"
    by (simp add: out_def raw_def SelectContent_def Let_def)
  show ?thesis
  proof (cases "EstimateTokens raw \<le> budget")
    case True
    then show ?thesis by (simp add: out)
  next
    case False
    then have len: "budget * 4 < int (length raw)" using whole by simp
    note c = cut [OF len]
    show ?thesis
      unfolding out Let_def using False len c by (simp only: if_False if_True) (simp split: if_split)
  qed
qed

definition plain_spec :: spec where
  "plain_spec = \<lparr>sp_Title = [], sp_Description = [], sp_Sections = [], sp_RawContent = replicate 40 (CHR ''x''),
                sp_TestCommand = []\<rparr>"

theorem SelectContent_budget_witness:
  "EstimateTokens (SelectContent \<lparr>su_Spec = plain_spec, su_Sections = [], su_Outline = [], su_Abstract = ''short''\<rparr> 5 []) \<le> 5"
  using SelectContent_budget [of 5 "\<lparr>su_Spec = plain_spec, su_Sections = [], su_Outline = [], su_Abstract = ''short''\<rparr>" "[]"]
  by (auto simp: EstimateTokens_def)

text \<open>A specification without headings that is over the budget is lost: it parses, its summary
  costs nothing and takes the whole text as abstract, but the content selected from it is empty,
  because the empty list of sections is tried first and fits every budget.\<close>

theorem headingless_spec_lost:
  assumes "trim_space raw \<noteq> []" and "scan_headings 0 False (spec_lines raw) = []"
    and "Parse raw = Inr s" and "0 \<le> budget" and "budget < EstimateTokens (sp_RawContent s)"
  shows "\<exists>ss. Summarize generate s model w = (Inr (ss, fzero), w) \<and> su_Abstract ss = sp_RawContent s \<and>
    SelectContent ss budget failures = []"
proof -
  have "sp_Sections s = []" using assms(1-3) by (auto simp: Parse_def Let_def)
  then show ?thesis
    using assms(4,5)
    by (simp add: Summarize_def SelectContent_def Let_def expandFailureSections_def)
      (simp add: EstimateTokens_def)
qed

definition note_spec :: gostring where
  "note_spec = ''Build a small service that stores notes.'' @ [NL]"

definition note_parsed :: spec where
  "note_parsed = \<lparr>sp_Title = [], sp_Description = [], sp_Sections = [],
     sp_RawContent = ''Build a small service that stores notes.'', sp_TestCommand = []\<rparr>"

lemma note_facts:
  "trim_space note_spec \<noteq> []" "scan_headings 0 False (spec_lines note_spec) = []"
  "Parse note_spec = Inr note_parsed"
  by code_simp+

theorem headingless_spec_lost_witness:
  "\<exists>ss. Summarize (\<lambda>req w. (Inl (new_err ''unused''), w)) note_parsed ''m'' () =
       (Inr (ss, fzero), ()) \<and> SelectContent ss 5 [] = []"
proof -
  have "5 < EstimateTokens (sp_RawContent note_parsed)"
    by (simp add: note_parsed_def EstimateTokens_def)
  then show ?thesis
    using headingless_spec_lost [OF note_facts, of 5 "\<lambda>req w. (Inl (new_err ''unused''), w)" "''m''" "()" "[]"]
    by auto
qed

end
