(* ===== verification/Attractor_State.thy ===== *)
theory Attractor_State
  imports Convergence Escalation Oscillation Fileparse Diagnosis Spec_Doc
begin

text \<open>
  The state of the attractor loop (\<open>internal/attractor/attractor.go\<close>): its options, the \<open>runState\<close>,
  the interfaces to the world (model client, container manager, validator, file system) and the
  small operations on the state.

  The outside world is a value of an arbitrary type \<open>'w\<close> that every call transforms. A validator is
  an interaction tree: it may ask for a restart of the container any finite number of times, goes on
  with the outcome, and ends with its report. An agent is a tree of tool calls in the same way.
  Two fields of the state are not in the code: the handles of the containers and of the sessions
  that are running, newest first; they make the cleanup of the deferred calls visible.
\<close>

section \<open>Interfaces\<close>

datatype 'w vprog =
    VDone "goerr + float64 \<times> gostring list \<times> float64" 'w
  | VRestart 'w "goerr + gostring \<Rightarrow> 'w \<Rightarrow> 'w vprog"

text \<open>A validator gets the URL, whether a restart function is passed, and the tier.\<close>

type_synonym 'w validator = "gostring \<Rightarrow> bool \<Rightarrow> int \<Rightarrow> 'w \<Rightarrow> 'w vprog"

datatype 'w aprog =
    ADone "goerr + agentResponse" 'w
  | ACall toolCall 'w "goerr + gostring \<Rightarrow> 'w \<Rightarrow> 'w aprog"

record containerRun =
  cr_URL :: gostring
  cr_ContainerID :: gostring
  cr_ExtraPorts :: "gostring gomap"

record execResult =
  xr_Stdout :: gostring
  xr_Stderr :: gostring
  xr_ExitCode :: int

record iterationProgress =
  ip_RunID :: gostring
  ip_Iteration :: int
  ip_MaxIterations :: int
  ip_Outcome :: gostring
  ip_Satisfaction :: float64
  ip_BestSatisfaction :: float64
  ip_Threshold :: float64
  ip_Trend :: trend
  ip_IterationCostUSD :: float64
  ip_TotalCostUSD :: float64
  ip_BudgetUSD :: float64
  ip_Elapsed :: int
  ip_StallCount :: int
  ip_InputTokens :: int
  ip_OutputTokens :: int
  ip_Failures :: "gostring list"
  ip_Model :: gostring
  ip_Turns :: int

text \<open>
  The calls of the loop to the outside: \<open>llm.Client\<close> and its optional agent loop, the container
  manager with the stop functions it hands out (named by handles), the providers of the CLI, the
  file system, the clock, the run identifier and the hash.
\<close>

record 'w env =
  e_Generate :: "'w generate"
  e_AgentLoop :: "(agentRequest \<Rightarrow> 'w \<Rightarrow> 'w aprog) option"
  e_Build :: "gostring \<Rightarrow> gostring \<Rightarrow> 'w \<Rightarrow> goerr option \<times> 'w"
  e_Run :: "gostring \<Rightarrow> 'w \<Rightarrow> (goerr + containerRun \<times> gostring) \<times> 'w"
  e_RunMultiPort :: "gostring \<Rightarrow> gostring list \<Rightarrow> 'w \<Rightarrow> (goerr + containerRun \<times> gostring) \<times> 'w"
  e_Stop :: "gostring \<Rightarrow> 'w \<Rightarrow> 'w"
  e_RunTest :: "gostring \<Rightarrow> gostring \<Rightarrow> 'w \<Rightarrow> (goerr + execResult) \<times> 'w"
  e_WaitHealthy :: "gostring \<Rightarrow> int \<Rightarrow> 'w \<Rightarrow> goerr option \<times> 'w"
  e_WaitPort :: "gostring \<Rightarrow> int \<Rightarrow> 'w \<Rightarrow> goerr option \<times> 'w"
  e_StartSession :: "gostring \<Rightarrow> 'w \<Rightarrow> (goerr + gostring) \<times> 'w"
  e_StopSession :: "gostring \<Rightarrow> 'w \<Rightarrow> 'w"
  e_SetSession :: "gostring option \<Rightarrow> 'w \<Rightarrow> 'w"
  e_SetGRPCTarget :: "gostring \<Rightarrow> 'w \<Rightarrow> 'w"
  e_CtxErr :: "'w \<Rightarrow> bool"
  e_Os :: "'w os"
  e_ReadFile :: "gostring \<Rightarrow> 'w \<Rightarrow> (goerr \<times> bool) + gostring"
  e_WalkDir :: "gostring \<Rightarrow> 'w \<Rightarrow> (goerr \<times> bool) + gostring list"
  e_Now :: "'w \<Rightarrow> int"
  e_RunID :: "'w \<Rightarrow> gostring \<times> 'w"
  e_Sha256 :: "gostring \<Rightarrow> gostring"

section \<open>Options and state\<close>

record 'w runOptions =
  o_Model :: gostring
  o_FrugalModel :: gostring
  o_JudgeModel :: gostring
  o_Language :: gostring
  o_BudgetUSD :: float64
  o_Threshold :: float64
  o_MaxIterations :: int
  o_StallLimit :: int
  o_WorkspaceDir :: gostring
  o_HealthTimeout :: int
  o_Progress :: "(iterationProgress \<Rightarrow> 'w \<Rightarrow> 'w) option"
  o_PatchMode :: bool
  o_BlockOnRegression :: bool
  o_ContextBudget :: int
  o_Capabilities :: scenarioCapabilities
  o_Genes :: gostring
  o_GeneLanguage :: gostring
  o_TestCommand :: gostring
  o_MaxTokens :: int
  o_Agentic :: bool
  o_AgentMaxTurns :: int
  o_Stratified :: bool
  o_GeneComponents :: "component list"
  o_ComponentValidators :: "'w validator gomap"

record runResult =
  rr_RunID :: gostring
  rr_Iterations :: int
  rr_Satisfaction :: float64
  rr_CostUSD :: float64
  rr_TotalTokens :: int
  rr_OutputDir :: gostring
  rr_Status :: gostring

definition StatusConverged :: gostring where "StatusConverged = ''converged''"
definition StatusStalled :: gostring where "StatusStalled = ''stalled''"
definition StatusBudgetExceeded :: gostring where "StatusBudgetExceeded = ''budget_exceeded''"
definition StatusMaxIterations :: gostring where "StatusMaxIterations = ''max_iterations''"

lemmas statuses = StatusConverged_def StatusStalled_def StatusBudgetExceeded_def StatusMaxIterations_def

definition OutcomeValidated :: gostring where "OutcomeValidated = ''validated''"
definition OutcomeBuildFail :: gostring where "OutcomeBuildFail = ''build_fail''"
definition OutcomeRunFail :: gostring where "OutcomeRunFail = ''run_fail''"
definition OutcomeHealthFail :: gostring where "OutcomeHealthFail = ''health_fail''"
definition OutcomeParseFail :: gostring where "OutcomeParseFail = ''parse_fail''"
definition OutcomeTestFail :: gostring where "OutcomeTestFail = ''test_fail''"

definition maxStratifiedTier :: int where "maxStratifiedTier = 3"
definition defaultAgentMaxTurns :: int where "defaultAgentMaxTurns = 50"
definition summarizeModel :: gostring where "summarizeModel = ''claude-haiku-4-5''"

record 'w runState =
  s_runID :: gostring
  s_opts :: "'w runOptions"
  s_baseDir :: gostring
  s_bestDir :: gostring
  s_totalCost :: float64
  s_totalTokens :: int
  s_bestSatisfaction :: float64
  s_stallCount :: int
  s_history :: "iterationFeedback list"
  s_scoreHistory :: "float64 list"
  s_lastOutcome :: gostring
  s_lastSatisfaction :: float64
  s_lastImproved :: bool
  s_lastInputTokens :: int
  s_lastOutputTokens :: int
  s_lastFailures :: "gostring list"
  s_startTime :: int
  s_bestFiles :: "files option"
  s_patchActive :: bool
  s_patchRegressionCount :: int
  s_summarized :: "summarizedSpec option"
  s_scenarioScores :: "float64 gomap"
  s_scenarioScoreIteration :: int
  s_codeHashes :: "gostring list"
  s_escalation :: "escalationState option"
  s_lastTurns :: int
  s_activeTier :: int
  s_w :: 'w
  s_live :: "gostring list"
  s_sess :: "gostring list"

text \<open>A state as \<open>&runState{...}\<close> creates it, all other fields zero.\<close>

definition zero_state :: "gostring \<Rightarrow> 'w runOptions \<Rightarrow> int \<Rightarrow> 'w \<Rightarrow> 'w runState" where
  "zero_state runID opts now w =
     \<lparr>s_runID = runID, s_opts = opts, s_baseDir = [], s_bestDir = [], s_totalCost = fzero,
      s_totalTokens = 0, s_bestSatisfaction = fzero, s_stallCount = 0, s_history = [],
      s_scoreHistory = [], s_lastOutcome = [], s_lastSatisfaction = fzero, s_lastImproved = False,
      s_lastInputTokens = 0, s_lastOutputTokens = 0, s_lastFailures = [], s_startTime = now,
      s_bestFiles = None, s_patchActive = False, s_patchRegressionCount = 0, s_summarized = None,
      s_scenarioScores = [], s_scenarioScoreIteration = 0, s_codeHashes = [], s_escalation = None,
      s_lastTurns = 0, s_activeTier = 0, s_w = w, s_live = [], s_sess = []\<rparr>"

text \<open>The index panic of an impossible tier is the empty name; \<open>escalation_invariant\<close> excludes it.\<close>

definition currentModel :: "'w runState \<Rightarrow> gostring" where
  "currentModel s =
     (case s_escalation s of
        Some e \<Rightarrow> (case esc_currentModel e of Some m \<Rightarrow> m | None \<Rightarrow> [])
      | None \<Rightarrow> o_Model (s_opts s))"

definition result_of :: "'w runState \<Rightarrow> int \<Rightarrow> gostring \<Rightarrow> runResult" where
  "result_of s iter status =
     \<lparr>rr_RunID = s_runID s, rr_Iterations = iter, rr_Satisfaction = s_bestSatisfaction s,
      rr_CostUSD = s_totalCost s, rr_TotalTokens = s_totalTokens s, rr_OutputDir = s_bestDir s,
      rr_Status = status\<rparr>"

definition buildProgress :: "int \<Rightarrow> float64 \<Rightarrow> int \<Rightarrow> 'w runState \<Rightarrow> iterationProgress" where
  "buildProgress iter costBefore now s =
     \<lparr>ip_RunID = s_runID s, ip_Iteration = iter, ip_MaxIterations = o_MaxIterations (s_opts s),
      ip_Outcome = s_lastOutcome s, ip_Satisfaction = s_lastSatisfaction s,
      ip_BestSatisfaction = s_bestSatisfaction s, ip_Threshold = o_Threshold (s_opts s),
      ip_Trend = DetectTrend (s_scoreHistory s) (o_Threshold (s_opts s)) (o_StallLimit (s_opts s)),
      ip_IterationCostUSD = fsub (s_totalCost s) costBefore, ip_TotalCostUSD = s_totalCost s,
      ip_BudgetUSD = o_BudgetUSD (s_opts s), ip_Elapsed = now - s_startTime s,
      ip_StallCount = s_stallCount s, ip_InputTokens = s_lastInputTokens s,
      ip_OutputTokens = s_lastOutputTokens s, ip_Failures = s_lastFailures s,
      ip_Model = currentModel s, ip_Turns = s_lastTurns s\<rparr>"

definition budgetExceeded :: "'w runState \<Rightarrow> bool" where
  "budgetExceeded s \<longleftrightarrow> fless fzero (o_BudgetUSD (s_opts s)) \<and> fleq (o_BudgetUSD (s_opts s)) (s_totalCost s)"

definition initialActiveTier :: "bool \<Rightarrow> int" where
  "initialActiveTier stratified = (if stratified then 1 else 0)"

definition plain_feedback :: "int \<Rightarrow> gostring \<Rightarrow> gostring \<Rightarrow> iterationFeedback" where
  "plain_feedback iter kind message =
     \<lparr>fb_iteration = iter, fb_kind = kind, fb_message = message, fb_fidelity = 0, fb_failedScenarios = []\<rparr>"

definition newRunState :: "gostring \<Rightarrow> 'w runOptions \<Rightarrow> float64 \<Rightarrow> gostring \<Rightarrow> int \<Rightarrow> 'w \<Rightarrow> 'w runState" where
  "newRunState runID opts composedCost composedContext now w =
     (zero_state runID opts now w)
       \<lparr>s_patchActive := o_PatchMode opts,
        s_escalation := newEscalationState (o_FrugalModel opts) (o_Model opts),
        s_totalCost := composedCost,
        s_activeTier := initialActiveTier (o_Stratified opts),
        s_history := (if composedContext \<noteq> [] then [plain_feedback 0 feedbackBuildError composedContext] else [])\<rparr>"

definition recordStall :: "int \<Rightarrow> gostring \<Rightarrow> gostring \<Rightarrow> 'w runState \<Rightarrow> 'w runState" where
  "recordStall iter kind message s =
     s\<lparr>s_stallCount := s_stallCount s + 1, s_history := s_history s @ [plain_feedback iter kind message]\<rparr>"

definition checkStalled :: "int \<Rightarrow> 'w runState \<Rightarrow> runResult option" where
  "checkStalled iter s =
     (if o_StallLimit (s_opts s) \<le> s_stallCount s then Some (result_of s iter StatusStalled) else None)"

text \<open>The two assignments and the call that every failed step makes.\<close>

definition fail_step :: "gostring \<Rightarrow> int \<Rightarrow> gostring \<Rightarrow> gostring \<Rightarrow> 'w runState \<Rightarrow> 'w runState" where
  "fail_step outcome iter kind message s =
     recordStall iter kind message (s\<lparr>s_lastOutcome := outcome, s_lastSatisfaction := fzero\<rparr>)"

definition resetForTierAdvancement :: "'w runState \<Rightarrow> 'w runState" where
  "resetForTierAdvancement s =
     s\<lparr>s_bestSatisfaction := fzero, s_stallCount := 0, s_scoreHistory := [], s_history := [],
       s_patchActive := o_PatchMode (s_opts s), s_patchRegressionCount := 0, s_scenarioScores := [],
       s_scenarioScoreIteration := 0, s_lastFailures := [], s_lastOutcome := [],
       s_lastSatisfaction := fzero, s_lastImproved := False, s_lastTurns := 0\<rparr>"

text \<open>Whether the tier advanced, and the state after it.\<close>

definition advanceTierIfNeeded :: "runResult \<Rightarrow> 'w runState \<Rightarrow> bool \<times> 'w runState" where
  "advanceTierIfNeeded result s =
     (if rr_Status result \<noteq> StatusConverged \<or> s_activeTier s = 0 \<or> maxStratifiedTier \<le> s_activeTier s
      then (False, s)
      else
        let s1 = resetForTierAdvancement (s\<lparr>s_activeTier := s_activeTier s + 1\<rparr>) in
        (True, if s_escalation s1 \<noteq> None then
            s1\<lparr>s_escalation := newEscalationState (o_FrugalModel (s_opts s1)) (o_Model (s_opts s1))\<rparr>
          else s1))"

definition withDefaults :: "'w runOptions \<Rightarrow> 'w runOptions" where
  "withDefaults opts =
     (let o1 = (if feq (o_Threshold opts) fzero then opts\<lparr>o_Threshold := FNum 95\<rparr> else opts);
          o2 = (if o_MaxIterations o1 = 0 then o1\<lparr>o_MaxIterations := 10\<rparr> else o1);
          o3 = (if o_StallLimit o2 = 0 then o2\<lparr>o_StallLimit := 3\<rparr> else o2);
          o4 = (if o_WorkspaceDir o3 = [] then o3\<lparr>o_WorkspaceDir := ''./workspace''\<rparr> else o3);
          o5 = (if o_HealthTimeout o4 = 0 then o4\<lparr>o_HealthTimeout := 30000000000\<rparr> else o4)
      in if o_Agentic o5 \<and> o_AgentMaxTurns o5 = 0 then o5\<lparr>o_AgentMaxTurns := defaultAgentMaxTurns\<rparr> else o5)"

definition errEmptySpec :: gostring where "errEmptySpec = ''attractor: spec content is empty''"
definition errUnsupportedLanguage :: gostring where "errUnsupportedLanguage = ''attractor: unsupported language''"
definition errMinimalismNoMessages :: gostring where
  "errMinimalismNoMessages = ''attractor: minimalism suffix: no messages to append to''"
definition errAgentClientRequired :: gostring where
  "errAgentClientRequired = ''attractor: agentic mode requires AgentClient implementation''"
definition errComponentFallback :: gostring where
  "errComponentFallback = ''attractor: component convergence failed, falling back to monolithic''"
definition errComponentStalled :: gostring where "errComponentStalled = ''attractor: component stalled''"
definition errComponentBudget :: gostring where
  "errComponentBudget = ''attractor: budget exceeded during component convergence''"
definition errComponentBuildFail :: gostring where "errComponentBuildFail = ''attractor: component build failed''"
definition errComponentSessionFail :: gostring where
  "errComponentSessionFail = ''attractor: component session start failed''"
definition errComponentStartFail :: gostring where
  "errComponentStartFail = ''attractor: component container start failed''"
definition errUnknownDependency :: gostring where
  "errUnknownDependency = ''attractor: component depends on unknown component''"
definition errNoFiles :: gostring where "errNoFiles = ''attractor: no files found in output''"
definition errPathTraversal :: gostring where "errPathTraversal = ''attractor: path traversal detected''"
definition panic_slice :: gostring where "panic_slice = ''runtime error: slice bounds out of range''"

text \<open>The Go error behind each file error; a run-time panic is carried as an error of its own.\<close>

definition file_goerr :: "file_error \<Rightarrow> goerr" where
  "file_goerr e =
     (case e of
        NoFiles \<Rightarrow> new_err errNoFiles
      | PathTraversal \<Rightarrow> new_err errPathTraversal
      | SliceBounds \<Rightarrow> new_err panic_slice
      | AbsDirError \<Rightarrow> \<lparr>er_msg = ''attractor: abs dir'', er_is = []\<rparr>
      | AbsPathError p \<Rightarrow> \<lparr>er_msg = ''attractor: abs path '' @ p, er_is = []\<rparr>
      | EscapesWorkspace p \<Rightarrow>
          \<lparr>er_msg = errPathTraversal @ '': '' @ p @ '' escapes workspace'', er_is = [errPathTraversal]\<rparr>
      | MkdirError d \<Rightarrow> \<lparr>er_msg = ''attractor: mkdir '' @ d, er_is = []\<rparr>
      | WriteError p \<Rightarrow> \<lparr>er_msg = ''attractor: write '' @ p, er_is = []\<rparr>)"

definition validateRunInputs :: "gostring \<Rightarrow> 'w runOptions \<Rightarrow> goerr option" where
  "validateRunInputs rawSpec opts =
     (if trim_space rawSpec = [] then Some (new_err errEmptySpec)
      else if o_Language opts \<noteq> [] \<and> LookupLanguage (o_Language opts) = None then
        Some \<lparr>er_msg = errUnsupportedLanguage @ '': '' @ go_quote (o_Language opts) @
            '' (supported: '' @ fmt_strings SupportedLanguages @ '')'', er_is = [errUnsupportedLanguage]\<rparr>
      else None)"

text \<open>Writing files in the state's world.\<close>

definition s_writeFiles :: "'w env \<Rightarrow> gostring \<Rightarrow> files \<Rightarrow> 'w runState \<Rightarrow> goerr option \<times> 'w runState" where
  "s_writeFiles env dir fls s =
     (case writeFiles (e_Os env) dir fls (s_w s) of
        (w', err) \<Rightarrow> (map_option file_goerr err, s\<lparr>s_w := w'\<rparr>))"

section \<open>A sample world\<close>

text \<open>
  The world of the witnesses: the list of the files written so far. Everything in it succeeds; a witness
  replaces the calls it is about.
\<close>

type_synonym log = "(gostring \<times> gostring) list"

definition demo_answer :: gostring where
  "demo_answer = (''=== FILE: main.go ==='' @ [NL] @ ''package main'' @ [NL] @ ''=== END FILE ==='' @
             [NL])"

definition demo_response :: generateResponse where
  "demo_response = \<lparr>gp_Content = demo_answer, gp_InputTokens = 10, gp_OutputTokens = 5,
     gp_CacheHit = False, gp_CostUSD = FNum 1, gp_FinishReason = ''end_turn''\<rparr>"

definition demo_err :: goerr where
  "demo_err = new_err ''timeout''"

definition demo_env :: "log env" where
  "demo_env =
     \<lparr>e_Generate = (\<lambda>req w. (Inr demo_response, w)),
      e_AgentLoop = None,
      e_Build = (\<lambda>dir tag w. (None, w)),
      e_Run = (\<lambda>tag w. (Inr (\<lparr>cr_URL = ''http://127.0.0.1:8080'', cr_ContainerID = ''c1'', cr_ExtraPorts = []\<rparr>, ''h1''), w)),
      e_RunMultiPort = (\<lambda>tag ports w. (Inr (\<lparr>cr_URL = ''http://127.0.0.1:8080'', cr_ContainerID = ''c1'',
         cr_ExtraPorts = [(''50051/tcp'', ''127.0.0.1:50051'')]\<rparr>, ''h1''), w)),
      e_Stop = (\<lambda>h w. w), e_RunTest = (\<lambda>cid cmd w. (Inr \<lparr>xr_Stdout = [], xr_Stderr = [], xr_ExitCode = 0\<rparr>, w)),
      e_WaitHealthy = (\<lambda>url t w. (None, w)), e_WaitPort = (\<lambda>addr t w. (None, w)),
      e_StartSession = (\<lambda>tag w. (Inr ''s1'', w)), e_StopSession = (\<lambda>sess w. w),
      e_SetSession = (\<lambda>sess w. w), e_SetGRPCTarget = (\<lambda>tgt w. w), e_CtxErr = (\<lambda>w. False),
      e_Os = log_os, e_ReadFile = (\<lambda>p w. case map_of w p of Some c \<Rightarrow> Inr c | None \<Rightarrow> Inl (demo_err, True)),
      e_WalkDir = (\<lambda>p w. Inr (map fst w)), e_Now = (\<lambda>w. 0), e_RunID = (\<lambda>w. (''r1'', w)),
      e_Sha256 = (\<lambda>t. t)\<rparr>"

definition demo_caps :: scenarioCapabilities where
  "demo_caps = \<lparr>NeedsHTTP = True, NeedsExec = False, NeedsBrowser = False, NeedsGRPC = False,
     NeedsWS = False, NeedsTUI = False\<rparr>"

definition demo_opts :: "log runOptions" where
  "demo_opts =
     \<lparr>o_Model = ''opus'', o_FrugalModel = [], o_JudgeModel = [], o_Language = ''go'', o_BudgetUSD = FNum 5,
      o_Threshold = FNum 95, o_MaxIterations = 2, o_StallLimit = 3, o_WorkspaceDir = ''/work'',
      o_HealthTimeout = 30000000000, o_Progress = None, o_PatchMode = False, o_BlockOnRegression = False,
      o_ContextBudget = 0, o_Capabilities = demo_caps, o_Genes = [], o_GeneLanguage = [], o_TestCommand = [],
      o_MaxTokens = 0, o_Agentic = False, o_AgentMaxTurns = 0, o_Stratified = False, o_GeneComponents = [],
      o_ComponentValidators = []\<rparr>"

definition demo_state :: "log runState" where
  "demo_state = (zero_state ''r1'' demo_opts 0 [])\<lparr>s_baseDir := ''/work/r1'', s_bestDir := ''/work/r1/best''\<rparr>"

text \<open>A validator that scores everything 100 at a cost of 1.\<close>

definition demo_validator :: "log validator" where
  "demo_validator url restart tier w = VDone (Inr (FNum 100, [], FNum 1)) w"

end
