(* ===== verification/Attractor_Containers.thy ===== *)
theory Attractor_Containers
  imports Attractor_State
begin

text \<open>
  The container half of an iteration (\<open>attractor.go\<close>): starting and stopping, health checks, the
  restart function a validator may call, the service container a capability profile needs, and the
  test command. The lemmas follow the two lists of running containers and sessions.
\<close>

section \<open>Starting and stopping\<close>

definition stop_container :: "'w env \<Rightarrow> gostring \<Rightarrow> 'w runState \<Rightarrow> 'w runState" where
  "stop_container env h s = s\<lparr>s_w := e_Stop env h (s_w s), s_live := remove1 h (s_live s)\<rparr>"

definition run_container :: "'w env \<Rightarrow> gostring \<Rightarrow> 'w runState \<Rightarrow> (goerr + containerRun \<times> gostring) \<times> 'w runState" where
  "run_container env tag s =
     (case e_Run env tag (s_w s) of
        (Inl e, w) \<Rightarrow> (Inl e, s\<lparr>s_w := w\<rparr>)
      | (Inr (cr, h), w) \<Rightarrow> (Inr (cr, h), s\<lparr>s_w := w, s_live := h # s_live s\<rparr>))"

definition run_multi_port ::
    "'w env \<Rightarrow> gostring \<Rightarrow> gostring list \<Rightarrow> 'w runState \<Rightarrow> (goerr + containerRun \<times> gostring) \<times> 'w runState" where
  "run_multi_port env tag ports s =
     (case e_RunMultiPort env tag ports (s_w s) of
        (Inl e, w) \<Rightarrow> (Inl e, s\<lparr>s_w := w\<rparr>)
      | (Inr (cr, h), w) \<Rightarrow> (Inr (cr, h), s\<lparr>s_w := w, s_live := h # s_live s\<rparr>))"

definition wait_healthy :: "'w env \<Rightarrow> gostring \<Rightarrow> int \<Rightarrow> 'w runState \<Rightarrow> goerr option \<times> 'w runState" where
  "wait_healthy env url timeout s =
     (case e_WaitHealthy env url timeout (s_w s) of (e, w) \<Rightarrow> (e, s\<lparr>s_w := w\<rparr>))"

definition wait_port :: "'w env \<Rightarrow> gostring \<Rightarrow> int \<Rightarrow> 'w runState \<Rightarrow> goerr option \<times> 'w runState" where
  "wait_port env addr timeout s =
     (case e_WaitPort env addr timeout (s_w s) of (e, w) \<Rightarrow> (e, s\<lparr>s_w := w\<rparr>))"

definition start_session :: "'w env \<Rightarrow> gostring \<Rightarrow> 'w runState \<Rightarrow> (goerr + gostring) \<times> 'w runState" where
  "start_session env tag s =
     (case e_StartSession env tag (s_w s) of
        (Inl e, w) \<Rightarrow> (Inl e, s\<lparr>s_w := w\<rparr>)
      | (Inr sess, w) \<Rightarrow> (Inr sess, s\<lparr>s_w := e_SetSession env (Some sess) w, s_sess := sess # s_sess s\<rparr>))"

text \<open>The two deferred calls of a session, in the order in which they run.\<close>

definition close_session :: "'w env \<Rightarrow> gostring \<Rightarrow> 'w runState \<Rightarrow> 'w runState" where
  "close_session env sess s =
     s\<lparr>s_w := e_StopSession env sess (e_SetSession env None (s_w s)), s_sess := remove1 sess (s_sess s)\<rparr>"

definition set_grpc_target :: "'w env \<Rightarrow> gostring \<Rightarrow> 'w runState \<Rightarrow> 'w runState" where
  "set_grpc_target env target s = s\<lparr>s_w := e_SetGRPCTarget env target (s_w s)\<rparr>"

section \<open>HTTP containers and restarts\<close>

text \<open>
  \<open>currentStop\<close>, which the stop and the restart function share, is a cell holding the handle of the
  running container, or \<open>None\<close> after \<open>currentStop = func() {}\<close>.
\<close>

definition stop_cell :: "'w env \<Rightarrow> gostring option \<Rightarrow> 'w runState \<Rightarrow> 'w runState" where
  "stop_cell env cell s = (case cell of None \<Rightarrow> s | Some h \<Rightarrow> stop_container env h s)"

definition restart_container ::
    "'w env \<Rightarrow> gostring \<Rightarrow> int \<Rightarrow> gostring option \<Rightarrow> 'w runState \<Rightarrow>
     (goerr + gostring) \<times> gostring option \<times> 'w runState" where
  "restart_container env tag healthTimeout cell s =
     (case run_container env tag (stop_cell env cell s) of
        (Inl e, s1) \<Rightarrow> (Inl (wrap_err ''attractor: restart container'' e), None, s1)
      | (Inr (cr, h), s1) \<Rightarrow>
          (case wait_healthy env (cr_URL cr) healthTimeout s1 of
             (Some e, s2) \<Rightarrow>
               (Inl (wrap_err ''attractor: restart health check'' e), None, stop_container env h s2)
           | (None, s2) \<Rightarrow> (Inr (cr_URL cr), Some h, s2)))"

definition panic_nil_call :: gostring where
  "panic_nil_call = ''runtime error: invalid memory address or nil pointer dereference''"

text \<open>A validator runs to its report; every restart it asks for goes through the cell. Calling the
  nil restart function of a path that has none is a panic.\<close>

primrec run_vprog ::
    "'w vprog \<Rightarrow> 'w env \<Rightarrow> gostring \<Rightarrow> int \<Rightarrow> bool \<Rightarrow> gostring option \<Rightarrow> 'w runState \<Rightarrow>
     (goerr + float64 \<times> gostring list \<times> float64) \<times> gostring option \<times> 'w runState" where
  "run_vprog (VDone r w) = (\<lambda>env tag timeout hasRestart cell s. (r, cell, s\<lparr>s_w := w\<rparr>))"
| "run_vprog (VRestart w k) = (\<lambda>env tag timeout hasRestart cell s.
     if \<not> hasRestart then (Inl (new_err panic_nil_call), cell, s\<lparr>s_w := w\<rparr>)
     else case restart_container env tag timeout cell (s\<lparr>s_w := w\<rparr>) of
       (r, cell', s') \<Rightarrow> run_vprog (k r (s_w s')) env tag timeout hasRestart cell' s')"

record httpContainerResult =
  hc_url :: gostring
  hc_stop :: "gostring option"
  hc_containerID :: gostring
  hc_stalled :: "runResult option"

definition http_failed :: "runResult option \<Rightarrow> httpContainerResult" where
  "http_failed st = \<lparr>hc_url = [], hc_stop = None, hc_containerID = [], hc_stalled = st\<rparr>"

definition startHTTPContainer ::
    "'w env \<Rightarrow> int \<Rightarrow> gostring \<Rightarrow> int \<Rightarrow> 'w runState \<Rightarrow> httpContainerResult \<times> 'w runState" where
  "startHTTPContainer env iter tag healthTimeout s =
     (case run_container env tag s of
        (Inl e, s1) \<Rightarrow>
          let s2 = fail_step OutcomeRunFail iter feedbackRunError
                     (''Container failed to start: '' @ er_msg e) s1
          in (http_failed (checkStalled iter s2), s2)
      | (Inr (cr, h), s1) \<Rightarrow>
          (case wait_healthy env (cr_URL cr) healthTimeout s1 of
             (Some e, s2) \<Rightarrow>
               let s3 = fail_step OutcomeHealthFail iter feedbackHealthError
                          (''Health check failed: '' @ er_msg e) (stop_container env h s2)
               in (http_failed (checkStalled iter s3), s3)
           | (None, s2) \<Rightarrow>
               (\<lparr>hc_url = cr_URL cr, hc_stop = Some h, hc_containerID = cr_ContainerID cr,
                 hc_stalled = None\<rparr>, s2)))"

section \<open>gRPC containers\<close>

definition DefaultGRPCPort :: gostring where "DefaultGRPCPort = ''50051/tcp''"

definition needs_http :: "scenarioCapabilities \<Rightarrow> bool" where
  "needs_http caps \<longleftrightarrow> NeedsHTTP caps \<or> NeedsBrowser caps"

text \<open>\<open>None\<close> is the \<open>nil\<close> that the caller takes for success.\<close>

definition waitGRPCHealth ::
    "'w env \<Rightarrow> int \<Rightarrow> scenarioCapabilities \<Rightarrow> gostring \<Rightarrow> gostring \<Rightarrow> 'w runState \<Rightarrow>
     runResult option \<times> 'w runState" where
  "waitGRPCHealth env iter caps url grpcTarget s =
     (if needs_http caps then
        (case wait_healthy env url (o_HealthTimeout (s_opts s)) s of
           (Some e, s1) \<Rightarrow>
             let s2 = fail_step OutcomeHealthFail iter feedbackHealthError
                        (''Health check failed: '' @ er_msg e) s1
             in (checkStalled iter s2, s2)
         | (None, s1) \<Rightarrow> (None, s1))
      else if grpcTarget \<noteq> [] then
        (case wait_port env grpcTarget (o_HealthTimeout (s_opts s)) s of
           (Some e, s1) \<Rightarrow>
             let s2 = fail_step OutcomeHealthFail iter feedbackHealthError
                        (''gRPC port health check failed: '' @ er_msg e) s1
             in (checkStalled iter s2, s2)
         | (None, s1) \<Rightarrow> (None, s1))
      else (None, s))"

record grpcContainerResult =
  gc_url :: gostring
  gc_stop :: "gostring option"
  gc_grpcTarget :: gostring
  gc_containerID :: gostring
  gc_stalled :: "runResult option"

definition grpc_failed :: "runResult option \<Rightarrow> grpcContainerResult" where
  "grpc_failed st = \<lparr>gc_url = [], gc_stop = None, gc_grpcTarget = [], gc_containerID = [], gc_stalled = st\<rparr>"

definition startGRPCContainer ::
    "'w env \<Rightarrow> int \<Rightarrow> gostring \<Rightarrow> scenarioCapabilities \<Rightarrow> 'w runState \<Rightarrow> grpcContainerResult \<times> 'w runState" where
  "startGRPCContainer env iter tag caps s =
     (case run_multi_port env tag [DefaultGRPCPort] s of
        (Inl e, s1) \<Rightarrow>
          let s2 = fail_step OutcomeRunFail iter feedbackRunError
                     (''Container failed to start: '' @ er_msg e) s1
          in (grpc_failed (checkStalled iter s2), s2)
      | (Inr (cr, h), s1) \<Rightarrow>
          let grpcTarget = content_of (cr_ExtraPorts cr) DefaultGRPCPort in
          (case waitGRPCHealth env iter caps (cr_URL cr) grpcTarget s1 of
             (Some r, s2) \<Rightarrow> (grpc_failed (Some r), stop_container env h s2)
           | (None, s2) \<Rightarrow>
               (\<lparr>gc_url = cr_URL cr, gc_stop = Some h, gc_grpcTarget = grpcTarget,
                 gc_containerID = cr_ContainerID cr, gc_stalled = None\<rparr>, s2)))"

section \<open>The service container\<close>

text \<open>\<open>sv_stop\<close> is the cell of the stop function with the flag for the gRPC variant, which also clears
  the target; \<open>None\<close> when there is nothing to stop.\<close>

record serviceContainerResult =
  sv_url :: gostring
  sv_containerID :: gostring
  sv_restart :: bool
  sv_stop :: "(gostring \<times> bool) option"
  sv_stalled :: "runResult option"

definition no_service :: serviceContainerResult where
  "no_service = \<lparr>sv_url = [], sv_containerID = [], sv_restart = False, sv_stop = None, sv_stalled = None\<rparr>"

definition startServiceContainer ::
    "'w env \<Rightarrow> int \<Rightarrow> gostring \<Rightarrow> scenarioCapabilities \<Rightarrow> 'w runState \<Rightarrow> serviceContainerResult \<times> 'w runState" where
  "startServiceContainer env iter tag caps s =
     (if NeedsGRPC caps then
        (case startGRPCContainer env iter tag caps s of (res, s1) \<Rightarrow>
           (case gc_stop res of
              None \<Rightarrow> (no_service\<lparr>sv_stalled := gc_stalled res\<rparr>, s1)
            | Some h \<Rightarrow>
                (\<lparr>sv_url = gc_url res, sv_containerID = gc_containerID res, sv_restart = False,
                  sv_stop = Some (h, True), sv_stalled = None\<rparr>,
                 set_grpc_target env (gc_grpcTarget res) s1)))
      else if NeedsTUI caps \<and> \<not> NeedsHTTP caps \<and> \<not> NeedsGRPC caps then (no_service, s)
      else if NeedsHTTP caps \<or> NeedsBrowser caps \<or> \<not> NeedsExec caps then
        (case startHTTPContainer env iter tag (o_HealthTimeout (s_opts s)) s of (res, s1) \<Rightarrow>
           (case hc_stop res of
              None \<Rightarrow> (no_service\<lparr>sv_stalled := hc_stalled res\<rparr>, s1)
            | Some h \<Rightarrow>
                (\<lparr>sv_url = hc_url res, sv_containerID = hc_containerID res, sv_restart = True,
                  sv_stop = Some (h, False), sv_stalled = None\<rparr>, s1)))
      else (no_service, s))"

text \<open>The deferred stop of a service, at the value its cell has when the deferred call runs.\<close>

definition stop_service :: "'w env \<Rightarrow> bool \<Rightarrow> gostring option \<Rightarrow> 'w runState \<Rightarrow> 'w runState" where
  "stop_service env grpc cell s =
     (let s1 = stop_cell env cell s in if grpc then set_grpc_target env [] s1 else s1)"

section \<open>The test command\<close>

text \<open>\<open>Inr (Some stall)\<close> skips validation; \<open>Inr None\<close> goes on.\<close>

definition runTestCommand ::
    "'w env \<Rightarrow> int \<Rightarrow> gostring \<Rightarrow> 'w runState \<Rightarrow> (goerr + runResult option option) \<times> 'w runState" where
  "runTestCommand env iter containerID s =
     (if o_TestCommand (s_opts s) = [] then (Inr None, s)
      else if containerID = [] then (Inr None, s)
      else
        (case e_RunTest env containerID (o_TestCommand (s_opts s)) (s_w s) of
           (Inl e, w) \<Rightarrow> (Inl (wrap_err (''attractor: run test iteration '' @ int_str iter) e), s\<lparr>s_w := w\<rparr>)
         | (Inr xr, w) \<Rightarrow>
             if xr_ExitCode xr \<noteq> 0 then
               let out = xr_Stdout xr @ (if xr_Stdout xr \<noteq> [] \<and> xr_Stderr xr \<noteq> [] then [NL] else []) @ xr_Stderr xr;
                   s2 = fail_step OutcomeTestFail iter feedbackTestError
                          (''Test command exited '' @ int_str (xr_ExitCode xr) @ '':'' @ [NL] @
                           truncateFeedback out maxFeedbackBytes) (s\<lparr>s_w := w\<rparr>)
               in (Inr (Some (checkStalled iter s2)), s2)
             else (Inr None, s\<lparr>s_w := w\<rparr>)))"

section \<open>What stays running\<close>

lemma fail_step_frame [framefacts]:
  "s_live (fail_step oc i k m s) = s_live s" "s_sess (fail_step oc i k m s) = s_sess s"
  "s_opts (fail_step oc i k m s) = s_opts s" "s_w (fail_step oc i k m s) = s_w s"
  "s_bestFiles (fail_step oc i k m s) = s_bestFiles s"
  "s_bestSatisfaction (fail_step oc i k m s) = s_bestSatisfaction s"
  "s_totalCost (fail_step oc i k m s) = s_totalCost s"
  "s_stallCount (fail_step oc i k m s) = s_stallCount s + 1"
  by (simp_all add: fail_step_def recordStall_def)

lemma stop_container_frame [framefacts]:
  "s_live (stop_container env h s) = remove1 h (s_live s)" "s_sess (stop_container env h s) = s_sess s"
  by (simp_all add: stop_container_def)

lemma run_container_live:
  "run_container env tag s = (Inl e, s1) \<Longrightarrow> s_live s1 = s_live s \<and> s_sess s1 = s_sess s"
  "run_container env tag s = (Inr (cr, h), s1) \<Longrightarrow> s_live s1 = h # s_live s \<and> s_sess s1 = s_sess s"
  by (auto simp: run_container_def split: prod.splits sum.splits)

lemma run_multi_port_live:
  "run_multi_port env tag ps s = (Inl e, s1) \<Longrightarrow> s_live s1 = s_live s \<and> s_sess s1 = s_sess s"
  "run_multi_port env tag ps s = (Inr (cr, h), s1) \<Longrightarrow> s_live s1 = h # s_live s \<and> s_sess s1 = s_sess s"
  by (auto simp: run_multi_port_def split: prod.splits sum.splits)

lemma wait_live:
  "wait_healthy env url t s = (e, s1) \<Longrightarrow> s_live s1 = s_live s \<and> s_sess s1 = s_sess s"
  "wait_port env url t s = (e, s1) \<Longrightarrow> s_live s1 = s_live s \<and> s_sess s1 = s_sess s"
  by (auto simp: wait_healthy_def wait_port_def split: prod.splits)

text \<open>The containers that a cell stands for.\<close>

definition cell_live :: "gostring option \<Rightarrow> gostring list \<Rightarrow> gostring list" where
  "cell_live cell base = (case cell of None \<Rightarrow> base | Some h \<Rightarrow> h # base)"

lemma stop_cell_live:
  "s_live s = cell_live cell base \<Longrightarrow> s_live (stop_cell env cell s) = base \<and> s_sess (stop_cell env cell s) = s_sess s"
  by (auto simp: stop_cell_def cell_live_def framefacts split: option.splits)

lemma restart_live:
  assumes "s_live s = cell_live cell base" and "restart_container env tag t cell s = (r, cell', s')"
  shows "s_live s' = cell_live cell' base \<and> s_sess s' = s_sess s"
proof -
  let ?s0 = "stop_cell env cell s"
  have s0: "s_live ?s0 = base" "s_sess ?s0 = s_sess s" using stop_cell_live [OF assms(1)] by auto
  obtain o1 s1 where run: "run_container env tag ?s0 = (o1, s1)" by force
  show ?thesis
  proof (cases o1)
    case (Inl e)
    with run assms(2) s0 run_container_live(1) [of env tag ?s0 e s1] show ?thesis
      by (auto simp: restart_container_def cell_live_def)
  next
    case (Inr p)
    obtain cr h where p: "p = (cr, h)" by force
    obtain we s2 where w: "wait_healthy env (cr_URL cr) t s1 = (we, s2)" by force
    have "s_live s1 = h # base" "s_sess s1 = s_sess s"
      using run_container_live(2) [of env tag ?s0 cr h s1] run s0 Inr p by auto
    with wait_live(1) [OF w] w run assms(2) Inr p show ?thesis
      by (auto simp: restart_container_def cell_live_def framefacts split: option.splits)
  qed
qed

lemma run_vprog_live:
  "s_live s = cell_live cell base \<Longrightarrow> run_vprog p env tag t hr cell s = (r, cell', s') \<Longrightarrow>
   s_live s' = cell_live cell' base \<and> s_sess s' = s_sess s"
proof (induction p arbitrary: cell s)
  case (VDone r w)
  then show ?case by auto
next
  case (VRestart w k)
  show ?case
  proof (cases hr)
    case False
    with VRestart.prems show ?thesis by auto
  next
    case True
    obtain r1 c1 s1 where rc: "restart_container env tag t cell (s\<lparr>s_w := w\<rparr>) = (r1, c1, s1)"
      by (cases "restart_container env tag t cell (s\<lparr>s_w := w\<rparr>)") auto
    from restart_live [OF _ rc, of base] VRestart.prems(1)
    have "s_live s1 = cell_live c1 base" "s_sess s1 = s_sess s" by auto
    with VRestart.IH [OF _ _ this(1)] VRestart.prems(2) True rc show ?thesis by auto
  qed
qed

lemma startHTTP_live:
  assumes "startHTTPContainer env iter tag t s = (res, s')"
  shows "s_live s' = cell_live (hc_stop res) (s_live s) \<and> s_sess s' = s_sess s"
proof -
  obtain o1 s1 where run: "run_container env tag s = (o1, s1)" by force
  show ?thesis
  proof (cases o1)
    case (Inl e)
    with run assms run_container_live(1) [of env tag s e s1] show ?thesis
      by (auto simp: startHTTPContainer_def Let_def http_failed_def cell_live_def framefacts)
  next
    case (Inr p)
    obtain cr h where p: "p = (cr, h)" by force
    obtain we s2 where w: "wait_healthy env (cr_URL cr) t s1 = (we, s2)" by force
    from run_container_live(2) [of env tag s cr h s1] run Inr p wait_live(1) [OF w] w assms
    show ?thesis
      by (auto simp: startHTTPContainer_def Let_def http_failed_def cell_live_def framefacts
          split: option.splits)
  qed
qed

lemma waitGRPC_live:
  "waitGRPCHealth env iter caps url tgt s = (r, s') \<Longrightarrow> s_live s' = s_live s \<and> s_sess s' = s_sess s"
  by (auto simp: waitGRPCHealth_def Let_def framefacts split: if_splits prod.splits option.splits
      dest!: wait_live)

lemma startGRPC_live:
  assumes "startGRPCContainer env iter tag caps s = (res, s')"
  shows "s_live s' = cell_live (gc_stop res) (s_live s) \<and> s_sess s' = s_sess s"
proof -
  obtain o1 s1 where run: "run_multi_port env tag [DefaultGRPCPort] s = (o1, s1)" by force
  show ?thesis
  proof (cases o1)
    case (Inl e)
    with run assms run_multi_port_live(1) [of env tag "[DefaultGRPCPort]" s e s1] show ?thesis
      by (auto simp: startGRPCContainer_def Let_def grpc_failed_def cell_live_def framefacts)
  next
    case (Inr p)
    obtain cr h where p: "p = (cr, h)" by force
    let ?t = "content_of (cr_ExtraPorts cr) DefaultGRPCPort"
    obtain we s2 where w: "waitGRPCHealth env iter caps (cr_URL cr) ?t s1 = (we, s2)" by force
    from run_multi_port_live(2) [of env tag "[DefaultGRPCPort]" s cr h s1] run Inr p
      waitGRPC_live [OF w] w assms
    show ?thesis
      by (auto simp: startGRPCContainer_def Let_def grpc_failed_def cell_live_def framefacts
          split: option.splits)
  qed
qed

definition service_cell :: "serviceContainerResult \<Rightarrow> gostring option" where
  "service_cell svc = map_option fst (sv_stop svc)"

lemma startService_live:
  assumes "startServiceContainer env iter tag caps s = (svc, s')"
  shows "s_live s' = cell_live (service_cell svc) (s_live s) \<and> s_sess s' = s_sess s"
  using assms unfolding startServiceContainer_def
  by (auto simp: service_cell_def no_service_def set_grpc_target_def cell_live_def
      split: if_splits prod.splits option.splits dest!: startGRPC_live startHTTP_live)

lemma stop_service_live:
  "s_live s = cell_live cell base \<Longrightarrow>
   s_live (stop_service env g cell s) = base \<and> s_sess (stop_service env g cell s) = s_sess s"
  using stop_cell_live [of s cell base env]
  by (auto simp: stop_service_def Let_def set_grpc_target_def)

lemma runTest_live:
  "runTestCommand env iter cid s = (r, s') \<Longrightarrow> s_live s' = s_live s \<and> s_sess s' = s_sess s"
  by (auto simp: runTestCommand_def Let_def framefacts split: if_splits prod.splits sum.splits)

section \<open>A failed gRPC health check\<close>

text \<open>A gRPC container whose port never opens is taken for healthy as long as the stall limit is
  not reached: the failure is recorded as a stall, but the container is kept, its stop function is
  returned, and the iteration goes on to validate against it.\<close>

theorem grpc_unhealthy_accepted:
  assumes "NeedsGRPC caps" and "\<not> needs_http caps"
    and "e_RunMultiPort env tag [DefaultGRPCPort] (s_w s) = (Inr (cr, h), w1)"
    and "content_of (cr_ExtraPorts cr) DefaultGRPCPort \<noteq> []"
    and "e_WaitPort env (content_of (cr_ExtraPorts cr) DefaultGRPCPort) (o_HealthTimeout (s_opts s)) w1 = (Some e, w2)"
    and "s_stallCount s + 1 < o_StallLimit (s_opts s)"
  shows "\<exists>svc s'. startServiceContainer env iter tag caps s = (svc, s') \<and>
    sv_stop svc = Some (h, True) \<and> sv_stalled svc = None \<and> sv_url svc = cr_URL cr \<and>
    s_live s' = h # s_live s \<and> s_stallCount s' = s_stallCount s + 1 \<and> s_lastOutcome s' = OutcomeHealthFail"
  using assms
  by (simp add: startServiceContainer_def startGRPCContainer_def run_multi_port_def waitGRPCHealth_def
      wait_port_def Let_def checkStalled_def fail_step_def recordStall_def set_grpc_target_def)

theorem grpc_unhealthy_accepted_witness:
  "\<exists>svc s'. startServiceContainer (demo_env\<lparr>e_WaitPort := (\<lambda>addr t w. (Some demo_err, w))\<rparr>) 1 ''og-r1-iter1''
      (demo_caps\<lparr>NeedsHTTP := False, NeedsGRPC := True\<rparr>) demo_state = (svc, s') \<and>
    sv_stop svc = Some (''h1'', True) \<and> sv_stalled svc = None \<and> sv_url svc = ''http://127.0.0.1:8080'' \<and>
    s_live s' = [''h1''] \<and> s_stallCount s' = 1 \<and> s_lastOutcome s' = OutcomeHealthFail"
  using grpc_unhealthy_accepted [of "demo_caps\<lparr>NeedsHTTP := False, NeedsGRPC := True\<rparr>"
      "demo_env\<lparr>e_WaitPort := (\<lambda>addr t w. (Some demo_err, w))\<rparr>" "''og-r1-iter1''" demo_state
      "\<lparr>cr_URL = ''http://127.0.0.1:8080'', cr_ContainerID = ''c1'', cr_ExtraPorts = [(''50051/tcp'', ''127.0.0.1:50051'')]\<rparr>"
      "''h1''" "[]" demo_err "[]" 1]
  by (simp add: demo_env_def demo_caps_def demo_state_def demo_opts_def zero_state_def needs_http_def
      content_of_def gm_get_def DefaultGRPCPort_def)

end
