(* ===== verification/Attractor_Tools.thy ===== *)
theory Attractor_Tools
  imports Attractor_State
begin

text \<open>
  \<open>internal/attractor/tools.go\<close>: the file tools of the agentic mode, with the handler that tracks the
  written files, and the run of an agent against them. The lock around the file map has no counterpart:
  here every call takes effect as a whole; \<open>Tool_Race\<close> has the steps of calls that run in parallel.
\<close>

record agentToolHandler =
  ah_iterDir :: gostring
  ah_files :: files

definition newAgentToolHandler :: "'w env \<Rightarrow> gostring \<Rightarrow> goerr + agentToolHandler" where
  "newAgentToolHandler env iterDir =
     (case os_Abs (e_Os env) iterDir of
        None \<Rightarrow> Inl \<lparr>er_msg = ''attractor: resolve iterDir'', er_is = []\<rparr>
      | Some absd \<Rightarrow> Inr \<lparr>ah_iterDir = absd, ah_files = []\<rparr>)"

definition handler_Files :: "agentToolHandler \<Rightarrow> files" where
  "handler_Files h = gm_copy [] (ah_files h)"

text \<open>Decoding of the tool inputs; \<open>null\<close> leaves every field empty.\<close>

definition dec_object :: "gostring \<Rightarrow> (gostring \<times> json) list option" where
  "dec_object raw =
     (case json_parse raw of Some (JObj ms) \<Rightarrow> Some ms | Some JNull \<Rightarrow> Some [] | _ \<Rightarrow> None)"

definition string_field :: "gostring list \<Rightarrow> (gostring \<times> json) list \<Rightarrow> gostring \<Rightarrow> gostring option" where
  "string_field names ms f = dec_field dec_string (field_values names ms f) []"

definition input_error :: "gostring \<Rightarrow> goerr" where
  "input_error tool = \<lparr>er_msg = ''attractor: unmarshal '' @ tool @ '' input'', er_is = []\<rparr>"

definition errUnknownTool :: gostring where "errUnknownTool = ''attractor: unknown tool''"

type_synonym 'w tool_result = "(goerr + gostring) \<times> agentToolHandler \<times> 'w"

definition handleWriteFile :: "'w env \<Rightarrow> gostring \<Rightarrow> agentToolHandler \<Rightarrow> 'w \<Rightarrow> 'w tool_result" where
  "handleWriteFile env raw h w =
     (case dec_object raw of
        None \<Rightarrow> (Inl (input_error ''write_file''), h, w)
      | Some ms \<Rightarrow>
          (case (string_field [''path'', ''content''] ms ''path'', string_field [''path'', ''content''] ms ''content'') of
             (Some path, Some content) \<Rightarrow>
               (case validatePath path of
                  Some e \<Rightarrow> (Inl (file_goerr e), h, w)
                | None \<Rightarrow>
                    (case writeOneFile (e_Os env) (ah_iterDir h) path content w of
                       (w', Some e) \<Rightarrow> (Inl (file_goerr e), h, w')
                     | (w', None) \<Rightarrow> (Inr ''ok'', h\<lparr>ah_files := gm_put path content (ah_files h)\<rparr>, w')))
           | _ \<Rightarrow> (Inl (input_error ''write_file''), h, w)))"

definition resolveContained :: "'w env \<Rightarrow> agentToolHandler \<Rightarrow> gostring \<Rightarrow> goerr + gostring" where
  "resolveContained env h rel =
     (case os_Abs (e_Os env) (join_path [ah_iterDir h, rel]) of
        None \<Rightarrow> Inl \<lparr>er_msg = ''attractor: resolve path'', er_is = []\<rparr>
      | Some absd \<Rightarrow>
          if absd \<noteq> ah_iterDir h \<and> \<not> has_prefix absd (ah_iterDir h @ [SEP])
          then Inl (file_goerr (EscapesWorkspace rel))
          else Inr absd)"

text \<open>The flag of a read error says whether it is \<open>fs.ErrNotExist\<close>.\<close>

definition handleReadFile :: "'w env \<Rightarrow> gostring \<Rightarrow> agentToolHandler \<Rightarrow> 'w \<Rightarrow> 'w tool_result" where
  "handleReadFile env raw h w =
     (case dec_object raw of
        None \<Rightarrow> (Inl (input_error ''read_file''), h, w)
      | Some ms \<Rightarrow>
          (case string_field [''path''] ms ''path'' of
             None \<Rightarrow> (Inl (input_error ''read_file''), h, w)
           | Some path \<Rightarrow>
               (case validatePath path of
                  Some e \<Rightarrow> (Inl (file_goerr e), h, w)
                | None \<Rightarrow>
                    (case resolveContained env h path of
                       Inl e \<Rightarrow> (Inl e, h, w)
                     | Inr absd \<Rightarrow>
                         (case e_ReadFile env absd w of
                            Inr data \<Rightarrow> (Inr data, h, w)
                          | Inl (e, True) \<Rightarrow> (Inr (er_msg e), h, w)
                          | Inl (e, False) \<Rightarrow> (Inl (wrap_err (''attractor: read_file '' @ path) e), h, w))))))"

definition handleListFiles :: "'w env \<Rightarrow> gostring \<Rightarrow> agentToolHandler \<Rightarrow> 'w \<Rightarrow> 'w tool_result" where
  "handleListFiles env raw h w =
     (case dec_object raw of
        None \<Rightarrow> (Inl (input_error ''list_files''), h, w)
      | Some ms \<Rightarrow>
          (case string_field [''directory''] ms ''directory'' of
             None \<Rightarrow> (Inl (input_error ''list_files''), h, w)
           | Some d \<Rightarrow>
               let dir = (if d = [] then ''.'' else d) in
               (case validatePath dir of
                  Some e \<Rightarrow> (Inl (file_goerr e), h, w)
                | None \<Rightarrow>
                    (case resolveContained env h dir of
                       Inl e \<Rightarrow> (Inl e, h, w)
                     | Inr rootd \<Rightarrow>
                         (case e_WalkDir env rootd w of
                            Inr paths \<Rightarrow> (Inr (str_join [NL] paths), h, w)
                          | Inl (e, True) \<Rightarrow> (Inr (er_msg e), h, w)
                          | Inl (e, False) \<Rightarrow> (Inl (wrap_err ''attractor: list_files walk'' e), h, w))))))"

definition Handle :: "'w env \<Rightarrow> toolCall \<Rightarrow> agentToolHandler \<Rightarrow> 'w \<Rightarrow> 'w tool_result" where
  "Handle env call h w =
     (if tc_Name call = ''write_file'' then handleWriteFile env (tc_Input call) h w
      else if tc_Name call = ''read_file'' then handleReadFile env (tc_Input call) h w
      else if tc_Name call = ''list_files'' then handleListFiles env (tc_Input call) h w
      else (Inl (new_err errUnknownTool), h, w))"

definition agentTools :: "toolDef list" where
  "agentTools =
     [\<lparr>td_Name = ''write_file'',
       td_Description = ''Write content to a file in the workspace. Creates parent directories as needed.'',
       td_InputSchema = (''{'' @ [CHR 0x22] @ ''type'' @ [CHR 0x22] @ '':'' @ [CHR 0x22] @ ''object'' @
             [CHR 0x22] @ '','' @ [CHR 0x22] @ ''properties'' @ [CHR 0x22] @ '':{'' @ [CHR 0x22] @
             ''path'' @ [CHR 0x22] @ '':{'' @ [CHR 0x22] @ ''type'' @ [CHR 0x22] @ '':'' @
             [CHR 0x22] @ ''string'' @ [CHR 0x22] @ '','' @ [CHR 0x22] @ ''description'' @
             [CHR 0x22] @ '':'' @ [CHR 0x22] @ ''Relative path of the file to write'' @
             [CHR 0x22] @ ''},'' @ [CHR 0x22] @ ''content'' @ [CHR 0x22] @ '':{'' @ [CHR 0x22] @
             ''type'' @ [CHR 0x22] @ '':'' @ [CHR 0x22] @ ''string'' @ [CHR 0x22] @ '','' @
             [CHR 0x22] @ ''description'' @ [CHR 0x22] @ '':'' @ [CHR 0x22] @
             ''Content to write to the file'' @ [CHR 0x22] @ ''}},'' @ [CHR 0x22] @ ''required'' @
             [CHR 0x22] @ '':['' @ [CHR 0x22] @ ''path'' @ [CHR 0x22] @ '','' @ [CHR 0x22] @
             ''content'' @ [CHR 0x22] @ '']}'')\<rparr>,
      \<lparr>td_Name = ''read_file'', td_Description = ''Read the content of a file in the workspace.'',
       td_InputSchema = (''{'' @ [CHR 0x22] @ ''type'' @ [CHR 0x22] @ '':'' @ [CHR 0x22] @ ''object'' @
             [CHR 0x22] @ '','' @ [CHR 0x22] @ ''properties'' @ [CHR 0x22] @ '':{'' @ [CHR 0x22] @
             ''path'' @ [CHR 0x22] @ '':{'' @ [CHR 0x22] @ ''type'' @ [CHR 0x22] @ '':'' @
             [CHR 0x22] @ ''string'' @ [CHR 0x22] @ '','' @ [CHR 0x22] @ ''description'' @
             [CHR 0x22] @ '':'' @ [CHR 0x22] @ ''Relative path of the file to read'' @ [CHR 0x22] @
             ''}},'' @ [CHR 0x22] @ ''required'' @ [CHR 0x22] @ '':['' @ [CHR 0x22] @ ''path'' @
             [CHR 0x22] @ '']}'')\<rparr>,
      \<lparr>td_Name = ''list_files'',
       td_Description = ''List all files in a directory of the workspace. Returns newline-separated relative paths.'',
       td_InputSchema = (''{'' @ [CHR 0x22] @ ''type'' @ [CHR 0x22] @ '':'' @ [CHR 0x22] @ ''object'' @
             [CHR 0x22] @ '','' @ [CHR 0x22] @ ''properties'' @ [CHR 0x22] @ '':{'' @ [CHR 0x22] @
             ''directory'' @ [CHR 0x22] @ '':{'' @ [CHR 0x22] @ ''type'' @ [CHR 0x22] @ '':'' @
             [CHR 0x22] @ ''string'' @ [CHR 0x22] @ '','' @ [CHR 0x22] @ ''description'' @
             [CHR 0x22] @ '':'' @ [CHR 0x22] @
             ''Relative path of the directory to list (default: '' @ [CHR 0x5C, CHR 0x22] @ ''.'' @
             [CHR 0x5C, CHR 0x22] @ '')'' @ [CHR 0x22] @ ''}}}'')\<rparr>]"

text \<open>An agent runs to its response; its tool calls go through the handler.\<close>

primrec run_aprog ::
    "'w aprog \<Rightarrow> 'w env \<Rightarrow> agentToolHandler \<Rightarrow> (goerr + agentResponse) \<times> agentToolHandler \<times> 'w" where
  "run_aprog (ADone r w) = (\<lambda>env h. (r, h, w))"
| "run_aprog (ACall c w k) = (\<lambda>env h.
     case Handle env c h w of (r, h', w') \<Rightarrow> run_aprog (k r w') env h')"

section \<open>What the tools can reach\<close>

definition handler_at :: "gostring list \<Rightarrow> agentToolHandler \<Rightarrow> bool" where
  "handler_at base h \<longleftrightarrow> list_all normal_comp base \<and> base \<noteq> [] \<and> ah_iterDir h = abs_of base"

text \<open>A tracked file was accepted by both checks, so it lies under the iteration directory.\<close>

definition tracked_ok :: "agentToolHandler \<Rightarrow> bool" where
  "tracked_ok h \<longleftrightarrow> gm_wf (ah_files h) \<and> (\<forall>(p, c) \<in> set (ah_files h). validatePath p = None \<and> downs p \<noteq> [])"

lemma validate_escapes:
  assumes "list_all normal_comp base" "base \<noteq> []" "validatePath p = None" "downs p = []"
  shows "writeOneFile wos (abs_of base) p c w = (w, Some (EscapesWorkspace p))"
  using over_split [OF assms(1), of p] assms
  by (simp add: writeOneFile_over validatePath_ups)

lemma handleWrite_ok:
  assumes "handler_at base h" and "tracked_ok h" and "handleWriteFile env raw h w = (r, h', w')"
  shows "tracked_ok h' \<and> ah_iterDir h' = ah_iterDir h"
proof (cases "h' = h")
  case True
  with assms(2) show ?thesis by simp
next
  case False
  then obtain path content where h': "h' = h\<lparr>ah_files := gm_put path content (ah_files h)\<rparr>"
    and v: "validatePath path = None"
    and wr: "writeOneFile (e_Os env) (ah_iterDir h) path content w = (w', None)"
    using assms(3) unfolding handleWriteFile_def
    by (auto split: option.splits prod.splits)
  have "downs path \<noteq> []"
    using validate_escapes [OF _ _ v, of base "e_Os env" content w] assms(1) wr by (auto simp: handler_at_def)
  with assms(2) v h' show ?thesis
    using gm_put_set [of path content "ah_files h"] by (auto simp: tracked_ok_def)
qed

lemma Handle_ok:
  assumes "handler_at base h" and "tracked_ok h" and "Handle env call h w = (r, h', w')"
  shows "tracked_ok h' \<and> handler_at base h'"
proof -
  have rd: "h' = h" if "handleReadFile env raw h w = (r, h', w') \<or> handleListFiles env raw h w = (r, h', w')" for raw
    using that unfolding handleReadFile_def handleListFiles_def Let_def
    by (auto split: option.splits sum.splits prod.splits bool.splits)
  show ?thesis
    using assms handleWrite_ok [OF assms(1,2), of env "tc_Input call" w r h' w'] rd [of "tc_Input call"]
    by (auto simp: Handle_def handler_at_def split: if_splits)
qed

lemma run_aprog_ok:
  "handler_at base h \<Longrightarrow> tracked_ok h \<Longrightarrow> run_aprog p env h = (r, h', w') \<Longrightarrow> tracked_ok h' \<and> handler_at base h'"
proof (induction p arbitrary: h)
  case (ADone x w)
  then show ?case by auto
next
  case (ACall c w k)
  obtain r1 h1 w1 where s: "Handle env c h w = (r1, h1, w1)" by (cases "Handle env c h w") auto
  from Handle_ok [OF ACall.prems(1,2) s] have "tracked_ok h1" "handler_at base h1" by auto
  with ACall.IH [OF _ _ this(2,1)] ACall.prems(3) s show ?case by auto
qed


definition demo_handler :: agentToolHandler where
  "demo_handler = \<lparr>ah_iterDir = abs_of [''work'', ''iter_1''], ah_files = []\<rparr>"

definition demo_agent :: "log aprog" where
  "demo_agent =
     ACall \<lparr>tc_ID = ''1'', tc_Name = ''write_file'', tc_Input = (''{'' @ [CHR 0x22] @ ''path'' @ [CHR 0x22] @ '':'' @ [CHR 0x22] @ ''../x'' @
             [CHR 0x22] @ '','' @ [CHR 0x22] @ ''content'' @ [CHR 0x22] @ '':'' @ [CHR 0x22] @
             ''a'' @ [CHR 0x22] @ ''}'')\<rparr> []
       (\<lambda>r1 w1. ACall \<lparr>tc_ID = ''2'', tc_Name = ''write_file'', tc_Input = (''{'' @ [CHR 0x22] @ ''path'' @ [CHR 0x22] @ '':'' @ [CHR 0x22] @ ''x'' @ [CHR 0x22] @
             '','' @ [CHR 0x22] @ ''content'' @ [CHR 0x22] @ '':'' @ [CHR 0x22] @ ''b'' @
             [CHR 0x22] @ ''}'')\<rparr> w1
          (\<lambda>r2 w2. ADone (Inl (new_err [])) w2))"

lemma demo_agent_run:
  "run_aprog demo_agent demo_env demo_handler =
     (Inl (new_err []), \<lparr>ah_iterDir = abs_of [''work'', ''iter_1''], ah_files = [(''x'', ''b'')]\<rparr>,
      [(''/work/iter_1/x'', ''b'')])"
  by code_simp


end
