(* ===== verification/Attractor_Run.thy ===== *)
theory Attractor_Run
  imports Attractor_Containers Attractor_Tools
begin

text \<open>
  One iteration of the convergence loop and the monolithic loop itself (\<open>attractor.go\<close>): generation
  with its wonder/reflect detour, the agentic path, build, run and validation, and what
  \<open>processValidation\<close> does with a score. Logging and tracing have no counterpart.
\<close>

section \<open>Messages\<close>

fun lastValidationFailures_rev :: "iterationFeedback list \<Rightarrow> float64 gomap" where
  "lastValidationFailures_rev [] = []"
| "lastValidationFailures_rev (fb # fbs) =
     (if fb_kind fb = feedbackValidation then fb_failedScenarios fb else lastValidationFailures_rev fbs)"

definition lastValidationFailures :: "iterationFeedback list \<Rightarrow> float64 gomap" where
  "lastValidationFailures history = lastValidationFailures_rev (rev history)"

text \<open>\<open>messages[len(messages)-1].Content += text\<close>\<close>

definition append_last :: "message list \<Rightarrow> gostring \<Rightarrow> message list" where
  "append_last ms t =
     (if ms = [] then [] else butlast ms @ [(last ms)\<lparr>m_Content := m_Content (last ms) @ t\<rparr>])"

definition applyMinimalismSuffix ::
    "message list \<Rightarrow> float64 list \<Rightarrow> iterationFeedback list \<Rightarrow> goerr + message list" where
  "applyMinimalismSuffix messages scoreHistory history =
     (if scoreHistory = [] then Inr messages
      else
        let lst = last scoreHistory in
        if fleq lst minimalismThreshold then Inr messages
        else
          let suff = buildMinimalismSuffix lst (lastValidationFailures history) in
          if suff = [] then Inr messages
          else if messages = [] then Inl (new_err errMinimalismNoMessages)
          else Inr (append_last messages suff))"

definition oscillationSteeringText :: gostring where
  "oscillationSteeringText = (''OSCILLATION DETECTED: Your last several attempts have alternated between the'' @
             '' same two implementations without making progress. This is a sign that you a'' @
             ''re stuck in a local loop.'' @ [NL] @ [NL] @
             ''Break out by trying a fundamentally different approach:'' @ [NL] @
             ''- Reconsider your core data structures or algorithm'' @ [NL] @
             ''- Change the architecture rather than tweaking the same implementation'' @ [NL] @
             ''- If you fixed something in a previous attempt that was then undone, keep th'' @
             ''at fix and build on it'' @ [NL] @ [NL] @
             ''Do NOT revert to a previous implementation. Make a genuinely new attempt.'')"

definition steer_oscillation :: "gostring list \<Rightarrow> message list \<Rightarrow> message list" where
  "steer_oscillation hashes messages =
     (if detectOscillation hashes then append_last messages ([NL, NL] @ oscillationSteeringText) else messages)"

section \<open>Generation\<close>

definition s_generate :: "'w env \<Rightarrow> generateRequest \<Rightarrow> 'w runState \<Rightarrow> (goerr + generateResponse) \<times> 'w runState" where
  "s_generate env req s = (case e_Generate env req (s_w s) of (r, w) \<Rightarrow> (r, s\<lparr>s_w := w\<rparr>))"

definition add_usage :: "float64 \<Rightarrow> int \<Rightarrow> 'w runState \<Rightarrow> 'w runState" where
  "add_usage cost tokens s =
     s\<lparr>s_totalCost := fadd (s_totalCost s) cost, s_totalTokens := s_totalTokens s + tokens\<rparr>"

definition resp_tokens :: "generateResponse \<Rightarrow> int" where
  "resp_tokens r = gp_InputTokens r + gp_OutputTokens r"

definition system_prompt :: "gostring \<Rightarrow> generationMode \<Rightarrow> 'w runState \<Rightarrow> gostring" where
  "system_prompt specContent mode s =
     buildSystemPrompt specContent (o_Capabilities (s_opts s)) (o_Language (s_opts s)) (o_Genes (s_opts s))
       (o_GeneLanguage (s_opts s)) mode"

definition is_patching :: "int \<Rightarrow> 'w runState \<Rightarrow> bool" where
  "is_patching iter s \<longleftrightarrow> s_patchActive s \<and> s_bestFiles s \<noteq> None \<and> 1 < iter"

text \<open>The files of a possibly nil map.\<close>

definition files_of :: "files option \<Rightarrow> files" where
  "files_of f = (case f of None \<Rightarrow> [] | Some m \<Rightarrow> m)"

definition wonder_request :: "gostring \<Rightarrow> 'w runState \<Rightarrow> generateRequest" where
  "wonder_request rawSpec s =
     \<lparr>gr_SystemPrompt = system_prompt rawSpec modeFileFormat s,
      gr_Messages = [user_message (buildWonderPrompt (s_history s) (files_of (s_bestFiles s))
        (s_scoreHistory s) (detectOscillation (s_codeHashes s)))],
      gr_MaxTokens = 0,
      gr_Model = (if o_JudgeModel (s_opts s) = [] then o_Model (s_opts s) else o_JudgeModel (s_opts s)),
      gr_CacheControl = None, gr_Temperature = Some wonderTemperature\<rparr>"

definition reflect_request :: "gostring \<Rightarrow> diagnosis \<Rightarrow> 'w runState \<Rightarrow> generateRequest" where
  "reflect_request rawSpec d s =
     \<lparr>gr_SystemPrompt = system_prompt rawSpec modeFileFormat s,
      gr_Messages = [user_message (buildReflectPrompt d
        (s_scoreHistory s \<noteq> [] \<and> fless minimalismThreshold (last (s_scoreHistory s))))],
      gr_MaxTokens = o_MaxTokens (s_opts s), gr_Model = o_Model (s_opts s),
      gr_CacheControl = None, gr_Temperature = Some reflectTemperature\<rparr>"

text \<open>Content, finish reason and cost; the empty content signals the fallback.\<close>

definition wr_fallback :: "gostring \<times> gostring \<times> float64" where
  "wr_fallback = ([], [], fzero)"

definition wonderReflect ::
    "'w env \<Rightarrow> gostring \<Rightarrow> int \<Rightarrow> 'w runState \<Rightarrow> (goerr + gostring \<times> gostring \<times> float64) \<times> 'w runState" where
  "wonderReflect env rawSpec iter s =
     (case s_generate env (wonder_request rawSpec s) s of
        (Inl e, s1) \<Rightarrow>
          if e_CtxErr env (s_w s1)
          then (Inl (wrap_err (''attractor: wonder phase iteration '' @ int_str iter) e), s1)
          else (Inr wr_fallback, s1)
      | (Inr wonder, s1) \<Rightarrow>
          let s2 = add_usage (gp_CostUSD wonder) (resp_tokens wonder) s1 in
          if budgetExceeded s2 then (Inr wr_fallback, s2)
          else case parseDiagnosis (gp_Content wonder) of
            Inl _ \<Rightarrow> (Inr wr_fallback, s2)
          | Inr d \<Rightarrow>
              (case s_generate env (reflect_request rawSpec d s2) s2 of
                 (Inl e, s3) \<Rightarrow>
                   if e_CtxErr env (s_w s3)
                   then (Inl (wrap_err (''attractor: reflect phase iteration '' @ int_str iter) e), s3)
                   else (Inr wr_fallback, s3)
               | (Inr rresp, s3) \<Rightarrow>
                   let s4 = (add_usage (gp_CostUSD rresp) (resp_tokens rresp) s3)
                         \<lparr>s_lastInputTokens := gp_InputTokens wonder + gp_InputTokens rresp,
                          s_lastOutputTokens := gp_OutputTokens wonder + gp_OutputTokens rresp\<rparr>
                   in (Inr (gp_Content rresp, gp_FinishReason rresp,
                            fadd (gp_CostUSD wonder) (gp_CostUSD rresp)), s4)))"

definition standard_request :: "gostring \<Rightarrow> message list \<Rightarrow> 'w runState \<Rightarrow> generateRequest" where
  "standard_request specContent messages s =
     \<lparr>gr_SystemPrompt = system_prompt specContent modeFileFormat s, gr_Messages = messages,
      gr_MaxTokens = o_MaxTokens (s_opts s), gr_Model = currentModel s,
      gr_CacheControl = Some ''ephemeral'', gr_Temperature = None\<rparr>"

definition generate_normal ::
    "'w env \<Rightarrow> gostring \<Rightarrow> message list \<Rightarrow> int \<Rightarrow> 'w runState \<Rightarrow> (goerr + generateResponse) \<times> 'w runState" where
  "generate_normal env specContent messages iter s =
     (case s_generate env (standard_request specContent messages s) s of
        (Inl e, s1) \<Rightarrow> (Inl (wrap_err (''attractor: generate iteration '' @ int_str iter) e), s1)
      | (Inr r, s1) \<Rightarrow>
          (Inr r, (add_usage (gp_CostUSD r) (resp_tokens r) s1)
                    \<lparr>s_lastInputTokens := gp_InputTokens r, s_lastOutputTokens := gp_OutputTokens r\<rparr>))"

definition generateContent ::
    "'w env \<Rightarrow> gostring \<Rightarrow> message list \<Rightarrow> int \<Rightarrow> 'w runState \<Rightarrow> (goerr + generateResponse) \<times> 'w runState" where
  "generateContent env specContent messages iter s =
     (if buildSteeringText (s_history s) \<noteq> [] then
        (case wonderReflect env specContent iter s of
           (Inl e, s1) \<Rightarrow> (Inl e, s1)
         | (Inr (content, finishReason, cost), s1) \<Rightarrow>
             if content \<noteq> [] then
               (Inr \<lparr>gp_Content = content, gp_InputTokens = s_lastInputTokens s1,
                     gp_OutputTokens = s_lastOutputTokens s1, gp_CacheHit = False, gp_CostUSD = cost,
                     gp_FinishReason = finishReason\<rparr>, s1)
             else generate_normal env specContent messages iter s1)
      else generate_normal env specContent messages iter s)"

text \<open>The messages of a standard iteration: the patch prompt over the triaged files, or the plain one.\<close>

definition standard_messages :: "'w env \<Rightarrow> int \<Rightarrow> 'w runState \<Rightarrow> message list \<times> 'w runState" where
  "standard_messages env iter s =
     (if is_patching iter s then
        (case triageFiles (e_Generate env) (files_of (s_bestFiles s)) (s_lastFailures s)
                (o_JudgeModel (s_opts s)) (s_w s) of
           ((relevant, cost, tokens), w) \<Rightarrow>
             let s1 = add_usage cost tokens (s\<lparr>s_w := w\<rparr>);
                 omitted = int (length (files_of (s_bestFiles s1))) - int (length relevant)
             in (buildPatchMessages (s_history s1) relevant (s_bestSatisfaction s1) omitted modeFileFormat, s1))
      else (buildMessages (s_history s) modeFileFormat, s))"

text \<open>A stalled result, or the files, or neither after a parse failure below the stall limit.\<close>

definition generateStandard ::
    "'w env \<Rightarrow> gostring \<Rightarrow> gostring \<Rightarrow> int \<Rightarrow> 'w runState \<Rightarrow>
     (goerr + runResult option \<times> files option) \<times> 'w runState" where
  "generateStandard env specContent iterDir iter s =
     (case standard_messages env iter s of (messages0, s1) \<Rightarrow>
        case applyMinimalismSuffix messages0 (s_scoreHistory s1) (s_history s1) of
          Inl e \<Rightarrow> (Inl e, s1)
        | Inr messages1 \<Rightarrow>
            (case generateContent env specContent (steer_oscillation (s_codeHashes s1) messages1) iter s1 of
               (Inl e, s2) \<Rightarrow> (Inl e, s2)
             | (Inr resp, s2) \<Rightarrow>
                 (case ParseFilesWithMetadata (gp_Content resp) of
                    Inl SliceBounds \<Rightarrow> (Inl (new_err panic_slice), s2)
                  | Inl perr \<Rightarrow>
                      let s3 = (if gp_FinishReason resp = ''max_tokens'' then
                            fail_step OutcomeParseFail iter feedbackTruncation
                              ''Output truncated at model limit -- response was cut off'' s2
                          else
                            fail_step OutcomeParseFail iter feedbackParseError
                              (''Failed to parse generated files: '' @ er_msg (file_goerr perr)) s2)
                      in (Inr (checkStalled iter s3, None), s3)
                  | Inr pr \<Rightarrow>
                      let fls = (if is_patching iter s then mergeFiles (pr_Files pr) (files_of (s_bestFiles s2))
                                 else pr_Files pr)
                      in (case s_writeFiles env iterDir fls s2 of
                            (Some e, s3) \<Rightarrow>
                              (Inl (wrap_err (''attractor: write files iteration '' @ int_str iter) e), s3)
                          | (None, s3) \<Rightarrow> (Inr (None, Some fls), s3)))))"

definition agent_request :: "gostring \<Rightarrow> message list \<Rightarrow> 'w runState \<Rightarrow> agentRequest" where
  "agent_request specContent messages s =
     \<lparr>ar_SystemPrompt = system_prompt specContent modeToolUse s, ar_Messages = messages,
      ar_Tools = agentTools, ar_Model = currentModel s, ar_MaxTokens = 0,
      ar_MaxTurns = o_AgentMaxTurns (s_opts s), ar_CacheControl = Some ''ephemeral''\<rparr>"

text \<open>The run of the agent against a prepared handler.\<close>

definition run_agent ::
    "'w env \<Rightarrow> (agentRequest \<Rightarrow> 'w \<Rightarrow> 'w aprog) \<Rightarrow> gostring \<Rightarrow> message list \<Rightarrow> agentToolHandler \<Rightarrow> int \<Rightarrow>
     'w runState \<Rightarrow> (goerr + files) \<times> 'w runState" where
  "run_agent env agentLoop specContent messages handler iter s =
     (case run_aprog (agentLoop (agent_request specContent messages s) (s_w s)) env handler of
        (Inl e, h, w) \<Rightarrow> (Inl (wrap_err (''attractor: agent loop iteration '' @ int_str iter) e), s\<lparr>s_w := w\<rparr>)
      | (Inr resp, h, w) \<Rightarrow>
          let s1 = (add_usage (ap_TotalCost resp) (ap_InputTokens resp + ap_OutputTokens resp) (s\<lparr>s_w := w\<rparr>))
                \<lparr>s_lastInputTokens := ap_InputTokens resp, s_lastOutputTokens := ap_OutputTokens resp,
                 s_lastTurns := ap_Turns resp\<rparr>;
              fls = handler_Files h
          in if fls = [] then (Inl (new_err errNoFiles), s1) else (Inr fls, s1))"

definition generateAgentic ::
    "'w env \<Rightarrow> gostring \<Rightarrow> gostring \<Rightarrow> int \<Rightarrow> 'w runState \<Rightarrow> (goerr + files) \<times> 'w runState" where
  "generateAgentic env specContent iterDir iter s =
     (case e_AgentLoop env of
        None \<Rightarrow> (Inl (new_err errAgentClientRequired), s)
      | Some agentLoop \<Rightarrow>
          let patching = is_patching iter s in
          (case (if patching then s_writeFiles env iterDir (files_of (s_bestFiles s)) s else (None, s)) of
             (Some e, s1) \<Rightarrow>
               (Inl (wrap_err (''attractor: pre-seed agentic iterDir iteration '' @ int_str iter) e), s1)
           | (None, s1) \<Rightarrow>
               let messages0 = (if patching then
                     buildPatchMessages (s_history s1) (files_of (s_bestFiles s1)) (s_bestSatisfaction s1) 0 modeToolUse
                   else buildMessages (s_history s1) modeToolUse)
               in case applyMinimalismSuffix messages0 (s_scoreHistory s1) (s_history s1) of
                    Inl e \<Rightarrow> (Inl e, s1)
                  | Inr messages1 \<Rightarrow>
                      (case newAgentToolHandler env iterDir of
                         Inl e \<Rightarrow>
                           (Inl (wrap_err (''attractor: create agentic tool handler iteration '' @ int_str iter) e), s1)
                       | Inr h \<Rightarrow>
                           run_agent env agentLoop specContent
                             (steer_oscillation (s_codeHashes s1) messages1)
                             (if patching then h\<lparr>ah_files := gm_copy (ah_files h) (files_of (s_bestFiles s1))\<rparr> else h)
                             iter s1)))"

section \<open>What a score does\<close>

definition trackPatchRegression :: "float64 \<Rightarrow> 'w runState \<Rightarrow> 'w runState" where
  "trackPatchRegression satisfaction s =
     (if \<not> s_patchActive s \<or> fleq (s_bestSatisfaction s) satisfaction then s
      else
        let s1 = s\<lparr>s_patchRegressionCount := s_patchRegressionCount s + 1\<rparr> in
        if 2 \<le> s_patchRegressionCount s1 then s1\<lparr>s_patchActive := False\<rparr> else s1)"

text \<open>The bookkeeping before the convergence test: score, regressions, the new snapshot.\<close>

definition record_score :: "int \<Rightarrow> float64 \<Rightarrow> gostring list \<Rightarrow> 'w runState \<Rightarrow> regression list \<times> 'w runState" where
  "record_score iter satisfaction failures s =
     (let currentScores = parseAllScenarios failures;
          regressions = detectRegressions (s_scenarioScores s) (s_scenarioScoreIteration s) currentScores
            iter (o_Threshold (s_opts s));
          hist = (if regressions \<noteq> [] then
              s_history s @ [plain_feedback iter feedbackRegression (formatRegressions regressions)]
            else s_history s)
      in (regressions,
          s\<lparr>s_lastOutcome := OutcomeValidated, s_lastSatisfaction := satisfaction,
            s_scoreHistory := s_scoreHistory s @ [satisfaction], s_history := hist,
            s_scenarioScores := currentScores, s_scenarioScoreIteration := iter\<rparr>))"

definition validation_feedback :: "int \<Rightarrow> float64 \<Rightarrow> gostring list \<Rightarrow> 'w runState \<Rightarrow> iterationFeedback" where
  "validation_feedback iter satisfaction failures s =
     (let f = determineFidelity iter (s_stallCount s) in
      \<lparr>fb_iteration = iter, fb_kind = feedbackValidation,
       fb_message = formatValidationFeedback satisfaction failures f, fb_fidelity = f,
       fb_failedScenarios = parseFailedScenarios failures\<rparr>)"

definition write_best :: "'w env \<Rightarrow> files \<Rightarrow> 'w runState \<Rightarrow> goerr option \<times> 'w runState" where
  "write_best env fls s =
     (case s_writeFiles env (s_bestDir s) fls s of
        (Some e, s1) \<Rightarrow> (Some (wrap_err ''attractor: write best files'' e), s1)
      | (None, s1) \<Rightarrow> (None, s1))"

definition improve_or_stall ::
    "'w env \<Rightarrow> float64 \<Rightarrow> files \<Rightarrow> 'w runState \<Rightarrow> goerr option \<times> 'w runState" where
  "improve_or_stall env satisfaction fls s =
     (if fless (s_bestSatisfaction s) satisfaction then
        write_best env fls
          (s\<lparr>s_bestSatisfaction := satisfaction, s_bestFiles := Some fls, s_stallCount := 0,
             s_patchRegressionCount := 0, s_lastImproved := True\<rparr>)
      else (None, trackPatchRegression satisfaction (s\<lparr>s_stallCount := s_stallCount s + 1\<rparr>)))"

definition processValidation ::
    "'w env \<Rightarrow> int \<Rightarrow> float64 \<Rightarrow> gostring list \<Rightarrow> files \<Rightarrow> 'w runState \<Rightarrow>
     (goerr + runResult option) \<times> 'w runState" where
  "processValidation env iter satisfaction failures fls s =
     (case record_score iter satisfaction failures s of (regressions, s1) \<Rightarrow>
        if fleq (o_Threshold (s_opts s1)) satisfaction \<and>
           \<not> (o_BlockOnRegression (s_opts s1) \<and> regressions \<noteq> []) then
          (case write_best env fls s1 of
             (Some e, s2) \<Rightarrow> (Inl e, s2)
           | (None, s2) \<Rightarrow>
               let s3 = s2\<lparr>s_bestSatisfaction := satisfaction, s_bestFiles := Some fls\<rparr>
               in (Inr (Some (result_of s3 iter StatusConverged)), s3))
        else
          (case improve_or_stall env satisfaction fls s1 of
             (Some e, s2) \<Rightarrow> (Inl e, s2)
           | (None, s2) \<Rightarrow>
               let s3 = s2\<lparr>s_history := s_history s2 @ [validation_feedback iter satisfaction failures s2]\<rparr> in
               if o_StallLimit (s_opts s3) \<le> s_stallCount s3 then
                 (Inr (Some (result_of s3 iter StatusStalled)), s3)
               else if budgetExceeded s3 then
                 (Inr (Some (result_of s3 iter StatusBudgetExceeded)), s3)
               else (Inr None, s3)))"

section \<open>Build, run, validate\<close>

text \<open>From a running service to the end of the iteration, with the service's deferred stop.\<close>

definition validate_service ::
    "'w env \<Rightarrow> int \<Rightarrow> gostring \<Rightarrow> files \<Rightarrow> 'w validator \<Rightarrow> serviceContainerResult \<Rightarrow> 'w runState \<Rightarrow>
     (goerr + runResult option) \<times> 'w runState" where
  "validate_service env iter tag fls validate svc s =
     (let cell = service_cell svc; grpc = (case sv_stop svc of None \<Rightarrow> False | Some p \<Rightarrow> snd p) in
      case runTestCommand env iter (sv_containerID svc) s of
        (Inl e, s1) \<Rightarrow> (Inl e, stop_service env grpc cell s1)
      | (Inr (Some stall), s1) \<Rightarrow> (Inr stall, stop_service env grpc cell s1)
      | (Inr None, s1) \<Rightarrow>
          (case run_vprog (validate (sv_url svc) (sv_restart svc) (s_activeTier s1) (s_w s1)) env tag
                  (o_HealthTimeout (s_opts s1)) (sv_restart svc) cell s1 of
             (Inl e, cell', s2) \<Rightarrow>
               (Inl (wrap_err (''attractor: validate iteration '' @ int_str iter) e),
                stop_service env grpc cell' s2)
           | (Inr (satisfaction, failures, cost), cell', s2) \<Rightarrow>
               (case processValidation env iter satisfaction failures fls
                       (s2\<lparr>s_totalCost := fadd (s_totalCost s2) cost, s_lastFailures := failures\<rparr>) of
                  (r, s3) \<Rightarrow> (r, stop_service env grpc cell' s3))))"

definition run_service ::
    "'w env \<Rightarrow> int \<Rightarrow> gostring \<Rightarrow> files \<Rightarrow> 'w validator \<Rightarrow> 'w runState \<Rightarrow>
     (goerr + runResult option) \<times> 'w runState" where
  "run_service env iter tag fls validate s =
     (case startServiceContainer env iter tag (o_Capabilities (s_opts s)) s of (svc, s1) \<Rightarrow>
        if sv_stalled svc \<noteq> None then (Inr (sv_stalled svc), s1)
        else validate_service env iter tag fls validate svc s1)"

definition buildRunValidate ::
    "'w env \<Rightarrow> int \<Rightarrow> gostring \<Rightarrow> files \<Rightarrow> 'w runState \<Rightarrow> 'w validator \<Rightarrow>
     (goerr + runResult option) \<times> 'w runState" where
  "buildRunValidate env iter iterDir fls s validate =
     (let tag = ''og-'' @ s_runID s @ ''-iter'' @ int_str iter in
      case e_Build env iterDir tag (s_w s) of
        (Some e, w) \<Rightarrow>
          let s1 = fail_step OutcomeBuildFail iter feedbackBuildError
                     (''Docker build failed: '' @ stripBuildNoise (er_msg e)) (s\<lparr>s_w := w\<rparr>)
          in (Inr (checkStalled iter s1), s1)
      | (None, w) \<Rightarrow>
          let s1 = s\<lparr>s_w := w\<rparr> in
          if NeedsExec (o_Capabilities (s_opts s1)) \<or> NeedsTUI (o_Capabilities (s_opts s1)) then
            (case start_session env tag s1 of
               (Inl e, s2) \<Rightarrow>
                 let s3 = fail_step OutcomeRunFail iter feedbackRunError
                            (''Session container failed to start: '' @ er_msg e) s2
                 in (Inr (checkStalled iter s3), s3)
             | (Inr sess, s2) \<Rightarrow>
                 (case run_service env iter tag fls validate s2 of (r, s3) \<Rightarrow> (r, close_session env sess s3)))
          else run_service env iter tag fls validate s1)"

end
