(* ===== verification/Attractor_Loop.thy ===== *)
theory Attractor_Loop
  imports Attractor_Run
begin

text \<open>
  \<open>iterate\<close> and the monolithic loop of \<open>Run\<close> (\<open>attractor.go\<close>).
\<close>

section \<open>The iteration\<close>

definition spec_content :: "gostring \<Rightarrow> int \<Rightarrow> 'w runState \<Rightarrow> gostring" where
  "spec_content rawSpec iter s =
     (case s_summarized s of
        None \<Rightarrow> rawSpec
      | Some ss \<Rightarrow> SelectContent ss (o_ContextBudget (s_opts s))
          (if 1 < iter then extractFailureStrings (s_history s) else []))"

definition finish_iteration ::
    "'w env \<Rightarrow> int \<Rightarrow> gostring \<Rightarrow> files \<Rightarrow> 'w runState \<Rightarrow> 'w validator \<Rightarrow> (goerr + runResult option) \<times> 'w runState" where
  "finish_iteration env iter iterDir fls s validate =
     buildRunValidate env iter iterDir fls
       (s\<lparr>s_lastFailures := [], s_codeHashes := s_codeHashes s @ [hashFiles (e_Sha256 env) fls]\<rparr>) validate"

definition iterate ::
    "'w env \<Rightarrow> gostring \<Rightarrow> int \<Rightarrow> 'w runState \<Rightarrow> 'w validator \<Rightarrow> (goerr + runResult option) \<times> 'w runState" where
  "iterate env rawSpec iter s0 validate =
     (let s = s0\<lparr>s_lastImproved := False, s_lastTurns := 0\<rparr>;
          specContent = spec_content rawSpec iter s;
          iterDir = join_path [s_baseDir s, ''iter_'' @ int_str iter]
      in if o_Agentic (s_opts s) then
           (case generateAgentic env specContent iterDir iter s of
              (Inl e, s1) \<Rightarrow>
                if errors_Is e errNoFiles then
                  let s2 = fail_step OutcomeParseFail iter feedbackParseError ''Agent produced no files'' s1
                  in (Inr (checkStalled iter s2), s2)
                else (Inl e, s1)
            | (Inr fls, s1) \<Rightarrow> finish_iteration env iter iterDir fls s1 validate)
         else
           (case generateStandard env specContent iterDir iter s of
              (Inl e, s1) \<Rightarrow> (Inl e, s1)
            | (Inr (Some stall, _), s1) \<Rightarrow> (Inr (Some stall), s1)
            | (Inr (None, None), s1) \<Rightarrow> (Inr None, s1)
            | (Inr (None, Some fls), s1) \<Rightarrow> finish_iteration env iter iterDir fls s1 validate))"

section \<open>The loop\<close>

definition report_progress :: "'w env \<Rightarrow> int \<Rightarrow> float64 \<Rightarrow> 'w runState \<Rightarrow> 'w runState" where
  "report_progress env iter costBefore s =
     (case o_Progress (s_opts s) of
        None \<Rightarrow> s
      | Some f \<Rightarrow> s\<lparr>s_w := f (buildProgress iter costBefore (e_Now env (s_w s)) s) (s_w s)\<rparr>)"

definition record_escalation :: "'w runState \<Rightarrow> 'w runState" where
  "record_escalation s = s\<lparr>s_escalation := map_option (recordOutcome (s_lastImproved s)) (s_escalation s)\<rparr>"

text \<open>The iterations from \<open>iter\<close> on, as many as remain.\<close>

fun run_loop ::
    "'w env \<Rightarrow> gostring \<Rightarrow> 'w validator \<Rightarrow> nat \<Rightarrow> int \<Rightarrow> 'w runState \<Rightarrow> (goerr + runResult) \<times> 'w runState" where
  "run_loop env rawSpec validate 0 iter s =
     (Inr (result_of s (o_MaxIterations (s_opts s)) StatusMaxIterations), s)"
| "run_loop env rawSpec validate (Suc n) iter s =
     (if budgetExceeded s then (Inr (result_of s (iter - 1) StatusBudgetExceeded), s)
      else
        (case iterate env rawSpec iter s validate of
           (Inl e, s1) \<Rightarrow> (Inl e, s1)
         | (Inr res, s1) \<Rightarrow>
             let s2 = record_escalation (report_progress env iter (s_totalCost s) s1) in
             (case res of
                None \<Rightarrow> run_loop env rawSpec validate n (iter + 1) s2
              | Some r \<Rightarrow>
                  (case advanceTierIfNeeded r s2 of
                     (False, s3) \<Rightarrow> (Inr r, s3)
                   | (True, s3) \<Rightarrow> run_loop env rawSpec validate n (iter + 1) s3))))"

definition trySummarize :: "'w env \<Rightarrow> gostring \<Rightarrow> 'w \<Rightarrow> (summarizedSpec option \<times> float64) \<times> 'w" where
  "trySummarize env rawSpec w =
     (case Parse rawSpec of
        Inl _ \<Rightarrow> ((None, fzero), w)
      | Inr parsed \<Rightarrow>
          (case Summarize (e_Generate env) parsed summarizeModel w of
             (Inl _, w') \<Rightarrow> ((None, fzero), w')
           | (Inr (ss, cost), w') \<Rightarrow> ((Some ss, cost), w')))"

definition summarize_large :: "'w env \<Rightarrow> gostring \<Rightarrow> 'w runState \<Rightarrow> 'w runState" where
  "summarize_large env rawSpec s =
     (if 0 < o_ContextBudget (s_opts s) \<and> o_ContextBudget (s_opts s) < EstimateTokens rawSpec then
        (case trySummarize env rawSpec (s_w s) of
           ((ss, cost), w) \<Rightarrow> s\<lparr>s_summarized := ss, s_totalCost := fadd (s_totalCost s) cost, s_w := w\<rparr>)
      else s)"

text \<open>The part of \<open>Run\<close> after the composed attempt, on options that have their defaults.\<close>

definition run_monolithic ::
    "'w env \<Rightarrow> gostring \<Rightarrow> 'w runOptions \<Rightarrow> float64 \<Rightarrow> gostring \<Rightarrow> 'w validator \<Rightarrow> 'w \<Rightarrow>
     (goerr + runResult) \<times> 'w runState" where
  "run_monolithic env rawSpec opts composedCost composedContext validate w =
     (case e_RunID env w of (runID, w1) \<Rightarrow>
        let s = newRunState runID opts composedCost composedContext (e_Now env w1) w1;
            base = join_path [o_WorkspaceDir opts, runID];
            s1 = s\<lparr>s_baseDir := base, s_bestDir := join_path [base, ''best'']\<rparr>
        in run_loop env rawSpec validate (nat (o_MaxIterations opts)) 1 (summarize_large env rawSpec s1))"

end
