(* ===== verification/Attractor_Frame.thy ===== *)
theory Attractor_Frame
  imports Attractor_Loop
begin

text \<open>
  Frames: which part of the run state an operation leaves alone. A part is a projection of the state,
  and what the clients ask of it are equations saying that it ignores the assignments an operation makes.
  The operations' lemmas are proved once, inside four locales that differ in the assignments ignored,
  and used through interpretations on the parts the properties speak of.
\<close>

section \<open>Parts of the state\<close>

text \<open>Generation, test command and failed steps write these fields.\<close>

locale gen_frame =
  fixes P :: "'w runState \<Rightarrow> 'p"
  assumes P_w: "P (s\<lparr>s_w := w\<rparr>) = P s"
    and P_usage: "P (s\<lparr>s_totalCost := c\<rparr>) = P s" "P (s\<lparr>s_totalTokens := n\<rparr>) = P s"
    and P_tokens: "P (s\<lparr>s_lastInputTokens := n\<rparr>) = P s" "P (s\<lparr>s_lastOutputTokens := n\<rparr>) = P s"
    and P_turns: "P (s\<lparr>s_lastTurns := n\<rparr>) = P s"
    and P_step: "P (s\<lparr>s_lastOutcome := k\<rparr>) = P s" "P (s\<lparr>s_lastSatisfaction := c\<rparr>) = P s"
    and P_stall: "P (s\<lparr>s_stallCount := n\<rparr>) = P s" "P (s\<lparr>s_history := h\<rparr>) = P s"
    and P_failures: "P (s\<lparr>s_lastFailures := l\<rparr>) = P s"
    and P_hashes: "P (s\<lparr>s_codeHashes := l\<rparr>) = P s"
    and P_improved: "P (s\<lparr>s_lastImproved := b\<rparr>) = P s"
begin

lemmas gen_writes = P_w P_usage P_tokens P_turns P_step P_stall P_failures P_hashes P_improved

lemma fail_step_P: "P (fail_step oc i k m s) = P s"
  by (simp add: fail_step_def recordStall_def gen_writes)

lemma add_usage_P: "P (add_usage c t s) = P s"
  by (simp add: add_usage_def gen_writes)

lemma s_generate_P: "s_generate env req s = (r, s') \<Longrightarrow> P s' = P s"
  by (auto simp: s_generate_def gen_writes split: prod.splits)

lemma s_writeFiles_P: "s_writeFiles env dir fls s = (r, s') \<Longrightarrow> P s' = P s"
  by (auto simp: s_writeFiles_def gen_writes split: prod.splits)

lemma wonderReflect_P: "wonderReflect env rawSpec iter s = (r, s') \<Longrightarrow> P s' = P s"
  by (auto simp: wonderReflect_def Let_def gen_writes add_usage_P split: if_splits sum.splits prod.splits
      dest!: s_generate_P)

lemma generate_normal_P: "generate_normal env sc ms iter s = (r, s') \<Longrightarrow> P s' = P s"
  by (auto simp: generate_normal_def gen_writes add_usage_P split: sum.splits prod.splits
      dest!: s_generate_P)

lemma generateContent_P: "generateContent env sc ms iter s = (r, s') \<Longrightarrow> P s' = P s"
  by (auto simp: generateContent_def split: if_splits sum.splits prod.splits
      dest!: generate_normal_P wonderReflect_P)

lemma standard_messages_P: "standard_messages env iter s = (ms, s') \<Longrightarrow> P s' = P s"
  by (auto simp: standard_messages_def Let_def add_usage_P gen_writes split: if_splits prod.splits)

lemma generateStandard_P:
  assumes "generateStandard env sc dir iter s = (r, s')"
  shows "P s' = P s"
proof -
  obtain ms s1 where m: "standard_messages env iter s = (ms, s1)" by force
  show ?thesis
  proof (cases "applyMinimalismSuffix ms (s_scoreHistory s1) (s_history s1)")
    case (Inl e)
    with assms m standard_messages_P [OF m] show ?thesis by (simp add: generateStandard_def)
  next
    case (Inr ms1)
    obtain r2 s2 where g: "generateContent env sc (steer_oscillation (s_codeHashes s1) ms1) iter s1 = (r2, s2)"
      by force
    have "P s2 = P s" using generateContent_P [OF g] standard_messages_P [OF m] by simp
    with assms m Inr g show ?thesis
      by (auto simp: generateStandard_def Let_def fail_step_P dest!: s_writeFiles_P
          split: sum.splits prod.splits option.splits file_error.splits if_splits)
  qed
qed

lemma run_agent_P: "run_agent env al sc ms h iter s = (r, s') \<Longrightarrow> P s' = P s"
  by (auto simp: run_agent_def gen_writes add_usage_P Let_def split: prod.splits sum.splits if_splits)

lemma generateAgentic_P:
  assumes "generateAgentic env sc dir iter s = (r, s')"
  shows "P s' = P s"
proof (cases "e_AgentLoop env")
  case None
  with assms show ?thesis by (simp add: generateAgentic_def)
next
  case (Some al)
  obtain e1 s1 where w: "(if is_patching iter s then s_writeFiles env dir (files_of (s_bestFiles s)) s else (None, s)) = (e1, s1)"
    by force
  have "P s1 = P s" using w by (auto split: if_splits dest: s_writeFiles_P)
  with assms Some w show ?thesis
    by (auto simp: generateAgentic_def Let_def split: sum.splits option.splits dest!: run_agent_P)
qed

lemma runTest_P: "runTestCommand env iter cid s = (r, s') \<Longrightarrow> P s' = P s"
  by (auto simp: runTestCommand_def Let_def gen_writes fail_step_P split: if_splits prod.splits sum.splits)

end

text \<open>Validation also writes the scores and the best files.\<close>

locale val_frame = gen_frame +
  assumes P_best: "P (s\<lparr>s_bestSatisfaction := c\<rparr>) = P s" "P (s\<lparr>s_bestFiles := f\<rparr>) = P s"
    and P_scores: "P (s\<lparr>s_scoreHistory := l\<rparr>) = P s" "P (s\<lparr>s_scenarioScores := m\<rparr>) = P s"
      "P (s\<lparr>s_scenarioScoreIteration := n\<rparr>) = P s"
    and P_patch: "P (s\<lparr>s_patchActive := b\<rparr>) = P s" "P (s\<lparr>s_patchRegressionCount := n\<rparr>) = P s"
begin

lemmas val_writes = gen_writes P_best P_scores P_patch

lemma write_best_P: "write_best env fls s = (e, s') \<Longrightarrow> P s' = P s"
  by (auto simp: write_best_def split: prod.splits option.splits dest: s_writeFiles_P)

lemma record_score_P: "record_score iter sat fs s = (rs, s') \<Longrightarrow> P s' = P s"
  by (auto simp: record_score_def Let_def val_writes)

lemma trackPatch_P: "P (trackPatchRegression sat s) = P s"
  by (simp add: trackPatchRegression_def Let_def val_writes)

lemma improve_P: "improve_or_stall env sat fls s = (e, s') \<Longrightarrow> P s' = P s"
  by (auto simp: improve_or_stall_def trackPatch_P val_writes split: if_splits dest!: write_best_P)

lemma processValidation_P: "processValidation env iter sat fs fls s = (r, s') \<Longrightarrow> P s' = P s"
  by (auto simp: processValidation_def Let_def val_writes split: if_splits prod.splits option.splits
      dest!: record_score_P write_best_P improve_P)

end

text \<open>Starting and stopping write the ghost lists.\<close>

locale run_frame = gen_frame +
  assumes P_live: "P (s\<lparr>s_live := l\<rparr>) = P s" and P_sess: "P (s\<lparr>s_sess := l\<rparr>) = P s"
begin

lemmas run_writes = gen_writes P_live P_sess

lemma stop_P:
  "P (stop_container env h s) = P s" "P (stop_cell env cell s) = P s"
  "P (stop_service env g cell s) = P s" "P (set_grpc_target env t s) = P s"
  "P (close_session env ss s) = P s"
  by (simp_all add: stop_container_def stop_cell_def stop_service_def set_grpc_target_def
      close_session_def Let_def run_writes split: option.splits)

lemma start_P:
  "run_container env tag s = (r, s') \<Longrightarrow> P s' = P s"
  "run_multi_port env tag ps s = (r2, s') \<Longrightarrow> P s' = P s"
  "wait_healthy env url t s = (e, s') \<Longrightarrow> P s' = P s"
  "wait_port env url t s = (e, s') \<Longrightarrow> P s' = P s"
  "start_session env tag s = (r3, s') \<Longrightarrow> P s' = P s"
  by (auto simp: run_writes run_container_def run_multi_port_def wait_healthy_def wait_port_def
      start_session_def split: prod.splits sum.splits)

lemma restart_P: "restart_container env tag t cell s = (r, cell', s') \<Longrightarrow> P s' = P s"
  by (auto simp: restart_container_def stop_P split: prod.splits sum.splits option.splits dest!: start_P)

lemma run_vprog_P: "run_vprog p env tag t hr cell s = (r, cell', s') \<Longrightarrow> P s' = P s"
proof (induction p arbitrary: cell s)
  case (VDone r w)
  then show ?case by (auto simp: run_writes)
next
  case (VRestart w k)
  obtain r1 c1 s1 where rc: "restart_container env tag t cell (s\<lparr>s_w := w\<rparr>) = (r1, c1, s1)"
    by (cases "restart_container env tag t cell (s\<lparr>s_w := w\<rparr>)") auto
  have "P s1 = P s" using restart_P [OF rc] by (simp add: run_writes)
  with VRestart.IH [of "k r1" "k r1 (s_w s1)" c1 s1] VRestart.prems rc show ?case
    by (auto simp: run_writes split: if_splits)
qed

lemma startHTTP_P: "startHTTPContainer env iter tag t s = (res, s') \<Longrightarrow> P s' = P s"
  by (auto simp: startHTTPContainer_def Let_def stop_P fail_step_P
      split: prod.splits sum.splits option.splits dest!: start_P)

lemma waitGRPC_P: "waitGRPCHealth env iter caps url tgt s = (r, s') \<Longrightarrow> P s' = P s"
  by (auto simp: waitGRPCHealth_def Let_def fail_step_P
      split: if_splits prod.splits option.splits dest!: start_P)

lemma startGRPC_P: "startGRPCContainer env iter tag caps s = (res, s') \<Longrightarrow> P s' = P s"
  by (auto simp: startGRPCContainer_def Let_def stop_P fail_step_P
      split: prod.splits sum.splits option.splits dest!: start_P waitGRPC_P)

lemma startService_P: "startServiceContainer env iter tag caps s = (svc, s') \<Longrightarrow> P s' = P s"
  unfolding startServiceContainer_def
  by (auto simp: stop_P split: if_splits prod.splits option.splits dest!: startHTTP_P startGRPC_P)

end

text \<open>A whole iteration.\<close>

locale iter_frame = val_frame + run_frame
begin

lemma validate_service_P: "validate_service env iter tag fls validate svc s = (r, s') \<Longrightarrow> P s' = P s"
  by (auto simp: validate_service_def Let_def stop_P run_writes split: sum.splits option.splits prod.splits
      dest!: runTest_P run_vprog_P processValidation_P)

lemma run_service_P: "run_service env iter tag fls validate s = (r, s') \<Longrightarrow> P s' = P s"
  by (auto simp: run_service_def split: prod.splits if_splits dest!: startService_P validate_service_P)

lemma buildRunValidate_P: "buildRunValidate env iter dir fls s validate = (r, s') \<Longrightarrow> P s' = P s"
  by (auto simp: buildRunValidate_def Let_def fail_step_P run_writes stop_P
      split: option.splits if_splits sum.splits prod.splits dest!: start_P run_service_P)

lemma finish_iteration_P: "finish_iteration env iter dir fls s validate = (r, s') \<Longrightarrow> P s' = P s"
  by (auto simp: finish_iteration_def run_writes dest!: buildRunValidate_P)

lemma iterate_P: "iterate env rawSpec iter s validate = (r, s') \<Longrightarrow> P s' = P s"
  unfolding iterate_def Let_def
  by (auto simp: fail_step_P run_writes split: if_splits prod.splits sum.splits option.splits
      dest!: generateAgentic_P generateStandard_P finish_iteration_P)

end

section \<open>The parts of the properties\<close>

text \<open>What belongs to the run as a whole; it changes only between iterations.\<close>

definition run_core :: "'w runState \<Rightarrow> gostring \<times> 'w runOptions \<times> gostring \<times> gostring \<times> int \<times>
    summarizedSpec option \<times> escalationState option \<times> int" where
  "run_core s = (s_runID s, s_opts s, s_baseDir s, s_bestDir s, s_startTime s, s_summarized s,
     s_escalation s, s_activeTier s)"

interpretation core: iter_frame run_core
  by unfold_locales (simp_all add: run_core_def)

text \<open>What is running.\<close>

definition running :: "'w runState \<Rightarrow> gostring list \<times> gostring list" where
  "running s = (s_live s, s_sess s)"

interpretation running: val_frame running
  by unfold_locales (simp_all add: running_def)

text \<open>What only a validation writes, with the options.\<close>

definition scores :: "'w runState \<Rightarrow> 'w runOptions \<times> float64 \<times> files option \<times> bool \<times> int" where
  "scores s = (s_opts s, s_bestSatisfaction s, s_bestFiles s, s_patchActive s, s_patchRegressionCount s)"

interpretation scores: run_frame scores
  by unfold_locales (simp_all add: scores_def)

end
