(* ===== verification/Attractor_Invariants.thy ===== *)
theory Attractor_Invariants
  imports Attractor_Frame
begin

text \<open>
  What holds of every run of the loop: no container and no session outlives an iteration, what each
  terminal status means, and the invariants of the states at the head of the loop, which are the
  states a step relation reaches.
\<close>

section \<open>Everything started is stopped\<close>

lemma running_iff: "running s' = running s \<longleftrightarrow> s_live s' = s_live s \<and> s_sess s' = s_sess s"
  by (simp add: running_def)

lemma validate_service_running:
  assumes "validate_service env iter tag fls validate svc s = (r, s')"
    and "s_live s = cell_live (service_cell svc) base"
  shows "s_live s' = base \<and> s_sess s' = s_sess s"
proof -
  let ?g = "case sv_stop svc of None \<Rightarrow> False | Some p \<Rightarrow> snd p"
  obtain o1 s1 where t: "runTestCommand env iter (sv_containerID svc) s = (o1, s1)" by force
  have q1: "s_live s1 = cell_live (service_cell svc) base" "s_sess s1 = s_sess s"
    using runTest_live [OF t] assms(2) by auto
  obtain vr cell2 s2 where v:
    "run_vprog (validate (sv_url svc) (sv_restart svc) (s_activeTier s1) (s_w s1)) env tag
       (o_HealthTimeout (s_opts s1)) (sv_restart svc) (service_cell svc) s1 = (vr, cell2, s2)"
    by (metis prod_cases3)
  have q2: "s_live s2 = cell_live cell2 base" "s_sess s2 = s_sess s"
    using run_vprog_live [OF q1(1) v] q1 by auto
  have pv: "s_live (stop_service env ?g cell2 u) = base \<and> s_sess (stop_service env ?g cell2 u) = s_sess s"
    if "processValidation env iter sat fs fls
          (s2\<lparr>s_totalCost := c, s_lastFailures := lf\<rparr>) = (pr, u)" for sat fs c lf pr u
  proof -
    have u: "s_live u = cell_live cell2 base" "s_sess u = s_sess s"
      using running.processValidation_P [OF that] q2 by (simp_all add: running_def)
    from stop_service_live [OF u(1)] u(2) show ?thesis by simp
  qed
  show ?thesis
    using assms(1) t v q1 q2 pv
      stop_service_live [OF q1(1), of env ?g] stop_service_live [OF q2(1), of env ?g]
    by (auto simp: validate_service_def Let_def split: sum.splits option.splits prod.splits)
qed

lemma run_service_running: "run_service env iter tag fls validate s = (r, s') \<Longrightarrow> running s' = running s"
proof -
  assume run: "run_service env iter tag fls validate s = (r, s')"
  obtain svc s1 where st: "startServiceContainer env iter tag (o_Capabilities (s_opts s)) s = (svc, s1)" by force
  note l = startService_live [OF st]
  show ?thesis
  proof (cases "sv_stalled svc")
    case None
    with run st have "validate_service env iter tag fls validate svc s1 = (r, s')"
      by (simp add: run_service_def)
    from validate_service_running [OF this, of "s_live s"] l show ?thesis by (simp add: running_def)
  next
    case (Some x)
    have "service_cell svc = None"
      using st Some by (auto simp: startServiceContainer_def service_cell_def no_service_def
          split: if_splits prod.splits option.splits)
    with run st Some l show ?thesis by (auto simp: run_service_def running_def cell_live_def)
  qed
qed

lemma session_running:
  assumes "start_session env tag s = (sr, s1)"
  shows "(case sr of Inl e \<Rightarrow> running s1 = running s
    | Inr x \<Rightarrow> (\<forall>t. running t = running s1 \<longrightarrow> running (close_session env x t) = running s))"
  using assms by (auto simp: start_session_def close_session_def running_def split: prod.splits sum.splits)

lemma buildRunValidate_running:
  assumes "buildRunValidate env iter dir fls s validate = (r, s')"
  shows "running s' = running s"
proof -
  let ?tag = "''og-'' @ s_runID s @ ''-iter'' @ int_str iter"
  obtain be w where b: "e_Build env dir ?tag (s_w s) = (be, w)" by force
  obtain sr s2 where ss: "start_session env ?tag (s\<lparr>s_w := w\<rparr>) = (sr, s2)" by force
  note sess = session_running [OF ss]
  show ?thesis
    using assms b ss sess
    by (auto simp: buildRunValidate_def Let_def running.fail_step_P running.P_w
        split: option.splits if_splits sum.splits prod.splits dest!: run_service_running)
qed

text \<open>C4. Every container and every session that an iteration starts is stopped when it ends: whatever
  fails on the way (build, start, health check, test command, a restart asked for by the validator,
  validation itself) and however often the validator restarts the service, the containers and sessions
  running after the iteration are those running before it.\<close>

theorem iterate_cleans_up:
  "iterate env rawSpec iter s validate = (r, s') \<Longrightarrow> s_live s' = s_live s \<and> s_sess s' = s_sess s"
  unfolding running_iff [symmetric] iterate_def finish_iteration_def Let_def
  by (auto simp: running.fail_step_P running.gen_writes split: if_splits prod.splits sum.splits option.splits
      dest!: running.generateAgentic_P running.generateStandard_P buildRunValidate_running)

text \<open>A validator that asks for a restart, over a service whose second start fails.\<close>

definition restart_validator :: "log validator" where
  "restart_validator url restart tier w =
     VRestart w (\<lambda>r w'. VDone (case r of Inl e \<Rightarrow> Inl e | Inr u \<Rightarrow> Inr (FNum 50, [], FNum 0)) w')"

definition flaky_env :: "log env" where
  "flaky_env = demo_env\<lparr>e_WaitHealthy := (\<lambda>url t w. (if length w \<le> 1 then None else Some demo_err, w)),
     e_Stop := (\<lambda>h w. w @ [(''stop'', h)])\<rparr>"

theorem iterate_cleans_up_witness:
  "s_live (snd (iterate flaky_env ''spec'' 1 demo_state restart_validator)) = [] \<and>
   s_sess (snd (iterate flaky_env ''spec'' 1 demo_state restart_validator)) = []"
proof -
  obtain r s' where it: "iterate flaky_env ''spec'' 1 demo_state restart_validator = (r, s')" by force
  from iterate_cleans_up [OF it] it show ?thesis by (simp add: demo_state_def zero_state_def)
qed

section \<open>Terminal results\<close>

text \<open>What a result promises of the state it is returned with.\<close>

definition terminal_ok :: "'w runState \<Rightarrow> runResult \<Rightarrow> bool" where
  "terminal_ok s r \<longleftrightarrow> r = result_of s (rr_Iterations r) (rr_Status r) \<and>
     (rr_Status r = StatusConverged \<and> fleq (o_Threshold (s_opts s)) (s_bestSatisfaction s) \<and> s_bestFiles s \<noteq> None \<or>
      rr_Status r = StatusStalled \<and> o_StallLimit (s_opts s) \<le> s_stallCount s \<or>
      rr_Status r = StatusBudgetExceeded \<and> budgetExceeded s)"

definition below_limit :: "'w runState \<Rightarrow> bool" where
  "below_limit s \<longleftrightarrow> s_stallCount s < o_StallLimit (s_opts s)"

text \<open>The outcome of a step: a result that keeps its promise, or the loop may go on.\<close>

definition outcome_ok :: "int \<Rightarrow> 'w runState \<Rightarrow> runResult option \<Rightarrow> bool" where
  "outcome_ok iter s res \<longleftrightarrow>
     (case res of Some r \<Rightarrow> terminal_ok s r \<and> rr_Iterations r = iter | None \<Rightarrow> below_limit s)"

text \<open>The part of the state that these speak of.\<close>

definition verdict :: "'w runState \<Rightarrow> gostring \<times> 'w runOptions \<times> gostring \<times> float64 \<times> int \<times> float64 \<times> int \<times> files option" where
  "verdict s = (s_runID s, s_opts s, s_bestDir s, s_totalCost s, s_totalTokens s, s_bestSatisfaction s,
     s_stallCount s, s_bestFiles s)"

lemma outcome_cong: "verdict s' = verdict s \<Longrightarrow> outcome_ok iter s' res = outcome_ok iter s res"
  by (auto simp: verdict_def outcome_ok_def terminal_ok_def below_limit_def result_of_def budgetExceeded_def
      split: option.splits)

lemma stop_verdict:
  "verdict (stop_service env g cell s) = verdict s" "verdict (close_session env x s) = verdict s"
  "verdict (stop_container env h s) = verdict s"
  by (simp_all add: verdict_def stop_service_def stop_cell_def stop_container_def set_grpc_target_def
      close_session_def Let_def split: option.splits)

lemma outcome_stop [simp]:
  "outcome_ok iter (stop_service env g cell s) res = outcome_ok iter s res"
  "outcome_ok iter (close_session env x s) res = outcome_ok iter s res"
  "outcome_ok iter (stop_container env h s) res = outcome_ok iter s res"
  by (rule outcome_cong, rule stop_verdict)+

lemma outcome_w [simp]: "outcome_ok iter (s\<lparr>s_w := w\<rparr>) res = outcome_ok iter s res"
  by (rule outcome_cong) (simp add: verdict_def)

lemma checkStalled_ok [simp]: "outcome_ok iter s (checkStalled iter s)"
  by (simp add: outcome_ok_def checkStalled_def terminal_ok_def below_limit_def result_of_def)

lemma checkStalled_SomeD: "checkStalled iter s = Some r \<Longrightarrow> outcome_ok iter s (Some r)"
  using checkStalled_ok [of iter s] by simp

lemma processValidation_ok:
  assumes "processValidation env iter sat fs fls s = (Inr res, s')"
  shows "outcome_ok iter s' res"
proof -
  have opts: "s_opts s1 = s_opts s" if "record_score iter sat fs s = (rs, s1)" for rs s1
    using core.record_score_P [OF that] by (simp add: run_core_def)
  have wb: "s_opts t = s_opts u" if "write_best env fls u = (e, t)" for e t u
    using core.write_best_P [OF that] by (simp add: run_core_def)
  show ?thesis
    using assms
    by (auto simp: processValidation_def outcome_ok_def terminal_ok_def below_limit_def result_of_def Let_def
        budgetExceeded_def split: if_splits prod.splits option.splits dest: wb)
qed

lemma startHTTP_stalled:
  "startHTTPContainer env iter tag t s = (res, s') \<Longrightarrow> hc_stalled res = Some r \<Longrightarrow> outcome_ok iter s' (Some r)"
  by (auto simp: startHTTPContainer_def Let_def http_failed_def
      split: prod.splits sum.splits option.splits dest!: checkStalled_SomeD)

lemma waitGRPC_stalled:
  "waitGRPCHealth env iter caps url tgt s = (Some r, s') \<Longrightarrow> outcome_ok iter s' (Some r)"
  by (auto simp: waitGRPCHealth_def Let_def split: if_splits prod.splits option.splits dest!: checkStalled_SomeD)

lemma startGRPC_stalled:
  "startGRPCContainer env iter tag caps s = (res, s') \<Longrightarrow> gc_stalled res = Some r \<Longrightarrow> outcome_ok iter s' (Some r)"
  by (auto simp: startGRPCContainer_def Let_def grpc_failed_def
      split: prod.splits sum.splits option.splits dest!: checkStalled_SomeD waitGRPC_stalled)

lemma startService_stalled:
  "startServiceContainer env iter tag caps s = (svc, s') \<Longrightarrow> sv_stalled svc = Some r \<Longrightarrow> outcome_ok iter s' (Some r)"
  unfolding startServiceContainer_def
  by (auto simp: no_service_def split: if_splits prod.splits option.splits
      dest: startHTTP_stalled startGRPC_stalled)

lemma startService_stalled':
  "startServiceContainer env iter tag caps s = (svc, s') \<Longrightarrow> sv_stalled svc \<noteq> None \<Longrightarrow> outcome_ok iter s' (sv_stalled svc)"
  by (auto dest: startService_stalled)

lemma runTest_ok:
  "runTestCommand env iter cid s = (Inr (Some res), s') \<Longrightarrow> outcome_ok iter s' res"
  by (auto simp: runTestCommand_def Let_def split: if_splits prod.splits sum.splits)

lemma validate_service_ok:
  "validate_service env iter tag fls validate svc s = (Inr res, s') \<Longrightarrow> outcome_ok iter s' res"
  by (auto simp: validate_service_def Let_def split: sum.splits option.splits prod.splits
      dest!: runTest_ok processValidation_ok)

lemma run_service_ok:
  "run_service env iter tag fls validate s = (Inr res, s') \<Longrightarrow> outcome_ok iter s' res"
  by (cases "startServiceContainer env iter tag (o_Capabilities (s_opts s)) s")
    (auto simp: run_service_def simp del: not_None_eq split: if_splits dest: startService_stalled' validate_service_ok)

lemma buildRunValidate_ok:
  "buildRunValidate env iter dir fls s validate = (Inr res, s') \<Longrightarrow> outcome_ok iter s' res"
  by (auto simp: buildRunValidate_def Let_def split: option.splits if_splits sum.splits prod.splits
      dest!: run_service_ok)

lemma generateStandard_ok:
  "generateStandard env sc dir iter s = (Inr (st, fls), s') \<Longrightarrow> fls = None \<Longrightarrow> outcome_ok iter s' st"
  by (auto simp: generateStandard_def Let_def
      split: sum.splits prod.splits option.splits file_error.splits if_splits)

lemma generateStandard_stall:
  "generateStandard env sc dir iter s = (Inr (Some r, fls), s') \<Longrightarrow> fls = None"
  by (auto simp: generateStandard_def Let_def
      split: sum.splits prod.splits option.splits file_error.splits if_splits)

text \<open>An iteration either ends the run with a result that is true of the state it leaves (converged:
  the recorded best score meets the threshold and files are kept; stalled: the stall limit is reached;
  over budget: the budget is spent; with the score, cost, tokens and directory of that state), or it
  leaves the run below the stall limit.\<close>

theorem iterate_outcome:
  "iterate env rawSpec iter s validate = (Inr res, s') \<Longrightarrow> outcome_ok iter s' res"
  unfolding iterate_def finish_iteration_def Let_def
  by (auto split: if_splits prod.splits sum.splits option.splits
      dest: buildRunValidate_ok generateStandard_stall generateStandard_ok)

lemma demo_parse:
  "ParseFilesWithMetadata demo_answer =
     Inr \<lparr>pr_Files = [(''main.go'', ''package main'' @ [NL])], pr_DroppedFiles = [], pr_Truncated = False\<rparr>"
  by code_simp

lemma demo_write:
  "writeFiles log_os ''/work/r1/iter_1'' [(''main.go'', ''package main'' @ [NL])] w =
     (w @ [(''/work/r1/iter_1/main.go'', ''package main'' @ [NL])], None)"
  "writeFiles log_os ''/work/r1/best'' [(''main.go'', ''package main'' @ [NL])] w =
     (w @ [(''/work/r1/best/main.go'', ''package main'' @ [NL])], None)"
  by code_simp+

lemma demo_dir: "join_path [''/work/r1'', ''iter_'' @ int_str 1] = ''/work/r1/iter_1''"
  by code_simp

definition demo_result :: runResult where
  "demo_result = \<lparr>rr_RunID = ''r1'', rr_Iterations = 1, rr_Satisfaction = FNum 100, rr_CostUSD = FNum 2,
     rr_TotalTokens = 15, rr_OutputDir = ''/work/r1/best'', rr_Status = StatusConverged\<rparr>"

lemma demo_iterate: "fst (iterate demo_env rawSpec 1 demo_state demo_validator) = Inr (Some demo_result)"
proof -
  have steer: "buildSteeringText [] = []" "detectOscillation [] = False" by code_simp+
  have add: "fl 1 = FNum 1" "fl 2 = FNum 2"
    using fl_small_int [of 1] fl_small_int [of 2] by simp_all
  show ?thesis
    unfolding iterate_def Let_def
    by (simp add: demo_state_def zero_state_def demo_opts_def demo_caps_def spec_content_def demo_dir [simplified]
        generateStandard_def standard_messages_def is_patching_def applyMinimalismSuffix_def
        generateContent_def steer generate_normal_def s_generate_def demo_env_def demo_response_def
        demo_parse s_writeFiles_def demo_write [simplified] Let_def add_usage_def resp_tokens_def add
        finish_iteration_def buildRunValidate_def run_service_def startServiceContainer_def
        startHTTPContainer_def run_container_def wait_healthy_def validate_service_def runTestCommand_def
        demo_validator_def processValidation_def record_score_def parseAllScenarios_def detectRegressions_def
        write_best_def result_of_def demo_result_def steer_oscillation_def)
qed

theorem iterate_outcome_witness:
  "outcome_ok 1 (snd (iterate demo_env ''spec'' 1 demo_state demo_validator)) (Some demo_result)"
proof -
  have "iterate demo_env ''spec'' 1 demo_state demo_validator =
    (Inr (Some demo_result), snd (iterate demo_env ''spec'' 1 demo_state demo_validator))"
    using demo_iterate by (metis prod.collapse)
  from iterate_outcome [OF this] show ?thesis .
qed

end
