(* ===== verification/Attractor_Reach.thy ===== *)
theory Attractor_Reach
  imports Attractor_Invariants
begin

text \<open>
  The states at the head of the loop of \<open>Run\<close>, as what a step relation reaches; their invariant; and the
  loop as a run of that relation, with the meaning of its result.
\<close>

section \<open>Steps of the loop\<close>

definition after_iteration :: "'w env \<Rightarrow> int \<Rightarrow> 'w runState \<Rightarrow> 'w runState \<Rightarrow> 'w runState" where
  "after_iteration env iter s s1 = record_escalation (report_progress env iter (s_totalCost s) s1)"

inductive loop_step ::
    "'w env \<Rightarrow> gostring \<Rightarrow> 'w validator \<Rightarrow> int \<times> 'w runState \<Rightarrow> int \<times> 'w runState \<Rightarrow> bool"
  for env rawSpec validate where
  go_on: "\<not> budgetExceeded s \<Longrightarrow> iterate env rawSpec iter s validate = (Inr None, s1) \<Longrightarrow>
     loop_step env rawSpec validate (iter, s) (iter + 1, after_iteration env iter s s1)"
| next_tier: "\<not> budgetExceeded s \<Longrightarrow> iterate env rawSpec iter s validate = (Inr (Some r), s1) \<Longrightarrow>
     advanceTierIfNeeded r (after_iteration env iter s s1) = (True, s2) \<Longrightarrow>
     loop_step env rawSpec validate (iter, s) (iter + 1, s2)"

inductive_cases loop_stepE: "loop_step env rawSpec validate (iter, s) (iter', s')"

text \<open>Chains of steps, counted.\<close>

fun loop_steps ::
    "nat \<Rightarrow> 'w env \<Rightarrow> gostring \<Rightarrow> 'w validator \<Rightarrow> int \<times> 'w runState \<Rightarrow> int \<times> 'w runState \<Rightarrow> bool" where
  "loop_steps 0 env rawSpec validate c c' = (c' = c)"
| "loop_steps (Suc n) env rawSpec validate c c' =
     (\<exists>c1. loop_step env rawSpec validate c c1 \<and> loop_steps n env rawSpec validate c1 c')"

text \<open>How a run ends at the head of iteration \<open>iter\<close>.\<close>

definition loop_ends ::
    "'w env \<Rightarrow> gostring \<Rightarrow> 'w validator \<Rightarrow> int \<Rightarrow> 'w runState \<Rightarrow> goerr + runResult \<Rightarrow> 'w runState \<Rightarrow> bool" where
  "loop_ends env rawSpec validate iter s res s' \<longleftrightarrow>
     budgetExceeded s \<and> res = Inr (result_of s (iter - 1) StatusBudgetExceeded) \<and> s' = s \<or>
     \<not> budgetExceeded s \<and> (\<exists>e. iterate env rawSpec iter s validate = (Inl e, s') \<and> res = Inl e) \<or>
     \<not> budgetExceeded s \<and> (\<exists>r s1. iterate env rawSpec iter s validate = (Inr (Some r), s1) \<and> res = Inr r \<and>
        advanceTierIfNeeded r (after_iteration env iter s s1) = (False, s'))"

text \<open>C3. The loop of \<open>Run\<close> is a run of the step relation: it makes at most as many steps as there are
  iterations left, and then ends because the budget is spent, because an iteration failed hard, because
  an iteration ended with a result that does not open another tier, or because the iterations are used
  up, in which case the result says so and carries the state's own score and cost.\<close>

theorem run_loop_is_run:
  "\<exists>k iter1 s1. k \<le> n \<and> iter1 = iter + int k \<and> loop_steps k env rawSpec validate (iter, s) (iter1, s1) \<and>
     (loop_ends env rawSpec validate iter1 s1 (fst (run_loop env rawSpec validate n iter s))
        (snd (run_loop env rawSpec validate n iter s)) \<and> k < n \<or>
      k = n \<and> run_loop env rawSpec validate n iter s =
        (Inr (result_of s1 (o_MaxIterations (s_opts s1)) StatusMaxIterations), s1))"
proof (induction n arbitrary: iter s)
  case 0
  show ?case by (intro exI [of _ 0] exI [of _ iter] exI [of _ s]) simp
next
  case (Suc n)
  have stop: "?case" if "loop_ends env rawSpec validate iter s (fst (run_loop env rawSpec validate (Suc n) iter s))
      (snd (run_loop env rawSpec validate (Suc n) iter s))"
    using that by (intro exI [of _ 0] exI [of _ iter] exI [of _ s]) simp
  have more: "?case" if st: "loop_step env rawSpec validate (iter, s) (iter + 1, t)"
    and eq: "run_loop env rawSpec validate (Suc n) iter s = run_loop env rawSpec validate n (iter + 1) t" for t
  proof -
    from Suc.IH [of "iter + 1" t] obtain k s1 where "k \<le> n"
      "loop_steps k env rawSpec validate (iter + 1, t) (iter + 1 + int k, s1)"
      "loop_ends env rawSpec validate (iter + 1 + int k) s1 (fst (run_loop env rawSpec validate n (iter + 1) t))
        (snd (run_loop env rawSpec validate n (iter + 1) t)) \<and> k < n \<or>
       k = n \<and> run_loop env rawSpec validate n (iter + 1) t =
        (Inr (result_of s1 (o_MaxIterations (s_opts s1)) StatusMaxIterations), s1)" by blast
    with st eq show ?thesis
      by (intro exI [of _ "Suc k"] exI [of _ "iter + int (Suc k)"] exI [of _ s1])
        (auto simp: algebra_simps)
  qed
  show ?case
  proof (cases "budgetExceeded s")
    case True
    then show ?thesis by (intro stop) (simp add: loop_ends_def)
  next
    case False
    obtain res s1 where it: "iterate env rawSpec iter s validate = (res, s1)" by force
    show ?thesis
    proof (cases res)
      case (Inl e)
      with False it show ?thesis by (intro stop) (simp add: loop_ends_def)
    next
      case (Inr o1)
      show ?thesis
      proof (cases o1)
        case None
        with Inr it have it': "iterate env rawSpec iter s validate = (Inr None, s1)" by simp
        from loop_step.go_on [OF False it'] show ?thesis
          by (rule more) (simp add: False it' after_iteration_def)
      next
        case (Some r)
        with Inr it have it': "iterate env rawSpec iter s validate = (Inr (Some r), s1)" by simp
        obtain b s3 where adv: "advanceTierIfNeeded r (after_iteration env iter s s1) = (b, s3)" by force
        show ?thesis
        proof (cases b)
          case True
          with adv have adv': "advanceTierIfNeeded r (after_iteration env iter s s1) = (True, s3)" by simp
          from loop_step.next_tier [OF False it' adv'] show ?thesis
            by (rule more) (use False it' adv' in \<open>simp add: after_iteration_def\<close>)
        next
          case b: False
          with adv have adv': "advanceTierIfNeeded r (after_iteration env iter s s1) = (False, s3)" by simp
          then show ?thesis
            by (intro stop) (use False it' in \<open>simp add: loop_ends_def after_iteration_def\<close>)
        qed
      qed
    qed
  qed
qed

section \<open>Reachable states\<close>

text \<open>The state in which \<open>Run\<close> enters the loop.\<close>

definition run_start ::
    "'w env \<Rightarrow> gostring \<Rightarrow> 'w runOptions \<Rightarrow> float64 \<Rightarrow> gostring \<Rightarrow> 'w \<Rightarrow> 'w runState" where
  "run_start env rawSpec opts cost ctxt w =
     (case e_RunID env w of (runID, w1) \<Rightarrow>
        let base = join_path [o_WorkspaceDir opts, runID] in
        summarize_large env rawSpec ((newRunState runID opts cost ctxt (e_Now env w1) w1)
          \<lparr>s_baseDir := base, s_bestDir := join_path [base, ''best'']\<rparr>))"

lemma run_monolithic_loop:
  "run_monolithic env rawSpec opts cost ctxt validate w =
     run_loop env rawSpec validate (nat (o_MaxIterations opts)) 1 (run_start env rawSpec opts cost ctxt w)"
  by (simp add: run_monolithic_def run_start_def Let_def split: prod.splits)

inductive loop_reachable ::
    "'w env \<Rightarrow> gostring \<Rightarrow> 'w validator \<Rightarrow> 'w runOptions \<Rightarrow> int \<Rightarrow> 'w runState \<Rightarrow> bool"
  for env rawSpec validate opts where
  enter: "loop_reachable env rawSpec validate opts 1 (run_start env rawSpec opts cost ctxt w)"
| step: "loop_reachable env rawSpec validate opts iter s \<Longrightarrow>
    loop_step env rawSpec validate (iter, s) (iter', s') \<Longrightarrow> loop_reachable env rawSpec validate opts iter' s'"

text \<open>The invariant of the loop head.\<close>

definition tier_ok :: "'w runOptions \<Rightarrow> int \<Rightarrow> bool" where
  "tier_ok opts t \<longleftrightarrow> (if o_Stratified opts then 1 \<le> t \<and> t \<le> maxStratifiedTier else t = 0)"

definition escalation_ok :: "'w runOptions \<Rightarrow> escalationState option \<Rightarrow> bool" where
  "escalation_ok opts esc \<longleftrightarrow>
     (case esc of None \<Rightarrow> o_FrugalModel opts = []
      | Some e \<Rightarrow> o_FrugalModel opts \<noteq> [] \<and> esc_inv (o_FrugalModel opts) (o_Model opts) e)"

definition patch_ok :: "'w runState \<Rightarrow> bool" where
  "patch_ok s \<longleftrightarrow> 0 \<le> s_patchRegressionCount s \<and>
     (s_patchActive s \<longrightarrow> o_PatchMode (s_opts s) \<and> s_patchRegressionCount s < 2) \<and>
     (s_bestFiles s = None \<longrightarrow> s_bestSatisfaction s = fzero)"

definition head_inv :: "'w runOptions \<Rightarrow> 'w runState \<Rightarrow> bool" where
  "head_inv opts s \<longleftrightarrow> s_opts s = opts \<and> tier_ok opts (s_activeTier s) \<and> escalation_ok opts (s_escalation s) \<and>
     patch_ok s \<and> (0 < o_StallLimit opts \<longrightarrow> below_limit s) \<and> s_live s = [] \<and> s_sess s = []"

lemma patch_cong: "scores s' = scores s \<Longrightarrow> patch_ok s \<Longrightarrow> patch_ok s'"
  by (simp add: scores_def patch_ok_def)

lemma record_score_scores: "record_score iter sat fs s = (rs, s1) \<Longrightarrow> scores s1 = scores s"
  by (auto simp: record_score_def Let_def scores_def)

lemma write_best_scores: "write_best env fls s = (e, s1) \<Longrightarrow> scores s1 = scores s"
  by (auto simp: write_best_def split: prod.splits option.splits dest: scores.s_writeFiles_P)

lemma trackPatch_patch: "patch_ok s \<Longrightarrow> patch_ok (trackPatchRegression sat s)"
  by (auto simp: trackPatchRegression_def patch_ok_def Let_def)

lemma improve_patch: "patch_ok s \<Longrightarrow> improve_or_stall env sat fls s = (e, s') \<Longrightarrow> patch_ok s'"
proof -
  assume ok: "patch_ok s" and im: "improve_or_stall env sat fls s = (e, s')"
  show ?thesis
  proof (cases "fless (s_bestSatisfaction s) sat")
    case True
    let ?s1 = "s\<lparr>s_bestSatisfaction := sat, s_bestFiles := Some fls, s_stallCount := 0,
             s_patchRegressionCount := 0, s_lastImproved := True\<rparr>"
    have "patch_ok ?s1" using ok by (auto simp: patch_ok_def)
    moreover have "scores s' = scores ?s1" using im True by (simp add: improve_or_stall_def write_best_scores)
    ultimately show ?thesis by (blast intro: patch_cong)
  next
    case False
    with im have "s' = trackPatchRegression sat (s\<lparr>s_stallCount := s_stallCount s + 1\<rparr>)"
      by (simp add: improve_or_stall_def)
    moreover have "patch_ok (s\<lparr>s_stallCount := s_stallCount s + 1\<rparr>)" using ok by (simp add: patch_ok_def)
    ultimately show ?thesis by (simp add: trackPatch_patch)
  qed
qed

lemma processValidation_patch:
  assumes "patch_ok s" and "processValidation env iter sat fs fls s = (r, s')"
  shows "patch_ok s'"
proof -
  obtain rs s1 where rec: "record_score iter sat fs s = (rs, s1)" by force
  have p1: "patch_ok s1" by (rule patch_cong [OF record_score_scores [OF rec] assms(1)])
  obtain e2 s2 where wb: "write_best env fls s1 = (e2, s2)" by force
  have p2: "patch_ok s2" by (rule patch_cong [OF write_best_scores [OF wb] p1])
  obtain e3 s3 where im: "improve_or_stall env sat fls s1 = (e3, s3)" by force
  have p3: "patch_ok s3" by (rule improve_patch [OF p1 im])
  have h: "patch_ok (s3\<lparr>s_history := l\<rparr>)" for l using p3 by (simp add: patch_ok_def)
  have c: "patch_ok (s2\<lparr>s_bestSatisfaction := sat, s_bestFiles := Some fls\<rparr>)" using p2 by (auto simp: patch_ok_def)
  show ?thesis
    using assms(2) p2 p3 h c
    by (auto simp: processValidation_def rec wb im Let_def split: if_splits option.splits)
qed

lemma validate_service_patch:
  assumes "patch_ok s" and "validate_service env iter tag fls validate svc s = (r, s')"
  shows "patch_ok s'"
proof -
  obtain o1 s1 where t: "runTestCommand env iter (sv_containerID svc) s = (o1, s1)" by force
  have p1: "patch_ok s1" by (rule patch_cong [OF scores.runTest_P [OF t] assms(1)])
  obtain vr cell2 s2 where v:
    "run_vprog (validate (sv_url svc) (sv_restart svc) (s_activeTier s1) (s_w s1)) env tag
       (o_HealthTimeout (s_opts s1)) (sv_restart svc) (service_cell svc) s1 = (vr, cell2, s2)"
    by (metis prod_cases3)
  have p2: "patch_ok s2" by (rule patch_cong [OF scores.run_vprog_P [OF v] p1])
  have p3: "patch_ok (s2\<lparr>s_totalCost := c, s_lastFailures := lf\<rparr>)" for c lf
    using p2 by (simp add: patch_ok_def)
  have stop: "patch_ok (stop_service env g c u)" if "patch_ok u" for g c u
    by (rule patch_cong [OF scores.stop_P(3) that])
  show ?thesis
    using assms(2) t v p1 p2 stop processValidation_patch [OF p3]
    by (auto simp: validate_service_def Let_def split: sum.splits option.splits prod.splits)
qed

lemma run_service_patch:
  "patch_ok s \<Longrightarrow> run_service env iter tag fls validate s = (r, s') \<Longrightarrow> patch_ok s'"
  by (auto simp: run_service_def split: prod.splits if_splits
      intro: patch_cong [OF scores.startService_P]
      dest: validate_service_patch [OF patch_cong [OF scores.startService_P], rotated 2])

lemma buildRunValidate_patch:
  assumes "patch_ok s" and "buildRunValidate env iter dir fls s validate = (r, s')"
  shows "patch_ok s'"
proof -
  let ?tag = "''og-'' @ s_runID s @ ''-iter'' @ int_str iter"
  obtain be w where b: "e_Build env dir ?tag (s_w s) = (be, w)" by force
  obtain sr s2 where ss: "start_session env ?tag (s\<lparr>s_w := w\<rparr>) = (sr, s2)" by force
  have p1: "patch_ok (s\<lparr>s_w := w\<rparr>)" using assms(1) by (simp add: patch_ok_def)
  have p2: "patch_ok s2" by (rule patch_cong [OF scores.start_P(5) [OF ss] p1])
  have f: "patch_ok (fail_step oc i k m t)" if "patch_ok t" for oc i k m t
    by (rule patch_cong [OF scores.fail_step_P that])
  have c: "patch_ok (close_session env x t)" if "patch_ok t" for x t
    by (rule patch_cong [OF scores.stop_P(5) that])
  show ?thesis
    using assms(2) b ss p1 p2 f c run_service_patch [OF p1] run_service_patch [OF p2]
    by (auto simp: buildRunValidate_def Let_def split: option.splits if_splits sum.splits prod.splits)
qed

lemma iterate_patch:
  assumes "patch_ok s" and "iterate env rawSpec iter s validate = (r, s')"
  shows "patch_ok s'"
proof -
  let ?s = "s\<lparr>s_lastImproved := False, s_lastTurns := 0\<rparr>"
  have p: "patch_ok ?s" using assms(1) by (simp add: patch_ok_def)
  have fin: "patch_ok u" if "patch_ok t" "finish_iteration env iter dir fls t validate = (x, u)" for t u x dir fls
  proof -
    have "patch_ok (t\<lparr>s_lastFailures := [], s_codeHashes := s_codeHashes t @ [hashFiles (e_Sha256 env) fls]\<rparr>)"
      using that(1) by (simp add: patch_ok_def)
    from buildRunValidate_patch [OF this] that(2) show ?thesis by (simp add: finish_iteration_def)
  qed
  have f: "patch_ok (fail_step oc i k m t)" if "patch_ok t" for oc i k m t
    by (rule patch_cong [OF scores.fail_step_P that])
  note g = patch_cong [OF scores.generateAgentic_P _] patch_cong [OF scores.generateStandard_P _]
  show ?thesis
    using assms(2) unfolding iterate_def Let_def
    by (auto split: if_splits prod.splits sum.splits option.splits
        intro: f g(1) [OF _ p] g(2) [OF _ p] fin [OF g(1) [OF _ p]] fin [OF g(2) [OF _ p]])
qed

text \<open>The step from an iteration to the next loop head.\<close>

lemma after_iteration_facts:
  "scores (after_iteration env iter s s1) = scores s1" "s_live (after_iteration env iter s s1) = s_live s1"
  "s_sess (after_iteration env iter s s1) = s_sess s1" "s_activeTier (after_iteration env iter s s1) = s_activeTier s1"
  "s_stallCount (after_iteration env iter s s1) = s_stallCount s1"
  "s_escalation (after_iteration env iter s s1) = map_option (recordOutcome (s_lastImproved s1)) (s_escalation s1)"
  by (simp_all add: after_iteration_def record_escalation_def report_progress_def scores_def split: option.splits)

lemma escalation_step:
  "escalation_ok opts esc \<Longrightarrow> escalation_ok opts (map_option (recordOutcome b) esc)"
  by (cases esc) (simp_all add: escalation_ok_def esc_inv_step)

lemma head_inv_iterate:
  assumes "head_inv opts s" and "iterate env rawSpec iter s validate = (Inr res, s1)"
  shows "head_inv opts (after_iteration env iter s s1) \<or> res \<noteq> None"
    and "s_opts s1 = opts" "tier_ok opts (s_activeTier s1)"
      "escalation_ok opts (s_escalation (after_iteration env iter s s1))"
      "patch_ok (after_iteration env iter s s1)" "s_live s1 = []" "s_sess s1 = []"
proof -
  note core = core.iterate_P [OF assms(2)]
  from core assms(1) show "s_opts s1 = opts" "tier_ok opts (s_activeTier s1)"
    by (simp_all add: run_core_def head_inv_def)
  show e: "escalation_ok opts (s_escalation (after_iteration env iter s s1))"
    using core assms(1) by (simp add: after_iteration_facts run_core_def head_inv_def escalation_step)
  have "patch_ok s1" using iterate_patch [OF _ assms(2)] assms(1) by (simp add: head_inv_def)
  then show p: "patch_ok (after_iteration env iter s s1)"
    by (rule patch_cong [OF after_iteration_facts(1)])
  show l: "s_live s1 = []" "s_sess s1 = []"
    using iterate_cleans_up [OF assms(2)] assms(1) by (simp_all add: head_inv_def)
  have "below_limit (after_iteration env iter s s1)" if "res = None"
    using iterate_outcome [OF assms(2)] that after_iteration_facts(1,5) [of env iter s s1]
    by (simp add: outcome_ok_def below_limit_def scores_def)
  then show "head_inv opts (after_iteration env iter s s1) \<or> res \<noteq> None"
    using core assms(1) e p l after_iteration_facts(1) [of env iter s s1]
    by (auto simp: head_inv_def run_core_def after_iteration_facts scores_def)
qed

lemma head_inv_tier:
  assumes "head_inv opts s" and it: "iterate env rawSpec iter s validate = (Inr (Some r), s1)"
    and adv: "advanceTierIfNeeded r (after_iteration env iter s s1) = (True, s')"
  shows "head_inv opts s'"
proof -
  note f = head_inv_iterate(2-) [OF assms(1) it]
  let ?t = "after_iteration env iter s s1"
  have o: "s_opts ?t = opts" using f(1) after_iteration_facts(1) [of env iter s s1] by (simp add: scores_def)
  have a: "s_activeTier ?t = s_activeTier s1" by (rule after_iteration_facts)
  from adv o a have t: "s_activeTier s1 \<noteq> 0" "s_activeTier s1 < maxStratifiedTier"
    by (auto simp: advanceTierIfNeeded_def Let_def split: if_splits)
  have s': "s_opts s' = opts" "s_activeTier s' = s_activeTier s1 + 1" "s_live s' = []" "s_sess s' = []"
    "s_stallCount s' = 0" "patch_ok s'"
    using adv o a f(4-) after_iteration_facts(2,3) [of env iter s s1]
    by (auto simp: advanceTierIfNeeded_def resetForTierAdvancement_def Let_def patch_ok_def split: if_splits)
  have "escalation_ok opts (s_escalation s')"
    using adv o f(3)
    by (auto simp: advanceTierIfNeeded_def resetForTierAdvancement_def Let_def escalation_ok_def
        newEscalationState_def esc_inv_def esc_consts split: if_splits option.splits)
  moreover have "tier_ok opts (s_activeTier s')"
    using s' f(2) t by (auto simp: tier_ok_def split: if_splits)
  ultimately show ?thesis using s' by (simp add: head_inv_def below_limit_def)
qed

lemma head_inv_step:
  assumes "head_inv opts s" and "loop_step env rawSpec validate (iter, s) (iter', s')"
  shows "head_inv opts s'"
proof -
  consider (cont) s1 where "iterate env rawSpec iter s validate = (Inr None, s1)" "s' = after_iteration env iter s s1"
    | (tier) r s1 where "iterate env rawSpec iter s validate = (Inr (Some r), s1)"
        "advanceTierIfNeeded r (after_iteration env iter s s1) = (True, s')"
    using assms(2) by (auto elim!: loop_stepE)
  then show ?thesis
  proof cases
    case cont
    with head_inv_iterate(1) [OF assms(1) cont(1)] show ?thesis by simp
  next
    case (tier r s1)
    show ?thesis by (rule head_inv_tier [OF assms(1) tier])
  qed
qed

lemma run_start_fields:
  "s_opts (run_start env rawSpec opts cost ctxt w) = opts"
  "s_activeTier (run_start env rawSpec opts cost ctxt w) = initialActiveTier (o_Stratified opts)"
  "s_escalation (run_start env rawSpec opts cost ctxt w) = newEscalationState (o_FrugalModel opts) (o_Model opts)"
  "s_stallCount (run_start env rawSpec opts cost ctxt w) = 0"
  "running (run_start env rawSpec opts cost ctxt w) = ([], [])"
  "scores (run_start env rawSpec opts cost ctxt w) = (opts, fzero, None, o_PatchMode opts, 0)"
  by (simp_all add: run_start_def summarize_large_def newRunState_def zero_state_def running_def scores_def Let_def
      split: prod.splits)

lemma head_inv_start: "head_inv opts (run_start env rawSpec opts cost ctxt w)"
  using run_start_fields [of env rawSpec opts cost ctxt w] esc_inv_new
  by (auto simp: head_inv_def tier_ok_def initialActiveTier_def maxStratifiedTier_def escalation_ok_def
      newEscalationState_def patch_ok_def below_limit_def running_def scores_def split: option.splits if_splits)

text \<open>C2. Every state in which the loop of \<open>Run\<close> starts an iteration keeps the options of the run; its tier is
  0 without stratification and 1, 2 or 3 with it; its escalation state is there exactly with a frugal
  model and keeps its own invariant; patching is on only in patch mode and with fewer than two
  regressions; a run without a best version has the score 0; with a positive stall limit fewer
  iterations have stalled than the limit allows; and no container or session is running.\<close>

theorem loop_invariant:
  assumes "loop_reachable env rawSpec validate opts iter s"
  shows "head_inv opts s"
  using assms
  by (induction rule: loop_reachable.induct) (auto intro: head_inv_start head_inv_step)

lemma loop_reachable_steps:
  "loop_reachable env rawSpec validate opts iter s \<Longrightarrow>
   loop_steps k env rawSpec validate (iter, s) (iter', s') \<Longrightarrow> loop_reachable env rawSpec validate opts iter' s'"
  by (induction k arbitrary: iter s) (auto intro: loop_reachable.step)

theorem loop_invariant_witness:
  "head_inv demo_opts (run_start demo_env ''spec'' demo_opts fzero [] [])"
  by (rule loop_invariant) (rule loop_reachable.enter [of demo_env "''spec''" demo_validator])

text \<open>The result of a run that starts at a loop head.\<close>

lemma run_loop_result:
  assumes "head_inv opts s" and "run_loop env rawSpec validate n iter s = (Inr r, s')"
  shows "s_opts s' = opts \<and> s_live s' = [] \<and> s_sess s' = [] \<and>
    r = result_of s' (rr_Iterations r) (rr_Status r) \<and>
    (terminal_ok s' r \<and> (rr_Status r = StatusConverged \<longrightarrow> s_activeTier s' = 0 \<or> maxStratifiedTier \<le> s_activeTier s') \<and>
       tier_ok opts (s_activeTier s') \<and> iter - 1 \<le> rr_Iterations r \<and> rr_Iterations r < iter + int n \<or>
     rr_Status r = StatusMaxIterations \<and> rr_Iterations r = o_MaxIterations opts)"
  using assms
proof (induction n arbitrary: iter s)
  case 0
  then show ?case by (auto simp: head_inv_def result_of_def)
next
  case (Suc n)
  have o: "s_opts s = opts" using Suc.prems(1) by (simp add: head_inv_def)
  show ?case
  proof (cases "budgetExceeded s")
    case True
    with Suc.prems show ?thesis by (auto simp: terminal_ok_def head_inv_def result_of_def statuses)
  next
    case False
    obtain res s1 where it: "iterate env rawSpec iter s validate = (Inr res, s1)"
      using Suc.prems(2) False by (auto split: prod.splits sum.splits)
    let ?t = "after_iteration env iter s s1"
    note f = head_inv_iterate [OF Suc.prems(1) it]
    show ?thesis
    proof (cases res)
      case None
      with False it Suc.prems(2) have "run_loop env rawSpec validate n (iter + 1) ?t = (Inr r, s')"
        by (simp add: after_iteration_def)
      from Suc.IH [OF _ this] f(1) None show ?thesis by auto
    next
      case (Some r1)
      obtain b s3 where adv: "advanceTierIfNeeded r1 ?t = (b, s3)" by force
      show ?thesis
      proof (cases b)
        case True
        with False it Some adv Suc.prems(2) have "run_loop env rawSpec validate n (iter + 1) s3 = (Inr r, s')"
          by (simp add: after_iteration_def)
        moreover have "advanceTierIfNeeded r1 ?t = (True, s3)" using adv True by simp
        ultimately show ?thesis
          using Suc.IH [of s3 "iter + 1"] head_inv_tier [OF Suc.prems(1) it [unfolded Some]] by auto
      next
        case b: False
        with False it Some adv Suc.prems(2) have r: "r1 = r" "s3 = s'"
          by (simp_all add: after_iteration_def)
        from adv b r have s': "s' = ?t"
          "rr_Status r = StatusConverged \<longrightarrow> s_activeTier ?t = 0 \<or> maxStratifiedTier \<le> s_activeTier ?t"
          by (auto simp: advanceTierIfNeeded_def Let_def split: if_splits)
        from iterate_outcome [OF it] Some r have t1: "terminal_ok s1 r" "rr_Iterations r = iter"
          by (simp_all add: outcome_ok_def)
        have v: "verdict ?t = verdict s1"
          by (simp add: verdict_def after_iteration_def record_escalation_def report_progress_def split: option.splits)
        from outcome_cong [OF v, of iter "Some r"] t1 have t: "terminal_ok ?t r" by (simp add: outcome_ok_def)
        then have "r = result_of ?t (rr_Iterations r) (rr_Status r)" by (simp add: terminal_ok_def)
        moreover have "s_opts ?t = opts"
          using v f(2) by (simp add: verdict_def)
        moreover have "s_activeTier ?t = s_activeTier s1" "s_live ?t = []" "s_sess ?t = []"
          using f(6,7) by (simp_all add: after_iteration_facts)
        ultimately show ?thesis using s' t t1(2) f(3) by simp
      qed
    qed
  qed
qed

text \<open>C1. The result of a run. A monolithic run that returns a result reports one of four statuses and
  means it: converged says that the score reported meets the threshold and that a stratified run has
  reached its last tier; stalled that the stall limit is reached; over budget that the budget is spent;
  the score, cost, tokens and directory are those of the final state, the iterations lie between 0 and
  the maximum, and nothing is left running.\<close>

theorem run_result_spec:
  assumes "run_monolithic env rawSpec opts cost ctxt validate w = (Inr r, s')" and "0 \<le> o_MaxIterations opts"
  shows "r = result_of s' (rr_Iterations r) (rr_Status r) \<and>
    (rr_Status r = StatusConverged \<and> fleq (o_Threshold opts) (rr_Satisfaction r) \<and>
        (o_Stratified opts \<longrightarrow> s_activeTier s' = maxStratifiedTier) \<or>
      rr_Status r = StatusStalled \<and> o_StallLimit opts \<le> s_stallCount s' \<or>
      rr_Status r = StatusBudgetExceeded \<and> fless fzero (o_BudgetUSD opts) \<and> fleq (o_BudgetUSD opts) (rr_CostUSD r) \<or>
      rr_Status r = StatusMaxIterations \<and> rr_Iterations r = o_MaxIterations opts) \<and>
    0 \<le> rr_Iterations r \<and> rr_Iterations r \<le> o_MaxIterations opts \<and> s_live s' = [] \<and> s_sess s' = []"
proof -
  note l = run_loop_result [OF head_inv_start assms(1) [unfolded run_monolithic_loop]]
  from l have r: "r = result_of s' (rr_Iterations r) (rr_Status r)" and o: "s_opts s' = opts" by blast+
  have f: "rr_Satisfaction r = s_bestSatisfaction s'" "rr_CostUSD r = s_totalCost s'"
    using arg_cong [OF r, of rr_Satisfaction] arg_cong [OF r, of rr_CostUSD] by (simp_all add: result_of_def)
  show ?thesis
    using l assms(2) o f
    by (auto simp: terminal_ok_def budgetExceeded_def tier_ok_def statuses split: if_splits)
qed

lemma demo_start: "run_start demo_env ''spec'' demo_opts fzero [] [] = demo_state"
proof -
  have "join_path [''/work'', ''r1''] = ''/work/r1''" "join_path [''/work/r1'', ''best''] = ''/work/r1/best''"
    by code_simp+
  then show ?thesis
    by (simp add: run_start_def demo_env_def summarize_large_def newRunState_def zero_state_def demo_state_def
        newEscalationState_def initialActiveTier_def demo_opts_def)
qed

lemma demo_run:
  "run_monolithic demo_env ''spec'' demo_opts fzero [] demo_validator [] =
     (Inr demo_result, snd (run_monolithic demo_env ''spec'' demo_opts fzero [] demo_validator []))"
proof -
  obtain s1 where it: "iterate demo_env ''spec'' 1 demo_state demo_validator = (Inr (Some demo_result), s1)"
    using demo_iterate [of "''spec''"] by (metis prod.collapse)
  have "s_activeTier s1 = 0"
    using core.iterate_P [OF it] by (simp add: run_core_def demo_state_def zero_state_def)
  moreover have "\<not> budgetExceeded demo_state"
    by (simp add: budgetExceeded_def demo_state_def zero_state_def demo_opts_def)
  moreover have "nat (o_MaxIterations demo_opts) = Suc 1" by (simp add: demo_opts_def)
  ultimately show ?thesis
    by (simp add: run_monolithic_loop demo_start it advanceTierIfNeeded_def after_iteration_facts(4) [unfolded after_iteration_def])
qed

theorem run_result_spec_witness:
  "let r = demo_result; s' = snd (run_monolithic demo_env ''spec'' demo_opts fzero [] demo_validator []) in
   r = result_of s' 1 StatusConverged \<and> s_live s' = [] \<and> s_sess s' = []"
proof -
  have "0 \<le> o_MaxIterations demo_opts" by (simp add: demo_opts_def)
  from run_result_spec [OF demo_run this] show ?thesis by (simp add: demo_result_def Let_def)
qed

section \<open>A failed start\<close>

lemma trackPatch_stall: "s_stallCount (trackPatchRegression sat s) = s_stallCount s"
  by (simp add: trackPatchRegression_def Let_def)

lemma processValidation_worse:
  assumes "\<not> fleq (o_Threshold (s_opts s)) sat" "\<not> fless (s_bestSatisfaction s) sat" "s_stallCount s = k"
  shows "s_stallCount (snd (processValidation env iter sat failures fls s)) = k + 1"
proof -
  obtain rs s1 where rec: "record_score iter sat failures s = (rs, s1)" by force
  then have s1: "s_opts s1 = s_opts s" "s_bestSatisfaction s1 = s_bestSatisfaction s" "s_stallCount s1 = k"
    using assms(3) by (auto simp: record_score_def Let_def)
  with rec assms(1,2) show ?thesis
    by (simp add: processValidation_def improve_or_stall_def trackPatch_stall Let_def)
qed

text \<open>When the HTTP container does not start and the stall limit is not reached, the iteration goes on
  all the same: the validator runs against the empty URL, and a score that does not improve counts the
  same iteration as a second stall.\<close>

theorem start_failure_counts_twice:
  assumes "e_Build env dir (''og-'' @ s_runID s @ ''-iter'' @ int_str iter) (s_w s) = (None, w0)"
    and "e_Run env (''og-'' @ s_runID s @ ''-iter'' @ int_str iter) w0 = (Inl e, w1)"
    and "\<not> NeedsExec (o_Capabilities (s_opts s))" "\<not> NeedsTUI (o_Capabilities (s_opts s))"
      "\<not> NeedsGRPC (o_Capabilities (s_opts s))"
    and "s_stallCount s + 1 < o_StallLimit (s_opts s)"
    and "validate [] False (s_activeTier s) w1 = VDone (Inr (sat, failures, cost)) w2"
    and "\<not> fleq (o_Threshold (s_opts s)) sat" and "\<not> fless (s_bestSatisfaction s) sat"
  shows "s_stallCount (snd (buildRunValidate env iter dir fls s validate)) = s_stallCount s + 2"
proof -
  let ?tag = "''og-'' @ s_runID s @ ''-iter'' @ int_str iter"
  define s1 where "s1 = fail_step OutcomeRunFail iter feedbackRunError
    (''Container failed to start: '' @ er_msg e) (s\<lparr>s_w := w1\<rparr>)"
  have s1: "s_stallCount s1 = s_stallCount s + 1" "s_opts s1 = s_opts s" "s_bestSatisfaction s1 = s_bestSatisfaction s"
    "s_w s1 = w1" "s_activeTier s1 = s_activeTier s"
    by (simp_all add: s1_def fail_step_def recordStall_def)
  have svc: "startServiceContainer env iter ?tag (o_Capabilities (s_opts s)) (s\<lparr>s_w := w0\<rparr>) = (no_service, s1)"
  proof -
    have "checkStalled iter s1 = None" using assms(6) s1(1,2) by (simp add: checkStalled_def)
    with assms(2-5) show ?thesis
      by (simp add: startServiceContainer_def startHTTPContainer_def run_container_def http_failed_def
          no_service_def s1_def Let_def)
  qed
  let ?s2 = "s1\<lparr>s_w := w2, s_totalCost := fadd (s_totalCost s1) cost, s_lastFailures := failures\<rparr>"
  have "s_stallCount (snd (processValidation env iter sat failures fls ?s2)) = s_stallCount s + 2"
    using processValidation_worse [of ?s2 sat "s_stallCount s + 1"] assms(8,9) s1 by simp
  then show ?thesis
    using assms(1,3,4,7) svc s1
    by (auto simp: buildRunValidate_def run_service_def no_service_def validate_service_def runTestCommand_def
        service_cell_def stop_service_def stop_cell_def Let_def split: prod.splits)
qed

theorem start_failure_counts_twice_witness:
  "s_stallCount (snd (buildRunValidate (demo_env\<lparr>e_Run := (\<lambda>tag w. (Inl demo_err, w))\<rparr>) 1 ''/work/r1/iter_1''
      [(''main.go'', ''x'')] demo_state (\<lambda>url restart tier w. VDone (Inr (fzero, [], fzero)) w))) = 2"
  by (subst start_failure_counts_twice [where ?w0.0 = "[]" and ?w1.0 = "[]" and ?w2.0 = "[]" and e = demo_err
        and sat = fzero and failures = "[]" and cost = fzero])
    (simp_all add: demo_env_def demo_state_def zero_state_def demo_opts_def demo_caps_def)

end
