(* ===== verification/Attractor_Composed.thy ===== *)
theory Attractor_Composed
  imports Attractor_Reach Toposort
begin

text \<open>
  Composed convergence (\<open>attractor.go\<close>): every component is brought to convergence on its own, in
  dependency order, in a mini loop over a local state; the merged files are built and validated as a
  whole; any failure of a component falls back to the monolithic loop. \<open>Run\<close> tries the composed path
  first.
\<close>

section \<open>Merging\<close>

text \<open>\<open>maps.Copy\<close> over the components in order; a component without files has a nil map.\<close>

definition mergeComponentFiles :: "component list \<Rightarrow> files gomap \<Rightarrow> files" where
  "mergeComponentFiles order componentFiles =
     fold (\<lambda>cm composed. gm_copy composed
        (case gm_get componentFiles (c_Name cm) of None \<Rightarrow> [] | Some fls \<Rightarrow> fls)) order []"

definition ensureBuildInfrastructure :: "files \<Rightarrow> gostring \<Rightarrow> scenarioCapabilities \<Rightarrow> files" where
  "ensureBuildInfrastructure composedFiles language caps =
     (if gm_get composedFiles ''Dockerfile'' \<noteq> None then composedFiles
      else
        (case LookupLanguage language of
           None \<Rightarrow> composedFiles
         | Some tmpl \<Rightarrow>
             let fs1 = gm_put ''Dockerfile'' (ex_Dockerfile (selectExampleBlock tmpl caps)) composedFiles in
             if language = ''go'' \<and> gm_get fs1 ''go.mod'' = None
             then gm_put ''go.mod'' (''module app'' @ [NL] @ [NL] @ ''go 1.25'' @ [NL]) fs1 else fs1))"

section \<open>Integration container\<close>

definition fallback_err :: goerr where
  "fallback_err = new_err errComponentFallback"

text \<open>\<open>fmt.Errorf("%w: %w")\<close>: both errors are wrapped.\<close>

definition wrap_both :: "gostring \<Rightarrow> goerr \<Rightarrow> goerr" where
  "wrap_both sentinel e = \<lparr>er_msg = sentinel @ '': '' @ er_msg e, er_is = sentinel # er_is e\<rparr>"

text \<open>The URL and the stop function with the flag of its gRPC variant.\<close>

definition startComposedContainer ::
    "'w env \<Rightarrow> gostring \<Rightarrow> scenarioCapabilities \<Rightarrow> 'w runState \<Rightarrow>
     (goerr + gostring \<times> (gostring \<times> bool) option) \<times> 'w runState" where
  "startComposedContainer env tag caps s =
     (if NeedsGRPC caps then
        (case startGRPCContainer env 0 tag caps s of (res, s1) \<Rightarrow>
           (case gc_stop res of
              None \<Rightarrow> (Inl fallback_err, s1)
            | Some h \<Rightarrow> (Inr (gc_url res, Some (h, True)), set_grpc_target env (gc_grpcTarget res) s1)))
      else if NeedsTUI caps \<and> \<not> NeedsHTTP caps \<and> \<not> NeedsGRPC caps then (Inr ([], None), s)
      else if NeedsHTTP caps \<or> NeedsBrowser caps \<or> \<not> NeedsExec caps then
        (case startHTTPContainer env 0 tag (o_HealthTimeout (s_opts s)) s of (res, s1) \<Rightarrow>
           (case hc_stop res of
              None \<Rightarrow> (Inl fallback_err, s1)
            | Some h \<Rightarrow> (Inr (hc_url res, Some (h, False)), s1)))
      else (Inr ([], None), s))"

text \<open>
  The call of a validator without a restart function and what is done with its report, between the start
  and the deferred stop of the service.
\<close>

definition validate_composed_service ::
    "'w env \<Rightarrow> gostring \<Rightarrow> 'w validator \<Rightarrow>
     (goerr + float64 \<times> gostring list \<times> float64 \<Rightarrow> 'w runState \<Rightarrow> 'a \<times> 'w runState) \<Rightarrow>
     'w runState \<Rightarrow> (goerr + 'a) \<times> 'w runState" where
  "validate_composed_service env tag validate report s =
     (case startComposedContainer env tag (o_Capabilities (s_opts s)) s of
        (Inl e, s1) \<Rightarrow> (Inl e, s1)
      | (Inr (url, stop), s1) \<Rightarrow>
          (case run_vprog (validate url False 0 (s_w s1)) env tag (o_HealthTimeout (s_opts s1)) False
                  (map_option fst stop) s1 of
             (r, cell, s2) \<Rightarrow>
               (case report r s2 of
                  (x, s3) \<Rightarrow>
                    (Inr x, stop_service env (case stop of None \<Rightarrow> False | Some p \<Rightarrow> snd p) cell s3))))"

text \<open>The same with the session of the exec and TUI steps around it; an outer error comes from the session.\<close>

definition validate_composed_session ::
    "'w env \<Rightarrow> gostring \<Rightarrow> 'w validator \<Rightarrow>
     (goerr + float64 \<times> gostring list \<times> float64 \<Rightarrow> 'w runState \<Rightarrow> 'a \<times> 'w runState) \<Rightarrow>
     'w runState \<Rightarrow> (goerr + (goerr + 'a)) \<times> 'w runState" where
  "validate_composed_session env tag validate report s =
     (if NeedsExec (o_Capabilities (s_opts s)) \<or> NeedsTUI (o_Capabilities (s_opts s)) then
        (case start_session env tag s of
           (Inl e, s1) \<Rightarrow> (Inl e, s1)
         | (Inr sess, s1) \<Rightarrow>
             (case validate_composed_service env tag validate report s1 of
                (r, s2) \<Rightarrow> (Inr r, close_session env sess s2)))
      else (case validate_composed_service env tag validate report s of (r, s1) \<Rightarrow> (Inr r, s1)))"

section \<open>A component's mini loop\<close>

definition componentMiniLoopMaxIter :: nat where "componentMiniLoopMaxIter = 5"
definition componentMiniLoopStallLimit :: int where "componentMiniLoopStallLimit = 2"

record componentLoopState =
  cl_history :: "iterationFeedback list"
  cl_stallCount :: int
  cl_bestScore :: float64
  cl_bestFiles :: "files option"

definition fresh_loop :: componentLoopState where
  "fresh_loop = \<lparr>cl_history = [], cl_stallCount = 0, cl_bestScore = fzero, cl_bestFiles = None\<rparr>"

definition component_stall :: "iterationFeedback \<Rightarrow> componentLoopState \<Rightarrow> componentLoopState" where
  "component_stall fb cs =
     cs\<lparr>cl_stallCount := cl_stallCount cs + 1, cl_history := cl_history cs @ [fb]\<rparr>"

definition component_report ::
    "gostring \<Rightarrow> goerr + float64 \<times> gostring list \<times> float64 \<Rightarrow> 'w runState \<Rightarrow>
     (goerr + float64 \<times> gostring list) \<times> 'w runState" where
  "component_report compName r s =
     (case r of
        Inl e \<Rightarrow> (Inl (wrap_err (''attractor: validate component '' @ go_quote compName) e), s)
      | Inr (satisfaction, failures, cost) \<Rightarrow>
          (Inr (satisfaction, failures), s\<lparr>s_totalCost := fadd (s_totalCost s) cost\<rparr>))"

definition buildAndValidateComponent ::
    "'w env \<Rightarrow> gostring \<Rightarrow> gostring \<Rightarrow> int \<Rightarrow> 'w validator \<Rightarrow> 'w runState \<Rightarrow>
     (goerr + float64 \<times> gostring list) \<times> 'w runState" where
  "buildAndValidateComponent env iterDir compName iter validate s =
     (let tag = ''og-'' @ s_runID s @ ''-comp-'' @ compName @ ''-'' @ int_str iter in
      case e_Build env iterDir tag (s_w s) of
        (Some e, w) \<Rightarrow> (Inl (wrap_both errComponentBuildFail e), s\<lparr>s_w := w\<rparr>)
      | (None, w) \<Rightarrow>
          (case validate_composed_session env tag validate (component_report compName) (s\<lparr>s_w := w\<rparr>) of
             (Inl e, s1) \<Rightarrow> (Inl (wrap_both errComponentSessionFail e), s1)
           | (Inr (Inl e), s1) \<Rightarrow> (Inl (wrap_both errComponentStartFail e), s1)
           | (Inr (Inr r), s1) \<Rightarrow> (r, s1)))"

definition component_feedback :: "int \<Rightarrow> float64 \<Rightarrow> gostring list \<Rightarrow> int \<Rightarrow> iterationFeedback" where
  "component_feedback iter satisfaction failures stalls =
     (let f = determineFidelity iter stalls in
      \<lparr>fb_iteration = iter, fb_kind = feedbackValidation,
       fb_message = formatValidationFeedback satisfaction failures f, fb_fidelity = f,
       fb_failedScenarios = parseFailedScenarios failures\<rparr>)"

text \<open>The files of a converged component, or the loop state to go on with.\<close>

definition evaluateComponent ::
    "'w env \<Rightarrow> gostring \<Rightarrow> gostring \<Rightarrow> int \<Rightarrow> files \<Rightarrow> 'w validator \<Rightarrow> componentLoopState \<Rightarrow> 'w runState \<Rightarrow>
     (files + componentLoopState) \<times> 'w runState" where
  "evaluateComponent env iterDir compName iter fls validate cs s =
     (case buildAndValidateComponent env iterDir compName iter validate s of
        (Inl e, s1) \<Rightarrow> (Inr (component_stall (plain_feedback iter feedbackBuildError (er_msg e)) cs), s1)
      | (Inr (satisfaction, failures), s1) \<Rightarrow>
          if fleq (o_Threshold (s_opts s1)) satisfaction then (Inl fls, s1)
          else
            let cs1 = (if fless (cl_bestScore cs) satisfaction
                  then cs\<lparr>cl_bestScore := satisfaction, cl_bestFiles := Some fls, cl_stallCount := 0\<rparr>
                  else cs\<lparr>cl_stallCount := cl_stallCount cs + 1\<rparr>)
            in (Inr (cs1\<lparr>cl_history := cl_history cs1 @
                       [component_feedback iter satisfaction failures (cl_stallCount cs1)]\<rparr>), s1))"

definition component_request ::
    "gostring \<Rightarrow> component \<Rightarrow> gostring gomap \<Rightarrow> componentLoopState \<Rightarrow> 'w runState \<Rightarrow> generateRequest" where
  "component_request rawSpec cm depInterfaces cs s =
     \<lparr>gr_SystemPrompt = buildComponentPrompt rawSpec cm depInterfaces (o_Language (s_opts s)),
      gr_Messages = buildMessages (cl_history cs) modeFileFormat, gr_MaxTokens = o_MaxTokens (s_opts s),
      gr_Model = o_Model (s_opts s), gr_CacheControl = Some ''ephemeral'', gr_Temperature = None\<rparr>"

definition componentIteration ::
    "'w env \<Rightarrow> gostring \<Rightarrow> component \<Rightarrow> gostring gomap \<Rightarrow> files \<Rightarrow> 'w validator option \<Rightarrow> int \<Rightarrow>
     componentLoopState \<Rightarrow> 'w runState \<Rightarrow> (goerr + (files + componentLoopState)) \<times> 'w runState" where
  "componentIteration env rawSpec cm depInterfaces baseFiles validate iter cs s =
     (case s_generate env (component_request rawSpec cm depInterfaces cs s) s of
        (Inl e, s1) \<Rightarrow>
          (Inl (wrap_err (''attractor: generate component '' @ go_quote (c_Name cm) @ '' iteration '' @
                  int_str iter) e), s1)
      | (Inr resp, s1) \<Rightarrow>
          let s2 = add_usage (gp_CostUSD resp) (resp_tokens resp) s1 in
          (case ParseFiles (gp_Content resp) of
             Inl SliceBounds \<Rightarrow> (Inl (new_err panic_slice), s2)
           | Inl perr \<Rightarrow>
               (Inr (Inr (component_stall (plain_feedback iter feedbackParseError
                  (''Failed to parse generated files: '' @ er_msg (file_goerr perr))) cs)), s2)
           | Inr fls \<Rightarrow>
               let iterDir = join_path [s_baseDir s2,
                     ''comp_'' @ c_Name cm @ ''_iter_'' @ int_str iter]
               in (case s_writeFiles env iterDir (mergeFiles fls baseFiles) s2 of
                     (Some e, s3) \<Rightarrow>
                       (Inl (wrap_err (''attractor: write component '' @ go_quote (c_Name cm) @ '' files'') e), s3)
                   | (None, s3) \<Rightarrow>
                       (case validate of
                          None \<Rightarrow> (Inr (Inl fls), s3)
                        | Some v \<Rightarrow>
                            (case evaluateComponent env iterDir (c_Name cm) iter fls v cs s3 of
                               (r, s4) \<Rightarrow> (Inr r, s4))))))"

definition component_err :: "gostring \<Rightarrow> component \<Rightarrow> goerr" where
  "component_err sentinel cm =
     \<lparr>er_msg = sentinel @ '': component '' @ go_quote (c_Name cm), er_is = [sentinel]\<rparr>"

text \<open>The iterations that remain from \<open>iter\<close> on.\<close>

fun component_loop ::
    "'w env \<Rightarrow> gostring \<Rightarrow> component \<Rightarrow> gostring gomap \<Rightarrow> files \<Rightarrow> nat \<Rightarrow> int \<Rightarrow> componentLoopState \<Rightarrow>
     'w runState \<Rightarrow> (goerr + files) \<times> 'w runState" where
  "component_loop env rawSpec cm depInterfaces baseFiles 0 iter cs s =
     (case cl_bestFiles cs of
        Some fls \<Rightarrow> (Inr fls, s)
      | None \<Rightarrow> (Inl (component_err errComponentStalled cm), s))"
| "component_loop env rawSpec cm depInterfaces baseFiles (Suc n) iter cs s =
     (if budgetExceeded s then (Inl (component_err errComponentBudget cm), s)
      else
        (case componentIteration env rawSpec cm depInterfaces baseFiles
                (gm_get (o_ComponentValidators (s_opts s)) (c_Name cm)) iter cs s of
           (Inl e, s1) \<Rightarrow> (Inl e, s1)
         | (Inr (Inl fls), s1) \<Rightarrow> (Inr fls, s1)
         | (Inr (Inr cs1), s1) \<Rightarrow>
             if componentMiniLoopStallLimit \<le> cl_stallCount cs1
             then (Inl (component_err errComponentStalled cm), s1)
             else component_loop env rawSpec cm depInterfaces baseFiles n (iter + 1) cs1 s1))"

definition convergeComponent ::
    "'w env \<Rightarrow> gostring \<Rightarrow> component \<Rightarrow> gostring gomap \<Rightarrow> files \<Rightarrow> 'w runState \<Rightarrow>
     (goerr + files) \<times> 'w runState" where
  "convergeComponent env rawSpec cm depInterfaces baseFiles s =
     component_loop env rawSpec cm depInterfaces baseFiles componentMiniLoopMaxIter 1 fresh_loop s"

section \<open>The composed run\<close>

definition accept_composed :: "'w env \<Rightarrow> float64 \<Rightarrow> files \<Rightarrow> 'w runState \<Rightarrow> (goerr + runResult) \<times> 'w runState" where
  "accept_composed env satisfaction composedFiles s =
     (let s1 = s\<lparr>s_bestSatisfaction := satisfaction, s_bestFiles := Some composedFiles\<rparr> in
      case s_writeFiles env (s_bestDir s1) composedFiles s1 of
        (Some e, s2) \<Rightarrow> (Inl (wrap_err ''attractor: write best composed'' e), s2)
      | (None, s2) \<Rightarrow> (Inr (result_of s2 0 StatusConverged), s2))"

definition composed_report ::
    "'w env \<Rightarrow> files \<Rightarrow> goerr + float64 \<times> gostring list \<times> float64 \<Rightarrow> 'w runState \<Rightarrow>
     (goerr + runResult) \<times> 'w runState" where
  "composed_report env composedFiles r s =
     (case r of
        Inl e \<Rightarrow> (Inl (wrap_err ''attractor: integration validate'' e), s)
      | Inr (satisfaction, failures, cost) \<Rightarrow>
          let s1 = s\<lparr>s_totalCost := fadd (s_totalCost s) cost\<rparr> in
          if fleq (o_Threshold (s_opts s1)) satisfaction
          then accept_composed env satisfaction composedFiles s1
          else (Inl fallback_err, s1))"

definition validateComposed :: "'w env \<Rightarrow> files \<Rightarrow> 'w runState \<Rightarrow> (goerr + runResult) \<times> 'w runState" where
  "validateComposed env composedFiles s =
     (let integrationDir = join_path [s_baseDir s, ''composed''] in
      case s_writeFiles env integrationDir composedFiles s of
        (Some e, s1) \<Rightarrow> (Inl (wrap_err ''attractor: write composed files'' e), s1)
      | (None, s1) \<Rightarrow>
          (case gm_get (o_ComponentValidators (s_opts s1)) [] of
             None \<Rightarrow> accept_composed env (FNum 100) composedFiles s1
           | Some integrationValidate \<Rightarrow>
               let tag = ''og-'' @ s_runID s1 @ ''-composed'' in
               (case e_Build env integrationDir tag (s_w s1) of
                  (Some e, w) \<Rightarrow> (Inl fallback_err, s1\<lparr>s_w := w\<rparr>)
                | (None, w) \<Rightarrow>
                    (case validate_composed_session env tag integrationValidate
                            (composed_report env composedFiles) (s1\<lparr>s_w := w\<rparr>) of
                       (Inl e, s2) \<Rightarrow> (Inl fallback_err, s2)
                     | (Inr (Inl e), s2) \<Rightarrow> (Inl e, s2)
                     | (Inr (Inr r), s2) \<Rightarrow> (r, s2)))))"

text \<open>The components in order: the accumulated files, the files by component, the interfaces so far.\<close>

fun converge_all ::
    "'w env \<Rightarrow> gostring \<Rightarrow> component list \<Rightarrow> files \<Rightarrow> files gomap \<Rightarrow> gostring gomap \<Rightarrow> 'w runState \<Rightarrow>
     (goerr + files \<times> files gomap) \<times> 'w runState" where
  "converge_all env rawSpec [] accumulated componentFiles depInterfaces s =
     (Inr (accumulated, componentFiles), s)"
| "converge_all env rawSpec (cm # cms) accumulated componentFiles depInterfaces s =
     (if budgetExceeded s then (Inl fallback_err, s)
      else
        (case convergeComponent env rawSpec cm depInterfaces accumulated s of
           (Inl e, s1) \<Rightarrow> (Inl fallback_err, s1)
         | (Inr compFiles, s1) \<Rightarrow>
             converge_all env rawSpec cms (gm_copy accumulated compFiles)
               (gm_put (c_Name cm) compFiles componentFiles)
               (gm_put (c_Name cm) (c_Interface cm) depInterfaces) s1))"

definition topo_goerr :: "topo_error \<Rightarrow> goerr" where
  "topo_goerr e =
     (case e of
        UnknownDependency name dep \<Rightarrow>
          \<lparr>er_msg = errUnknownDependency @ '': '' @ go_quote name @ '' depends on '' @ go_quote dep,
           er_is = [errUnknownDependency]\<rparr>
      | TopoSortCycle \<Rightarrow> new_err ''attractor: dependency cycle detected'')"

definition composed_start :: "'w env \<Rightarrow> 'w runOptions \<Rightarrow> 'w \<Rightarrow> 'w runState" where
  "composed_start env opts w =
     (case e_RunID env w of (runID, w1) \<Rightarrow>
        let base = join_path [o_WorkspaceDir opts, runID] in
        (zero_state runID opts (e_Now env w1) w1)\<lparr>s_baseDir := base, s_bestDir := join_path [base, ''best'']\<rparr>)"

text \<open>From the order components on.\<close>

definition compose ::
    "'w env \<Rightarrow> gostring \<Rightarrow> component list \<Rightarrow> 'w runState \<Rightarrow> (goerr + runResult) \<times> 'w runState" where
  "compose env rawSpec order s =
     (case converge_all env rawSpec order [] [] [] s of
        (Inl e, s1) \<Rightarrow> (Inl e, s1)
      | (Inr (accumulated, componentFiles), s1) \<Rightarrow>
          validateComposed env
            (ensureBuildInfrastructure (mergeComponentFiles order componentFiles)
               (o_Language (s_opts s1)) (o_Capabilities (s_opts s1))) s1)"

definition runComposed ::
    "'w env \<Rightarrow> gostring \<Rightarrow> 'w runOptions \<Rightarrow> 'w \<Rightarrow> (goerr + runResult) \<times> float64 \<times> 'w" where
  "runComposed env rawSpec opts w =
     (case topoSort (o_GeneComponents opts) of
        Inl e \<Rightarrow> (Inl (wrap_err ''attractor: composed convergence'' (topo_goerr e)), fzero, w)
      | Inr order \<Rightarrow>
          (case compose env rawSpec order (composed_start env opts w) of
             (r, s) \<Rightarrow> (r, s_totalCost s, s_w s)))"

text \<open>The result, or the cost and the context the monolithic loop starts with.\<close>

definition tryComposed ::
    "'w env \<Rightarrow> gostring \<Rightarrow> 'w runOptions \<Rightarrow> 'w \<Rightarrow> (goerr + runResult option) \<times> float64 \<times> gostring \<times> 'w" where
  "tryComposed env rawSpec opts w =
     (if o_GeneComponents opts = [] \<or> o_ComponentValidators opts = [] then (Inr None, fzero, [], w)
      else if o_Agentic opts then (Inr None, fzero, [], w)
      else
        (case runComposed env rawSpec opts w of
           (Inl e, cost, w1) \<Rightarrow>
             if errors_Is e errComponentFallback
             then (Inr None, cost, ''A prior composed build attempt failed: '' @ er_msg e, w1)
             else (Inl e, cost, [], w1)
         | (Inr r, cost, w1) \<Rightarrow> (Inr (Some r), cost, [], w1)))"

section \<open>Run\<close>

definition Run ::
    "'w env \<Rightarrow> gostring \<Rightarrow> 'w runOptions \<Rightarrow> 'w validator \<Rightarrow> 'w \<Rightarrow> (goerr + runResult) \<times> 'w" where
  "Run env rawSpec opts0 validate w =
     (case validateRunInputs rawSpec opts0 of
        Some e \<Rightarrow> (Inl e, w)
      | None \<Rightarrow>
          let opts = withDefaults opts0 in
          (case tryComposed env rawSpec opts w of
             (Inl e, cost, ctxt, w1) \<Rightarrow> (Inl e, w1)
           | (Inr (Some r), cost, ctxt, w1) \<Rightarrow> (Inr r, w1)
           | (Inr None, cost, ctxt, w1) \<Rightarrow>
               (case run_monolithic env rawSpec opts cost ctxt validate w1 of
                  (r, s) \<Rightarrow> (r, s_w s))))"

end
