(* ===== verification/Attractor_Compose_Facts.thy ===== *)
theory Attractor_Compose_Facts
  imports Attractor_Composed
begin

text \<open>
  Facts on the composed path and on \<open>Run\<close>: what is merged, what is left running, how a failure falls back,
  and what a result of \<open>Run\<close> means.
\<close>

section \<open>The merge\<close>

definition component_files :: "files gomap \<Rightarrow> component \<Rightarrow> files" where
  "component_files m cm = (case gm_get m (c_Name cm) of None \<Rightarrow> [] | Some fls \<Rightarrow> fls)"

definition merge_from :: "files gomap \<Rightarrow> component list \<Rightarrow> files \<Rightarrow> files" where
  "merge_from m order base = fold (\<lambda>cm composed. gm_copy composed (component_files m cm)) order base"

lemma merge_from_cong:
  "(\<And>n. n \<in> set (map c_Name order) \<Longrightarrow> gm_get m n = gm_get m' n) \<Longrightarrow> merge_from m order base = merge_from m' order base"
  by (induction order arbitrary: base) (simp_all add: merge_from_def component_files_def)

lemma converge_all_merge:
  assumes "converge_all env rawSpec order acc cf di s = (Inr (acc', cf'), s')" and "distinct (map c_Name order)"
  shows "acc' = merge_from cf' order acc \<and> (\<forall>n. n \<notin> set (map c_Name order) \<longrightarrow> gm_get cf' n = gm_get cf n)"
  using assms
proof (induction order arbitrary: acc cf di s)
  case Nil
  then show ?case by (simp add: merge_from_def)
next
  case (Cons cm order)
  from Cons.prems(1) obtain fls s1 where c: "convergeComponent env rawSpec cm di acc s = (Inr fls, s1)"
    and rest: "converge_all env rawSpec order (gm_copy acc fls) (gm_put (c_Name cm) fls cf)
      (gm_put (c_Name cm) (c_Interface cm) di) s1 = (Inr (acc', cf'), s')"
    by (auto split: if_splits prod.splits sum.splits)
  from Cons.IH [OF rest] Cons.prems(2) have ih: "acc' = merge_from cf' order (gm_copy acc fls)"
    "\<forall>n. n \<notin> set (map c_Name order) \<longrightarrow> gm_get cf' n = gm_get (gm_put (c_Name cm) fls cf) n" by auto
  from ih(2) Cons.prems(2) have "component_files cf' cm = fls" by (simp add: component_files_def)
  with ih show ?case by (auto simp: merge_from_def)
qed

text \<open>C7. Merging the components' files again at the end gives exactly the files accumulated on the way:
  the base on which each component was generated, with the later component winning on an overlap.\<close>

theorem merge_is_accumulated:
  assumes "converge_all env rawSpec order [] [] [] s = (Inr (accumulated, componentFiles), s')"
    and "distinct (map c_Name order)"
  shows "mergeComponentFiles order componentFiles = accumulated"
  using converge_all_merge [OF assms]
  by (simp add: mergeComponentFiles_def merge_from_def component_files_def)

text \<open>A component without a validator converges in the sample world with its first answer.\<close>

lemma demo_component_dir:
  "writeFiles log_os (join_path [''/work/r1'', ''comp_a_iter_'' @ int_str 1]) [(''main.go'', ''package main'' @ [NL])] w =
     (w @ [(''/work/r1/comp_a_iter_1/main.go'', ''package main'' @ [NL])], None)"
  by code_simp

lemma demo_ParseFiles: "ParseFiles demo_answer = Inr [(''main.go'', ''package main'' @ [NL])]"
  by (simp add: ParseFiles_def demo_parse)

lemma demo_converge:
  "\<exists>s'. converge_all demo_env ''spec'' [mk_comp ''a'' []] [] [] [] demo_state =
     (Inr ([(''main.go'', ''package main'' @ [NL])], [(''a'', [(''main.go'', ''package main'' @ [NL])])]), s')"
proof -
  let ?c = "mk_comp ''a'' []"
  let ?f = "[(''main.go'', ''package main'' @ [NL])]"
  have merge: "mergeFiles ?f [] = ?f" "gm_copy [] ?f = ?f" "gm_put ''a'' ?f [] = [(''a'', ?f)]" by code_simp+
  have name: "c_Name ?c = ''a''" by (simp add: mk_comp_def)
  have num: "componentMiniLoopMaxIter = Suc 4" by (simp add: componentMiniLoopMaxIter_def)
  have b: "\<not> budgetExceeded demo_state"
    by (simp add: budgetExceeded_def demo_state_def zero_state_def demo_opts_def)
  have v: "o_ComponentValidators (s_opts demo_state) = []" "s_baseDir demo_state = ''/work/r1''"
    by (simp_all add: demo_state_def zero_state_def demo_opts_def)
  have gen: "s_generate demo_env req demo_state = (Inr demo_response, demo_state)" for req
    by (simp add: s_generate_def demo_env_def)
  have "\<exists>s'. componentIteration demo_env ''spec'' ?c [] [] None 1 fresh_loop demo_state = (Inr (Inl ?f), s')"
    unfolding componentIteration_def gen name
    by (simp add: demo_response_def demo_ParseFiles merge [simplified] s_writeFiles_def add_usage_def v
        demo_component_dir [simplified] demo_env_def Let_def)
  then obtain s' where "componentIteration demo_env ''spec'' ?c [] [] None 1 fresh_loop demo_state = (Inr (Inl ?f), s')"
    by blast
  then have "convergeComponent demo_env ''spec'' ?c [] [] demo_state = (Inr ?f, s')"
    unfolding convergeComponent_def num component_loop.simps by (simp add: b v name)
  then show ?thesis using b merge name by simp
qed

theorem merge_is_accumulated_witness:
  "mergeComponentFiles [mk_comp ''a'' []] [(''a'', [(''main.go'', ''package main'' @ [NL])])] =
     [(''main.go'', ''package main'' @ [NL])]"
proof -
  obtain s' where "converge_all demo_env ''spec'' [mk_comp ''a'' []] [] [] [] demo_state =
     (Inr ([(''main.go'', ''package main'' @ [NL])], [(''a'', [(''main.go'', ''package main'' @ [NL])])]), s')"
    using demo_converge by blast
  from merge_is_accumulated [OF this] show ?thesis by simp
qed

section \<open>The synthesized build files\<close>

text \<open>Build infrastructure is only added: every file of the components keeps its content; with a known
  language the result has a \<open>Dockerfile\<close>, and for Go also a \<open>go.mod\<close>, unless the components brought a
  \<open>Dockerfile\<close> of their own; and a second pass changes nothing.\<close>

theorem ensureBuildInfrastructure_spec:
  "(\<forall>p c. gm_get fls p = Some c \<longrightarrow> gm_get (ensureBuildInfrastructure fls language caps) p = Some c) \<and>
   (LookupLanguage language \<noteq> None \<longrightarrow> gm_get (ensureBuildInfrastructure fls language caps) ''Dockerfile'' \<noteq> None) \<and>
   (gm_get fls ''Dockerfile'' = None \<and> language = ''go'' \<longrightarrow>
      gm_get (ensureBuildInfrastructure fls language caps) ''go.mod'' \<noteq> None) \<and>
   ensureBuildInfrastructure (ensureBuildInfrastructure fls language caps) language caps =
     ensureBuildInfrastructure fls language caps"
proof -
  have go: "LookupLanguage ''go'' \<noteq> None" by code_simp
  show ?thesis
    using go by (auto simp: ensureBuildInfrastructure_def Let_def split: option.splits)
qed

theorem ensureBuildInfrastructure_spec_witness:
  "gm_get (ensureBuildInfrastructure [(''main.go'', ''x'')] ''go'' http_caps) ''main.go'' = Some ''x''"
proof -
  have "gm_get [(''main.go'', ''x'')] ''main.go'' = Some ''x''" by (simp add: gm_get_def)
  with ensureBuildInfrastructure_spec [of "[(''main.go'', ''x'')]" "''go''" http_caps] show ?thesis by blast
qed

text \<open>For a terminal application in Python, Node.js or Rust the synthesized \<open>Dockerfile\<close> is empty: the
  template of these languages has no block for that kind of application.\<close>

theorem empty_Dockerfile:
  "\<forall>language \<in> {''python'', ''node'', ''rust''}.
     gm_get (ensureBuildInfrastructure [(''main.py'', ''x'')] language (cli_caps\<lparr>NeedsTUI := True\<rparr>)) ''Dockerfile'' = Some []"
proof -
  have "LookupLanguage ''python'' = Some python_template" "LookupLanguage ''node'' = Some node_template"
    "LookupLanguage ''rust'' = Some rust_template"
    by (simp_all add: LookupLanguage_def languageRegistry_def)
  then show ?thesis
    by (simp add: ensureBuildInfrastructure_def selectExampleBlock_def python_template_def node_template_def
        rust_template_def no_example_def gm_get_def [of "[(x, y)]" for x y] Let_def)
qed

section \<open>What is left running\<close>

definition keeps_running :: "('x \<Rightarrow> 'w runState \<Rightarrow> 'a \<times> 'w runState) \<Rightarrow> bool" where
  "keeps_running report \<longleftrightarrow> (\<forall>r s. running (snd (report r s)) = running s)"

lemma startComposed_live:
  "startComposedContainer env tag caps s = (Inl e, s') \<Longrightarrow> running s' = running s"
  "startComposedContainer env tag caps s = (Inr (url, stop), s') \<Longrightarrow>
     s_live s' = cell_live (map_option fst stop) (s_live s) \<and> s_sess s' = s_sess s"
  unfolding startComposedContainer_def
  by (auto simp: running_def cell_live_def set_grpc_target_def split: if_splits prod.splits option.splits
      dest!: startGRPC_live startHTTP_live)

lemma composed_service_running:
  assumes "validate_composed_service env tag validate report s = (r, s')" and "keeps_running report"
  shows "running s' = running s"
proof -
  obtain o1 s1 where st: "startComposedContainer env tag (o_Capabilities (s_opts s)) s = (o1, s1)" by force
  show ?thesis
  proof (cases o1)
    case (Inl e)
    with assms(1) st startComposed_live(1) show ?thesis by (auto simp: validate_composed_service_def)
  next
    case (Inr p)
    obtain url stop where p: "p = (url, stop)" by force
    have l: "s_live s1 = cell_live (map_option fst stop) (s_live s)" "s_sess s1 = s_sess s"
      using startComposed_live(2) [OF st [unfolded Inr p]] by auto
    obtain vr cell s2 where v: "run_vprog (validate url False 0 (s_w s1)) env tag (o_HealthTimeout (s_opts s1)) False
        (map_option fst stop) s1 = (vr, cell, s2)" by (metis prod_cases3)
    obtain x s3 where rep: "report vr s2 = (x, s3)" by force
    have "s_live s2 = cell_live cell (s_live s)" "s_sess s2 = s_sess s"
      using run_vprog_live [OF l(1) v] l by auto
    moreover have "running s3 = running s2" using assms(2) rep by (metis keeps_running_def snd_conv)
    ultimately have s3: "s_live s3 = cell_live cell (s_live s)" "s_sess s3 = s_sess s"
      by (simp_all add: running_def)
    from assms(1) st Inr p v rep
    have "s' = stop_service env (case stop of None \<Rightarrow> False | Some p \<Rightarrow> snd p) cell s3"
      by (simp add: validate_composed_service_def)
    with stop_service_live [OF s3(1)] s3(2) show ?thesis by (simp add: running_def)
  qed
qed

lemma composed_session_running:
  assumes "validate_composed_session env tag validate report s = (r, s')" and "keeps_running report"
  shows "running s' = running s"
proof -
  obtain sr s1 where ss: "start_session env tag s = (sr, s1)" by force
  show ?thesis
    using assms(1) ss session_running [OF ss] composed_service_running [OF _ assms(2)]
    by (auto simp: validate_composed_session_def split: if_splits sum.splits prod.splits)
qed

lemma report_running:
  "keeps_running (component_report n)" "keeps_running (composed_report env fls)"
proof -
  have "running t = running (s\<lparr>s_bestSatisfaction := a, s_bestFiles := b\<rparr>)"
    if "s_writeFiles env d fls (s\<lparr>s_bestSatisfaction := a, s_bestFiles := b\<rparr>) = (e, t)" for e t s a b d
    by (rule running.s_writeFiles_P [OF that])
  then show "keeps_running (component_report n)" "keeps_running (composed_report env fls)"
    by (auto simp: keeps_running_def component_report_def composed_report_def accept_composed_def Let_def
        running_def split: sum.splits prod.splits option.splits)
qed

lemma buildComponent_running:
  "buildAndValidateComponent env dir n iter v s = (r, s') \<Longrightarrow> running s' = running s"
  by (auto simp: buildAndValidateComponent_def Let_def running.P_w split: option.splits prod.splits sum.splits
      dest!: composed_session_running [OF _ report_running(1)])

lemma evaluateComponent_running:
  "evaluateComponent env dir n iter fls v cs s = (r, s') \<Longrightarrow> running s' = running s"
  by (auto simp: evaluateComponent_def Let_def split: sum.splits prod.splits if_splits
      dest!: buildComponent_running)

lemma componentIteration_running:
  assumes "componentIteration env sp cm di base v iter cs s = (r, s')"
  shows "running s' = running s"
  using assms
  by (auto simp: componentIteration_def Let_def running.add_usage_P split: sum.splits prod.splits option.splits file_error.splits
      dest!: running.s_generate_P running.s_writeFiles_P evaluateComponent_running)

lemma component_loop_running:
  "component_loop env sp cm di base n iter cs s = (r, s') \<Longrightarrow> running s' = running s"
  by (induction n arbitrary: iter cs s)
    (auto split: option.splits if_splits sum.splits prod.splits dest!: componentIteration_running)

lemma converge_all_running:
  "converge_all env sp order acc cf di s = (r, s') \<Longrightarrow> running s' = running s"
  by (induction order arbitrary: acc cf di s)
    (auto simp: convergeComponent_def split: if_splits sum.splits prod.splits dest!: component_loop_running)

lemma validateComposed_running:
  assumes "validateComposed env fls s = (r, s')"
  shows "running s' = running s"
  using assms
  by (auto simp: validateComposed_def accept_composed_def running.P_w Let_def running_def
      split: option.splits prod.splits sum.splits
      dest!: running.s_writeFiles_P composed_session_running [OF _ report_running(2)])

text \<open>C5. The composed path stops what it starts, too: whatever the components do and however the attempt
  ends, the containers and sessions running afterwards are those running before.\<close>

theorem compose_cleans_up:
  assumes "compose env rawSpec order s = (r, s')"
  shows "s_live s' = s_live s \<and> s_sess s' = s_sess s"
  unfolding running_iff [symmetric]
  using assms
  by (auto simp: compose_def split: sum.splits prod.splits dest!: converge_all_running validateComposed_running)

theorem compose_cleans_up_witness:
  "s_live (snd (compose demo_env ''spec'' [mk_comp ''a'' []] demo_state)) = []"
proof -
  obtain r s' where c: "compose demo_env ''spec'' [mk_comp ''a'' []] demo_state = (r, s')" by force
  from compose_cleans_up [OF c] c show ?thesis by (simp add: demo_state_def zero_state_def)
qed

section \<open>How the composed path ends\<close>

lemma converge_all_error: "converge_all env sp order acc cf di s = (Inl e, s') \<Longrightarrow> e = fallback_err"
  by (induction order arbitrary: acc cf di s) (auto split: if_splits sum.splits prod.splits)


definition composed_opts :: "log runOptions" where
  "composed_opts = demo_opts\<lparr>o_GeneComponents := [mk_comp ''a'' []], o_ComponentValidators := [(''a'', demo_validator)]\<rparr>"


text \<open>Without an integration validator the composition is accepted unseen: whatever the components
  scored, the run reports convergence with a satisfaction of 100.\<close>

theorem unvalidated_composition:
  assumes "converge_all env rawSpec order [] [] [] s = (Inr (accumulated, componentFiles), s1)"
    and "gm_get (o_ComponentValidators (s_opts s1)) [] = None"
    and "compose env rawSpec order s = (Inr r, s')"
  shows "rr_Satisfaction r = FNum 100 \<and> rr_Status r = StatusConverged \<and> rr_Iterations r = 0"
proof -
  let ?d = "join_path [s_baseDir s1, ''composed'']"
  let ?f = "ensureBuildInfrastructure (mergeComponentFiles order componentFiles)
    (o_Language (s_opts s1)) (o_Capabilities (s_opts s1))"
  obtain x t where w: "s_writeFiles env ?d ?f s1 = (x, t)" by force
  from core.s_writeFiles_P [OF w] have o: "s_opts t = s_opts s1" by (simp add: run_core_def)
  obtain y u where w2: "s_writeFiles env (s_bestDir t) ?f (t\<lparr>s_bestSatisfaction := FNum 100, s_bestFiles := Some ?f\<rparr>) = (y, u)"
    by force
  from scores.s_writeFiles_P [OF w2] have "s_bestSatisfaction u = FNum 100" by (simp add: scores_def)
  with assms w w2 o show ?thesis
    by (auto simp: compose_def validateComposed_def accept_composed_def result_of_def Let_def split: option.splits)
qed

theorem unvalidated_composition_witness:
  "\<exists>r. fst (compose demo_env ''spec'' [] demo_state) = Inr r \<and> rr_Satisfaction r = FNum 100"
proof -
  have ca: "converge_all demo_env ''spec'' [] [] [] [] demo_state = (Inr ([], []), demo_state)" by simp
  have v: "gm_get (o_ComponentValidators (s_opts demo_state)) [] = None"
    by (simp add: demo_state_def zero_state_def demo_opts_def)
  let ?r = "\<lparr>rr_RunID = ''r1'', rr_Iterations = 0, rr_Satisfaction = FNum 100, rr_CostUSD = fzero,
    rr_TotalTokens = 0, rr_OutputDir = ''/work/r1/best'', rr_Status = ''converged''\<rparr>"
  have r: "fst (compose demo_env ''spec'' [] demo_state) = Inr ?r"
    unfolding demo_state_def demo_opts_def demo_env_def log_os_def by code_simp
  then have "compose demo_env ''spec'' [] demo_state = (Inr ?r, snd (compose demo_env ''spec'' [] demo_state))"
    by (metis prod.collapse)
  from unvalidated_composition [OF ca v this] r show ?thesis by blast
qed

end
