(* ===== verification/Scenario_Types.thy ===== *)
theory Scenario_Types
  imports Go_Float Go_Path
begin

text \<open>
  The scenario types (\<open>internal/scenario/types.go\<close>, \<open>result.go\<close>) and the loader (\<open>loader.go\<close>): the defaults
  of a decoded scenario, the inferred difficulty tier and the order of a directory of scenarios. YAML
  decoding is not code of the repository: its result is a parameter.
\<close>

section \<open>Steps\<close>

text \<open>A request body: absent, a string, or structured data, given by what \<open>json.Marshal\<close> makes of it.\<close>

datatype reqBody = NoBody | TextBody gostring | DataBody "goerr + gostring"

record httpRequest =
  rq_Method :: gostring
  rq_Path :: gostring
  rq_Headers :: "gostring gomap"
  rq_Body :: reqBody

record execRequest =
  xq_Command :: gostring
  xq_Stdin :: gostring
  xq_Env :: "gostring gomap"
  xq_Timeout :: gostring
  xq_Files :: "gostring gomap"

record browserRequest =
  bq_Action :: gostring
  bq_URL :: gostring
  bq_Selector :: gostring
  bq_Value :: gostring
  bq_Text :: gostring
  bq_TextAbsent :: gostring
  bq_Count :: "int option"
  bq_Timeout :: gostring

record grpcReceive =
  gv_Timeout :: gostring
  gv_Count :: int
  gv_Background :: bool

record grpcStream =
  gs_Messages :: "gostring list"
  gs_Receive :: "grpcReceive option"
  gs_ID :: gostring

record grpcRequest =
  gq_Service :: gostring
  gq_Method :: gostring
  gq_Body :: gostring
  gq_Headers :: "gostring gomap"
  gq_Timeout :: gostring
  gq_Stream :: "grpcStream option"

record wsReceive =
  wv_Timeout :: gostring
  wv_Count :: int

record wsRequest =
  wq_URL :: gostring
  wq_ID :: gostring
  wq_Send :: gostring
  wq_Receive :: "wsReceive option"

record tuiRequest =
  tq_Command :: gostring
  tq_SendKey :: gostring
  tq_SendText :: gostring
  tq_WaitFor :: gostring
  tq_AssertScreen :: gostring
  tq_AssertAbsent :: gostring
  tq_Timeout :: gostring

record retry =
  rt_Attempts :: int
  rt_Interval :: gostring
  rt_Timeout :: gostring

record capture =
  cp_Name :: gostring
  cp_JSONPath :: gostring
  cp_Source :: gostring

record step =
  st_Description :: gostring
  st_Delay :: gostring
  st_Request :: "httpRequest option"
  st_Exec :: "execRequest option"
  st_Browser :: "browserRequest option"
  st_GRPC :: "grpcRequest option"
  st_WS :: "wsRequest option"
  st_TUI :: "tuiRequest option"
  st_Retry :: "retry option"
  st_Expect :: gostring
  st_Capture :: "capture list"

record scenario =
  sc_ID :: gostring
  sc_Description :: gostring
  sc_Type :: gostring
  sc_Weight :: "float64 option"
  sc_Component :: gostring
  sc_Tier :: int
  sc_Setup :: "step list"
  sc_Steps :: "step list"
  sc_SatisfactionCriteria :: gostring

record stepOutput =
  so_Observed :: gostring
  so_CaptureBody :: gostring
  so_CaptureSources :: "gostring gomap"

definition ExecSourceStdout :: gostring where "ExecSourceStdout = ''stdout''"
definition ExecSourceStderr :: gostring where "ExecSourceStderr = ''stderr''"
definition ExecSourceExitCode :: gostring where "ExecSourceExitCode = ''exitcode''"
definition BrowserSourceText :: gostring where "BrowserSourceText = ''text''"
definition BrowserSourceHTML :: gostring where "BrowserSourceHTML = ''html''"
definition BrowserSourceCount :: gostring where "BrowserSourceCount = ''count''"
definition BrowserSourceLocation :: gostring where "BrowserSourceLocation = ''location''"
definition BrowserSourceValue :: gostring where "BrowserSourceValue = ''value''"
definition GRPCSourceStatus :: gostring where "GRPCSourceStatus = ''status''"
definition GRPCSourceHeaders :: gostring where "GRPCSourceHeaders = ''headers''"

definition StepType :: "step \<Rightarrow> gostring" where
  "StepType s =
     (if st_Request s \<noteq> None then ''request''
      else if st_Exec s \<noteq> None then ''exec''
      else if st_Browser s \<noteq> None then ''browser''
      else if st_GRPC s \<noteq> None then ''grpc''
      else if st_WS s \<noteq> None then ''ws''
      else if st_TUI s \<noteq> None then ''tui''
      else [])"

section \<open>Loading\<close>

definition step_score :: "step \<Rightarrow> int" where
  "step_score s =
     1 + (if StepType s \<in> {''browser'', ''grpc'', ''ws'', ''tui''} then 1 else 0)
       + (case st_GRPC s of None \<Rightarrow> 0 | Some g \<Rightarrow> if gq_Stream g \<noteq> None then 1 else 0)
       + (case st_WS s of None \<Rightarrow> 0 | Some q \<Rightarrow> if wq_Receive q \<noteq> None then 1 else 0)
       + (if st_Retry s \<noteq> None then 1 else 0)"

text \<open>The loop over the steps: captures, score, and the set of types as a list without repetition.\<close>

definition tier_loop :: "step list \<Rightarrow> int \<times> int \<times> gostring list \<Rightarrow> int \<times> int \<times> gostring list" where
  "tier_loop steps acc =
     fold (\<lambda>s (caps, score, types).
       (if st_Capture s \<noteq> [] then caps + 1 else caps, score + step_score s, List.insert (StepType s) types)) steps acc"

definition inferTier :: "scenario \<Rightarrow> int" where
  "inferTier s =
     (case tier_loop (sc_Steps s) (0, 0, []) of
        (stepsWithCaptures, score0, types) \<Rightarrow>
          let score = (if 1 < length types then score0 + 2 else score0) in
          if 6 < score \<or> 3 \<le> stepsWithCaptures then 3
          else if 3 < score \<or> 1 \<le> stepsWithCaptures then 2
          else 1)"

definition errEmptyScenario :: gostring where "errEmptyScenario = ''scenario: empty content''"
definition errMissingID :: gostring where "errMissingID = ''scenario: missing id''"

definition parseScenario :: "(gostring \<Rightarrow> goerr + scenario) \<Rightarrow> gostring \<Rightarrow> goerr + scenario" where
  "parseScenario unmarshal data =
     (if data = [] then Inl (new_err errEmptyScenario)
      else
        (case unmarshal data of
           Inl e \<Rightarrow> Inl (wrap_err ''parse scenario'' e)
         | Inr s \<Rightarrow>
             if sc_ID s = [] then Inl (new_err errMissingID)
             else
               let s1 = (if sc_Weight s = None then s\<lparr>sc_Weight := Some (FNum 1)\<rparr> else s)
               in Inr (if sc_Tier s1 = 0 then s1\<lparr>sc_Tier := inferTier s1\<rparr> else s1)))"

text \<open>The entries of a directory with the flag of a subdirectory; \<open>read\<close> is \<open>os.ReadFile\<close>.\<close>

fun load_all :: "(gostring \<Rightarrow> goerr + gostring) \<Rightarrow> (gostring \<Rightarrow> goerr + scenario) \<Rightarrow> gostring list \<Rightarrow> goerr + scenario list" where
  "load_all read unmarshal [] = Inr []"
| "load_all read unmarshal (p # ps) =
     (case read p of
        Inl e \<Rightarrow> Inl (wrap_err ''load scenario dir'' (wrap_err ''load scenario file'' e))
      | Inr data \<Rightarrow>
          (case parseScenario unmarshal data of
             Inl e \<Rightarrow> Inl (wrap_err ''load scenario dir'' e)
           | Inr s \<Rightarrow>
               (case load_all read unmarshal ps of
                  Inl e \<Rightarrow> Inl e
                | Inr ss \<Rightarrow> Inr (s # ss))))"

definition LoadDir ::
    "(goerr + (gostring \<times> bool) list) \<Rightarrow> (gostring \<Rightarrow> goerr + gostring) \<Rightarrow> (gostring \<Rightarrow> goerr + scenario) \<Rightarrow>
     gostring \<Rightarrow> goerr + scenario list" where
  "LoadDir entries read unmarshal dir =
     (case entries of
        Inl e \<Rightarrow> Inl (wrap_err ''load scenario dir'' e)
      | Inr es \<Rightarrow>
          let paths = map (\<lambda>e. join_path [dir, fst e])
                (filter (\<lambda>e. \<not> snd e \<and> (path_ext (fst e) = ''.yaml'' \<or> path_ext (fst e) = ''.yml'')) es)
          in case load_all read unmarshal paths of
               Inl e \<Rightarrow> Inl e
             | Inr ss \<Rightarrow> Inr (sort_key sc_ID ss))"

section \<open>Scores\<close>

record stepResult =
  sr_Description :: gostring
  sr_StepType :: gostring
  sr_Observed :: gostring
  sr_CaptureBody :: gostring
  sr_Duration :: int
  sr_Err :: "goerr option"

record scenarioResult =
  sx_ScenarioID :: gostring
  sx_Steps :: "stepResult list"

section \<open>Tiers\<close>

lemma tier_loop_alt:
  "tier_loop steps (c, k, ts) =
     (c + int (length (filter (\<lambda>s. st_Capture s \<noteq> []) steps)), k + sum_list (map step_score steps),
      fold (\<lambda>s. List.insert (StepType s)) steps ts)"
  by (induction steps arbitrary: c k ts) (simp_all add: tier_loop_def)

lemma types_length:
  "length (fold (\<lambda>s. List.insert (StepType s)) steps ts) \<le> length (fold (\<lambda>s. List.insert (StepType s)) (steps @ extra) ts)"
proof -
  have "length us \<le> length (fold (\<lambda>s. List.insert (StepType s)) extra us)" for us
  proof (induction extra arbitrary: us)
    case Nil
    then show ?case by simp
  next
    case (Cons s extra)
    have "length us \<le> length (List.insert (StepType s) us)" by (simp add: List.insert_def)
    with Cons [of "List.insert (StepType s) us"] show ?case by simp
  qed
  then show ?thesis by simp
qed

lemma step_score_pos: "1 \<le> step_score s"
  by (simp add: step_score_def split: option.splits)

lemma sum_scores_mono: "sum_list (map step_score steps) \<le> sum_list (map step_score (steps @ extra))"
  using sum_list_nonneg [of "map step_score extra"] step_score_pos by (fastforce intro: order_trans [of 0 1])

text \<open>The inferred tier is 1, 2 or 3; more steps never make a scenario easier, whatever they are and
  however they differ in type; three capturing steps are tier 3, and one capturing step is at least
  tier 2.\<close>

theorem inferTier_spec:
  "1 \<le> inferTier s \<and> inferTier s \<le> 3 \<and> inferTier s \<le> inferTier (s\<lparr>sc_Steps := sc_Steps s @ extra\<rparr>) \<and>
   (3 \<le> length (filter (\<lambda>x. st_Capture x \<noteq> []) (sc_Steps s)) \<longrightarrow> inferTier s = 3) \<and>
   (1 \<le> length (filter (\<lambda>x. st_Capture x \<noteq> []) (sc_Steps s)) \<longrightarrow> 2 \<le> inferTier s)"
proof -
  have "length (fold (\<lambda>s. List.insert (StepType s)) (sc_Steps s) []) \<le>
      length (fold (\<lambda>s. List.insert (StepType s)) (sc_Steps s @ extra) [])" by (rule types_length)
  with sum_scores_mono [of "sc_Steps s" extra] show ?thesis
    by (auto simp: inferTier_def tier_loop_alt Let_def)
qed

definition blank_step :: step where
  "blank_step = \<lparr>st_Description = [], st_Delay = [], st_Request = None, st_Exec = None, st_Browser = None,
     st_GRPC = None, st_WS = None, st_TUI = None, st_Retry = None, st_Expect = [], st_Capture = []\<rparr>"

definition get_request :: httpRequest where
  "get_request = \<lparr>rq_Method = ''GET'', rq_Path = ''/items/{id}'', rq_Headers = [], rq_Body = NoBody\<rparr>"

definition capture_step :: step where
  "capture_step = blank_step\<lparr>st_Request := Some get_request,
     st_Capture := [\<lparr>cp_Name = ''id'', cp_JSONPath = ''$.id'', cp_Source = []\<rparr>]\<rparr>"

definition sample_scenario :: scenario where
  "sample_scenario = \<lparr>sc_ID = ''login'', sc_Description = ''log in'', sc_Type = ''api'', sc_Weight = None,
     sc_Component = [], sc_Tier = 0, sc_Setup = [], sc_Steps = [capture_step, capture_step, capture_step],
     sc_SatisfactionCriteria = []\<rparr>"

theorem inferTier_spec_witness: "inferTier sample_scenario = 3"
proof -
  have "3 \<le> length (filter (\<lambda>x. st_Capture x \<noteq> []) (sc_Steps sample_scenario))" by code_simp
  with inferTier_spec [of sample_scenario "[]"] show ?thesis by blast
qed

end
