(* ===== verification/Go_Time.thy ===== *)
theory Go_Time
  imports Go_Float Go_Strings
begin

text \<open>
  \<open>time.ParseDuration\<close>: a signed sequence of decimal numbers with units, in nanoseconds, with the
  overflow checks of the 64-bit code. \<open>None\<close> is an error.
\<close>

definition time_units :: "(gostring \<times> int) list" where
  "time_units =
     [(''ns'', 1), (''us'', 1000), ([CHR 0xC2, CHR 0xB5, CHR ''s''], 1000), ([CHR 0xCE, CHR 0xBC, CHR ''s''], 1000),
      (''ms'', 1000000), (''s'', 1000000000), (''m'', 60000000000), (''h'', 3600000000000)]"

text \<open>The leading digits as an integer; the value may not exceed 2^63.\<close>

fun leading_int :: "int \<Rightarrow> gostring \<Rightarrow> (int \<times> gostring) option" where
  "leading_int x [] = Some (x, [])"
| "leading_int x (c # s) =
     (if \<not> is_digit c then Some (x, c # s)
      else if 2 ^ 63 div 10 < x then None
      else let y = 10 * x + int (digit_val c) in if 2 ^ 63 < y then None else leading_int y s)"

text \<open>The digits of a fraction with their scale; digits that would overflow are skipped.\<close>

fun leading_fraction :: "bool \<Rightarrow> int \<Rightarrow> int \<Rightarrow> gostring \<Rightarrow> int \<times> int \<times> gostring" where
  "leading_fraction overflow x scale [] = (x, scale, [])"
| "leading_fraction overflow x scale (c # s) =
     (if \<not> is_digit c then (x, scale, c # s)
      else if overflow \<or> (2 ^ 63 - 1) div 10 < x then leading_fraction True x scale s
      else let y = 10 * x + int (digit_val c) in
        if 2 ^ 63 < y then leading_fraction True x scale s else leading_fraction False y (10 * scale) s)"

text \<open>Truncation of a non-negative float64 to an integer.\<close>

definition f_trunc :: "float64 \<Rightarrow> int" where
  "f_trunc x = (case x of FNum r \<Rightarrow> \<lfloor>r\<rfloor> | _ \<Rightarrow> 0)"

definition unit_char :: "char \<Rightarrow> bool" where
  "unit_char c \<longleftrightarrow> \<not> (c = CHR ''.'' \<or> is_digit c)"

text \<open>The fraction after the integer part, with its scale, the rest, and whether it has digits.\<close>

definition scan_fraction :: "gostring \<Rightarrow> int \<times> int \<times> gostring \<times> bool" where
  "scan_fraction s =
     (case s of
        d # r \<Rightarrow>
          if d = CHR ''.'' then
            (case leading_fraction False 0 1 r of (f, sc, q) \<Rightarrow> (f, sc, q, length q \<noteq> length r))
          else (0, 1, s, False)
      | [] \<Rightarrow> (0, 1, s, False))"

text \<open>One number with its unit: the nanoseconds and the rest.\<close>

definition parse_component :: "gostring \<Rightarrow> (int \<times> gostring) option" where
  "parse_component s =
     (case s of
        [] \<Rightarrow> None
      | c # cs \<Rightarrow>
          if unit_char c then None
          else
            (case leading_int 0 s of
               None \<Rightarrow> None
             | Some (v, s1) \<Rightarrow>
                 let pre = length s1 \<noteq> length s;
                     (f, scale, s2, post) = scan_fraction s1;
                     u = takeWhile unit_char s2;
                     rest = dropWhile unit_char s2
                 in if \<not> pre \<and> \<not> post then None
                    else if u = [] then None
                    else
                      (case map_of time_units u of
                         None \<Rightarrow> None
                       | Some unit \<Rightarrow>
                           if 2 ^ 63 div unit < v then None
                           else
                             let v1 = v * unit;
                                 v2 = (if 0 < f then
                                   v1 + f_trunc (fmul (f_of_int f) (fdiv (f_of_int unit) (f_of_int scale))) else v1)
                             in if 0 < f \<and> 2 ^ 63 < v2 then None else Some (v2, rest))))"

lemma leading_int_length: "leading_int x s = Some (y, r) \<Longrightarrow> length r \<le> length s"
  by (induction x s rule: leading_int.induct) (auto simp: Let_def split: if_splits)

lemma leading_fraction_length: "leading_fraction b x sc s = (f, sc', r) \<Longrightarrow> length r \<le> length s"
  by (induction b x sc s rule: leading_fraction.induct) (auto simp: Let_def split: if_splits)

lemma parse_component_length:
  assumes "parse_component s = Some (v, r)"
  shows "length r < length s"
proof -
  have shrink: "length (dropWhile unit_char t) < length t" if "takeWhile unit_char t \<noteq> []" for t
    using that by (cases t) (auto simp: length_dropWhile_le less_Suc_eq_le split: if_splits)
  obtain x s1 where li: "leading_int 0 s = Some (x, s1)"
    using assms by (auto simp: parse_component_def split: if_splits option.splits list.splits)
  obtain f sc s2 po where sf: "scan_fraction s1 = (f, sc, s2, po)" by (metis prod_cases4)
  have "length s2 \<le> length s1"
    using sf leading_fraction_length
    by (fastforce simp: scan_fraction_def split: list.splits if_splits prod.splits)
  moreover have "length s1 \<le> length s" by (rule leading_int_length [OF li])
  moreover have "takeWhile unit_char s2 \<noteq> []" "r = dropWhile unit_char s2"
    using assms li sf by (auto simp: parse_component_def Let_def split: if_splits option.splits list.splits)
  ultimately show ?thesis using shrink [of s2] by simp
qed

text \<open>The sum of the components; the 64-bit sum wraps around before it is compared.\<close>

function duration_sum :: "gostring \<Rightarrow> int \<Rightarrow> int option" where
  "duration_sum s d =
     (if s = [] then Some d
      else
        (case parse_component s of
           None \<Rightarrow> None
         | Some (v, rest) \<Rightarrow>
             let d' = (d + v) mod 2 ^ 64 in
             if 2 ^ 63 < d' then None else duration_sum rest d'))"
  by pat_completeness auto
termination by (relation "measure (\<lambda>(s, d). length s)") (auto simp: parse_component_length)

declare duration_sum.simps [simp del]

definition ParseDuration :: "gostring \<Rightarrow> int option" where
  "ParseDuration s0 =
     (let (neg, s) = (case s0 of c # r \<Rightarrow> if c = CHR ''-'' \<or> c = CHR ''+'' then (c = CHR ''-'', r) else (False, s0)
            | [] \<Rightarrow> (False, s0))
      in if s = ''0'' then Some 0
         else if s = [] then None
         else
           (case duration_sum s 0 of
              None \<Rightarrow> None
            | Some d \<Rightarrow>
                if neg then Some (if d = 2 ^ 63 then - (2 ^ 63) else - d)
                else if 2 ^ 63 - 1 < d then None
                else Some d))"

lemma ParseDuration_samples:
  "ParseDuration ''1h15m30s'' = Some 4530000000000" "ParseDuration ''-2ms'' = Some (-2000000)"
  "ParseDuration ''10'' = None" "ParseDuration ''.s'' = None"
  "ParseDuration ''9223372036854775808ns9223372036854775808ns'' = Some 0"
  by code_simp+

end
