(* ===== verification/Go_Format.thy ===== *)
theory Go_Format
  imports Go_Float Go_Strings
begin

text \<open>
  \<open>%g\<close> of \<open>fmt\<close> with the shortest precision: the fewest decimal digits that read back as the same
  float64, in exponent form below 10^-4 and from 10^6 on.
\<close>

definition pow10 :: "int \<Rightarrow> rat" where
  "pow10 e = (if 0 \<le> e then 10 ^ nat e else 1 / 10 ^ nat (- e))"

definition ilog10 :: "rat \<Rightarrow> int" where
  "ilog10 r = (case find (\<lambda>e. pow10 e \<le> r \<and> r < pow10 (e + 1)) [-324..309] of Some e \<Rightarrow> e | None \<Rightarrow> 0)"

text \<open>The closest value with \<open>n\<close> digits that reads back as \<open>r\<close>: the digits as an integer with the power
  of ten of its last digit.\<close>

definition digits_at :: "rat \<Rightarrow> int \<Rightarrow> (int \<times> int) option" where
  "digits_at r n =
     (let e = ilog10 r - n + 1; lo = \<lfloor>r / pow10 e\<rfloor>;
          ok = filter (\<lambda>d. fl (of_int d * pow10 e) = FNum r) [lo, lo + 1]
      in case ok of
           [] \<Rightarrow> None
         | [d] \<Rightarrow> Some (d, e)
         | d # d' # _ \<Rightarrow> Some (if r - of_int d * pow10 e \<le> of_int d' * pow10 e - r then (d, e) else (d', e)))"

definition shortest_digits :: "rat \<Rightarrow> int \<times> int" where
  "shortest_digits r =
     (case find (\<lambda>x. x \<noteq> None) (map (digits_at r) [1..17]) of Some (Some x) \<Rightarrow> x | _ \<Rightarrow> (0, 0))"

definition strip_zeros :: "gostring \<Rightarrow> gostring" where
  "strip_zeros s = rev (dropWhile (\<lambda>c. c = CHR ''0'') (rev s))"

definition fmt_exp :: "int \<Rightarrow> gostring" where
  "fmt_exp x = (if x < 0 then ''-'' else ''+'') @
     (let t = nat_str (nat \<bar>x\<bar>) in if length t < 2 then CHR ''0'' # t else t)"

definition fmt_g_pos :: "rat \<Rightarrow> gostring" where
  "fmt_g_pos r =
     (case shortest_digits r of
        (d, e) \<Rightarrow>
          let t = nat_str (nat d); x = int (length t) - 1 + e; ds = strip_zeros t in
          if x < - 4 \<or> 6 \<le> x then
            take 1 ds @ (if 1 < length ds then ''.'' @ drop 1 ds else []) @ ''e'' @ fmt_exp x
          else if x < 0 then ''0.'' @ replicate (nat (- x - 1)) (CHR ''0'') @ ds
          else if length ds \<le> nat x + 1 then ds @ replicate (nat x + 1 - length ds) (CHR ''0'')
          else take (nat x + 1) ds @ ''.'' @ drop (nat x + 1) ds)"

definition fmt_g :: "float64 \<Rightarrow> gostring" where
  "fmt_g v =
     (case v of
        FNaN \<Rightarrow> ''NaN''
      | FInf s \<Rightarrow> (if s then ''-Inf'' else ''+Inf'')
      | FNum r \<Rightarrow> if r = 0 then ''0'' else if r < 0 then CHR ''-'' # fmt_g_pos (- r) else fmt_g_pos r)"

end
