(* ===== verification/Scenario_Runner.thy ===== *)
theory Scenario_Runner
  imports Scenario_Types Go_Time Go_Json Go_Format "HOL-Library.Multiset"
begin

text \<open>
  Running a scenario: \<open>runner.go\<close>, the JSON paths of \<open>jsonpath.go\<close> and the durations of \<open>timeout.go\<close> in
  \<open>internal/scenario\<close>. A step executor, the timers and the clock are parameters; a context is the
  parent's or the one with the retry timeout, which is named by its duration. Go ranges over the
  variables in an unspecified order; here they are a list, and the order of the list is the order
  of the range.
\<close>

type_synonym vars = "gostring gomap"

section \<open>JSON paths\<close>

definition errInvalidJSONPath :: gostring where
  "errInvalidJSONPath = ''jsonpath: invalid path, must start with dollar-dot prefix''"
definition errJSONPathNotFound :: gostring where "errJSONPathNotFound = ''jsonpath: key not found''"
definition errJSONPathNotObject :: gostring where
  "errJSONPathNotObject = ''jsonpath: intermediate value is not an object''"
definition errJSONPathNotScalar :: gostring where
  "errJSONPathNotScalar = ''jsonpath: leaf value is not a scalar''"

text \<open>Decoding into \<open>any\<close> fails on a number that is no float64.\<close>

fun any_ok :: "json \<Rightarrow> bool" where
  "any_ok (JNum l) = (ParseFloat l \<noteq> None)"
| "any_ok (JArr vs) = list_all any_ok vs"
| "any_ok (JObj ms) = list_all (\<lambda>m. any_ok (snd m)) ms"
| "any_ok _ = True"

definition scalarToString :: "json \<Rightarrow> goerr + gostring" where
  "scalarToString v =
     (case v of
        JStr s \<Rightarrow> Inr s
      | JNum l \<Rightarrow>
          (case ParseFloat l of
             Some (FNum r) \<Rightarrow>
               Inr (if r = of_int \<lfloor>r\<rfloor> \<and> - (2 ^ 63) \<le> r \<and> r < 2 ^ 63 then int_str \<lfloor>r\<rfloor> else fmt_g (FNum r))
           | _ \<Rightarrow> Inl (new_err errJSONPathNotScalar))
      | JBool b \<Rightarrow> Inr (if b then ''true'' else ''false'')
      | JNull \<Rightarrow> Inr ''null''
      | _ \<Rightarrow> Inl (new_err errJSONPathNotScalar))"

definition path_err :: "gostring \<Rightarrow> gostring \<Rightarrow> goerr" where
  "path_err sentinel detail = \<lparr>er_msg = sentinel @ '': '' @ detail, er_is = [sentinel]\<rparr>"

text \<open>Down the keys from \<open>current\<close>; \<open>prev\<close> is the key before, or nothing at the root. Of equal keys of an
  object the last one counts.\<close>

fun walk_keys :: "gostring option \<Rightarrow> gostring list \<Rightarrow> json \<Rightarrow> goerr + json" where
  "walk_keys prev [] current = Inr current"
| "walk_keys prev (key # keys) current =
     (case current of
        JObj ms \<Rightarrow>
          (case map_of (rev ms) key of
             None \<Rightarrow> Inl (path_err errJSONPathNotFound (go_quote key))
           | Some v \<Rightarrow> walk_keys (Some key) keys v)
      | _ \<Rightarrow> Inl (path_err errJSONPathNotObject
               (case prev of None \<Rightarrow> ''root is not an object'' | Some k \<Rightarrow> ''at key '' @ go_quote k)))"

definition evalJSONPath :: "gostring \<Rightarrow> gostring \<Rightarrow> goerr + gostring" where
  "evalJSONPath body path =
     (if \<not> has_prefix path ''$.'' then Inl (new_err errInvalidJSONPath)
      else
        let keys = split_on (CHR ''.'') (drop 2 path) in
        if hd keys = [] then Inl (new_err errInvalidJSONPath)
        else
          (case json_parse body of
             None \<Rightarrow> Inl \<lparr>er_msg = ''jsonpath: unmarshal'', er_is = []\<rparr>
           | Some doc \<Rightarrow>
               if \<not> any_ok doc then Inl \<lparr>er_msg = ''jsonpath: unmarshal'', er_is = []\<rparr>
               else
                 (case walk_keys None keys doc of
                    Inl e \<Rightarrow> Inl e
                  | Inr v \<Rightarrow> scalarToString v)))"

section \<open>Variables and captures\<close>

text \<open>\<open>{name}\<close> is replaced for every variable in turn.\<close>

definition substituteVars :: "gostring \<Rightarrow> vars \<Rightarrow> gostring" where
  "substituteVars s vars = fold (\<lambda>(name, v) t. replace_all (''{'' @ name @ ''}'') v t) vars s"

definition errNoCapture :: gostring where "errNoCapture = ''capture has neither source nor jsonpath''"

definition source_of :: "gostring gomap \<Rightarrow> gostring \<Rightarrow> gostring" where
  "source_of m k = (case gm_get m k of Some v \<Rightarrow> v | None \<Rightarrow> [])"

definition resolveCapture :: "capture \<Rightarrow> stepOutput \<Rightarrow> goerr + gostring" where
  "resolveCapture c output =
     (if cp_Source c \<noteq> [] then
        let body = source_of (so_CaptureSources output) (cp_Source c) in
        if cp_JSONPath c \<noteq> [] then evalJSONPath body (cp_JSONPath c) else Inr (trim_space body)
      else if cp_JSONPath c \<noteq> [] then evalJSONPath (so_CaptureBody output) (cp_JSONPath c)
      else Inl (new_err errNoCapture))"

text \<open>The captures before a failing one keep their values.\<close>

fun applyCaptures :: "capture list \<Rightarrow> stepOutput \<Rightarrow> vars \<Rightarrow> goerr option \<times> vars" where
  "applyCaptures [] output vars = (None, vars)"
| "applyCaptures (c # cs) output vars =
     (case resolveCapture c output of
        Inl e \<Rightarrow> (Some (wrap_err (''capture '' @ go_quote (cp_Name c)) e), vars)
      | Inr v \<Rightarrow> applyCaptures cs output (gm_put (cp_Name c) v vars))"

section \<open>Execution\<close>

definition parseStepTimeout :: "gostring \<Rightarrow> int \<Rightarrow> goerr + int" where
  "parseStepTimeout s defaultTimeout =
     (if s = [] then Inr defaultTimeout
      else
        (case ParseDuration s of
           None \<Rightarrow> Inl \<lparr>er_msg = ''invalid duration '' @ go_quote s, er_is = []\<rparr>
         | Some d \<Rightarrow> Inr d))"

definition defaultRetryAttempts :: int where "defaultRetryAttempts = 3"
definition defaultRetryInterval :: int where "defaultRetryInterval = 1000000000"

definition errSetupFailed :: gostring where "errSetupFailed = ''runner: setup step failed''"
definition errNoExecutorRegistered :: gostring where
  "errNoExecutorRegistered = ''no executor registered for step type''"
definition errRetryInvalidInterval :: gostring where "errRetryInvalidInterval = ''retry: invalid interval''"
definition errRetryInvalidTimeout :: gostring where "errRetryInvalidTimeout = ''retry: invalid timeout''"
definition errInvalidDelay :: gostring where "errInvalidDelay = ''step: invalid delay duration''"
definition errUnknownStepType :: gostring where
  "errUnknownStepType = ''step has no recognized step type (need request, exec, browser, grpc, ws, or tui)''"

text \<open>Go's two results: an output, and an error that may come with it.\<close>

type_synonym 'w execute = "int option \<Rightarrow> step \<Rightarrow> vars \<Rightarrow> 'w \<Rightarrow> (stepOutput \<times> goerr option) \<times> 'w"

text \<open>A timer that fires, or the error of the context that is done before.\<close>

record 'w runner =
  rn_Executors :: "(gostring \<times> 'w execute) list"
  rn_Sleep :: "int option \<Rightarrow> int \<Rightarrow> 'w \<Rightarrow> goerr option \<times> 'w"
  rn_Now :: "'w \<Rightarrow> int"

definition no_output :: stepOutput where
  "no_output = \<lparr>so_Observed = [], so_CaptureBody = [], so_CaptureSources = []\<rparr>"

definition wrap_two :: "gostring \<Rightarrow> goerr \<Rightarrow> goerr" where
  "wrap_two sentinel e = \<lparr>er_msg = sentinel @ '': '' @ er_msg e, er_is = sentinel # er_is e\<rparr>"

definition resolveExecutor :: "'w runner \<Rightarrow> step \<Rightarrow> goerr + 'w execute" where
  "resolveExecutor r s =
     (if StepType s = [] then Inl (new_err errUnknownStepType)
      else
        (case map_of (rn_Executors r) (StepType s) of
           None \<Rightarrow> Inl \<lparr>er_msg = errNoExecutorRegistered @ '': '' @ go_quote (StepType s),
                        er_is = [errNoExecutorRegistered]\<rparr>
         | Some x \<Rightarrow> Inr x))"

definition applyDelay :: "'w runner \<Rightarrow> gostring \<Rightarrow> 'w \<Rightarrow> goerr option \<times> 'w" where
  "applyDelay r delay w =
     (if delay = [] then (None, w)
      else
        (case parseStepTimeout delay 0 of
           Inl e \<Rightarrow> (Some (wrap_two errInvalidDelay e), w)
         | Inr d \<Rightarrow> rn_Sleep r None d w))"

text \<open>The attempts that are left; the loop sleeps between two attempts, not after the last.\<close>

fun retry_loop ::
    "'w runner \<Rightarrow> 'w execute \<Rightarrow> int option \<Rightarrow> step \<Rightarrow> vars \<Rightarrow> int \<Rightarrow> nat \<Rightarrow> 'w \<Rightarrow> (stepOutput \<times> goerr option) \<times> 'w" where
  "retry_loop r ex ctxt s vars interval 0 w = ((no_output, None), w)"
| "retry_loop r ex ctxt s vars interval (Suc n) w =
     (case ex ctxt s vars w of
        ((output, None), w1) \<Rightarrow> ((output, None), w1)
      | ((output, Some e), w1) \<Rightarrow>
          if n = 0 then ((output, Some e), w1)
          else
            (case rn_Sleep r ctxt interval w1 of
               (Some ce, w2) \<Rightarrow> ((output, Some ce), w2)
             | (None, w2) \<Rightarrow> retry_loop r ex ctxt s vars interval n w2))"

definition executeWithRetry ::
    "'w runner \<Rightarrow> 'w execute \<Rightarrow> step \<Rightarrow> vars \<Rightarrow> retry \<Rightarrow> 'w \<Rightarrow> (stepOutput \<times> goerr option) \<times> 'w" where
  "executeWithRetry r ex s vars rt w =
     (let attempts = (if rt_Attempts rt \<le> 0 then defaultRetryAttempts else rt_Attempts rt) in
      case parseStepTimeout (rt_Interval rt) defaultRetryInterval of
        Inl e \<Rightarrow> ((no_output, Some (wrap_two errRetryInvalidInterval e)), w)
      | Inr interval \<Rightarrow>
          if rt_Timeout rt \<noteq> [] then
            (case parseStepTimeout (rt_Timeout rt) 0 of
               Inl e \<Rightarrow> ((no_output, Some (wrap_two errRetryInvalidTimeout e)), w)
             | Inr timeout \<Rightarrow> retry_loop r ex (Some timeout) s vars interval (nat attempts) w)
          else retry_loop r ex None s vars interval (nat attempts) w)"

definition executeStep ::
    "'w runner \<Rightarrow> 'w execute \<Rightarrow> step \<Rightarrow> vars \<Rightarrow> 'w \<Rightarrow> (stepOutput \<times> goerr option) \<times> 'w" where
  "executeStep r ex s vars w =
     (case st_Retry s of
        None \<Rightarrow> ex None s vars w
      | Some rt \<Rightarrow> executeWithRetry r ex s vars rt w)"

definition setup_err :: "nat \<Rightarrow> step \<Rightarrow> goerr \<Rightarrow> goerr" where
  "setup_err i s e =
     \<lparr>er_msg = errSetupFailed @ '': step '' @ nat_str i @ '' ('' @ st_Description s @ ''): '' @ er_msg e,
      er_is = errSetupFailed # er_is e\<rparr>"

definition setup_capture_err :: "nat \<Rightarrow> goerr \<Rightarrow> goerr" where
  "setup_capture_err i e =
     \<lparr>er_msg = errSetupFailed @ '': step '' @ nat_str i @ '' capture: '' @ er_msg e,
      er_is = errSetupFailed # er_is e\<rparr>"

text \<open>The setup steps from number \<open>i\<close> on; the first failure ends the scenario.\<close>

fun run_setup :: "'w runner \<Rightarrow> nat \<Rightarrow> step list \<Rightarrow> vars \<Rightarrow> 'w \<Rightarrow> (goerr + vars) \<times> 'w" where
  "run_setup r i [] vars w = (Inr vars, w)"
| "run_setup r i (s # ss) vars w =
     (case applyDelay r (st_Delay s) w of
        (Some e, w1) \<Rightarrow> (Inl (setup_err i s e), w1)
      | (None, w1) \<Rightarrow>
          (case resolveExecutor r s of
             Inl e \<Rightarrow> (Inl (setup_err i s e), w1)
           | Inr ex \<Rightarrow>
               (case executeStep r ex s vars w1 of
                  ((output, Some e), w2) \<Rightarrow> (Inl (setup_err i s e), w2)
                | ((output, None), w2) \<Rightarrow>
                    (case applyCaptures (st_Capture s) output vars of
                       (Some e, vars1) \<Rightarrow> (Inl (setup_capture_err i e), w2)
                     | (None, vars1) \<Rightarrow> run_setup r (Suc i) ss vars1 w2))))"

definition failed_step :: "step \<Rightarrow> int \<Rightarrow> goerr \<Rightarrow> stepResult" where
  "failed_step s dur e =
     \<lparr>sr_Description = st_Description s, sr_StepType = StepType s, sr_Observed = [], sr_CaptureBody = [],
      sr_Duration = dur, sr_Err = Some e\<rparr>"

definition executed_step :: "step \<Rightarrow> int \<Rightarrow> stepOutput \<Rightarrow> goerr option \<Rightarrow> stepResult" where
  "executed_step s dur output e =
     \<lparr>sr_Description = st_Description s, sr_StepType = StepType s, sr_Observed = so_Observed output,
      sr_CaptureBody = so_CaptureBody output, sr_Duration = dur, sr_Err = e\<rparr>"

text \<open>One judged step: its result, and the variables for the next one.\<close>

definition run_step :: "'w runner \<Rightarrow> step \<Rightarrow> vars \<Rightarrow> 'w \<Rightarrow> stepResult \<times> vars \<times> 'w" where
  "run_step r s vars w =
     (case applyDelay r (st_Delay s) w of
        (Some e, w1) \<Rightarrow> (failed_step s (rn_Now r w1 - rn_Now r w) e, vars, w1)
      | (None, w1) \<Rightarrow>
          (case resolveExecutor r s of
             Inl e \<Rightarrow> (failed_step s (rn_Now r w1 - rn_Now r w) e, vars, w1)
           | Inr ex \<Rightarrow>
               (case executeStep r ex s vars w1 of
                  ((output, e), w2) \<Rightarrow>
                    (executed_step s (rn_Now r w2 - rn_Now r w) output e,
                     (if e \<noteq> None then vars else snd (applyCaptures (st_Capture s) output vars)), w2))))"

fun run_steps :: "'w runner \<Rightarrow> step list \<Rightarrow> vars \<Rightarrow> 'w \<Rightarrow> stepResult list \<times> 'w" where
  "run_steps r [] vars w = ([], w)"
| "run_steps r (s # ss) vars w =
     (case run_step r s vars w of
        (res, vars1, w1) \<Rightarrow> (case run_steps r ss vars1 w1 of (rest, w2) \<Rightarrow> (res # rest, w2)))"

definition run_scenario :: "'w runner \<Rightarrow> scenario \<Rightarrow> 'w \<Rightarrow> (goerr + scenarioResult) \<times> 'w" where
  "run_scenario r sc w =
     (case run_setup r 0 (sc_Setup sc) [] w of
        (Inl e, w1) \<Rightarrow> (Inl e, w1)
      | (Inr vars, w1) \<Rightarrow>
          (case run_steps r (sc_Steps sc) vars w1 of
             (results, w2) \<Rightarrow> (Inr \<lparr>sx_ScenarioID = sc_ID sc, sx_Steps = results\<rparr>, w2)))"

section \<open>Substitution as one pass\<close>

text \<open>
  What the replacements amount to: one pass over the text, which knows only the braces of the text
  itself. A variable's name is a run of letters, digits, underscores and dashes.
\<close>

definition name_char :: "char \<Rightarrow> bool" where
  "name_char c \<longleftrightarrow> is_digit c \<or> c = CHR ''_'' \<or> c = CHR ''-'' \<or>
     (CHR ''a'' \<le> c \<and> c \<le> CHR ''z'') \<or> (CHR ''A'' \<le> c \<and> c \<le> CHR ''Z'')"

abbreviation LBRACE :: char where "LBRACE \<equiv> CHR 0x7B"
abbreviation RBRACE :: char where "RBRACE \<equiv> CHR 0x7D"

definition var_token :: "gostring \<Rightarrow> gostring" where
  "var_token n = LBRACE # n @ [RBRACE]"

definition name_run :: "gostring \<Rightarrow> gostring" where "name_run s = takeWhile name_char s"
definition after_name :: "gostring \<Rightarrow> gostring" where "after_name s = dropWhile name_char s"

text \<open>The name of the token that starts after an opening brace, if one does.\<close>

definition token_name :: "gostring \<Rightarrow> gostring option" where
  "token_name s = (if prefix [RBRACE] (after_name s) then Some (name_run s) else None)"

function expand_vars :: "(gostring \<Rightarrow> gostring option) \<Rightarrow> gostring \<Rightarrow> gostring" where
  "expand_vars m s =
     (case s of
        [] \<Rightarrow> []
      | c # cs \<Rightarrow>
          (case (if c = LBRACE then Option.bind (token_name cs) m else None) of
             Some v \<Rightarrow> v @ expand_vars m (drop 1 (after_name cs))
           | None \<Rightarrow> c # expand_vars m cs))"
  by pat_completeness auto
termination
  by (relation "measure (\<lambda>(m, s). length s)")
    (auto simp: after_name_def intro: le_less_trans [OF diff_le_self] le_less_trans [OF length_dropWhile_le])

declare expand_vars.simps [simp del]

text \<open>No opening brace is followed by a name and another opening brace.\<close>

fun no_nesting :: "gostring \<Rightarrow> bool" where
  "no_nesting [] = True"
| "no_nesting (c # cs) = ((c = LBRACE \<longrightarrow> \<not> prefix [LBRACE] (after_name cs)) \<and> no_nesting cs)"

definition brace_free :: "gostring \<Rightarrow> bool" where
  "brace_free v \<longleftrightarrow> LBRACE \<notin> set v \<and> RBRACE \<notin> set v"

lemma name_char_braces [simp]: "\<not> name_char LBRACE" "\<not> name_char RBRACE"
  by (simp_all add: name_char_def is_digit_def less_eq_char_def)

lemma name_split: "s = name_run s @ after_name s"
  by (simp add: name_run_def after_name_def)

lemma name_run_all: "list_all name_char (name_run s)"
  by (auto simp: name_run_def list_all_iff dest: set_takeWhileD)

lemma after_name_hd: "after_name s = c # t \<Longrightarrow> \<not> name_char c"
  unfolding after_name_def by (metis dropWhile_eq_Cons_conv)

lemma expand_Nil [simp]: "expand_vars m [] = []"
  by (simp add: expand_vars.simps)

lemma expand_plain: "c \<noteq> LBRACE \<Longrightarrow> expand_vars m (c # cs) = c # expand_vars m cs"
  by (simp add: expand_vars.simps)

lemma expand_plains: "LBRACE \<notin> set u \<Longrightarrow> expand_vars m (u @ s) = u @ expand_vars m s"
  by (induction u) (auto simp: expand_plain)

lemma expand_none: "expand_vars (\<lambda>_. None) s = s"
  by (induction s) (simp_all add: expand_vars.simps split: option.splits)

lemma replace_plains: "LBRACE \<notin> set u \<Longrightarrow> replace_all (var_token n) v (u @ s) = u @ replace_all (var_token n) v s"
  by (induction u) (auto simp: replace_all.simps [of _ _ "_ # _"] var_token_def)

lemma no_nesting_append: "no_nesting (u @ s) \<Longrightarrow> no_nesting s"
  by (induction u) auto

lemma no_nesting_after: "no_nesting s \<Longrightarrow> no_nesting (after_name s)"
  by (metis name_split no_nesting_append)

lemma run_prefix:
  assumes "list_all name_char n" "list_all name_char u" "t = [] \<or> \<not> name_char (hd t)"
  shows "prefix (n @ [RBRACE]) (u @ t) \<longleftrightarrow> n = u \<and> prefix [RBRACE] t"
  using assms
proof (induction n arbitrary: u)
  case Nil
  then show ?case by (cases u) auto
next
  case (Cons c n)
  then show ?case by (cases u; cases t) auto
qed

text \<open>The head of an expanded text whose head is no brace.\<close>

lemma expand_hd:
  assumes "\<not> prefix [LBRACE] t"
  shows "(expand_vars m t = [] \<longleftrightarrow> t = []) \<and> (t \<noteq> [] \<longrightarrow> hd (expand_vars m t) = hd t)"
  using assms by (cases t) (auto simp: expand_plain)

lemma token_prefix:
  assumes "list_all name_char n" "\<not> prefix [LBRACE] (after_name cs)"
  shows "prefix (var_token n) (LBRACE # expand_vars m cs) \<longleftrightarrow> token_name cs = Some n"
proof -
  have run: "LBRACE \<notin> set (name_run cs)" using name_run_all [of cs] by (auto simp: list_all_iff)
  have "expand_vars m cs = expand_vars m (name_run cs @ after_name cs)" using name_split by simp
  also have "\<dots> = name_run cs @ expand_vars m (after_name cs)" by (rule expand_plains [OF run])
  finally have e: "expand_vars m cs = name_run cs @ expand_vars m (after_name cs)" .
  have h: "(expand_vars m (after_name cs) = [] \<longleftrightarrow> after_name cs = []) \<and>
      (after_name cs \<noteq> [] \<longrightarrow> hd (expand_vars m (after_name cs)) = hd (after_name cs))"
    by (rule expand_hd [OF assms(2)])
  then have "expand_vars m (after_name cs) = [] \<or> \<not> name_char (hd (expand_vars m (after_name cs)))"
    using after_name_hd by (cases "after_name cs") auto
  then have "prefix (n @ [RBRACE]) (expand_vars m cs) \<longleftrightarrow> n = name_run cs \<and> prefix [RBRACE] (expand_vars m (after_name cs))"
    using run_prefix [OF assms(1) name_run_all] e by metis
  moreover have "prefix [RBRACE] (expand_vars m (after_name cs)) \<longleftrightarrow> prefix [RBRACE] (after_name cs)"
    using h by (cases "after_name cs"; cases "expand_vars m (after_name cs)") auto
  ultimately show ?thesis by (auto simp: var_token_def token_name_def)
qed

text \<open>One replacement adds one variable to the pass.\<close>

lemma replace_expand:
  assumes "list_all name_char n" "m n = None" "\<forall>k v. m k = Some v \<longrightarrow> brace_free v" "no_nesting s"
    "m' n = Some v" "\<forall>k. k \<noteq> n \<longrightarrow> m' k = m k"
  shows "replace_all (var_token n) v (expand_vars m s) = expand_vars m' s"
  using assms(4)
proof (induction s rule: length_induct)
  case (1 s)
  show ?case
  proof (cases s)
    case Nil
    then show ?thesis by (simp add: replace_all.simps)
  next
    case (Cons c cs)
    have nn: "no_nesting cs" using 1 Cons by simp
    have ih: "replace_all (var_token n) v (expand_vars m cs) = expand_vars m' cs" using 1 nn Cons by simp
    have len: "length (drop 1 (after_name cs)) < length s"
      using Cons length_dropWhile_le [of name_char cs] by (simp add: after_name_def)
    have "no_nesting (drop 1 (after_name cs))"
      using no_nesting_append [of "take 1 (after_name cs)" "drop 1 (after_name cs)"] no_nesting_after [OF nn] by simp
    with 1 len have ih2: "replace_all (var_token n) v (expand_vars m (drop 1 (after_name cs))) =
        expand_vars m' (drop 1 (after_name cs))" by blast
    show ?thesis
    proof (cases "c = LBRACE")
      case False
      then show ?thesis
        using ih Cons replace_plains [of "[c]" n v "expand_vars m cs"] by (simp add: expand_plain)
    next
      case True
      have nest: "\<not> prefix [LBRACE] (after_name cs)" using 1 Cons True by simp
      show ?thesis
      proof (cases "Option.bind (token_name cs) m")
        case None
        have e: "expand_vars m s = LBRACE # expand_vars m cs" 
          using None by (simp add: expand_vars.simps [of _ "LBRACE # cs"] Cons True)
        show ?thesis
        proof (cases "token_name cs = Some n")
          case hit: True
          have "name_run cs = n" "prefix [RBRACE] (after_name cs)"
            using hit by (auto simp: token_name_def split: if_splits)
          then have split: "cs = n @ RBRACE # drop 1 (after_name cs)"
            using name_split [of cs] by (auto simp: prefix_def)
          have "LBRACE \<notin> set (n @ [RBRACE])" using assms(1) by (auto simp: list_all_iff)
          then have "expand_vars m cs = (n @ [RBRACE]) @ expand_vars m (drop 1 (after_name cs))"
            using expand_plains [of "n @ [RBRACE]" m "drop 1 (after_name cs)"] split by simp
          then have "replace_all (var_token n) v (expand_vars m s) =
              v @ replace_all (var_token n) v (expand_vars m (drop 1 (after_name cs)))"
            using e by (subst replace_all.simps) (simp add: var_token_def)
          moreover have "expand_vars m' s = v @ expand_vars m' (drop 1 (after_name cs))"
            using hit Cons True assms(5) by (simp add: expand_vars.simps [of _ "LBRACE # cs"])
          ultimately show ?thesis using ih2 by simp
        next
          case miss: False
          then have "\<not> prefix (var_token n) (LBRACE # expand_vars m cs)"
            using token_prefix [OF assms(1) nest] by blast
          then have "replace_all (var_token n) v (expand_vars m s) = LBRACE # expand_vars m' cs"
            using e ih by (subst replace_all.simps) simp
          moreover have "Option.bind (token_name cs) m' = None"
            using None miss assms(6) by (cases "token_name cs") auto
          ultimately show ?thesis using Cons True by (simp add: expand_vars.simps [of _ "LBRACE # cs"])
        qed
      next
        case (Some w)
        then have bf: "LBRACE \<notin> set w" using assms(3) by (auto simp: brace_free_def bind_eq_Some_conv)
        have "Option.bind (token_name cs) m' = Some w"

        proof -
          from Some obtain k where k: "token_name cs = Some k" "m k = Some w" by (auto simp: bind_eq_Some_conv)
          with assms(2) have "k \<noteq> n" by auto
          with k assms(6) show ?thesis by simp
        qed
        then show ?thesis
          using Some Cons True ih2 replace_plains [OF bf] by (simp add: expand_vars.simps [of _ "LBRACE # cs"])
      qed
    qed
  qed
qed

definition plain_vars :: "vars \<Rightarrow> bool" where
  "plain_vars vars \<longleftrightarrow> distinct (map fst vars) \<and> list_all (\<lambda>(n, v). list_all name_char n \<and> brace_free v) vars"

lemma substituteVars_Cons: "substituteVars s ((n, v) # vars) = substituteVars (replace_all (var_token n) v s) vars"
  by (simp add: substituteVars_def var_token_def)

lemma substitute_expand:
  assumes "no_nesting s" "plain_vars vars" "\<forall>k v. m k = Some v \<longrightarrow> brace_free v" "\<forall>k \<in> set (map fst vars). m k = None"
  shows "substituteVars (expand_vars m s) vars = expand_vars (m ++ map_of vars) s"
  using assms(2-)
proof (induction vars arbitrary: m)
  case Nil
  then show ?case by (simp add: substituteVars_def)
next
  case (Cons nv vars)
  obtain n v where nv: "nv = (n, v)" by (cases nv)
  have a: "list_all name_char n" "brace_free v" "n \<notin> set (map fst vars)" "plain_vars vars"
    using Cons.prems nv by (auto simp: plain_vars_def)
  obtain m1 where m1: "m1 n = Some v" "\<forall>k. k \<noteq> n \<longrightarrow> m1 k = m k" by (metis fun_upd_other fun_upd_same)
  have "replace_all (var_token n) v (expand_vars m s) = expand_vars m1 s"
    by (rule replace_expand [OF a(1) _ Cons.prems(2) assms(1) m1]) (use Cons.prems nv in simp)
  moreover have "substituteVars (expand_vars m1 s) vars = expand_vars (m1 ++ map_of vars) s"
  proof (rule Cons.IH [OF a(4)])
    show "\<forall>k v. m1 k = Some v \<longrightarrow> brace_free v" using Cons.prems a(2) m1 by (metis option.inject)
    show "\<forall>k \<in> set (map fst vars). m1 k = None" using Cons.prems a(3) m1 nv by (metis list.set_intros(2) list.map(2) fst_conv)
  qed
  moreover have "m1 ++ map_of vars = m ++ map_of (nv # vars)"
  proof
    fix k
    show "(m1 ++ map_of vars) k = (m ++ map_of (nv # vars)) k"
      using a(3) m1 nv by (cases "k = n"; cases "map_of vars k") (force simp: map_add_def dest: map_of_SomeD)+
  qed
  ultimately show ?case by (simp only: nv substituteVars_Cons)
qed

text \<open>C26. Where the names are names, the values have no braces and the text nests none, the replacements
  of \<open>substituteVars\<close> are one simultaneous pass, in whatever order Go's range takes the variables;
  where a value holds a token, the order decides what is sent.\<close>

theorem substituteVars_spec:
  assumes "plain_vars vars" "no_nesting s" "mset vars' = mset vars"
  shows "substituteVars s vars' = expand_vars (gm_get vars) s \<and>
    substituteVars ''{a}'' [(''a'', ''{b}''), (''b'', ''x'')] = ''x'' \<and>
    substituteVars ''{a}'' [(''b'', ''x''), (''a'', ''{b}'')] = ''{b}''"
proof (intro conjI)
  have d: "distinct (map fst vars)" using assms(1) by (simp add: plain_vars_def)
  then have d': "distinct (map fst vars')"
    by (metis assms(3) mset_eq_imp_distinct_iff mset_map)
  have "plain_vars vars'"
    using assms(1) d' mset_eq_setD [OF assms(3)] by (simp add: plain_vars_def list_all_iff)
  then have "substituteVars (expand_vars (\<lambda>_. None) s) vars' = expand_vars (map_of vars') s"
    using substitute_expand [OF assms(2), of vars' "\<lambda>_. None"] by simp
  moreover have "map_of vars' = map_of vars"
    by (rule map_of_inject_set [THEN iffD2, OF d' d mset_eq_setD [OF assms(3)]])
  moreover have "gm_get vars = map_of vars" by (simp add: fun_eq_iff gm_get_def)
  ultimately show "substituteVars s vars' = expand_vars (gm_get vars) s" by (simp add: expand_none)
qed (code_simp+)

theorem substituteVars_spec_witness:
  "substituteVars ''/items/{id}?t={tok}{no}'' [(''tok'', ''abc''), (''id'', ''42'')] = ''/items/42?t=abc{no}''"
proof -
  have "plain_vars [(''id'', ''42''), (''tok'', ''abc'')]" by code_simp
  moreover have "no_nesting ''/items/{id}?t={tok}{no}''" by code_simp
  ultimately have "substituteVars ''/items/{id}?t={tok}{no}'' [(''tok'', ''abc''), (''id'', ''42'')] =
      expand_vars (gm_get [(''id'', ''42''), (''tok'', ''abc'')]) ''/items/{id}?t={tok}{no}''"
    using substituteVars_spec [of "[(''id'', ''42''), (''tok'', ''abc'')]" _ "[(''tok'', ''abc''), (''id'', ''42'')]"]
    by (simp add: add_mset_commute)
  also have "\<dots> = ''/items/42?t=abc{no}''" by code_simp
  finally show ?thesis .
qed

section \<open>Retries\<close>

text \<open>\<open>k\<close> attempts that fail, each followed by a timer that fires, lead from one world to another.\<close>

inductive failed_attempts ::
    "'w runner \<Rightarrow> 'w execute \<Rightarrow> int option \<Rightarrow> step \<Rightarrow> vars \<Rightarrow> int \<Rightarrow> nat \<Rightarrow> 'w \<Rightarrow> 'w \<Rightarrow> bool"
  for r ex ctxt s vars interval
where
  fa_none: "failed_attempts r ex ctxt s vars interval 0 w w"
| fa_more: "ex ctxt s vars w = ((output, Some e), w1) \<Longrightarrow> rn_Sleep r ctxt interval w1 = (None, w2) \<Longrightarrow>
    failed_attempts r ex ctxt s vars interval k w2 w3 \<Longrightarrow>
    failed_attempts r ex ctxt s vars interval (Suc k) w w3"

text \<open>How the last attempt of a retry ends: a success, the error of the last attempt allowed, or the
  context's error with the output of the attempt.\<close>

definition retry_ends ::
    "'w runner \<Rightarrow> 'w execute \<Rightarrow> int option \<Rightarrow> step \<Rightarrow> vars \<Rightarrow> int \<Rightarrow> bool \<Rightarrow> 'w \<Rightarrow> (stepOutput \<times> goerr option) \<times> 'w \<Rightarrow> bool" where
  "retry_ends r ex ctxt s vars interval final w res \<longleftrightarrow>
     (case ex ctxt s vars w of
        ((output, None), w1) \<Rightarrow> res = ((output, None), w1)
      | ((output, Some e), w1) \<Rightarrow>
          if final then res = ((output, Some e), w1)
          else (\<exists>ce w2. rn_Sleep r ctxt interval w1 = (Some ce, w2) \<and> res = ((output, Some ce), w2)))"

lemma retry_loop_run:
  "\<exists>k w1. k < Suc n \<and> failed_attempts r ex ctxt s vars interval k w w1 \<and>
     retry_ends r ex ctxt s vars interval (k = n) w1 (retry_loop r ex ctxt s vars interval (Suc n) w)"
proof (induction n arbitrary: w)
  case 0
  show ?case
    by (rule exI [of _ 0], rule exI [of _ w])
      (auto simp: retry_ends_def fa_none split: prod.splits option.splits)
next
  case (Suc n)
  obtain out oe w1 where x: "ex ctxt s vars w = ((out, oe), w1)" by (metis surj_pair)
  show ?case
  proof (cases oe)
    case None
    with x show ?thesis
      by (intro exI [of _ 0] exI [of _ w]) (simp add: retry_ends_def fa_none)
  next
    case (Some e)
    obtain oc w2 where sl: "rn_Sleep r ctxt interval w1 = (oc, w2)" by (metis surj_pair)
    show ?thesis
    proof (cases oc)
      case ce: (Some ce)
      with x Some sl show ?thesis
        by (intro exI [of _ 0] exI [of _ w]) (simp add: retry_ends_def fa_none)
    next
      case None
      obtain k w3 where k: "k < Suc n" "failed_attempts r ex ctxt s vars interval k w2 w3"
          "retry_ends r ex ctxt s vars interval (k = n) w3 (retry_loop r ex ctxt s vars interval (Suc n) w2)"
        using Suc.IH by blast
      have "failed_attempts r ex ctxt s vars interval (Suc k) w w3"
        by (rule fa_more [OF _ _ k(2)]) (use x Some sl None in simp_all)
      moreover have "retry_loop r ex ctxt s vars interval (Suc (Suc n)) w = retry_loop r ex ctxt s vars interval (Suc n) w2"
        using x Some sl None by (simp only: retry_loop.simps(2) [of _ _ _ _ _ _ "Suc n" w]) simp
      ultimately show ?thesis
        using k(1,3) by (intro exI [of _ "Suc k"] exI [of _ w3]) simp
    qed
  qed
qed

definition retry_attempts :: "retry \<Rightarrow> nat" where
  "retry_attempts rt = (if rt_Attempts rt \<le> 0 then 3 else nat (rt_Attempts rt))"

text \<open>The context of the attempts: the parent's, or one with the step's timeout.\<close>

definition retry_context :: "retry \<Rightarrow> goerr + int option" where
  "retry_context rt =
     (if rt_Timeout rt = [] then Inr None
      else (case parseStepTimeout (rt_Timeout rt) 0 of Inl e \<Rightarrow> Inl e | Inr t \<Rightarrow> Inr (Some t)))"

text \<open>C25. A retried step with a readable interval and timeout is attempted at least once and at most the
  configured number of times (three by default): some attempts fail and wait for the interval, and
  the result is that of the next one, which succeeds, or is the last, or is cut short by the context.
  An unreadable interval or timeout is an error before any attempt.\<close>

theorem executeWithRetry_spec:
  "(\<forall>e. parseStepTimeout (rt_Interval rt) defaultRetryInterval = Inl e \<longrightarrow>
      executeWithRetry r ex s vars rt w = ((no_output, Some (wrap_two errRetryInvalidInterval e)), w)) \<and>
   (\<forall>i e. parseStepTimeout (rt_Interval rt) defaultRetryInterval = Inr i \<longrightarrow> retry_context rt = Inl e \<longrightarrow>
      executeWithRetry r ex s vars rt w = ((no_output, Some (wrap_two errRetryInvalidTimeout e)), w)) \<and>
   (\<forall>i c. parseStepTimeout (rt_Interval rt) defaultRetryInterval = Inr i \<longrightarrow> retry_context rt = Inr c \<longrightarrow>
      (\<exists>k w1. k < retry_attempts rt \<and> failed_attempts r ex c s vars i k w w1 \<and>
        retry_ends r ex c s vars i (Suc k = retry_attempts rt) w1 (executeWithRetry r ex s vars rt w)))"
proof (intro conjI allI impI, goal_cases)
  case (3 i c)
  obtain n where n: "retry_attempts rt = Suc n"
    by (cases "retry_attempts rt") (auto simp: retry_attempts_def split: if_splits)
  have a: "nat (if rt_Attempts rt \<le> 0 then defaultRetryAttempts else rt_Attempts rt) = Suc n"
    using n by (auto simp: retry_attempts_def defaultRetryAttempts_def split: if_splits)
  have "executeWithRetry r ex s vars rt w = retry_loop r ex c s vars i (Suc n) w"
    using 3 unfolding executeWithRetry_def Let_def a
    by (auto simp: retry_context_def simp del: retry_loop.simps split: if_splits sum.splits)
  with retry_loop_run [of n r ex c s vars i w] show ?case by (simp add: n del: retry_loop.simps)
qed (auto simp: executeWithRetry_def retry_context_def Let_def split: if_splits sum.splits)

text \<open>An executor that counts its calls and succeeds at the third, and timers that fire.\<close>

definition third_time :: "nat execute" where
  "third_time ctxt s vars w =
     ((no_output\<lparr>so_Observed := nat_str w\<rparr>, if w < 2 then Some (new_err ''refused'') else None), Suc w)"

definition steady :: "nat runner" where
  "steady = \<lparr>rn_Executors = [(''request'', third_time)], rn_Sleep = (\<lambda>c d w. (None, w)), rn_Now = int\<rparr>"

definition five_times :: retry where
  "five_times = \<lparr>rt_Attempts = 5, rt_Interval = [], rt_Timeout = []\<rparr>"

lemma third_time_runs: "executeWithRetry steady third_time capture_step [] five_times 0 =
    ((no_output\<lparr>so_Observed := ''2''\<rparr>, None), 3)"
  by code_simp

theorem executeWithRetry_spec_witness:
  "\<exists>k w1. k < 5 \<and> failed_attempts steady third_time None capture_step [] defaultRetryInterval k 0 w1 \<and>
     retry_ends steady third_time None capture_step [] defaultRetryInterval (Suc k = 5) w1
       ((no_output\<lparr>so_Observed := ''2''\<rparr>, None), 3)"
  using executeWithRetry_spec [of five_times steady third_time capture_step "[]" 0]
  by (simp add: third_time_runs) (simp add: five_times_def parseStepTimeout_def retry_context_def retry_attempts_def)

section \<open>Runs\<close>

text \<open>One result per step, in the order of the steps; a step that no executor takes fails.\<close>

definition result_for :: "'w runner \<Rightarrow> step \<Rightarrow> stepResult \<Rightarrow> bool" where
  "result_for r s x \<longleftrightarrow> sr_Description x = st_Description s \<and> sr_StepType x = StepType s \<and>
     (\<forall>e. resolveExecutor r s = Inl e \<longrightarrow> sr_Err x \<noteq> None)"

lemma run_step_for: "run_step r s vars w = (x, vars1, w1) \<Longrightarrow> result_for r s x"
  by (auto simp: run_step_def failed_step_def executed_step_def result_for_def split: prod.splits option.splits sum.splits)

lemma run_steps_for: "run_steps r ss vars w = (xs, w1) \<Longrightarrow> list_all2 (result_for r) ss xs"
  by (induction ss arbitrary: vars w xs w1) (auto dest: run_step_for split: prod.splits)

lemma run_setup_err: "run_setup r i ss vars w = (Inl e, w1) \<Longrightarrow> errors_Is e errSetupFailed"
  by (induction r i ss vars w rule: run_setup.induct)
    (auto simp: errors_Is_def setup_err_def setup_capture_err_def split: prod.splits option.splits sum.splits)

text \<open>C22. A scenario whose setup fails ends with the setup error; any other gives exactly one result per
  judged step, in the order of the steps and under their descriptions and types, whatever fails on
  the way, and a step without a registered executor is a failed one.\<close>

theorem run_scenario_spec:
  "(\<forall>e w1. run_scenario r sc w = (Inl e, w1) \<longrightarrow> errors_Is e errSetupFailed \<and> run_setup r 0 (sc_Setup sc) [] w = (Inl e, w1)) \<and>
   (\<forall>x w1. run_scenario r sc w = (Inr x, w1) \<longrightarrow> sx_ScenarioID x = sc_ID sc \<and> list_all2 (result_for r) (sc_Steps sc) (sx_Steps x)) \<and>
   (sc_Setup sc = [] \<longrightarrow> (\<exists>x w1. run_scenario r sc w = (Inr x, w1)))"
proof (intro conjI allI impI, goal_cases)
  case (1 e w1)
  then show ?case by (auto simp: run_scenario_def dest: run_setup_err split: prod.splits sum.splits)
next
  case (2 e w1)
  then show ?case by (auto simp: run_scenario_def split: prod.splits sum.splits)
qed (auto simp: run_scenario_def dest!: run_steps_for split: prod.splits sum.splits)

theorem run_scenario_spec_witness:
  "\<exists>x w1. run_scenario steady (sample_scenario\<lparr>sc_Setup := []\<rparr>) 0 = (Inr x, w1) \<and> length (sx_Steps x) = 3"
proof -
  have "sc_Setup (sample_scenario\<lparr>sc_Setup := []\<rparr>) = []" by simp
  with run_scenario_spec [of steady "sample_scenario\<lparr>sc_Setup := []\<rparr>" 0]
  obtain x w1 where x: "run_scenario steady (sample_scenario\<lparr>sc_Setup := []\<rparr>) 0 = (Inr x, w1)" by blast
  with run_scenario_spec [of steady "sample_scenario\<lparr>sc_Setup := []\<rparr>" 0]
  have "length (sc_Steps sample_scenario) = length (sx_Steps x)" by (auto dest: list_all2_lengthD)
  with x show ?thesis by (auto simp: sample_scenario_def)
qed

end
