(* ===== verification/Scenario_Judge.thy ===== *)
theory Scenario_Judge
  imports Scenario_Runner Llm
begin

text \<open>
  Judging a scenario (\<open>internal/scenario/judge.go\<close>, \<open>result.go\<close>): the prompt of a step, the scores of a
  scenario's steps, their average, and the weighted aggregate over scenarios in binary64 arithmetic.
  The model that judges is a parameter.
\<close>

type_synonym 'w judge = "judgeRequest \<Rightarrow> 'w \<Rightarrow> (goerr + judgeResponse) \<times> 'w"

record stepScore =
  ss_Score :: int
  ss_Reasoning :: gostring
  ss_Failures :: "gostring list"
  ss_Diagnostics :: "judgeDiagnostic list"
  ss_CostUSD :: float64

record scoredStep =
  sd_StepResult :: stepResult
  sd_StepScore :: stepScore

record scoredScenario =
  sn_ScenarioID :: gostring
  sn_Weight :: float64
  sn_Steps :: "scoredStep list"
  sn_Score :: float64

record aggregateResult =
  ag_Scenarios :: "scoredScenario list"
  ag_Satisfaction :: float64
  ag_TotalCostUSD :: float64
  ag_Failures :: "gostring list"

definition errStepCountMismatch :: gostring where
  "errStepCountMismatch = ''judge: step count mismatch between scenario and result''"

section \<open>A step\<close>

definition judge_prompt :: "scenario \<Rightarrow> step \<Rightarrow> gostring \<Rightarrow> gostring" where
  "judge_prompt sc s observed =
     replace_all ''{observed}'' observed
       (replace_all ''{expected}'' (st_Expect s)
         (replace_all ''{step_description}'' (st_Description s)
           (replace_all ''{scenario_description}'' (sc_Description sc) SatisfactionJudgeUser)))"

definition Score :: "'w judge \<Rightarrow> gostring \<Rightarrow> scenario \<Rightarrow> step \<Rightarrow> gostring \<Rightarrow> 'w \<Rightarrow> (goerr + stepScore) \<times> 'w" where
  "Score judge model sc s observed w =
     (case judge \<lparr>jr_SystemPrompt = SatisfactionJudgeSystem, jr_UserPrompt = judge_prompt sc s observed,
                  jr_Model = model, jr_CacheControl = Some ''ephemeral''\<rparr> w of
        (Inl e, w1) \<Rightarrow> (Inl (wrap_err ''judge score'' e), w1)
      | (Inr resp, w1) \<Rightarrow>
          (Inr \<lparr>ss_Score = jp_Score resp, ss_Reasoning = jp_Reasoning resp, ss_Failures = jp_Failures resp,
                ss_Diagnostics = jp_Diagnostics resp, ss_CostUSD = jp_CostUSD resp\<rparr>, w1))"

text \<open>A step that failed to execute scores zero; the judge is not called.\<close>

definition failed_score :: "goerr \<Rightarrow> stepScore" where
  "failed_score e =
     \<lparr>ss_Score = 0, ss_Reasoning = ''step execution failed: '' @ er_msg e, ss_Failures = [],
      ss_Diagnostics = [], ss_CostUSD = fzero\<rparr>"

definition score_step ::
    "'w judge \<Rightarrow> gostring \<Rightarrow> scenario \<Rightarrow> nat \<Rightarrow> step \<Rightarrow> stepResult \<Rightarrow> 'w \<Rightarrow> (goerr + scoredStep) \<times> 'w" where
  "score_step judge model sc i s x w =
     (case sr_Err x of
        Some e \<Rightarrow> (Inr \<lparr>sd_StepResult = x, sd_StepScore = failed_score e\<rparr>, w)
      | None \<Rightarrow>
          (case Score judge model sc s (sr_Observed x) w of
             (Inl e, w1) \<Rightarrow> (Inl (wrap_err (''score step '' @ nat_str i) e), w1)
           | (Inr score, w1) \<Rightarrow> (Inr \<lparr>sd_StepResult = x, sd_StepScore = score\<rparr>, w1)))"

section \<open>A scenario\<close>

definition f_of_score :: "scoredStep \<Rightarrow> float64" where
  "f_of_score x = f_of_int (ss_Score (sd_StepScore x))"

fun score_steps ::
    "'w judge \<Rightarrow> gostring \<Rightarrow> scenario \<Rightarrow> nat \<Rightarrow> (step \<times> stepResult) list \<Rightarrow> scoredStep list \<Rightarrow> float64 \<Rightarrow> 'w \<Rightarrow>
     (goerr + scoredStep list \<times> float64) \<times> 'w" where
  "score_steps judge model sc i [] acc tot w = (Inr (acc, tot), w)"
| "score_steps judge model sc i ((s, x) # rest) acc tot w =
     (case score_step judge model sc i s x w of
        (Inl e, w1) \<Rightarrow> (Inl e, w1)
      | (Inr y, w1) \<Rightarrow> score_steps judge model sc (Suc i) rest (acc @ [y]) (fadd tot (f_of_score y)) w1)"

definition weight_of :: "scenario \<Rightarrow> float64" where
  "weight_of sc = (case sc_Weight sc of None \<Rightarrow> FNum 1 | Some v \<Rightarrow> v)"

definition mismatch_err :: "nat \<Rightarrow> nat \<Rightarrow> goerr" where
  "mismatch_err n m =
     \<lparr>er_msg = errStepCountMismatch @ '': scenario has '' @ nat_str n @ '' steps, result has '' @ nat_str m,
      er_is = [errStepCountMismatch]\<rparr>"

definition ScoreScenario ::
    "'w judge \<Rightarrow> gostring \<Rightarrow> scenario \<Rightarrow> scenarioResult \<Rightarrow> 'w \<Rightarrow> (goerr + scoredScenario) \<times> 'w" where
  "ScoreScenario judge model sc res w =
     (if length (sx_Steps res) \<noteq> length (sc_Steps sc)
      then (Inl (mismatch_err (length (sc_Steps sc)) (length (sx_Steps res))), w)
      else
        (case score_steps judge model sc 0 (zip (sc_Steps sc) (sx_Steps res)) [] fzero w of
           (Inl e, w1) \<Rightarrow> (Inl e, w1)
         | (Inr (scored, tot), w1) \<Rightarrow>
             (Inr \<lparr>sn_ScenarioID = sx_ScenarioID res, sn_Weight = weight_of sc, sn_Steps = scored,
                   sn_Score = (if scored = [] then fzero else fdiv tot (f_of_int (int (length scored))))\<rparr>, w1)))"

section \<open>The aggregate\<close>

definition add_step_cost :: "float64 \<Rightarrow> scoredStep \<Rightarrow> float64" where
  "add_step_cost cost x = fadd cost (ss_CostUSD (sd_StepScore x))"

definition aggregate_step :: "float64 \<times> float64 \<times> float64 \<Rightarrow> scoredScenario \<Rightarrow> float64 \<times> float64 \<times> float64" where
  "aggregate_step acc sn =
     (case acc of (totalWeight, weightedSum, totalCost) \<Rightarrow>
        (fadd totalWeight (sn_Weight sn), fadd weightedSum (fmul (sn_Score sn) (sn_Weight sn)),
         foldl add_step_cost totalCost (sn_Steps sn)))"

definition failures_of :: "scoredScenario list \<Rightarrow> gostring list" where
  "failures_of scs = concat (map (\<lambda>sn. concat (map (\<lambda>x. ss_Failures (sd_StepScore x)) (sn_Steps sn))) scs)"

definition Aggregate :: "scoredScenario list \<Rightarrow> aggregateResult" where
  "Aggregate scs =
     (if scs = [] then \<lparr>ag_Scenarios = [], ag_Satisfaction = fzero, ag_TotalCostUSD = fzero, ag_Failures = []\<rparr>
      else
        (case foldl aggregate_step (fzero, fzero, fzero) scs of
           (totalWeight, weightedSum, totalCost) \<Rightarrow>
             \<lparr>ag_Scenarios = scs,
              ag_Satisfaction = (if fless fzero totalWeight then fdiv weightedSum totalWeight else fzero),
              ag_TotalCostUSD = totalCost,
              ag_Failures = sort (remdups (failures_of scs))\<rparr>))"

section \<open>A judged run\<close>

definition is_judge_err :: "'w judge \<Rightarrow> goerr \<Rightarrow> bool" where
  "is_judge_err judge e \<longleftrightarrow> (\<exists>req w je w1. judge req w = (Inl je, w1) \<and> er_is e = er_is je)"

lemma score_step_err: "score_step judge model sc i s x w = (Inl e, w1) \<Longrightarrow> is_judge_err judge e"
  by (fastforce simp: score_step_def Score_def is_judge_err_def wrap_err_def split: option.splits prod.splits sum.splits)

lemma score_steps_err: "score_steps judge model sc i sxs d t w = (Inl e, w1) \<Longrightarrow> is_judge_err judge e"
  by (induction judge model sc i sxs d t w rule: score_steps.induct)
    (auto dest: score_step_err split: prod.splits sum.splits)

lemma score_step_result: "score_step judge model sc i s x w = (Inr y, w1) \<Longrightarrow>
    sd_StepResult y = x \<and> (sr_Err x \<noteq> None \<longrightarrow> ss_Score (sd_StepScore y) = 0 \<and> w1 = w)"
  by (auto simp: score_step_def failed_score_def split: option.splits prod.splits sum.splits)

lemma score_steps_results: "score_steps judge model sc i sxs d t w = (Inr (ys, t1), w1) \<Longrightarrow>
    \<exists>zs. ys = d @ zs \<and> map sd_StepResult zs = map snd sxs \<and> t1 = foldl (\<lambda>t y. fadd t (f_of_score y)) t zs \<and>
      list_all (\<lambda>y. sr_Err (sd_StepResult y) \<noteq> None \<longrightarrow> ss_Score (sd_StepScore y) = 0) zs"
proof (induction judge model sc i sxs d t w rule: score_steps.induct)
  case (2 judge model sc i s x rest d t w)
  then obtain y w2 where y: "score_step judge model sc i s x w = (Inr y, w2)"
      "score_steps judge model sc (Suc i) rest (d @ [y]) (fadd t (f_of_score y)) w2 = (Inr (ys, t1), w1)"
    by (auto split: prod.splits sum.splits)
  from 2(1) [OF y(1) [symmetric] refl y(2)] obtain zs where
    zs: "ys = (d @ [y]) @ zs" "map sd_StepResult zs = map snd rest"
      "t1 = foldl (\<lambda>t y. fadd t (f_of_score y)) (fadd t (f_of_score y)) zs"
      "list_all (\<lambda>y. sr_Err (sd_StepResult y) \<noteq> None \<longrightarrow> ss_Score (sd_StepScore y) = 0) zs" by blast
  with score_step_result [OF y(1)] show ?case by (intro exI [of _ "y # zs"]) simp
qed simp

text \<open>C23. Running and scoring fit together: the score of a run of a scenario never fails for the number of
  steps, only with an error of the judge; and a score has the steps of the run in their order, zero
  for each step that failed to execute, and their mean.\<close>

theorem run_then_score:
  assumes "run_scenario r sc w = (Inr x, w1)"
  shows "(\<forall>e w2. ScoreScenario judge model sc x w1 = (Inl e, w2) \<longrightarrow> is_judge_err judge e) \<and>
    (\<forall>sn w2. ScoreScenario judge model sc x w1 = (Inr sn, w2) \<longrightarrow>
       sn_ScenarioID sn = sc_ID sc \<and> map sd_StepResult (sn_Steps sn) = sx_Steps x \<and>
       list_all (\<lambda>y. sr_Err (sd_StepResult y) \<noteq> None \<longrightarrow> ss_Score (sd_StepScore y) = 0) (sn_Steps sn) \<and>
       (sn_Steps sn \<noteq> [] \<longrightarrow> sn_Score sn =
          fdiv (foldl (\<lambda>t y. fadd t (f_of_score y)) fzero (sn_Steps sn)) (f_of_int (int (length (sn_Steps sn))))))"
proof -
  have r: "sx_ScenarioID x = sc_ID sc" "list_all2 (result_for r) (sc_Steps sc) (sx_Steps x)"
    using assms by (auto simp: run_scenario_def dest: run_steps_for split: prod.splits sum.splits)
  then have len: "length (sx_Steps x) = length (sc_Steps sc)" by (simp add: list_all2_lengthD)
  then have zs: "map snd (zip (sc_Steps sc) (sx_Steps x)) = sx_Steps x" by simp
  show ?thesis
    using r len zs
    by (auto simp: ScoreScenario_def dest: score_steps_err dest!: score_steps_results split: prod.splits sum.splits)
qed

definition kind_judge :: "nat judge" where
  "kind_judge req w =
     (Inr \<lparr>jp_Score = 100, jp_Reasoning = ''ok'', jp_Failures = [], jp_Diagnostics = [], jp_CostUSD = FNum 0\<rparr>, w)"

theorem run_then_score_witness:
  "\<exists>x w1. run_scenario steady sample_scenario 0 = (Inr x, w1) \<and>
    (\<forall>e w2. ScoreScenario kind_judge ''m'' sample_scenario x w1 = (Inl e, w2) \<longrightarrow> is_judge_err kind_judge e)"
proof -
  have "\<exists>x w1. run_scenario steady sample_scenario 0 = (Inr x, w1)"
    by (simp add: run_scenario_def sample_scenario_def split: prod.splits)
  then obtain x w1 where x: "run_scenario steady sample_scenario 0 = (Inr x, w1)" by blast
  with run_then_score [OF x, of kind_judge "''m''"] show ?thesis by blast
qed

section \<open>Perfect scores\<close>

text \<open>The sums over scenarios of score 100 whose weights are whole numbers are exact.\<close>

lemma fl_nat: "n < 2 ^ 53 \<Longrightarrow> fl (of_nat n) = FNum (of_nat n)"
  using fl_small_int [of "int n"] by simp

definition perfect :: "scoredScenario \<Rightarrow> nat \<Rightarrow> bool" where
  "perfect sn k \<longleftrightarrow> sn_Score sn = FNum 100 \<and> sn_Weight sn = FNum (of_nat k)"

lemma perfect_step:
  assumes "perfect sn k" "a + k \<le> 2 ^ 40"
  shows "\<exists>c'. aggregate_step (FNum (of_nat a), FNum (of_nat (100 * a)), c) sn =
    (FNum (of_nat (a + k)), FNum (of_nat (100 * (a + k))), c')"
proof -
  have "fadd (FNum (of_nat a)) (FNum (of_nat k)) = FNum (of_nat (a + k))"
    using assms(2) fl_nat [of "a + k"] by simp
  moreover have "fmul (FNum 100) (FNum (of_nat k)) = FNum (of_nat (100 * k))"
    using assms(2) fl_nat [of "100 * k"] by simp
  moreover have "fadd (FNum (of_nat (100 * a))) (FNum (of_nat (100 * k))) = FNum (of_nat (100 * (a + k)))"
    using assms(2) fl_nat [of "100 * (a + k)"] by (simp add: algebra_simps)
  ultimately show ?thesis using assms(1) by (simp add: perfect_def aggregate_step_def)
qed

lemma perfect_sums:
  assumes "list_all2 perfect scs ks" "a + sum_list ks \<le> 2 ^ 40"
  shows "\<exists>c'. foldl aggregate_step (FNum (of_nat a), FNum (of_nat (100 * a)), c) scs =
    (FNum (of_nat (a + sum_list ks)), FNum (of_nat (100 * (a + sum_list ks))), c')"
  using assms
proof (induction scs ks arbitrary: a c rule: list_all2_induct)
  case (Cons sn scs k ks)
  then obtain c1 where "aggregate_step (FNum (of_nat a), FNum (of_nat (100 * a)), c) sn =
      (FNum (of_nat (a + k)), FNum (of_nat (100 * (a + k))), c1)"
    using perfect_step [of sn k a c] by auto
  moreover have "\<exists>c'. foldl aggregate_step (FNum (of_nat (a + k)), FNum (of_nat (100 * (a + k))), c1) scs =
      (FNum (of_nat (a + k + sum_list ks)), FNum (of_nat (100 * (a + k + sum_list ks))), c')"
    using Cons.IH [of "a + k" c1] Cons.prems by (simp add: add.assoc)
  ultimately show ?case by (simp add: add.assoc)
qed simp

text \<open>The decimal weight 0.1 as a binary64 value, and the sums with it.\<close>

definition tenth :: float64 where "tenth = FNum (3602879701896397 / 36028797018963968)"

lemma tenth_is: "fl (1 / 10) = tenth"
  using fl_eval [of "-56" "1 / 10" 7205759403792794] by (simp add: pow2_def tenth_def abs_less_iff)

lemma tenth_sums:
  "fmul (FNum 100) tenth = FNum 10"
  "fadd tenth tenth = FNum (3602879701896397 / 18014398509481984)"
  "fadd (FNum (3602879701896397 / 18014398509481984)) tenth = FNum (1351079888211149 / 4503599627370496)"
  "fdiv (FNum 30) (FNum (1351079888211149 / 4503599627370496)) = FNum (7036874417766399 / 70368744177664)"
  using fl_eval [of "-49" "100 * (3602879701896397 / 36028797018963968)" 5629499534213120]
    fl_eval [of "-55" "3602879701896397 / 18014398509481984" 7205759403792794]
    fl_eval [of "-54" "3602879701896397 / 18014398509481984 + 3602879701896397 / 36028797018963968" 5404319552844596]
    fl_eval [of "-46" "30 / (5404319552844596 / 18014398509481984)" 7036874417766399]
  by (simp_all add: pow2_def tenth_def abs_less_iff)

definition tenth_scenario :: "scoredScenario" where
  "tenth_scenario = \<lparr>sn_ScenarioID = ''s'', sn_Weight = fl (1 / 10), sn_Steps = [], sn_Score = FNum 100\<rparr>"

lemma tenths_miss: "fless (ag_Satisfaction (Aggregate [tenth_scenario, tenth_scenario, tenth_scenario])) (FNum 100)"
proof -
  have "fadd fzero tenth = tenth" using tenth_is fl_eval [of "-56" "3602879701896397 / 36028797018963968" 7205759403792794]
    by (simp add: tenth_def pow2_def)
  moreover have "fadd fzero (FNum 10) = FNum 10" "fadd (FNum 10) (FNum 10) = FNum 20" "fadd (FNum 20) (FNum 10) = FNum 30"
    using fl_nat [of 10] fl_nat [of 20] fl_nat [of 30] by simp_all
  ultimately show ?thesis
    by (simp add: Aggregate_def tenth_scenario_def tenth_is aggregate_step_def tenth_sums del: fdiv.simps fadd.simps)
qed

text \<open>Scenarios that all score 100 and whose weights are whole numbers with a sum of at most 2 to the 40
  aggregate to exactly 100, and the failures are those of the steps, sorted and without repetition. With
  other weights the rounding of binary64 can keep perfect scores below 100: three scenarios of weight
  0.1 aggregate to less, so a threshold of 100 is never reached with them.\<close>

theorem Aggregate_perfect:
  assumes "list_all2 perfect scs ks" "0 < sum_list ks" "sum_list ks \<le> 2 ^ 40"
  shows "ag_Satisfaction (Aggregate scs) = FNum 100 \<and>
    set (ag_Failures (Aggregate scs)) = set (failures_of scs) \<and> sorted (ag_Failures (Aggregate scs)) \<and>
    distinct (ag_Failures (Aggregate scs)) \<and>
    fless (ag_Satisfaction (Aggregate [tenth_scenario, tenth_scenario, tenth_scenario])) (FNum 100)"
proof -
  have ne: "scs \<noteq> []" using assms(1,2) by auto
  obtain c where sums: "foldl aggregate_step (fzero, fzero, fzero) scs =
      (FNum (of_nat (sum_list ks)), FNum (of_nat (100 * sum_list ks)), c)"
    using perfect_sums [OF assms(1), of 0 fzero] assms(3) by auto
  have "fdiv (FNum (of_nat (100 * n))) (FNum (of_nat n)) = FNum 100" if "0 < n" for n
    using that fl_nat [of 100] by simp
  moreover obtain n where "sum_list ks = n" "0 < n" using assms(2) by blast
  ultimately have "ag_Satisfaction (Aggregate scs) = FNum 100"
    using ne sums by (simp add: Aggregate_def del: fdiv.simps)
  moreover have "ag_Failures (Aggregate scs) = sort (remdups (failures_of scs))"
    using ne by (simp add: Aggregate_def split: prod.split)
  ultimately show ?thesis using tenths_miss by simp
qed

theorem Aggregate_perfect_witness:
  "ag_Satisfaction (Aggregate [tenth_scenario\<lparr>sn_Weight := FNum 3\<rparr>, tenth_scenario\<lparr>sn_Weight := FNum 1\<rparr>]) = FNum 100"
  using Aggregate_perfect [of "[tenth_scenario\<lparr>sn_Weight := FNum 3\<rparr>, tenth_scenario\<lparr>sn_Weight := FNum 1\<rparr>]" "[3, 1]"]
  by (simp add: perfect_def tenth_scenario_def)

end
