(* ===== verification/Go_Json_Print.thy ===== *)
theory Go_Json_Print
  imports Go_Json
begin

text \<open>
  \<open>json.Marshal\<close> and \<open>json.MarshalIndent\<close>: the encoding of strings and of values, and that the parser of
  \<open>Go_Json\<close> reads back what they print.
\<close>

section \<open>Strings\<close>

text \<open>\<open>json.Marshal\<close> of a string without its quotes: short escapes, \<open>\u00xx\<close> for the other control
  characters and for the HTML characters, \<open>\ufffd\<close> for a byte that is no UTF-8, and the escapes of the
  two line separators.\<close>

definition hex_char :: "nat \<Rightarrow> char" where
  "hex_char d = (if d < 10 then char_of (48 + d) else char_of (87 + d))"

definition unicode_escape :: "char \<Rightarrow> gostring" where
  "unicode_escape c = [BACKSLASH, CHR ''u'', CHR ''0'', CHR ''0'', hex_char (of_char c div 16), hex_char (of_char c mod 16)]"

definition json_escape_char :: "char \<Rightarrow> gostring" where
  "json_escape_char c =
     (if c = QUOTE \<or> c = BACKSLASH then [BACKSLASH, c]
      else if c = CHR 0x08 then [BACKSLASH, CHR ''b'']
      else if c = CHR 0x0C then [BACKSLASH, CHR ''f'']
      else if c = CHR 0x0A then [BACKSLASH, CHR ''n'']
      else if c = CHR 0x0D then [BACKSLASH, CHR ''r'']
      else if c = CHR 0x09 then [BACKSLASH, CHR ''t'']
      else if (of_char c :: nat) < 32 \<or> c = CHR ''<'' \<or> c = CHR ''>'' \<or> c = CHR ''&'' then unicode_escape c
      else [c])"

function json_escape :: "gostring \<Rightarrow> gostring" where
  "json_escape s =
     (case s of
        [] \<Rightarrow> []
      | c # r \<Rightarrow>
          if (of_char c :: nat) < 128 then json_escape_char c @ json_escape r
          else
            let k = rune_len s in
            if k = 0 then BACKSLASH # ''ufffd'' @ json_escape r
            else if take k s = [CHR 0xE2, CHR 0x80, CHR 0xA8] then BACKSLASH # ''u2028'' @ json_escape (drop k s)
            else if take k s = [CHR 0xE2, CHR 0x80, CHR 0xA9] then BACKSLASH # ''u2029'' @ json_escape (drop k s)
            else take k s @ json_escape (drop k s))"
  by pat_completeness auto
termination by (relation "measure length") auto

declare json_escape.simps [simp del]

section \<open>The encoding of a string reads back\<close>

lemma hex_char_value: "d < 16 \<Longrightarrow> hex_digit True (hex_char d) = Some d"
proof -
  assume "d < 16"
  then have "d \<in> set [0,1,2,3,4,5,6,7,8,9,10,11,12,13,14,15]" by (simp, arith)
  moreover have "list_all (\<lambda>d. hex_digit True (hex_char d) = Some d) [0,1,2,3,4,5,6,7,8,9,10,11,12,13,14,15]"
    by code_simp
  ultimately show ?thesis by (simp only: list_all_iff)
qed

lemma hex_zero: "hex_digit True (CHR ''0'') = Some 0"
  by code_simp

lemma hex4_digits:
  "hex_digit True a = Some x \<Longrightarrow> hex_digit True b = Some y \<Longrightarrow> hex_digit True c = Some z \<Longrightarrow> hex_digit True d = Some u \<Longrightarrow>
    hex4 (a # b # c # d # r) = Some (16 * (16 * (16 * int x + int y) + int z) + int u)"
  by (simp add: hex4_def Let_def)

lemma escape_unicode:
  assumes "(of_char c :: nat) < 128"
  shows "escape_at (drop 1 (unicode_escape c) @ rest) = Some ([c], 5)"
proof -
  define n :: nat where "n = of_char c"
  have n: "n < 128" "n div 16 < 16" "n mod 16 < 16" using assms by (simp_all add: n_def)
  have c: "char_of (int n) = c" by (simp add: n_def)
  have int_split: "16 * int (n div 16) + int (n mod 16) = int n" by presburger
  have "hex4 (CHR ''0'' # CHR ''0'' # hex_char (n div 16) # hex_char (n mod 16) # rest) = Some (int n)"
    unfolding hex4_digits [OF hex_zero hex_zero hex_char_value [OF n(2)] hex_char_value [OF n(3)]]
    using int_split by simp
  moreover have "utf8_encode (int n) = [c]" using n(1) c by (simp add: utf8_encode_def)
  ultimately show ?thesis
    using n(1) by (simp add: unicode_escape_def escape_at_def n_def [symmetric])
qed

lemma body_escape:
  assumes "escape_at e = Some (t, k)"
  shows "string_body (BACKSLASH # e) = map_option (\<lambda>(u, q). (t @ u, q)) (string_body (drop k e))"
  using assms by (subst string_body.simps) simp

lemma ascii_rune: "(of_char c :: nat) < 128 \<Longrightarrow> rune_len (c # e) = 1"
  by (simp add: rune_len_def lead_len_def)

lemma body_plain:
  assumes "(of_char c :: nat) < 128" "32 \<le> (of_char c :: nat)" "c \<noteq> QUOTE" "c \<noteq> BACKSLASH"
  shows "string_body (c # e) = map_option (\<lambda>(u, q). (c # u, q)) (string_body e)"
  using assms by (subst string_body.simps) (simp add: ascii_rune)

lemma simple_escapes:
  "escape_at (QUOTE # e) = Some ([QUOTE], 1)" "escape_at (BACKSLASH # e) = Some ([BACKSLASH], 1)"
  "escape_at (CHR ''b'' # e) = Some ([CHR 0x08], 1)" "escape_at (CHR ''f'' # e) = Some ([CHR 0x0C], 1)"
  "escape_at (CHR ''n'' # e) = Some ([CHR 0x0A], 1)" "escape_at (CHR ''r'' # e) = Some ([CHR 0x0D], 1)"
  "escape_at (CHR ''t'' # e) = Some ([CHR 0x09], 1)"
  by (simp_all add: escape_at_def simple_escape_def)

lemma body_char:
  assumes "(of_char c :: nat) < 128"
  shows "string_body (json_escape_char c @ e) = map_option (\<lambda>(u, q). (c # u, q)) (string_body e)"
proof (cases "(of_char c :: nat) < 32 \<or> c = CHR ''<'' \<or> c = CHR ''>'' \<or> c = CHR ''&''")
  case True
  have "string_body (unicode_escape c @ e) = string_body (BACKSLASH # drop 1 (unicode_escape c) @ e)"
    by (simp add: unicode_escape_def)
  also have "\<dots> = map_option (\<lambda>(u, q). (c # u, q)) (string_body e)"
    using body_escape [OF escape_unicode [OF assms, of e]] by (simp add: unicode_escape_def)
  finally show ?thesis
    using True by (auto simp: json_escape_char_def body_escape [OF simple_escapes(1)] body_escape [OF simple_escapes(2)]
        body_escape [OF simple_escapes(3)] body_escape [OF simple_escapes(4)] body_escape [OF simple_escapes(5)]
        body_escape [OF simple_escapes(6)] body_escape [OF simple_escapes(7)])
next
  case False
  then have "c \<noteq> CHR 0x08" "c \<noteq> CHR 0x0C" "c \<noteq> CHR 0x0A" "c \<noteq> CHR 0x0D" "c \<noteq> CHR 0x09" by auto
  with False show ?thesis
    using assms by (auto simp: json_escape_char_def body_plain body_escape [OF simple_escapes(1)] body_escape [OF simple_escapes(2)])
qed

lemma body_rune:
  assumes "k = rune_len s" "k \<noteq> 0" "\<not> (of_char (hd s) :: nat) < 128"
  shows "string_body (take k s @ e) = map_option (\<lambda>(u, q). (take k s @ u, q)) (string_body e)"
proof -
  have k: "rune_len (take k s @ e) = k"
    using rune_len_take [OF assms(1)] rune_len_app [of "take k s" e] assms(2) by simp
  obtain m where m: "k = Suc m" using assms(2) not0_implies_Suc by blast
  have "s \<noteq> []" using assms(1,2) by (auto simp: rune_len_def)
  then have ct: "take k s @ e = hd s # (take m (tl s) @ e)" by (cases s) (simp_all add: m)
  then obtain c t where c: "take k s @ e = c # t" "c = hd s" by blast
  have len: "length (take k s) = k" using assms(1) rune_len_le [of s] by simp
  have "c \<noteq> QUOTE" "c \<noteq> BACKSLASH" "\<not> (of_char c :: nat) < 0x20" using assms(3) c(2) by auto
  then have "string_body (c # t) = map_option (\<lambda>(u, q). (take k (c # t) @ u, q)) (string_body (drop k (c # t)))"
    using k [unfolded c(1)] assms(2) by (subst string_body.simps) simp
  then show ?thesis using len by (simp add: c(1) [symmetric])
qed

lemma separators:
  "escape_at (''u2028'' @ e) = Some ([CHR 0xE2, CHR 0x80, CHR 0xA8], 5)"
  "escape_at (''u2029'' @ e) = Some ([CHR 0xE2, CHR 0x80, CHR 0xA9], 5)"
proof -
  have d: "hex_digit True (CHR ''2'') = Some 2" "hex_digit True (CHR ''8'') = Some 8" "hex_digit True (CHR ''9'') = Some 9"
    by code_simp+
  have u: "utf8_encode 0x2028 = [CHR 0xE2, CHR 0x80, CHR 0xA8]" "utf8_encode 0x2029 = [CHR 0xE2, CHR 0x80, CHR 0xA9]"
    by code_simp+
  show "escape_at (''u2028'' @ e) = Some ([CHR 0xE2, CHR 0x80, CHR 0xA8], 5)"
    using u by (simp add: escape_at_def hex4_digits [OF d(1) hex_zero d(1) d(2)])
  show "escape_at (''u2029'' @ e) = Some ([CHR 0xE2, CHR 0x80, CHR 0xA9], 5)"
    using u by (simp add: escape_at_def hex4_digits [OF d(1) hex_zero d(1) d(3)])
qed

text \<open>The encoding of a well-formed UTF-8 value decodes to that value and ends where it ended.\<close>

lemma json_escape_roundtrip:
  assumes "valid_utf8 v"
  shows "string_body (json_escape v @ e) = map_option (\<lambda>(u, q). (v @ u, q)) (string_body e)"
  using assms
proof (induction v rule: valid_utf8.induct)
  case (1 s)
  show ?case
  proof (cases s)
    case Nil
    then show ?thesis by (cases "string_body e") (simp_all add: json_escape.simps)
  next
    case (Cons c r)
    define k where "k = rune_len s"
    have k: "k \<noteq> 0" "valid_utf8 (drop k s)"
      using "1.prems" Cons by (subst (asm) valid_utf8.simps; simp add: k_def split: if_splits)+
    have ih: "string_body (json_escape (drop k s) @ e) = map_option (\<lambda>(u, q). (drop k s @ u, q)) (string_body e)"
      using "1.IH" k Cons by (simp add: k_def)
    show ?thesis
    proof (cases "(of_char c :: nat) < 128")
      case True
      have "k = 1" using True Cons by (simp add: k_def ascii_rune)
      moreover have "json_escape s = json_escape_char c @ json_escape r"
        unfolding Cons using True by (subst json_escape.simps) simp
      ultimately show ?thesis
        using ih Cons body_char [OF True] by (simp add: option.map_comp comp_def case_prod_unfold)
    next
      case False
      define pre where "pre = (if take k s = [CHR 0xE2, CHR 0x80, CHR 0xA8] then BACKSLASH # ''u2028''
        else if take k s = [CHR 0xE2, CHR 0x80, CHR 0xA9] then BACKSLASH # ''u2029'' else take k s)"
      have js: "json_escape s = pre @ json_escape (drop k s)"
        using False k Cons by (subst json_escape.simps) (simp add: pre_def k_def Let_def)
      have step: "string_body (pre @ x) = map_option (\<lambda>(u, q). (take k s @ u, q)) (string_body x)" for x
        using body_rune [OF k_def k(1), of x] False Cons body_escape [OF separators(1) [simplified], of x]
          body_escape [OF separators(2) [simplified], of x] by (simp add: pre_def)
      have "string_body (json_escape s @ e) = string_body (pre @ (json_escape (drop k s) @ e))" by (simp only: js append.assoc)
      also have "\<dots> = map_option (\<lambda>(u, q). (take k s @ u, q)) (map_option (\<lambda>(u, q). (drop k s @ u, q)) (string_body e))"
        by (simp only: step ih)
      also have "\<dots> = map_option (\<lambda>(u, q). ((take k s @ drop k s) @ u, q)) (string_body e)"
        by (cases "string_body e") (simp_all add: case_prod_unfold)
      finally show ?thesis by (simp only: append_take_drop_id)
    qed
  qed
qed


section \<open>Values\<close>

text \<open>
  The text of a value at depth \<open>d\<close>: \<open>nl\<close> is the white space of a new line at a depth, \<open>sp\<close> what follows a
  colon. \<open>json.Marshal\<close> has neither; \<open>json.MarshalIndent\<close> with two blanks breaks the line after every
  bracket that opens a non-empty list and after every comma.
\<close>

fun json_text :: "(nat \<Rightarrow> gostring) \<Rightarrow> gostring \<Rightarrow> nat \<Rightarrow> json \<Rightarrow> gostring"
  and elems_text :: "(nat \<Rightarrow> gostring) \<Rightarrow> gostring \<Rightarrow> nat \<Rightarrow> json list \<Rightarrow> gostring"
  and members_text :: "(nat \<Rightarrow> gostring) \<Rightarrow> gostring \<Rightarrow> nat \<Rightarrow> (gostring \<times> json) list \<Rightarrow> gostring" where
  "json_text nl sp d JNull = ''null''"
| "json_text nl sp d (JBool b) = (if b then ''true'' else ''false'')"
| "json_text nl sp d (JNum l) = l"
| "json_text nl sp d (JStr t) = QUOTE # json_escape t @ [QUOTE]"
| "json_text nl sp d (JArr vs) =
     (if vs = [] then ''[]'' else CHR ''['' # nl (d + 1) @ elems_text nl sp (d + 1) vs @ nl d @ '']'')"
| "json_text nl sp d (JObj ms) =
     (if ms = [] then ''{}'' else CHR ''{'' # nl (d + 1) @ members_text nl sp (d + 1) ms @ nl d @ ''}'')"
| "elems_text nl sp d [] = []"
| "elems_text nl sp d (v # vs) =
     json_text nl sp d v @ (if vs = [] then [] else CHR '','' # nl d @ elems_text nl sp d vs)"
| "members_text nl sp d [] = []"
| "members_text nl sp d ((k, v) # ms) =
     QUOTE # json_escape k @ [QUOTE, CHR '':''] @ sp @ json_text nl sp d v @
       (if ms = [] then [] else CHR '','' # nl d @ members_text nl sp d ms)"

definition Marshal :: "json \<Rightarrow> gostring" where
  "Marshal v = json_text (\<lambda>_. []) [] 0 v"

definition MarshalIndent :: "json \<Rightarrow> gostring" where
  "MarshalIndent v = json_text (\<lambda>d. NL # replicate (2 * d) (CHR '' '')) '' '' 0 v"

text \<open>Values whose text is read back: well-formed strings and numbers, and no more nesting than the parser
  takes.\<close>

fun jdepth :: "json \<Rightarrow> nat" where
  "jdepth (JArr vs) = Suc (foldr max (map jdepth vs) 0)"
| "jdepth (JObj ms) = Suc (foldr max (map (jdepth \<circ> snd) ms) 0)"
| "jdepth _ = 0"

fun json_ok :: "json \<Rightarrow> bool" where
  "json_ok (JNum l) \<longleftrightarrow> scan_number l = Some (l, [])"
| "json_ok (JStr t) \<longleftrightarrow> valid_utf8 t"
| "json_ok (JArr vs) \<longleftrightarrow> list_all json_ok vs"
| "json_ok (JObj ms) \<longleftrightarrow> list_all (\<lambda>m. valid_utf8 (fst m) \<and> json_ok (snd m)) ms"
| "json_ok _ \<longleftrightarrow> True"

lemma json_print_sample:
  "MarshalIndent (JObj [(''a'', JArr [JNum ''1'', JObj []]), (''b'', JStr ''<'')]) =
     ''{'' @ [NL] @ ''  '' @ [QUOTE] @ ''a'' @ [QUOTE] @ '': ['' @ [NL] @ ''    1,'' @ [NL] @ ''    {}'' @ [NL] @ ''  ],'' @ [NL] @
     ''  '' @ [QUOTE] @ ''b'' @ [QUOTE] @ '': '' @ [QUOTE, BACKSLASH] @ ''u003c'' @ [QUOTE, NL] @ ''}''"
  by code_simp

section \<open>Reading back\<close>

definition blank :: "gostring \<Rightarrow> bool" where
  "blank w \<longleftrightarrow> list_all (\<lambda>c. c = CHR '' '' \<or> c = CHR 0x09 \<or> c = CHR 0x0A \<or> c = CHR 0x0D) w"

lemma skip_blank [simp]: "blank w \<Longrightarrow> skip_ws (w @ s) = skip_ws s"
  by (induction w) (auto simp: blank_def skip_ws_def)

lemma blank_Nil [simp]: "blank []"
  by (simp add: blank_def)

lemma skip_self: "s \<noteq> [] \<Longrightarrow> \<not> blank [hd s] \<Longrightarrow> skip_ws s = s"
  by (cases s) (auto simp: blank_def skip_ws_def)

text \<open>What may follow a number.\<close>

definition stops :: "gostring \<Rightarrow> bool" where
  "stops s \<longleftrightarrow> s = [] \<or> (\<not> is_digit (hd s) \<and> hd s \<notin> set ''.eE'')"

lemma stops_Cons [simp]: "stops (c # s) \<longleftrightarrow> \<not> is_digit c \<and> c \<noteq> CHR ''.'' \<and> c \<noteq> CHR ''e'' \<and> c \<noteq> CHR ''E''"
  by (auto simp: stops_def)

lemma take_digits_append:
  "take_digits s = (d, q) \<Longrightarrow> take_digits (s @ rest) = (if q = [] then (d @ fst (take_digits rest), snd (take_digits rest)) else (d, q @ rest))"
  by (auto simp: take_digits_def takeWhile_append dropWhile_append dropWhile_eq_Nil_conv takeWhile_eq_all list_all_iff
      simp del: append_assoc split: if_splits)

lemma take_digits_stops: "stops rest \<Longrightarrow> take_digits rest = ([], rest)"
  by (cases rest) (auto simp: take_digits_def)

lemma take_digits_more: "take_digits s = (d, q) \<Longrightarrow> (q = [] \<Longrightarrow> stops rest) \<Longrightarrow> take_digits (s @ rest) = (d, q @ rest)"
  using take_digits_append [of s d q rest] take_digits_stops [of rest] by (cases q) auto

lemma exp_more: 
  assumes "scan_exponent s = Some (e, q)" "q = [] \<Longrightarrow> stops rest" shows "scan_exponent (s @ rest) = Some (e, q @ rest)"
proof (cases s)
  case Nil then show ?thesis using assms by (auto simp: scan_exponent_def stops_def split: list.split)
next
  case (Cons c r)
  show ?thesis
  proof (cases "c = CHR ''e'' \<or> c = CHR ''E''")
    case False then show ?thesis using assms Cons by (auto simp: scan_exponent_def)
  next
    case True
    define sq where "sq = (\<lambda>r. case r of d # q \<Rightarrow> if d = CHR ''+'' \<or> d = CHR ''-'' then ([d], q) else ([], r) | [] \<Rightarrow> ([], r))"
    have u: "scan_exponent (c # t) = (case sq t of (es, q) \<Rightarrow> case take_digits q of (ed, t) \<Rightarrow> if ed = [] then None else Some (c # es @ ed, t))" for t
      using True by (simp add: scan_exponent_def sq_def Let_def)
    obtain es q1 where 1: "sq r = (es, q1)" by force
    obtain ed t where 2: "take_digits q1 = (ed, t)" by force
    have t: "ed \<noteq> []" "e = c # es @ ed" "q = t" using assms(1) Cons u [of r] 1 2 by (auto split: if_splits)
    then have "r \<noteq> []" using 1 2 by (auto simp: sq_def take_digits_def)
    then have "sq (r @ rest) = (es, q1 @ rest)" using 1 by (cases r) (auto simp: sq_def)
    moreover have "take_digits (q1 @ rest) = (ed, t @ rest)" using take_digits_more [OF 2] assms(2) t by auto
    ultimately show ?thesis using t u [of "r @ rest"] Cons by simp
  qed
qed

lemma frac_more: 
  assumes "scan_frac s = Some (e, q)" "q = [] \<Longrightarrow> stops rest" shows "scan_frac (s @ rest) = Some (e, q @ rest)"
proof (cases s)
  case Nil then show ?thesis using assms by (auto simp: scan_frac_def stops_def split: list.split)
next
  case (Cons c r)
  obtain d t where "take_digits r = (d, t)" by force
  with take_digits_more [OF this] show ?thesis using assms Cons by (auto simp: scan_frac_def split: if_splits)
qed

lemma int_more: 
  assumes "scan_int s = (e, q)" "e \<noteq> []" "q = [] \<Longrightarrow> stops rest" shows "scan_int (s @ rest) = (e, q @ rest)"
  using assms take_digits_more [of s e q rest] by (cases s) (auto simp: scan_int_def split: if_splits)

lemma scan_number_more: 
  assumes "scan_number s = Some (l, q)" "q = [] \<Longrightarrow> stops rest" shows "scan_number (s @ rest) = Some (l, q @ rest)"
proof -
  obtain sg s1 where 1: "scan_sign s = (sg, s1)" by force
  obtain ip s2 where 2: "scan_int s1 = (ip, s2)" by force
  have ip: "ip \<noteq> []" using assms(1) 1 2 by (auto simp: scan_number_def)
  obtain fr s3 where 3: "scan_frac s2 = Some (fr, s3)" using assms(1) 1 2 ip by (auto simp: scan_number_def split: option.splits)
  obtain ex where 4: "scan_exponent s3 = Some (ex, q)" "l = sg @ ip @ fr @ ex" using assms(1) 1 2 3 ip by (auto simp: scan_number_def)
  have s1: "s \<noteq> []" using 1 2 ip by (auto simp: scan_sign_def scan_int_def)
  have n3: "s3 = [] \<Longrightarrow> stops rest" using 4(1) assms(2) by (auto simp: scan_exponent_def)
  have n2: "s2 = [] \<Longrightarrow> stops rest" using 3 n3 by (auto simp: scan_frac_def)
  have "scan_sign (s @ rest) = (sg, s1 @ rest)" using 1 s1 by (cases s) (auto simp: scan_sign_def split: if_splits)
  then show ?thesis
    using int_more [OF 2 ip n2] frac_more [OF 3 n3] exp_more [OF 4(1) assms(2)] ip 4(2) by (simp add: scan_number_def)
qed

lemma digit_0: "is_digit (CHR ''0'')" by code_simp

lemma number_head: "scan_number l = Some (l, []) \<Longrightarrow> \<exists>c r. l = c # r \<and> (c = CHR ''-'' \<or> is_digit c)"
  by (cases l) (auto simp: scan_number_def scan_sign_def scan_int_def take_digits_def digit_0 split: if_splits prod.splits)

lemma digit_range: "is_digit c \<Longrightarrow> (48::nat) \<le> of_char c \<and> of_char c \<le> (57::nat)"
  by (auto simp: is_digit_def less_eq_char_def)

lemma jvalue_number: 
  assumes "scan_number l = Some (l, [])" "stops rest"
  shows "jvalue (Suc n) d (l @ rest) = Some (JNum l, rest)"
proof -
  obtain c r where c: "l = c # r" "c = CHR ''-'' \<or> is_digit c" using number_head [OF assms(1)] by auto
  then have nc: "c \<noteq> QUOTE" "c \<noteq> CHR ''[''" "c \<noteq> CHR ''{''" "c \<noteq> CHR ''n''" "c \<noteq> CHR ''t''" "c \<noteq> CHR ''f''" "\<not> blank [c]"
    by (auto simp: blank_def dest: digit_range)
  have "scan_number (l @ rest) = Some (l, rest)" using scan_number_more [OF assms(1), of rest] assms(2) by simp
  moreover have "skip_ws (l @ rest) = l @ rest" using c nc by (intro skip_self) auto
  ultimately show ?thesis using nc c by (simp add: Let_def)
qed

lemma string_body_end: "valid_utf8 t \<Longrightarrow> string_body (json_escape t @ QUOTE # rest) = Some (t, rest)"
  by (simp add: json_escape_roundtrip) (subst string_body.simps, simp)

lemma foldr_max: "x \<in> set xs \<Longrightarrow> x \<le> foldr max xs (0::nat)"
  by (induction xs) auto

lemma text_head: "json_ok v \<Longrightarrow> json_text nl sp d v \<noteq> [] \<and> \<not> blank [hd (json_text nl sp d v)] \<and> hd (json_text nl sp d v) \<noteq> CHR '']''"
  by (cases v) (auto simp: blank_def dest!: number_head dest: digit_range)

lemma stops_blank: "blank w \<Longrightarrow> w \<noteq> [] \<Longrightarrow> stops (w @ s)"
  by (cases w) (auto simp: blank_def is_digit_def less_eq_char_def)


lemma stops_bracket: "stops (CHR '']'' # s)" "stops (CHR ''}'' # s)" "stops (CHR '','' # s)"
  by (auto simp: is_digit_def less_eq_char_def)

lemma stops_after: "blank w \<Longrightarrow> stops (w @ CHR '']'' # s)" "blank w \<Longrightarrow> stops (w @ CHR ''}'' # s)"
  using stops_blank [of w] stops_bracket by (cases "w = []"; simp)+


lemma skip_letter: "skip_ws (CHR ''n'' # x) = CHR ''n'' # x" "skip_ws (CHR ''t'' # x) = CHR ''t'' # x" "skip_ws (CHR ''f'' # x) = CHR ''f'' # x"
  by (simp_all add: skip_ws_def)

definition spaces :: "(nat \<Rightarrow> gostring) \<Rightarrow> gostring \<Rightarrow> bool" where
  "spaces nl sp \<longleftrightarrow> blank sp \<and> (\<forall>d. blank (nl d))"

lemma reads_back:
  "spaces nl sp \<Longrightarrow> json_ok v \<Longrightarrow> int (jdepth v) + k \<le> maxNestingDepth \<Longrightarrow> 2 * length (json_text nl sp d v) + 1 \<le> n \<Longrightarrow> stops rest \<Longrightarrow> blank w \<Longrightarrow>
     jvalue n k (w @ json_text nl sp d v @ rest) = Some (v, rest)"
  "spaces nl sp \<Longrightarrow> vs \<noteq> [] \<Longrightarrow> list_all json_ok vs \<Longrightarrow> \<forall>v \<in> set vs. int (jdepth v) + k \<le> maxNestingDepth \<Longrightarrow>
     2 * length (elems_text nl sp d vs) + 2 \<le> n \<Longrightarrow> blank w' \<Longrightarrow> blank w \<Longrightarrow>
     jelems n k (w @ elems_text nl sp d vs @ w' @ CHR '']'' # rest) = Some (vs, rest)"
  "spaces nl sp \<Longrightarrow> ms \<noteq> [] \<Longrightarrow> list_all (\<lambda>m. valid_utf8 (fst m) \<and> json_ok (snd m)) ms \<Longrightarrow> \<forall>m \<in> set ms. int (jdepth (snd m)) + k \<le> maxNestingDepth \<Longrightarrow>
     2 * length (members_text nl sp d ms) + 2 \<le> n \<Longrightarrow> blank w' \<Longrightarrow> blank w \<Longrightarrow>
     jmembers n k (w @ members_text nl sp d ms @ w' @ CHR ''}'' # rest) = Some (ms, rest)"
proof (induction nl sp d v and nl sp d vs and nl sp d ms arbitrary: n k rest w and n k rest w w' and n k rest w w'
   rule: json_text_elems_text_members_text.induct)
  case (1 nl sp d)
  then show ?case by (cases n) (simp_all add: Let_def skip_letter)
next
  case (2 nl sp d b)
  then show ?case by (cases n; cases b) (simp_all add: Let_def skip_letter)
next
  case (3 nl sp d l)
  then obtain m where "n = Suc m" by (cases n) auto
  moreover have "jvalue (Suc m) k (w @ l @ rest) = jvalue (Suc m) k (l @ rest)" using "3.prems" by simp
  ultimately show ?case using jvalue_number [of l rest m k] "3.prems" by simp
next
  case (4 nl sp d t)
  then obtain m where "n = Suc m" by (cases n) auto
  moreover have "jvalue (Suc m) k (w @ x) = jvalue (Suc m) k x" for x using "4.prems" by simp
  moreover have "skip_ws (QUOTE # x) = QUOTE # x" for x by (simp add: skip_ws_def)
  ultimately show ?case using string_body_end [of t] "4.prems" by (simp add: Let_def)
next
  case (5 nl sp d vs)
  then obtain m where m: "n = Suc m" by (cases n) auto
  have sk: "jvalue (Suc m) k (w @ x) = jvalue (Suc m) k x" for x using "5.prems" by simp
  have br: "skip_ws (CHR ''['' # x) = CHR ''['' # x" for x by (simp add: skip_ws_def)
  have dk: "\<not> maxNestingDepth \<le> k" using "5.prems" by simp
  show ?case
  proof (cases vs)
    case Nil
    then show ?thesis using m dk sk by (simp add: Let_def br) (simp add: skip_ws_def)
  next
    case (Cons v vs')
    then have ne: "vs \<noteq> []" by simp
    let ?t = "elems_text nl sp (Suc d) vs"
    have nlb: "blank (nl x)" for x using "5.prems" by (simp add: spaces_def)
    have hd: "?t \<noteq> []" "\<not> blank [hd ?t]" "hd ?t \<noteq> CHR '']''" using Cons "5.prems" text_head [of v nl sp "Suc d"] by auto
    have s: "skip_ws (nl (Suc d) @ ?t @ x) = ?t @ x" for x using nlb hd by (simp add: skip_self)
    have np: "\<not> prefix '']'' (?t @ x)" for x using hd by (cases ?t) auto
    have dep: "int (jdepth x) + (k + 1) \<le> maxNestingDepth" if "x \<in> set vs" for x
    proof -
      have "jdepth x \<le> foldr max (map jdepth vs) 0" using that by (intro foldr_max) (simp add: rev_image_eqI)
      then show ?thesis using "5.prems" by simp
    qed
    have ih: "jelems m (k + 1) ([] @ ?t @ nl d @ CHR '']'' # rest) = Some (vs, rest)"
      using "5.prems" ne m nlb dep by (intro "5.IH" [unfolded Suc_eq_plus1 [symmetric]]) (auto intro: dep)
    show ?thesis using m dk sk ih np ne by (simp add: Let_def br s)
  qed
next
  case (6 nl sp d ms)
  then obtain m where m: "n = Suc m" by (cases n) auto
  have sk: "jvalue (Suc m) k (w @ x) = jvalue (Suc m) k x" for x using "6.prems" by simp
  have br: "skip_ws (CHR ''{'' # x) = CHR ''{'' # x" for x by (simp add: skip_ws_def)
  have dk: "\<not> maxNestingDepth \<le> k" using "6.prems" by simp
  show ?case
  proof (cases ms)
    case Nil
    then show ?thesis using m dk sk by (simp add: Let_def br) (simp add: skip_ws_def)
  next
    case (Cons v vs')
    then have ne: "ms \<noteq> []" by simp
    let ?t = "members_text nl sp (Suc d) ms"
    have nlb: "blank (nl x)" for x using "6.prems" by (simp add: spaces_def)
    have hd: "?t \<noteq> []" "\<not> blank [hd ?t]" "hd ?t \<noteq> CHR ''}''" using Cons by (cases v; simp add: blank_def)+
    have s: "skip_ws (nl (Suc d) @ ?t @ x) = ?t @ x" for x using nlb hd by (simp add: skip_self)
    have np: "\<not> prefix ''}'' (?t @ x)" for x using hd by (cases ?t) auto
    have dep: "int (jdepth (snd x)) + (k + 1) \<le> maxNestingDepth" if "x \<in> set ms" for x
    proof -
      have "jdepth (snd x) \<le> foldr max (map (jdepth \<circ> snd) ms) 0" using that by (intro foldr_max) (simp add: rev_image_eqI)
      then show ?thesis using "6.prems" by simp
    qed
    have ih: "jmembers m (k + 1) ([] @ ?t @ nl d @ CHR ''}'' # rest) = Some (ms, rest)"
      using "6.prems" ne m nlb dep by (intro "6.IH" [unfolded Suc_eq_plus1 [symmetric]]) (auto intro: dep)
    show ?thesis using m dk sk ih np ne by (simp add: Let_def br s)
  qed
next
  case (7 nl sp d)
  then show ?case by simp
next
  case (8 nl sp d v vs)
  then obtain m where m: "n = Suc m" by (cases n) auto
  have nlb: "blank (nl x)" for x using "8.prems" by (simp add: spaces_def)
  have se: "skip_ws (CHR '']'' # x) = CHR '']'' # x" "skip_ws (CHR '','' # x) = CHR '','' # x" for x by (simp_all add: skip_ws_def)
  show ?case
  proof (cases "vs = []")
    case True
    have "jvalue m k (w @ json_text nl sp d v @ w' @ CHR '']'' # rest) = Some (v, w' @ CHR '']'' # rest)"
      using "8.prems" m True by (intro "8.IH"(1)) (simp_all add: stops_after)
    then show ?thesis using m True "8.prems" by (simp add: se)
  next
    case False
    let ?r = "elems_text nl sp d vs @ w' @ CHR '']'' # rest"
    have "jvalue m k (w @ json_text nl sp d v @ CHR '','' # nl d @ ?r) = Some (v, CHR '','' # nl d @ ?r)"
      using "8.prems" m False by (intro "8.IH"(1)) (simp_all add: stops_bracket del: stops_Cons)
    moreover have "jelems m k (nl d @ ?r) = Some (vs, rest)"
      using "8.prems" m False nlb by (intro "8.IH"(2)) auto
    ultimately show ?thesis using m False by (simp add: se)
  qed
next
  case (9 nl sp d)
  then show ?case by simp
next
  case (10 nl sp d key v ms)
  then obtain m where m: "n = Suc m" by (cases n) auto
  have b: "blank (nl x)" "blank sp" for x using "10.prems" by (simp_all add: spaces_def)
  have se: "skip_ws (CHR ''}'' # x) = CHR ''}'' # x" "skip_ws (CHR '','' # x) = CHR '','' # x"
    "skip_ws (CHR '':'' # x) = CHR '':'' # x" "skip_ws (QUOTE # x) = QUOTE # x" for x by (simp_all add: skip_ws_def)
  have key: "string_body (json_escape key @ QUOTE # x) = Some (key, x)" for x
    using "10.prems" by (intro string_body_end) simp
  show ?case
  proof (cases "ms = []")
    case True
    have "jvalue m k (sp @ json_text nl sp d v @ w' @ CHR ''}'' # rest) = Some (v, w' @ CHR ''}'' # rest)"
      using "10.prems" m True b by (intro "10.IH"(1)) (simp_all add: stops_after)
    then show ?thesis using m True "10.prems" by (simp add: se key)
  next
    case False
    let ?r = "members_text nl sp d ms @ w' @ CHR ''}'' # rest"
    have "jvalue m k (sp @ json_text nl sp d v @ CHR '','' # nl d @ ?r) = Some (v, CHR '','' # nl d @ ?r)"
      using "10.prems" m False b by (intro "10.IH"(1)) (simp_all add: stops_bracket del: stops_Cons)
    moreover have "jmembers m k (nl d @ ?r) = Some (ms, rest)"
      using "10.prems" m False b by (intro "10.IH"(2)) auto
    ultimately show ?thesis using m False "10.prems" by (simp add: se key)
  qed
qed

lemma json_text_parses:
  assumes "spaces nl sp" "json_ok v" "int (jdepth v) \<le> maxNestingDepth"
  shows "json_parse (json_text nl sp d v) = Some v"
proof -
  have "jvalue (2 * length (json_text nl sp d v) + 2) 0 ([] @ json_text nl sp d v @ []) = Some (v, [])"
    using assms by (intro reads_back(1)) (auto simp: stops_def)
  then show ?thesis by (simp add: json_parse_def skip_ws_def)
qed

lemma Marshal_parses: "json_ok v \<Longrightarrow> int (jdepth v) \<le> maxNestingDepth \<Longrightarrow> json_parse (Marshal v) = Some v"
  unfolding Marshal_def by (rule json_text_parses) (auto simp: spaces_def)

lemma MarshalIndent_parses: "json_ok v \<Longrightarrow> int (jdepth v) \<le> maxNestingDepth \<Longrightarrow> json_parse (MarshalIndent v) = Some v"
  unfolding MarshalIndent_def by (rule json_text_parses) (auto simp: spaces_def blank_def list_all_iff)

section \<open>Integers\<close>

lemma minus_no_digit: "\<not> is_digit (CHR ''-'')" "\<not> is_digit (CHR ''+'')"
  by code_simp+

lemma nat_str_head: "0 < n \<Longrightarrow> hd (nat_str n) \<noteq> CHR ''0''"
proof (induction n rule: nat_str.induct)
  case (1 n)
  show ?case
  proof (cases "n < 10")
    case True
    have "digit_char n \<noteq> CHR ''0''"
      using digit_char_val [OF True] 1(2) by (auto simp: digit_val_def)
    then show ?thesis using True by (subst nat_str.simps) simp
  next
    case False
    then show ?thesis using 1 by (subst nat_str.simps) simp
  qed
qed

lemma nat_str_scan: "scan_int (nat_str n) = (nat_str n, [])"
proof (cases "n = 0")
  case True
  have "scan_int (nat_str 0) = (nat_str 0, [])" by code_simp
  then show ?thesis using True by simp
next
  case False
  obtain c r where c: "nat_str n = c # r" by (cases "nat_str n") auto
  moreover have "c \<noteq> CHR ''0''" using nat_str_head [of n] False c by simp
  moreover have "list_all is_digit (c # r)" using nat_str_all_digits [of n] c by simp
  ultimately show ?thesis
    by (simp add: scan_int_def take_digits_def takeWhile_eq_all dropWhile_none)
qed

lemma nat_str_sign: "scan_sign (nat_str n) = ([], nat_str n)" "split_sign (nat_str n) = (False, nat_str n)"
proof -
  obtain c r where c: "nat_str n = c # r" by (cases "nat_str n") auto
  then have "is_digit c" using nat_str_digits [of c n] by simp
  then have "c \<noteq> CHR ''-''" "c \<noteq> CHR ''+''" using minus_no_digit by auto
  then show "scan_sign (nat_str n) = ([], nat_str n)" "split_sign (nat_str n) = (False, nat_str n)"
    by (simp_all add: c scan_sign_def split_sign_def)
qed

lemma scan_int_str [simp]: "scan_number (int_str i) = Some (int_str i, [])"
proof -
  have "scan_frac [] = Some ([], [])" "scan_exponent [] = Some ([], [])" by (simp_all add: scan_frac_def scan_exponent_def)
  moreover have "scan_sign (CHR ''-'' # s) = (''-'', s)" for s by (simp add: scan_sign_def)
  ultimately show ?thesis
    by (simp add: scan_number_def int_str_def nat_str_sign nat_str_scan)
qed

lemma int_literal_int_str:
  assumes "- (2 ^ 63) \<le> i" "i < 2 ^ 63"
  shows "int_literal (int_str i) = Some i"
proof -
  note d = nat_str_all_digits
  have "split_sign (CHR ''-'' # s) = (True, s)" for s by (simp add: split_sign_def)
  then show ?thesis
    using assms d by (auto simp: int_literal_def int_str_def nat_str_sign)
qed

end
