(* ===== verification/Scenario_Exec.thy ===== *)
theory Scenario_Exec
  imports Scenario_Runner Go_Json_Print
begin

text \<open>
  The executors of exec and HTTP steps (\<open>exec.go\<close>, \<open>http.go\<close>) and the capture sources (\<open>sources.go\<close>) in
  \<open>internal/scenario\<close>: substitution into commands, environments and JSON bodies, the shell quoting of
  file paths, bounded output, and the formatting of what was observed. The container session, the
  local shell, the file system and the HTTP client are parameters.
\<close>

section \<open>Exec steps\<close>

definition MaxResponseBytes :: int where "MaxResponseBytes = 10 * 2 ^ 20"
definition defaultExecTimeout :: int where "defaultExecTimeout = 30000000000"
definition errWriteFileFailed :: gostring where "errWriteFileFailed = ''write file failed''"

record execOptions =
  ec_Stdin :: gostring
  ec_Env :: "gostring gomap"
  ec_Timeout :: int
  ec_MaxOutputBytes :: int

record sessionResult =
  er_Stdout :: gostring
  er_Stderr :: gostring
  er_ExitCode :: int

text \<open>How a local command ends: well, with an exit code, or with another error.\<close>

datatype localEnd = EndOk | EndExit int | EndErr goerr

text \<open>The surroundings: the container session if there is one, the local file system and environment,
  and the local shell, whose output comes in the pieces the command writes.\<close>

record 'w execHost =
  eh_Session :: "(gostring \<Rightarrow> execOptions \<Rightarrow> 'w \<Rightarrow> (goerr + sessionResult) \<times> 'w) option"
  eh_MkdirAll :: "gostring \<Rightarrow> 'w \<Rightarrow> goerr option \<times> 'w"
  eh_WriteFile :: "gostring \<Rightarrow> gostring \<Rightarrow> 'w \<Rightarrow> goerr option \<times> 'w"
  eh_Environ :: "'w \<Rightarrow> gostring list"
  eh_Shell :: "gostring \<Rightarrow> gostring option \<Rightarrow> gostring list option \<Rightarrow> int \<Rightarrow> 'w \<Rightarrow>
                 (gostring list \<times> gostring list \<times> localEnd) \<times> 'w"

abbreviation APOS :: char where "APOS \<equiv> CHR 0x27"

definition shellQuote :: "gostring \<Rightarrow> gostring" where
  "shellQuote s = [APOS] @ replace_all [APOS] [APOS, BACKSLASH, APOS, APOS] s @ [APOS]"

definition buildExecOutput :: "int \<Rightarrow> gostring \<Rightarrow> gostring \<Rightarrow> stepOutput" where
  "buildExecOutput exitCode stdout stderr =
     \<lparr>so_Observed =
        (if exitCode = 0 then
           ''Exit code: 0'' @ [NL] @ ''Stdout:'' @ [NL] @ stdout @
           (if stderr \<noteq> [] then [NL] @ ''Stderr:'' @ [NL] @ stderr else [])
         else
           ''Exit code: '' @ int_str exitCode @ [NL] @ ''Stdout:'' @ [NL] @ stdout @ [NL] @ ''Stderr:'' @ [NL] @ stderr),
      so_CaptureBody = stdout,
      so_CaptureSources =
        [(ExecSourceStdout, stdout), (ExecSourceStderr, stderr), (ExecSourceExitCode, int_str exitCode)]\<rparr>"

definition substituteEnv :: "gostring gomap \<Rightarrow> vars \<Rightarrow> gostring gomap" where
  "substituteEnv env vars = map (\<lambda>(k, v). (k, substituteVars v vars)) env"

definition env_key :: "gostring \<Rightarrow> gostring" where "env_key e = fst (str_cut e ''='')"

definition mergeEnv :: "gostring list \<Rightarrow> gostring gomap \<Rightarrow> gostring list" where
  "mergeEnv base extra =
     filter (\<lambda>e. gm_get extra (env_key e) = None) base @ map (\<lambda>(k, v). k @ ''='' @ v) extra"

record limitedWriter =
  lw_buf :: gostring
  lw_remaining :: int

text \<open>One write to the bounded buffer; the result is the count it reports.\<close>

definition Write :: "gostring \<Rightarrow> limitedWriter \<Rightarrow> int \<times> limitedWriter" where
  "Write p lw =
     (if lw_remaining lw \<le> 0 then (int (length p), lw)
      else
        let n = int (length p);
            q = (if lw_remaining lw < n then take (nat (lw_remaining lw)) p else p)
        in (n, lw\<lparr>lw_buf := lw_buf lw @ q, lw_remaining := lw_remaining lw - int (length q)\<rparr>))"

definition write_pieces :: "gostring list \<Rightarrow> limitedWriter \<Rightarrow> limitedWriter" where
  "write_pieces ps lw = fold (\<lambda>p lw. snd (Write p lw)) ps lw"

definition bounded :: "gostring list \<Rightarrow> gostring" where
  "bounded ps = lw_buf (write_pieces ps \<lparr>lw_buf = [], lw_remaining = MaxResponseBytes\<rparr>)"

definition write_err :: "gostring \<Rightarrow> goerr \<Rightarrow> goerr" where
  "write_err p e = wrap_err (''write file '' @ go_quote p) e"

definition writeFileContainer ::
    "(gostring \<Rightarrow> execOptions \<Rightarrow> 'w \<Rightarrow> (goerr + sessionResult) \<times> 'w) \<Rightarrow> gostring \<Rightarrow> gostring \<Rightarrow> gostring \<Rightarrow> 'w \<Rightarrow>
     goerr option \<times> 'w" where
  "writeFileContainer run filePath dir content w =
     (case run (''mkdir -p '' @ shellQuote dir @ '' && cat > '' @ shellQuote filePath)
             \<lparr>ec_Stdin = content, ec_Env = [], ec_Timeout = defaultExecTimeout, ec_MaxOutputBytes = MaxResponseBytes\<rparr> w of
        (Inl e, w1) \<Rightarrow> (Some (write_err filePath e), w1)
      | (Inr r, w1) \<Rightarrow>
          (if er_ExitCode r \<noteq> 0 then Some (write_err filePath (new_err errWriteFileFailed)) else None, w1))"

definition writeFileLocal :: "'w execHost \<Rightarrow> gostring \<Rightarrow> gostring \<Rightarrow> gostring \<Rightarrow> 'w \<Rightarrow> goerr option \<times> 'w" where
  "writeFileLocal h filePath dir content w =
     (case eh_MkdirAll h dir w of
        (Some e, w1) \<Rightarrow> (Some (write_err filePath e), w1)
      | (None, w1) \<Rightarrow>
          (case eh_WriteFile h filePath content w1 of
             (Some e, w2) \<Rightarrow> (Some (write_err filePath e), w2)
           | (None, w2) \<Rightarrow> (None, w2)))"

text \<open>The files in the order of their keys; substitution applies to paths and contents.\<close>

fun write_in_order :: "'w execHost \<Rightarrow> gostring gomap \<Rightarrow> vars \<Rightarrow> gostring list \<Rightarrow> 'w \<Rightarrow> goerr option \<times> 'w" where
  "write_in_order h files vars [] w = (None, w)"
| "write_in_order h files vars (rawPath # ps) w =
     (let filePath = substituteVars rawPath vars;
          content = substituteVars (source_of files rawPath) vars in
      case (case eh_Session h of
              Some run \<Rightarrow> writeFileContainer run filePath (dir_path filePath) content w
            | None \<Rightarrow> writeFileLocal h filePath (dir_path filePath) content w) of
        (Some e, w1) \<Rightarrow> (Some e, w1)
      | (None, w1) \<Rightarrow> write_in_order h files vars ps w1)"

definition exec_writeFiles :: "'w execHost \<Rightarrow> gostring gomap \<Rightarrow> vars \<Rightarrow> 'w \<Rightarrow> goerr option \<times> 'w" where
  "exec_writeFiles h files vars w = write_in_order h files vars (gm_sorted_keys files) w"

definition runContainer ::
    "(gostring \<Rightarrow> execOptions \<Rightarrow> 'w \<Rightarrow> (goerr + sessionResult) \<times> 'w) \<Rightarrow> gostring \<Rightarrow> gostring \<Rightarrow> gostring gomap \<Rightarrow> int \<Rightarrow> 'w \<Rightarrow>
     (stepOutput \<times> goerr option) \<times> 'w" where
  "runContainer run command stdin env timeout w =
     (case run command
             \<lparr>ec_Stdin = stdin, ec_Env = env, ec_Timeout = timeout, ec_MaxOutputBytes = MaxResponseBytes\<rparr> w of
        (Inl e, w1) \<Rightarrow> ((no_output, Some (wrap_err ''exec: container exec'' e)), w1)
      | (Inr r, w1) \<Rightarrow> ((buildExecOutput (er_ExitCode r) (er_Stdout r) (er_Stderr r), None), w1))"

definition runLocal ::
    "'w execHost \<Rightarrow> gostring \<Rightarrow> gostring \<Rightarrow> gostring gomap \<Rightarrow> int \<Rightarrow> 'w \<Rightarrow> (stepOutput \<times> goerr option) \<times> 'w" where
  "runLocal h command stdin env timeout w =
     (case eh_Shell h command (if stdin \<noteq> [] then Some stdin else None)
             (if env \<noteq> [] then Some (mergeEnv (eh_Environ h w) env) else None) timeout w of
        ((outs, errs, e), w1) \<Rightarrow>
          (case e of
             EndOk \<Rightarrow> ((buildExecOutput 0 (bounded outs) (bounded errs), None), w1)
           | EndExit k \<Rightarrow> ((buildExecOutput k (bounded outs) (bounded errs), None), w1)
           | EndErr err \<Rightarrow> ((no_output, Some err), w1)))"

text \<open>A runtime panic of a step without an exec request is carried as an error; the runner never makes one.\<close>

definition panic_nil :: goerr where
  "panic_nil = new_err ''runtime error: invalid memory address or nil pointer dereference''"

definition exec_Execute :: "'w execHost \<Rightarrow> 'w execute" where
  "exec_Execute h ctxt s vars w =
     (case st_Exec s of
        None \<Rightarrow> ((no_output, Some panic_nil), w)
      | Some x \<Rightarrow>
          let command = substituteVars (xq_Command x) vars;
              stdin = substituteVars (xq_Stdin x) vars;
              env = substituteEnv (xq_Env x) vars
          in case parseStepTimeout (xq_Timeout x) defaultExecTimeout of
               Inl e \<Rightarrow> ((no_output, Some (wrap_err ''exec: parse timeout'' e)), w)
             | Inr timeout \<Rightarrow>
                 (case exec_writeFiles h (xq_Files x) vars w of
                    (Some e, w1) \<Rightarrow> ((no_output, Some e), w1)
                  | (None, w1) \<Rightarrow>
                      (case eh_Session h of
                         Some run \<Rightarrow> runContainer run command stdin env timeout w1
                       | None \<Rightarrow> runLocal h command stdin env timeout w1)))"

section \<open>HTTP steps\<close>

definition substituteVarsJSON :: "gostring \<Rightarrow> vars \<Rightarrow> gostring" where
  "substituteVarsJSON s vars =
     fold (\<lambda>(name, v) t. replace_all (''{'' @ name @ ''}'') (json_escape v) t) vars s"

definition substituteRequest :: "httpRequest \<Rightarrow> vars \<Rightarrow> httpRequest" where
  "substituteRequest req vars =
     \<lparr>rq_Method = rq_Method req, rq_Path = substituteVars (rq_Path req) vars,
      rq_Headers = map (\<lambda>(k, v). (k, substituteVars v vars)) (rq_Headers req), rq_Body = rq_Body req\<rparr>"

definition buildRequestBody :: "reqBody \<Rightarrow> vars \<Rightarrow> goerr + gostring option" where
  "buildRequestBody body vars =
     (case body of
        NoBody \<Rightarrow> Inr None
      | TextBody t \<Rightarrow> Inr (Some (substituteVars t vars))
      | DataBody (Inl e) \<Rightarrow> Inl (wrap_err ''marshal body'' e)
      | DataBody (Inr data) \<Rightarrow> Inr (Some (substituteVarsJSON data vars)))"

text \<open>The HTTP client: the check of a new request, and the exchange, which gets the method, the URL, the
  headers in the order they are set, and the body, and gives the status, the first value of every
  response header, and the body or an error of reading it.\<close>

record 'w httpHost =
  hh_BaseURL :: gostring
  hh_NewRequest :: "gostring \<Rightarrow> gostring \<Rightarrow> goerr option"
  hh_Do :: "gostring \<Rightarrow> gostring \<Rightarrow> (gostring \<times> gostring) list \<Rightarrow> gostring option \<Rightarrow> 'w \<Rightarrow>
              (goerr + int \<times> gostring gomap \<times> (goerr + gostring)) \<times> 'w"

text \<open>The verb \<open>%v\<close> for a map: the entries in the order of their keys.\<close>

definition fmt_map :: "gostring gomap \<Rightarrow> gostring" where
  "fmt_map m = ''map['' @ str_join '' '' (map (\<lambda>k. k @ '':'' @ source_of m k) (gm_sorted_keys m)) @ '']''"

definition http_Execute :: "'w httpHost \<Rightarrow> 'w execute" where
  "http_Execute h ctxt s vars w =
     (case st_Request s of
        None \<Rightarrow> ((no_output, Some panic_nil), w)
      | Some req0 \<Rightarrow>
          let req = substituteRequest req0 vars in
          case buildRequestBody (rq_Body req) vars of
            Inl e \<Rightarrow> ((no_output, Some (wrap_err ''build request body'' e)), w)
          | Inr body \<Rightarrow>
              let url = hh_BaseURL h @ rq_Path req in
              (case hh_NewRequest h (rq_Method req) url of
                 Some e \<Rightarrow> ((no_output, Some (wrap_err ''create request'' e)), w)
               | None \<Rightarrow>
                   (case hh_Do h (rq_Method req) url
                           ((if body \<noteq> None then [(''Content-Type'', ''application/json'')] else []) @ rq_Headers req) body w of
                      (Inl e, w1) \<Rightarrow> ((no_output, Some e), w1)
                    | (Inr (status, headers, content), w1) \<Rightarrow>
                        (case content of
                           Inl e \<Rightarrow> ((no_output, Some (wrap_err ''read response body'' e)), w1)
                         | Inr full \<Rightarrow>
                             let respBody = take (nat MaxResponseBytes) full in
                             ((\<lparr>so_Observed = ''HTTP '' @ int_str status @ [NL] @ ''Headers: '' @ fmt_map headers @ [NL] @
                                  ''Body:'' @ [NL] @ respBody,
                                so_CaptureBody = respBody, so_CaptureSources = []\<rparr>, None), w1)))))"

section \<open>Capture sources\<close>

definition TUISourceScreen :: gostring where "TUISourceScreen = ''screen''"
definition TUISourceExitCode :: gostring where "TUISourceExitCode = ''exit_code''"

text \<open>Step types with the sources they offer; a type without sources has no entry.\<close>

definition CaptureSourceMap :: "gostring list gomap" where
  "CaptureSourceMap =
     [(''exec'', [ExecSourceStdout, ExecSourceStderr, ExecSourceExitCode]),
      (''browser'', [BrowserSourceText, BrowserSourceHTML, BrowserSourceCount, BrowserSourceLocation, BrowserSourceValue]),
      (''grpc'', [GRPCSourceStatus, GRPCSourceHeaders]),
      (''tui'', [TUISourceScreen, TUISourceExitCode])]"

section \<open>Shell words\<close>

text \<open>How a POSIX shell reads a word: in single quotes everything is literal; outside a backslash quotes the
  next byte, and a blank, newline or operator ends the word. The result is the word and the rest.\<close>

definition word_end :: "char \<Rightarrow> bool" where
  "word_end c \<longleftrightarrow> c \<in> set ('' ;&|()<>'' @ [CHR 0x09, CHR 0x0A])"

fun sh_word :: "bool \<Rightarrow> gostring \<Rightarrow> (gostring \<times> gostring) option" where
  "sh_word True [] = None"
| "sh_word True (c # s) =
     (if c = APOS then sh_word False s else map_option (\<lambda>(u, r). (c # u, r)) (sh_word True s))"
| "sh_word False [] = Some ([], [])"
| "sh_word False (c # s) =
     (if c = APOS then sh_word True s
      else if c = BACKSLASH then (case s of [] \<Rightarrow> None | d # r \<Rightarrow> map_option (\<lambda>(u, q). (d # u, q)) (sh_word False r))
      else if word_end c then Some ([], c # s)
      else map_option (\<lambda>(u, q). (c # u, q)) (sh_word False s))"

lemma quoted_word: "sh_word True (replace_all [APOS] [APOS, BACKSLASH, APOS, APOS] s @ APOS # rest) =
    map_option (\<lambda>(u, q). (s @ u, q)) (sh_word False rest)"
proof (induction s)
  case Nil
  show ?case by (cases "sh_word False rest") (simp_all add: replace_all.simps)
next
  case (Cons c s)
  then show ?case
    by (cases "c = APOS") (simp_all add: replace_all.simps [of _ _ "_ # _"] option.map_comp comp_def case_prod_unfold)
qed

text \<open>Quoted paths reach the shell as they are: in the command that writes a file into the container the
  directory and the file are each read as one word, byte for byte, whatever quotes, blanks or operators
  they contain.\<close>

theorem shellQuote_words:
  "sh_word False (shellQuote dir @ '' && cat > '' @ shellQuote file) = Some (dir, '' && cat > '' @ shellQuote file) \<and>
   sh_word False (shellQuote file) = Some (file, [])"
  by (simp add: shellQuote_def quoted_word word_end_def)

section \<open>Values in JSON bodies\<close>

text \<open>A captured value inserted into a JSON body reads back as it was: where a string literal of the
  body starts with the placeholder, the literal after the substitution decodes to the value followed by
  the rest of the literal, so no quote, backslash or control character in the value closes the literal
  or breaks the document.\<close>

theorem json_value_reads_back:
  assumes "valid_utf8 v" "LBRACE \<notin> set e"
  shows "string_body (substituteVarsJSON (var_token n @ e) [(n, v)]) = map_option (\<lambda>(u, q). (v @ u, q)) (string_body e)"
proof -
  have "replace_all (var_token n) (json_escape v) e = e"
    using replace_plains [of e n "json_escape v" "[]"] assms(2) by (simp add: replace_all.simps)
  moreover have "replace_all (var_token n) (json_escape v) (var_token n @ e) =
      json_escape v @ replace_all (var_token n) (json_escape v) e"
    by (subst replace_all.simps) (simp add: var_token_def)
  ultimately have "substituteVarsJSON (var_token n @ e) [(n, v)] = json_escape v @ e"
    by (simp add: substituteVarsJSON_def var_token_def)
  then show ?thesis by (simp add: json_escape_roundtrip [OF assms(1)])
qed

theorem json_value_reads_back_witness:
  "string_body (substituteVarsJSON (''{id}'' @ [QUOTE, CHR ''}'']) [(''id'', [CHR ''a'', QUOTE, BACKSLASH, CHR 0x0A])]) =
     Some ([CHR ''a'', QUOTE, BACKSLASH, CHR 0x0A], ''}'')"
proof -
  have "valid_utf8 [CHR ''a'', QUOTE, BACKSLASH, CHR 0x0A]" by code_simp
  from json_value_reads_back [OF this, of "[QUOTE, CHR ''}'']" "''id''"] show ?thesis
    by (simp add: string_body.simps var_token_def)
qed

section \<open>Bounded output\<close>

lemma write_room:
  "0 \<le> lw_remaining lw \<Longrightarrow> lw_buf (snd (Write p lw)) = lw_buf lw @ take (nat (lw_remaining lw)) p \<and>
     lw_remaining (snd (Write p lw)) = lw_remaining lw - int (min (nat (lw_remaining lw)) (length p)) \<and>
     fst (Write p lw) = int (length p)"
  by (auto simp: Write_def Let_def min_def)

lemma write_pieces_take:
  "0 \<le> lw_remaining lw \<Longrightarrow> lw_buf (write_pieces ps lw) = lw_buf lw @ take (nat (lw_remaining lw)) (concat ps)"
proof (induction ps arbitrary: lw)
  case (Cons p ps)
  have "write_pieces (p # ps) lw = write_pieces ps (snd (Write p lw))" by (simp add: write_pieces_def)
  moreover have "nat (lw_remaining lw - int (min (nat (lw_remaining lw)) (length p))) = nat (lw_remaining lw) - length p"
    using Cons.prems by (auto simp: min_def nat_diff_distrib)
  ultimately show ?case using Cons write_room [of lw p] by simp
qed (simp add: write_pieces_def)

text \<open>The output a local command leaves is what it wrote, cut after 10 MB, however the writes are split;
  every write reports that it took all bytes, so the command is never stopped by the bound.\<close>

theorem bounded_output:
  "bounded ps = take 10485760 (concat ps) \<and>
   (\<forall>p lw. fst (Write p lw) = int (length p)) \<and>
   (0 \<le> lw_remaining lw \<longrightarrow> 0 \<le> lw_remaining (snd (Write p lw)))"
  using write_pieces_take [of "\<lparr>lw_buf = [], lw_remaining = MaxResponseBytes\<rparr>" ps]
  by (auto simp: bounded_def MaxResponseBytes_def Write_def Let_def)

theorem bounded_output_witness:
  "bounded [''ab'', [], ''c''] = ''abc'' \<and> lw_remaining (snd (Write ''abc'' \<lparr>lw_buf = [], lw_remaining = 2\<rparr>)) = 0"
  using bounded_output [of "[''ab'', [], ''c'']" "\<lparr>lw_buf = [], lw_remaining = 2\<rparr>" "''abc''"]
  by (simp add: Write_def Let_def)

end
