(* ===== verification/Validate_Cmd.thy ===== *)
theory Validate_Cmd
  imports Scenario_Judge Attractor_State Regression
begin

text \<open>
  What the command line builds around the loop (\<open>cmd/octog/main.go\<close>, \<open>tui.go\<close>): the capabilities a set of
  scenarios needs, the step executors of a run, the scoring of scenarios one after the other, the
  validators the attractor calls (one for all scenarios and one per component), and the report they
  return. The executors, the judge and the clock are parameters; their world is the attractor's.
\<close>

definition stepPassThreshold :: int where "stepPassThreshold = 80"

section \<open>Capabilities\<close>

definition no_caps :: scenarioCapabilities where
  "no_caps = \<lparr>NeedsHTTP = False, NeedsExec = False, NeedsBrowser = False, NeedsGRPC = False,
     NeedsWS = False, NeedsTUI = False\<rparr>"

definition detectStepCaps :: "step \<Rightarrow> scenarioCapabilities \<Rightarrow> scenarioCapabilities" where
  "detectStepCaps s caps =
     (let t = StepType s in
      if t = ''request'' then caps\<lparr>NeedsHTTP := True\<rparr>
      else if t = ''exec'' then caps\<lparr>NeedsExec := True\<rparr>
      else if t = ''browser'' then caps\<lparr>NeedsBrowser := True\<rparr>
      else if t = ''grpc'' then caps\<lparr>NeedsGRPC := True\<rparr>
      else if t = ''ws'' then caps\<lparr>NeedsHTTP := True, NeedsWS := True\<rparr>
      else if t = ''tui'' then caps\<lparr>NeedsTUI := True\<rparr>
      else caps)"

definition detectCapabilities :: "scenario list \<Rightarrow> scenarioCapabilities" where
  "detectCapabilities scs =
     fold (\<lambda>sc caps. fold detectStepCaps (sc_Steps sc) (fold detectStepCaps (sc_Setup sc) caps)) scs no_caps"

section \<open>Executors\<close>

record executorOpts =
  eo_targetURL :: gostring
  eo_needsBrowser :: bool
  eo_needsWS :: bool
  eo_needsTUI :: bool
  eo_grpcTarget :: gostring

text \<open>The constructors of the executors (those of exec and TUI steps look up the session when they are
  built), what closing an executor does, and the rest of the surroundings of a run.\<close>

record 'w scoring =
  sg_HTTP :: "gostring \<Rightarrow> 'w execute"
  sg_Exec :: "'w \<Rightarrow> 'w execute"
  sg_Browser :: "gostring \<Rightarrow> 'w execute"
  sg_GRPC :: "gostring \<Rightarrow> 'w execute"
  sg_WS :: "gostring \<Rightarrow> 'w execute"
  sg_TUI :: "'w \<Rightarrow> 'w execute"
  sg_Close :: "gostring \<Rightarrow> 'w \<Rightarrow> 'w"
  sg_Sleep :: "int option \<Rightarrow> int \<Rightarrow> 'w \<Rightarrow> goerr option \<times> 'w"
  sg_Now :: "'w \<Rightarrow> int"
  sg_CtxErr :: "'w \<Rightarrow> goerr option"
  sg_Judge :: "'w judge"
  sg_JudgeModel :: gostring
  sg_GRPCTarget :: "'w \<Rightarrow> gostring"

definition registerTUIExecutor :: "'w scoring \<Rightarrow> executorOpts \<Rightarrow> 'w \<Rightarrow> (gostring \<times> 'w execute) list" where
  "registerTUIExecutor g opts w = (if eo_needsTUI opts then [(''tui'', sg_TUI g w)] else [])"

definition buildExecutors :: "'w scoring \<Rightarrow> executorOpts \<Rightarrow> 'w \<Rightarrow> (gostring \<times> 'w execute) list" where
  "buildExecutors g opts w =
     [(''request'', sg_HTTP g (eo_targetURL opts)), (''exec'', sg_Exec g w)] @
     (if eo_needsBrowser opts then [(''browser'', sg_Browser g (eo_targetURL opts))] else []) @
     (if eo_grpcTarget opts \<noteq> [] then [(''grpc'', sg_GRPC g (eo_grpcTarget opts))] else []) @
     (if eo_needsWS opts then [(''ws'', sg_WS g (eo_targetURL opts))] else []) @
     registerTUIExecutor g opts w"

text \<open>The cleanup closes what was opened: every executor but the first two.\<close>

definition close_executors :: "'w scoring \<Rightarrow> (gostring \<times> 'w execute) list \<Rightarrow> 'w \<Rightarrow> 'w" where
  "close_executors g xs w = fold (sg_Close g) (drop 2 (map fst xs)) w"

section \<open>Scoring scenarios\<close>

definition unscored :: "scenario \<Rightarrow> scoredScenario" where
  "unscored sc = \<lparr>sn_ScenarioID = sc_ID sc, sn_Weight = weight_of sc, sn_Steps = [], sn_Score = fzero\<rparr>"

definition run_and_judge :: "'w scoring \<Rightarrow> executorOpts \<Rightarrow> scenario \<Rightarrow> 'w \<Rightarrow> (goerr + scoredScenario) \<times> 'w" where
  "run_and_judge g opts sc w =
     (let xs = buildExecutors g opts w;
          r = \<lparr>rn_Executors = xs, rn_Sleep = sg_Sleep g, rn_Now = sg_Now g\<rparr> in
      case run_scenario r sc w of
        (Inl e, w1) \<Rightarrow> (Inr (unscored sc), close_executors g xs w1)
      | (Inr x, w1) \<Rightarrow>
          (case ScoreScenario (sg_Judge g) (sg_JudgeModel g) sc x (close_executors g xs w1) of
             (Inl e, w2) \<Rightarrow> (Inl (wrap_err (''score scenario '' @ sc_ID sc) e), w2)
           | (Inr sn, w2) \<Rightarrow> (Inr sn, w2)))"

text \<open>Before every scenario but the first, a restart is asked for where there is a restart function.
  \<open>finish\<close> is what the caller does with the outcome.\<close>

fun runAndScoreSequential ::
    "'w scoring \<Rightarrow> bool \<Rightarrow> (goerr + scoredScenario list \<Rightarrow> 'w \<Rightarrow> 'w vprog) \<Rightarrow> nat \<Rightarrow> scenario list \<Rightarrow>
     scoredScenario list \<Rightarrow> executorOpts \<Rightarrow> 'w \<Rightarrow> 'w vprog" where
  "runAndScoreSequential g restart finish i [] scored opts w = finish (Inr scored) w"
| "runAndScoreSequential g restart finish i (sc # scs) scored opts w =
     (let go = (\<lambda>opts w.
          (case run_and_judge g opts sc w of
             (Inl e, w1) \<Rightarrow> finish (Inl e) w1
           | (Inr sn, w1) \<Rightarrow> runAndScoreSequential g restart finish (Suc i) scs (scored @ [sn]) opts w1)) in
      case sg_CtxErr g w of
        Some e \<Rightarrow> finish (Inl e) w
      | None \<Rightarrow>
          if 0 < i \<and> restart then
            VRestart w (\<lambda>res w1.
              (case res of
                 Inl e \<Rightarrow> finish (Inl (wrap_err ''restart container'' e)) w1
               | Inr url \<Rightarrow> go (opts\<lparr>eo_targetURL := url\<rparr>) w1))
          else go opts w)"

section \<open>The report\<close>

definition truncateObserved :: "gostring \<Rightarrow> nat \<Rightarrow> gostring" where
  "truncateObserved s limit = (if length s \<le> limit then s else drop_bad_tail (take limit s) @ ellipsis)"

definition step_head :: "gostring \<Rightarrow> scoredStep \<Rightarrow> gostring" where
  "step_head mark x =
     [NL] @ mark @ '' '' @ sr_Description (sd_StepResult x) @ '' ('' @ int_str (ss_Score (sd_StepScore x)) @ ''/100)''"

definition observed_part :: "gostring \<Rightarrow> gostring" where
  "observed_part obs =
     (if obs = [] then []
      else if MaxObservedBytes < length obs then
        [NL] @ ''    Observed ('' @ nat_str MaxObservedBytes @ ''B): '' @ truncateObserved obs MaxObservedBytes
      else [NL] @ ''    Observed: '' @ obs)"

definition format_step :: "scoredStep \<Rightarrow> gostring" where
  "format_step x =
     (let sc = sd_StepScore x in
      if stepPassThreshold \<le> ss_Score sc then step_head StepPassPrefix x
      else
        step_head StepFailPrefix x @
        (if ss_Reasoning sc \<noteq> [] then [NL] @ ''    Reasoning: '' @ ss_Reasoning sc else []) @
        observed_part (sr_Observed (sd_StepResult x)) @
        concat (map (\<lambda>d. [NL] @ ''    ['' @ jd_Category d @ ''] '' @ jd_Detail d) (ss_Diagnostics sc)))"

definition formatFailedScenario :: "scoredScenario \<Rightarrow> gostring" where
  "formatFailedScenario sn =
     FormatScenarioFailureLine (sn_ScenarioID sn) (sn_Score sn) @ concat (map format_step (sn_Steps sn))"

definition buildDetailedFailures :: "aggregateResult \<Rightarrow> gostring list" where
  "buildDetailedFailures agg =
     map (\<lambda>sn. if fleq (f_of_int stepPassThreshold) (sn_Score sn)
               then passScenarioPrefix @ sn_ScenarioID sn @ '' ('' @ fmt_f 0 (sn_Score sn) @ ''/100)''
               else formatFailedScenario sn) (ag_Scenarios agg)"

section \<open>Validators\<close>

definition up_to_tier :: "int \<Rightarrow> scenario list \<Rightarrow> scenario list" where
  "up_to_tier maxTier scs = (if 0 < maxTier then filter (\<lambda>sc. sc_Tier sc \<le> maxTier) scs else scs)"

definition report_outcome :: "goerr + scoredScenario list \<Rightarrow> 'w \<Rightarrow> 'w vprog" where
  "report_outcome res w =
     (case res of
        Inl e \<Rightarrow> VDone (Inl e) w
      | Inr scored \<Rightarrow>
          let agg = Aggregate scored
          in VDone (Inr (ag_Satisfaction agg, buildDetailedFailures agg, ag_TotalCostUSD agg)) w)"

definition buildValidateFn :: "'w scoring \<Rightarrow> executorOpts \<Rightarrow> scenario list \<Rightarrow> 'w validator" where
  "buildValidateFn g baseOpts scs url restart maxTier w =
     runAndScoreSequential g restart report_outcome 0 (up_to_tier maxTier scs) []
       (baseOpts\<lparr>eo_targetURL := url, eo_grpcTarget := sg_GRPCTarget g w\<rparr>) w"

text \<open>The scenarios of each component in their order; the empty name is the integration scenarios'.\<close>

definition group_step :: "scenario \<Rightarrow> scenario list gomap \<Rightarrow> scenario list gomap" where
  "group_step sc m =
     gm_put (sc_Component sc) ((case gm_get m (sc_Component sc) of None \<Rightarrow> [] | Some g \<Rightarrow> g) @ [sc]) m"

definition buildComponentValidators :: "'w scoring \<Rightarrow> executorOpts \<Rightarrow> scenario list \<Rightarrow> 'w validator gomap" where
  "buildComponentValidators g baseOpts scs =
     map (\<lambda>(name, group). (name, buildValidateFn g baseOpts group)) (fold group_step scs [])"

section \<open>Capabilities and executors\<close>

lemma fold_caps:
  "(NeedsHTTP (fold detectStepCaps ss caps) \<longleftrightarrow> NeedsHTTP caps \<or> (\<exists>s \<in> set ss. StepType s \<in> {''request'', ''ws''})) \<and>
   (NeedsExec (fold detectStepCaps ss caps) \<longleftrightarrow> NeedsExec caps \<or> (\<exists>s \<in> set ss. StepType s = ''exec'')) \<and>
   (NeedsBrowser (fold detectStepCaps ss caps) \<longleftrightarrow> NeedsBrowser caps \<or> (\<exists>s \<in> set ss. StepType s = ''browser'')) \<and>
   (NeedsGRPC (fold detectStepCaps ss caps) \<longleftrightarrow> NeedsGRPC caps \<or> (\<exists>s \<in> set ss. StepType s = ''grpc'')) \<and>
   (NeedsWS (fold detectStepCaps ss caps) \<longleftrightarrow> NeedsWS caps \<or> (\<exists>s \<in> set ss. StepType s = ''ws'')) \<and>
   (NeedsTUI (fold detectStepCaps ss caps) \<longleftrightarrow> NeedsTUI caps \<or> (\<exists>s \<in> set ss. StepType s = ''tui''))"
  by (induction ss arbitrary: caps) (auto simp: detectStepCaps_def Let_def)

definition all_steps :: "scenario list \<Rightarrow> step list" where
  "all_steps scs = concat (map (\<lambda>sc. sc_Setup sc @ sc_Steps sc) scs)"

lemma detectCapabilities_steps: "detectCapabilities scs = fold detectStepCaps (all_steps scs) no_caps"
proof -
  have "fold (\<lambda>sc caps. fold detectStepCaps (sc_Steps sc) (fold detectStepCaps (sc_Setup sc) caps)) scs caps =
      fold detectStepCaps (all_steps scs) caps" for caps
    by (induction scs arbitrary: caps) (simp_all add: all_steps_def)
  then show ?thesis by (simp add: detectCapabilities_def)
qed

lemma detected_caps:
  assumes "s \<in> set (all_steps scs)"
  shows "StepType s = ''browser'' \<Longrightarrow> NeedsBrowser (detectCapabilities scs)"
    and "StepType s = ''ws'' \<Longrightarrow> NeedsWS (detectCapabilities scs)"
    and "StepType s = ''tui'' \<Longrightarrow> NeedsTUI (detectCapabilities scs)"
proof -
  note f = fold_caps [of "all_steps scs" no_caps, folded detectCapabilities_steps]
  show "StepType s = ''browser'' \<Longrightarrow> NeedsBrowser (detectCapabilities scs)" using f assms by blast
  show "StepType s = ''ws'' \<Longrightarrow> NeedsWS (detectCapabilities scs)" using f assms by blast
  show "StepType s = ''tui'' \<Longrightarrow> NeedsTUI (detectCapabilities scs)" using f assms by blast
qed

definition opts_for :: "scenario list \<Rightarrow> gostring \<Rightarrow> gostring \<Rightarrow> executorOpts" where
  "opts_for scs url grpcTarget =
     (let caps = detectCapabilities scs in
      \<lparr>eo_targetURL = url, eo_needsBrowser = NeedsBrowser caps, eo_needsWS = NeedsWS caps,
       eo_needsTUI = NeedsTUI caps, eo_grpcTarget = grpcTarget\<rparr>)"


definition idle :: "nat scoring" where
  "idle =
     (let ok = (\<lambda>c s v w. ((no_output, None), w)) in
      \<lparr>sg_HTTP = (\<lambda>u. ok), sg_Exec = (\<lambda>w. ok), sg_Browser = (\<lambda>u. ok), sg_GRPC = (\<lambda>t. ok), sg_WS = (\<lambda>u. ok),
       sg_TUI = (\<lambda>w. ok), sg_Close = (\<lambda>k w. w), sg_Sleep = (\<lambda>c d w. (None, w)), sg_Now = int,
       sg_CtxErr = (\<lambda>w. None), sg_Judge = kind_judge, sg_JudgeModel = ''m'', sg_GRPCTarget = (\<lambda>w. [])\<rparr>)"


section \<open>The report reads back\<close>

definition line_ok :: "scoredScenario \<Rightarrow> rat \<Rightarrow> bool" where
  "line_ok sn q \<longleftrightarrow> trim_space (sn_ScenarioID sn) = sn_ScenarioID sn \<and> NL \<notin> set (sn_ScenarioID sn) \<and>
     sn_Score sn = FNum q \<and> 0 \<le> q \<and> q < 2 ^ 52"

lemma NL_block: "t = [] \<or> (\<exists>u. t = NL # u) \<Longrightarrow> \<exists>tail. h @ t = str_join [NL] (h # tail)"
proof (elim disjE exE)
  fix u
  assume "t = NL # u"
  then have "h @ t = str_join [NL] (h # split_on NL u)"
    by (cases "split_on NL u") (use str_join_split_on [of NL u] in auto)
  then show ?thesis by blast
qed (rule exI [of _ "[]"], simp)

lemma steps_block: "concat (map format_step xs) = [] \<or> (\<exists>u. concat (map format_step xs) = NL # u)"
  by (cases xs) (auto simp: format_step_def step_head_def Let_def)

lemma threshold_float: "f_of_int stepPassThreshold = FNum 80"
  using fl_small_int [of 80] by (simp add: f_of_int_def stepPassThreshold_def)

definition entry_of :: "scoredScenario \<Rightarrow> rat \<Rightarrow> entry \<Rightarrow> bool" where
  "entry_of sn q e \<longleftrightarrow> entry_ok e \<and> en_pass e = (80 \<le> q) \<and> en_id e = sn_ScenarioID sn \<and> en_score e = q"

lemma report_entry:
  assumes "line_ok sn q"
  shows "\<exists>e. entry_of sn q e \<and> (if fleq (f_of_int stepPassThreshold) (sn_Score sn)
      then passScenarioPrefix @ sn_ScenarioID sn @ '' ('' @ fmt_f 0 (sn_Score sn) @ ''/100)''
      else formatFailedScenario sn) = entry_text e"
proof (cases "80 \<le> q")
  case True
  let ?e = "\<lparr>en_pass = True, en_id = sn_ScenarioID sn, en_score = q, en_tail = []\<rparr>"
  have "entry_of sn q ?e" using assms True by (simp add: entry_of_def entry_ok_def line_ok_def)
  moreover have "passScenarioPrefix @ sn_ScenarioID sn @ '' ('' @ fmt_f 0 (sn_Score sn) @ ''/100)'' = entry_text ?e"
    using assms by (simp add: entry_text_def score_line_def line_ok_def)
  ultimately show ?thesis using True assms by (auto simp: threshold_float line_ok_def)
next
  case False
  obtain tail where "score_line False (sn_ScenarioID sn) (FNum q) @ concat (map format_step (sn_Steps sn)) =
      str_join [NL] (score_line False (sn_ScenarioID sn) (FNum q) # tail)"
    using NL_block [OF steps_block] by blast
  then have "formatFailedScenario sn = entry_text \<lparr>en_pass = False, en_id = sn_ScenarioID sn, en_score = q, en_tail = tail\<rparr>"
    using assms by (simp add: formatFailedScenario_def FormatScenarioFailureLine_score_line entry_text_def line_ok_def)
  moreover have "entry_of sn q \<lparr>en_pass = False, en_id = sn_ScenarioID sn, en_score = q, en_tail = tail\<rparr>"
    using assms False by (simp add: entry_of_def entry_ok_def line_ok_def)
  ultimately show ?thesis using False assms by (auto simp: threshold_float line_ok_def)
qed

lemma report_entries:
  assumes "list_all2 line_ok (ag_Scenarios agg) qs"
  shows "\<exists>es. list_all entry_ok es \<and> buildDetailedFailures agg = map entry_text es \<and>
    map (\<lambda>e. (en_pass e, en_id e, en_score e)) es = map2 (\<lambda>sn q. (80 \<le> q, sn_ScenarioID sn, q)) (ag_Scenarios agg) qs"
  using assms unfolding buildDetailedFailures_def
proof (induction "ag_Scenarios agg" qs arbitrary: agg rule: list_all2_induct)
  case Nil
  then show ?case by (intro exI [of _ "[]"]) simp
next
  case (Cons sn sns q qs)
  from Cons(3) [of "agg\<lparr>ag_Scenarios := sns\<rparr>"] obtain es where
    es: "list_all entry_ok es" "map (\<lambda>sn. if fleq (f_of_int stepPassThreshold) (sn_Score sn)
          then passScenarioPrefix @ sn_ScenarioID sn @ '' ('' @ fmt_f 0 (sn_Score sn) @ ''/100)''
          else formatFailedScenario sn) sns = map entry_text es"
      "map (\<lambda>e. (en_pass e, en_id e, en_score e)) es = map2 (\<lambda>sn q. (80 \<le> q, sn_ScenarioID sn, q)) sns qs"
    by auto
  from report_entry [OF Cons(1)] obtain e where
    e: "entry_of sn q e" "(if fleq (f_of_int stepPassThreshold) (sn_Score sn)
      then passScenarioPrefix @ sn_ScenarioID sn @ '' ('' @ fmt_f 0 (sn_Score sn) @ ''/100)''
      else formatFailedScenario sn) = entry_text e" by blast
  have "list_all entry_ok (e # es)" using es(1) e(1) by (simp add: entry_of_def)
  with es(2,3) e show ?case
    unfolding Cons(4) [symmetric] by (intro exI [of _ "e # es"]) (simp add: entry_of_def)
qed

definition score_map :: "(gostring \<times> rat) list \<Rightarrow> float64 gomap" where
  "score_map xs = fold (\<lambda>(k, q). gm_put k (FNum (of_int (rhe q)))) xs []"

text \<open>C20. The report a validator returns carries the scores back: the attractor reads from it, for every
  scenario in order, its identifier and its score rounded to an integer, and as failed exactly the
  scenarios below 80, whatever the steps' descriptions, the judge's reasoning or the observed output
  contain.\<close>

theorem report_reads_back:
  assumes "list_all2 line_ok (ag_Scenarios agg) qs"
  shows "parseAllScenarios (buildDetailedFailures agg) = score_map (zip (map sn_ScenarioID (ag_Scenarios agg)) qs) \<and>
    parseFailedScenarios (buildDetailedFailures agg) =
      score_map (filter (\<lambda>x. snd x < 80) (zip (map sn_ScenarioID (ag_Scenarios agg)) qs))"
proof -
  obtain es where es: "list_all entry_ok es" "buildDetailedFailures agg = map entry_text es"
      "map (\<lambda>e. (en_pass e, en_id e, en_score e)) es = map2 (\<lambda>sn q. (80 \<le> q, sn_ScenarioID sn, q)) (ag_Scenarios agg) qs"
    using report_entries [OF assms] by blast
  define ps where "ps = map (\<lambda>e. (en_id e, en_score e)) es"
  have ps: "ps = zip (map sn_ScenarioID (ag_Scenarios agg)) qs"
    using arg_cong [OF es(3), of "map snd"]
    by (simp add: ps_def comp_def zip_map1 case_prod_unfold)
  have pass: "en_pass e = (80 \<le> en_score e)" if "e \<in> set es" for e
  proof -
    have "(en_pass e, en_id e, en_score e) \<in> set (map2 (\<lambda>sn q. (80 \<le> q, sn_ScenarioID sn, q)) (ag_Scenarios agg) qs)"
      using that unfolding es(3) [symmetric] by auto
    then show ?thesis by auto
  qed
  have f: "fold (\<lambda>e. gm_put (en_id e) (rounded e)) xs m =
      fold (\<lambda>(k, q). gm_put k (FNum (of_int (rhe q)))) (map (\<lambda>e. (en_id e, en_score e)) xs) m" for xs m
    by (induction xs arbitrary: m) (simp_all add: rounded_def)
  have "filter (\<lambda>x. snd x < 80) ps = map (\<lambda>e. (en_id e, en_score e)) (filter (\<lambda>e. \<not> en_pass e) es)"
    using pass by (simp add: ps_def filter_map comp_def) (metis (mono_tags, lifting) filter_cong not_le)
  then show ?thesis
    using es(1) by (simp add: es(2) parseAll_entries parseFailed_entries parseAllScenarios_def
        parseFailedScenarios_def score_map_def f ps [symmetric]) (simp add: ps_def)
qed

definition sample_scored :: aggregateResult where
  "sample_scored =
     Aggregate [tenth_scenario, tenth_scenario\<lparr>sn_ScenarioID := ''two'', sn_Score := FNum (159 / 2)\<rparr>]"

lemma sample_scored_scenarios: "ag_Scenarios sample_scored =
    [tenth_scenario, tenth_scenario\<lparr>sn_ScenarioID := ''two'', sn_Score := FNum (159 / 2)\<rparr>]"
  by (simp add: sample_scored_def Aggregate_def split: prod.split)

theorem report_reads_back_witness:
  "parseAllScenarios (buildDetailedFailures sample_scored) = [(''s'', FNum 100), (''two'', FNum 80)] \<and>
   parseFailedScenarios (buildDetailedFailures sample_scored) = [(''two'', FNum 80)]"
proof -
  have t: "trim_space ''s'' = ''s''" "trim_space ''two'' = ''two''" by code_simp+
  have r: "rhe 100 = 100" "rhe (159 / 2) = 80" using rhe_nearest [of "159 / 2" 80] rhe_int [of 100] by simp_all
  have "list_all2 line_ok (ag_Scenarios sample_scored) [100, 159 / 2]"
    using t by (simp add: sample_scored_scenarios tenth_scenario_def line_ok_def)
  from report_reads_back [OF this] show ?thesis
    by (simp add: sample_scored_scenarios tenth_scenario_def score_map_def r gm_put_def)
qed

section \<open>Component validators\<close>

lemma group_get: "gm_get (fold group_step scs m) name =
    (case gm_get m name of
       None \<Rightarrow> if filter (\<lambda>sc. sc_Component sc = name) scs = [] then None else Some (filter (\<lambda>sc. sc_Component sc = name) scs)
     | Some g \<Rightarrow> Some (g @ filter (\<lambda>sc. sc_Component sc = name) scs))"
  by (induction scs arbitrary: m) (auto simp: group_step_def split: option.splits)

lemma gm_get_map: "gm_get (map (\<lambda>(k, v). (k, f v)) m) name = map_option f (gm_get m name)"
  by (induction m) (auto simp: gm_get_def)

text \<open>Each component has a validator exactly when some scenario names it, and it scores that component's
  scenarios in their order; the integration validator, under the empty name, exists exactly when some
  scenario names no component.\<close>

theorem component_validators:
  "gm_get (buildComponentValidators g opts scs) name =
     (if filter (\<lambda>sc. sc_Component sc = name) scs = [] then None
      else Some (buildValidateFn g opts (filter (\<lambda>sc. sc_Component sc = name) scs)))"
  by (simp add: buildComponentValidators_def gm_get_map group_get)

section \<open>What a validation does\<close>

text \<open>A validation run against a restart function, with the number of restarts it asked for.\<close>

primrec run_restarts ::
    "'w vprog \<Rightarrow> ('w \<Rightarrow> (goerr + gostring) \<times> 'w) \<Rightarrow> (goerr + float64 \<times> gostring list \<times> float64) \<times> 'w \<times> nat" where
  "run_restarts (VDone r w) = (\<lambda>restart. (r, w, 0))"
| "run_restarts (VRestart w k) = (\<lambda>restart.
     case restart w of
       (res, w1) \<Rightarrow> (case run_restarts (k res w1) restart of (r, w2, n) \<Rightarrow> (r, w2, Suc n)))"

definition scored_as :: "scenario \<Rightarrow> scoredScenario \<Rightarrow> bool" where
  "scored_as sc sn \<longleftrightarrow> sn_ScenarioID sn = sc_ID sc \<and> (sn_Weight sn = weight_of sc)"

lemma run_and_judge_as: "run_and_judge g opts sc w = (Inr sn, w1) \<Longrightarrow> scored_as sc sn"
  by (auto simp: run_and_judge_def Let_def scored_as_def unscored_def ScoreScenario_def run_scenario_def
      split: prod.splits sum.splits if_splits)

lemma report_Inl [simp]: "run_restarts (report_outcome (Inl e) w) h = (Inl e, w, 0)"
  by (simp add: report_outcome_def)

lemma sequential_outcome:
  assumes "run_restarts (runAndScoreSequential g restart report_outcome i scs scored opts w) h =
    (Inr (sat, fails, cost), w', n)"
  shows "\<exists>more. list_all2 scored_as scs more \<and> sat = ag_Satisfaction (Aggregate (scored @ more)) \<and>
    fails = buildDetailedFailures (Aggregate (scored @ more)) \<and> cost = ag_TotalCostUSD (Aggregate (scored @ more)) \<and>
    n = (if restart then if 0 < i then length scs else length scs - 1 else 0)"
  using assms
proof (induction scs arbitrary: i scored opts w n)
  case Nil
  then show ?case by (auto simp: report_outcome_def Let_def)
next
  case (Cons sc scs)
  have ctx: "sg_CtxErr g w = None" using Cons.prems by (auto split: option.splits)
  have rest: "\<exists>more. list_all2 scored_as (sc # scs) more \<and> sat = ag_Satisfaction (Aggregate (scored @ more)) \<and>
      fails = buildDetailedFailures (Aggregate (scored @ more)) \<and>
      cost = ag_TotalCostUSD (Aggregate (scored @ more)) \<and> k = (if restart then length scs else 0)"
    if "run_restarts (case run_and_judge g o1 sc w1 of (Inl e, w1) \<Rightarrow> report_outcome (Inl e) w1
        | (Inr sn, w1) \<Rightarrow> runAndScoreSequential g restart report_outcome (Suc i) scs (scored @ [sn]) o1 w1) h =
        (Inr (sat, fails, cost), w', k)" for o1 w1 k
  proof -
    from that obtain sn w2 where sn: "run_and_judge g o1 sc w1 = (Inr sn, w2)"
      by (auto split: prod.splits sum.splits)
    with that have "run_restarts (runAndScoreSequential g restart report_outcome (Suc i) scs (scored @ [sn]) o1 w2) h =
        (Inr (sat, fails, cost), w', k)" by simp
    from Cons.IH [OF this] obtain rs where "list_all2 scored_as scs rs"
        "sat = ag_Satisfaction (Aggregate (scored @ sn # rs))" "fails = buildDetailedFailures (Aggregate (scored @ sn # rs))"
        "cost = ag_TotalCostUSD (Aggregate (scored @ sn # rs))" "k = (if restart then length scs else 0)"
      by auto
    with run_and_judge_as [OF sn] show ?thesis by (intro exI [of _ "sn # rs"]) simp
  qed
  show ?case
  proof (cases "0 < i \<and> restart")
    case True
    with Cons.prems ctx obtain url w1 k where "h w = (Inr url, w1)" "n = Suc k"
        "run_restarts (case run_and_judge g (opts\<lparr>eo_targetURL := url\<rparr>) sc w1 of (Inl e, w1) \<Rightarrow> report_outcome (Inl e) w1
          | (Inr sn, w1) \<Rightarrow> runAndScoreSequential g restart report_outcome (Suc i) scs (scored @ [sn]) (opts\<lparr>eo_targetURL := url\<rparr>) w1) h =
          (Inr (sat, fails, cost), w', k)"
      by (auto split: prod.splits sum.splits)
    with rest True show ?thesis by force
  next
    case False
    with Cons.prems ctx have "run_restarts (case run_and_judge g opts sc w of (Inl e, w1) \<Rightarrow> report_outcome (Inl e) w1
        | (Inr sn, w1) \<Rightarrow> runAndScoreSequential g restart report_outcome (Suc i) scs (scored @ [sn]) opts w1) h =
        (Inr (sat, fails, cost), w', n)" by (auto split: prod.splits sum.splits)
    from rest [OF this] False show ?thesis by auto
  qed
qed



end
