(* ===== verification/Octog_Run.thy ===== *)
theory Octog_Run
  imports Attractor_Composed Validate_Cmd
begin

text \<open>
  The run command (\<open>runAttractorLoop\<close> of \<open>cmd/octog/main.go\<close>): scenarios, capabilities, validators and
  options are put together and given to the attractor. The container manager, the store and the tracer
  that the command opens around it are left out; so are the progress and result lines it prints.
\<close>

record runLoopParams =
  lp_RawSpec :: gostring
  lp_TestCommand :: gostring
  lp_ScenariosPath :: gostring
  lp_Model :: gostring
  lp_FrugalModel :: gostring
  lp_JudgeModel :: gostring
  lp_Budget :: float64
  lp_Threshold :: float64
  lp_PatchMode :: bool
  lp_BlockOnRegression :: bool
  lp_ContextBudget :: int
  lp_Language :: gostring
  lp_GenesGuide :: gostring
  lp_GeneLanguage :: gostring
  lp_MaxTokens :: int
  lp_Agentic :: bool
  lp_AgentMaxTurns :: int
  lp_GeneComponents :: "component list"
  lp_Stratified :: bool

definition loop_options ::
    "runLoopParams \<Rightarrow> (iterationProgress \<Rightarrow> 'w \<Rightarrow> 'w) \<Rightarrow> scenarioCapabilities \<Rightarrow> 'w validator gomap \<Rightarrow> 'w runOptions" where
  "loop_options p progress caps validators =
     \<lparr>o_Model = lp_Model p, o_FrugalModel = lp_FrugalModel p, o_JudgeModel = lp_JudgeModel p,
      o_Language = lp_Language p, o_BudgetUSD = lp_Budget p, o_Threshold = lp_Threshold p,
      o_MaxIterations = 0, o_StallLimit = 0, o_WorkspaceDir = [], o_HealthTimeout = 0,
      o_Progress = Some progress, o_PatchMode = lp_PatchMode p,
      o_BlockOnRegression = lp_BlockOnRegression p, o_ContextBudget = lp_ContextBudget p,
      o_Capabilities = caps, o_Genes = lp_GenesGuide p, o_GeneLanguage = lp_GeneLanguage p,
      o_TestCommand = lp_TestCommand p, o_MaxTokens = lp_MaxTokens p, o_Agentic = lp_Agentic p,
      o_AgentMaxTurns = lp_AgentMaxTurns p, o_Stratified = lp_Stratified p,
      o_GeneComponents = lp_GeneComponents p, o_ComponentValidators = validators\<rparr>"

definition base_opts :: "scenarioCapabilities \<Rightarrow> executorOpts" where
  "base_opts caps =
     \<lparr>eo_targetURL = [], eo_needsBrowser = NeedsBrowser caps, eo_needsWS = NeedsWS caps,
      eo_needsTUI = NeedsTUI caps, eo_grpcTarget = []\<rparr>"

text \<open>\<open>load\<close> is \<open>scenario.LoadDir\<close>, a function of the world here; see \<open>LoadDir\<close>.\<close>

definition runAttractorLoop ::
    "'w env \<Rightarrow> 'w scoring \<Rightarrow> (iterationProgress \<Rightarrow> 'w \<Rightarrow> 'w) \<Rightarrow> (gostring \<Rightarrow> 'w \<Rightarrow> goerr + scenario list) \<Rightarrow>
     runLoopParams \<Rightarrow> 'w \<Rightarrow> (goerr + runResult) \<times> 'w" where
  "runAttractorLoop env g progress load p w =
     (case load (lp_ScenariosPath p) w of
        Inl e \<Rightarrow> (Inl (wrap_err ''load scenarios'' e), w)
      | Inr scs \<Rightarrow>
          let caps = detectCapabilities scs;
              validate = buildValidateFn g (base_opts caps) scs;
              validators = (if lp_GeneComponents p \<noteq> [] then buildComponentValidators g (base_opts caps) scs else [])
          in case Run env (lp_RawSpec p) (loop_options p progress caps validators) validate w of
               (Inl e, w1) \<Rightarrow> (Inl (wrap_err ''attractor run'' e), w1)
             | (Inr r, w1) \<Rightarrow> (Inr r, w1))"

end
