(* ===== verification/Lint_Core.thy ===== *)
theory Lint_Core
  imports Go_Format Go_Json
begin

text \<open>
  The findings of the linter (\<open>internal/lint/diagnostic.go\<close>) and its checks of variable references and JSON
  paths (\<open>varcheck.go\<close>).
\<close>

section \<open>Diagnostics\<close>

datatype level = LError | LWarning

fun level_String :: "level \<Rightarrow> gostring" where
  "level_String LError = ''error''"
| "level_String LWarning = ''warning''"

record lintDiag =
  ld_File :: gostring
  ld_Line :: int
  ld_Level :: level
  ld_Message :: gostring

definition err_at :: "gostring \<Rightarrow> int \<Rightarrow> gostring \<Rightarrow> lintDiag" where
  "err_at file line msg = \<lparr>ld_File = file, ld_Line = line, ld_Level = LError, ld_Message = msg\<rparr>"

definition warn_at :: "gostring \<Rightarrow> int \<Rightarrow> gostring \<Rightarrow> lintDiag" where
  "warn_at file line msg = \<lparr>ld_File = file, ld_Line = line, ld_Level = LWarning, ld_Message = msg\<rparr>"

definition diag_String :: "lintDiag \<Rightarrow> gostring" where
  "diag_String d =
     (if 0 < ld_Line d
      then ld_File d @ '':'' @ int_str (ld_Line d) @ '': '' @ level_String (ld_Level d) @ '': '' @ ld_Message d
      else ld_File d @ '': '' @ level_String (ld_Level d) @ '': '' @ ld_Message d)"

definition HasErrors :: "lintDiag list \<Rightarrow> bool" where
  "HasErrors ds \<longleftrightarrow> list_ex (\<lambda>d. ld_Level d = LError) ds"

definition CountByLevel :: "lintDiag list \<Rightarrow> nat \<times> nat" where
  "CountByLevel ds =
     foldl (\<lambda>(e, w) d. case ld_Level d of LError \<Rightarrow> (Suc e, w) | LWarning \<Rightarrow> (e, Suc w)) (0, 0) ds"

section \<open>Variable references\<close>

definition ident_start :: "char \<Rightarrow> bool" where
  "ident_start c \<longleftrightarrow> c = CHR ''_'' \<or> (CHR ''a'' \<le> c \<and> c \<le> CHR ''z'') \<or> (CHR ''A'' \<le> c \<and> c \<le> CHR ''Z'')"

definition ident_char :: "char \<Rightarrow> bool" where
  "ident_char c \<longleftrightarrow> ident_start c \<or> is_digit c"

text \<open>The pattern \<open>^[a-zA-Z_][a-zA-Z0-9_]*$\<close> of names.\<close>

definition is_ident :: "gostring \<Rightarrow> bool" where
  "is_ident s \<longleftrightarrow> (case s of [] \<Rightarrow> False | c # r \<Rightarrow> ident_start c \<and> list_all ident_char r)"

text \<open>All leftmost matches of \<open>{name}\<close>: at an opening brace the longest run of name characters, which must
  be a name and be followed by a closing brace; otherwise the search goes on at the next byte.\<close>

function extractVarRefs :: "gostring \<Rightarrow> gostring list" where
  "extractVarRefs s =
     (case s of
        [] \<Rightarrow> []
      | c # r \<Rightarrow>
          let n = takeWhile ident_char r; t = dropWhile ident_char r in
          if c = CHR 0x7B \<and> is_ident n \<and> prefix [CHR 0x7D] t then n # extractVarRefs (drop 1 t)
          else extractVarRefs r)"
  by pat_completeness auto
termination
  by (relation "measure length")
    (auto simp: less_Suc_eq_le intro: le_trans [OF diff_le_self] le_trans [OF length_dropWhile_le])

declare extractVarRefs.simps [simp del]

text \<open>The captured variables with the file and line of their last capture.\<close>

type_synonym captureSet = "(gostring \<times> int) gomap"

definition cs_add :: "gostring \<Rightarrow> gostring \<Rightarrow> int \<Rightarrow> captureSet \<Rightarrow> captureSet" where
  "cs_add name file line cs = gm_put name (file, line) cs"

definition cs_has :: "captureSet \<Rightarrow> gostring \<Rightarrow> bool" where
  "cs_has cs name \<longleftrightarrow> gm_get cs name \<noteq> None"

fun check_refs :: "gostring list \<Rightarrow> gostring list \<Rightarrow> captureSet \<Rightarrow> gostring \<Rightarrow> int \<Rightarrow> lintDiag list" where
  "check_refs [] seen cs file line = []"
| "check_refs (ref # refs) seen cs file line =
     (if ref \<in> set seen then check_refs refs seen cs file line
      else (if cs_has cs ref then []
            else [warn_at file line (''variable {'' @ ref @ ''} referenced but never captured'')]) @
           check_refs refs (ref # seen) cs file line)"

definition checkVarRefs :: "gostring list \<Rightarrow> captureSet \<Rightarrow> gostring \<Rightarrow> int \<Rightarrow> lintDiag list" where
  "checkVarRefs refs cs file line = check_refs refs [] cs file line"

section \<open>JSON paths\<close>

definition errJSONPathMissingPrefix :: gostring where
  "errJSONPathMissingPrefix = ''must start with dollar-dot prefix''"
definition errJSONPathEmptyField :: gostring where
  "errJSONPathEmptyField = ''must have at least one field after dollar-dot''"
definition errJSONPathEmptySegment :: gostring where
  "errJSONPathEmptySegment = ''empty key segment''"

definition validateJSONPathSyntax :: "gostring \<Rightarrow> gostring option" where
  "validateJSONPathSyntax path =
     (if \<not> has_prefix path ''$.'' then Some errJSONPathMissingPrefix
      else
        let rest = drop 2 path in
        if rest = [] then Some errJSONPathEmptyField
        else if list_ex (\<lambda>k. k = []) (split_on (CHR ''.'') rest) then Some errJSONPathEmptySegment
        else None)"

section \<open>Facts\<close>

lemma CountByLevel_counts:
  "CountByLevel ds = (length (filter (\<lambda>d. ld_Level d = LError) ds), length (filter (\<lambda>d. ld_Level d = LWarning) ds))"
proof -
  have "foldl (\<lambda>(e, w) d. case ld_Level d of LError \<Rightarrow> (Suc e, w) | LWarning \<Rightarrow> (e, Suc w)) (a, b) ds =
      (a + length (filter (\<lambda>d. ld_Level d = LError) ds), b + length (filter (\<lambda>d. ld_Level d = LWarning) ds))" for a b
    by (induction ds arbitrary: a b) (auto split: level.splits)
  then show ?thesis by (simp add: CountByLevel_def)
qed

lemma HasErrors_simps [simp]:
  "\<not> HasErrors []" "HasErrors (err_at f l m # ds)" "HasErrors (warn_at f l m # ds) \<longleftrightarrow> HasErrors ds"
  "HasErrors (ds @ ds') \<longleftrightarrow> HasErrors ds \<or> HasErrors ds'"
  by (auto simp: HasErrors_def err_at_def warn_at_def)

lemma check_refs_clean: "check_refs refs seen cs file line = [] \<longleftrightarrow> (\<forall>r \<in> set refs. r \<in> set seen \<or> cs_has cs r)"
  by (induction refs arbitrary: seen) auto

lemma checkVarRefs_clean: "checkVarRefs refs cs file line = [] \<longleftrightarrow> (\<forall>r \<in> set refs. cs_has cs r)"
  by (simp add: checkVarRefs_def check_refs_clean)

lemma check_refs_warn: "d \<in> set (check_refs refs seen cs file line) \<Longrightarrow> ld_Level d = LWarning"
  by (induction refs arbitrary: seen) (auto simp: warn_at_def split: if_splits)

end
