(* ===== verification/Lint_Rules.thy ===== *)
theory Lint_Rules
  imports Lint_Core
begin

text \<open>
  The tables of the lint rules (\<open>internal/lint/rules.go\<close>): identifier, level, summary, detail and the text
  that the messages of a rule contain.
\<close>

record rule =
  ru_ID :: gostring
  ru_Level :: level
  ru_Summary :: gostring
  ru_Detail :: gostring
  ru_MsgContains :: gostring

definition rule_of :: "gostring \<Rightarrow> level \<Rightarrow> gostring \<Rightarrow> gostring \<Rightarrow> gostring \<Rightarrow> rule" where
  "rule_of i lv summary detail msg =
     \<lparr>ru_ID = i, ru_Level = lv, ru_Summary = summary, ru_Detail = detail, ru_MsgContains = msg\<rparr>"

definition SpecRules :: "rule list" where
  "SpecRules =
    [rule_of ''S001'' LError
       ''spec file must not be empty''
       []
       ''spec file is empty'',
     rule_of ''S002'' LError
       ''spec must have a level-1 heading (title)''
       []
       ''no level-1 heading found'',
     rule_of ''S003'' LWarning
       ''title should have description text after it''
       []
       ''no description text after title heading'',
     rule_of ''S004'' LWarning
       ''sections should not be empty''
       []
       ''has no content'',
     rule_of ''S005'' LWarning
       ''headings at the same level should be unique''
       []
       ''duplicate heading'',
     rule_of ''S006'' LWarning
       ''fenced code blocks should be closed''
       []
       ''unclosed fenced code block'']"

definition ScenarioRules :: "rule list" where
  "ScenarioRules =
    [rule_of ''SC001'' LError
       ''scenario file must not be empty''
       []
       ''scenario file is empty'',
     rule_of ''SC002'' LError
       ''file must be valid YAML''
       []
       ''invalid YAML'',
     rule_of ''SC004'' LError
       ''scenario root must be a YAML mapping''
       []
       ''scenario must be a YAML mapping'',
     rule_of ''SC005'' LError
       ''id field is required''
       []
       ''missing required field: id'',
     rule_of ''SC006'' LError
       ''id must not be empty''
       []
       ''id must not be empty'',
     rule_of ''SC007'' LError
       ''id must be lowercase alphanumeric with hyphens/underscores''
       ''Must match ^[a-z0-9][a-z0-9_-]*$.''
       ''must match pattern ^[a-z0-9]'',
     rule_of ''SC008'' LWarning
       ''type should be one of the recognized values''
       ''Recognized types: functional, api.''
       ''not one of: functional'',
     rule_of ''SC009'' LWarning
       ''weight must be a number''
       []
       ''weight must be a number'',
     rule_of ''SC010'' LWarning
       ''weight must be positive''
       []
       ''weight must be positive'',
     rule_of ''SC011'' LError
       ''steps field is required''
       []
       ''missing required field: steps'',
     rule_of ''SC012'' LError
       ''steps must be a non-empty array''
       []
       ''steps must be a non-empty array'',
     rule_of ''SC013'' LError
       ''setup must be an array''
       []
       ''setup must be an array'',
     rule_of ''SC014'' LError
       ''each step must be a YAML mapping''
       []
       ''step must be a mapping'',
     rule_of ''SC015'' LError
       (''step must have exactly one step type (request, exec, browser, grpc, ws, or t'' @ ''ui)'')
       []
       ''exactly one of request, exec, browser, grpc, ws, or tui is required'',
     rule_of ''SC016'' LWarning
       ''judged steps should have an expect field''
       []
       ''step missing expect field'',
     rule_of ''SC017'' LWarning
       ''judged steps should have a description''
       []
       ''step missing description field'',
     rule_of ''SC018'' LError
       ''request must be a YAML mapping''
       []
       ''request must be a mapping'',
     rule_of ''SC019'' LError
       ''request must have a method''
       []
       ''request missing required field: method'',
     rule_of ''SC020'' LError
       ''HTTP method must be valid''
       ''Allowed: GET, POST, PUT, PATCH, DELETE, HEAD, OPTIONS.''
       ''invalid HTTP method'',
     rule_of ''SC021'' LError
       ''request must have a path''
       []
       ''request missing required field: path'',
     rule_of ''SC022'' LError
       ''capture must be an array''
       []
       ''capture must be an array'',
     rule_of ''SC023'' LError
       ''capture entries must be YAML mappings''
       []
       ''capture entry must be a mapping'',
     rule_of ''SC024'' LError
       ''capture must have a name field''
       []
       ''capture missing required field: name'',
     rule_of ''SC025'' LError
       ''capture name must not be empty''
       []
       ''capture name must not be empty'',
     rule_of ''SC026'' LError
       ''capture name must be a valid identifier''
       ''Must match ^[a-zA-Z_][a-zA-Z0-9_]*$.''
       ''must match pattern ^[a-zA-Z_]'',
     rule_of ''SC027'' LWarning
       ''capture name shadows an earlier capture''
       []
       ''shadows earlier capture'',
     rule_of ''SC028'' LError
       ''capture must have jsonpath or source''
       []
       ''capture requires at least one of jsonpath or source'',
     rule_of ''SC029'' LError
       ''jsonpath must use valid $.field.sub syntax''
       ''Must start with $. followed by dot-separated field names.''
       ''invalid jsonpath'',
     rule_of ''SC030'' LWarning
       ''variable reference has no matching capture''
       ''Variables use {name} syntax and must be captured in a prior step.''
       ''referenced but never captured'',
     rule_of ''SC031'' LError
       ''scenario ids must be unique across a directory''
       []
       ''duplicate scenario id'',
     rule_of ''SC032'' LError
       ''step must not have multiple step types''
       []
       (''step has multiple step types; exactly one of request, exec, browser, grpc, w'' @
        ''s, or tui is required''),
     rule_of ''SC033'' LError
       ''exec must be a YAML mapping''
       []
       ''exec must be a mapping'',
     rule_of ''SC034'' LError
       ''exec must have a command field''
       []
       ''exec missing required field: command'',
     rule_of ''SC035'' LError
       ''exec command must not be empty''
       []
       ''exec command must not be empty'',
     rule_of ''SC036'' LError
       ''exec env must be a YAML mapping''
       []
       ''exec env must be a mapping'',
     rule_of ''SC037'' LError
       ''exec timeout must be a valid Go duration''
       []
       ''not a valid duration'',
     rule_of ''SC038'' LError
       ''capture source invalid for step type''
       []
       ''invalid source'',
     rule_of ''SC039'' LError
       ''source not supported on this step type''
       []
       ''source is not supported on'',
     rule_of ''SC040'' LError
       ''browser must be a YAML mapping''
       []
       ''browser must be a mapping'',
     rule_of ''SC041'' LError
       ''browser must have an action field''
       []
       ''browser missing required field: action'',
     rule_of ''SC042'' LError
       ''browser action must be navigate, click, fill, or assert''
       []
       ''invalid browser action'',
     rule_of ''SC043'' LError
       ''browser navigate requires url''
       []
       ''navigate action requires url'',
     rule_of ''SC044'' LError
       ''browser click requires selector''
       []
       ''click action requires selector'',
     rule_of ''SC045'' LError
       ''browser fill requires selector''
       []
       ''fill action requires selector'',
     rule_of ''SC046'' LError
       ''browser fill requires value''
       []
       ''fill action requires value'',
     rule_of ''SC047'' LError
       ''browser assert requires selector''
       []
       ''assert action requires selector'',
     rule_of ''SC048'' LWarning
       ''browser assert should have assertion fields''
       []
       ''no assertion fields'',
     rule_of ''SC049'' LError
       ''browser timeout must be a valid Go duration''
       ''Uses same format as exec timeout (e.g. 10s, 30s).''
       ''browser timeout: invalid duration'',
     rule_of ''SC050'' LError
       ''grpc must be a YAML mapping''
       []
       ''grpc must be a mapping'',
     rule_of ''SC051'' LError
       ''grpc service is required''
       []
       ''grpc missing required field: service'',
     rule_of ''SC052'' LError
       ''grpc method is required''
       []
       ''grpc missing required field: method'',
     rule_of ''SC053'' LError
       ''grpc timeout must be a valid Go duration''
       []
       ''grpc timeout'',
     rule_of ''SC054'' LError
       ''grpc stream messages must be an array''
       []
       ''grpc stream messages must be an array'',
     rule_of ''SC055'' LError
       ''grpc receive timeout must be a valid Go duration''
       []
       ''grpc receive timeout'',
     rule_of ''SC060'' LError
       ''ws must be a YAML mapping''
       []
       ''ws must be a mapping'',
     rule_of ''SC061'' LWarning
       ''ws step missing url; no prior connection may exist''
       []
       ''ws step missing url'',
     rule_of ''SC062'' LError
       ''ws receive timeout must be a valid Go duration''
       []
       ''ws receive timeout: invalid duration'',
     rule_of ''SC063'' LError
       ''ws receive count must be a positive integer''
       []
       ''ws receive count must be a positive integer'',
     rule_of ''SC070'' LError
       ''tui must be a YAML mapping''
       []
       ''tui must be a mapping'',
     rule_of ''SC071'' LError
       ''tui step requires command or at least one interaction field''
       []
       ''tui step requires command'',
     rule_of ''SC072'' LError
       ''tui command must not be empty''
       []
       ''tui command must not be empty'',
     rule_of ''SC073'' LError
       ''tui timeout must be a valid Go duration''
       []
       ''tui timeout: invalid duration'']"

text \<open>A diagnostic is documented by a rule of its level whose text its message contains.\<close>

definition documented :: "rule list \<Rightarrow> lintDiag \<Rightarrow> bool" where
  "documented rules d \<longleftrightarrow>
     list_ex (\<lambda>r. ru_Level r = ld_Level d \<and> str_contains (ld_Message d) (ru_MsgContains r)) rules"

end
