(* ===== verification/Lint_Spec.thy ===== *)
theory Lint_Spec
  imports Lint_Rules Spec_Doc
begin

text \<open>The checks of a specification (\<open>internal/lint/spec.go\<close>): a title, a description, no empty sections, no
  duplicate headings, closed code fences.\<close>

record specHeading =
  sh_level :: nat
  sh_text :: gostring
  sh_line :: nat

definition lint_parseHeading :: "gostring \<Rightarrow> nat \<times> gostring" where
  "lint_parseHeading line =
     (let trimmed = trim_space line in
      if \<not> has_prefix trimmed ''#'' then (0, [])
      else
        let level = length (takeWhile (\<lambda>c. c = CHR ''#'') trimmed) in
        if 6 < level then (0, [])
        else
          let rest = drop level trimmed in
          if rest = [] \<or> hd rest \<noteq> CHR '' '' then (0, [])
          else
            let text = trim_space rest in
            if text = [] then (0, []) else (level, text))"

definition lint_collectContent :: "gostring list \<Rightarrow> nat \<Rightarrow> nat \<Rightarrow> gostring" where
  "lint_collectContent lines start stop =
     (if stop \<le> start \<or> length lines \<le> start then []
      else
        let stop1 = (if length lines < stop then length lines else stop)
        in trim_space (str_join [NL] (drop start (take stop1 lines))))"

text \<open>The headings outside code fences, with one-based lines, and whether a fence is open at the end.\<close>

fun heading_loop :: "nat \<Rightarrow> bool \<Rightarrow> gostring list \<Rightarrow> specHeading list \<times> bool" where
  "heading_loop i inFencedBlock [] = ([], inFencedBlock)"
| "heading_loop i inFencedBlock (line # lines) =
     (let trimmed = trim_space line;
          fenced = (if has_prefix trimmed ''```'' \<or> has_prefix trimmed ''~~~'' then \<not> inFencedBlock else inFencedBlock)
      in if fenced then heading_loop (Suc i) fenced lines
         else
           (case lint_parseHeading line of (level, text) \<Rightarrow>
              (case heading_loop (Suc i) fenced lines of (hs, opn) \<Rightarrow>
                 (if 0 < level then \<lparr>sh_level = level, sh_text = text, sh_line = i + 1\<rparr> # hs else hs, opn))))"

definition extractHeadings :: "gostring list \<Rightarrow> specHeading list \<times> bool" where
  "extractHeadings lines = heading_loop 0 False lines"

definition findFirstL1 :: "specHeading list \<Rightarrow> specHeading option" where
  "findFirstL1 hs = find (\<lambda>h. sh_level h = 1) hs"

definition checkDescription :: "gostring \<Rightarrow> gostring list \<Rightarrow> specHeading list \<Rightarrow> specHeading \<Rightarrow> lintDiag list" where
  "checkDescription path lines headings firstL1 =
     (let descEnd = (case find (\<lambda>h. sh_line firstL1 < sh_line h) headings of
                       Some h \<Rightarrow> sh_line h - 1 | None \<Rightarrow> length lines) in
      if lint_collectContent lines (sh_line firstL1) descEnd = []
      then [warn_at path (int (sh_line firstL1)) ''no description text after title heading'']
      else [])"

text \<open>The headings after each one give the end of its section.\<close>

fun empty_sections :: "gostring \<Rightarrow> gostring list \<Rightarrow> specHeading \<Rightarrow> specHeading list \<Rightarrow> lintDiag list" where
  "empty_sections path lines firstL1 [] = []"
| "empty_sections path lines firstL1 (h # hs) =
     (if h = firstL1 then []
      else
        let contentEnd = (case find (\<lambda>g. sh_level g \<le> sh_level h) hs of
                            Some g \<Rightarrow> sh_line g - 1 | None \<Rightarrow> length lines) in
        if lint_collectContent lines (sh_line h) contentEnd = []
        then [warn_at path (int (sh_line h)) (''section '' @ go_quote (sh_text h) @ '' has no content'')]
        else []) @ empty_sections path lines firstL1 hs"

definition checkEmptySections :: "gostring \<Rightarrow> gostring list \<Rightarrow> specHeading list \<Rightarrow> specHeading \<Rightarrow> lintDiag list" where
  "checkEmptySections path lines headings firstL1 = empty_sections path lines firstL1 headings"

text \<open>\<open>seen\<close> maps a level and a text to the line they first appear on.\<close>

fun duplicate_headings :: "gostring \<Rightarrow> ((nat \<times> gostring) \<times> nat) list \<Rightarrow> specHeading list \<Rightarrow> lintDiag list" where
  "duplicate_headings path seen [] = []"
| "duplicate_headings path seen (h # hs) =
     (case map_of seen (sh_level h, sh_text h) of
        Some firstLine \<Rightarrow>
          warn_at path (int (sh_line h))
            (''duplicate heading '' @ go_quote (sh_text h) @ '' (same level '' @ nat_str (sh_level h) @
             '', first at line '' @ nat_str firstLine @ '')'') # duplicate_headings path seen hs
      | None \<Rightarrow> duplicate_headings path (((sh_level h, sh_text h), sh_line h) # seen) hs)"

definition checkDuplicateHeadings :: "gostring \<Rightarrow> specHeading list \<Rightarrow> lintDiag list" where
  "checkDuplicateHeadings path headings = duplicate_headings path [] headings"

definition lintSpecContent :: "gostring \<Rightarrow> gostring \<Rightarrow> lintDiag list" where
  "lintSpecContent path content =
     (if trim_space content = [] then [err_at path 0 ''spec file is empty'']
      else
        let normalized = replace_all [CHR 0x0D, NL] [NL] content;
            lines = split_on NL (trim_right_nl normalized)
        in case extractHeadings lines of
             (headings, unclosedFence) \<Rightarrow>
               (if unclosedFence then [warn_at path 0 ''unclosed fenced code block (some headings may be ignored)''] else []) @
               (case findFirstL1 headings of
                  None \<Rightarrow> [err_at path 0 ''no level-1 heading found (spec must have a title)'']
                | Some firstL1 \<Rightarrow>
                    checkDescription path lines headings firstL1 @
                    checkEmptySections path lines headings firstL1 @
                    checkDuplicateHeadings path headings))"

definition CheckSpec :: "(gostring \<Rightarrow> goerr + gostring) \<Rightarrow> gostring \<Rightarrow> goerr + lintDiag list" where
  "CheckSpec read path =
     (case read path of
        Inl e \<Rightarrow> Inl (wrap_err ''lint spec'' e)
      | Inr data \<Rightarrow> Inr (lintSpecContent path data))"

section \<open>Every finding is documented\<close>

lemma contains_sublist: "str_contains s p \<longleftrightarrow> sublist p s"
proof (induction s)
  case Nil
  then show ?case by (simp add: str_contains_def)
next
  case (Cons c s)
  have "str_contains (c # s) p \<longleftrightarrow> prefix p (c # s) \<or> str_contains s p" by (simp add: str_contains_def)
  with Cons show ?case by (simp add: sublist_Cons_right)
qed

lemma contains_append: "str_contains b p \<Longrightarrow> str_contains (a @ b) p" "str_contains a p \<Longrightarrow> str_contains (a @ b) p"
  unfolding contains_sublist sublist_def by (metis append.assoc)+

lemma documentedI:
  "r \<in> set rules \<Longrightarrow> ru_Level r = ld_Level d \<Longrightarrow> str_contains (ld_Message d) (ru_MsgContains r) \<Longrightarrow> documented rules d"
  by (auto simp: documented_def list_ex_iff)

lemma spec_messages:
  "documented SpecRules (err_at path k ''spec file is empty'')"
  "documented SpecRules (warn_at path k ''unclosed fenced code block (some headings may be ignored)'')"
  "documented SpecRules (err_at path k ''no level-1 heading found (spec must have a title)'')"
  "documented SpecRules (warn_at path k ''no description text after title heading'')"
  "documented SpecRules (warn_at path k (''section '' @ q @ '' has no content''))"
  "documented SpecRules (warn_at path k (''duplicate heading '' @ t))"
proof -
  show "documented SpecRules (warn_at path k (''section '' @ q @ '' has no content''))"
  proof (rule documentedI)
    show "rule_of ''S004'' LWarning ''sections should not be empty'' [] ''has no content'' \<in> set SpecRules"
      by (simp add: SpecRules_def)
    have "str_contains '' has no content'' ''has no content''" by code_simp
    then have "str_contains (''section '' @ q @ '' has no content'') ''has no content''" by (intro contains_append(1))
    then show "str_contains (ld_Message (warn_at path k (''section '' @ q @ '' has no content'')))
        (ru_MsgContains (rule_of ''S004'' LWarning ''sections should not be empty'' [] ''has no content''))"
      by (simp only: warn_at_def rule_of_def lintDiag.simps rule.simps)
  qed (simp add: rule_of_def warn_at_def)
qed (simp_all add: documented_def SpecRules_def rule_of_def err_at_def warn_at_def str_contains_def)

lemma empty_sections_documented: "list_all (documented SpecRules) (empty_sections path lines f hs)"
  by (induction hs) (simp_all add: spec_messages Let_def del: append.simps)

lemma duplicates_documented: "list_all (documented SpecRules) (duplicate_headings path seen hs)"
  by (induction hs arbitrary: seen) (simp_all add: spec_messages split: option.split del: append.simps)

lemma lint_heading_same: "lint_parseHeading line = parseHeading line"
  by (simp add: lint_parseHeading_def parseHeading_def HASH_def Let_def)

definition lint_heading :: "heading \<Rightarrow> specHeading" where
  "lint_heading h = \<lparr>sh_level = hd_level h, sh_text = hd_text h, sh_line = hd_line h + 1\<rparr>"

lemma heading_loop_scan: "fst (heading_loop i fenced lines) = map lint_heading (scan_headings i fenced lines)"
  by (induction lines arbitrary: i fenced)
    (simp_all add: lint_heading_same lint_heading_def Let_def case_prod_unfold)

lemma extractHeadings_scan: "fst (extractHeadings lines) = map lint_heading (scan_headings 0 False lines)"
  by (simp add: extractHeadings_def heading_loop_scan)

lemma build_sections_levels: "map sec_Level (build_sections lines hs) = map hd_level hs"
  by (induction hs) simp_all

lemma parse_level1: "trim_space raw \<noteq> [] \<Longrightarrow>
    (\<exists>sp. Parse raw = Inr sp \<and> (\<exists>x \<in> set (sp_Sections sp). sec_Level x = n)) \<longleftrightarrow>
    (\<exists>h \<in> set (scan_headings 0 False (spec_lines raw)). hd_level h = n)"
proof -
  assume ne: "trim_space raw \<noteq> []"
  have "\<exists>sp. Parse raw = Inr sp \<and> sp_Sections sp = build_sections (spec_lines raw) (scan_headings 0 False (spec_lines raw))"
    using ne by (cases "scan_headings 0 False (spec_lines raw)") (simp_all add: Parse_def Let_def)
  then obtain sp where sp: "Parse raw = Inr sp"
      "sp_Sections sp = build_sections (spec_lines raw) (scan_headings 0 False (spec_lines raw))" by blast
  have "(\<exists>x \<in> set (sp_Sections sp). sec_Level x = n) \<longleftrightarrow> n \<in> set (map sec_Level (sp_Sections sp))" by auto
  also have "\<dots> \<longleftrightarrow> (\<exists>h \<in> set (scan_headings 0 False (spec_lines raw)). hd_level h = n)"
    by (simp only: sp(2) build_sections_levels) auto
  finally show ?thesis using sp(1) by simp
qed

text \<open>C30. Every finding of the specification linter is one of the documented rules, by level and message;
  and it finds no error exactly where the parser accepts the file and finds a section of level 1 in it,
  the two scanning headings and code fences alike.\<close>

theorem lintSpec_documented:
  "list_all (documented SpecRules) (lintSpecContent path content) \<and>
   (\<not> HasErrors (lintSpecContent path content) \<longleftrightarrow>
      (\<exists>sp. Parse content = Inr sp \<and> (\<exists>x \<in> set (sp_Sections sp). sec_Level x = 1)))"
proof (cases "trim_space content = []")
  case True
  then show ?thesis by (simp add: lintSpecContent_def spec_messages Parse_def)
next
  case False
  have w: "\<not> HasErrors (empty_sections path lines f hs)" "\<not> HasErrors (duplicate_headings path seen hs)" for lines f hs seen
    by (induction hs arbitrary: seen) (auto simp: Let_def split: option.split)
  obtain hs u where hs: "extractHeadings (spec_lines content) = (hs, u)" by force
  have "findFirstL1 hs = None \<longleftrightarrow> \<not> (\<exists>h \<in> set (scan_headings 0 False (spec_lines content)). hd_level h = 1)"
    using extractHeadings_scan [of "spec_lines content"] hs
    by (auto simp: findFirstL1_def find_None_iff lint_heading_def)
  then have l1: "findFirstL1 hs = None \<longleftrightarrow>
      \<not> (\<exists>sp. Parse content = Inr sp \<and> (\<exists>x \<in> set (sp_Sections sp). sec_Level x = 1))"
    using parse_level1 [OF False, of 1] by simp
  have e: "lintSpecContent path content =
      (if u then [warn_at path 0 ''unclosed fenced code block (some headings may be ignored)''] else []) @
      (case findFirstL1 hs of
         None \<Rightarrow> [err_at path 0 ''no level-1 heading found (spec must have a title)'']
       | Some f \<Rightarrow> checkDescription path (spec_lines content) hs f @ checkEmptySections path (spec_lines content) hs f @
           checkDuplicateHeadings path hs)"
    using False hs [unfolded spec_lines_def CRLF_def] by (cases "findFirstL1 hs") (simp_all add: lintSpecContent_def spec_lines_def CRLF_def Let_def)
  show ?thesis
  proof (cases "findFirstL1 hs")
    case None
    with l1 have n: "\<not> (\<exists>sp. Parse content = Inr sp \<and> (\<exists>x \<in> set (sp_Sections sp). sec_Level x = 1))" by blast
    show ?thesis unfolding e using None n by (simp add: spec_messages)
  next
    case (Some f)
    then have "findFirstL1 hs \<noteq> None" by simp
    with l1 have n: "\<exists>sp. Parse content = Inr sp \<and> (\<exists>x \<in> set (sp_Sections sp). sec_Level x = 1)" by blast
    show ?thesis unfolding e using Some n
      by (simp add: checkDescription_def checkEmptySections_def checkDuplicateHeadings_def Let_def
          spec_messages empty_sections_documented duplicates_documented w)
  qed
qed

end
