(* ===== verification/Lint_Scenario.thy ===== *)
theory Lint_Scenario
  imports Lint_Rules Scenario_Exec
begin

text \<open>
  The checks of a scenario file (\<open>internal/lint/scenario.go\<close>) on the node tree of the YAML parser: required
  fields, step types, durations, captures, and the variables that are referenced before they are
  captured. The parser and its decoding of numbers are parameters. A set of captures is passed through
  the steps in their order.
\<close>

section \<open>Nodes\<close>

datatype ykind = DocumentNode | SequenceNode | MappingNode | ScalarNode | OtherNode

datatype ynode = YNode (yn_Kind: ykind) (yn_Line: int) (yn_Value: gostring) (yn_Content: "ynode list")

text \<open>\<open>yaml.Unmarshal\<close> into a node, and \<open>Decode\<close> into an int and a float64; errors are their texts.\<close>

record yamlDec =
  yd_Unmarshal :: "gostring \<Rightarrow> gostring + ynode"
  yd_Int :: "ynode \<Rightarrow> gostring + int"
  yd_Float :: "ynode \<Rightarrow> gostring + float64"

text \<open>Key and value of a field; of equal keys the last one counts.\<close>

type_synonym fields = "(ynode \<times> ynode) gomap"

fun node_pairs :: "ynode list \<Rightarrow> (ynode \<times> ynode) list" where
  "node_pairs (k # v # rest) = (k, v) # node_pairs rest"
| "node_pairs _ = []"

definition nodeFields :: "ynode \<Rightarrow> fields" where
  "nodeFields node =
     (if yn_Kind node \<noteq> MappingNode then []
      else fold (\<lambda>(k, v). gm_put (yn_Value k) (k, v)) (node_pairs (yn_Content node)) [])"

definition field :: "fields \<Rightarrow> gostring \<Rightarrow> ynode option" where
  "field fs name = map_option snd (gm_get fs name)"

definition getFieldNode :: "fields \<Rightarrow> gostring \<Rightarrow> ynode option \<times> int" where
  "getFieldNode fs name =
     (case gm_get fs name of None \<Rightarrow> (None, 0) | Some (k, v) \<Rightarrow> (Some v, yn_Line k))"

definition countTrue :: "bool list \<Rightarrow> nat" where "countTrue bs = length (filter (\<lambda>b. b) bs)"

text \<open>The values of a mapping, the odd positions of its content.\<close>

fun map_values :: "ynode list \<Rightarrow> ynode list" where
  "map_values (k # v # rest) = v # map_values rest"
| "map_values _ = []"

section \<open>Scenario fields\<close>

definition idPattern_text :: gostring where "idPattern_text = ''^[a-z0-9][a-z0-9_-]*$''"
definition captureNamePat_text :: gostring where "captureNamePat_text = ''^[a-zA-Z_][a-zA-Z0-9_]*$''"

definition id_first :: "char \<Rightarrow> bool" where
  "id_first c \<longleftrightarrow> (CHR ''a'' \<le> c \<and> c \<le> CHR ''z'') \<or> is_digit c"

definition matches_id :: "gostring \<Rightarrow> bool" where
  "matches_id s \<longleftrightarrow>
     (case s of [] \<Rightarrow> False
      | c # r \<Rightarrow> id_first c \<and> list_all (\<lambda>c. id_first c \<or> c = CHR ''_'' \<or> c = CHR ''-'') r)"

definition validMethods :: "gostring list" where
  "validMethods = [''GET'', ''POST'', ''PUT'', ''PATCH'', ''DELETE'', ''HEAD'', ''OPTIONS'']"

definition validTypes :: "gostring list" where "validTypes = [''functional'', ''api'']"

definition checkID :: "gostring \<Rightarrow> fields \<Rightarrow> lintDiag list" where
  "checkID path fs =
     (case field fs ''id'' of
        None \<Rightarrow> [err_at path 0 ''missing required field: id'']
      | Some v \<Rightarrow>
          if yn_Value v = [] then [err_at path (yn_Line v) ''id must not be empty'']
          else if \<not> matches_id (yn_Value v) then
            [err_at path (yn_Line v) (''id '' @ go_quote (yn_Value v) @ '' must match pattern '' @ idPattern_text)]
          else [])"

definition checkType :: "gostring \<Rightarrow> fields \<Rightarrow> lintDiag list" where
  "checkType path fs =
     (case field fs ''type'' of
        None \<Rightarrow> []
      | Some v \<Rightarrow>
          if \<not> List.member validTypes (yn_Value v) then
            [warn_at path (yn_Line v) (''type '' @ go_quote (yn_Value v) @ '' is not one of: functional, api'')]
          else [])"

definition checkWeight :: "yamlDec \<Rightarrow> gostring \<Rightarrow> fields \<Rightarrow> lintDiag list" where
  "checkWeight yd path fs =
     (case field fs ''weight'' of
        None \<Rightarrow> []
      | Some v \<Rightarrow>
          (case yd_Float yd v of
             Inl e \<Rightarrow> [warn_at path (yn_Line v) (''weight must be a number: '' @ e)]
           | Inr x \<Rightarrow> if fleq x fzero then [warn_at path (yn_Line v) ''weight must be positive''] else []))"

definition checkTier :: "yamlDec \<Rightarrow> gostring \<Rightarrow> fields \<Rightarrow> lintDiag list" where
  "checkTier yd path fs =
     (case field fs ''tier'' of
        None \<Rightarrow> []
      | Some v \<Rightarrow>
          (case yd_Int yd v of
             Inl e \<Rightarrow> [warn_at path (yn_Line v) (''tier must be a number: '' @ e)]
           | Inr t \<Rightarrow> if t < 1 \<or> 3 < t then [warn_at path (yn_Line v) ''tier must be between 1 and 3''] else []))"

section \<open>Common checks\<close>

definition node_refs :: "gostring \<Rightarrow> captureSet \<Rightarrow> ynode \<Rightarrow> lintDiag list" where
  "node_refs path cs v = checkVarRefs (extractVarRefs (yn_Value v)) cs path (yn_Line v)"

definition field_refs :: "gostring \<Rightarrow> captureSet \<Rightarrow> fields \<Rightarrow> gostring \<Rightarrow> lintDiag list" where
  "field_refs path cs fs name = (case field fs name of None \<Rightarrow> [] | Some v \<Rightarrow> node_refs path cs v)"

text \<open>A duration field that is present, not empty and not readable.\<close>

definition duration_field :: "gostring \<Rightarrow> fields \<Rightarrow> gostring \<Rightarrow> (gostring \<Rightarrow> gostring) \<Rightarrow> lintDiag list" where
  "duration_field path fs name msg =
     (case field fs name of
        None \<Rightarrow> []
      | Some v \<Rightarrow>
          if yn_Value v \<noteq> [] \<and> ParseDuration (yn_Value v) = None
          then [err_at path (yn_Line v) (msg (go_quote (yn_Value v)))] else [])"

section \<open>Step types\<close>

definition lintExecFiles :: "gostring \<Rightarrow> ynode \<Rightarrow> captureSet \<Rightarrow> lintDiag list" where
  "lintExecFiles path files cs =
     (if yn_Kind files \<noteq> MappingNode then [err_at path (yn_Line files) ''exec files must be a mapping'']
      else concat (map (\<lambda>(k, v).
        (if \<not> has_prefix (yn_Value k) ''/'' then
           [err_at path (yn_Line k) (''exec files path '' @ go_quote (yn_Value k) @
              '' must be absolute (start with /); paths that begin with a variable reference such as {base_dir}/file must also include a leading /'')]
         else []) @ node_refs path cs k @ node_refs path cs v) (node_pairs (yn_Content files))))"

definition lintExec :: "gostring \<Rightarrow> ynode \<Rightarrow> captureSet \<Rightarrow> lintDiag list" where
  "lintExec path node cs =
     (if yn_Kind node \<noteq> MappingNode then [err_at path (yn_Line node) ''exec must be a mapping'']
      else
        let fs = nodeFields node in
        (case field fs ''command'' of
           None \<Rightarrow> [err_at path (yn_Line node) ''exec missing required field: command'']
         | Some v \<Rightarrow> if yn_Value v = [] then [err_at path (yn_Line v) ''exec command must not be empty'']
                    else node_refs path cs v) @
        field_refs path cs fs ''stdin'' @
        (case field fs ''env'' of
           None \<Rightarrow> []
         | Some v \<Rightarrow> if yn_Kind v \<noteq> MappingNode then [err_at path (yn_Line v) ''exec env must be a mapping'']
                    else concat (map (node_refs path cs) (map_values (yn_Content v)))) @
        duration_field path fs ''timeout'' (\<lambda>q. ''exec timeout '' @ q @ '' is not a valid duration'') @
        (case field fs ''files'' of None \<Rightarrow> [] | Some v \<Rightarrow> lintExecFiles path v cs))"

definition lintRequest :: "gostring \<Rightarrow> ynode \<Rightarrow> captureSet \<Rightarrow> lintDiag list" where
  "lintRequest path node cs =
     (if yn_Kind node \<noteq> MappingNode then [err_at path (yn_Line node) ''request must be a mapping'']
      else
        let fs = nodeFields node in
        (case field fs ''method'' of
           None \<Rightarrow> [err_at path (yn_Line node) ''request missing required field: method'']
         | Some v \<Rightarrow> if \<not> List.member validMethods (to_upper (yn_Value v))
                    then [err_at path (yn_Line v) (''invalid HTTP method: '' @ go_quote (yn_Value v))] else []) @
        (case field fs ''path'' of
           None \<Rightarrow> [err_at path (yn_Line node) ''request missing required field: path'']
         | Some v \<Rightarrow> node_refs path cs v) @
        (case field fs ''headers'' of
           None \<Rightarrow> []
         | Some v \<Rightarrow> if yn_Kind v = MappingNode
                    then concat (map (node_refs path cs) (map_values (yn_Content v))) else []) @
        (case field fs ''body'' of
           None \<Rightarrow> []
         | Some v \<Rightarrow> if yn_Kind v = ScalarNode then node_refs path cs v else []))"

definition validBrowserActions :: "gostring list" where
  "validBrowserActions = [''navigate'', ''click'', ''fill'', ''assert'']"

definition requireBrowserField ::
    "gostring \<Rightarrow> ynode \<Rightarrow> fields \<Rightarrow> captureSet \<Rightarrow> gostring \<Rightarrow> gostring \<Rightarrow> lintDiag list" where
  "requireBrowserField path node fs cs name action =
     (case field fs name of
        None \<Rightarrow> [err_at path (yn_Line node) (''browser '' @ action @ '' action requires '' @ name)]
      | Some v \<Rightarrow>
          if yn_Value v = [] then [err_at path (yn_Line node) (''browser '' @ action @ '' action requires '' @ name)]
          else node_refs path cs v)"

definition lintBrowserAction ::
    "gostring \<Rightarrow> gostring \<Rightarrow> ynode \<Rightarrow> fields \<Rightarrow> captureSet \<Rightarrow> lintDiag list" where
  "lintBrowserAction path action node fs cs =
     (if action = ''navigate'' then requireBrowserField path node fs cs ''url'' ''navigate''
      else if action = ''click'' then requireBrowserField path node fs cs ''selector'' ''click''
      else if action = ''fill'' then
        requireBrowserField path node fs cs ''selector'' ''fill'' @ requireBrowserField path node fs cs ''value'' ''fill''
      else if action = ''assert'' then
        requireBrowserField path node fs cs ''selector'' ''assert'' @
        (if field fs ''text'' = None \<and> field fs ''text_absent'' = None \<and> field fs ''count'' = None
         then [warn_at path (yn_Line node) ''browser assert has no assertion fields (text, text_absent, or count)'']
         else [])
      else [])"

definition lintBrowser :: "gostring \<Rightarrow> ynode \<Rightarrow> captureSet \<Rightarrow> lintDiag list" where
  "lintBrowser path node cs =
     (if yn_Kind node \<noteq> MappingNode then [err_at path (yn_Line node) ''browser must be a mapping'']
      else
        let fs = nodeFields node in
        (case field fs ''action'' of
           None \<Rightarrow> [err_at path (yn_Line node) ''browser missing required field: action'']
         | Some v \<Rightarrow>
             if \<not> List.member validBrowserActions (yn_Value v) then
               [err_at path (yn_Line v) (''invalid browser action '' @ go_quote (yn_Value v) @
                  ''; valid actions: navigate, click, fill, assert'')]
             else
               lintBrowserAction path (yn_Value v) node fs cs @
               field_refs path cs fs ''text'' @ field_refs path cs fs ''text_absent'' @
               duration_field path fs ''timeout'' (\<lambda>q. ''browser timeout: invalid duration '' @ q)))"

definition lintGRPCServiceMethod :: "gostring \<Rightarrow> ynode \<Rightarrow> fields \<Rightarrow> captureSet \<Rightarrow> lintDiag list" where
  "lintGRPCServiceMethod path node fs cs =
     (case field fs ''service'' of
        None \<Rightarrow> [err_at path (yn_Line node) ''grpc missing required field: service'']
      | Some v \<Rightarrow> if yn_Value v = [] then [err_at path (yn_Line node) ''grpc missing required field: service'']
                 else node_refs path cs v) @
     (case field fs ''method'' of
        None \<Rightarrow> [err_at path (yn_Line node) ''grpc missing required field: method'']
      | Some v \<Rightarrow> if yn_Value v = [] then [err_at path (yn_Line node) ''grpc missing required field: method'']
                 else node_refs path cs v)"

definition lintGRPCOptionalFields :: "gostring \<Rightarrow> fields \<Rightarrow> captureSet \<Rightarrow> lintDiag list" where
  "lintGRPCOptionalFields path fs cs =
     (case field fs ''body'' of
        None \<Rightarrow> [] | Some v \<Rightarrow> if yn_Kind v = ScalarNode then node_refs path cs v else []) @
     (case field fs ''headers'' of
        None \<Rightarrow> []
      | Some v \<Rightarrow> if yn_Kind v = MappingNode
                 then concat (map (node_refs path cs) (map_values (yn_Content v))) else []) @
     duration_field path fs ''timeout'' (\<lambda>q. ''grpc timeout: invalid duration '' @ q)"

definition lintGRPCStream :: "gostring \<Rightarrow> ynode \<Rightarrow> captureSet \<Rightarrow> lintDiag list" where
  "lintGRPCStream path node cs =
     (let fs = nodeFields node in
      (case field fs ''messages'' of
         None \<Rightarrow> []
       | Some v \<Rightarrow> if yn_Kind v \<noteq> SequenceNode then [err_at path (yn_Line v) ''grpc stream messages must be an array'']
                  else concat (map (node_refs path cs) (yn_Content v))) @
      (case field fs ''receive'' of
         None \<Rightarrow> []
       | Some v \<Rightarrow> if yn_Kind v = MappingNode
                  then duration_field path (nodeFields v) ''timeout'' (\<lambda>q. ''grpc receive timeout: invalid duration '' @ q)
                  else []))"

definition lintGRPC :: "gostring \<Rightarrow> ynode \<Rightarrow> captureSet \<Rightarrow> lintDiag list" where
  "lintGRPC path node cs =
     (if yn_Kind node \<noteq> MappingNode then [err_at path (yn_Line node) ''grpc must be a mapping'']
      else
        let fs = nodeFields node;
            isStreamCollect = (field fs ''stream'' \<noteq> None \<and> field fs ''service'' = None) in
        (if \<not> isStreamCollect then lintGRPCServiceMethod path node fs cs else []) @
        lintGRPCOptionalFields path fs cs @
        (case field fs ''stream'' of
           None \<Rightarrow> [] | Some v \<Rightarrow> if yn_Kind v = MappingNode then lintGRPCStream path v cs else []))"

definition lintWSReceive :: "yamlDec \<Rightarrow> gostring \<Rightarrow> ynode \<Rightarrow> lintDiag list" where
  "lintWSReceive yd path node =
     (let fs = nodeFields node in
      duration_field path fs ''timeout'' (\<lambda>q. ''ws receive timeout: invalid duration '' @ q) @
      (case field fs ''count'' of
         None \<Rightarrow> []
       | Some v \<Rightarrow>
           (case yd_Int yd v of
              Inl e \<Rightarrow> [err_at path (yn_Line v) (''ws receive count must be a positive integer: '' @ e)]
            | Inr c \<Rightarrow> if c \<le> 0 then [err_at path (yn_Line v) ''ws receive count must be a positive integer''] else [])))"

definition lintWS :: "yamlDec \<Rightarrow> gostring \<Rightarrow> ynode \<Rightarrow> captureSet \<Rightarrow> lintDiag list" where
  "lintWS yd path node cs =
     (if yn_Kind node \<noteq> MappingNode then [err_at path (yn_Line node) ''ws must be a mapping'']
      else
        let fs = nodeFields node;
            missing = [warn_at path (yn_Line node) ''ws step missing url; connection must have been established in a prior step''] in
        (case field fs ''url'' of
           None \<Rightarrow> missing | Some v \<Rightarrow> if yn_Value v = [] then missing else node_refs path cs v) @
        field_refs path cs fs ''id'' @ field_refs path cs fs ''send'' @
        (case field fs ''receive'' of
           None \<Rightarrow> [] | Some v \<Rightarrow> if yn_Kind v = MappingNode then lintWSReceive yd path v else []))"

definition lintTUICommand :: "gostring \<Rightarrow> ynode \<Rightarrow> captureSet \<Rightarrow> lintDiag list" where
  "lintTUICommand path v cs =
     (if yn_Kind v \<noteq> ScalarNode then [err_at path (yn_Line v) ''tui command must be a string'']
      else if yn_Value v = [] then [err_at path (yn_Line v) ''tui command must not be empty'']
      else node_refs path cs v)"

definition tui_actions :: "gostring list" where
  "tui_actions = [''send_key'', ''send_text'', ''wait_for'', ''assert_screen'', ''assert_absent'']"

text \<open>The platform check of Unix has no findings.\<close>

definition tuiPlatformDiags :: "gostring \<Rightarrow> ynode \<Rightarrow> lintDiag list" where
  "tuiPlatformDiags path node = []"

definition lintTUI :: "gostring \<Rightarrow> ynode \<Rightarrow> captureSet \<Rightarrow> lintDiag list" where
  "lintTUI path node cs =
     (if yn_Kind node \<noteq> MappingNode then [err_at path (yn_Line node) ''tui must be a mapping'']
      else
        let fs = nodeFields node in
        tuiPlatformDiags path node @
        (case field fs ''command'' of
           Some v \<Rightarrow> lintTUICommand path v cs
         | None \<Rightarrow>
             if list_all (\<lambda>k. field fs k = None) tui_actions then
               [err_at path (yn_Line node) ''tui step requires command (launch) or at least one of send_key, send_text, wait_for, assert_screen, assert_absent (interaction)'']
             else []) @
        concat (map (\<lambda>k. case field fs k of
            None \<Rightarrow> [] | Some v \<Rightarrow> if yn_Value v \<noteq> [] then node_refs path cs v else []) tui_actions) @
        duration_field path fs ''timeout'' (\<lambda>q. ''tui timeout: invalid duration '' @ q))"

definition lintStepType ::
    "yamlDec \<Rightarrow> gostring \<Rightarrow> ynode \<Rightarrow> fields \<Rightarrow> captureSet \<Rightarrow> gostring \<times> lintDiag list" where
  "lintStepType yd path node fs cs =
     (let has = (\<lambda>k. field fs k \<noteq> None);
          typeCount = countTrue [has ''request'', has ''exec'', has ''browser'', has ''grpc'', has ''ws'', has ''tui''] in
      if 1 < typeCount then
        ([], [err_at path (yn_Line node) ''step has multiple step types; exactly one of request, exec, browser, grpc, ws, or tui is required''])
      else if typeCount = 0 then
        ([], [err_at path (yn_Line node) ''step missing step type: exactly one of request, exec, browser, grpc, ws, or tui is required''])
      else
        (case field fs ''request'' of Some v \<Rightarrow> (''request'', lintRequest path v cs) | None \<Rightarrow>
        (case field fs ''exec'' of Some v \<Rightarrow> (''exec'', lintExec path v cs) | None \<Rightarrow>
        (case field fs ''browser'' of Some v \<Rightarrow> (''browser'', lintBrowser path v cs) | None \<Rightarrow>
        (case field fs ''grpc'' of Some v \<Rightarrow> (''grpc'', lintGRPC path v cs) | None \<Rightarrow>
        (case field fs ''ws'' of Some v \<Rightarrow> (''ws'', lintWS yd path v cs) | None \<Rightarrow>
        (case field fs ''tui'' of Some v \<Rightarrow> (''tui'', lintTUI path v cs) | None \<Rightarrow> ([], []))))))))"

section \<open>Retry and captures\<close>

definition lintRetry :: "yamlDec \<Rightarrow> gostring \<Rightarrow> ynode \<Rightarrow> lintDiag list" where
  "lintRetry yd path node =
     (if yn_Kind node \<noteq> MappingNode then [err_at path (yn_Line node) ''retry must be a mapping'']
      else
        let fs = nodeFields node in
        (case field fs ''attempts'' of
           None \<Rightarrow> []
         | Some v \<Rightarrow>
             (case yd_Int yd v of
                Inl e \<Rightarrow> [err_at path (yn_Line v) (''retry attempts must be an integer: '' @ e)]
              | Inr a \<Rightarrow> if a < 1 then [warn_at path (yn_Line v) ''retry attempts should be at least 1 (defaults to 3)''] else [])) @
        duration_field path fs ''interval'' (\<lambda>q. ''retry interval '' @ q @ '' is not a valid duration'') @
        duration_field path fs ''timeout'' (\<lambda>q. ''retry timeout '' @ q @ '' is not a valid duration''))"

definition lintCaptureName :: "gostring \<Rightarrow> fields \<Rightarrow> ynode \<Rightarrow> captureSet \<Rightarrow> lintDiag list \<times> captureSet" where
  "lintCaptureName path fs capNode cs =
     (case field fs ''name'' of
        None \<Rightarrow> ([err_at path (yn_Line capNode) ''capture missing required field: name''], cs)
      | Some v \<Rightarrow>
          let name = yn_Value v in
          if name = [] then ([err_at path (yn_Line v) ''capture name must not be empty''], cs)
          else if \<not> is_ident name then
            ([err_at path (yn_Line v) (''capture name '' @ go_quote name @ '' must match pattern '' @ captureNamePat_text)], cs)
          else
            (case gm_get cs name of
               None \<Rightarrow> []
             | Some (file, line) \<Rightarrow>
                 [warn_at path (yn_Line v) (''capture '' @ go_quote name @ '' shadows earlier capture at '' @
                    file @ '':'' @ int_str line)],
             cs_add name path (yn_Line v) cs))"

definition lintCaptureSource :: "gostring \<Rightarrow> ynode \<Rightarrow> gostring \<Rightarrow> lintDiag list" where
  "lintCaptureSource path node stepType =
     (case gm_get CaptureSourceMap stepType of
        None \<Rightarrow> [err_at path (yn_Line node) (''source is not supported on '' @ stepType @ '' steps'')]
      | Some allowed \<Rightarrow>
          if \<not> List.member allowed (yn_Value node) then
            [err_at path (yn_Line node) (''invalid source '' @ go_quote (yn_Value node) @ ''; valid sources for '' @ stepType @
               '': '' @ str_join '', '' (sort allowed))]
          else [])"

definition lintCapture :: "gostring \<Rightarrow> gostring \<Rightarrow> ynode \<Rightarrow> captureSet \<Rightarrow> lintDiag list \<times> captureSet" where
  "lintCapture path stepType capNode cs =
     (if yn_Kind capNode \<noteq> MappingNode then ([err_at path (yn_Line capNode) ''capture entry must be a mapping''], cs)
      else
        let fs = nodeFields capNode in
        (case lintCaptureName path fs capNode cs of
           (nameDiags, cs1) \<Rightarrow>
             (nameDiags @
              (if field fs ''jsonpath'' = None \<and> field fs ''source'' = None
               then [err_at path (yn_Line capNode) ''capture requires at least one of jsonpath or source''] else []) @
              (case field fs ''jsonpath'' of
                 None \<Rightarrow> []
               | Some v \<Rightarrow>
                   (case validateJSONPathSyntax (yn_Value v) of
                      None \<Rightarrow> []
                    | Some e \<Rightarrow> [err_at path (yn_Line v) (''invalid jsonpath '' @ go_quote (yn_Value v) @ '': '' @ e)])) @
              (case field fs ''source'' of None \<Rightarrow> [] | Some v \<Rightarrow> lintCaptureSource path v stepType), cs1)))"

fun capture_loop :: "gostring \<Rightarrow> gostring \<Rightarrow> ynode list \<Rightarrow> captureSet \<Rightarrow> lintDiag list \<times> captureSet" where
  "capture_loop path stepType [] cs = ([], cs)"
| "capture_loop path stepType (n # ns) cs =
     (case lintCapture path stepType n cs of
        (ds, cs1) \<Rightarrow> (case capture_loop path stepType ns cs1 of (ds', cs2) \<Rightarrow> (ds @ ds', cs2)))"

definition lintCaptures :: "gostring \<Rightarrow> ynode \<Rightarrow> captureSet \<Rightarrow> gostring \<Rightarrow> lintDiag list \<times> captureSet" where
  "lintCaptures path node cs stepType =
     (if yn_Kind node \<noteq> SequenceNode then ([err_at path (yn_Line node) ''capture must be an array''], cs)
      else capture_loop path stepType (yn_Content node) cs)"

section \<open>Steps and files\<close>

definition lintStep :: "yamlDec \<Rightarrow> gostring \<Rightarrow> bool \<Rightarrow> ynode \<Rightarrow> captureSet \<Rightarrow> lintDiag list \<times> captureSet" where
  "lintStep yd path isSetup node cs =
     (if yn_Kind node \<noteq> MappingNode then ([err_at path (yn_Line node) ''step must be a mapping''], cs)
      else
        let fs = nodeFields node in
        (case lintStepType yd path node fs cs of
           (stepType, typeDiags) \<Rightarrow>
             let ds = typeDiags @
               (if \<not> isSetup then
                  (if field fs ''expect'' = None then [warn_at path (yn_Line node) ''step missing expect field''] else []) @
                  (if field fs ''description'' = None then [warn_at path (yn_Line node) ''step missing description field''] else [])
                else []) @
               duration_field path fs ''delay'' (\<lambda>q. ''delay '' @ q @ '' is not a valid duration'') @
               (case field fs ''retry'' of None \<Rightarrow> [] | Some v \<Rightarrow> lintRetry yd path v)
             in (case field fs ''capture'' of
                   None \<Rightarrow> (ds, cs)
                 | Some v \<Rightarrow> (case lintCaptures path v cs stepType of (cd, cs1) \<Rightarrow> (ds @ cd, cs1)))))"

fun lint_steps :: "yamlDec \<Rightarrow> gostring \<Rightarrow> bool \<Rightarrow> ynode list \<Rightarrow> captureSet \<Rightarrow> lintDiag list \<times> captureSet" where
  "lint_steps yd path isSetup [] cs = ([], cs)"
| "lint_steps yd path isSetup (n # ns) cs =
     (case lintStep yd path isSetup n cs of
        (ds, cs1) \<Rightarrow> (case lint_steps yd path isSetup ns cs1 of (ds', cs2) \<Rightarrow> (ds @ ds', cs2)))"

text \<open>The steps of a scenario mapping, with the findings on their own shape.\<close>

definition steps_of :: "gostring \<Rightarrow> fields \<Rightarrow> lintDiag list \<times> ynode list" where
  "steps_of path fs =
     (case getFieldNode fs ''steps'' of
        (None, _) \<Rightarrow> ([err_at path 0 ''missing required field: steps''], [])
      | (Some n, line) \<Rightarrow>
          if yn_Kind n \<noteq> SequenceNode \<or> yn_Content n = []
          then ([err_at path line ''steps must be a non-empty array''], [])
          else ([], yn_Content n))"

definition setup_of :: "gostring \<Rightarrow> fields \<Rightarrow> lintDiag list \<times> ynode list" where
  "setup_of path fs =
     (case getFieldNode fs ''setup'' of
        (None, _) \<Rightarrow> ([], [])
      | (Some n, _) \<Rightarrow>
          if yn_Kind n \<noteq> SequenceNode then ([err_at path 0 ''setup must be an array''], []) else ([], yn_Content n))"

definition lintScenarioContent :: "yamlDec \<Rightarrow> gostring \<Rightarrow> gostring \<Rightarrow> lintDiag list" where
  "lintScenarioContent yd path data =
     (if trim_space data = [] then [err_at path 0 ''scenario file is empty'']
      else
        (case yd_Unmarshal yd data of
           Inl e \<Rightarrow> [err_at path 0 (''invalid YAML: '' @ e)]
         | Inr doc \<Rightarrow>
             if yn_Kind doc \<noteq> DocumentNode \<or> yn_Content doc = [] then [err_at path 0 ''empty YAML document'']
             else
               let top = hd (yn_Content doc) in
               if yn_Kind top \<noteq> MappingNode then [err_at path (yn_Line top) ''scenario must be a YAML mapping'']
               else
                 let fs = nodeFields top in
                 (case steps_of path fs of (stepDiags, steps) \<Rightarrow>
                 (case setup_of path fs of (setupDiags, setup) \<Rightarrow>
                 (case lint_steps yd path True setup [] of (ds1, cs1) \<Rightarrow>
                 (case lint_steps yd path False steps cs1 of (ds2, _) \<Rightarrow>
                    checkID path fs @ checkType path fs @ checkWeight yd path fs @ checkTier yd path fs @
                    stepDiags @ setupDiags @ ds1 @ ds2))))))"

definition extractScenarioID :: "yamlDec \<Rightarrow> gostring \<Rightarrow> gostring \<times> int" where
  "extractScenarioID yd data =
     (case yd_Unmarshal yd data of
        Inl e \<Rightarrow> ([], 0)
      | Inr doc \<Rightarrow>
          if yn_Kind doc \<noteq> DocumentNode \<or> yn_Content doc = [] then ([], 0)
          else
            let top = hd (yn_Content doc) in
            if yn_Kind top \<noteq> MappingNode then ([], 0)
            else (case field (nodeFields top) ''id'' of None \<Rightarrow> ([], 0) | Some v \<Rightarrow> (yn_Value v, yn_Line v)))"

definition CheckScenario :: "yamlDec \<Rightarrow> (gostring \<Rightarrow> goerr + gostring) \<Rightarrow> gostring \<Rightarrow> goerr + lintDiag list" where
  "CheckScenario yd read path =
     (case read path of
        Inl e \<Rightarrow> Inl (wrap_err ''lint scenario'' e)
      | Inr data \<Rightarrow> Inr (lintScenarioContent yd path data))"

text \<open>\<open>seenIDs\<close> has the file and line of the first scenario of each identifier.\<close>

fun check_files ::
    "yamlDec \<Rightarrow> (gostring \<Rightarrow> goerr + gostring) \<Rightarrow> gostring list \<Rightarrow> (gostring \<times> int) gomap \<Rightarrow> goerr + lintDiag list" where
  "check_files yd read [] seenIDs = Inr []"
| "check_files yd read (path # ps) seenIDs =
     (case read path of
        Inl e \<Rightarrow> Inl (wrap_err ''lint scenario dir'' e)
      | Inr data \<Rightarrow>
          (case extractScenarioID yd data of
             (sid, line) \<Rightarrow>
               let (dup, seen1) =
                 (if sid = [] then ([], seenIDs)
                  else
                    (case gm_get seenIDs sid of
                       Some (file, prev) \<Rightarrow>
                         ([err_at path line (''duplicate scenario id '' @ go_quote sid @ '' (also in '' @ file @ '':'' @ int_str prev @ '')'')], seenIDs)
                     | None \<Rightarrow> ([], gm_put sid (path, line) seenIDs)))
               in (case check_files yd read ps seen1 of
                     Inl e \<Rightarrow> Inl e
                   | Inr ds \<Rightarrow> Inr (lintScenarioContent yd path data @ dup @ ds))))"

definition CheckScenarioDir ::
    "yamlDec \<Rightarrow> (goerr + (gostring \<times> bool) list) \<Rightarrow> (gostring \<Rightarrow> goerr + gostring) \<Rightarrow> gostring \<Rightarrow> goerr + lintDiag list" where
  "CheckScenarioDir yd entries read dir =
     (case entries of
        Inl e \<Rightarrow> Inl (wrap_err ''lint scenario dir'' e)
      | Inr es \<Rightarrow>
          check_files yd read
            (map (\<lambda>e. join_path [dir, fst e])
              (filter (\<lambda>e. \<not> snd e \<and> (path_ext (fst e) = ''.yaml'' \<or> path_ext (fst e) = ''.yml'')) es)) [])"

end
