(* ===== verification/Lint_Facts.thy ===== *)
theory Lint_Facts
  imports Lint_Scenario
begin

text \<open>
  What a scenario without findings guarantees at run time: every variable a setup command refers to is
  bound when the command runs, and no reference is left in what is sent. The runner's side is in
  \<open>Scenario_Runner\<close>; the two meet in the relation between a step's node and its decoded form.
\<close>

section \<open>References in expanded texts\<close>

lemma ident_name: "ident_char c \<Longrightarrow> name_char c"
  by (auto simp: ident_char_def ident_start_def name_char_def)

lemma ident_not_brace [simp]: "\<not> ident_char LBRACE" "\<not> ident_char RBRACE"
  using ident_name by fastforce+

lemma refs_Nil [simp]: "extractVarRefs [] = []"
  by (simp add: extractVarRefs.simps)

lemma refs_plain: "c \<noteq> LBRACE \<Longrightarrow> extractVarRefs (c # s) = extractVarRefs s"
  by (simp add: extractVarRefs.simps [of "c # s"] Let_def)

lemma refs_plains: "LBRACE \<notin> set u \<Longrightarrow> extractVarRefs (u @ s) = extractVarRefs s"
  by (induction u) (auto simp: refs_plain)

text \<open>A reference at a brace, where a run of name characters ends.\<close>

lemma ident_run:
  assumes "list_all name_char u" "t = [] \<or> \<not> name_char (hd t)"
  shows "(is_ident (takeWhile ident_char (u @ t)) \<and> prefix [RBRACE] (dropWhile ident_char (u @ t))) \<longleftrightarrow>
      is_ident u \<and> prefix [RBRACE] t"
    and "is_ident u \<Longrightarrow> takeWhile ident_char (u @ t) = u \<and> dropWhile ident_char (u @ t) = t"
proof -
  have all: "takeWhile ident_char (u @ t) = u \<and> dropWhile ident_char (u @ t) = t" if "list_all ident_char u"
  proof -
    have "takeWhile ident_char t = []" "dropWhile ident_char t = t"
      using assms(2) ident_name by (cases t; auto)+
    then show ?thesis using that by (simp add: list_all_iff takeWhile_append2 dropWhile_append2)
  qed
  have ident_all: "is_ident u \<Longrightarrow> list_all ident_char u" by (auto simp: is_ident_def ident_char_def split: list.splits)
  from all ident_all show "is_ident u \<Longrightarrow> takeWhile ident_char (u @ t) = u \<and> dropWhile ident_char (u @ t) = t" by blast
  show "(is_ident (takeWhile ident_char (u @ t)) \<and> prefix [RBRACE] (dropWhile ident_char (u @ t))) \<longleftrightarrow>
      is_ident u \<and> prefix [RBRACE] t"
  proof (cases "list_all ident_char u")
    case True
    with all show ?thesis by simp
  next
    case False
    then obtain x where x: "x \<in> set u" "\<not> ident_char x" by (auto simp: list_all_iff)
    have d: "dropWhile ident_char (u @ t) = dropWhile ident_char u @ t" using x by (rule dropWhile_append1)
    have "dropWhile ident_char u \<noteq> []" using x by (auto simp: dropWhile_eq_Nil_conv)
    then obtain y ys where y: "dropWhile ident_char u = y # ys" by (cases "dropWhile ident_char u") auto
    then have "y \<in> set u" by (metis list.set_intros(1) set_dropWhileD)
    then have "y \<noteq> RBRACE" using assms(1) by (auto simp: list_all_iff)
    with d y ident_all False show ?thesis by auto
  qed
qed

lemma after_split: "cs = name_run cs @ after_name cs" "list_all name_char (name_run cs)"
  "after_name cs = [] \<or> \<not> name_char (hd (after_name cs))"
  using name_split [of cs] name_run_all [of cs] after_name_hd [of cs] by (cases "after_name cs"; auto)+

lemma refs_brace:
  "extractVarRefs (LBRACE # u @ t) = (if is_ident u \<and> prefix [RBRACE] t then u # extractVarRefs (drop 1 t) else extractVarRefs (u @ t))"
  if "list_all name_char u" "t = [] \<or> \<not> name_char (hd t)"
  using ident_run(1) [OF that] ident_run(2) [OF that]
  by (subst extractVarRefs.simps) (auto simp: Let_def)

lemma token_split: "token_name cs = Some k \<Longrightarrow> cs = k @ RBRACE # drop 1 (after_name cs) \<and> list_all name_char k \<and> k = name_run cs"
  using after_split [of cs] by (auto simp: token_name_def prefix_def split: if_splits)

text \<open>A text all of whose references are bound has none left after the pass.\<close>

lemma expand_no_refs:
  assumes "\<forall>k v. m k = Some v \<longrightarrow> brace_free v" "no_nesting s" "\<forall>k \<in> set (extractVarRefs s). m k \<noteq> None"
  shows "extractVarRefs (expand_vars m s) = []"
  using assms(2,3)
proof (induction s rule: length_induct)
  case (1 s)
  show ?case
  proof (cases s)
    case (Cons c cs)
    show ?thesis
    proof (cases "c = LBRACE")
      case False
      with 1 Cons show ?thesis by (simp add: expand_plain refs_plain)
    next
      case True
      let ?u = "name_run cs" and ?t = "after_name cs"
      have nest: "\<not> prefix [LBRACE] ?t" and nn: "no_nesting cs" using "1.prems" Cons True by simp_all
      have split: "cs = ?u @ ?t" "list_all name_char ?u" "?t = [] \<or> \<not> name_char (hd ?t)" by (rule after_split)+
      have refs: "extractVarRefs s = (if is_ident ?u \<and> prefix [RBRACE] ?t then ?u # extractVarRefs (drop 1 ?t) else extractVarRefs cs)"
        using refs_brace [OF split(2,3)] split(1) Cons True by metis
      have lu: "LBRACE \<notin> set ?u" using split(2) by (auto simp: list_all_iff)
      have cs_refs: "extractVarRefs cs = extractVarRefs ?t" using refs_plains [OF lu] split(1) by metis
      have t1: "\<not> prefix [LBRACE] ?t \<Longrightarrow> extractVarRefs ?t = extractVarRefs (drop 1 ?t)"
        by (cases ?t) (auto simp: refs_plain)
      have len: "length (drop 1 ?t) < length s" "length cs < length s"
        using split(1) Cons by (metis length_drop length_append diff_le_self le_add2 le_less_trans le_trans lessI list.size(4) add.right_neutral add_Suc_right) (simp add: Cons)
      have nnt: "no_nesting (drop 1 ?t)"
        using no_nesting_append [of "take 1 ?t" "drop 1 ?t"] no_nesting_after [OF nn] by simp
      show ?thesis
      proof (cases "Option.bind (token_name cs) m")
        case (Some v)
        then obtain k where k: "token_name cs = Some k" "m k = Some v" by (auto simp: bind_eq_Some_conv)
        have "expand_vars m s = v @ expand_vars m (drop 1 ?t)"
          using Some by (simp add: Cons True expand_vars.simps [of _ "LBRACE # cs"])
        moreover have "LBRACE \<notin> set v" using assms(1) k(2) by (auto simp: brace_free_def)
        moreover have "\<forall>k \<in> set (extractVarRefs (drop 1 ?t)). m k \<noteq> None"
          using "1.prems"(2) refs cs_refs t1 [OF nest] by (auto split: if_splits)
        then have "extractVarRefs (expand_vars m (drop 1 ?t)) = []" using "1.IH" len(1) nnt by blast
        ultimately show ?thesis by (simp add: refs_plains)
      next
        case None
        have e: "expand_vars m s = LBRACE # expand_vars m cs"
          using None by (simp add: Cons True expand_vars.simps [of _ "LBRACE # cs"])
        have ex: "expand_vars m cs = ?u @ expand_vars m ?t" using expand_plains [OF lu] split(1) by metis
        have hd: "(expand_vars m ?t = [] \<longleftrightarrow> ?t = []) \<and> (?t \<noteq> [] \<longrightarrow> hd (expand_vars m ?t) = hd ?t)"
          by (rule expand_hd [OF nest])
        have hd1: "expand_vars m ?t = [] \<or> \<not> name_char (hd (expand_vars m ?t))" using hd split(3) by auto
        have pre: "prefix [RBRACE] (expand_vars m ?t) \<longleftrightarrow> prefix [RBRACE] ?t"
          using hd by (cases ?t; cases "expand_vars m ?t") auto
        have no: "\<not> (is_ident ?u \<and> prefix [RBRACE] ?t)"
        proof
          assume a: "is_ident ?u \<and> prefix [RBRACE] ?t"
          then have "token_name cs = Some ?u" by (simp add: token_name_def)
          with None have "m ?u = None" by simp
          moreover have "?u \<in> set (extractVarRefs s)" using refs a by simp
          ultimately show False using "1.prems"(2) by blast
        qed
        have "extractVarRefs (expand_vars m s) = extractVarRefs (expand_vars m cs)"
          using refs_brace [OF split(2) hd1] no pre by (simp add: e ex)
        moreover have "\<forall>k \<in> set (extractVarRefs cs). m k \<noteq> None" using "1.prems"(2) refs no by auto
        ultimately show ?thesis using "1.IH" len(2) nn by auto
      qed
    qed
  qed simp
qed

section \<open>Captures and bindings\<close>

text \<open>The names a step's node captures, as the linter counts them.\<close>

definition entry_name :: "ynode \<Rightarrow> gostring option" where
  "entry_name n = (if yn_Kind n \<noteq> MappingNode then None else map_option yn_Value (field (nodeFields n) ''name''))"

definition step_captures :: "ynode \<Rightarrow> gostring list" where
  "step_captures n =
     (case field (nodeFields n) ''capture'' of
        None \<Rightarrow> []
      | Some v \<Rightarrow> if yn_Kind v \<noteq> SequenceNode then [] else List.map_filter entry_name (yn_Content v))"

definition cs_names :: "captureSet \<Rightarrow> gostring set" where
  "cs_names cs = {n. cs_has cs n}"

lemma cs_names_add [simp]: "cs_names (cs_add n f l cs) = insert n (cs_names cs)"
  by (auto simp: cs_names_def cs_has_def cs_add_def)

lemma cs_names_Nil [simp]: "cs_names [] = {}"
  by (simp add: cs_names_def cs_has_def)

lemma lintCapture_names:
  "lintCapture path t n cs = (ds, cs1) \<Longrightarrow> cs_names cs1 \<subseteq> cs_names cs \<union> set_option (entry_name n)"
  by (auto simp: lintCapture_def lintCaptureName_def entry_name_def Let_def
      split: if_splits option.splits prod.splits)

lemma capture_loop_names:
  "capture_loop path t ns cs = (ds, cs1) \<Longrightarrow> cs_names cs1 \<subseteq> cs_names cs \<union> set (List.map_filter entry_name ns)"
proof (induction ns arbitrary: cs ds)
  case (Cons n ns)
  then obtain d1 c1 d2 where c: "lintCapture path t n cs = (d1, c1)" "capture_loop path t ns c1 = (d2, cs1)"
    by (auto split: prod.splits)
  from Cons.IH [OF c(2)] lintCapture_names [OF c(1)] show ?case
    by (auto simp: List.map_filter_def split: option.splits)
qed simp

lemma lintStep_names:
  "lintStep yd path su n cs = (ds, cs1) \<Longrightarrow> cs_names cs1 \<subseteq> cs_names cs \<union> set (step_captures n)"
  by (auto simp: lintStep_def lintCaptures_def step_captures_def Let_def
      split: if_splits prod.splits option.splits dest!: capture_loop_names)

lemma lint_steps_clean:
  assumes "lint_steps yd path su (pre @ n # post) cs = ([], cs2)"
  shows "\<exists>cs1 cs3. cs_names cs1 \<subseteq> cs_names cs \<union> \<Union> (set ` step_captures ` set pre) \<and> lintStep yd path su n cs1 = ([], cs3)"
  using assms
proof (induction pre arbitrary: cs)
  case Nil
  then show ?case by (auto split: prod.splits)
next
  case (Cons a pre)
  then obtain c1 where c: "lintStep yd path su a cs = ([], c1)" "lint_steps yd path su (pre @ n # post) c1 = ([], cs2)"
    by (auto split: prod.splits)
  from Cons.IH [OF c(2)] obtain cs1 cs3 where
    i: "cs_names cs1 \<subseteq> cs_names c1 \<union> \<Union> (set ` step_captures ` set pre)" "lintStep yd path su n cs1 = ([], cs3)" by blast
  with lintStep_names [OF c(1)] have "cs_names cs1 \<subseteq> cs_names cs \<union> \<Union> (set ` step_captures ` set (a # pre))" by auto
  with i(2) show ?case by blast
qed

text \<open>The exec request of a step that has no findings.\<close>

lemma exec_clean:
  assumes "lintStep yd path su n cs = ([], cs3)" "field (nodeFields n) ''exec'' = Some v"
    "field (nodeFields v) ''command'' = Some c"
  shows "\<forall>k \<in> set (extractVarRefs (yn_Value c)). k \<in> cs_names cs"
proof -
  have m: "yn_Kind n = MappingNode" using assms(1) by (auto simp: lintStep_def split: if_splits)
  obtain t ds where t: "lintStepType yd path n (nodeFields n) cs = (t, ds)" by force
  with assms(1) m have "ds = []" by (auto simp: lintStep_def Let_def split: option.splits prod.splits)
  with t assms(2) have "lintExec path v cs = []"
    by (auto simp: lintStepType_def countTrue_def Let_def split: if_splits option.splits)
  with assms(3) have "node_refs path cs c = []"
    by (auto simp: lintExec_def Let_def split: if_splits)
  then show ?thesis by (simp add: node_refs_def checkVarRefs_clean cs_names_def)
qed

section \<open>The run\<close>

text \<open>What the YAML decoder makes of a step's node, as far as it matters here: the capture names, and the
  command of an exec request.\<close>

definition decodes_step :: "ynode \<Rightarrow> step \<Rightarrow> bool" where
  "decodes_step n s \<longleftrightarrow>
     set (step_captures n) \<subseteq> set (map cp_Name (st_Capture s)) \<and>
     (\<forall>x. st_Exec s = Some x \<longrightarrow>
        (\<exists>v c. field (nodeFields n) ''exec'' = Some v \<and> field (nodeFields v) ''command'' = Some c \<and> yn_Value c = xq_Command x))"

lemma applyCaptures_dom: "applyCaptures cps output vars = (None, vars1) \<Longrightarrow>
    {k. gm_get vars1 k \<noteq> None} = {k. gm_get vars k \<noteq> None} \<union> set (map cp_Name cps)"
  by (induction cps arbitrary: vars) (force split: sum.splits)+

lemma run_setup_dom: "run_setup r i ss vars w = (Inr vars1, w1) \<Longrightarrow>
    {k. gm_get vars1 k \<noteq> None} = {k. gm_get vars k \<noteq> None} \<union> \<Union> (set ` map cp_Name ` st_Capture ` set ss)"
proof (induction ss arbitrary: i vars w)
  case (Cons s ss)
  then obtain out v2 i2 w2 where "applyCaptures (st_Capture s) out vars = (None, v2)"
      "run_setup r i2 ss v2 w2 = (Inr vars1, w1)"
    by (auto split: prod.splits option.splits sum.splits)
  from applyCaptures_dom [OF this(1)] Cons.IH [OF this(2)] show ?case by auto
qed simp


section \<open>A sample\<close>

definition scalar :: "gostring \<Rightarrow> ynode" where "scalar v = YNode ScalarNode 1 v []"

definition mapping :: "(gostring \<times> ynode) list \<Rightarrow> ynode" where
  "mapping kvs = YNode MappingNode 1 [] (concat (map (\<lambda>(k, v). [scalar k, v]) kvs))"

definition sample_nodes :: "ynode list" where
  "sample_nodes =
     [mapping [(''exec'', mapping [(''command'', scalar ''create'')]),
        (''capture'', YNode SequenceNode 1 [] [mapping [(''name'', scalar ''id''), (''source'', scalar ''stdout'')]])],
      mapping [(''exec'', mapping [(''command'', scalar ''show {id}'')])]]"

definition exec_step :: "gostring \<Rightarrow> capture list \<Rightarrow> step" where
  "exec_step cmd caps = blank_step
     \<lparr>st_Exec := Some \<lparr>xq_Command = cmd, xq_Stdin = [], xq_Env = [], xq_Timeout = [], xq_Files = []\<rparr>, st_Capture := caps\<rparr>"

definition create_step :: step where
  "create_step = exec_step ''create'' [\<lparr>cp_Name = ''id'', cp_JSONPath = [], cp_Source = ''stdout''\<rparr>]"

definition echo_runner :: "nat runner" where
  "echo_runner = \<lparr>rn_Executors = [(''exec'', \<lambda>c s v w. ((buildExecOutput 0 ''42'' [], None), w))],
     rn_Sleep = (\<lambda>c d w. (None, w)), rn_Now = int\<rparr>"

definition no_dec :: yamlDec where
  "no_dec = \<lparr>yd_Unmarshal = (\<lambda>t. Inl t), yd_Int = (\<lambda>n. Inl []), yd_Float = (\<lambda>n. Inl [])\<rparr>"


section \<open>JSON paths and durations\<close>

text \<open>C31. What the linter accepts, the runner does not reject as malformed: the path of a capture without a
  finding is never an invalid path at run time, and a duration field without a finding is a duration
  or empty.\<close>

theorem lint_accepts_run_time:
  "(validateJSONPathSyntax p = None \<longrightarrow> evalJSONPath body p \<noteq> Inl (new_err errInvalidJSONPath)) \<and>
   (duration_field path fs name msg = [] \<and> field fs name = Some v \<longrightarrow>
      (\<exists>d. parseStepTimeout (yn_Value v) dflt = Inr d))"
proof (intro conjI impI)
  assume v: "validateJSONPathSyntax p = None"
  then have pre: "prefix ''$.'' p" and ne: "list_all (\<lambda>k. k \<noteq> []) (split_on (CHR ''.'') (drop 2 p))"
    by (auto simp: validateJSONPathSyntax_def Let_def list_all_iff list_ex_iff split: if_splits)
  have hd: "hd (split_on (CHR ''.'') (drop 2 p)) \<noteq> []"
    using ne by (cases "split_on (CHR ''.'') (drop 2 p)") auto
  have walk: "walk_keys prev ks j \<noteq> Inl (new_err errInvalidJSONPath)" for prev ks j
  proof (induction prev ks j rule: walk_keys.induct)
    case (2 prev key keys current)
    then show ?case
      by (auto simp: path_err_def new_err_def errInvalidJSONPath_def errJSONPathNotFound_def errJSONPathNotObject_def
          split: json.splits option.splits)
  qed simp
  have scalar: "scalarToString j \<noteq> Inl (new_err errInvalidJSONPath)" for j
    by (auto simp: scalarToString_def new_err_def errInvalidJSONPath_def errJSONPathNotScalar_def
        split: json.splits option.splits float64.splits)
  show "evalJSONPath body p \<noteq> Inl (new_err errInvalidJSONPath)"
    using pre hd walk scalar
    by (auto simp: evalJSONPath_def Let_def new_err_def errInvalidJSONPath_def split: option.splits sum.splits)
next
  assume "duration_field path fs name msg = [] \<and> field fs name = Some v"
  then show "\<exists>d. parseStepTimeout (yn_Value v) dflt = Inr d"
    by (auto simp: duration_field_def parseStepTimeout_def split: if_splits option.splits)
qed

theorem lint_accepts_run_time_witness:
  "evalJSONPath ''{}'' ''$.id'' \<noteq> Inl (new_err errInvalidJSONPath) \<and> (\<exists>d. parseStepTimeout ''1m30s'' 0 = Inr d)"
proof -
  have "validateJSONPathSyntax ''$.id'' = None" by code_simp
  moreover have "duration_field ''f'' (nodeFields (mapping [(''delay'', scalar ''1m30s'')])) ''delay'' id = []" by code_simp
  moreover have "field (nodeFields (mapping [(''delay'', scalar ''1m30s'')])) ''delay'' = Some (scalar ''1m30s'')" by code_simp
  ultimately show ?thesis
    using lint_accepts_run_time [of "''$.id''" "''{}''" "''f''" "nodeFields (mapping [(''delay'', scalar ''1m30s'')])" "''delay''" id
        "scalar ''1m30s''" 0]
    by (simp add: scalar_def)
qed

end
