(* ===== verification/Lint_Docs.thy ===== *)
theory Lint_Docs
  imports Lint_Spec Lint_Facts
begin

text \<open>
  Which findings of the scenario linter the rule table documents. One lemma per rule says that a message
  that contains the rule's text is documented; the checks are then covered one after the other.
\<close>

section \<open>The rules\<close>

text \<open>The texts of the rules by level.\<close>

definition error_texts :: "gostring list" where
  "error_texts =
    [''scenario file is empty'',
     ''invalid YAML'',
     ''scenario must be a YAML mapping'',
     ''missing required field: id'',
     ''id must not be empty'',
     ''must match pattern ^[a-z0-9]'',
     ''missing required field: steps'',
     ''steps must be a non-empty array'',
     ''setup must be an array'',
     ''step must be a mapping'',
     ''exactly one of request, exec, browser, grpc, ws, or tui is required'',
     ''request must be a mapping'',
     ''request missing required field: method'',
     ''invalid HTTP method'',
     ''request missing required field: path'',
     ''capture must be an array'',
     ''capture entry must be a mapping'',
     ''capture missing required field: name'',
     ''capture name must not be empty'',
     ''must match pattern ^[a-zA-Z_]'',
     ''capture requires at least one of jsonpath or source'',
     ''invalid jsonpath'',
     ''duplicate scenario id'',
     (''step has multiple step types; exactly one of request, exec, browser, grpc, w'' @
      ''s, or tui is required''),
     ''exec must be a mapping'',
     ''exec missing required field: command'',
     ''exec command must not be empty'',
     ''exec env must be a mapping'',
     ''not a valid duration'',
     ''invalid source'',
     ''source is not supported on'',
     ''browser must be a mapping'',
     ''browser missing required field: action'',
     ''invalid browser action'',
     ''navigate action requires url'',
     ''click action requires selector'',
     ''fill action requires selector'',
     ''fill action requires value'',
     ''assert action requires selector'',
     ''browser timeout: invalid duration'',
     ''grpc must be a mapping'',
     ''grpc missing required field: service'',
     ''grpc missing required field: method'',
     ''grpc timeout'',
     ''grpc stream messages must be an array'',
     ''grpc receive timeout'',
     ''ws must be a mapping'',
     ''ws receive timeout: invalid duration'',
     ''ws receive count must be a positive integer'',
     ''tui must be a mapping'',
     ''tui step requires command'',
     ''tui command must not be empty'',
     ''tui timeout: invalid duration'']"

definition warning_texts :: "gostring list" where
  "warning_texts =
    [''not one of: functional'',
     ''weight must be a number'',
     ''weight must be positive'',
     ''step missing expect field'',
     ''step missing description field'',
     ''shadows earlier capture'',
     ''referenced but never captured'',
     ''no assertion fields'',
     ''ws step missing url'']"

lemma table_texts:
  "map ru_MsgContains (filter (\<lambda>r. ru_Level r = LError) ScenarioRules) = error_texts"
  "map ru_MsgContains (filter (\<lambda>r. ru_Level r = LWarning) ScenarioRules) = warning_texts"
  by (simp_all add: ScenarioRules_def rule_of_def error_texts_def warning_texts_def)

lemma by_text:
  "p \<in> set error_texts \<Longrightarrow> str_contains m p \<Longrightarrow> documented ScenarioRules (err_at path k m)"
  "p \<in> set warning_texts \<Longrightarrow> str_contains m p \<Longrightarrow> documented ScenarioRules (warn_at path k m)"
  unfolding table_texts [symmetric] by (auto simp: documented_def list_ex_iff err_at_def warn_at_def)

lemma error_rules:
  "str_contains m ''scenario file is empty'' \<Longrightarrow> documented ScenarioRules (err_at path k m)"
  "str_contains m ''invalid YAML'' \<Longrightarrow> documented ScenarioRules (err_at path k m)"
  "str_contains m ''scenario must be a YAML mapping'' \<Longrightarrow> documented ScenarioRules (err_at path k m)"
  "str_contains m ''missing required field: id'' \<Longrightarrow> documented ScenarioRules (err_at path k m)"
  "str_contains m ''id must not be empty'' \<Longrightarrow> documented ScenarioRules (err_at path k m)"
  "str_contains m ''must match pattern ^[a-z0-9]'' \<Longrightarrow> documented ScenarioRules (err_at path k m)"
  "str_contains m ''missing required field: steps'' \<Longrightarrow> documented ScenarioRules (err_at path k m)"
  "str_contains m ''steps must be a non-empty array'' \<Longrightarrow> documented ScenarioRules (err_at path k m)"
  "str_contains m ''setup must be an array'' \<Longrightarrow> documented ScenarioRules (err_at path k m)"
  "str_contains m ''step must be a mapping'' \<Longrightarrow> documented ScenarioRules (err_at path k m)"
  "str_contains m ''exactly one of request, exec, browser, grpc, ws, or tui is required'' \<Longrightarrow> documented ScenarioRules (err_at path k m)"
  "str_contains m ''request must be a mapping'' \<Longrightarrow> documented ScenarioRules (err_at path k m)"
  "str_contains m ''request missing required field: method'' \<Longrightarrow> documented ScenarioRules (err_at path k m)"
  "str_contains m ''invalid HTTP method'' \<Longrightarrow> documented ScenarioRules (err_at path k m)"
  "str_contains m ''request missing required field: path'' \<Longrightarrow> documented ScenarioRules (err_at path k m)"
  "str_contains m ''capture must be an array'' \<Longrightarrow> documented ScenarioRules (err_at path k m)"
  "str_contains m ''capture entry must be a mapping'' \<Longrightarrow> documented ScenarioRules (err_at path k m)"
  "str_contains m ''capture missing required field: name'' \<Longrightarrow> documented ScenarioRules (err_at path k m)"
  "str_contains m ''capture name must not be empty'' \<Longrightarrow> documented ScenarioRules (err_at path k m)"
  "str_contains m ''must match pattern ^[a-zA-Z_]'' \<Longrightarrow> documented ScenarioRules (err_at path k m)"
  "str_contains m ''capture requires at least one of jsonpath or source'' \<Longrightarrow> documented ScenarioRules (err_at path k m)"
  "str_contains m ''invalid jsonpath'' \<Longrightarrow> documented ScenarioRules (err_at path k m)"
  "str_contains m ''duplicate scenario id'' \<Longrightarrow> documented ScenarioRules (err_at path k m)"
  "str_contains m (''step has multiple step types; exactly one of request, exec, browser, grpc, w'' @
             ''s, or tui is required'') \<Longrightarrow> documented ScenarioRules (err_at path k m)"
  "str_contains m ''exec must be a mapping'' \<Longrightarrow> documented ScenarioRules (err_at path k m)"
  "str_contains m ''exec missing required field: command'' \<Longrightarrow> documented ScenarioRules (err_at path k m)"
  "str_contains m ''exec command must not be empty'' \<Longrightarrow> documented ScenarioRules (err_at path k m)"
  "str_contains m ''exec env must be a mapping'' \<Longrightarrow> documented ScenarioRules (err_at path k m)"
  "str_contains m ''not a valid duration'' \<Longrightarrow> documented ScenarioRules (err_at path k m)"
  "str_contains m ''invalid source'' \<Longrightarrow> documented ScenarioRules (err_at path k m)"
  "str_contains m ''source is not supported on'' \<Longrightarrow> documented ScenarioRules (err_at path k m)"
  "str_contains m ''browser must be a mapping'' \<Longrightarrow> documented ScenarioRules (err_at path k m)"
  "str_contains m ''browser missing required field: action'' \<Longrightarrow> documented ScenarioRules (err_at path k m)"
  "str_contains m ''invalid browser action'' \<Longrightarrow> documented ScenarioRules (err_at path k m)"
  "str_contains m ''navigate action requires url'' \<Longrightarrow> documented ScenarioRules (err_at path k m)"
  "str_contains m ''click action requires selector'' \<Longrightarrow> documented ScenarioRules (err_at path k m)"
  "str_contains m ''fill action requires selector'' \<Longrightarrow> documented ScenarioRules (err_at path k m)"
  "str_contains m ''fill action requires value'' \<Longrightarrow> documented ScenarioRules (err_at path k m)"
  "str_contains m ''assert action requires selector'' \<Longrightarrow> documented ScenarioRules (err_at path k m)"
  "str_contains m ''browser timeout: invalid duration'' \<Longrightarrow> documented ScenarioRules (err_at path k m)"
  "str_contains m ''grpc must be a mapping'' \<Longrightarrow> documented ScenarioRules (err_at path k m)"
  "str_contains m ''grpc missing required field: service'' \<Longrightarrow> documented ScenarioRules (err_at path k m)"
  "str_contains m ''grpc missing required field: method'' \<Longrightarrow> documented ScenarioRules (err_at path k m)"
  "str_contains m ''grpc timeout'' \<Longrightarrow> documented ScenarioRules (err_at path k m)"
  "str_contains m ''grpc stream messages must be an array'' \<Longrightarrow> documented ScenarioRules (err_at path k m)"
  "str_contains m ''grpc receive timeout'' \<Longrightarrow> documented ScenarioRules (err_at path k m)"
  "str_contains m ''ws must be a mapping'' \<Longrightarrow> documented ScenarioRules (err_at path k m)"
  "str_contains m ''ws receive timeout: invalid duration'' \<Longrightarrow> documented ScenarioRules (err_at path k m)"
  "str_contains m ''ws receive count must be a positive integer'' \<Longrightarrow> documented ScenarioRules (err_at path k m)"
  "str_contains m ''tui must be a mapping'' \<Longrightarrow> documented ScenarioRules (err_at path k m)"
  "str_contains m ''tui step requires command'' \<Longrightarrow> documented ScenarioRules (err_at path k m)"
  "str_contains m ''tui command must not be empty'' \<Longrightarrow> documented ScenarioRules (err_at path k m)"
  "str_contains m ''tui timeout: invalid duration'' \<Longrightarrow> documented ScenarioRules (err_at path k m)"
  by (erule by_text [rotated]; simp add: error_texts_def)+

lemma warning_rules:
  "str_contains m ''not one of: functional'' \<Longrightarrow> documented ScenarioRules (warn_at path k m)"
  "str_contains m ''weight must be a number'' \<Longrightarrow> documented ScenarioRules (warn_at path k m)"
  "str_contains m ''weight must be positive'' \<Longrightarrow> documented ScenarioRules (warn_at path k m)"
  "str_contains m ''step missing expect field'' \<Longrightarrow> documented ScenarioRules (warn_at path k m)"
  "str_contains m ''step missing description field'' \<Longrightarrow> documented ScenarioRules (warn_at path k m)"
  "str_contains m ''shadows earlier capture'' \<Longrightarrow> documented ScenarioRules (warn_at path k m)"
  "str_contains m ''referenced but never captured'' \<Longrightarrow> documented ScenarioRules (warn_at path k m)"
  "str_contains m ''no assertion fields'' \<Longrightarrow> documented ScenarioRules (warn_at path k m)"
  "str_contains m ''ws step missing url'' \<Longrightarrow> documented ScenarioRules (warn_at path k m)"
  by (erule by_text [rotated]; simp add: warning_texts_def)+

text \<open>Findings without a rule: the tier, the files of an exec step, the shape and the attempts of a retry, a
  command of a terminal step that is no scalar, and an empty document.\<close>

definition unlisted :: "lintDiag \<Rightarrow> bool" where
  "unlisted d \<longleftrightarrow> list_ex (\<lambda>p. prefix p (ld_Message d))
     [''tier must be'', ''exec files '', ''retry must be a mapping'', ''retry attempts '', ''tui command must be a string'',
      ''empty YAML document'']"

definition noted :: "lintDiag \<Rightarrow> bool" where
  "noted d \<longleftrightarrow> documented ScenarioRules d \<or> unlisted d"

lemma notedI: "documented ScenarioRules d \<Longrightarrow> noted d"
  by (simp add: noted_def)

text \<open>The messages, one group per check; a message with a quoted part in front of the rule's text contains it at
  its end.\<close>

lemma contains_tail:
  "str_contains c p \<Longrightarrow> str_contains (a @ b @ c) p" "str_contains c p \<Longrightarrow> str_contains (a @ b @ c @ d) p"
  by (intro contains_append; assumption)+

lemma field_messages:
  "noted (err_at path k ''missing required field: id'')"
  "noted (err_at path k ''id must not be empty'')"
  "noted (warn_at path k ''weight must be positive'')"
  "noted (err_at path k ''missing required field: steps'')"
  "noted (err_at path k ''steps must be a non-empty array'')"
  "noted (err_at path k ''setup must be an array'')"
  "noted (warn_at path k (''weight must be a number: '' @ q))"
  by (intro notedI error_rules(4,5,7,8,9) warning_rules(2,3); simp add: str_contains_def)+

lemma field_messages_tail:
  "noted (err_at path k (''id '' @ q @ '' must match pattern '' @ idPattern_text))"
  "noted (warn_at path k (''type '' @ q @ '' is not one of: functional, api''))"
  by (intro notedI error_rules(6) warning_rules(1) contains_tail; simp add: str_contains_def idPattern_text_def captureNamePat_text_def)+

lemma file_messages:
  "noted (err_at path k ''scenario file is empty'')"
  "noted (err_at path k ''scenario must be a YAML mapping'')"
  "noted (err_at path k (''invalid YAML: '' @ q))"
  "noted (err_at path k (''duplicate scenario id '' @ q))"
  by (intro notedI error_rules(1,2,3,23) ; simp add: str_contains_def)+

lemma exec_messages:
  "noted (err_at path k ''exec must be a mapping'')"
  "noted (err_at path k ''exec missing required field: command'')"
  "noted (err_at path k ''exec command must not be empty'')"
  "noted (err_at path k ''exec env must be a mapping'')"
  by (intro notedI error_rules(25,26,27,28) ; simp add: str_contains_def)+

lemma exec_messages_tail:
  "noted (err_at path k (''exec timeout '' @ q @ '' is not a valid duration''))"
  by (intro notedI error_rules(29)  contains_tail; simp add: str_contains_def idPattern_text_def captureNamePat_text_def)+

lemma request_messages:
  "noted (err_at path k ''request must be a mapping'')"
  "noted (err_at path k ''request missing required field: method'')"
  "noted (err_at path k ''request missing required field: path'')"
  "noted (err_at path k (''invalid HTTP method: '' @ q))"
  by (intro notedI error_rules(12,13,14,15) ; simp add: str_contains_def)+

lemma browser_messages:
  "noted (err_at path k ''browser must be a mapping'')"
  "noted (err_at path k ''browser missing required field: action'')"
  "noted (warn_at path k ''browser assert has no assertion fields (text, text_absent, or count)'')"
  "noted (err_at path k (''invalid browser action '' @ q))"
  "noted (err_at path k (''browser timeout: invalid duration '' @ q))"
  "noted (err_at path k (''browser '' @ ''navigate'' @ '' action requires '' @ ''url''))"
  "noted (err_at path k (''browser '' @ ''click'' @ '' action requires '' @ ''selector''))"
  "noted (err_at path k (''browser '' @ ''fill'' @ '' action requires '' @ ''selector''))"
  "noted (err_at path k (''browser '' @ ''fill'' @ '' action requires '' @ ''value''))"
  "noted (err_at path k (''browser '' @ ''assert'' @ '' action requires '' @ ''selector''))"
  by (intro notedI error_rules(32,33,34,35,36,37,38,39,40) warning_rules(8); simp add: str_contains_def)+

lemma grpc_messages:
  "noted (err_at path k ''grpc must be a mapping'')"
  "noted (err_at path k ''grpc missing required field: service'')"
  "noted (err_at path k ''grpc missing required field: method'')"
  "noted (err_at path k ''grpc stream messages must be an array'')"
  "noted (err_at path k (''grpc timeout: invalid duration '' @ q))"
  "noted (err_at path k (''grpc receive timeout: invalid duration '' @ q))"
  by (intro notedI error_rules(41,42,43,44,45,46) ; simp add: str_contains_def)+

lemma ws_messages:
  "noted (err_at path k ''ws must be a mapping'')"
  "noted (warn_at path k ''ws step missing url; connection must have been established in a prior step'')"
  "noted (err_at path k ''ws receive count must be a positive integer'')"
  "noted (err_at path k (''ws receive count must be a positive integer: '' @ q))"
  "noted (err_at path k (''ws receive timeout: invalid duration '' @ q))"
  by (intro notedI error_rules(47,48,49) warning_rules(9); simp add: str_contains_def)+

lemma tui_messages:
  "noted (err_at path k ''tui must be a mapping'')"
  "noted (err_at path k ''tui command must not be empty'')"
  "noted (err_at path k ''tui step requires command (launch) or at least one of send_key, send_text, wait_for, assert_screen, assert_absent (interaction)'')"
  "noted (err_at path k (''tui timeout: invalid duration '' @ q))"
  by (intro notedI error_rules(50,51,52,53) ; simp add: str_contains_def)+

lemma step_messages:
  "noted (err_at path k ''step must be a mapping'')"
  "noted (err_at path k ''step has multiple step types; exactly one of request, exec, browser, grpc, ws, or tui is required'')"
  "noted (err_at path k ''step missing step type: exactly one of request, exec, browser, grpc, ws, or tui is required'')"
  "noted (warn_at path k ''step missing expect field'')"
  "noted (warn_at path k ''step missing description field'')"
  by (intro notedI error_rules(10,11,24) warning_rules(4,5); simp add: str_contains_def)+

lemma step_messages_tail:
  "noted (err_at path k (''delay '' @ q @ '' is not a valid duration''))"
  "noted (err_at path k (''retry interval '' @ q @ '' is not a valid duration''))"
  "noted (err_at path k (''retry timeout '' @ q @ '' is not a valid duration''))"
  by (intro notedI error_rules(29)  contains_tail; simp add: str_contains_def idPattern_text_def captureNamePat_text_def)+

lemma capture_messages:
  "noted (err_at path k ''capture missing required field: name'')"
  "noted (err_at path k ''capture name must not be empty'')"
  "noted (err_at path k ''capture entry must be a mapping'')"
  "noted (err_at path k ''capture requires at least one of jsonpath or source'')"
  "noted (err_at path k ''capture must be an array'')"
  "noted (err_at path k (''invalid jsonpath '' @ q))"
  "noted (err_at path k (''source is not supported on '' @ q))"
  "noted (err_at path k (''invalid source '' @ q))"
  by (intro notedI error_rules(16,17,18,19,21,22,30,31) ; simp add: str_contains_def)+

lemma capture_messages_tail:
  "noted (err_at path k (''capture name '' @ q @ '' must match pattern '' @ captureNamePat_text))"
  "noted (warn_at path k (''capture '' @ q @ '' shadows earlier capture at '' @ r))"
  "noted (warn_at path k (''variable {'' @ q @ ''} referenced but never captured''))"
  by (intro notedI error_rules(20) warning_rules(6,7) contains_tail; simp add: str_contains_def idPattern_text_def captureNamePat_text_def)+

lemma unlisted_messages:
  "noted (warn_at path k ''tier must be between 1 and 3'')"
  "noted (err_at path k ''exec files must be a mapping'')"
  "noted (err_at path k ''tui command must be a string'')"
  "noted (err_at path k ''retry must be a mapping'')"
  "noted (warn_at path k ''retry attempts should be at least 1 (defaults to 3)'')"
  "noted (err_at path k ''empty YAML document'')"
  "noted (warn_at path k (''tier must be a number: '' @ e))"
  "noted (err_at path k (''exec files path '' @ e))"
  "noted (err_at path k (''retry attempts must be an integer: '' @ e))"
  by (simp_all add: noted_def unlisted_def err_at_def warn_at_def)

section \<open>The checks\<close>

lemmas all_messages = field_messages field_messages_tail file_messages exec_messages exec_messages_tail
  request_messages browser_messages grpc_messages ws_messages tui_messages step_messages step_messages_tail
  capture_messages capture_messages_tail unlisted_messages

lemma refs_noted: "list_all noted (check_refs refs seen cs path k)"
  by (induction refs arbitrary: seen) (simp_all add: capture_messages_tail del: append.simps)

lemma node_refs_noted [simp]: "list_all noted (node_refs path cs v)"
  by (simp add: node_refs_def checkVarRefs_def refs_noted)

lemma field_refs_noted [simp]: "list_all noted (field_refs path cs fs n)"
  by (simp add: field_refs_def split: option.split)

lemma values_noted [simp]: "list_all noted (concat (map (node_refs path cs) vs))"
  by (induction vs) simp_all

lemma duration_noted: "(\<And>k q. noted (err_at path k (msg q))) \<Longrightarrow> list_all noted (duration_field path fs name msg)"
  by (simp add: duration_field_def split: option.split)

lemma files_noted [simp]: "list_all noted (lintExecFiles path v cs)"
  unfolding lintExecFiles_def
  by (induction "node_pairs (yn_Content v)")
    (auto simp: all_messages list_all_iff intro: all_messages node_refs_noted [unfolded list_all_iff, rule_format]
      simp del: append.simps)

lemma exec_noted [simp]: "list_all noted (lintExec path v cs)"
  by (simp add: lintExec_def Let_def all_messages duration_noted del: append.simps split: option.split)

lemma request_noted [simp]: "list_all noted (lintRequest path v cs)"
  by (simp add: lintRequest_def Let_def all_messages del: append.simps split: option.split)

lemma browser_noted [simp]: "list_all noted (lintBrowser path v cs)"
  by (simp add: lintBrowser_def lintBrowserAction_def requireBrowserField_def Let_def all_messages duration_noted
      del: append.simps split: option.split)

lemma grpc_noted [simp]: "list_all noted (lintGRPC path v cs)"
  by (simp add: lintGRPC_def lintGRPCServiceMethod_def lintGRPCOptionalFields_def lintGRPCStream_def Let_def
      all_messages duration_noted del: append.simps split: option.split)

lemma ws_noted [simp]: "list_all noted (lintWS yd path v cs)"
  by (simp add: lintWS_def lintWSReceive_def Let_def all_messages duration_noted del: append.simps
      split: option.split sum.split)

lemma tui_noted [simp]: "list_all noted (lintTUI path v cs)"
  by (simp add: lintTUI_def lintTUICommand_def tuiPlatformDiags_def tui_actions_def Let_def all_messages duration_noted
      del: append.simps split: option.split)

lemma step_type_noted: "lintStepType yd path n fs cs = (t, ds) \<Longrightarrow> list_all noted ds"
  by (auto simp: lintStepType_def Let_def all_messages simp del: append.simps split: if_splits option.splits)

lemma retry_noted [simp]: "list_all noted (lintRetry yd path v)"
  by (simp add: lintRetry_def Let_def all_messages duration_noted del: append.simps split: option.split sum.split)

lemma capture_noted: "lintCapture path t n cs = (ds, cs1) \<Longrightarrow> list_all noted ds"
  by (auto simp: lintCapture_def lintCaptureName_def lintCaptureSource_def Let_def all_messages
      simp del: append.simps split: if_splits option.splits prod.splits)

lemma captures_noted: "lintCaptures path v cs t = (ds, cs1) \<Longrightarrow> list_all noted ds"
proof -
  have "capture_loop path t ns cs = (ds, cs1) \<Longrightarrow> list_all noted ds" for ns cs ds cs1
    by (induction ns arbitrary: cs ds cs1) (auto split: prod.splits dest: capture_noted)
  then show "lintCaptures path v cs t = (ds, cs1) \<Longrightarrow> list_all noted ds"
    by (auto simp: lintCaptures_def all_messages simp del: append.simps split: if_splits)
qed

lemma step_noted: "lintStep yd path su n cs = (ds, cs1) \<Longrightarrow> list_all noted ds"
  by (auto simp: lintStep_def Let_def all_messages duration_noted simp del: append.simps
      split: if_splits option.splits prod.splits dest!: step_type_noted captures_noted)

lemma steps_noted: "lint_steps yd path su ns cs = (ds, cs1) \<Longrightarrow> list_all noted ds"
  by (induction ns arbitrary: cs ds cs1) (auto split: prod.splits dest: step_noted)

lemma file_fields_noted:
  "list_all noted (checkID path fs)" "list_all noted (checkType path fs)" "list_all noted (checkWeight yd path fs)"
  "list_all noted (checkTier yd path fs)" "list_all noted (fst (steps_of path fs))" "list_all noted (fst (setup_of path fs))"
  by (simp_all add: checkID_def checkType_def checkWeight_def checkTier_def steps_of_def setup_of_def getFieldNode_def
      all_messages del: append.simps split: option.split sum.split)

text \<open>C29. Every finding of the scenario linter is documented by a rule of its level, up to the listed
  exceptions, which the rule table forgets: a tier, the files of an exec step, a retry, a terminal
  command that is no scalar, an empty document.\<close>

theorem lintScenario_documented:
  "list_all noted (lintScenarioContent yd path data)"
proof -
  have s: "list_all noted ds" if "steps_of path fs = (ds, ns)" for fs ds ns
    using file_fields_noted(5) [of path fs] that by simp
  have u: "list_all noted ds" if "setup_of path fs = (ds, ns)" for fs ds ns
    using file_fields_noted(6) [of path fs] that by simp
  show ?thesis
    by (auto simp: lintScenarioContent_def Let_def all_messages file_fields_noted simp del: append.simps
        split: sum.splits prod.splits dest: s u steps_noted)
qed

end
