(* ===== verification/Go_Rfc3339.thy ===== *)
theory Go_Rfc3339
  imports Go_Utf8
begin

text \<open>
  The part of \<open>time\<close> that stores and reads instants: the layout \<open>RFC3339Nano\<close> of \<open>Time.MarshalJSON\<close>, the
  strict reader of \<open>Time.UnmarshalJSON\<close>, and that the one reads what the other writes. A time is its
  civil fields in its own zone, with the offset of the zone in minutes.
\<close>

record gotime =
  tm_Year :: int
  tm_Month :: int
  tm_Day :: int
  tm_Hour :: int
  tm_Min :: int
  tm_Sec :: int
  tm_Nsec :: int
  tm_Offset :: int

definition leap_year :: "int \<Rightarrow> bool" where
  "leap_year y \<longleftrightarrow> 4 dvd y \<and> (\<not> 100 dvd y \<or> 400 dvd y)"

definition days_in :: "int \<Rightarrow> int \<Rightarrow> int" where
  "days_in y m =
     (if m = 2 then (if leap_year y then 29 else 28) else if m \<in> {4, 6, 9, 11} then 30 else 31)"

definition time_ok :: "gotime \<Rightarrow> bool" where
  "time_ok t \<longleftrightarrow>
     0 \<le> tm_Year t \<and> tm_Year t < 10000 \<and> 1 \<le> tm_Month t \<and> tm_Month t \<le> 12 \<and> 1 \<le> tm_Day t \<and>
     tm_Day t \<le> days_in (tm_Year t) (tm_Month t) \<and> 0 \<le> tm_Hour t \<and> tm_Hour t < 24 \<and> 0 \<le> tm_Min t \<and> tm_Min t < 60 \<and>
     0 \<le> tm_Sec t \<and> tm_Sec t < 60 \<and> 0 \<le> tm_Nsec t \<and>
     tm_Nsec t < 10 ^ 9 \<and> \<bar>tm_Offset t\<bar> < 24 * 60"

section \<open>Writing\<close>

text \<open>The last \<open>w\<close> decimal digits of a number.\<close>

fun fixed :: "nat \<Rightarrow> int \<Rightarrow> gostring" where
  "fixed 0 n = []"
| "fixed (Suc w) n = fixed w (n div 10) @ [digit_char (nat (n mod 10))]"

definition fraction_text :: "int \<Rightarrow> gostring" where
  "fraction_text ns =
     (let ds = rev (dropWhile (\<lambda>c. c = CHR ''0'') (rev (fixed 9 ns)))
      in if ds = [] then [] else CHR ''.'' # ds)"

definition zone_text :: "int \<Rightarrow> gostring" where
  "zone_text off =
     (if off = 0 then ''Z''
      else (if off < 0 then CHR ''-'' else CHR ''+'') # fixed 2 (\<bar>off\<bar> div 60) @ CHR '':'' # fixed 2 (\<bar>off\<bar> mod 60))"

definition format_RFC3339Nano :: "gotime \<Rightarrow> gostring" where
  "format_RFC3339Nano t =
     fixed 4 (tm_Year t) @ CHR ''-'' # fixed 2 (tm_Month t) @ CHR ''-'' # fixed 2 (tm_Day t) @ CHR ''T'' #
     fixed 2 (tm_Hour t) @ CHR '':'' # fixed 2 (tm_Min t) @ CHR '':'' # fixed 2 (tm_Sec t) @
     fraction_text (tm_Nsec t) @ zone_text (tm_Offset t)"

section \<open>Reading\<close>

text \<open>\<open>w\<close> digits with a value in a range, and the rest.\<close>

definition num_val :: "gostring \<Rightarrow> int" where
  "num_val s = fold (\<lambda>c v. 10 * v + int (digit_val c)) s 0"

definition read_fixed :: "nat \<Rightarrow> int \<Rightarrow> int \<Rightarrow> gostring \<Rightarrow> (int \<times> gostring) option" where
  "read_fixed w lo hi s =
     (if length s < w \<or> \<not> list_all is_digit (take w s) then None
      else let v = num_val (take w s) in if lo \<le> v \<and> v \<le> hi then Some (v, drop w s) else None)"

definition read_char :: "char \<Rightarrow> gostring \<Rightarrow> gostring option" where
  "read_char c s = (case s of [] \<Rightarrow> None | d # r \<Rightarrow> if d = c then Some r else None)"

text \<open>A fraction: at least one digit after the point; digits after the ninth are dropped.\<close>

definition read_fraction :: "gostring \<Rightarrow> int \<times> gostring" where
  "read_fraction s =
     (case s of
        c # d # r \<Rightarrow>
          if c = CHR ''.'' \<and> is_digit d then
            (let ds = takeWhile is_digit (d # r); ns = take 9 ds
             in (num_val ns * 10 ^ (9 - length ns), dropWhile is_digit (d # r)))
          else (0, s)
      | _ \<Rightarrow> (0, s))"

definition read_zone :: "gostring \<Rightarrow> int option" where
  "read_zone s =
     (if s = ''Z'' then Some 0
      else
        (case s of
           [] \<Rightarrow> None
         | c # r \<Rightarrow>
             if c \<noteq> CHR ''+'' \<and> c \<noteq> CHR ''-'' then None
             else
               (case read_fixed 2 0 23 r of
                  None \<Rightarrow> None
                | Some (h, r1) \<Rightarrow>
                    (case read_char (CHR '':'') r1 of
                       None \<Rightarrow> None
                     | Some r2 \<Rightarrow>
                         (case read_fixed 2 0 59 r2 of
                            None \<Rightarrow> None
                          | Some (m, r3) \<Rightarrow>
                              if r3 \<noteq> [] then None
                              else let off = h * 60 + m in Some (if c = CHR ''-'' then - off else off))))))"

definition then_read :: "(int \<times> gostring) option \<Rightarrow> char \<Rightarrow> (int \<Rightarrow> gostring \<Rightarrow> 'a option) \<Rightarrow> 'a option" where
  "then_read x c f =
     (case x of None \<Rightarrow> None | Some (v, s) \<Rightarrow> (case read_char c s of None \<Rightarrow> None | Some r \<Rightarrow> f v r))"

definition parse_RFC3339 :: "gostring \<Rightarrow> gotime option" where
  "parse_RFC3339 s =
     then_read (read_fixed 4 0 9999 s) (CHR ''-'') (\<lambda>y s1.
     then_read (read_fixed 2 1 12 s1) (CHR ''-'') (\<lambda>mo s2.
     then_read (read_fixed 2 1 (days_in y mo) s2) (CHR ''T'') (\<lambda>d s3.
     then_read (read_fixed 2 0 23 s3) (CHR '':'') (\<lambda>h s4.
     then_read (read_fixed 2 0 59 s4) (CHR '':'') (\<lambda>mi s5.
       (case read_fixed 2 0 59 s5 of
          None \<Rightarrow> None
        | Some (sec, s6) \<Rightarrow>
            (case read_fraction s6 of
               (ns, s7) \<Rightarrow>
                 map_option (\<lambda>off.
                   \<lparr>tm_Year = y, tm_Month = mo, tm_Day = d, tm_Hour = h, tm_Min = mi, tm_Sec = sec, tm_Nsec = ns,
                    tm_Offset = off\<rparr>) (read_zone s7))))))))"

lemma time_sample:
  "format_RFC3339Nano \<lparr>tm_Year = 2026, tm_Month = 2, tm_Day = 28, tm_Hour = 9, tm_Min = 5, tm_Sec = 0,
     tm_Nsec = 120000000, tm_Offset = -210\<rparr> = ''2026-02-28T09:05:00.12-03:30''"
  "parse_RFC3339 ''2024-02-29T23:59:59Z'' = Some \<lparr>tm_Year = 2024, tm_Month = 2, tm_Day = 29, tm_Hour = 23,
     tm_Min = 59, tm_Sec = 59, tm_Nsec = 0, tm_Offset = 0\<rparr>"
  "parse_RFC3339 ''2023-02-29T00:00:00Z'' = None" "parse_RFC3339 ''2024-2-29T00:00:00Z'' = None"
  by code_simp+

section \<open>Reading back\<close>

lemma fixed_length [simp]: "length (fixed w n) = w"
  by (induction w n rule: fixed.induct) auto

lemma fixed_digits [simp]: "list_all is_digit (fixed w n)"
  by (induction w n rule: fixed.induct) (auto intro!: digit_char_is_digit)

lemma num_val_snoc [simp]: "num_val (s @ [c]) = 10 * num_val s + int (digit_val c)"
  by (simp add: num_val_def)

lemma num_val_fixed: "0 \<le> n \<Longrightarrow> n < 10 ^ w \<Longrightarrow> num_val (fixed w n) = n"
proof (induction w n rule: fixed.induct)
  case (1 n)
  then show ?case by (simp add: num_val_def)
next
  case (2 w n)
  have "n mod 10 < 10" "0 \<le> n mod 10" by simp_all
  then have "digit_val (digit_char (nat (n mod 10))) = nat (n mod 10)" by (intro digit_char_val) linarith
  moreover have "num_val (fixed w (n div 10)) = n div 10" using 2 by simp
  ultimately show ?case by simp
qed

lemma read_fixed_back:
  assumes "lo \<le> n" "n \<le> hi" "0 \<le> n" "n < 10 ^ w"
  shows "read_fixed w lo hi (fixed w n @ s) = Some (n, s)"
  using assms by (simp add: read_fixed_def num_val_fixed Let_def)

lemma read_char_back [simp]: "read_char c (c # s) = Some s"
  by (simp add: read_char_def)

lemma then_read_back: "then_read (Some (v, c # r)) c f = f v r"
  by (simp add: then_read_def)

lemma num_val_zeros: "num_val (s @ replicate k (CHR ''0'')) = num_val s * 10 ^ k"
proof (induction k)
  case (Suc k)
  have "digit_val (CHR ''0'') = 0" by (simp add: digit_val_def)
  then show ?case using Suc num_val_snoc [of "s @ replicate k (CHR ''0'')" "CHR ''0''"]
    by (simp add: replicate_append_same [symmetric] del: num_val_snoc)
qed simp

text \<open>The fraction without its trailing zeros.\<close>

lemma fraction_split:
  obtains ds where "fraction_text ns = (if ds = [] then [] else CHR ''.'' # ds)"
    "fixed 9 ns = ds @ replicate (9 - length ds) (CHR ''0'')" "length ds \<le> 9" "list_all is_digit ds"
proof -
  define r where "r = rev (fixed 9 ns)"
  define ds where "ds = rev (dropWhile (\<lambda>c. c = CHR ''0'') r)"
  define z where "z = takeWhile (\<lambda>c. c = CHR ''0'') r"
  have z: "z = replicate (length z) (CHR ''0'')"
    by (intro replicate_eqI) (auto simp: z_def dest: set_takeWhileD)
  have "rev (z @ rev ds) = fixed 9 ns" by (simp add: z_def ds_def r_def del: rev_append)
  then have f: "fixed 9 ns = ds @ rev z" by simp
  have l: "length ds + length z = 9" using arg_cong [OF f, of length] by simp
  then have "length z = 9 - length ds" by simp
  then have zz: "rev z = replicate (9 - length ds) (CHR ''0'')"
    by (subst z) simp
  have "list_all is_digit (ds @ rev z)" using fixed_digits [of 9 ns] by (simp only: f)
  then have dg: "list_all is_digit ds" by simp
  have fr: "fraction_text ns = (if ds = [] then [] else CHR ''.'' # ds)"
    by (simp add: fraction_text_def Let_def ds_def r_def)
  from f have "fixed 9 ns = ds @ replicate (9 - length ds) (CHR ''0'')" by (simp only: zz)
  with that [of ds] fr dg l show ?thesis by simp
qed

lemma read_fraction_back:
  assumes "0 \<le> ns" "ns < 10 ^ 9" "s \<noteq> []" "\<not> is_digit (hd s)" "hd s \<noteq> CHR ''.''"
  shows "read_fraction (fraction_text ns @ s) = (ns, s)"
proof -
  obtain ds where ds: "fraction_text ns = (if ds = [] then [] else CHR ''.'' # ds)"
    "fixed 9 ns = ds @ replicate (9 - length ds) (CHR ''0'')" "length ds \<le> 9" "list_all is_digit ds"
    by (rule fraction_split)
  have v: "ns = num_val ds * 10 ^ (9 - length ds)"
    using num_val_fixed [OF assms(1,2)] by (simp only: ds(2) num_val_zeros)
  show ?thesis
  proof (cases ds)
    case Nil
    then have "ns = 0" using v by (simp add: num_val_def)
    then show ?thesis using ds(1) Nil assms(3,5) by (cases s) (auto simp: read_fraction_def split: list.split)
  next
    case (Cons d r)
    have "takeWhile is_digit (ds @ s) = ds" "dropWhile is_digit (ds @ s) = s"
      using ds(4) assms(3,4) by (cases s; auto simp: takeWhile_append dropWhile_append list_all_iff)+
    then show ?thesis using ds v Cons by (auto simp: read_fraction_def Let_def)
  qed
qed

lemma read_zone_back:
  assumes "\<bar>off\<bar> < 24 * 60"
  shows "read_zone (zone_text off) = Some off"
proof -
  have b: "\<bar>off\<bar> div 60 < 24" "0 \<le> \<bar>off\<bar> div 60" "\<bar>off\<bar> mod 60 < 60" "0 \<le> \<bar>off\<bar> mod 60"
    using assms by (auto simp: div_int_pos_iff intro: zdiv_mono1)
  have h: "read_fixed 2 0 23 (fixed 2 (\<bar>off\<bar> div 60) @ s) = Some (\<bar>off\<bar> div 60, s)" for s
    by (rule read_fixed_back) (use b in simp_all)
  have m: "read_fixed 2 0 59 (fixed 2 (\<bar>off\<bar> mod 60)) = Some (\<bar>off\<bar> mod 60, [])"
    using read_fixed_back [of 0 "\<bar>off\<bar> mod 60" 59 2 "[]"] b by simp
  have v: "\<bar>off\<bar> div 60 * 60 + \<bar>off\<bar> mod 60 = \<bar>off\<bar>" by simp
  have ne: "c # x \<noteq> ''Z''" if "c = CHR ''-'' \<or> c = CHR ''+''" for c :: char and x using that by auto
  show ?thesis
  proof (cases "off = 0")
    case False
    then show ?thesis using v by (auto simp: read_zone_def zone_text_def h m ne)
  qed (simp add: read_zone_def zone_text_def)
qed

lemma zone_head: "zone_text off \<noteq> [] \<and> hd (zone_text off) \<in> {CHR ''Z'', CHR ''-'', CHR ''+''}"
  by (simp add: zone_text_def)

lemma parse_format:
  assumes "time_ok t"
  shows "parse_RFC3339 (format_RFC3339Nano t) = Some t"
proof -
  have fr: "read_fraction (fraction_text (tm_Nsec t) @ zone_text (tm_Offset t)) = (tm_Nsec t, zone_text (tm_Offset t))"
  proof (rule read_fraction_back)
    have "\<not> is_digit (CHR ''Z'')" "\<not> is_digit (CHR ''-'')" "\<not> is_digit (CHR ''+'')" by code_simp+
    then show "zone_text (tm_Offset t) \<noteq> []" "\<not> is_digit (hd (zone_text (tm_Offset t)))" "hd (zone_text (tm_Offset t)) \<noteq> CHR ''.''"
      using zone_head [of "tm_Offset t"] by auto
  qed (use assms in \<open>simp_all add: time_ok_def\<close>)
  have "days_in (tm_Year t) (tm_Month t) \<le> 31" by (simp add: days_in_def)
  then show ?thesis
    using assms
    by (simp add: parse_RFC3339_def format_RFC3339Nano_def time_ok_def then_read_back read_fixed_back fr
        read_zone_back)
qed

end
