(* ===== verification/Gene_Model.thy ===== *)
theory Gene_Model
  imports Toposort Go_Json_Print Go_Rfc3339
begin

text \<open>
  \<open>internal/gene/gene.go\<close>: the extracted guide with its components, its validation (names up to case and
  white space, known dependencies, no cycle by a depth-first search with its two colour maps), and the
  JSON file it is saved to and loaded from. The file system is a parameter.
\<close>

record gene =
  gn_Version :: int
  gn_Source :: gostring
  gn_Language :: gostring
  gn_ExtractedAt :: gotime
  gn_Guide :: gostring
  gn_Guidance :: gostring
  gn_TokenCount :: int
  gn_Components :: "component list"

definition errInvalidVersion :: gostring where "errInvalidVersion = ''version must be greater than zero''"
definition errEmptyGuide :: gostring where "errEmptyGuide = ''guide must not be empty''"
definition errUnknownLanguage :: gostring where "errUnknownLanguage = ''unknown language''"
definition errEmptyComponentName :: gostring where "errEmptyComponentName = ''component name must not be empty''"
definition errDuplicateComponent :: gostring where "errDuplicateComponent = ''duplicate component name''"
definition errMissingDependency :: gostring where "errMissingDependency = ''component dependency not found''"
definition errDependencyCycle :: gostring where "errDependencyCycle = ''dependency cycle detected''"

definition validLanguages :: "gostring list" where
  "validLanguages = [''go'', ''python'', ''node'', ''rust'']"

section \<open>Names\<close>

text \<open>\<open>strings.Fields\<close>: the runs of runes that are no white space. The byte that starts a white rune never
  stands inside another rune, so the runs can be read byte by byte.\<close>

fun word_split :: "gostring \<Rightarrow> gostring \<times> gostring" where
  "word_split [] = ([], [])"
| "word_split (c # s) =
     (if list_ex (\<lambda>w. prefix w (c # s)) white_runes then ([], c # s)
      else (case word_split s of (u, r) \<Rightarrow> (c # u, r)))"

lemma word_split_append: "word_split s = (u, r) \<Longrightarrow> s = u @ r"
  by (induction s arbitrary: u r) (auto split: if_splits prod.splits)

lemma strip_lead_shorter: "length (strip_lead ws s) \<le> length s"
  by (induction ws s rule: strip_lead.induct) (subst strip_lead.simps, auto split: option.splits)

function str_fields :: "gostring \<Rightarrow> gostring list" where
  "str_fields s =
     (let t = trim_left s in
      if t = [] then [] else case word_split t of (u, r) \<Rightarrow> if u = [] then [] else u # str_fields r)"
  by pat_completeness auto
termination
proof (relation "measure length", goal_cases)
  case (2 s t u r)
  then have "t = u @ r" using word_split_append by simp
  moreover have "length t \<le> length s" using 2 strip_lead_shorter by (simp add: trim_left_def)
  ultimately show ?case using 2 by (cases u) auto
qed simp

declare str_fields.simps [simp del]

text \<open>Letters outside ASCII keep their case here.\<close>

definition normalizeName :: "gostring \<Rightarrow> gostring" where
  "normalizeName s = str_join '' '' (str_fields (to_lower s))"

section \<open>Cycles\<close>

definition flag :: "bool gomap \<Rightarrow> gostring \<Rightarrow> bool" where
  "flag m k \<longleftrightarrow> gm_get m k = Some True"

definition cycle_err :: "gostring list \<Rightarrow> goerr" where
  "cycle_err path =
     \<lparr>er_msg = ''dependency cycle '' @ str_join '' -> '' path @ '': '' @ errDependencyCycle, er_is = [errDependencyCycle]\<rparr>"

text \<open>
  One step of the search, over the maps \<open>visited\<close> and \<open>inStack\<close>; the second function is its loop over the
  dependencies. The first argument bounds the depth; \<open>None\<close> means it is used up.
\<close>

fun dfsComponentCycle ::
    "nat \<Rightarrow> gostring list gomap \<Rightarrow> gostring \<Rightarrow> gostring list \<Rightarrow> bool gomap \<times> bool gomap \<Rightarrow> (goerr + bool gomap \<times> bool gomap) option"
  and dfs_deps ::
    "nat \<Rightarrow> gostring list gomap \<Rightarrow> gostring list \<Rightarrow> gostring list \<Rightarrow> bool gomap \<times> bool gomap \<Rightarrow> (goerr + bool gomap \<times> bool gomap) option"
where
  "dfsComponentCycle 0 m name path st = None"
| "dfsComponentCycle (Suc n) m name path (visited, inStack) =
     (if flag inStack name then Some (Inl (cycle_err (path @ [name])))
      else if flag visited name then Some (Inr (visited, inStack))
      else
        (case dfs_deps n m (adj m name) (path @ [name]) (visited, gm_put name True inStack) of
           None \<Rightarrow> None
         | Some (Inl e) \<Rightarrow> Some (Inl e)
         | Some (Inr (v, i)) \<Rightarrow> Some (Inr (gm_put name True v, gm_put name False i))))"
| "dfs_deps n m [] path st = Some (Inr st)"
| "dfs_deps n m (dep # deps) path st =
     (case dfsComponentCycle n m dep path st of
        None \<Rightarrow> None
      | Some (Inl e) \<Rightarrow> Some (Inl e)
      | Some (Inr st1) \<Rightarrow> dfs_deps n m deps path st1)"

definition component_graph :: "component list \<Rightarrow> gostring list gomap" where
  "component_graph cs = fold (\<lambda>c m. gm_put (normalizeName (c_Name c)) (map normalizeName (c_DependsOn c)) m) cs []"

text \<open>A recursion that does not end exhausts the stack of the process.\<close>

definition stack_overflow :: goerr where
  "stack_overflow = \<lparr>er_msg = ''goroutine stack exceeds limit'', er_is = []\<rparr>"

definition detectComponentCycles :: "component list \<Rightarrow> goerr option" where
  "detectComponentCycles cs =
     (let m = component_graph cs in
      case dfs_deps (2 + sum_list (map (\<lambda>c. 1 + length (c_DependsOn c)) cs)) m (gm_keys m) [] ([], []) of
        None \<Rightarrow> Some stack_overflow
      | Some (Inl e) \<Rightarrow> Some e
      | Some (Inr _) \<Rightarrow> None)"

section \<open>Validation\<close>

definition duplicate_err :: "component \<Rightarrow> goerr" where
  "duplicate_err c =
     \<lparr>er_msg = ''component '' @ go_quote (c_Name c) @ '': '' @ errDuplicateComponent, er_is = [errDuplicateComponent]\<rparr>"

definition missing_err :: "component \<Rightarrow> gostring \<Rightarrow> goerr" where
  "missing_err c dep =
     \<lparr>er_msg = ''component '' @ go_quote (c_Name c) @ '' depends on '' @ go_quote dep @ '': '' @ errMissingDependency,
      er_is = [errMissingDependency]\<rparr>"

fun check_names :: "component list \<Rightarrow> gostring list \<Rightarrow> goerr + gostring list" where
  "check_names [] names = Inr names"
| "check_names (c # cs) names =
     (let norm = normalizeName (c_Name c) in
      if norm = [] then Inl (new_err errEmptyComponentName)
      else if List.member names norm then Inl (duplicate_err c)
      else check_names cs (norm # names))"

definition missing_dep :: "gostring list \<Rightarrow> component \<Rightarrow> goerr option" where
  "missing_dep names c =
     map_option (missing_err c) (find (\<lambda>dep. \<not> List.member names (normalizeName dep)) (c_DependsOn c))"

fun check_deps :: "component list \<Rightarrow> gostring list \<Rightarrow> goerr option" where
  "check_deps [] names = None"
| "check_deps (c # cs) names = (case missing_dep names c of Some e \<Rightarrow> Some e | None \<Rightarrow> check_deps cs names)"

definition validateComponents :: "component list \<Rightarrow> goerr option" where
  "validateComponents cs =
     (case check_names cs [] of
        Inl e \<Rightarrow> Some e
      | Inr names \<Rightarrow> (case check_deps cs names of Some e \<Rightarrow> Some e | None \<Rightarrow> detectComponentCycles cs))"

definition Validate :: "gene \<Rightarrow> goerr option" where
  "Validate g =
     (if gn_Version g < 1 then Some (new_err errInvalidVersion)
      else if gn_Guide g = [] then Some (new_err errEmptyGuide)
      else if \<not> List.member validLanguages (gn_Language g) then Some (new_err errUnknownLanguage)
      else if gn_Components g \<noteq> [] then validateComponents (gn_Components g)
      else None)"

section \<open>The file\<close>

definition str_field :: "gostring \<Rightarrow> gostring \<Rightarrow> gostring \<times> json" where "str_field k v = (k, JStr v)"
definition int_field :: "gostring \<Rightarrow> int \<Rightarrow> gostring \<times> json" where "int_field k v = (k, JNum (int_str v))"

definition component_json :: "component \<Rightarrow> json" where
  "component_json c =
     JObj ([str_field ''name'' (c_Name c), str_field ''interface'' (c_Interface c), str_field ''patterns'' (c_Patterns c)] @
       (if c_DependsOn c = [] then [] else [(''depends_on'', JArr (map JStr (c_DependsOn c)))]))"

definition gene_json :: "gene \<Rightarrow> json" where
  "gene_json g =
     JObj ([int_field ''version'' (gn_Version g), str_field ''source'' (gn_Source g), str_field ''language'' (gn_Language g),
        str_field ''extracted_at'' (format_RFC3339Nano (gn_ExtractedAt g)), str_field ''guide'' (gn_Guide g)] @
       (if gn_Guidance g = [] then [] else [str_field ''guidance'' (gn_Guidance g)]) @
       [int_field ''token_count'' (gn_TokenCount g)] @
       (if gn_Components g = [] then [] else [(''components'', JArr (map component_json (gn_Components g)))]))"

definition zero_time :: gotime where
  "zero_time = \<lparr>tm_Year = 1, tm_Month = 1, tm_Day = 1, tm_Hour = 0, tm_Min = 0, tm_Sec = 0, tm_Nsec = 0, tm_Offset = 0\<rparr>"

definition dec_time :: "json \<Rightarrow> gotime \<Rightarrow> gotime option" where
  "dec_time v old = (case v of JNull \<Rightarrow> Some old | JStr s \<Rightarrow> parse_RFC3339 s | _ \<Rightarrow> None)"

definition component_fields :: "gostring list" where
  "component_fields = [''name'', ''interface'', ''patterns'', ''depends_on'']"

definition dec_component :: "json \<Rightarrow> component option" where
  "dec_component v =
     (case v of
        JNull \<Rightarrow> Some zero_component
      | JObj ms \<Rightarrow>
          (let vs = field_values component_fields ms in
           case (dec_field dec_string (vs ''name'') [], dec_field dec_string (vs ''interface'') [],
                 dec_field dec_string (vs ''patterns'') [], dec_field (\<lambda>v _. dec_strings v) (vs ''depends_on'') []) of
             (Some n, Some i, Some p, Some d) \<Rightarrow>
               Some \<lparr>c_Name = n, c_Interface = i, c_Patterns = p, c_DependsOn = d\<rparr>
           | _ \<Rightarrow> None)
      | _ \<Rightarrow> None)"

definition gene_fields :: "gostring list" where
  "gene_fields = [''version'', ''source'', ''language'', ''extracted_at'', ''guide'', ''guidance'', ''token_count'', ''components'']"

definition zero_gene :: gene where
  "zero_gene = \<lparr>gn_Version = 0, gn_Source = [], gn_Language = [], gn_ExtractedAt = zero_time, gn_Guide = [],
     gn_Guidance = [], gn_TokenCount = 0, gn_Components = []\<rparr>"

definition dec_gene :: "json \<Rightarrow> gene option" where
  "dec_gene v =
     (case v of
        JNull \<Rightarrow> Some zero_gene
      | JObj ms \<Rightarrow>
          (let vs = field_values gene_fields ms in
           case ((dec_field dec_int (vs ''version'') 0, dec_field dec_string (vs ''source'') [],
                  dec_field dec_string (vs ''language'') [], dec_field dec_time (vs ''extracted_at'') zero_time),
                 (dec_field dec_string (vs ''guide'') [], dec_field dec_string (vs ''guidance'') [],
                  dec_field dec_int (vs ''token_count'') 0,
                  dec_field (\<lambda>v _. dec_list dec_component v) (vs ''components'') [])) of
             ((Some ver, Some src, Some lang, Some tm), (Some gd, Some gu, Some tc, Some cs)) \<Rightarrow>
               Some \<lparr>gn_Version = ver, gn_Source = src, gn_Language = lang, gn_ExtractedAt = tm, gn_Guide = gd,
                 gn_Guidance = gu, gn_TokenCount = tc, gn_Components = cs\<rparr>
           | _ \<Rightarrow> None)
      | _ \<Rightarrow> None)"

text \<open>The text of a JSON error is not modelled.\<close>

datatype gene_error = GeneIO goerr | GeneJSON | GeneInvalid goerr | GeneMarshal gostring

text \<open>\<open>Time.MarshalJSON\<close> fails outside the range of the format.\<close>

definition marshal_time_err :: "gotime \<Rightarrow> gostring option" where
  "marshal_time_err t =
     (if tm_Year t < 0 \<or> 10000 \<le> tm_Year t then Some ''year outside of range [0,9999]''
      else if 24 * 60 \<le> \<bar>tm_Offset t\<bar> then Some ''timezone hour outside of range [0,23]''
      else None)"

definition Save :: "(gostring \<Rightarrow> gostring \<Rightarrow> 'w \<Rightarrow> goerr option \<times> 'w) \<Rightarrow> gostring \<Rightarrow> gene \<Rightarrow> 'w \<Rightarrow> gene_error option \<times> 'w" where
  "Save write path g w =
     (case Validate g of
        Some e \<Rightarrow> (Some (GeneInvalid e), w)
      | None \<Rightarrow>
          (case marshal_time_err (gn_ExtractedAt g) of
             Some e \<Rightarrow> (Some (GeneMarshal e), w)
           | None \<Rightarrow>
               (case write path (MarshalIndent (gene_json g)) w of
                  (Some e, w1) \<Rightarrow> (Some (GeneIO e), w1)
                | (None, w1) \<Rightarrow> (None, w1))))"

definition Load_data :: "gostring \<Rightarrow> gene_error + gene" where
  "Load_data data =
     (case (case json_parse data of None \<Rightarrow> None | Some v \<Rightarrow> dec_gene v) of
        None \<Rightarrow> Inl GeneJSON
      | Some g \<Rightarrow> (case Validate g of Some e \<Rightarrow> Inl (GeneInvalid e) | None \<Rightarrow> Inr g))"

definition gene_Load :: "(gostring \<Rightarrow> 'w \<Rightarrow> goerr + gostring) \<Rightarrow> gostring \<Rightarrow> 'w \<Rightarrow> gene_error + gene" where
  "gene_Load read path w = (case read path w of Inl e \<Rightarrow> Inl (GeneIO e) | Inr data \<Rightarrow> Load_data data)"

end
