(* ===== verification/Gene_Facts.thy ===== *)
theory Gene_Facts
  imports Gene_Model
begin

text \<open>
  What the validation of a gene decides: the depth-first search ends and finds a cycle exactly when there
  is one, so a gene is accepted exactly when its components are well named, closed and acyclic; when the
  dependencies are spelled as the names are, the attractor's topological sort then succeeds.
\<close>

section \<open>The search ends\<close>

lemma flag_put [simp]: "flag (gm_put k b m) k' = (if k' = k then b else flag m k')"
  by (simp add: flag_def)

lemma flag_Nil [simp]: "\<not> flag [] k"
  by (simp add: flag_def gm_get_def)

text \<open>Each nested call adds a name to the stack, so the depth is bounded by the names that are off it.\<close>

lemma dfs_ends:
  "finite U \<Longrightarrow> (\<forall>a \<in> U. set (adj m a) \<subseteq> U) \<Longrightarrow> name \<in> U \<Longrightarrow> card (U - {k. flag (snd st) k}) < n \<Longrightarrow>
     \<exists>r. dfsComponentCycle n m name path st = Some r \<and> (\<forall>st'. r = Inr st' \<longrightarrow> (\<forall>k. flag (snd st') k = flag (snd st) k))"
  "finite U \<Longrightarrow> (\<forall>a \<in> U. set (adj m a) \<subseteq> U) \<Longrightarrow> set deps \<subseteq> U \<Longrightarrow> card (U - {k. flag (snd st) k}) < n \<Longrightarrow>
     \<exists>r. dfs_deps n m deps path st = Some r \<and> (\<forall>st'. r = Inr st' \<longrightarrow> (\<forall>k. flag (snd st') k = flag (snd st) k))"
proof (induction n m name path st and n m deps path st rule: dfsComponentCycle_dfs_deps.induct)
  case (2 n m name path visited inStack)
  show ?case
  proof (cases "flag inStack name \<or> flag visited name")
    case False
    let ?i = "gm_put name True inStack"
    have "U - {k. flag inStack k} = insert name (U - {k. flag ?i k})" using False "2.prems" by auto
    then have "card (U - {k. flag ?i k}) < n" using "2.prems" by (simp add: card_insert_if)
    then obtain r where "dfs_deps n m (adj m name) (path @ [name]) (visited, ?i) = Some r"
      "\<forall>st'. r = Inr st' \<longrightarrow> (\<forall>k. flag (snd st') k = flag ?i k)"
      using "2.IH" False "2.prems" by auto
    then show ?thesis using False by (cases r) auto
  qed auto
next
  case (4 n m dep deps path st)
  then obtain r where r: "dfsComponentCycle n m dep path st = Some r"
    "\<forall>st'. r = Inr st' \<longrightarrow> (\<forall>k. flag (snd st') k = flag (snd st) k)" by auto
  show ?case
  proof (cases r)
    case (Inr st1)
    then have "\<exists>r. dfs_deps n m deps path st1 = Some r \<and> (\<forall>st'. r = Inr st' \<longrightarrow> (\<forall>k. flag (snd st') k = flag (snd st1) k))"
      using "4.IH"(2) [of r st1] r "4.prems" by simp
    then show ?thesis using r Inr by auto
  qed (use r in simp)
qed auto

section \<open>The search is right\<close>

definition edges :: "gostring list gomap \<Rightarrow> (gostring \<times> gostring) set" where
  "edges m = {(a, b). b \<in> set (adj m a)}"

abbreviation linked :: "gostring list gomap \<Rightarrow> gostring \<Rightarrow> gostring \<Rightarrow> bool" where
  "linked m a b \<equiv> (a, b) \<in> edges m"

lemma chain_trancl: "successively (\<lambda>a b. (a, b) \<in> r) (x # xs @ [y]) \<Longrightarrow> (x, y) \<in> r\<^sup>+"
  by (induction xs arbitrary: x) (auto intro: trancl_into_trancl2)

lemma chain_cycle:
  assumes "successively (\<lambda>a b. (a, b) \<in> r) (p @ [x])" "x \<in> set p"
  shows "(x, x) \<in> r\<^sup>+"
proof -
  obtain p1 p2 where "p = p1 @ x # p2" using assms(2) by (meson split_list)
  then have "successively (\<lambda>a b. (a, b) \<in> r) (x # p2 @ [x])" using assms(1) by (simp add: successively_append_iff)
  then show ?thesis by (rule chain_trancl)
qed

text \<open>
  The invariant of the search: the stack is a chain of dependencies, and what is visited is closed under
  dependencies, off the stack, and on no cycle.
\<close>

definition dfs_inv :: "gostring list gomap \<Rightarrow> gostring list \<Rightarrow> bool gomap \<times> bool gomap \<Rightarrow> bool" where
  "dfs_inv m path st \<longleftrightarrow>
     successively (linked m) path \<and> distinct path \<and> (\<forall>k. flag (snd st) k \<longleftrightarrow> k \<in> set path) \<and>
     (\<forall>k. flag (fst st) k \<longrightarrow> k \<notin> set path \<and> (k, k) \<notin> (edges m)\<^sup>+ \<and> (\<forall>d. linked m k d \<longrightarrow> flag (fst st) d))"

definition more_visited :: "bool gomap \<times> bool gomap \<Rightarrow> bool gomap \<times> bool gomap \<Rightarrow> bool" where
  "more_visited st st' \<longleftrightarrow> (\<forall>k. flag (fst st) k \<longrightarrow> flag (fst st') k)"

lemma closed_rtrancl: "(a, b) \<in> r\<^sup>* \<Longrightarrow> P a \<Longrightarrow> (\<forall>x y. P x \<longrightarrow> (x, y) \<in> r \<longrightarrow> P y) \<Longrightarrow> P b"
  by (induction rule: rtrancl_induct) auto

lemma dfs_inv_finish:
  assumes "dfs_inv m (path @ [name]) (v, i)" "\<forall>d. linked m name d \<longrightarrow> flag v d"
  shows "dfs_inv m path (gm_put name True v, gm_put name False i)"
proof -
  have "(name, name) \<notin> (edges m)\<^sup>+"
  proof
    assume "(name, name) \<in> (edges m)\<^sup>+"
    then obtain d where "linked m name d" "(d, name) \<in> (edges m)\<^sup>*" by (meson tranclD)
    moreover have "flag v x \<Longrightarrow> linked m x y \<Longrightarrow> flag v y" for x y using assms(1) by (auto simp: dfs_inv_def)
    ultimately have "flag v name" using closed_rtrancl [of d name "edges m" "flag v"] assms(2) by blast
    moreover have "\<not> flag v name" using assms(1) by (auto simp: dfs_inv_def)
    ultimately show False by simp
  qed
  then show ?thesis using assms by (auto simp: dfs_inv_def successively_append_iff)
qed

lemma dfs_right:
  "dfs_inv m path st \<Longrightarrow> (path \<noteq> [] \<longrightarrow> linked m (last path) name) \<Longrightarrow> dfsComponentCycle n m name path st = Some r \<Longrightarrow>
     (\<forall>e. r = Inl e \<longrightarrow> er_is e = [errDependencyCycle] \<and> \<not> acyclic (edges m)) \<and>
     (\<forall>st'. r = Inr st' \<longrightarrow> dfs_inv m path st' \<and> more_visited st st' \<and> flag (fst st') name)"
  "dfs_inv m path st \<Longrightarrow> (\<forall>d \<in> set deps. path \<noteq> [] \<longrightarrow> linked m (last path) d) \<Longrightarrow> dfs_deps n m deps path st = Some r \<Longrightarrow>
     (\<forall>e. r = Inl e \<longrightarrow> er_is e = [errDependencyCycle] \<and> \<not> acyclic (edges m)) \<and>
     (\<forall>st'. r = Inr st' \<longrightarrow> dfs_inv m path st' \<and> more_visited st st' \<and> (\<forall>d \<in> set deps. flag (fst st') d))"
proof (induction n m name path st and n m deps path st arbitrary: r and r rule: dfsComponentCycle_dfs_deps.induct)
  case (2 n m name path visited inStack)
  have chain: "successively (linked m) (path @ [name])"
    using "2.prems" by (auto simp: dfs_inv_def successively_append_iff)
  consider "flag inStack name" | "\<not> flag inStack name" "flag visited name" | "\<not> flag inStack name" "\<not> flag visited name" by blast
  then show ?case
  proof cases
    case 1
    then have "name \<in> set path" using "2.prems"(1) by (simp add: dfs_inv_def)
    then have "\<not> acyclic (edges m)" using chain_cycle [OF chain] by (auto simp: acyclic_def)
    then show ?thesis using 1 "2.prems"(3) by (auto simp: cycle_err_def)
  next
    case 2
    then show ?thesis using "2.prems" by (auto simp: more_visited_def)
  next
    case 3
    have inv: "dfs_inv m (path @ [name]) (visited, gm_put name True inStack)"
      using "2.prems"(1) chain 3 by (auto simp: dfs_inv_def)
    have lk: "\<forall>d \<in> set (adj m name). path @ [name] \<noteq> [] \<longrightarrow> linked m (last (path @ [name])) d" by (simp add: edges_def)
    obtain r1 where r1: "dfs_deps n m (adj m name) (path @ [name]) (visited, gm_put name True inStack) = Some r1"
      using 3 "2.prems"(3) by (auto split: option.splits)
    note ih = "2.IH" [OF 3 inv lk r1]
    show ?thesis
    proof (cases r1)
      case (Inl e)
      then show ?thesis using ih r1 3 "2.prems"(3) by auto
    next
      case (Inr st1)
      obtain v i where vi: "st1 = (v, i)" by force
      have "dfs_inv m (path @ [name]) (v, i)" "\<forall>d. linked m name d \<longrightarrow> flag v d"
        using ih Inr vi by (auto simp: edges_def)
      then have "dfs_inv m path (gm_put name True v, gm_put name False i)" by (rule dfs_inv_finish)
      then show ?thesis using ih r1 3 "2.prems"(3) Inr vi by (auto simp: more_visited_def)
    qed
  qed
next
  case (4 n m dep deps path st)
  obtain r1 where r1: "dfsComponentCycle n m dep path st = Some r1" using "4.prems"(3) by (auto split: option.splits)
  have lk: "path \<noteq> [] \<longrightarrow> linked m (last path) dep" using "4.prems"(2) by simp
  note ih = "4.IH"(1) [OF "4.prems"(1) lk r1]
  show ?case
  proof (cases r1)
    case (Inl e)
    then show ?thesis using ih r1 "4.prems"(3) by auto
  next
    case (Inr st1)
    then have "dfs_deps n m deps path st1 = Some r" "dfs_inv m path st1" using r1 "4.prems"(3) ih by auto
    then show ?thesis using "4.IH"(2) [OF r1 Inr] "4.prems"(2) ih Inr by (auto simp: more_visited_def)
  qed
qed (auto simp: more_visited_def)

lemma adj_keys: "adj m k \<noteq> [] \<Longrightarrow> k \<in> set (gm_keys m)"
  by (auto simp: adj_def gm_get_def gm_keys_def split: option.splits dest: map_of_SomeD intro: rev_image_eqI)

text \<open>Whatever order the keys are visited in, the search decides whether the graph is acyclic.\<close>

lemma search_decides:
  assumes "set ks = set (gm_keys m)" "dfs_deps n m ks [] ([], []) = Some r"
  shows "(case r of Inl e \<Rightarrow> er_is e = [errDependencyCycle] \<and> \<not> acyclic (edges m) | Inr _ \<Rightarrow> acyclic (edges m))"
proof -
  have inv: "dfs_inv m [] ([], [])" by (simp add: dfs_inv_def)
  note right = dfs_right(2) [OF inv _ assms(2), simplified]
  show ?thesis
  proof (cases r)
    case (Inr st)
    then have st: "dfs_inv m [] st" "\<forall>k \<in> set (gm_keys m). flag (fst st) k" using right assms(1) by (cases st, auto)+
    have "(k, k) \<notin> (edges m)\<^sup>+" for k
    proof
      assume c: "(k, k) \<in> (edges m)\<^sup>+"
      then obtain d where "linked m k d" by (meson tranclD)
      then have "k \<in> set (gm_keys m)" using adj_keys [of m k] by (cases "adj m k") (auto simp: edges_def)
      then show False using st c by (auto simp: dfs_inv_def)
    qed
    then show ?thesis using Inr by (simp add: acyclic_def)
  qed (use right in auto)
qed

section \<open>What a gene must satisfy\<close>

abbreviation norm_name :: "component \<Rightarrow> gostring" where
  "norm_name c \<equiv> normalizeName (c_Name c)"

definition well_named :: "component list \<Rightarrow> bool" where
  "well_named cs \<longleftrightarrow> distinct (map norm_name cs) \<and> [] \<notin> set (map norm_name cs)"

definition deps_resolve :: "component list \<Rightarrow> bool" where
  "deps_resolve cs \<longleftrightarrow> (\<forall>c \<in> set cs. normalizeName ` set (c_DependsOn c) \<subseteq> norm_name ` set cs)"

definition name_deps :: "component list \<Rightarrow> (gostring \<times> gostring) set" where
  "name_deps cs = {(norm_name c, normalizeName d) |c d. c \<in> set cs \<and> d \<in> set (c_DependsOn c)}"

lemma graph_get: "gm_get (fold (\<lambda>c m. gm_put (norm_name c) (map normalizeName (c_DependsOn c)) m) cs m) n =
    (case find (\<lambda>c. norm_name c = n) (rev cs) of Some c \<Rightarrow> Some (map normalizeName (c_DependsOn c)) | None \<Rightarrow> gm_get m n)"
proof (induction cs arbitrary: m)
  case (Cons c cs)
  then show ?case by (auto simp: find_append split: option.splits)
qed simp

lemma graph_adj: "adj (component_graph cs) n =
    (case find (\<lambda>c. norm_name c = n) (rev cs) of Some c \<Rightarrow> map normalizeName (c_DependsOn c) | None \<Rightarrow> [])"
  unfolding adj_def component_graph_def graph_get by (simp add: gm_get_def split: option.split)

lemma graph_adjD: "d \<in> set (adj (component_graph cs) n) \<Longrightarrow> \<exists>c \<in> set cs. norm_name c = n \<and> d \<in> normalizeName ` set (c_DependsOn c)"
  by (cases "find (\<lambda>c. norm_name c = n) (rev cs)") (auto simp: graph_adj dest!: find_SomeD)

lemma find_distinct: "distinct (map f xs) \<Longrightarrow> x \<in> set xs \<Longrightarrow> find (\<lambda>y. f y = f x) xs = Some x"
  by (induction xs) (auto simp: rev_image_eqI)

lemma graph_edges: "well_named cs \<Longrightarrow> edges (component_graph cs) = name_deps cs"
proof -
  assume w: "well_named cs"
  have f: "find (\<lambda>c. norm_name c = norm_name c0) (rev cs) = Some c0" if "c0 \<in> set cs" for c0
    using w that by (intro find_distinct) (simp_all add: well_named_def rev_map [symmetric])
  show ?thesis
  proof (rule set_eqI, rule iffI)
    fix p assume "p \<in> edges (component_graph cs)"
    then show "p \<in> name_deps cs"
      by (auto simp: edges_def name_deps_def dest!: graph_adjD)
  next
    fix p assume "p \<in> name_deps cs"
    then show "p \<in> edges (component_graph cs)"
      by (auto simp: edges_def graph_adj name_deps_def f)
  qed
qed

definition graph_nodes :: "component list \<Rightarrow> gostring list" where
  "graph_nodes cs = concat (map (\<lambda>c. norm_name c # map normalizeName (c_DependsOn c)) cs)"

lemma graph_closed: "set (adj (component_graph cs) a) \<subseteq> set (graph_nodes cs)"
  by (auto simp: graph_nodes_def dest!: graph_adjD)

lemma graph_keys: "set (gm_keys (component_graph cs)) = norm_name ` set cs"
proof -
  have "set (gm_keys (fold (\<lambda>c m. gm_put (norm_name c) (map normalizeName (c_DependsOn c)) m) cs m)) =
      norm_name ` set cs \<union> set (gm_keys m)" for m
    by (induction cs arbitrary: m) (auto simp: gm.keys_put)
  from this [of "[]"] show ?thesis by (simp add: component_graph_def gm_keys_def)
qed

lemma cycles_decided:
  "(case detectComponentCycles cs of
      None \<Rightarrow> acyclic (edges (component_graph cs))
    | Some e \<Rightarrow> er_is e = [errDependencyCycle] \<and> \<not> acyclic (edges (component_graph cs)))"
proof -
  let ?m = "component_graph cs" and ?n = "2 + sum_list (map (\<lambda>c. 1 + length (c_DependsOn c)) cs)"
  let ?U = "set (graph_nodes cs)"
  have "card ?U \<le> length (graph_nodes cs)" by (rule card_length)
  also have "\<dots> = sum_list (map (\<lambda>c. 1 + length (c_DependsOn c)) cs)"
    by (simp add: graph_nodes_def length_concat comp_def)
  finally have "card (?U - {k. flag (snd (([] :: bool gomap), ([] :: bool gomap))) k}) < ?n" by simp
  moreover have "set (gm_keys ?m) \<subseteq> ?U" by (auto simp: graph_keys graph_nodes_def)
  ultimately obtain r where r: "dfs_deps ?n ?m (gm_keys ?m) [] ([], []) = Some r"
    using dfs_ends(2) [of ?U ?m "gm_keys ?m" "([], [])" ?n "[]"] graph_closed by blast
  from search_decides [OF refl r] show ?thesis
    unfolding detectComponentCycles_def Let_def r by (cases r) simp_all
qed

lemma check_names_ok:
  "check_names cs acc = Inr ns \<longleftrightarrow>
     distinct (map norm_name cs) \<and> [] \<notin> norm_name ` set cs \<and> norm_name ` set cs \<inter> set acc = {} \<and>
     ns = rev (map norm_name cs) @ acc"
  by (induction cs acc rule: check_names.induct) (auto simp: Let_def)

lemma check_names_err: "check_names cs acc = Inl e \<Longrightarrow> er_is e = [errEmptyComponentName] \<or> er_is e = [errDuplicateComponent]"
  by (induction cs acc rule: check_names.induct) (auto simp: Let_def new_err_def duplicate_err_def split: if_splits)

lemma missing_dep_None: "missing_dep names c = None \<longleftrightarrow> normalizeName ` set (c_DependsOn c) \<subseteq> set names"
  by (auto simp: missing_dep_def find_None_iff)

lemma missing_dep_Some: "missing_dep names c = Some e \<Longrightarrow> \<not> normalizeName ` set (c_DependsOn c) \<subseteq> set names"
  using missing_dep_None [of names c] by simp

lemma check_deps_ok:
  "check_deps cs names = None \<longleftrightarrow> (\<forall>c \<in> set cs. normalizeName ` set (c_DependsOn c) \<subseteq> set names)"
  by (induction cs names rule: check_deps.induct) (auto simp: missing_dep_None dest!: missing_dep_Some split: option.split)

lemma check_deps_err: "check_deps cs names = Some e \<Longrightarrow> er_is e = [errMissingDependency]"
  by (induction cs names rule: check_deps.induct) (auto simp: missing_dep_def missing_err_def split: option.splits)

lemma error_names_distinct:
  "errEmptyComponentName \<noteq> errDuplicateComponent" "errEmptyComponentName \<noteq> errMissingDependency"
  "errEmptyComponentName \<noteq> errDependencyCycle" "errDuplicateComponent \<noteq> errMissingDependency"
  "errDuplicateComponent \<noteq> errDependencyCycle" "errMissingDependency \<noteq> errDependencyCycle"
  by code_simp+

text \<open>The outcome of the validation by the first check that fails.\<close>

lemma validate_cases:
  "if \<not> well_named cs then
     (\<exists>e. validateComponents cs = Some e \<and> (er_is e = [errEmptyComponentName] \<or> er_is e = [errDuplicateComponent]))
   else if \<not> deps_resolve cs then (\<exists>e. validateComponents cs = Some e \<and> er_is e = [errMissingDependency])
   else if \<not> acyclic (name_deps cs) then (\<exists>e. validateComponents cs = Some e \<and> er_is e = [errDependencyCycle])
   else validateComponents cs = None"
proof (cases "check_names cs []")
  case (Inl e)
  then have "\<not> well_named cs" using check_names_ok [of cs "[]"] by (auto simp: well_named_def)
  then show ?thesis using Inl check_names_err [OF Inl] by (simp add: validateComponents_def)
next
  case (Inr ns)
  then have w: "well_named cs" "ns = rev (map norm_name cs)"
    using check_names_ok [of cs "[]" ns] by (simp_all add: well_named_def)
  then have d: "check_deps cs ns = None \<longleftrightarrow> deps_resolve cs"
    using check_deps_ok [of cs ns] by (simp add: deps_resolve_def)
  show ?thesis
  proof (cases "check_deps cs ns")
    case None
    then show ?thesis
      using w d cycles_decided [of cs] Inr graph_edges [OF w(1)]
      by (cases "detectComponentCycles cs") (simp_all add: validateComponents_def)
  next
    case (Some e)
    then show ?thesis using w d Inr check_deps_err [OF Some] by (simp add: validateComponents_def)
  qed
qed

text \<open>C32. The validation of a gene's components always ends and accepts exactly the component lists whose
  names are non-empty and distinct up to case and white space, whose dependencies all name a component,
  and whose dependencies have no cycle. The error says which of these fails first: the cycle error, for
  one, is returned exactly when the names and dependencies are in order and there is a cycle.\<close>

theorem validateComponents_spec:
  "(validateComponents cs = None \<longleftrightarrow> well_named cs \<and> deps_resolve cs \<and> acyclic (name_deps cs)) \<and>
   ((\<exists>e. validateComponents cs = Some e \<and> errors_Is e errDependencyCycle) \<longleftrightarrow>
      well_named cs \<and> deps_resolve cs \<and> \<not> acyclic (name_deps cs)) \<and>
   ((\<exists>e. validateComponents cs = Some e \<and> errors_Is e errMissingDependency) \<longleftrightarrow> well_named cs \<and> \<not> deps_resolve cs) \<and>
   ((\<exists>e. validateComponents cs = Some e \<and> (errors_Is e errEmptyComponentName \<or> errors_Is e errDuplicateComponent)) \<longleftrightarrow>
      \<not> well_named cs)"
  using validate_cases [of cs] error_names_distinct
  by (cases "well_named cs"; cases "deps_resolve cs"; cases "acyclic (name_deps cs)") (auto simp: errors_Is_def)

section \<open>From validation to the attractor's order\<close>

lemma acyclic_rank:
  assumes "finite E" "acyclic E" "(a, b) \<in> E"
  shows "card {x. (b, x) \<in> E\<^sup>+} < card {x. (a, x) \<in> E\<^sup>+}"
proof (rule psubset_card_mono)
  have "{x. (a, x) \<in> E\<^sup>+} \<subseteq> snd ` E" by (force dest: tranclD2)
  then show "finite {x. (a, x) \<in> E\<^sup>+}" by (rule finite_subset) (simp add: assms(1))
  have "b \<notin> {x. (b, x) \<in> E\<^sup>+}" using assms(2) by (auto simp: acyclic_def)
  then show "{x. (b, x) \<in> E\<^sup>+} \<subset> {x. (a, x) \<in> E\<^sup>+}" using assms(3) by (auto intro: trancl_into_trancl2)
qed

lemma finite_name_deps: "finite (name_deps cs)"
proof -
  have "name_deps cs \<subseteq> (\<Union>c \<in> set cs. (\<lambda>d. (norm_name c, normalizeName d)) ` set (c_DependsOn c))"
    by (auto simp: name_deps_def)
  then show ?thesis by (rule finite_subset) simp
qed

lemma valid_acyclic_deps: "acyclic (name_deps cs) \<Longrightarrow> acyclic_deps cs"
  unfolding acyclic_deps_def
proof (intro exI ballI)
  fix c d assume "acyclic (name_deps cs)" "c \<in> set cs" "d \<in> set (c_DependsOn c)"
  then show "card {x. (normalizeName d, x) \<in> (name_deps cs)\<^sup>+} < card {x. (norm_name c, x) \<in> (name_deps cs)\<^sup>+}"
    by (intro acyclic_rank finite_name_deps) (auto simp: name_deps_def)
qed


text \<open>A service that depends on the store: once spelled as declared, once in another case.\<close>

definition spelled :: "component list" where
  "spelled = [mk_comp ''HTTP  Handler'' [''Store''], mk_comp ''Store'' []]"

definition misspelled :: "component list" where
  "misspelled = [mk_comp ''HTTP  Handler'' [''store''], mk_comp ''Store'' []]"

lemma sample_names:
  "normalizeName ''HTTP  Handler'' = ''http handler''" "normalizeName ''Store'' = ''store''" "normalizeName ''store'' = ''store''"
  by code_simp+

lemmas sample_defs = spelled_def misspelled_def mk_comp_def zero_component_def sample_names Let_def

lemma sample_graph:
  "component_graph spelled = [(''http handler'', [''store'']), (''store'', [])]"
  "component_graph misspelled = [(''http handler'', [''store'']), (''store'', [])]"
  by (simp_all add: sample_defs component_graph_def gm_put_def)

lemma samples_valid: "validateComponents spelled = None" "validateComponents misspelled = None"
proof -
  have "detectComponentCycles spelled = None" "detectComponentCycles misspelled = None"
    unfolding detectComponentCycles_def sample_graph
    by (simp_all add: sample_defs gm_keys_def eval_nat_numeral adj_def gm_get_def flag_def gm_put_def)
  then show "validateComponents spelled = None" "validateComponents misspelled = None"
    by (simp_all add: validateComponents_def sample_defs missing_dep_def)
qed


section \<open>The file\<close>

definition component_text_ok :: "component \<Rightarrow> bool" where
  "component_text_ok c \<longleftrightarrow>
     list_all valid_utf8 ([c_Name c, c_Interface c, c_Patterns c] @ c_DependsOn c)"

definition int64 :: "int \<Rightarrow> bool" where
  "int64 i \<longleftrightarrow> - (2 ^ 63) \<le> i \<and> i < 2 ^ 63"

definition gene_text_ok :: "gene \<Rightarrow> bool" where
  "gene_text_ok g \<longleftrightarrow>
     list_all valid_utf8 [gn_Source g, gn_Language g, gn_Guide g, gn_Guidance g] \<and>
     list_all component_text_ok (gn_Components g) \<and> time_ok (gn_ExtractedAt g) \<and>
     int64 (gn_Version g) \<and> int64 (gn_TokenCount g)"

lemma dec_field_simps [simp]: "dec_field f [] z = Some z" "dec_field f [v] z = f v z"
  by (simp_all add: dec_field_def)

lemma dec_scalars [simp]: "dec_string (JStr s) old = Some s" "int64 i \<Longrightarrow> dec_int (JNum (int_str i)) j = Some i"
    "time_ok t \<Longrightarrow> dec_time (JStr (format_RFC3339Nano t)) u = Some t"
  by (simp_all add: dec_string_def dec_int_def dec_time_def int64_def int_literal_int_str parse_format)

lemma dec_all_map: "(\<forall>x \<in> set xs. f (g x) = Some x) \<Longrightarrow> dec_all f (map g xs) = Some xs"
  by (auto simp: dec_all_def list_all_iff Let_def intro!: map_idI)

lemma dec_strings_back [simp]: "dec_strings (JArr (map JStr xs)) = Some xs"
  by (simp add: dec_strings_def dec_list_def dec_all_map)

lemma field_values_Cons:
  "field_values names ((k, v) # ms) f =
     (if field_of names k = Some f then [v] else []) @ field_values names ms f"
  by (simp add: field_values_def)

lemma field_values_Nil: "field_values names [] f = []"
  by (simp add: field_values_def)

lemma component_keys:
  "field_of component_fields ''name'' = Some ''name''" "field_of component_fields ''interface'' = Some ''interface''"
  "field_of component_fields ''patterns'' = Some ''patterns''" "field_of component_fields ''depends_on'' = Some ''depends_on''"
  by code_simp+

lemma gene_keys:
  "field_of gene_fields ''version'' = Some ''version''" "field_of gene_fields ''source'' = Some ''source''"
  "field_of gene_fields ''language'' = Some ''language''" "field_of gene_fields ''extracted_at'' = Some ''extracted_at''"
  "field_of gene_fields ''guide'' = Some ''guide''" "field_of gene_fields ''guidance'' = Some ''guidance''"
  "field_of gene_fields ''token_count'' = Some ''token_count''" "field_of gene_fields ''components'' = Some ''components''"
  by code_simp+

lemma dec_component_back [simp]: "dec_component (component_json c) = Some c"
  by (cases c) (simp add: dec_component_def component_json_def str_field_def Let_def field_values_Cons field_values_Nil component_keys)

lemma dec_gene_back: "gene_text_ok g \<Longrightarrow> dec_gene (gene_json g) = Some g"
  by (cases g) (simp add: dec_gene_def gene_json_def gene_text_ok_def str_field_def int_field_def Let_def field_values_Cons field_values_Nil
      gene_keys dec_list_def dec_all_map)

definition ascii :: "gostring \<Rightarrow> bool" where
  "ascii s \<longleftrightarrow> list_all (\<lambda>c. (of_char c :: nat) < 128) s"

lemma ascii_append [simp]: "ascii (s @ t) \<longleftrightarrow> ascii s \<and> ascii t"
  by (simp add: ascii_def)

lemma ascii_utf8: "ascii s \<Longrightarrow> valid_utf8 s"
proof (induction s)
  case (Cons c s)
  then have "rune_len (c # s) = 1" by (simp add: ascii_def ascii_rune)
  then show ?case using Cons by (subst valid_utf8.simps) (simp add: ascii_def)
qed (simp add: valid_utf8.simps)

lemma ascii_digits: "list_all is_digit s \<Longrightarrow> ascii s"
  by (auto simp: ascii_def list_all_iff dest!: digit_range)

lemma ascii_fraction: "ascii (fraction_text ns)"
proof -
  obtain ds where "fraction_text ns = (if ds = [] then [] else CHR ''.'' # ds)" "list_all is_digit ds"
    by (rule fraction_split)
  then show ?thesis using ascii_digits [of ds] by (simp add: ascii_def)
qed

lemma ascii_time: "ascii (format_RFC3339Nano t)"
proof -
  have f: "ascii (fixed w n)" for w n by (rule ascii_digits) simp
  have c: "ascii (c # s) \<longleftrightarrow> (of_char c :: nat) < 128 \<and> ascii s" for c s by (simp add: ascii_def)
  show ?thesis
    using f ascii_fraction by (simp add: format_RFC3339Nano_def zone_text_def c) (simp add: ascii_def)
qed

lemma component_json_ok: "component_text_ok c \<Longrightarrow> json_ok (component_json c) \<and> jdepth (component_json c) \<le> 2"
proof -
  have k: "valid_utf8 ''name''" "valid_utf8 ''interface''" "valid_utf8 ''patterns''" "valid_utf8 ''depends_on''"
    by (rule ascii_utf8, simp add: ascii_def)+
  have z: "foldr max (map (jdepth \<circ> JStr) xs) 0 = 0" for xs by (induction xs) auto
  assume "component_text_ok c"
  then show ?thesis by (auto simp: component_json_def str_field_def component_text_ok_def k z list_all_iff)
qed

lemma foldr_max_le: "(\<forall>x \<in> set xs. f x \<le> b) \<Longrightarrow> foldr max (map f xs) 0 \<le> (b::nat)"
  by (induction xs) auto

lemma gene_json_ok: "gene_text_ok g \<Longrightarrow> json_ok (gene_json g) \<and> jdepth (gene_json g) \<le> 4"
proof -
  have k: "valid_utf8 ''version''" "valid_utf8 ''source''" "valid_utf8 ''language''" "valid_utf8 ''extracted_at''" "valid_utf8 ''guide''"
    "valid_utf8 ''guidance''" "valid_utf8 ''token_count''" "valid_utf8 ''components''"
    by (rule ascii_utf8, simp add: ascii_def)+
  assume g: "gene_text_ok g"
  then have c: "\<forall>c \<in> set (gn_Components g). json_ok (component_json c) \<and> jdepth (component_json c) \<le> 2"
    using component_json_ok by (auto simp: gene_text_ok_def list_all_iff)
  then have "foldr max (map (jdepth \<circ> component_json) (gn_Components g)) 0 \<le> 2" by (intro foldr_max_le) simp
  with g c show ?thesis
    by (auto simp: gene_json_def str_field_def int_field_def gene_text_ok_def k list_all_iff ascii_utf8 [OF ascii_time])
qed

text \<open>C34. A gene that was saved is loaded as it was: the file written for a valid gene whose strings are
  UTF-8, whose time is in the range of the format and whose numbers fit in 64 bits parses, decodes and
  validates to the same gene.\<close>

theorem gene_save_load:
  assumes "gene_text_ok g" "Save write path g w = (None, w1)"
    and "\<And>d w1. write path d w = (None, w1) \<Longrightarrow> read path w1 = Inr d"
  shows "gene_Load read path w1 = Inr g"
proof -
  have v: "Validate g = None" and wr: "write path (MarshalIndent (gene_json g)) w = (None, w1)"
    using assms(2) by (auto simp: Save_def split: option.splits prod.splits)
  have "json_parse (MarshalIndent (gene_json g)) = Some (gene_json g)"
    using gene_json_ok [OF assms(1)] by (intro MarshalIndent_parses) (simp_all add: maxNestingDepth_def)
  then have "Load_data (MarshalIndent (gene_json g)) = Inr g"
    by (simp add: Load_data_def dec_gene_back [OF assms(1)] v)
  then show ?thesis using assms(3) [OF wr] by (simp add: gene_Load_def)
qed

definition sample_gene :: gene where
  "sample_gene = \<lparr>gn_Version = 1, gn_Source = ''./app'', gn_Language = ''go'',
     gn_ExtractedAt = \<lparr>tm_Year = 2026, tm_Month = 3, tm_Day = 1, tm_Hour = 12, tm_Min = 0, tm_Sec = 7, tm_Nsec = 5000, tm_Offset = 120\<rparr>,
     gn_Guide = ''use <main>'', gn_Guidance = [], gn_TokenCount = 3, gn_Components = spelled\<rparr>"

definition mem_write :: "gostring \<Rightarrow> gostring \<Rightarrow> gostring gomap \<Rightarrow> goerr option \<times> gostring gomap" where
  "mem_write path d w = (None, gm_put path d w)"

definition mem_read :: "gostring \<Rightarrow> gostring gomap \<Rightarrow> goerr + gostring" where
  "mem_read path w = (case gm_get w path of None \<Rightarrow> Inl (new_err ''no such file'') | Some d \<Rightarrow> Inr d)"

theorem gene_save_load_witness:
  "gene_Load mem_read ''genes.json'' (snd (Save mem_write ''genes.json'' sample_gene [])) = Inr sample_gene"
proof -
  have "component_text_ok c" if "c \<in> set spelled" for c
    using that by (auto simp: component_text_ok_def spelled_def mk_comp_def zero_component_def ascii_utf8 ascii_def)
  then have ok: "gene_text_ok sample_gene"
    by (simp add: gene_text_ok_def sample_gene_def list_all_iff ascii_utf8 ascii_def int64_def time_ok_def days_in_def leap_year_def)
  have "Validate sample_gene = None"
    using samples_valid by (simp add: Validate_def sample_gene_def validLanguages_def)
  moreover have "marshal_time_err (gn_ExtractedAt sample_gene) = None" by (simp add: marshal_time_err_def sample_gene_def)
  ultimately have "Save mem_write ''genes.json'' sample_gene [] = (None, snd (Save mem_write ''genes.json'' sample_gene []))"
    by (simp add: Save_def mem_write_def)
  from gene_save_load [OF ok this, of mem_read] show ?thesis
    by (simp add: mem_write_def mem_read_def gm_get_put)
qed

end
