(* ===== verification/Gene_Analyze.thy ===== *)
theory Gene_Analyze
  imports Gene_Model Llm Diagnosis Spec_Doc
begin

text \<open>
  \<open>internal/gene/analyze.go\<close>: the request that asks a model for the guide of an exemplar, and the parser
  that reads the components out of the guide line by line, with its two modes (inside the patterns of a
  component, and after a field whose value stands on the next line).
\<close>

record selectedFile =
  sf_Path :: gostring
  sf_Content :: gostring
  sf_Role :: gostring

record scanResult =
  sr_Language :: gostring
  sr_Files :: "selectedFile list"

definition errEmptyExtraction :: gostring where
  "errEmptyExtraction = ''gene: LLM returned empty extraction''"

definition extractionPrompt :: gostring where
  "extractionPrompt =
     (''You are a senior software architect analyzing an exemplar codebase.'' @ [NL] @ [NL] @
      ''Extract the key patterns, conventions, and architectural decisions that a co'' @
      ''de generator should follow when building new software in this language/stack'' @ ''.'' @
      [NL] @ [NL] @ ''Respond with a concise guide covering these sections:'' @ [NL] @ [NL] @
      ''**PATTERN** '' @ [CHR 0xE2, CHR 0x80, CHR 0x94] @
      '' Primary architectural pattern (e.g. layered MVC, hexagonal, serverless).'' @ [NL] @
      ''**INVARIANTS** '' @ [CHR 0xE2, CHR 0x80, CHR 0x94] @
      '' Hard rules the codebase always follows (naming, error handling, auth, valid'' @
      ''ation).'' @ [NL] @ ''**EDGE CASES** '' @ [CHR 0xE2, CHR 0x80, CHR 0x94] @
      '' How the code handles errors, timeouts, retries, missing data, and concurren'' @ ''cy.'' @
      [NL] @ ''**STACK** '' @ [CHR 0xE2, CHR 0x80, CHR 0x94] @
      '' Language version, framework, key libraries, and why they were chosen.'' @ [NL] @
      ''**STRUCTURE** '' @ [CHR 0xE2, CHR 0x80, CHR 0x94] @
      '' Directory layout and what goes where.'' @ [NL] @ ''**BOOT** '' @
      [CHR 0xE2, CHR 0x80, CHR 0x94] @
      '' How the application starts: entry point, config loading, dependency wiring,'' @
      '' server listen.'' @ [NL] @ ''**BUILD** '' @ [CHR 0xE2, CHR 0x80, CHR 0x94] @
      '' Build tool, Dockerfile strategy, CI commands, and how to run locally.'' @ [NL] @
      ''**COMPONENTS** '' @ [CHR 0xE2, CHR 0x80, CHR 0x94] @
      '' When the codebase has clear module boundaries (distinct service layers, ada'' @
      ''pters, or domain objects), identify each as a named component using the form'' @
      ''at below. Omit this section entirely for simple single-package applications.'' @ [NL] @
      [NL] @ ''**COMPONENT: <name>**'' @ [NL] @
      ''Interface: <what this component exposes to callers>'' @ [NL] @
      ''Patterns: <key implementation patterns>'' @ [NL] @
      ''DependsOn: <comma-separated component names, or none>'' @ [NL] @ [NL] @
      ''Keep the guide under 800 words. Be specific '' @ [CHR 0xE2, CHR 0x80, CHR 0x94] @
      '' cite actual file paths, function names, and patterns from the source files '' @
      ''provided. Do not include generic advice.'')"

section \<open>Lines of the guide\<close>

text \<open>\<open>strings.TrimLeft\<close> and \<open>strings.TrimRight\<close> by a set of bytes.\<close>

definition trim_left_set :: "gostring \<Rightarrow> gostring \<Rightarrow> gostring" where
  "trim_left_set cset s = dropWhile (List.member cset) s"

definition trim_right_set :: "gostring \<Rightarrow> gostring \<Rightarrow> gostring" where
  "trim_right_set cset s = rev (dropWhile (List.member cset) (rev s))"

definition BLANK_TAB :: gostring where "BLANK_TAB = [CHR '' '', CHR 0x09]"

text \<open>\<open>strings.TrimPrefix\<close>, \<open>strings.TrimSuffix\<close>, \<open>strings.Replace(s, old, new, 1)\<close>.\<close>

definition trim_prefix :: "gostring \<Rightarrow> gostring \<Rightarrow> gostring" where
  "trim_prefix p s = (if prefix p s then drop (length p) s else s)"

definition trim_suffix :: "gostring \<Rightarrow> gostring \<Rightarrow> gostring" where
  "trim_suffix p s = (if suffix p s then take (length s - length p) s else s)"

definition replace_first :: "gostring \<Rightarrow> gostring \<Rightarrow> gostring \<Rightarrow> gostring" where
  "replace_first old new s =
     (case str_index s old of None \<Rightarrow> s | Some i \<Rightarrow> take i s @ new @ drop (i + length old) s)"

text \<open>\<open>strings.EqualFold\<close> with an ASCII text.\<close>

definition equal_fold :: "gostring \<Rightarrow> gostring \<Rightarrow> bool" where
  "equal_fold s t \<longleftrightarrow> fold_key s = fold_key t"

definition parseDependsOn :: "gostring \<Rightarrow> gostring list" where
  "parseDependsOn val =
     (if val = [] \<or> equal_fold val ''none'' then []
      else filter (\<lambda>d. d \<noteq> []) (map trim_space (split_on (CHR '','') val)))"

definition parseComponentHeader :: "gostring \<Rightarrow> gostring option" where
  "parseComponentHeader line =
     (let stripped = trim_prefix ''**'' (trim_left_set BLANK_TAB (trim_left_set ''#'' line)) in
      case cut_prefix stripped ''COMPONENT:'' of
        (after, found) \<Rightarrow> if \<not> found then None else Some (trim_space (trim_suffix ''**'' after)))"

definition normalizeFieldLine :: "gostring \<Rightarrow> gostring" where
  "normalizeFieldLine s0 =
     (let s1 = trim_left_set BLANK_TAB s0;
          s2 = (if prefix ''- '' s1 \<or> prefix ''* '' s1 then drop 2 s1 else s1);
          s3 = trim_left_set BLANK_TAB s2
      in if prefix ''**'' s3 then replace_first ''**'' [] (replace_first ''**:'' '':'' (drop 2 s3)) else s3)"

text \<open>The component, the new value of \<open>inPatterns\<close>, the pending field; \<open>None\<close> where no field matches.\<close>

definition applyComponentField :: "component \<Rightarrow> gostring \<Rightarrow> (component \<times> bool \<times> gostring) option" where
  "applyComponentField c line =
     (let normalized = normalizeFieldLine line in
      case cut_prefix normalized ''Interface:'' of (after, found) \<Rightarrow>
        if found then
          (let val = trim_space after in
           Some (c\<lparr>c_Interface := val\<rparr>, False, if val = [] then ''interface'' else []))
        else
          (case cut_prefix normalized ''Patterns:'' of (after, found) \<Rightarrow>
             if found then Some (c\<lparr>c_Patterns := trim_space after\<rparr>, True, [])
             else
               (case cut_prefix normalized ''DependsOn:'' of (after, found) \<Rightarrow>
                  if found then
                    (let val = trim_space after in
                     Some (c\<lparr>c_DependsOn := parseDependsOn val\<rparr>, False, if val = [] then ''dependson'' else []))
                  else None)))"

definition applyPendingLine :: "component \<Rightarrow> gostring \<Rightarrow> gostring \<Rightarrow> component" where
  "applyPendingLine c pendingField trimmed =
     (if prefix ''**'' trimmed then c
      else if pendingField = ''interface'' then c\<lparr>c_Interface := trim_space trimmed\<rparr>
      else if pendingField = ''dependson'' then c\<lparr>c_DependsOn := parseDependsOn (trim_space trimmed)\<rparr>
      else c)"

definition accumulatePattern :: "component \<Rightarrow> gostring \<Rightarrow> component \<times> bool" where
  "accumulatePattern c trimmed =
     (if prefix ''**'' trimmed then (c, False)
      else (c\<lparr>c_Patterns := (if c_Patterns c = [] then trimmed else c_Patterns c @ [NL] @ trimmed)\<rparr>, True))"

section \<open>The parser\<close>

record guideParser =
  gp_components :: "component list"
  gp_current :: "component option"
  gp_inPatterns :: bool
  gp_pendingField :: gostring

definition flush_current :: "guideParser \<Rightarrow> component list" where
  "flush_current p = gp_components p @ (case gp_current p of None \<Rightarrow> [] | Some c \<Rightarrow> [c])"

definition guide_line :: "gostring \<Rightarrow> guideParser \<Rightarrow> guideParser" where
  "guide_line line p =
     (let trimmed = trim_right_set BLANK_TAB line in
      case parseComponentHeader trimmed of
        Some name \<Rightarrow>
          \<lparr>gp_components = flush_current p, gp_current = Some (zero_component\<lparr>c_Name := name\<rparr>),
           gp_inPatterns = False, gp_pendingField = []\<rparr>
      | None \<Rightarrow>
          (case gp_current p of
             None \<Rightarrow> p
           | Some c \<Rightarrow>
               (case applyComponentField c trimmed of
                  Some (c1, nowIn, nowPending) \<Rightarrow>
                    p\<lparr>gp_current := Some c1, gp_inPatterns := nowIn, gp_pendingField := nowPending\<rparr>
                | None \<Rightarrow>
                    if gp_pendingField p \<noteq> [] \<and> trimmed \<noteq> [] then
                      p\<lparr>gp_current := Some (applyPendingLine c (gp_pendingField p) trimmed), gp_pendingField := []\<rparr>
                    else if gp_inPatterns p \<and> trimmed \<noteq> [] then
                      (case accumulatePattern c trimmed of
                         (c1, still) \<Rightarrow> p\<lparr>gp_current := Some c1, gp_inPatterns := still\<rparr>)
                    else p)))"

definition guide_start :: guideParser where
  "guide_start = \<lparr>gp_components = [], gp_current = None, gp_inPatterns = False, gp_pendingField = []\<rparr>"

definition parseComponents :: "gostring \<Rightarrow> component list" where
  "parseComponents guide = flush_current (fold guide_line (split_on NL guide) guide_start)"

section \<open>The request\<close>

definition file_block :: "selectedFile \<Rightarrow> gostring" where
  "file_block f =
     ''=== FILE: '' @ sf_Path f @ '' ('' @ sf_Role f @ '') ==='' @ [NL] @ sf_Content f @ [NL] @ ''=== END FILE ==='' @ [NL, NL]"

definition buildAnalyzeUserMessage :: "gostring \<Rightarrow> scanResult \<Rightarrow> gostring" where
  "buildAnalyzeUserMessage sourceDir scan =
     ''Source directory: '' @ sourceDir @ [NL] @ ''Detected language: '' @ sr_Language scan @ [NL, NL] @
     concat (map file_block (sr_Files scan))"

definition analyze_request :: "gostring \<Rightarrow> gostring \<Rightarrow> scanResult \<Rightarrow> gostring \<Rightarrow> generateRequest" where
  "analyze_request model sourceDir scan guidance =
     \<lparr>gr_SystemPrompt = extractionPrompt @
        (if guidance \<noteq> [] then [NL, NL] @ ''EXTRACTION GUIDANCE (from user):'' @ [NL] @ guidance else []),
      gr_Messages = [user_message (buildAnalyzeUserMessage sourceDir scan)], gr_MaxTokens = 0, gr_Model = model,
      gr_CacheControl = Some ''ephemeral'', gr_Temperature = None\<rparr>"

definition Analyze ::
    "'w generate \<Rightarrow> ('w \<Rightarrow> gotime) \<Rightarrow> gostring \<Rightarrow> gostring \<Rightarrow> scanResult \<Rightarrow> gostring \<Rightarrow> 'w \<Rightarrow> (goerr + gene) \<times> 'w" where
  "Analyze gen now model sourceDir scan guidance w =
     (case gen (analyze_request model sourceDir scan guidance) w of
        (Inl e, w1) \<Rightarrow> (Inl (wrap_err ''gene analyze'' e), w1)
      | (Inr resp, w1) \<Rightarrow>
          let guide = trim_space (gp_Content resp) in
          if guide = [] then (Inl (new_err errEmptyExtraction), w1)
          else
            (Inr \<lparr>gn_Version = 1, gn_Source = sourceDir, gn_Language = sr_Language scan, gn_ExtractedAt = now w1,
               gn_Guide = guide, gn_Guidance = guidance, gn_TokenCount = EstimateTokens guide,
               gn_Components = parseComponents guide\<rparr>, w1))"

end
