(* ===== verification/Go_Bufio.thy ===== *)
theory Go_Bufio
  imports Go_Strings
begin

text \<open>
  \<open>bufio.Scanner\<close> with its default split into lines: the tokens up to the first line that does not fit in
  the buffer, and whether there was one. A carriage return before the line break is dropped, and a text
  that ends with a line break has no empty last line.
\<close>

definition drop_cr :: "gostring \<Rightarrow> gostring" where
  "drop_cr s = (if s \<noteq> [] \<and> last s = CHR 0x0D then butlast s else s)"

definition raw_lines :: "gostring \<Rightarrow> gostring list" where
  "raw_lines s = (let ls = split_on NL s in if last ls = [] then butlast ls else ls)"

definition scan_lines :: "nat \<Rightarrow> gostring \<Rightarrow> gostring list \<times> bool" where
  "scan_lines maxTokenSize s =
     (let ls = raw_lines s; fits = takeWhile (\<lambda>l. length l < maxTokenSize) ls
      in (map drop_cr fits, length fits < length ls))"

definition MaxScanTokenSize :: nat where "MaxScanTokenSize = 64 * 1024"

definition errTooLong :: gostring where "errTooLong = ''bufio.Scanner: token too long''"

end
