(* ===== verification/Gene_Scan.thy ===== *)
theory Gene_Scan
  imports Gene_Analyze Go_Path Go_Bufio
begin

text \<open>
  \<open>internal/gene/scan.go\<close>: the walk over an exemplar that classifies its files, the selection of files by
  their role, the backfill with the largest source files, and the token budget. The walk visits its
  entries in a given order; the sort of the candidates by size is a parameter, since Go's sort does not
  keep the order of equal elements. The file system is a parameter.
\<close>

definition errNoFiles :: gostring where "errNoFiles = ''gene: no recognizable source files found''"
definition errNotDir :: gostring where "errNotDir = ''gene: path is not a directory''"
definition errNegativeMaxFiles :: gostring where "errNegativeMaxFiles = ''gene: MaxFiles must be >= 0''"

definition tokenBudget :: int where "tokenBudget = 20000"
definition readmeMaxLines :: int where "readmeMaxLines = 100"
definition maxFileSize :: int where "maxFileSize = 2 ^ 20"

record fileCandidate =
  fc_path :: gostring
  fc_size :: int

record walkCollector =
  wc_sourceDir :: gostring
  wc_maxFiles :: int
  wc_markers :: "gostring list"
  wc_readme :: gostring
  wc_dockerfile :: gostring
  wc_entrypoints :: "gostring list"
  wc_handlerCandidates :: "fileCandidate list"
  wc_modelCandidates :: "fileCandidate list"
  wc_allCandidates :: "fileCandidate list"

section \<open>Tables\<close>

definition skipDirs :: "gostring list" where
  "skipDirs = [''.git'', ''vendor'', ''node_modules'', ''__pycache__'', ''.venv'', ''venv'', ''dist'', ''build'',
     ''target'', ''.next'']"

definition skipExts :: "gostring list" where
  "skipExts = [''.exe'', ''.bin'', ''.png'', ''.jpg'', ''.gif'', ''.ico'', ''.woff'', ''.woff2'', ''.ttf'']"

definition lockFiles :: "gostring list" where
  "lockFiles = [''go.sum'', ''package-lock.json'', ''yarn.lock'', ''Cargo.lock'', ''poetry.lock'']"

definition markerFiles :: "gostring list" where
  "markerFiles = [''go.mod'', ''package.json'', ''Cargo.toml'', ''pyproject.toml'', ''requirements.txt'', ''pom.xml'',
     ''build.gradle'']"

definition markerLang :: "gostring gomap" where
  "markerLang = [(''go.mod'', ''go''), (''package.json'', ''node''), (''Cargo.toml'', ''rust''),
     (''pyproject.toml'', ''python''), (''requirements.txt'', ''python'')]"

definition markerPriority :: "gostring list" where
  "markerPriority = [''go.mod'', ''Cargo.toml'', ''pyproject.toml'', ''requirements.txt'', ''package.json'']"

definition entrypointPaths :: "gostring list" where
  "entrypointPaths = [''main.go'', ''index.ts'', ''index.js'', ''app.py'', ''src/main.rs'', ''src/main.py'', ''src/index.ts'']"

definition handlerDirs :: "gostring list" where
  "handlerDirs = [''routes'', ''handlers'', ''controllers'', ''routers'', ''api'', ''views'', ''endpoints'']"

definition modelDirs :: "gostring list" where
  "modelDirs = [''models'', ''types'', ''schema'', ''entities'', ''domain'']"

section \<open>Classification\<close>

definition isReadme :: "gostring \<Rightarrow> bool" where
  "isReadme name \<longleftrightarrow> prefix ''README'' (to_upper name)"

definition isDockerfile :: "gostring \<Rightarrow> bool" where
  "isDockerfile rel \<longleftrightarrow> equal_fold (base_path rel) ''dockerfile''"

definition isSkipDir :: "gostring \<Rightarrow> bool" where "isSkipDir name \<longleftrightarrow> List.member skipDirs name"

definition isTestFile :: "gostring \<Rightarrow> bool" where
  "isTestFile name \<longleftrightarrow>
     suffix ''_test.go'' name \<or> suffix ''.test.ts'' name \<or> suffix ''.test.js'' name \<or>
     suffix ''.spec.ts'' name \<or> suffix ''.spec.js'' name \<or>
     (prefix ''test_'' name \<and> suffix ''.py'' name) \<or> suffix ''_test.py'' name"

definition isGeneratedFile :: "gostring \<Rightarrow> bool" where
  "isGeneratedFile name \<longleftrightarrow>
     suffix ''.pb.go'' name \<or> suffix ''.gen.go'' name \<or> str_contains name ''_generated.''"

definition isSkipFile :: "gostring \<Rightarrow> bool" where
  "isSkipFile rel \<longleftrightarrow>
     (let name = base_path rel in
      List.member skipExts (path_ext name) \<or> List.member lockFiles name \<or> isTestFile name \<or> isGeneratedFile name)"

definition isEntrypoint :: "gostring \<Rightarrow> bool" where
  "isEntrypoint rel \<longleftrightarrow>
     List.member entrypointPaths rel \<or>
     (case split_on SEP rel of [a, b, c] \<Rightarrow> a = ''cmd'' \<and> c = ''main.go'' | _ \<Rightarrow> False)"

text \<open>The loop climbs from the file's directory to the top.\<close>

function in_dirs :: "gostring \<Rightarrow> gostring list \<Rightarrow> bool" where
  "in_dirs dir dirs =
     (if dir = ''.'' \<or> dir = [SEP] then False
      else if List.member dirs (base_path dir) then True
      else in_dirs (dir_path dir) dirs)"
  by pat_completeness auto
termination
proof (relation "measure (\<lambda>(dir, _). if dir = ''.'' \<or> dir = [SEP] then 0 else Suc (length dir))", goal_cases)
  case (2 dir dirs)
  then show ?case using dir_path_shorter [of dir] by auto
qed simp

declare in_dirs.simps [simp del]

definition inDirSet :: "gostring \<Rightarrow> gostring list \<Rightarrow> bool" where
  "inDirSet rel dirs = in_dirs (dir_path rel) dirs"

definition detectLanguage :: "gostring list \<Rightarrow> gostring" where
  "detectLanguage markerPaths =
     (let found = map base_path markerPaths in
      case find (\<lambda>m. List.member found m \<and> gm_get markerLang m \<noteq> None) markerPriority of
        None \<Rightarrow> []
      | Some m \<Rightarrow> the (gm_get markerLang m))"

text \<open>A file with its size; the size fails where its information cannot be read.\<close>

definition classify :: "gostring \<Rightarrow> goerr + int \<Rightarrow> walkCollector \<Rightarrow> goerr + walkCollector" where
  "classify rel info wc0 =
     (let name = base_path rel;
          wc1 = (if List.member markerFiles name then wc0\<lparr>wc_markers := wc_markers wc0 @ [rel]\<rparr> else wc0);
          wc2 = (if wc_readme wc1 = [] \<and> isReadme name then wc1\<lparr>wc_readme := rel\<rparr> else wc1);
          wc3 = (if wc_dockerfile wc2 = [] \<and> isDockerfile rel then wc2\<lparr>wc_dockerfile := rel\<rparr> else wc2);
          wc4 = (if isEntrypoint rel then wc3\<lparr>wc_entrypoints := wc_entrypoints wc3 @ [rel]\<rparr> else wc3)
      in case info of
           Inl e \<Rightarrow> Inl (wrap_err (''file info for '' @ rel) e)
         | Inr sz \<Rightarrow>
             let cand = \<lparr>fc_path = rel, fc_size = sz\<rparr>;
                 wc5 = (if inDirSet rel handlerDirs then wc4\<lparr>wc_handlerCandidates := wc_handlerCandidates wc4 @ [cand]\<rparr> else wc4);
                 wc6 = (if inDirSet rel modelDirs then wc5\<lparr>wc_modelCandidates := wc_modelCandidates wc5 @ [cand]\<rparr> else wc5)
             in Inr (if 0 < wc_maxFiles wc6 \<and> \<not> List.member markerFiles name \<and> \<not> isReadme name \<and> \<not> isDockerfile rel
                     then wc6\<lparr>wc_allCandidates := wc_allCandidates wc6 @ [cand]\<rparr> else wc6))"

section \<open>The walk\<close>

text \<open>
  A directory tree as \<open>filepath.WalkDir\<close> visits it: names, the sizes of files, the entries of directories
  in their order; an error where a directory cannot be read.
\<close>

datatype dirTree = DFile gostring "goerr + int" | DDir gostring "goerr option" "dirTree list"

definition child_path :: "gostring \<Rightarrow> gostring \<Rightarrow> gostring" where
  "child_path rel name = (if rel = ''.'' then name else rel @ [SEP] @ name)"

fun walkFn :: "gostring \<Rightarrow> dirTree \<Rightarrow> walkCollector \<Rightarrow> goerr + walkCollector"
  and walk_all :: "gostring \<Rightarrow> dirTree list \<Rightarrow> walkCollector \<Rightarrow> goerr + walkCollector" where
  "walkFn rel (DFile name info) wc = (if isSkipFile rel then Inr wc else classify rel info wc)"
| "walkFn rel (DDir name err entries) wc =
     (if isSkipDir name then Inr wc
      else (case err of Some e \<Rightarrow> Inl e | None \<Rightarrow> walk_all rel entries wc))"
| "walk_all rel [] wc = Inr wc"
| "walk_all rel (t # ts) wc =
     (case walkFn (child_path rel (case t of DFile n _ \<Rightarrow> n | DDir n _ _ \<Rightarrow> n)) t wc of
        Inl e \<Rightarrow> Inl e
      | Inr wc1 \<Rightarrow> walk_all rel ts wc1)"

section \<open>Selection\<close>

text \<open>The file system: size and content of a file.\<close>

record scanFS =
  fs_Stat :: "gostring \<Rightarrow> goerr + int"
  fs_Read :: "gostring \<Rightarrow> goerr + gostring"

definition readFileContent :: "scanFS \<Rightarrow> gostring \<Rightarrow> goerr + gostring" where
  "readFileContent fs path =
     (case fs_Stat fs path of
        Inl e \<Rightarrow> Inl (wrap_err (''gene: stat '' @ path) e)
      | Inr sz \<Rightarrow>
          if maxFileSize < sz then Inr []
          else (case fs_Read fs path of Inl e \<Rightarrow> Inl (wrap_err (''gene: read '' @ path) e) | Inr d \<Rightarrow> Inr d))"

definition readFileTruncated :: "scanFS \<Rightarrow> gostring \<Rightarrow> nat \<Rightarrow> goerr + gostring" where
  "readFileTruncated fs path maxLines =
     (case fs_Read fs path of
        Inl e \<Rightarrow> Inl (wrap_err (''gene: read '' @ path) e)
      | Inr d \<Rightarrow>
          (case scan_lines MaxScanTokenSize d of
             (ls, tooLong) \<Rightarrow>
               if tooLong \<and> length ls \<le> maxLines
               then Inl (wrap_err (''gene: scan '' @ path) (new_err errTooLong))
               else Inr (concat (map (\<lambda>l. l @ [NL]) (take maxLines ls)))))"

fun select_files ::
    "(gostring \<Rightarrow> goerr + gostring) \<Rightarrow> gostring \<Rightarrow> gostring list \<Rightarrow> selectedFile list \<Rightarrow> goerr + selectedFile list" where
  "select_files readf role [] files = Inr files"
| "select_files readf role (rel # rels) files =
     (case readf rel of
        Inl e \<Rightarrow> Inl e
      | Inr content \<Rightarrow> select_files readf role rels (files @ [\<lparr>sf_Path = rel, sf_Content = content, sf_Role = role\<rparr>]))"

fun largest_of :: "fileCandidate \<Rightarrow> fileCandidate list \<Rightarrow> fileCandidate" where
  "largest_of best [] = best"
| "largest_of best (c # cs) = largest_of (if fc_size best < fc_size c then c else best) cs"

definition selectLargest :: "fileCandidate list \<Rightarrow> fileCandidate option" where
  "selectLargest cands = (case cands of [] \<Rightarrow> None | c # cs \<Rightarrow> Some (largest_of c cs))"

definition best_path :: "fileCandidate list \<Rightarrow> gostring list" where
  "best_path cands = (case selectLargest cands of None \<Rightarrow> [] | Some c \<Rightarrow> [fc_path c])"

definition given :: "gostring \<Rightarrow> gostring list" where
  "given s = (if s \<noteq> [] then [s] else [])"

definition and_then :: "goerr + 'a \<Rightarrow> ('a \<Rightarrow> goerr + 'b) \<Rightarrow> goerr + 'b" where
  "and_then x f = (case x of Inl e \<Rightarrow> Inl e | Inr y \<Rightarrow> f y)"

definition collectRoleFiles :: "scanFS \<Rightarrow> walkCollector \<Rightarrow> goerr + selectedFile list" where
  "collectRoleFiles fs wc =
     (let rd = (\<lambda>rel. readFileContent fs (join_path [wc_sourceDir wc, rel]));
          rt = (\<lambda>rel. readFileTruncated fs (join_path [wc_sourceDir wc, rel]) (nat readmeMaxLines))
      in and_then (select_files rd ''marker'' (wc_markers wc) []) (\<lambda>f1.
         and_then (select_files rt ''readme'' (given (wc_readme wc)) f1) (\<lambda>f2.
         and_then (select_files rd ''dockerfile'' (given (wc_dockerfile wc)) f2) (\<lambda>f3.
         and_then (select_files rd ''entrypoint'' (take 1 (wc_entrypoints wc)) f3) (\<lambda>f4.
         and_then (select_files rd ''handler'' (best_path (wc_handlerCandidates wc)) f4) (\<lambda>f5.
         select_files rd ''model'' (best_path (wc_modelCandidates wc)) f5))))))"

fun backfill ::
    "(gostring \<Rightarrow> goerr + gostring) \<Rightarrow> int \<Rightarrow> gostring list \<Rightarrow> fileCandidate list \<Rightarrow> selectedFile list \<Rightarrow> goerr + selectedFile list"
where
  "backfill rd maxFiles selected [] files = Inr files"
| "backfill rd maxFiles selected (c # cs) files =
     (if maxFiles \<le> int (length files) then Inr files
      else if List.member selected (fc_path c) then backfill rd maxFiles selected cs files
      else
        (case rd (fc_path c) of
           Inl e \<Rightarrow> Inl e
         | Inr content \<Rightarrow>
             backfill rd maxFiles selected cs
               (files @ [\<lparr>sf_Path = fc_path c, sf_Content = content, sf_Role = ''source''\<rparr>])))"

definition backfillSourceFiles ::
    "(fileCandidate list \<Rightarrow> fileCandidate list) \<Rightarrow> scanFS \<Rightarrow> walkCollector \<Rightarrow> selectedFile list \<Rightarrow> goerr + selectedFile list" where
  "backfillSourceFiles by_size fs wc files =
     backfill (\<lambda>rel. readFileContent fs (join_path [wc_sourceDir wc, rel])) (wc_maxFiles wc) (map sf_Path files)
       (by_size (wc_allCandidates wc)) files"

section \<open>The budget\<close>

definition totalTokens :: "selectedFile list \<Rightarrow> int" where
  "totalTokens files = sum_list (map (\<lambda>f. EstimateTokens (sf_Content f)) files)"

definition removeRole :: "selectedFile list \<Rightarrow> gostring \<Rightarrow> selectedFile list" where
  "removeRole files role = filter (\<lambda>f. sf_Role f \<noteq> role) files"

text \<open>The last file of role \<open>source\<close> goes first.\<close>

definition drop_last_source :: "selectedFile list \<Rightarrow> selectedFile list option" where
  "drop_last_source files =
     (case find (\<lambda>i. sf_Role (files ! i) = ''source'') (rev [0..<length files]) of
        None \<Rightarrow> None
      | Some idx \<Rightarrow> Some (take idx files @ drop (idx + 1) files))"

lemma drop_last_shorter: "drop_last_source files = Some fs \<Longrightarrow> length fs < length files"
  by (auto simp: drop_last_source_def split: option.splits dest!: find_SomeD)

function trim_sources :: "selectedFile list \<Rightarrow> selectedFile list" where
  "trim_sources files =
     (if totalTokens files \<le> tokenBudget then files
      else (case drop_last_source files of None \<Rightarrow> files | Some fs \<Rightarrow> trim_sources fs))"
  by pat_completeness auto
termination by (relation "measure length") (auto dest: drop_last_shorter)

declare trim_sources.simps [simp del]

fun drop_roles :: "gostring list \<Rightarrow> selectedFile list \<Rightarrow> selectedFile list" where
  "drop_roles [] files = files"
| "drop_roles (role # roles) files =
     (if totalTokens files \<le> tokenBudget then files else drop_roles roles (removeRole files role))"

definition enforceTokenBudget :: "selectedFile list \<Rightarrow> selectedFile list" where
  "enforceTokenBudget files = drop_roles [''model'', ''handler'', ''readme''] (trim_sources files)"

definition buildResult ::
    "(fileCandidate list \<Rightarrow> fileCandidate list) \<Rightarrow> scanFS \<Rightarrow> walkCollector \<Rightarrow> goerr + scanResult" where
  "buildResult by_size fs wc =
     and_then (collectRoleFiles fs wc) (\<lambda>files.
       if files = [] then Inl (new_err errNoFiles)
       else
         and_then
           (if 0 < wc_maxFiles wc \<and> int (length files) < wc_maxFiles wc
            then backfillSourceFiles by_size fs wc files else Inr files)
           (\<lambda>files1. Inr \<lparr>sr_Language = detectLanguage (wc_markers wc), sr_Files = enforceTokenBudget files1\<rparr>))"

definition zero_collector :: "gostring \<Rightarrow> int \<Rightarrow> walkCollector" where
  "zero_collector sourceDir maxFiles =
     \<lparr>wc_sourceDir = sourceDir, wc_maxFiles = maxFiles, wc_markers = [], wc_readme = [], wc_dockerfile = [],
      wc_entrypoints = [], wc_handlerCandidates = [], wc_modelCandidates = [], wc_allCandidates = []\<rparr>"

definition negative_err :: "int \<Rightarrow> goerr" where
  "negative_err n = \<lparr>er_msg = errNegativeMaxFiles @ '' (got '' @ int_str n @ '')'', er_is = [errNegativeMaxFiles]\<rparr>"

definition Scan ::
    "(fileCandidate list \<Rightarrow> fileCandidate list) \<Rightarrow> scanFS \<Rightarrow> (gostring \<Rightarrow> goerr + dirTree) \<Rightarrow> gostring \<Rightarrow> int \<Rightarrow> goerr + scanResult" where
  "Scan by_size fs tree sourceDir maxFiles =
     (if maxFiles < 0 then Inl (negative_err maxFiles)
      else
        (case tree sourceDir of
           Inl e \<Rightarrow> Inl (wrap_err ''gene'' e)
         | Inr (DFile _ _) \<Rightarrow> Inl (new_err errNotDir)
         | Inr t \<Rightarrow>
             (case walkFn ''.'' t (zero_collector sourceDir maxFiles) of
                Inl e \<Rightarrow> Inl (wrap_err ''gene: walk'' e)
              | Inr wc \<Rightarrow> buildResult by_size fs wc)))"

section \<open>Facts\<close>

lemma drop_last_split:
  assumes "drop_last_source files = Some fs"
  obtains a x b where "files = a @ x # b" "fs = a @ b" "sf_Role x = ''source''" "\<forall>y \<in> set b. sf_Role y \<noteq> ''source''"
proof -
  obtain idx where f: "find (\<lambda>i. sf_Role (files ! i) = ''source'') (rev [0..<length files]) = Some idx"
    and fs: "fs = take idx files @ drop (idx + 1) files"
    using assms by (auto simp: drop_last_source_def split: option.splits)
  obtain j where j: "j < length files" "sf_Role (files ! (rev [0..<length files] ! j)) = ''source''"
    "idx = rev [0..<length files] ! j" "\<forall>k < j. sf_Role (files ! (rev [0..<length files] ! k)) \<noteq> ''source''"
    using f by (auto simp: find_Some_iff)
  have at: "rev [0..<length files] ! k = length files - Suc k" if "k < length files" for k
    using that by (simp add: rev_nth)
  have idx: "idx < length files" "idx = length files - Suc j" using j at by auto
  have late: "sf_Role (files ! i) \<noteq> ''source''" if "idx < i" "i < length files" for i
  proof -
    have "length files - Suc i < j" "length files - Suc (length files - Suc i) = i" using that idx j(1) by auto
    then show ?thesis using j(4) at [of "length files - Suc i"] that by auto
  qed
  have "\<forall>y \<in> set (drop (idx + 1) files). sf_Role y \<noteq> ''source''"
  proof
    fix y assume "y \<in> set (drop (idx + 1) files)"
    then obtain i where "i < length (drop (idx + 1) files)" "drop (idx + 1) files ! i = y"
      unfolding in_set_conv_nth by blast
    then show "sf_Role y \<noteq> ''source''" using late [of "idx + 1 + i"] idx(1) by auto
  qed
  moreover have "sf_Role (files ! idx) = ''source''" using j(2,3) by simp
  moreover have "files = take idx files @ files ! idx # drop (idx + 1) files"
    using id_take_nth_drop [OF idx(1)] by simp
  ultimately show ?thesis using that fs by blast
qed

lemma drop_last_None: "drop_last_source files = None \<Longrightarrow> \<forall>f \<in> set files. sf_Role f \<noteq> ''source''"
  by (auto simp: drop_last_source_def find_None_iff in_set_conv_nth split: option.splits)

text \<open>The roles the budget never touches.\<close>

definition essential :: "selectedFile \<Rightarrow> bool" where
  "essential f \<longleftrightarrow> sf_Role f \<notin> {''source'', ''model'', ''handler'', ''readme''}"

definition source_file :: "selectedFile \<Rightarrow> bool" where
  "source_file f \<longleftrightarrow> sf_Role f = ''source''"

lemma subseq_set: "subseq xs ys \<Longrightarrow> set xs \<subseteq> set ys"
  by (induction rule: list_emb.induct) auto

lemma trim_sources_spec:
  "subseq (trim_sources files) files \<and> filter (Not \<circ> source_file) (trim_sources files) = filter (Not \<circ> source_file) files \<and>
   prefix (filter source_file (trim_sources files)) (filter source_file files) \<and>
   (totalTokens (trim_sources files) \<le> tokenBudget \<or> (\<forall>f \<in> set (trim_sources files). \<not> source_file f))"
proof (induction files rule: trim_sources.induct)
  case (1 files)
  show ?case
  proof (cases "totalTokens files \<le> tokenBudget \<or> drop_last_source files = None")
    case True
    then have "trim_sources files = files" by (subst trim_sources.simps) auto
    then show ?thesis using True drop_last_None [of files] by (auto simp: source_file_def)
  next
    case False
    then obtain fs where fs: "drop_last_source files = Some fs" by auto
    then obtain a x b where s: "files = a @ x # b" "fs = a @ b" "sf_Role x = ''source''" "\<forall>y \<in> set b. sf_Role y \<noteq> ''source''"
      by (rule drop_last_split)
    have eq: "trim_sources files = trim_sources fs" using False fs by (subst trim_sources.simps) simp
    have "subseq fs files" using s by (simp add: list_emb_append_mono list_emb_Cons)
    moreover have "filter source_file b = []" using s(4) by (simp add: source_file_def filter_empty_conv)
    ultimately show ?thesis
      using "1.IH" False fs s unfolding eq by (auto simp: source_file_def intro: subseq_order.trans prefix_order.trans)
  qed
qed

lemma drop_roles_spec:
  "subseq (drop_roles roles files) files \<and>
   filter (\<lambda>f. sf_Role f \<notin> set roles) (drop_roles roles files) = filter (\<lambda>f. sf_Role f \<notin> set roles) files \<and>
   (totalTokens (drop_roles roles files) \<le> tokenBudget \<or> (\<forall>f \<in> set (drop_roles roles files). sf_Role f \<notin> set roles))"
proof (induction roles files rule: drop_roles.induct)
  case (2 role roles files)
  show ?case
  proof (cases "totalTokens files \<le> tokenBudget")
    case False
    let ?fs = "removeRole files role" and ?r = "drop_roles roles (removeRole files role)"
    have r: "drop_roles (role # roles) files = ?r" using False by simp
    have sub: "subseq ?fs files" by (simp add: removeRole_def)
    have ih: "subseq ?r ?fs" "filter (\<lambda>f. sf_Role f \<notin> set roles) ?r = filter (\<lambda>f. sf_Role f \<notin> set roles) ?fs"
      "totalTokens ?r \<le> tokenBudget \<or> (\<forall>f \<in> set ?r. sf_Role f \<notin> set roles)"
      using "2.IH" [OF False] by blast+
    have ne: "\<forall>f \<in> set ?r. sf_Role f \<noteq> role" using subseq_set [OF ih(1)] by (auto simp: removeRole_def)
    have "filter (\<lambda>f. sf_Role f \<notin> set (role # roles)) ?r = filter (\<lambda>f. sf_Role f \<notin> set roles) ?r"
      by (rule filter_cong) (use ne in auto)
    also have "\<dots> = filter (\<lambda>f. sf_Role f \<notin> set (role # roles)) files"
      unfolding ih(2) by (simp add: removeRole_def conj_commute)
    finally have "filter (\<lambda>f. sf_Role f \<notin> set (role # roles)) ?r = filter (\<lambda>f. sf_Role f \<notin> set (role # roles)) files" .
    moreover have "subseq ?r files" using ih(1) sub by (rule subseq_order.trans)
    ultimately show ?thesis unfolding r using ih(3) ne by auto
  qed simp
qed simp

text \<open>The token budget of a scan. What it leaves is a part of the files in their order, all of them when
  they fit; markers, Dockerfile and entry point always stay; source files go from the end of the list,
  so the larger ones stay; and if the rest is still over the budget, only files it never touches are
  left.\<close>

theorem enforceTokenBudget_spec:
  "subseq (enforceTokenBudget files) files \<and>
   (enforceTokenBudget files = files \<or> tokenBudget < totalTokens files) \<and>
   filter essential (enforceTokenBudget files) = filter essential files \<and>
   prefix (filter source_file (enforceTokenBudget files)) (filter source_file files) \<and>
   (totalTokens (enforceTokenBudget files) \<le> tokenBudget \<or> list_all essential (enforceTokenBudget files))"
proof -
  let ?t = "trim_sources files" and ?rs = "[''model'', ''handler'', ''readme'']"
  let ?r = "drop_roles ?rs ?t"
  note t = trim_sources_spec [of files] and d = drop_roles_spec [of ?rs ?t]
  have narrow: "filter P ?r = filter P ?t" if "\<And>f. P f \<Longrightarrow> sf_Role f \<notin> set ?rs" for P
  proof -
    have "filter P ?r = filter P (filter (\<lambda>f. sf_Role f \<notin> set ?rs) ?r)" using that by (auto intro!: filter_cong)
    also have "\<dots> = filter P (filter (\<lambda>f. sf_Role f \<notin> set ?rs) ?t)" using d by simp
    also have "\<dots> = filter P ?t" using that by (auto intro!: filter_cong)
    finally show ?thesis .
  qed
  have ess: "filter essential ?t = filter essential files"
  proof -
    have "filter essential xs = filter essential (filter (Not \<circ> source_file) xs)" for xs
      by (auto intro!: filter_cong simp: essential_def source_file_def)
    then show ?thesis using t by metis
  qed
  have over: "list_all essential ?r" if "\<not> totalTokens ?r \<le> tokenBudget"
  proof -
    have "\<forall>f \<in> set ?r. sf_Role f \<notin> set ?rs" using d that by blast
    moreover have "\<forall>f \<in> set ?t. \<not> source_file f"
    proof (rule ccontr)
      assume "\<not> (\<forall>f \<in> set ?t. \<not> source_file f)"
      then have "totalTokens ?t \<le> tokenBudget" using t by blast
      then have "?r = ?t" by simp
      then show False using that \<open>totalTokens ?t \<le> tokenBudget\<close> by simp
    qed
    moreover have "set ?r \<subseteq> set ?t" by (rule subseq_set) (use d in blast)
    ultimately show ?thesis unfolding list_all_iff essential_def source_file_def by auto
  qed
  have same: "?r = files" if "totalTokens files \<le> tokenBudget"
    using that by (simp add: trim_sources.simps)
  have sub: "subseq ?r files" using d t by (blast intro: subseq_order.trans)
  have e: "filter essential ?r = filter essential files" using narrow [of essential] ess by (simp add: essential_def)
  have "filter source_file ?r = filter source_file ?t" by (rule narrow) (simp add: source_file_def)
  then have p: "prefix (filter source_file ?r) (filter source_file files)" using t by metis
  show ?thesis
    unfolding enforceTokenBudget_def
    by (intro conjI) (use sub e p over same in \<open>blast | linarith\<close>)+
qed

text \<open>The walk skips its own top: an exemplar in a directory called \<open>build\<close> has no files.\<close>

lemma skipped_top:
  assumes "isSkipDir name" "0 \<le> maxFiles"
  shows "Scan by_size fs (\<lambda>_. Inr (DDir name err ts)) dir maxFiles = Inl (new_err errNoFiles)"
  using assms by (simp add: Scan_def zero_collector_def buildResult_def collectRoleFiles_def given_def best_path_def
      selectLargest_def and_then_def Let_def)

text \<open>A README that alone exceeds the budget is dropped, and the scan succeeds with no file at all.\<close>

lemma empty_scan:
  assumes "tokenBudget < EstimateTokens c"
  shows "enforceTokenBudget [\<lparr>sf_Path = p, sf_Content = c, sf_Role = ''readme''\<rparr>] = []"
  using assms by (simp add: enforceTokenBudget_def trim_sources.simps drop_last_source_def totalTokens_def removeRole_def)

end
