(* ===== verification/Llm_Providers.thy ===== *)
theory Llm_Providers
  imports Attractor_Run Scenario_Judge
begin

text \<open>
  The model clients (\<open>internal/llm/anthropic.go\<close>, \<open>openai.go\<close>, \<open>metrics.go\<close>): the requests they build, the
  retries of a broken stream, the cost accounting, and the reading of a judge's answer. The two SDKs are
  third-party code and enter as the fields of a record and as functions: what a stream delivers, how an
  event is accumulated, what a completion call returns. The clients' log output is left out.
\<close>

section \<open>The Anthropic SDK as the client uses it\<close>

text \<open>The three views the client takes of a content block: its type, \<open>AsText\<close> and \<open>AsToolUse\<close>.\<close>

record contentBlock =
  cb_Type :: gostring
  cb_Text :: gostring
  cb_ToolUse :: toolCall

record sdkUsage =
  su_InputTokens :: int
  su_CacheCreationInputTokens :: int
  su_CacheReadInputTokens :: int
  su_OutputTokens :: int

record sdkMessage =
  sm_Content :: "contentBlock list"
  sm_StopReason :: gostring
  sm_Usage :: sdkUsage

definition zero_sdkMessage :: sdkMessage where
  "zero_sdkMessage =
     \<lparr>sm_Content = [], sm_StopReason = [],
      sm_Usage = \<lparr>su_InputTokens = 0, su_CacheCreationInputTokens = 0, su_CacheReadInputTokens = 0,
        su_OutputTokens = 0\<rparr>\<rparr>"

text \<open>Blocks of a request; \<open>PEmpty\<close> is the zero value of the union.\<close>

datatype paramBlock =
    PEmpty
  | PText gostring
  | PToolUse gostring gostring gostring
  | PToolResult gostring gostring bool

record textBlockParam =
  tb_Text :: gostring
  tb_CacheTTL :: "gostring option"

record messageParam =
  pm_Role :: gostring
  pm_Content :: "paramBlock list"

record schemaParam =
  is_Properties :: "json option"
  is_Required :: "gostring list"
  is_ExtraFields :: "json gomap"

record toolParam =
  tp_Name :: gostring
  tp_Description :: gostring
  tp_InputSchema :: schemaParam

record messageNewParams =
  np_Model :: gostring
  np_MaxTokens :: int
  np_Messages :: "messageParam list"
  np_System :: "textBlockParam list"
  np_Tools :: "toolParam list"
  np_Temperature :: "float64 option"

text \<open>A stream of events: it ends after finitely many, with the error of \<open>stream.Err\<close> if it broke off.\<close>

datatype ('e, 'w) eventStream =
    SEnd "goerr option" 'w
  | SEvent 'e "('e, 'w) eventStream" 'w

text \<open>\<open>sd_After\<close> is the wait for a timer or for the end of the context, whichever comes first;
  \<open>sd_Order\<close> is the order in which the parallel tool calls of a turn take effect.\<close>

record ('e, 'w) sdk =
  sd_NewStreaming :: "messageNewParams \<Rightarrow> 'w \<Rightarrow> ('e, 'w) eventStream"
  sd_Accumulate :: "sdkMessage \<Rightarrow> 'e \<Rightarrow> goerr + sdkMessage"
  sd_Close :: "'w \<Rightarrow> goerr option \<times> 'w"
  sd_New :: "messageNewParams \<Rightarrow> 'w \<Rightarrow> (goerr + sdkMessage) \<times> 'w"
  sd_After :: "int \<Rightarrow> 'w \<Rightarrow> goerr option \<times> 'w"
  sd_Order :: "nat \<Rightarrow> 'w \<Rightarrow> nat list"

section \<open>Usage\<close>

record usageMetrics =
  um_model :: gostring
  um_inputTokens :: int
  um_cacheCreationTokens :: int
  um_cacheReadTokens :: int
  um_outputTokens :: int
  um_cost :: float64

definition anthropic_logUsage :: "gostring \<Rightarrow> sdkUsage \<Rightarrow> usageMetrics" where
  "anthropic_logUsage model u =
     \<lparr>um_model = model, um_inputTokens = su_InputTokens u,
      um_cacheCreationTokens = su_CacheCreationInputTokens u, um_cacheReadTokens = su_CacheReadInputTokens u,
      um_outputTokens = su_OutputTokens u,
      um_cost = fst (CalculateCost model (su_InputTokens u) (su_CacheCreationInputTokens u)
        (su_CacheReadInputTokens u) (su_OutputTokens u))\<rparr>"

section \<open>Streaming with retries\<close>

text \<open>A value of an event stream after the first error of the accumulation is not read on.\<close>

primrec stream_events :: "('e, 'w) sdk \<Rightarrow> ('e, 'w) eventStream \<Rightarrow> sdkMessage \<Rightarrow> (goerr + sdkMessage) \<times> 'w" where
  "stream_events sdk (SEnd e w) msg = (case e of Some err \<Rightarrow> (Inl err, w) | None \<Rightarrow> (Inr msg, w))"
| "stream_events sdk (SEvent ev rest w) msg =
     (case sd_Accumulate sdk msg ev of
        Inl e \<Rightarrow> (Inl (wrap_err ''accumulate'' e), w)
      | Inr msg' \<Rightarrow> stream_events sdk rest msg')"

definition doStream :: "('e, 'w) sdk \<Rightarrow> messageNewParams \<Rightarrow> 'w \<Rightarrow> (goerr + sdkMessage) \<times> 'w" where
  "doStream sdk params w =
     (case stream_events sdk (sd_NewStreaming sdk params w) zero_sdkMessage of
        (r, w1) \<Rightarrow>
          (case sd_Close sdk w1 of
             (Some ce, w2) \<Rightarrow>
               (case r of Inl e \<Rightarrow> (Inl e, w2) | Inr _ \<Rightarrow> (Inl (wrap_err ''close stream'' ce), w2))
           | (None, w2) \<Rightarrow> (r, w2)))"

text \<open>The sentinels of the Go library.\<close>

definition io_EOF :: gostring where "io_EOF = ''EOF''"
definition io_ErrUnexpectedEOF :: gostring where "io_ErrUnexpectedEOF = ''unexpected EOF''"
definition ECONNRESET :: gostring where "ECONNRESET = ''connection reset by peer''"
definition EPIPE :: gostring where "EPIPE = ''broken pipe''"

definition isTransientNetError :: "goerr \<Rightarrow> bool" where
  "isTransientNetError e \<longleftrightarrow>
     (if errors_Is e io_EOF \<or> errors_Is e io_ErrUnexpectedEOF \<or> errors_Is e ECONNRESET \<or> errors_Is e EPIPE
      then True
      else str_contains (er_msg e) ''connection reset by peer'' \<or> str_contains (er_msg e) ''broken pipe'' \<or>
        str_contains (er_msg e) ''unexpected EOF'')"

definition streamRetries :: nat where "streamRetries = 2"

text \<open>The wait before an attempt: half a second, doubled each time, in nanoseconds.\<close>

definition retry_delay :: "nat \<Rightarrow> int" where
  "retry_delay attempt = 2 ^ (attempt - 1) * 500000000"

text \<open>The loop over the attempts, with the number of attempts that are left.\<close>

primrec stream_attempts ::
    "nat \<Rightarrow> ('e, 'w) sdk \<Rightarrow> messageNewParams \<Rightarrow> nat \<Rightarrow> goerr option \<Rightarrow> 'w \<Rightarrow> (goerr + sdkMessage) \<times> 'w" where
  "stream_attempts 0 sdk params attempt lastErr w =
     ((case lastErr of None \<Rightarrow> Inr zero_sdkMessage | Some e \<Rightarrow> Inl e), w)"
| "stream_attempts (Suc n) sdk params attempt lastErr w =
     (case (if 0 < attempt then sd_After sdk (retry_delay attempt) w else (None, w)) of
        (Some ce, w1) \<Rightarrow> (Inl ce, w1)
      | (None, w1) \<Rightarrow>
          (case doStream sdk params w1 of
             (Inr msg, w2) \<Rightarrow> (Inr msg, w2)
           | (Inl e, w2) \<Rightarrow>
               if \<not> isTransientNetError e then (Inl e, w2)
               else stream_attempts n sdk params (attempt + 1) (Some e) w2))"

definition streamMessage :: "('e, 'w) sdk \<Rightarrow> messageNewParams \<Rightarrow> 'w \<Rightarrow> (goerr + sdkMessage) \<times> 'w" where
  "streamMessage sdk params w = stream_attempts (streamRetries + 1) sdk params 0 None w"

section \<open>Generation\<close>

definition buildSystemBlocks :: "gostring \<Rightarrow> gostring option \<Rightarrow> textBlockParam list" where
  "buildSystemBlocks systemPrompt cc =
     (if systemPrompt = [] then []
      else [\<lparr>tb_Text = systemPrompt, tb_CacheTTL = (case cc of None \<Rightarrow> None | Some _ \<Rightarrow> Some ''5m'')\<rparr>])"

definition anthropic_message :: "message \<Rightarrow> messageParam" where
  "anthropic_message msg =
     \<lparr>pm_Role = (if m_Role msg = ''assistant'' then ''assistant'' else ''user''),
      pm_Content = [PText (m_Content msg)]\<rparr>"

text \<open>The text of the first block; no block, no text.\<close>

definition first_text :: "contentBlock list \<Rightarrow> gostring" where
  "first_text blocks = (case blocks of [] \<Rightarrow> [] | b # _ \<Rightarrow> cb_Text b)"

definition anthropic_params :: "generateRequest \<Rightarrow> messageNewParams" where
  "anthropic_params req =
     \<lparr>np_Model = gr_Model req,
      np_MaxTokens = (if gr_MaxTokens req = 0 then MaxOutputTokens (gr_Model req) else gr_MaxTokens req),
      np_Messages = map anthropic_message (gr_Messages req),
      np_System = buildSystemBlocks (gr_SystemPrompt req) (gr_CacheControl req),
      np_Tools = [], np_Temperature = gr_Temperature req\<rparr>"

definition anthropic_Generate :: "('e, 'w) sdk \<Rightarrow> 'w generate" where
  "anthropic_Generate sdk req w =
     (case streamMessage sdk (anthropic_params req) w of
        (Inl e, w1) \<Rightarrow> (Inl (wrap_err ''anthropic generate'' e), w1)
      | (Inr resp, w1) \<Rightarrow>
          let m = anthropic_logUsage (gr_Model req) (sm_Usage resp)
          in (Inr \<lparr>gp_Content = first_text (sm_Content resp),
                gp_InputTokens = um_inputTokens m + um_cacheCreationTokens m + um_cacheReadTokens m,
                gp_OutputTokens = um_outputTokens m, gp_CacheHit = (0 < um_cacheReadTokens m),
                gp_CostUSD = um_cost m, gp_FinishReason = sm_StopReason resp\<rparr>, w1))"

section \<open>Judging\<close>

text \<open>\<open>json.Unmarshal\<close> into \<open>judgeResult\<close>.\<close>

definition dec_diagnostic :: "json \<Rightarrow> judgeDiagnostic option" where
  "dec_diagnostic v =
     (case (case v of JObj ms \<Rightarrow> Some ms | JNull \<Rightarrow> Some [] | _ \<Rightarrow> None) of
        None \<Rightarrow> None
      | Some ms \<Rightarrow>
          let vs = field_values [''category'', ''detail''] ms in
          (case (dec_field dec_string (vs ''category'') [], dec_field dec_string (vs ''detail'') []) of
             (Some c, Some d) \<Rightarrow> Some \<lparr>jd_Category = c, jd_Detail = d\<rparr>
           | _ \<Rightarrow> None))"

definition unmarshal_judge :: "gostring \<Rightarrow> (int \<times> gostring \<times> gostring list \<times> judgeDiagnostic list) option" where
  "unmarshal_judge data =
     (case dec_object data of
        None \<Rightarrow> None
      | Some ms \<Rightarrow>
          let vs = field_values [''score'', ''reasoning'', ''failures'', ''diagnostics''] ms in
          (case ((dec_field dec_int (vs ''score'') 0, dec_field dec_string (vs ''reasoning'') []),
                 (dec_field (\<lambda>v _. dec_strings v) (vs ''failures'') [],
                  dec_field (\<lambda>v _. dec_list dec_diagnostic v) (vs ''diagnostics'') [])) of
             ((Some sc, Some rs), (Some fs, Some ds)) \<Rightarrow> Some (sc, rs, fs, ds)
           | _ \<Rightarrow> None))"

text \<open>Both clients read the answer alike: what is not the expected JSON scores zero, with the answer as the
  reasoning.\<close>

definition judge_response :: "gostring \<Rightarrow> float64 \<Rightarrow> judgeResponse" where
  "judge_response content cost =
     (case unmarshal_judge (ExtractJSON content) of
        None \<Rightarrow> \<lparr>jp_Score = 0, jp_Reasoning = content, jp_Failures = [], jp_Diagnostics = [], jp_CostUSD = cost\<rparr>
      | Some (sc, rs, fs, ds) \<Rightarrow>
          \<lparr>jp_Score = sc, jp_Reasoning = rs, jp_Failures = fs, jp_Diagnostics = ds, jp_CostUSD = cost\<rparr>)"

definition defaultJudgeMaxTokens :: int where "defaultJudgeMaxTokens = 4096"

definition judge_params :: "judgeRequest \<Rightarrow> messageNewParams" where
  "judge_params req =
     \<lparr>np_Model = jr_Model req, np_MaxTokens = defaultJudgeMaxTokens,
      np_Messages = [\<lparr>pm_Role = ''user'', pm_Content = [PText (jr_UserPrompt req)]\<rparr>],
      np_System = buildSystemBlocks (jr_SystemPrompt req) (jr_CacheControl req),
      np_Tools = [], np_Temperature = None\<rparr>"

definition anthropic_Judge :: "('e, 'w) sdk \<Rightarrow> 'w judge" where
  "anthropic_Judge sdk req w =
     (case sd_New sdk (judge_params req) w of
        (Inl e, w1) \<Rightarrow> (Inl (wrap_err ''anthropic judge'' e), w1)
      | (Inr resp, w1) \<Rightarrow>
          (Inr (judge_response (first_text (sm_Content resp))
             (um_cost (anthropic_logUsage (jr_Model req) (sm_Usage resp)))), w1))"

section \<open>The OpenAI client\<close>

datatype chatMessage = DeveloperMessage gostring | UserMessage gostring | AssistantMessage gostring

record chatParams =
  cp_Model :: gostring
  cp_Messages :: "chatMessage list"
  cp_MaxCompletionTokens :: int
  cp_Temperature :: "float64 option"

record chatUsage =
  cu_PromptTokens :: int
  cu_CompletionTokens :: int
  cu_CachedTokens :: int

record chatCompletion =
  cc_Choices :: "(gostring \<times> gostring) list"
  cc_Usage :: chatUsage

type_synonym 'w completions = "chatParams \<Rightarrow> 'w \<Rightarrow> (goerr + chatCompletion) \<times> 'w"

definition errNoChoices :: gostring where "errNoChoices = ''API returned no choices''"

definition openai_logUsage :: "bool \<Rightarrow> gostring \<Rightarrow> chatUsage \<Rightarrow> usageMetrics" where
  "openai_logUsage zeroCost model u =
     \<lparr>um_model = model, um_inputTokens = cu_PromptTokens u, um_cacheCreationTokens = 0,
      um_cacheReadTokens = cu_CachedTokens u, um_outputTokens = cu_CompletionTokens u,
      um_cost = (if zeroCost then fzero
        else fst (CalculateCost model (cu_PromptTokens u - cu_CachedTokens u) 0 (cu_CachedTokens u)
          (cu_CompletionTokens u)))\<rparr>"

definition openai_message :: "message \<Rightarrow> chatMessage" where
  "openai_message msg =
     (if m_Role msg = ''assistant'' then AssistantMessage (m_Content msg) else UserMessage (m_Content msg))"

definition developer_message :: "gostring \<Rightarrow> chatMessage list" where
  "developer_message prompt = (if prompt = [] then [] else [DeveloperMessage prompt])"

definition openai_Generate :: "'w completions \<Rightarrow> bool \<Rightarrow> 'w generate" where
  "openai_Generate api zeroCost req w =
     (case api
         \<lparr>cp_Model = gr_Model req,
          cp_Messages = developer_message (gr_SystemPrompt req) @ map openai_message (gr_Messages req),
          cp_MaxCompletionTokens = (if gr_MaxTokens req = 0 then MaxOutputTokens (gr_Model req) else gr_MaxTokens req),
          cp_Temperature = gr_Temperature req\<rparr> w of
        (Inl e, w1) \<Rightarrow> (Inl (wrap_err ''openai generate'' e), w1)
      | (Inr resp, w1) \<Rightarrow>
          (case cc_Choices resp of
             [] \<Rightarrow> (Inl (wrap_err ''openai generate'' (new_err errNoChoices)), w1)
           | (content, reason) # _ \<Rightarrow>
               let m = openai_logUsage zeroCost (gr_Model req) (cc_Usage resp)
               in (Inr \<lparr>gp_Content = content, gp_InputTokens = um_inputTokens m,
                     gp_OutputTokens = um_outputTokens m, gp_CacheHit = (0 < um_cacheReadTokens m),
                     gp_CostUSD = um_cost m,
                     gp_FinishReason = (if reason = ''length'' \<or> reason = ''max_tokens'' then ''max_tokens'' else reason)\<rparr>,
                   w1)))"

definition openai_Judge :: "'w completions \<Rightarrow> bool \<Rightarrow> 'w judge" where
  "openai_Judge api zeroCost req w =
     (case api
         \<lparr>cp_Model = jr_Model req,
          cp_Messages = developer_message (jr_SystemPrompt req) @ [UserMessage (jr_UserPrompt req)],
          cp_MaxCompletionTokens = defaultJudgeMaxTokens, cp_Temperature = None\<rparr> w of
        (Inl e, w1) \<Rightarrow> (Inl (wrap_err ''openai judge'' e), w1)
      | (Inr resp, w1) \<Rightarrow>
          (case cc_Choices resp of
             [] \<Rightarrow> (Inl (wrap_err ''openai judge'' (new_err errNoChoices)), w1)
           | (content, _) # _ \<Rightarrow>
               (Inr (judge_response content (um_cost (openai_logUsage zeroCost (jr_Model req) (cc_Usage resp)))), w1)))"

section \<open>Models on offer\<close>

record availableModel =
  am_ID :: gostring
  am_DisplayName :: gostring
  am_CreatedAt :: int

text \<open>The pager of an SDK delivers its items and the error it ended with; times are in nanoseconds.\<close>

definition anthropic_ListModels :: "availableModel list \<times> goerr option \<Rightarrow> goerr + availableModel list" where
  "anthropic_ListModels pager =
     (case snd pager of Some e \<Rightarrow> Inl (wrap_err ''anthropic list models'' e)
      | None \<Rightarrow> Inr (map (\<lambda>m. \<lparr>am_ID = am_ID m, am_DisplayName = am_DisplayName m, am_CreatedAt = am_CreatedAt m\<rparr>)
          (fst pager)))"

definition openai_ListModels :: "(gostring \<times> int) list \<times> goerr option \<Rightarrow> goerr + availableModel list" where
  "openai_ListModels pager =
     (case snd pager of Some e \<Rightarrow> Inl (wrap_err ''openai list models'' e)
      | None \<Rightarrow> Inr (map (\<lambda>(i, created). \<lparr>am_ID = i, am_DisplayName = i, am_CreatedAt = created * 1000000000\<rparr>)
          (fst pager)))"

end
