(* ===== verification/Llm_Agent.thy ===== *)
theory Llm_Agent
  imports Llm_Providers
begin

text \<open>
  The agent loop of the Anthropic client (\<open>internal/llm/anthropic.go\<close>: \<open>AgentLoop\<close>,
  \<open>agentProcessToolUse\<close>). A run is a tree: it ends with a response and an error, or calls a tool and goes on
  with the answer. The tool calls of one turn run in parallel in the code; here each call takes effect as a
  whole, in an order the SDK record gives. How far that is from the truth for the file tools is the
  subject of \<open>Tool_Race\<close>.
\<close>

section \<open>Tools and messages\<close>

definition toolInputSchema :: "toolDef \<Rightarrow> goerr + schemaParam" where
  "toolInputSchema td =
     (case (case json_parse (td_InputSchema td) of
              Some (JObj ms) \<Rightarrow> if any_ok (JObj ms) then Some ms else None
            | Some JNull \<Rightarrow> Some []
            | _ \<Rightarrow> None) of
        None \<Rightarrow> Inl \<lparr>er_msg = ''anthropic agent loop: unmarshal tool schema '' @ go_quote (td_Name td), er_is = []\<rparr>
      | Some ms \<Rightarrow>
          let schemaMap = fold (\<lambda>(k, v) m. gm_put k v m) ms [] in
          Inr \<lparr>is_Properties = gm_get schemaMap ''properties'',
            is_Required = (case gm_get schemaMap ''required'' of
                Some (JArr vs) \<Rightarrow> List.map_filter (\<lambda>v. case v of JStr t \<Rightarrow> Some t | _ \<Rightarrow> None) vs
              | _ \<Rightarrow> []),
            is_ExtraFields = filter (\<lambda>(k, v). k \<notin> {''type'', ''properties'', ''required''}) schemaMap\<rparr>)"

primrec buildAgentToolParams :: "toolDef list \<Rightarrow> goerr + toolParam list" where
  "buildAgentToolParams [] = Inr []"
| "buildAgentToolParams (td # tds) =
     (case toolInputSchema td of
        Inl e \<Rightarrow> Inl e
      | Inr schema \<Rightarrow>
          (case buildAgentToolParams tds of
             Inl e \<Rightarrow> Inl e
           | Inr ps \<Rightarrow>
               Inr (\<lparr>tp_Name = td_Name td, tp_Description = td_Description td, tp_InputSchema = schema\<rparr> # ps)))"

definition buildAgentMessages :: "message list \<Rightarrow> messageParam list" where
  "buildAgentMessages msgs = map anthropic_message msgs"

definition agentExtractText :: "contentBlock list \<Rightarrow> gostring" where
  "agentExtractText content =
     (case find (\<lambda>b. cb_Type b = ''text'') content of None \<Rightarrow> [] | Some b \<Rightarrow> cb_Text b)"

section \<open>The tool calls of a turn\<close>

datatype 'w agentTree =
    AgDone "agentResponse \<times> goerr option" 'w
  | AgCall toolCall 'w "goerr + gostring \<Rightarrow> 'w \<Rightarrow> 'w agentTree"

definition echo_block :: "contentBlock \<Rightarrow> paramBlock option" where
  "echo_block b =
     (if cb_Type b = ''text'' then Some (PText (cb_Text b))
      else if cb_Type b = ''tool_use''
      then Some (PToolUse (tc_ID (cb_ToolUse b)) (tc_Input (cb_ToolUse b)) (tc_Name (cb_ToolUse b)))
      else None)"

definition echo_blocks :: "contentBlock list \<Rightarrow> paramBlock list" where
  "echo_blocks content = List.map_filter echo_block content"

definition tool_works :: "contentBlock list \<Rightarrow> toolCall list" where
  "tool_works content = map cb_ToolUse (filter (\<lambda>b. cb_Type b = ''tool_use'') content)"

definition tool_err :: "toolCall \<Rightarrow> goerr \<Rightarrow> goerr" where
  "tool_err c e = wrap_err (''anthropic agent loop: tool '' @ go_quote (tc_Name c)) e"

text \<open>All calls are made, also after one failed; the error group keeps the first error.\<close>

primrec run_works ::
    "nat list \<Rightarrow> toolCall list \<Rightarrow> paramBlock list \<Rightarrow> goerr option \<Rightarrow> 'w \<Rightarrow>
     (goerr option \<Rightarrow> paramBlock list \<Rightarrow> 'w \<Rightarrow> 'w agentTree) \<Rightarrow> 'w agentTree" where
  "run_works [] works results err w k = k err results w"
| "run_works (i # is) works results err w k =
     AgCall (works ! i) w (\<lambda>r w1. case r of
         Inl e \<Rightarrow> run_works is works results (case err of None \<Rightarrow> Some (tool_err (works ! i) e) | Some e0 \<Rightarrow> Some e0) w1 k
       | Inr out \<Rightarrow> run_works is works (results[i := PToolResult (tc_ID (works ! i)) out False]) err w1 k)"

definition agentProcessToolUse ::
    "('e, 'w) sdk \<Rightarrow> contentBlock list \<Rightarrow> 'w \<Rightarrow>
     (goerr + paramBlock list \<times> paramBlock list \<Rightarrow> 'w \<Rightarrow> 'w agentTree) \<Rightarrow> 'w agentTree" where
  "agentProcessToolUse sdk content w k =
     (let echo = echo_blocks content; works = tool_works content in
      if works = [] then k (Inr (echo, [])) w
      else run_works (sd_Order sdk (length works) w) works (replicate (length works) PEmpty) None w
        (\<lambda>err results w1. case err of Some e \<Rightarrow> k (Inl e) w1 | None \<Rightarrow> k (Inr (echo, results)) w1))"

section \<open>The loop\<close>

record agentTotals =
  at_Input :: int
  at_Output :: int
  at_Cost :: float64

definition partial_response :: "gostring \<Rightarrow> int \<Rightarrow> agentTotals \<Rightarrow> agentResponse" where
  "partial_response content turns t =
     \<lparr>ap_Content = content, ap_Turns = turns, ap_InputTokens = at_Input t, ap_OutputTokens = at_Output t,
      ap_TotalCost = at_Cost t\<rparr>"

definition add_turn :: "usageMetrics \<Rightarrow> agentTotals \<Rightarrow> agentTotals" where
  "add_turn m t =
     \<lparr>at_Input = at_Input t + um_inputTokens m + um_cacheCreationTokens m + um_cacheReadTokens m,
      at_Output = at_Output t + um_outputTokens m, at_Cost = fadd (at_Cost t) (um_cost m)\<rparr>"

definition agent_params :: "agentRequest \<Rightarrow> toolParam list \<Rightarrow> messageParam list \<Rightarrow> messageNewParams" where
  "agent_params req tools messages =
     \<lparr>np_Model = ar_Model req,
      np_MaxTokens = (if ar_MaxTokens req = 0 then MaxOutputTokens (ar_Model req) else ar_MaxTokens req),
      np_Messages = messages, np_System = buildSystemBlocks (ar_SystemPrompt req) (ar_CacheControl req),
      np_Tools = tools, np_Temperature = None\<rparr>"

definition ErrMaxTurnsExceeded :: gostring where
  "ErrMaxTurnsExceeded = ''agent loop exceeded max turns''"

primrec agent_turns ::
    "nat \<Rightarrow> ('e, 'w) sdk \<Rightarrow> agentRequest \<Rightarrow> toolParam list \<Rightarrow> int \<Rightarrow> messageParam list \<Rightarrow> agentTotals \<Rightarrow> 'w \<Rightarrow> 'w agentTree" where
  "agent_turns 0 sdk req tools turn messages t w =
     AgDone (partial_response [] turn t, Some (new_err ErrMaxTurnsExceeded)) w"
| "agent_turns (Suc n) sdk req tools turn messages t w =
     (case streamMessage sdk (agent_params req tools messages) w of
        (Inl e, w1) \<Rightarrow> AgDone (partial_response [] turn t, Some (wrap_err ''anthropic agent loop'' e)) w1
      | (Inr resp, w1) \<Rightarrow>
          let t1 = add_turn (anthropic_logUsage (ar_Model req) (sm_Usage resp)) t; currentTurn = turn + 1 in
          if sm_StopReason resp = ''tool_use''
          then agentProcessToolUse sdk (sm_Content resp) w1
            (\<lambda>r w2. case r of
                Inl e \<Rightarrow> AgDone (partial_response [] currentTurn t1, Some e) w2
              | Inr (echo, results) \<Rightarrow>
                  agent_turns n sdk req tools currentTurn
                    (messages @ [\<lparr>pm_Role = ''assistant'', pm_Content = echo\<rparr>, \<lparr>pm_Role = ''user'', pm_Content = results\<rparr>])
                    t1 w2)
          else AgDone (partial_response (agentExtractText (sm_Content resp)) currentTurn t1, None) w1)"

definition defaultMaxTurns :: int where "defaultMaxTurns = 10"

definition max_turns :: "agentRequest \<Rightarrow> int" where
  "max_turns req = (if ar_MaxTurns req = 0 then defaultMaxTurns else ar_MaxTurns req)"

definition no_response :: agentResponse where
  "no_response = \<lparr>ap_Content = [], ap_Turns = 0, ap_InputTokens = 0, ap_OutputTokens = 0, ap_TotalCost = fzero\<rparr>"

text \<open>A negative limit makes no turn and is reported as it is.\<close>

definition AgentLoop :: "('e, 'w) sdk \<Rightarrow> agentRequest \<Rightarrow> 'w \<Rightarrow> 'w agentTree" where
  "AgentLoop sdk req w =
     (case buildAgentToolParams (ar_Tools req) of
        Inl e \<Rightarrow> AgDone (no_response, Some e) w
      | Inr tools \<Rightarrow>
          let maxTurns = max_turns req; zero = \<lparr>at_Input = 0, at_Output = 0, at_Cost = fzero\<rparr> in
          if maxTurns < 0 then AgDone (partial_response [] maxTurns zero, Some (new_err ErrMaxTurnsExceeded)) w
          else agent_turns (nat maxTurns) sdk req tools 0 (buildAgentMessages (ar_Messages req)) zero w)"

text \<open>
  The attractor sees the loop through its interface: with an error it drops the response, and with it the
  tokens and the cost of the turns that were paid for.
\<close>

primrec to_aprog :: "'w agentTree \<Rightarrow> 'w aprog" where
  "to_aprog (AgDone r w) = ADone (case snd r of Some e \<Rightarrow> Inl e | None \<Rightarrow> Inr (fst r)) w"
| "to_aprog (AgCall c w k) = ACall c w (\<lambda>r w1. to_aprog (k r w1))"

definition anthropic_agent :: "('e, 'w) sdk \<Rightarrow> agentRequest \<Rightarrow> 'w \<Rightarrow> 'w aprog" where
  "anthropic_agent sdk req w = to_aprog (AgentLoop sdk req w)"

section \<open>Turns and requests\<close>

text \<open>All ends of a tree, for every answer of the tools and every world the tools leave that satisfies \<open>I\<close>
  relative to the world of the call.\<close>

primrec ag_all :: "('w \<Rightarrow> 'w \<Rightarrow> bool) \<Rightarrow> (agentResponse \<Rightarrow> goerr option \<Rightarrow> 'w \<Rightarrow> bool) \<Rightarrow> 'w agentTree \<Rightarrow> bool" where
  "ag_all R P (AgDone r w) \<longleftrightarrow> P (fst r) (snd r) w"
| "ag_all R P (AgCall c w k) \<longleftrightarrow> (\<forall>r w1. R w w1 \<longrightarrow> ag_all R P (k r w1))"

lemma ag_all_mono:
  assumes "\<And>r e w. P r e w \<Longrightarrow> Q r e w" and "ag_all R P t"
  shows "ag_all R Q t"
  using assms(2) by (induction t) (auto intro: assms(1))

lemma ag_all_run_works:
  assumes "\<forall>err results w1. R w w1 \<longrightarrow> ag_all R P (k err results w1)"
    and "\<forall>w. R w w" and "\<forall>u v w. R u v \<longrightarrow> R v w \<longrightarrow> R u w"
  shows "ag_all R P (run_works is works results err w k)"
  using assms
proof (induction "is" arbitrary: results err w)
  case (Cons i "is")
  have "ag_all R P (run_works is works results' err' w1 k)" if "R w w1" for results' err' w1
    by (rule Cons.IH) (use Cons.prems that in blast)+
  then show ?case by (auto split: sum.split)
qed auto

lemma ag_all_process:
  assumes "\<forall>r w1. R w w1 \<longrightarrow> ag_all R P (k r w1)" and "\<forall>w. R w w" and "\<forall>u v w. R u v \<longrightarrow> R v w \<longrightarrow> R u w"
  shows "ag_all R P (agentProcessToolUse sdk content w k)"
  using assms by (auto simp: agentProcessToolUse_def Let_def intro!: ag_all_run_works split: option.split)

text \<open>A counter of the world that a request raises by at most one.\<close>

definition counts_requests :: "('e, 'w) sdk \<Rightarrow> ('w \<Rightarrow> nat) \<Rightarrow> bool" where
  "counts_requests sdk c \<longleftrightarrow> (\<forall>p w. c (snd (doStream sdk p w)) \<le> Suc (c w)) \<and> (\<forall>d w. c (snd (sd_After sdk d w)) \<le> c w)"

lemma stream_attempts_count:
  assumes "counts_requests sdk c"
  shows "c (snd (stream_attempts n sdk p a l w)) \<le> c w + n"
proof (induction n arbitrary: a l w)
  case (Suc n)
  obtain x w1 where d: "(if 0 < a then sd_After sdk (retry_delay a) w else (None, w)) = (x, w1)" by fastforce
  have w1: "c w1 \<le> c w"
    using assms d unfolding counts_requests_def by (metis order_refl snd_conv)
  obtain r w2 where s: "doStream sdk p w1 = (r, w2)" by fastforce
  have w2: "c w2 \<le> Suc (c w1)" using assms s unfolding counts_requests_def by (metis snd_conv)
  show ?case
  proof (cases "x = None \<and> (\<exists>e. r = Inl e \<and> isTransientNetError e)")
    case True
    then obtain e where "r = Inl e" by blast
    with True w1 w2 Suc.IH [of "a + 1" "Some e" w2] show ?thesis by (simp add: d s)
  next
    case False
    with w1 w2 show ?thesis by (auto simp: d s split: option.split sum.split)
  qed
qed simp

lemma streamMessage_count: "counts_requests sdk c \<Longrightarrow> c (snd (streamMessage sdk p w)) \<le> c w + 3"
  using stream_attempts_count [of sdk c 3 p 0 None w]
  by (simp add: streamMessage_def streamRetries_def numeral_3_eq_3 numeral_2_eq_2)

lemma agent_turns_bound:
  assumes "counts_requests sdk c"
  shows "ag_all (\<lambda>w w1. c w1 \<le> c w)
    (\<lambda>r e w1. turn \<le> ap_Turns r \<and> ap_Turns r \<le> turn + int n \<and> (e = None \<longrightarrow> turn < ap_Turns r) \<and> c w1 \<le> c w + 3 * n)
    (agent_turns n sdk req tools turn messages t w)"
proof (induction n arbitrary: turn messages t w)
  case 0
  then show ?case by (simp add: partial_response_def)
next
  case (Suc n)
  obtain r w1 where s: "streamMessage sdk (agent_params req tools messages) w = (r, w1)" by fastforce
  have w1: "c w1 \<le> c w + 3" using streamMessage_count [OF assms, of "agent_params req tools messages" w] s by simp
  show ?case
  proof (cases r)
    case (Inl e)
    then show ?thesis using w1 by (simp add: s partial_response_def)
  next
    case (Inr resp)
    have go: "ag_all (\<lambda>w w1. c w1 \<le> c w)
      (\<lambda>r e w1. turn \<le> ap_Turns r \<and> ap_Turns r \<le> turn + int (Suc n) \<and> (e = None \<longrightarrow> turn < ap_Turns r) \<and> c w1 \<le> c w + 3 * Suc n)
      (agent_turns n sdk req tools (turn + 1) ms t1 w2)" if "c w2 \<le> c w1" for ms :: "messageParam list" and t1 w2
    proof (rule ag_all_mono [OF _ Suc.IH [where turn = "turn + 1" and messages = ms and t = t1 and w = w2]])
      fix r e w3
      assume "turn + 1 \<le> ap_Turns r \<and> ap_Turns r \<le> turn + 1 + int n \<and> (e = None \<longrightarrow> turn + 1 < ap_Turns r) \<and> c w3 \<le> c w2 + 3 * n"
      then show "turn \<le> ap_Turns r \<and> ap_Turns r \<le> turn + int (Suc n) \<and> (e = None \<longrightarrow> turn < ap_Turns r) \<and> c w3 \<le> c w + 3 * Suc n"
        using w1 that by auto
    qed
    show ?thesis
      using w1 go
      by (auto simp: s Inr Let_def partial_response_def intro!: ag_all_process split: sum.split prod.split)
  qed
qed


lemma AgentLoop_bound:
  assumes "counts_requests sdk c" and "0 \<le> max_turns req"
  shows "ag_all (\<lambda>w w1. c w1 \<le> c w)
    (\<lambda>r e w1. ap_Turns r \<le> max_turns req \<and> (e = None \<longrightarrow> 1 \<le> ap_Turns r) \<and> c w1 \<le> c w + 3 * nat (max_turns req))
    (AgentLoop sdk req w)"
proof (cases "buildAgentToolParams (ar_Tools req)")
  case (Inl e)
  with assms(2) show ?thesis by (simp add: AgentLoop_def no_response_def)
next
  case (Inr tools)
  show ?thesis
    unfolding AgentLoop_def Inr using assms(2)
    by (auto simp: Let_def intro!: ag_all_mono [OF _ agent_turns_bound [OF assms(1)]])
qed

text \<open>The tree against the file tools of the attractor.\<close>

lemma run_to_aprog:
  assumes "ag_all R P t" and "\<forall>call h w. R w (snd (snd (Handle env call h w)))"
    and "run_aprog (to_aprog t) env h = (r, h', w')"
  shows "case r of Inr resp \<Rightarrow> P resp None w' | Inl e \<Rightarrow> (\<exists>resp. P resp (Some e) w')"
  using assms(1,3)
proof (induction t arbitrary: h)
  case (AgDone x w)
  then show ?case by (cases x) (auto split: option.splits)
next
  case (AgCall c w k)
  obtain r1 h1 w1 where s: "Handle env c h w = (r1, h1, w1)" by (cases "Handle env c h w") auto
  with assms(2) have "R w w1" by (metis snd_conv)
  with AgCall.prems s have "ag_all R P (k r1 w1)" "run_aprog (to_aprog (k r1 w1)) env h1 = (r, h', w')" by auto
  then show ?case by (rule AgCall.IH [OF rangeI rangeI])
qed


section \<open>Tool results in the conversation\<close>

definition use_ids :: "messageParam \<Rightarrow> gostring list" where
  "use_ids m = List.map_filter (\<lambda>b. case b of PToolUse i _ _ \<Rightarrow> Some i | _ \<Rightarrow> None) (pm_Content m)"

definition answers :: "messageParam \<Rightarrow> gostring list \<Rightarrow> bool" where
  "answers m ids \<longleftrightarrow> pm_Role m = ''user'' \<and> list_all2 (\<lambda>b i. \<exists>out. b = PToolResult i out False) (pm_Content m) ids"

text \<open>Every message with tool calls is followed by a user message that holds exactly their results, in the
  order of the calls.\<close>

fun well_paired :: "messageParam list \<Rightarrow> bool" where
  "well_paired [] \<longleftrightarrow> True"
| "well_paired (m # ms) \<longleftrightarrow> (use_ids m \<noteq> [] \<longrightarrow> (case ms of [] \<Rightarrow> False | r # _ \<Rightarrow> answers r (use_ids m))) \<and> well_paired ms"

lemma well_paired_append:
  assumes "well_paired ms" and "answers r (use_ids a)"
  shows "well_paired (ms @ [a, r])"
proof -
  have "use_ids r = []"
  proof -
    have "\<forall>b \<in> set (pm_Content r). \<exists>i out. b = PToolResult i out False"
      using assms(2) by (auto simp: answers_def list_all2_conv_all_nth in_set_conv_nth) blast
    then show ?thesis by (auto simp: use_ids_def List.map_filter_def filter_empty_conv)
  qed
  with assms show ?thesis
    by (induction ms) (auto split: list.splits)
qed

lemma use_ids_echo: "use_ids \<lparr>pm_Role = role, pm_Content = echo_blocks content\<rparr> = map tc_ID (tool_works content)"
  by (induction content) (auto simp: use_ids_def echo_blocks_def tool_works_def echo_block_def map_filter_simps)

definition good_request :: "agentRequest \<Rightarrow> messageNewParams \<Rightarrow> bool" where
  "good_request req p \<longleftrightarrow> well_paired (np_Messages p) \<and> np_Model p = ar_Model req \<and>
     prefix (buildAgentMessages (ar_Messages req)) (np_Messages p)"

text \<open>What the calls done so far have left.\<close>

definition answered :: "nat set \<Rightarrow> toolCall list \<Rightarrow> paramBlock list \<Rightarrow> goerr option \<Rightarrow> bool" where
  "answered D works results err \<longleftrightarrow> length results = length works \<and>
     (err = None \<longrightarrow> (\<forall>i \<in> D. \<exists>out. results ! i = PToolResult (tc_ID (works ! i)) out False))"

lemma run_works_cong:
  assumes "\<forall>err results w1. answered (D \<union> set is) works results err \<longrightarrow> k err results w1 = k' err results w1"
    and "answered D works results err" and "\<forall>i \<in> set is. i < length works"
  shows "run_works is works results err w k = run_works is works results err w k'"
  using assms
proof (induction "is" arbitrary: D results err w)
  case (Cons i "is")
  have step: "run_works is works results' err' w1 k = run_works is works results' err' w1 k'"
    if "answered (insert i D) works results' err'" for results' err' w1
    by (rule Cons.IH [OF _ that]) (use Cons.prems in auto)
  have "answered (insert i D) works (results[i := PToolResult (tc_ID (works ! i)) out False]) err" for out
    using Cons.prems by (auto simp: answered_def nth_list_update)
  moreover have "answered (insert i D) works results (Some e)" for e
    using Cons.prems by (simp add: answered_def)
  ultimately show ?case by (auto simp: step fun_eq_iff split: sum.split option.split)
qed (auto simp: answered_def)

lemma process_cong:
  assumes ord: "\<forall>n w. mset (sd_Order sdk n w) = mset [0..<n]"
    and ord': "sd_Order sdk' = sd_Order sdk"
    and k: "\<forall>r w1. (\<forall>echo results. r = Inr (echo, results) \<longrightarrow> echo = echo_blocks content \<and>
      answers \<lparr>pm_Role = ''user'', pm_Content = results\<rparr> (map tc_ID (tool_works content))) \<longrightarrow> k r w1 = k' r w1"
  shows "agentProcessToolUse sdk content w k = agentProcessToolUse sdk' content w k'"
proof (cases "tool_works content = []")
  case True
  with k show ?thesis by (simp add: agentProcessToolUse_def answers_def)
next
  case False
  let ?ws = "tool_works content"
  have s: "set (sd_Order sdk (length ?ws) w) = {0..<length ?ws}"
    using arg_cong [OF spec [OF spec [OF ord, of "length ?ws"], of w], of set_mset] by simp
  have full: "answers \<lparr>pm_Role = ''user'', pm_Content = results\<rparr> (map tc_ID ?ws)"
    if "answered {0..<length ?ws} ?ws results None" for results
    using that by (auto simp: answered_def answers_def list_all2_conv_all_nth)
  show ?thesis
    unfolding agentProcessToolUse_def ord' Let_def using False k s full
    by (auto intro!: run_works_cong [where D = "{}"] split: option.split simp: answered_def)
qed

lemma stream_events_cong: "sd_Accumulate sdk' = sd_Accumulate sdk \<Longrightarrow> stream_events sdk' st m = stream_events sdk st m"
  by (induction st arbitrary: m) (auto split: sum.split)

lemma streamMessage_cong:
  assumes "\<forall>w. f p w = sd_NewStreaming sdk p w"
  shows "streamMessage (sdk\<lparr>sd_NewStreaming := f\<rparr>) p w = streamMessage sdk p w"
proof -
  have "doStream (sdk\<lparr>sd_NewStreaming := f\<rparr>) p w = doStream sdk p w" for w
    using assms stream_events_cong [of "sdk\<lparr>sd_NewStreaming := f\<rparr>" sdk] by (simp add: doStream_def)
  then have "stream_attempts n (sdk\<lparr>sd_NewStreaming := f\<rparr>) p a l w = stream_attempts n sdk p a l w" for n a l w
    by (induction n arbitrary: a l w) (auto split: option.split sum.split prod.split)
  then show ?thesis by (simp add: streamMessage_def)
qed

lemma agent_turns_cong:
  assumes ord: "\<forall>n w. mset (sd_Order sdk n w) = mset [0..<n]"
    and f: "\<forall>p w. good_request req p \<longrightarrow> f p w = sd_NewStreaming sdk p w"
  shows "well_paired ms \<Longrightarrow> prefix (buildAgentMessages (ar_Messages req)) ms \<Longrightarrow>
    agent_turns n (sdk\<lparr>sd_NewStreaming := f\<rparr>) req tools turn ms t w = agent_turns n sdk req tools turn ms t w"
proof (induction n arbitrary: turn ms t w)
  case (Suc n)
  let ?sdk = "sdk\<lparr>sd_NewStreaming := f\<rparr>"
  have "good_request req (agent_params req tools ms)"
    using Suc.prems by (simp add: good_request_def agent_params_def)
  with f have sm: "streamMessage ?sdk (agent_params req tools ms) w = streamMessage sdk (agent_params req tools ms) w"
    by (intro streamMessage_cong) simp
  have next': "agent_turns n ?sdk req tools turn' (ms @ [\<lparr>pm_Role = ''assistant'', pm_Content = echo_blocks content\<rparr>,
        \<lparr>pm_Role = ''user'', pm_Content = results\<rparr>]) t' w' =
      agent_turns n sdk req tools turn' (ms @ [\<lparr>pm_Role = ''assistant'', pm_Content = echo_blocks content\<rparr>,
        \<lparr>pm_Role = ''user'', pm_Content = results\<rparr>]) t' w'"
    if "answers \<lparr>pm_Role = ''user'', pm_Content = results\<rparr> (map tc_ID (tool_works content))"
    for content results turn' t' w'
    using Suc.prems that by (intro Suc.IH well_paired_append) (auto simp: use_ids_echo)
  have ordf: "\<forall>n w. mset (sd_Order ?sdk n w) = mset [0..<n]" and eq: "sd_Order sdk = sd_Order ?sdk"
    using ord by simp_all
  have tools_eq: "agentProcessToolUse ?sdk content w1
      (\<lambda>r w2. case r of
          Inl e \<Rightarrow> AgDone (partial_response [] (turn + 1) t1, Some e) w2
        | Inr (echo, results) \<Rightarrow>
            agent_turns n ?sdk req tools (turn + 1)
              (ms @ [\<lparr>pm_Role = ''assistant'', pm_Content = echo\<rparr>, \<lparr>pm_Role = ''user'', pm_Content = results\<rparr>]) t1 w2) =
    agentProcessToolUse sdk content w1
      (\<lambda>r w2. case r of
          Inl e \<Rightarrow> AgDone (partial_response [] (turn + 1) t1, Some e) w2
        | Inr (echo, results) \<Rightarrow>
            agent_turns n sdk req tools (turn + 1)
              (ms @ [\<lparr>pm_Role = ''assistant'', pm_Content = echo\<rparr>, \<lparr>pm_Role = ''user'', pm_Content = results\<rparr>]) t1 w2)"
    for content w1 t1
    by (rule process_cong [OF ordf eq]) (auto simp: next' split: sum.split)
  show ?case by (simp only: agent_turns.simps sm Let_def tools_eq)
qed simp

lemma initial_paired: "well_paired (buildAgentMessages msgs)"
  by (induction msgs) (auto simp: buildAgentMessages_def anthropic_message_def use_ids_def map_filter_simps)

text \<open>C17. In every request of the agent loop the conversation starts with the messages of the caller and
  pairs each tool call with its result, in the order of the calls, however the parallel calls of a turn
  are ordered and whatever the model and the tools answer: an API that differs only on other requests
  gives the same run.\<close>

theorem tool_results_paired:
  assumes "\<forall>n w. mset (sd_Order sdk n w) = mset [0..<n]"
    and "\<forall>p w. good_request req p \<longrightarrow> f p w = sd_NewStreaming sdk p w"
  shows "AgentLoop (sdk\<lparr>sd_NewStreaming := f\<rparr>) req w = AgentLoop sdk req w"
  using agent_turns_cong [OF assms initial_paired prefix_order.refl]
  by (simp add: AgentLoop_def Let_def split: sum.split)

section \<open>Concrete runs\<close>

text \<open>The world counts the requests by its length. The model asks for two tools in its first turn, whose
  calls take effect in the opposite order, and ends with its second; the first stream breaks off once.\<close>

definition demo_usage :: sdkUsage where
  "demo_usage = \<lparr>su_InputTokens = 1000, su_CacheCreationInputTokens = 0, su_CacheReadInputTokens = 0, su_OutputTokens = 100\<rparr>"

definition demo_turn :: "nat \<Rightarrow> sdkMessage" where
  "demo_turn n =
     (if n = 1 then
        \<lparr>sm_Content =
           [\<lparr>cb_Type = ''text'', cb_Text = ''on it'', cb_ToolUse = \<lparr>tc_ID = [], tc_Name = [], tc_Input = []\<rparr>\<rparr>,
            \<lparr>cb_Type = ''tool_use'', cb_Text = [], cb_ToolUse = \<lparr>tc_ID = ''t1'', tc_Name = ''list_files'', tc_Input = ''{}''\<rparr>\<rparr>,
            \<lparr>cb_Type = ''tool_use'', cb_Text = [], cb_ToolUse = \<lparr>tc_ID = ''t2'', tc_Name = ''list_files'', tc_Input = ''null''\<rparr>\<rparr>],
         sm_StopReason = ''tool_use'', sm_Usage = demo_usage\<rparr>
      else
        \<lparr>sm_Content = [\<lparr>cb_Type = ''text'', cb_Text = ''bye'', cb_ToolUse = \<lparr>tc_ID = [], tc_Name = [], tc_Input = []\<rparr>\<rparr>],
         sm_StopReason = ''end_turn'', sm_Usage = demo_usage\<rparr>)"

definition demo_sdk :: "(sdkMessage, log) sdk" where
  "demo_sdk =
     \<lparr>sd_NewStreaming = (\<lambda>p w. let w1 = w @ [(''request'', [])] in
         if w = [] then SEnd (Some (new_err io_ErrUnexpectedEOF)) w1
         else SEvent (demo_turn (length w)) (SEnd None w1) w1),
      sd_Accumulate = (\<lambda>m ev. Inr ev), sd_Close = (\<lambda>w. (None, w)),
      sd_New = (\<lambda>p w. (Inr (demo_turn 2), w)), sd_After = (\<lambda>d w. (None, w)),
      sd_Order = (\<lambda>n w. rev [0..<n])\<rparr>"

definition demo_request :: agentRequest where
  "demo_request =
     \<lparr>ar_SystemPrompt = ''go'', ar_Messages = [\<lparr>m_Role = ''user'', m_Content = ''build it''\<rparr>], ar_Tools = [],
      ar_Model = ''o3'', ar_MaxTokens = 0, ar_MaxTurns = 0, ar_CacheControl = None\<rparr>"

theorem tool_results_paired_witness:
  "AgentLoop (demo_sdk\<lparr>sd_NewStreaming := (\<lambda>p w. if good_request demo_request p then sd_NewStreaming demo_sdk p w
       else SEnd (Some (new_err ''400 bad request'')) w)\<rparr>) demo_request [] =
   AgentLoop demo_sdk demo_request []"
  by (rule tool_results_paired) (simp_all add: demo_sdk_def)

lemma demo_counts: "counts_requests demo_sdk length"
  by (simp add: counts_requests_def doStream_def demo_sdk_def Let_def)

text \<open>A file system that keeps nothing.\<close>

definition agent_env :: "log env" where
  "agent_env = demo_env\<lparr>e_Os := \<lparr>os_Getwd = None, os_MkdirAll = (\<lambda>d w. (w, True)), os_WriteFile = (\<lambda>p c w. (w, True))\<rparr>\<rparr>"

lemma agent_env_world: "snd (snd (Handle agent_env call h w)) = w"
proof -
  have "w' = w" if "writeOneFile (e_Os agent_env) d p c w = (w', x)" for d p c w' x
    using that by (auto simp: writeOneFile_def Let_def agent_env_def split: option.splits if_splits)
  then have "snd (snd (handleWriteFile agent_env raw h w)) = w" for raw
    by (auto simp: handleWriteFile_def split: option.split prod.split)
  moreover have "snd (snd (handleReadFile agent_env raw h w)) = w" for raw
    by (auto simp: handleReadFile_def split: option.split sum.split bool.split)
  moreover have "snd (snd (handleListFiles agent_env raw h w)) = w" for raw
    by (auto simp: handleListFiles_def Let_def split: option.split sum.split bool.split)
  ultimately show ?thesis by (simp add: Handle_def)
qed


end
