(* ===== verification/Llm_Facts.thy ===== *)
theory Llm_Facts
  imports Llm_Providers Gene_Facts
begin

text \<open>
  What the clients read out of an answer: the text of a code fence, and the score of a judge that
  answers in the format it was asked for.
\<close>

section \<open>Fences\<close>

lemma plain_fences [simp]: "plain_byte (CHR 0x60)" "plain_byte (CHR ''{'')" "plain_byte (CHR ''}'')"
  unfolding plain_byte_code by code_simp+

lemma str_last_index_short: "length s < length p \<Longrightarrow> str_last_index s p = None"
  by (cases "str_last_index s p") (auto dest: str_last_index_Some)

lemma str_last_index_end: "p \<noteq> [] \<Longrightarrow> str_last_index (s @ p) p = Some (length s)"
proof (induction s)
  case Nil
  then obtain c q where "p = c # q" by (cases p) auto
  then show ?case by (simp add: str_last_index_short)
qed simp

text \<open>Fenced text is extracted whatever it holds, further fences included: after the opening line (with
  any language tag) and before the last fence, with the white space at its ends removed.\<close>

theorem ExtractJSON_fenced:
  assumes "NL \<notin> set tag"
  shows "ExtractJSON (fence @ tag @ NL # s @ fence) = trim_space s"
proof -
  let ?t = "fence @ tag @ NL # s @ fence"
  have t: "trim_space ?t = ?t" by (rule trim_space_plain) (simp_all add: fence_def)
  have i: "str_index ?t [NL] = Some (3 + length tag)"
    using assms by (simp add: str_index_single fence_def takeWhile_append)
  have p: "has_prefix ?t fence" by (simp add: prefix_def)
  have "?t = (fence @ tag @ [NL]) @ s @ fence" "3 + length tag + 1 = length (fence @ tag @ [NL])"
    by (simp_all add: fence_def)
  then have "drop (3 + length tag + 1) ?t = s @ fence" by (metis append_eq_conv_conj)
  moreover have "str_last_index (s @ fence) fence = Some (length s)"
    by (rule str_last_index_end) (simp add: fence_def)
  ultimately show ?thesis using p by (simp add: ExtractJSON_def t i Let_def)
qed

theorem ExtractJSON_fenced_witness:
  "ExtractJSON (fence @ ''json'' @ NL # (''{} '' @ [NL]) @ fence) = ''{}''"
proof -
  have "trim_space (''{} '' @ [NL]) = ''{}''" by code_simp
  then show ?thesis using ExtractJSON_fenced [of "''json''" "''{} '' @ [NL]"] by simp
qed

lemma ExtractJSON_bare:
  assumes "s \<noteq> []" "hd s = CHR ''{''" "last s = CHR ''}''"
  shows "ExtractJSON s = s"
proof -
  have "trim_space s = s" using assms by (intro trim_space_plain) simp_all
  moreover have "\<not> has_prefix s fence" using assms by (cases s) (auto simp: fence_def)
  ultimately show ?thesis by (simp add: ExtractJSON_def)
qed

lemma strip_NL: "strip_lead (map rev white_runes) (NL # t) = strip_lead (map rev white_runes) t"
  by (subst strip_lead.simps) (simp add: white_runes_def)

lemma trim_space_end_NL:
  assumes "s \<noteq> []" "plain_byte (hd s)" "plain_byte (last s)"
  shows "trim_space (s @ [NL]) = s"
  using assms strip_lead_plain_hd [of "s @ [NL]"] strip_lead_plain_last [of s]
  by (simp add: trim_space_def trim_left_def trim_right_def strip_NL)

section \<open>The answer of a judge\<close>

definition diagnostic_json :: "judgeDiagnostic \<Rightarrow> json" where
  "diagnostic_json d = JObj [(''category'', JStr (jd_Category d)), (''detail'', JStr (jd_Detail d))]"

definition judge_json :: "int \<Rightarrow> gostring \<Rightarrow> gostring list \<Rightarrow> judgeDiagnostic list \<Rightarrow> json" where
  "judge_json sc rs fs ds =
     JObj [(''score'', JNum (int_str sc)), (''reasoning'', JStr rs), (''failures'', JArr (map JStr fs)),
           (''diagnostics'', JArr (map diagnostic_json ds))]"

lemma judge_keys:
  "field_of [''category'', ''detail''] ''category'' = Some ''category''"
  "field_of [''category'', ''detail''] ''detail'' = Some ''detail''"
  "field_of [''score'', ''reasoning'', ''failures'', ''diagnostics''] ''score'' = Some ''score''"
  "field_of [''score'', ''reasoning'', ''failures'', ''diagnostics''] ''reasoning'' = Some ''reasoning''"
  "field_of [''score'', ''reasoning'', ''failures'', ''diagnostics''] ''failures'' = Some ''failures''"
  "field_of [''score'', ''reasoning'', ''failures'', ''diagnostics''] ''diagnostics'' = Some ''diagnostics''"
  by code_simp+

lemma dec_diagnostic_back: "dec_diagnostic (diagnostic_json d) = Some d"
  by (cases d) (simp add: dec_diagnostic_def diagnostic_json_def Let_def field_values_Cons field_values_Nil judge_keys)

definition texts_ok :: "gostring \<Rightarrow> gostring list \<Rightarrow> judgeDiagnostic list \<Rightarrow> bool" where
  "texts_ok rs fs ds \<longleftrightarrow> valid_utf8 rs \<and> list_all valid_utf8 fs \<and>
     list_all (\<lambda>d. valid_utf8 (jd_Category d) \<and> valid_utf8 (jd_Detail d)) ds"

lemma judge_json_ok:
  assumes "texts_ok rs fs ds"
  shows "json_ok (judge_json sc rs fs ds) \<and> jdepth (judge_json sc rs fs ds) \<le> 4"
proof -
  have k: "valid_utf8 ''score''" "valid_utf8 ''reasoning''" "valid_utf8 ''failures''" "valid_utf8 ''diagnostics''"
    "valid_utf8 ''category''" "valid_utf8 ''detail''"
    by (rule ascii_utf8, simp add: ascii_def)+
  have z: "foldr max (map (jdepth \<circ> JStr) xs) 0 = 0" for xs by (induction xs) auto
  have "foldr max (map (jdepth \<circ> diagnostic_json) ds) 0 \<le> 1"
    by (intro foldr_max_le) (simp add: diagnostic_json_def)
  with assms show ?thesis
    by (auto simp: judge_json_def diagnostic_json_def texts_ok_def k z list_all_iff)
qed

lemma unmarshal_judge_back:
  assumes "int64 sc" and "texts_ok rs fs ds"
  shows "unmarshal_judge (Marshal (judge_json sc rs fs ds)) = Some (sc, rs, fs, ds)"
proof -
  have "json_parse (Marshal (judge_json sc rs fs ds)) = Some (judge_json sc rs fs ds)"
    using judge_json_ok [OF assms(2), of sc] by (intro Marshal_parses) (simp_all add: maxNestingDepth_def)
  then show ?thesis
    using assms(1)
    by (simp add: unmarshal_judge_def dec_object_def judge_json_def Let_def field_values_Cons field_values_Nil
        judge_keys dec_list_def dec_all_map dec_diagnostic_back)
qed

lemma Marshal_braces:
  "Marshal (JObj (m # ms)) \<noteq> [] \<and> hd (Marshal (JObj (m # ms))) = CHR ''{'' \<and> last (Marshal (JObj (m # ms))) = CHR ''}''"
  by (simp add: Marshal_def)


definition judge_reply :: gostring where
  "judge_reply = fence @ ''json'' @ NL # (Marshal (judge_json 85 ''close'' [''no <id> in the list''] []) @ [NL]) @ fence"

definition judge_request :: judgeRequest where
  "judge_request = \<lparr>jr_SystemPrompt = [], jr_UserPrompt = ''score it'', jr_Model = ''o3'', jr_CacheControl = None\<rparr>"

definition judge_usage :: chatUsage where
  "judge_usage = \<lparr>cu_PromptTokens = 10, cu_CompletionTokens = 5, cu_CachedTokens = 0\<rparr>"

definition judge_message :: sdkMessage where
  "judge_message =
     zero_sdkMessage\<lparr>sm_Content := [\<lparr>cb_Type = ''text'', cb_Text = judge_reply,
       cb_ToolUse = \<lparr>tc_ID = [], tc_Name = [], tc_Input = []\<rparr>\<rparr>]\<rparr>"

definition judge_sdk :: "(unit, unit) sdk" where
  "judge_sdk =
     \<lparr>sd_NewStreaming = (\<lambda>p w. SEnd None w), sd_Accumulate = (\<lambda>m e. Inr m), sd_Close = (\<lambda>w. (None, w)),
      sd_New = (\<lambda>p w. (Inr judge_message, w)), sd_After = (\<lambda>d w. (None, w)), sd_Order = (\<lambda>n w. [0..<n])\<rparr>"

definition judge_api :: "unit completions" where
  "judge_api p w = (Inr \<lparr>cc_Choices = [(judge_reply, ''stop'')], cc_Usage = judge_usage\<rparr>, w)"


end
