(* ===== verification/Tool_Race.thy ===== *)
theory Tool_Race
  imports Attractor_Tools
begin

text \<open>
  The file tool \<open>write_file\<close> under parallel calls (\<open>internal/attractor/tools.go\<close>: \<open>handleWriteFile\<close>). The
  Anthropic client starts the calls of one turn at the same time; the handler's lock covers the map of
  tracked files but not the write to the disk before it. Here each call takes two steps, the write and the
  update of the map, and the steps of the calls interleave in any order.
\<close>

datatype writePhase = WStart | WWritten | WTracked | WFailed

record writeCall =
  wc_Path :: gostring
  wc_Content :: gostring
  wc_Phase :: writePhase

record 'w raceState =
  rs_World :: 'w
  rs_Handler :: agentToolHandler
  rs_Calls :: "writeCall list"

text \<open>The two steps of \<open>handleWriteFile\<close> on a decoded input.\<close>

definition write_disk :: "'w env \<Rightarrow> agentToolHandler \<Rightarrow> writeCall \<Rightarrow> 'w \<Rightarrow> writePhase \<times> 'w" where
  "write_disk env h c w =
     (case validatePath (wc_Path c) of
        Some e \<Rightarrow> (WFailed, w)
      | None \<Rightarrow>
          (case writeOneFile (e_Os env) (ah_iterDir h) (wc_Path c) (wc_Content c) w of
             (w1, Some e) \<Rightarrow> (WFailed, w1)
           | (w1, None) \<Rightarrow> (WWritten, w1)))"

definition track_file :: "writeCall \<Rightarrow> agentToolHandler \<Rightarrow> agentToolHandler" where
  "track_file c h = h\<lparr>ah_files := gm_put (wc_Path c) (wc_Content c) (ah_files h)\<rparr>"

text \<open>Both steps in a row are the sequential call.\<close>

lemma write_track_sequential:
  assumes "dec_object raw = Some ms"
    and "string_field [''path'', ''content''] ms ''path'' = Some p"
    and "string_field [''path'', ''content''] ms ''content'' = Some t"
  shows "snd (handleWriteFile env raw h w) =
    (case write_disk env h \<lparr>wc_Path = p, wc_Content = t, wc_Phase = WStart\<rparr> w of
       (ph, w1) \<Rightarrow> (if ph = WWritten then track_file \<lparr>wc_Path = p, wc_Content = t, wc_Phase = ph\<rparr> h else h, w1))"
  using assms by (simp add: handleWriteFile_def write_disk_def track_file_def split: option.split prod.split)

inductive race_step :: "'w env \<Rightarrow> 'w raceState \<Rightarrow> 'w raceState \<Rightarrow> bool" for env where
  disk: "i < length (rs_Calls s) \<Longrightarrow> wc_Phase (rs_Calls s ! i) = WStart \<Longrightarrow>
    write_disk env (rs_Handler s) (rs_Calls s ! i) (rs_World s) = (ph, w1) \<Longrightarrow>
    race_step env s (s\<lparr>rs_World := w1, rs_Calls := (rs_Calls s)[i := (rs_Calls s ! i)\<lparr>wc_Phase := ph\<rparr>]\<rparr>)"
| track: "i < length (rs_Calls s) \<Longrightarrow> wc_Phase (rs_Calls s ! i) = WWritten \<Longrightarrow>
    race_step env s (s\<lparr>rs_Handler := track_file (rs_Calls s ! i) (rs_Handler s),
      rs_Calls := (rs_Calls s)[i := (rs_Calls s ! i)\<lparr>wc_Phase := WTracked\<rparr>]\<rparr>)"

section \<open>Calls that write different files\<close>

text \<open>What the proofs need of the file system: \<open>r\<close> reads it; a directory changes no file, a write that
  succeeds changes one, and one that fails changes no other.\<close>

definition reads_os :: "'w os \<Rightarrow> ('w \<Rightarrow> gostring \<Rightarrow> gostring option) \<Rightarrow> bool" where
  "reads_os wos r \<longleftrightarrow>
     (\<forall>d w q. r (fst (os_MkdirAll wos d w)) q = r w q) \<and>
     (\<forall>p c w q. q \<noteq> p \<longrightarrow> r (fst (os_WriteFile wos p c w)) q = r w q) \<and>
     (\<forall>p c w. snd (os_WriteFile wos p c w) \<longrightarrow> r (fst (os_WriteFile wos p c w)) p = Some c)"

definition target :: "gostring list \<Rightarrow> gostring \<Rightarrow> gostring" where
  "target base p = abs_of (over base p)"

lemma writeOneFile_reads:
  assumes "reads_os wos r" and "list_all normal_comp base" "base \<noteq> []"
    and "writeOneFile wos (abs_of base) p c w = (w1, e)"
  shows "(\<forall>q. q \<noteq> target base p \<longrightarrow> r w1 q = r w q) \<and> (e = None \<longrightarrow> r w1 (target base p) = Some c)"
proof -
  have m: "r (fst (os_MkdirAll wos d w)) q = r w q" for d q using assms(1) by (simp add: reads_os_def)
  have k: "q \<noteq> x \<Longrightarrow> r (fst (os_WriteFile wos x c v)) q = r v q" for q x v using assms(1) by (simp add: reads_os_def)
  have t: "snd (os_WriteFile wos x c v) \<Longrightarrow> r (fst (os_WriteFile wos x c v)) x = Some c" for x v
    using assms(1) by (simp add: reads_os_def)
  obtain v ok where v: "os_MkdirAll wos (dir_path (target base p)) w = (v, ok)" by fastforce
  obtain u ok2 where u: "os_WriteFile wos (target base p) c v = (u, ok2)" by fastforce
  show ?thesis
    using assms(4) m [of "dir_path (target base p)"] k [of _ "target base p" v] t [of "target base p" v] v u
    by (auto simp: writeOneFile_over [OF assms(2,3)] os_put_def target_def split: if_splits bool.splits)
qed

lemma gm_put_set_wf: "gm_wf m \<Longrightarrow> set (gm_put k v m) = insert (k, v) {e \<in> set m. fst e \<noteq> k}"
  unfolding gm_put_def gm_wf_def by (induction m) (auto simp: image_iff)

lemma gm_put_fst: "fst ` set (gm_put k v m) = insert k (fst ` set m)"
  unfolding gm_put_def by (induction m) auto

definition race_inv :: "gostring list \<Rightarrow> ('w \<Rightarrow> gostring \<Rightarrow> gostring option) \<Rightarrow> 'w raceState \<Rightarrow> bool" where
  "race_inv base r s \<longleftrightarrow>
     ah_iterDir (rs_Handler s) = abs_of base \<and> gm_wf (ah_files (rs_Handler s)) \<and>
     distinct (map wc_Path (rs_Calls s)) \<and>
     inj_on (target base) (set (map wc_Path (rs_Calls s)) \<union> set (map fst (ah_files (rs_Handler s)))) \<and>
     (\<forall>c \<in> set (rs_Calls s). wc_Phase c = WWritten \<longrightarrow> r (rs_World s) (target base (wc_Path c)) = Some (wc_Content c)) \<and>
     (\<forall>c \<in> set (rs_Calls s). wc_Phase c = WTracked \<longrightarrow> (wc_Path c, wc_Content c) \<in> set (ah_files (rs_Handler s))) \<and>
     (\<forall>(p, t) \<in> set (ah_files (rs_Handler s)). r (rs_World s) (target base p) = Some t \<or>
        (\<exists>c \<in> set (rs_Calls s). wc_Path c = p \<and> wc_Phase c \<in> {WWritten, WFailed}))"

lemma write_disk_reads:
  assumes "reads_os (e_Os env) r" and "list_all normal_comp base" "base \<noteq> []" and "ah_iterDir h = abs_of base"
    and "write_disk env h c w = (ph, w1)"
  shows "(\<forall>q. q \<noteq> target base (wc_Path c) \<longrightarrow> r w1 q = r w q) \<and> ph \<in> {WWritten, WFailed} \<and>
    (ph = WWritten \<longrightarrow> r w1 (target base (wc_Path c)) = Some (wc_Content c))"
  using assms(4,5) writeOneFile_reads [OF assms(1-3), of "wc_Path c" "wc_Content c" w]
  by (auto simp: write_disk_def split: option.splits prod.splits)

lemma set_update_call:
  assumes "i < length cs" and "distinct (map wc_Path cs)" and "wc_Path c' = wc_Path (cs ! i)"
  shows "set (cs[i := c']) = insert c' {c \<in> set cs. wc_Path c \<noteq> wc_Path (cs ! i)}"
proof -
  have "distinct cs" using assms(2) by (simp add: distinct_map)
  then have "set (cs[i := c']) = insert c' (set cs - {cs ! i})" using assms(1) by (rule set_update_distinct)
  moreover have "{c \<in> set cs. wc_Path c \<noteq> wc_Path (cs ! i)} = set cs - {cs ! i}"
    using assms(1,2) by (auto simp: distinct_map inj_on_def)
  ultimately show ?thesis by simp
qed

lemma race_inv_step:
  assumes "race_step env s s'" and "race_inv base r s"
    and "reads_os (e_Os env) r" and "list_all normal_comp base" "base \<noteq> []"
  shows "race_inv base r s'"
  using assms(1)
proof cases
  case (disk i ph w1)
  let ?c = "rs_Calls s ! i"
  note inv = assms(2) [unfolded race_inv_def]
  have d: "distinct (map wc_Path (rs_Calls s))" and c: "?c \<in> set (rs_Calls s)" using inv disk(2) by auto
  have w: "\<forall>q. q \<noteq> target base (wc_Path ?c) \<longrightarrow> r w1 q = r (rs_World s) q" "ph \<in> {WWritten, WFailed}"
    "ph = WWritten \<longrightarrow> r w1 (target base (wc_Path ?c)) = Some (wc_Content ?c)"
    using write_disk_reads [OF assms(3-5) _ disk(4)] inv by blast+
  have u: "set ((rs_Calls s)[i := ?c\<lparr>wc_Phase := ph\<rparr>]) =
      insert (?c\<lparr>wc_Phase := ph\<rparr>) {c \<in> set (rs_Calls s). wc_Path c \<noteq> wc_Path ?c}"
    by (rule set_update_call [OF disk(2) d]) simp
  have m: "map wc_Path ((rs_Calls s)[i := ?c\<lparr>wc_Phase := ph\<rparr>]) = map wc_Path (rs_Calls s)"
    using disk(2) by (simp add: map_update list_update_same_conv)
  have other: "r w1 (target base p) = r (rs_World s) (target base p)"
    if "p \<noteq> wc_Path ?c" "p \<in> set (map wc_Path (rs_Calls s)) \<union> set (map fst (ah_files (rs_Handler s)))" for p
  proof -
    have "inj_on (target base) (set (map wc_Path (rs_Calls s)) \<union> set (map fst (ah_files (rs_Handler s))))"
      using inv by blast
    moreover have "wc_Path ?c \<in> set (map wc_Path (rs_Calls s))" using c by simp
    ultimately have "target base p \<noteq> target base (wc_Path ?c)" using that by (auto dest: inj_onD)
    with w(1) show ?thesis by simp
  qed
  have calls: "\<forall>c \<in> set (rs_Calls s'). wc_Phase c = WWritten \<longrightarrow> r (rs_World s') (target base (wc_Path c)) = Some (wc_Content c)"
    using inv w(3) by (auto simp: disk(1) u other)
  have files: "\<forall>(p, t) \<in> set (ah_files (rs_Handler s')). r (rs_World s') (target base p) = Some t \<or>
      (\<exists>c \<in> set (rs_Calls s'). wc_Path c = p \<and> wc_Phase c \<in> {WWritten, WFailed})"
  proof clarify
    fix p t
    assume f: "(p, t) \<in> set (ah_files (rs_Handler s'))"
      and no: "\<not> (\<exists>c \<in> set (rs_Calls s'). wc_Path c = p \<and> wc_Phase c \<in> {WWritten, WFailed})"
    then have p: "p \<noteq> wc_Path ?c" using w(2) by (auto simp: disk(1) u)
    moreover have "r (rs_World s) (target base p) = Some t"
      using inv f no p by (fastforce simp: disk(1) u)
    moreover have "p \<in> set (map fst (ah_files (rs_Handler s)))" using f by (force simp: disk(1))
    ultimately show "r (rs_World s') (target base p) = Some t" by (simp add: disk(1) other)
  qed
  have tracked: "\<forall>c \<in> set (rs_Calls s'). wc_Phase c = WTracked \<longrightarrow> (wc_Path c, wc_Content c) \<in> set (ah_files (rs_Handler s'))"
    using inv w(2) by (auto simp: disk(1) u)
  show ?thesis
    using inv calls tracked files m unfolding race_inv_def by (simp add: disk(1))
next
  case (track i)
  let ?c = "rs_Calls s ! i"
  note inv = assms(2) [unfolded race_inv_def]
  have d: "distinct (map wc_Path (rs_Calls s))" and c: "?c \<in> set (rs_Calls s)" using inv track(2) by auto
  have u: "set ((rs_Calls s)[i := ?c\<lparr>wc_Phase := WTracked\<rparr>]) =
      insert (?c\<lparr>wc_Phase := WTracked\<rparr>) {c \<in> set (rs_Calls s). wc_Path c \<noteq> wc_Path ?c}"
    by (rule set_update_call [OF track(2) d]) simp
  have m: "map wc_Path ((rs_Calls s)[i := ?c\<lparr>wc_Phase := WTracked\<rparr>]) = map wc_Path (rs_Calls s)"
    using track(2) by (simp add: map_update list_update_same_conv)
  have g: "set (gm_put (wc_Path ?c) (wc_Content ?c) (ah_files (rs_Handler s))) =
      insert (wc_Path ?c, wc_Content ?c) {e \<in> set (ah_files (rs_Handler s)). fst e \<noteq> wc_Path ?c}"
    using inv by (simp add: gm_put_set_wf)
  have k1: "set (map wc_Path (rs_Calls s')) = set (map wc_Path (rs_Calls s))"
    using m by (simp add: track(1) del: set_map)
  have k2: "set (map fst (ah_files (rs_Handler s'))) = insert (wc_Path ?c) (set (map fst (ah_files (rs_Handler s))))"
    by (simp add: track(1) track_file_def gm_put_fst)
  have keys: "set (map wc_Path (rs_Calls s')) \<union> set (map fst (ah_files (rs_Handler s'))) \<subseteq>
      set (map wc_Path (rs_Calls s)) \<union> set (map fst (ah_files (rs_Handler s)))"
    unfolding k1 k2 using c by auto
  have files: "\<forall>(p, t) \<in> set (ah_files (rs_Handler s')). r (rs_World s') (target base p) = Some t \<or>
      (\<exists>c \<in> set (rs_Calls s'). wc_Path c = p \<and> wc_Phase c \<in> {WWritten, WFailed})"
    using inv c track(3) by (fastforce simp: track(1) track_file_def g u)
  have calls: "\<forall>c \<in> set (rs_Calls s'). wc_Phase c = WWritten \<longrightarrow> r (rs_World s') (target base (wc_Path c)) = Some (wc_Content c)"
    using inv by (auto simp: track(1) u)
  have tracked: "\<forall>c \<in> set (rs_Calls s'). wc_Phase c = WTracked \<longrightarrow> (wc_Path c, wc_Content c) \<in> set (ah_files (rs_Handler s'))"
    using inv by (auto simp: track(1) track_file_def g u)
  have inj: "inj_on (target base) (set (map wc_Path (rs_Calls s')) \<union> set (map fst (ah_files (rs_Handler s'))))"
    by (rule inj_on_subset [OF _ keys]) (use inv in blast)
  have "ah_iterDir (rs_Handler s') = abs_of base" "gm_wf (ah_files (rs_Handler s'))" "distinct (map wc_Path (rs_Calls s'))"
    using inv m gm.wf_put by (simp_all add: track(1) track_file_def)
  with inj calls tracked files show ?thesis unfolding race_inv_def by blast
qed

lemma race_inv_reach:
  assumes "(race_step env)\<^sup>*\<^sup>* s s'" and "race_inv base r s"
    and "reads_os (e_Os env) r" and "list_all normal_comp base" "base \<noteq> []"
  shows "race_inv base r s'"
  using assms(1,2) by (induction rule: rtranclp_induct) (auto intro: race_inv_step [OF _ _ assms(3-5)])

definition race_start :: "'w \<Rightarrow> agentToolHandler \<Rightarrow> (gostring \<times> gostring) list \<Rightarrow> 'w raceState" where
  "race_start w h writes =
     \<lparr>rs_World = w, rs_Handler = h,
      rs_Calls = map (\<lambda>(p, t). \<lparr>wc_Path = p, wc_Content = t, wc_Phase = WStart\<rparr>) writes\<rparr>"

definition all_tracked :: "'w raceState \<Rightarrow> bool" where
  "all_tracked s \<longleftrightarrow> list_all (\<lambda>c. wc_Phase c = WTracked) (rs_Calls s)"

text \<open>C14. Parallel writes to different files are safe: when the calls of a turn, whose paths name different
  files that no tracked path names in another spelling, have all succeeded, in any interleaving of their
  steps, then the tracked files are on the disk with their tracked content, and every write is tracked.\<close>

theorem parallel_writes_agree:
  assumes "reads_os (e_Os env) r" and "list_all normal_comp base" "base \<noteq> []" and "ah_iterDir h = abs_of base"
    and "gm_wf (ah_files h)" and "\<forall>(p, t) \<in> set (ah_files h). r w (target base p) = Some t"
    and "distinct (map fst writes)" and "inj_on (target base) (fst ` set writes \<union> fst ` set (ah_files h))"
    and "(race_step env)\<^sup>*\<^sup>* (race_start w h writes) s'" and "all_tracked s'"
  shows "(\<forall>(p, t) \<in> set (ah_files (rs_Handler s')). r (rs_World s') (target base p) = Some t) \<and>
    (\<forall>c \<in> set (rs_Calls s'). (wc_Path c, wc_Content c) \<in> set (ah_files (rs_Handler s')))"
proof -
  have p: "map wc_Path (rs_Calls (race_start w h writes)) = map fst writes"
    by (simp add: race_start_def split_beta)
  have s: "\<forall>c \<in> set (rs_Calls (race_start w h writes)). wc_Phase c = WStart" by (auto simp: race_start_def)
  have f: "rs_Handler (race_start w h writes) = h" "rs_World (race_start w h writes) = w" by (simp_all add: race_start_def)
  have "race_inv base r (race_start w h writes)"
    using assms(4-8) s unfolding race_inv_def p f by auto
  from race_inv_reach [OF assms(9) this assms(1-3)] assms(10)
  show ?thesis by (fastforce simp: race_inv_def all_tracked_def list_all_iff)
qed

section \<open>Calls that write the same file\<close>

text \<open>C15. Parallel writes to one file are not safe: whenever two calls of a turn write the same path one after
  the other, there is an interleaving in which both succeed, the tracked content is that of the first
  and the content on the disk that of the second.\<close>

theorem parallel_writes_diverge:
  assumes "reads_os (e_Os env) r" and "list_all normal_comp base" "base \<noteq> []" and "ah_iterDir h = abs_of base"
    and "write_disk env h \<lparr>wc_Path = p, wc_Content = a, wc_Phase = WStart\<rparr> w = (WWritten, w1)"
    and "write_disk env h \<lparr>wc_Path = p, wc_Content = b, wc_Phase = WStart\<rparr> w1 = (WWritten, w2)"
  shows "\<exists>s'. (race_step env)\<^sup>*\<^sup>* (race_start w h [(p, a), (p, b)]) s' \<and> all_tracked s' \<and>
    gm_get (ah_files (rs_Handler s')) p = Some a \<and> r (rs_World s') (target base p) = Some b"
proof -
  let ?a = "\<lambda>ph. \<lparr>wc_Path = p, wc_Content = a, wc_Phase = ph\<rparr>" and ?b = "\<lambda>ph. \<lparr>wc_Path = p, wc_Content = b, wc_Phase = ph\<rparr>"
  let ?s = "\<lambda>w h x y. \<lparr>rs_World = w, rs_Handler = h, rs_Calls = [?a x, ?b y]\<rparr>"
  let ?h1 = "track_file (?b WWritten) h"
  let ?h2 = "track_file (?a WWritten) ?h1"
  have "race_step env (?s w h WStart WStart) (?s w1 h WWritten WStart)"
    using race_step.disk [of 0 "?s w h WStart WStart" env WWritten w1] assms(5) by simp
  moreover have "race_step env (?s w1 h WWritten WStart) (?s w2 h WWritten WWritten)"
    using race_step.disk [of 1 "?s w1 h WWritten WStart" env WWritten w2] assms(6) by simp
  moreover have "race_step env (?s w2 h WWritten WWritten) (?s w2 ?h1 WWritten WTracked)"
    using race_step.track [of 1 "?s w2 h WWritten WWritten" env] by simp
  moreover have "race_step env (?s w2 ?h1 WWritten WTracked) (?s w2 ?h2 WTracked WTracked)"
    using race_step.track [of 0 "?s w2 ?h1 WWritten WTracked" env] by simp
  ultimately have "(race_step env)\<^sup>*\<^sup>* (?s w h WStart WStart) (?s w2 ?h2 WTracked WTracked)"
    by (meson converse_rtranclp_into_rtranclp rtranclp.rtrancl_refl)
  moreover have "?s w h WStart WStart = race_start w h [(p, a), (p, b)]" by (simp add: race_start_def)
  moreover have "gm_get (ah_files ?h2) p = Some a" by (simp add: track_file_def gm.get_put)
  moreover have "r w2 (target base p) = Some b"
    using write_disk_reads [OF assms(1-4) assms(6)] by simp
  ultimately show ?thesis
    by (intro exI [of _ "?s w2 ?h2 WTracked WTracked"]) (simp add: all_tracked_def)
qed

section \<open>Witnesses\<close>

definition log_read :: "log \<Rightarrow> gostring \<Rightarrow> gostring option" where
  "log_read w q = map_of (rev w) q"

lemma log_reads: "reads_os (e_Os demo_env) log_read"
  by (simp add: reads_os_def demo_env_def log_os_def log_read_def map_add_def)

lemma demo_base: "list_all normal_comp [''work'', ''iter_1'']" "ah_iterDir demo_handler = abs_of [''work'', ''iter_1'']"
    "ah_files demo_handler = []"
  by code_simp+

lemma demo_writes:
  "write_disk demo_env demo_handler \<lparr>wc_Path = ''x'', wc_Content = ''a'', wc_Phase = WStart\<rparr> [] =
     (WWritten, [(''/work/iter_1/x'', ''a'')])"
  "write_disk demo_env demo_handler \<lparr>wc_Path = ''x'', wc_Content = ''b'', wc_Phase = WStart\<rparr> [(''/work/iter_1/x'', ''a'')] =
     (WWritten, [(''/work/iter_1/x'', ''a''), (''/work/iter_1/x'', ''b'')])"
  by code_simp+

theorem parallel_writes_diverge_witness:
  "\<exists>s'. (race_step demo_env)\<^sup>*\<^sup>* (race_start [] demo_handler [(''x'', ''a''), (''x'', ''b'')]) s' \<and> all_tracked s' \<and>
    gm_get (ah_files (rs_Handler s')) ''x'' = Some ''a'' \<and>
    log_read (rs_World s') (target [''work'', ''iter_1''] ''x'') = Some ''b''"
  by (rule parallel_writes_diverge [OF log_reads demo_base(1) _ demo_base(2) demo_writes]) simp

lemma demo_one_write:
  "(race_step demo_env)\<^sup>*\<^sup>* (race_start [] demo_handler [(''x'', ''a'')])
     \<lparr>rs_World = [(''/work/iter_1/x'', ''a'')],
      rs_Handler = demo_handler\<lparr>ah_files := [(''x'', ''a'')]\<rparr>,
      rs_Calls = [\<lparr>wc_Path = ''x'', wc_Content = ''a'', wc_Phase = WTracked\<rparr>]\<rparr>"
proof -
  let ?s = "\<lambda>w h x. \<lparr>rs_World = w, rs_Handler = h, rs_Calls = [\<lparr>wc_Path = ''x'', wc_Content = ''a'', wc_Phase = x\<rparr>]\<rparr>"
  have "race_step demo_env (?s [] demo_handler WStart) (?s [(''/work/iter_1/x'', ''a'')] demo_handler WWritten)"
    using race_step.disk [of 0 "?s [] demo_handler WStart" demo_env] demo_writes(1) by simp
  moreover have "race_step demo_env (?s [(''/work/iter_1/x'', ''a'')] demo_handler WWritten)
      (?s [(''/work/iter_1/x'', ''a'')] (demo_handler\<lparr>ah_files := [(''x'', ''a'')]\<rparr>) WTracked)"
    using race_step.track [of 0 "?s [(''/work/iter_1/x'', ''a'')] demo_handler WWritten" demo_env]
    by (simp add: track_file_def demo_handler_def gm_put_def)
  ultimately show ?thesis
    by (simp add: race_start_def)
qed

theorem parallel_writes_agree_witness:
  "log_read [(''/work/iter_1/x'', ''a'')] (target [''work'', ''iter_1''] ''x'') = Some ''a''"
  using parallel_writes_agree [OF log_reads demo_base(1) _ demo_base(2) _ _ _ _ demo_one_write] demo_base(3)
  by (simp add: all_tracked_def gm_wf_def)

text \<open>Also without any race two spellings of one file leave two entries, the older of them stale.\<close>

definition alias_agent :: "log aprog" where
  "alias_agent =
     ACall \<lparr>tc_ID = ''1'', tc_Name = ''write_file'', tc_Input = (''{'' @ [CHR 0x22] @ ''path'' @ [CHR 0x22] @ '':'' @ [CHR 0x22] @ ''x'' @ [CHR 0x22] @
             '','' @ [CHR 0x22] @ ''content'' @ [CHR 0x22] @ '':'' @ [CHR 0x22] @ ''a'' @
             [CHR 0x22] @ ''}'')\<rparr> []
       (\<lambda>r1 w1. ACall \<lparr>tc_ID = ''2'', tc_Name = ''write_file'', tc_Input = (''{'' @ [CHR 0x22] @ ''path'' @ [CHR 0x22] @ '':'' @ [CHR 0x22] @ ''./x'' @
             [CHR 0x22] @ '','' @ [CHR 0x22] @ ''content'' @ [CHR 0x22] @ '':'' @ [CHR 0x22] @
             ''b'' @ [CHR 0x22] @ ''}'')\<rparr> w1
          (\<lambda>r2 w2. ADone (Inl (new_err [])) w2))"

lemma alias_stale:
  "snd (run_aprog alias_agent demo_env demo_handler) =
     (\<lparr>ah_iterDir = abs_of [''work'', ''iter_1''], ah_files = [(''x'', ''a''), (''./x'', ''b'')]\<rparr>,
      [(''/work/iter_1/x'', ''a''), (''/work/iter_1/x'', ''b'')])"
  by code_simp

end
