(* ===== verification/Preflight.thy ===== *)
theory Preflight
  imports Attractor_Tools Spec_Doc Scenario_Runner
begin

text \<open>
  The clarity checks before a run (\<open>internal/preflight/preflight.go\<close>, \<open>scenario.go\<close>) and the commands that
  make them (\<open>cmd/octog/main.go\<close>: \<open>runPreflightCheck\<close>, \<open>parseAndCheckPreflight\<close>, \<open>preflightCmd\<close>). The model
  client, the file system and the parser of the specification file are parameters; log output is left out,
  what the commands print is a text.
\<close>

section \<open>The answer of the model\<close>

definition pf_errMalformed :: gostring where
  "pf_errMalformed = ''preflight: malformed LLM response''"

record preflightResult =
  pr_GoalClarity :: float64
  pr_ConstraintClarity :: float64
  pr_SuccessClarity :: float64
  pr_AggregateScore :: float64
  pr_Pass :: bool
  pr_Questions :: "gostring list"
  pr_Strengths :: "gostring list gomap"
  pr_Gaps :: "gostring list gomap"

record preflightResponse =
  pp_GoalClarity :: float64
  pp_ConstraintClarity :: float64
  pp_SuccessClarity :: float64
  pp_Questions :: "gostring list gomap"
  pp_Strengths :: "gostring list gomap"
  pp_Gaps :: "gostring list gomap"

text \<open>The constants 0.4 and 0.3 are rounded to float64.\<close>

definition computeAggregate :: "float64 \<Rightarrow> float64 \<Rightarrow> float64 \<Rightarrow> float64" where
  "computeAggregate goal constr success =
     fadd (fadd (fmul goal (fl (2 / 5))) (fmul constr (fl (3 / 10)))) (fmul success (fl (3 / 10)))"

definition buildSystemPrompt :: gostring where
  "buildSystemPrompt =
     (''You are a specification clarity analyst. Your job is to assess how well a so'' @
      ''ftware specification communicates its requirements to an automated code gene'' @
      ''rator.'' @ [NL] @ [NL] @
      ''Evaluate the spec on three dimensions, each scored from 0.0 (completely uncl'' @
      ''ear) to 1.0 (perfectly clear):'' @ [NL] @ [NL] @
      ''- goal_clarity: Does the spec clearly define WHAT the software should do? Ar'' @
      ''e the core behaviors and purpose unambiguous?'' @ [NL] @
      ''- constraint_clarity: Does the spec clearly define HOW the software should w'' @
      ''ork? Are technical constraints, interfaces, and non-functional requirements '' @
      ''specified?'' @ [NL] @
      ''- success_clarity: Does the spec clearly define how to verify success? Are a'' @
      ''cceptance criteria measurable and testable?'' @ [NL] @ [NL] @
      ''For each dimension, provide:'' @ [NL] @ ''- '' @ [CHR 0x22] @ ''strengths'' @ [CHR 0x22] @
      '': 2'' @ [CHR 0xE2, CHR 0x80, CHR 0x93] @
      ''4 bullets describing what the spec does well for that dimension'' @ [NL] @ ''- '' @
      [CHR 0x22] @ ''gaps'' @ [CHR 0x22] @ '': 0'' @ [CHR 0xE2, CHR 0x80, CHR 0x93] @
      ''4 bullets describing specific, actionable gaps that would raise the score if'' @
      '' addressed'' @ [NL] @ [NL] @ ''For any dimension scoring below the caller'' @ [CHR 0x27] @
      ''s threshold, also provide clarifying questions in '' @ [CHR 0x22] @ ''questions'' @
      [CHR 0x22] @ ''.'' @ [NL] @ [NL] @
      ''Respond ONLY with valid JSON matching this exact schema:'' @ [NL] @ ''{'' @ [NL] @ ''  '' @
      [CHR 0x22] @ ''goal_clarity'' @ [CHR 0x22] @ '': <float 0.0-1.0>,'' @ [NL] @ ''  '' @
      [CHR 0x22] @ ''constraint_clarity'' @ [CHR 0x22] @ '': <float 0.0-1.0>,'' @ [NL] @ ''  '' @
      [CHR 0x22] @ ''success_clarity'' @ [CHR 0x22] @ '': <float 0.0-1.0>,'' @ [NL] @ ''  '' @
      [CHR 0x22] @ ''strengths'' @ [CHR 0x22] @ '': {'' @ [NL] @ ''    '' @ [CHR 0x22] @ ''goal'' @
      [CHR 0x22] @ '': ['' @ [CHR 0x22] @ ''strength1'' @ [CHR 0x22] @ '', '' @ [CHR 0x22] @
      ''strength2'' @ [CHR 0x22] @ ''],'' @ [NL] @ ''    '' @ [CHR 0x22] @ ''constraint'' @
      [CHR 0x22] @ '': ['' @ [CHR 0x22] @ ''strength1'' @ [CHR 0x22] @ ''],'' @ [NL] @ ''    '' @
      [CHR 0x22] @ ''success'' @ [CHR 0x22] @ '': ['' @ [CHR 0x22] @ ''strength1'' @ [CHR 0x22] @
      '']'' @ [NL] @ ''  },'' @ [NL] @ ''  '' @ [CHR 0x22] @ ''gaps'' @ [CHR 0x22] @ '': {'' @
      [NL] @ ''    '' @ [CHR 0x22] @ ''goal'' @ [CHR 0x22] @ '': ['' @ [CHR 0x22] @ ''gap1'' @
      [CHR 0x22] @ ''],'' @ [NL] @ ''    '' @ [CHR 0x22] @ ''constraint'' @ [CHR 0x22] @ '': ['' @
      [CHR 0x22] @ ''gap1'' @ [CHR 0x22] @ '', '' @ [CHR 0x22] @ ''gap2'' @ [CHR 0x22] @ ''],'' @
      [NL] @ ''    '' @ [CHR 0x22] @ ''success'' @ [CHR 0x22] @ '': []'' @ [NL] @ ''  },'' @ [NL] @
      ''  '' @ [CHR 0x22] @ ''questions'' @ [CHR 0x22] @ '': {'' @ [NL] @ ''    '' @ [CHR 0x22] @
      ''goal'' @ [CHR 0x22] @ '': ['' @ [CHR 0x22] @ ''question1'' @ [CHR 0x22] @ '', '' @
      [CHR 0x22] @ ''question2'' @ [CHR 0x22] @ ''],'' @ [NL] @ ''    '' @ [CHR 0x22] @
      ''constraint'' @ [CHR 0x22] @ '': ['' @ [CHR 0x22] @ ''question1'' @ [CHR 0x22] @ ''],'' @
      [NL] @ ''    '' @ [CHR 0x22] @ ''success'' @ [CHR 0x22] @ '': ['' @ [CHR 0x22] @
      ''question1'' @ [CHR 0x22] @ '']'' @ [NL] @ ''  }'' @ [NL] @ ''}'' @ [NL] @ [NL] @
      ''Example response for a clear spec:'' @ [NL] @ ''{'' @ [NL] @ ''  '' @ [CHR 0x22] @
      ''goal_clarity'' @ [CHR 0x22] @ '': 0.95,'' @ [NL] @ ''  '' @ [CHR 0x22] @
      ''constraint_clarity'' @ [CHR 0x22] @ '': 0.88,'' @ [NL] @ ''  '' @ [CHR 0x22] @
      ''success_clarity'' @ [CHR 0x22] @ '': 0.92,'' @ [NL] @ ''  '' @ [CHR 0x22] @ ''strengths'' @
      [CHR 0x22] @ '': {'' @ [NL] @ ''    '' @ [CHR 0x22] @ ''goal'' @ [CHR 0x22] @ '': ['' @
      [CHR 0x22] @ ''Core user flows are explicitly enumerated'' @ [CHR 0x22] @ '', '' @
      [CHR 0x22] @ ''Problem statement is unambiguous'' @ [CHR 0x22] @ ''],'' @ [NL] @ ''    '' @
      [CHR 0x22] @ ''constraint'' @ [CHR 0x22] @ '': ['' @ [CHR 0x22] @
      ''API contract is fully specified'' @ [CHR 0x22] @ '', '' @ [CHR 0x22] @
      ''Performance budget is defined'' @ [CHR 0x22] @ ''],'' @ [NL] @ ''    '' @ [CHR 0x22] @
      ''success'' @ [CHR 0x22] @ '': ['' @ [CHR 0x22] @ ''Acceptance criteria are measurable'' @
      [CHR 0x22] @ '', '' @ [CHR 0x22] @ ''Test scenarios are concrete'' @ [CHR 0x22] @ '']'' @
      [NL] @ ''  },'' @ [NL] @ ''  '' @ [CHR 0x22] @ ''gaps'' @ [CHR 0x22] @ '': {'' @ [NL] @
      ''    '' @ [CHR 0x22] @ ''goal'' @ [CHR 0x22] @ '': [],'' @ [NL] @ ''    '' @ [CHR 0x22] @
      ''constraint'' @ [CHR 0x22] @ '': ['' @ [CHR 0x22] @
      ''Error handling behavior under load is unspecified'' @ [CHR 0x22] @ ''],'' @ [NL] @
      ''    '' @ [CHR 0x22] @ ''success'' @ [CHR 0x22] @ '': []'' @ [NL] @ ''  },'' @ [NL] @
      ''  '' @ [CHR 0x22] @ ''questions'' @ [CHR 0x22] @ '': {}'' @ [NL] @ ''}'' @ [NL] @ [NL] @
      ''Example response for an unclear spec:'' @ [NL] @ ''{'' @ [NL] @ ''  '' @ [CHR 0x22] @
      ''goal_clarity'' @ [CHR 0x22] @ '': 0.4,'' @ [NL] @ ''  '' @ [CHR 0x22] @
      ''constraint_clarity'' @ [CHR 0x22] @ '': 0.6,'' @ [NL] @ ''  '' @ [CHR 0x22] @
      ''success_clarity'' @ [CHR 0x22] @ '': 0.3,'' @ [NL] @ ''  '' @ [CHR 0x22] @ ''strengths'' @
      [CHR 0x22] @ '': {'' @ [NL] @ ''    '' @ [CHR 0x22] @ ''goal'' @ [CHR 0x22] @ '': ['' @
      [CHR 0x22] @ ''High-level purpose is stated'' @ [CHR 0x22] @ ''],'' @ [NL] @ ''    '' @
      [CHR 0x22] @ ''constraint'' @ [CHR 0x22] @ '': ['' @ [CHR 0x22] @
      ''Technology stack is named'' @ [CHR 0x22] @ '', '' @ [CHR 0x22] @
      ''Deployment target is specified'' @ [CHR 0x22] @ ''],'' @ [NL] @ ''    '' @ [CHR 0x22] @
      ''success'' @ [CHR 0x22] @ '': ['' @ [CHR 0x22] @ ''One passing criterion is given'' @
      [CHR 0x22] @ '']'' @ [NL] @ ''  },'' @ [NL] @ ''  '' @ [CHR 0x22] @ ''gaps'' @ [CHR 0x22] @
      '': {'' @ [NL] @ ''    '' @ [CHR 0x22] @ ''goal'' @ [CHR 0x22] @ '': ['' @ [CHR 0x22] @
      ''Primary user-facing features are not listed'' @ [CHR 0x22] @ '', '' @ [CHR 0x22] @
      ''Edge cases are absent'' @ [CHR 0x22] @ ''],'' @ [NL] @ ''    '' @ [CHR 0x22] @
      ''constraint'' @ [CHR 0x22] @ '': ['' @ [CHR 0x22] @
      ''API request/response shapes are missing'' @ [CHR 0x22] @ ''],'' @ [NL] @ ''    '' @
      [CHR 0x22] @ ''success'' @ [CHR 0x22] @ '': ['' @ [CHR 0x22] @
      ''No measurable thresholds defined'' @ [CHR 0x22] @ '', '' @ [CHR 0x22] @
      ''No negative test cases specified'' @ [CHR 0x22] @ '']'' @ [NL] @ ''  },'' @ [NL] @ ''  '' @
      [CHR 0x22] @ ''questions'' @ [CHR 0x22] @ '': {'' @ [NL] @ ''    '' @ [CHR 0x22] @ ''goal'' @
      [CHR 0x22] @ '': ['' @ [CHR 0x22] @ ''What are the primary user-facing features?'' @
      [CHR 0x22] @ '', '' @ [CHR 0x22] @ ''What problem does this software solve?'' @ [CHR 0x22] @
      ''],'' @ [NL] @ ''    '' @ [CHR 0x22] @ ''success'' @ [CHR 0x22] @ '': ['' @ [CHR 0x22] @
      ''How will success be measured?'' @ [CHR 0x22] @ '', '' @ [CHR 0x22] @
      ''What constitutes a passing test?'' @ [CHR 0x22] @ '']'' @ [NL] @ ''  }'' @ [NL] @ ''}'')"

definition buildUserPrompt :: "gostring \<Rightarrow> gostring" where
  "buildUserPrompt specContent = (''Assess the following spec for clarity:'' @ [NL] @ [NL]) @ specContent"

text \<open>Decoding of floats, of maps of lists and of the response.\<close>

definition dec_float :: "json \<Rightarrow> float64 \<Rightarrow> float64 option" where
  "dec_float v old = (case v of JNum l \<Rightarrow> ParseFloat l | JNull \<Rightarrow> Some old | _ \<Rightarrow> None)"

definition dec_lists :: "json \<Rightarrow> gostring list gomap \<Rightarrow> gostring list gomap option" where
  "dec_lists v old =
     (case v of
        JNull \<Rightarrow> Some []
      | JObj ms \<Rightarrow> fold (\<lambda>(k, x) acc. case acc of None \<Rightarrow> None
          | Some m \<Rightarrow> map_option (\<lambda>ss. gm_put k ss m) (dec_strings x)) ms (Some old)
      | _ \<Rightarrow> None)"

definition preflight_fields :: "gostring list" where
  "preflight_fields = [''goal_clarity'', ''constraint_clarity'', ''success_clarity'', ''questions'', ''strengths'', ''gaps'']"

definition unmarshal_preflight :: "gostring \<Rightarrow> preflightResponse option" where
  "unmarshal_preflight data =
     (case dec_object data of
        None \<Rightarrow> None
      | Some ms \<Rightarrow>
          let vs = field_values preflight_fields ms in
          (case ((dec_field dec_float (vs ''goal_clarity'') fzero, dec_field dec_float (vs ''constraint_clarity'') fzero,
                  dec_field dec_float (vs ''success_clarity'') fzero),
                 (dec_field dec_lists (vs ''questions'') [], dec_field dec_lists (vs ''strengths'') [],
                  dec_field dec_lists (vs ''gaps'') [])) of
             ((Some g, Some c, Some s), (Some q, Some st, Some ga)) \<Rightarrow>
               Some \<lparr>pp_GoalClarity = g, pp_ConstraintClarity = c, pp_SuccessClarity = s, pp_Questions = q,
                 pp_Strengths = st, pp_Gaps = ga\<rparr>
           | _ \<Rightarrow> None))"

definition out_of_unit :: "float64 \<Rightarrow> bool" where
  "out_of_unit f \<longleftrightarrow> fless f fzero \<or> fless (FNum 1) f"

definition parseResponse :: "gostring \<Rightarrow> goerr + preflightResponse" where
  "parseResponse raw =
     (case unmarshal_preflight (ExtractJSON raw) of
        None \<Rightarrow> Inl \<lparr>er_msg = pf_errMalformed, er_is = [pf_errMalformed]\<rparr>
      | Some r \<Rightarrow>
          if out_of_unit (pp_GoalClarity r) \<or> out_of_unit (pp_ConstraintClarity r) \<or> out_of_unit (pp_SuccessClarity r)
          then Inl \<lparr>er_msg = pf_errMalformed @ '': scores must be in [0, 1]'', er_is = [pf_errMalformed]\<rparr>
          else Inr r)"

section \<open>The clarity of a specification\<close>

definition lookup_list :: "gostring list gomap \<Rightarrow> gostring \<Rightarrow> gostring list" where
  "lookup_list m k = (case gm_get m k of None \<Rightarrow> [] | Some ss \<Rightarrow> ss)"

text \<open>The questions of the dimensions below the threshold, in a fixed order.\<close>

definition open_questions :: "float64 \<Rightarrow> preflightResponse \<Rightarrow> gostring list" where
  "open_questions threshold r =
     concat (map (\<lambda>(key, score).
         if fless score threshold
         then map (\<lambda>q. CHR ''['' # key @ ''] '' @ q) (lookup_list (pp_Questions r) key) else [])
       [(''goal'', pp_GoalClarity r), (''constraint'', pp_ConstraintClarity r), (''success'', pp_SuccessClarity r)])"

definition check_request :: "gostring \<Rightarrow> gostring \<Rightarrow> generateRequest" where
  "check_request model specContent =
     \<lparr>gr_SystemPrompt = buildSystemPrompt,
      gr_Messages = [\<lparr>m_Role = ''user'', m_Content = buildUserPrompt specContent\<rparr>],
      gr_MaxTokens = 2048, gr_Model = model, gr_CacheControl = Some ''ephemeral'', gr_Temperature = None\<rparr>"

definition check_result :: "float64 \<Rightarrow> preflightResponse \<Rightarrow> preflightResult" where
  "check_result threshold r =
     (let agg = computeAggregate (pp_GoalClarity r) (pp_ConstraintClarity r) (pp_SuccessClarity r) in
      \<lparr>pr_GoalClarity = pp_GoalClarity r, pr_ConstraintClarity = pp_ConstraintClarity r,
       pr_SuccessClarity = pp_SuccessClarity r, pr_AggregateScore = agg, pr_Pass = fleq threshold agg,
       pr_Questions = open_questions threshold r, pr_Strengths = pp_Strengths r, pr_Gaps = pp_Gaps r\<rparr>)"

definition preflight_Check ::
    "'w generate \<Rightarrow> gostring \<Rightarrow> gostring \<Rightarrow> float64 \<Rightarrow> 'w \<Rightarrow> (goerr + preflightResult) \<times> 'w" where
  "preflight_Check generate model specContent threshold w =
     (case generate (check_request model specContent) w of
        (Inl e, w1) \<Rightarrow> (Inl (wrap_err ''preflight: generate'' e), w1)
      | (Inr resp, w1) \<Rightarrow>
          (case parseResponse (gp_Content resp) of
             Inl e \<Rightarrow> (Inl e, w1)
           | Inr r \<Rightarrow> (Inr (check_result threshold r), w1)))"

section \<open>The quality of scenarios\<close>

record scenarioIssue =
  si_Scenario :: gostring
  si_Dimension :: gostring
  si_Detail :: gostring

record scenarioResult =
  sq_Coverage :: float64
  sq_Feasibility :: float64
  sq_Isolation :: float64
  sq_Chains :: float64
  sq_Aggregate :: float64
  sq_Pass :: bool
  sq_Issues :: "scenarioIssue list"

record scenarioPreflightResponse =
  sx_Coverage :: float64
  sx_Feasibility :: float64
  sx_Isolation :: float64
  sx_Chains :: float64
  sx_Issues :: "scenarioIssue list"

definition maxScenarioTotalBytes :: int where "maxScenarioTotalBytes = 5 * 1024 * 1024"

definition errScenariosTooLarge :: gostring where
  "errScenariosTooLarge = ''preflight: total scenario file size exceeds 5 MB limit''"

definition errMalformedScenarioResponse :: gostring where
  "errMalformedScenarioResponse = ''preflight: malformed scenario LLM response''"

definition errNoScenarios :: gostring where
  "errNoScenarios = ''preflight: no YAML scenario files found in directory''"

definition buildScenarioSystemPrompt :: gostring where
  "buildScenarioSystemPrompt =
     (''You are a scenario quality analyst. Your job is to assess how well a set of '' @
      ''test scenarios covers and exercises a software specification.'' @ [NL] @ [NL] @
      ''Evaluate the scenarios on four dimensions, each scored from 0.0 (completely '' @
      ''inadequate) to 1.0 (excellent):'' @ [NL] @ [NL] @
      ''- coverage: Do the scenarios collectively exercise all behaviors described i'' @
      ''n the spec? Are happy paths, edge cases, and failure modes represented? Scop'' @
      ''e your coverage evaluation to behavior that is testable via the step types p'' @
      ''resent in the scenarios '' @ [CHR 0xE2, CHR 0x80, CHR 0x94] @
      '' for example, exec-only suites should be scored against CLI-observable behav'' @
      ''ior such as exit codes, stdout/stderr, and file system effects. Flag genuine'' @
      '' gaps only when the spec describes behavior that the available step types co'' @
      ''uld reasonably test.'' @ [NL] @
      ''- feasibility: Are the scenarios executable as written? Do steps reference v'' @
      ''alid endpoints, actions, and data that an implementation could satisfy? Do n'' @
      ''ot penalize exec steps for referencing the project binary '' @
      [CHR 0xE2, CHR 0x80, CHR 0x94] @
      '' it is built and placed in PATH by the build system before scenarios execute'' @ ''.'' @
      [NL] @ ''- isolation: Does each scenario test one coherent behavior? Are scenarios fr'' @
      ''ee from hidden dependencies on each other'' @ [CHR 0x27] @ ''s side effects?'' @ [NL] @
      ''- chains: For multi-step scenarios, do step sequences form coherent chains? '' @
      ''Are captures and variable substitutions used correctly?'' @ [NL] @ [NL] @
      ''For any issues found, report them with the scenario name, affected dimension'' @
      '', and a concise actionable description.'' @ [NL] @ [NL] @
      ''Respond ONLY with valid JSON matching this exact schema:'' @ [NL] @ ''{'' @ [NL] @ ''  '' @
      [CHR 0x22] @ ''coverage'' @ [CHR 0x22] @ '': <float 0.0-1.0>,'' @ [NL] @ ''  '' @
      [CHR 0x22] @ ''feasibility'' @ [CHR 0x22] @ '': <float 0.0-1.0>,'' @ [NL] @ ''  '' @
      [CHR 0x22] @ ''isolation'' @ [CHR 0x22] @ '': <float 0.0-1.0>,'' @ [NL] @ ''  '' @
      [CHR 0x22] @ ''chains'' @ [CHR 0x22] @ '': <float 0.0-1.0>,'' @ [NL] @ ''  '' @ [CHR 0x22] @
      ''issues'' @ [CHR 0x22] @ '': ['' @ [NL] @ ''    {'' @ [CHR 0x22] @ ''scenario'' @
      [CHR 0x22] @ '': '' @ [CHR 0x22] @ ''<name>'' @ [CHR 0x22] @ '', '' @ [CHR 0x22] @
      ''dimension'' @ [CHR 0x22] @ '': '' @ [CHR 0x22] @
      ''<coverage|feasibility|isolation|chains>'' @ [CHR 0x22] @ '', '' @ [CHR 0x22] @ ''detail'' @
      [CHR 0x22] @ '': '' @ [CHR 0x22] @ ''<actionable description>'' @ [CHR 0x22] @ ''}'' @ [NL] @
      ''  ]'' @ [NL] @ ''}'' @ [NL] @ [NL] @ ''If there are no issues, set '' @ [CHR 0x22] @
      ''issues'' @ [CHR 0x22] @ '' to an empty array [].'')"

definition buildScenarioUserPrompt :: "gostring \<Rightarrow> gostring gomap \<Rightarrow> gostring" where
  "buildScenarioUserPrompt specContent scenarioYAMLs =
     (''Assess the following scenarios against the spec.'' @ [NL] @ [NL] @ ''## Spec'' @ [NL] @
      [NL]) @ specContent @ ([NL] @ [NL] @ ''## Scenarios'' @ [NL] @ [NL]) @ concat (map (\<lambda>name. ''### '' @ name @ ([NL] @ [NL] @ ''```yaml'' @ [NL]) @ (case gm_get scenarioYAMLs name of None \<Rightarrow> [] | Some d \<Rightarrow> d) @ ([NL] @ ''```'' @ [NL] @ [NL])) (gm_sorted_keys scenarioYAMLs))"

definition dec_issue :: "json \<Rightarrow> scenarioIssue option" where
  "dec_issue v =
     (case (case v of JObj ms \<Rightarrow> Some ms | JNull \<Rightarrow> Some [] | _ \<Rightarrow> None) of
        None \<Rightarrow> None
      | Some ms \<Rightarrow>
          let vs = field_values [''scenario'', ''dimension'', ''detail''] ms in
          (case (dec_field dec_string (vs ''scenario'') [], dec_field dec_string (vs ''dimension'') [],
                 dec_field dec_string (vs ''detail'') []) of
             (Some s, Some d, Some t) \<Rightarrow> Some \<lparr>si_Scenario = s, si_Dimension = d, si_Detail = t\<rparr>
           | _ \<Rightarrow> None))"

definition unmarshal_scenario_response :: "gostring \<Rightarrow> scenarioPreflightResponse option" where
  "unmarshal_scenario_response data =
     (case dec_object data of
        None \<Rightarrow> None
      | Some ms \<Rightarrow>
          let vs = field_values [''coverage'', ''feasibility'', ''isolation'', ''chains'', ''issues''] ms in
          (case ((dec_field dec_float (vs ''coverage'') fzero, dec_field dec_float (vs ''feasibility'') fzero,
                  dec_field dec_float (vs ''isolation'') fzero, dec_field dec_float (vs ''chains'') fzero),
                 dec_field (\<lambda>v _. dec_list dec_issue v) (vs ''issues'') []) of
             ((Some c, Some f, Some i, Some ch), Some is) \<Rightarrow>
               Some \<lparr>sx_Coverage = c, sx_Feasibility = f, sx_Isolation = i, sx_Chains = ch, sx_Issues = is\<rparr>
           | _ \<Rightarrow> None))"

definition validDimensions :: "gostring list" where
  "validDimensions = [''coverage'', ''feasibility'', ''isolation'', ''chains'']"

text \<open>The first issue with an unknown dimension is the error.\<close>

definition unknown_dimension :: "scenarioIssue list \<Rightarrow> gostring option" where
  "unknown_dimension issues =
     map_option si_Dimension (find (\<lambda>i. si_Dimension i \<noteq> [] \<and> \<not> List.member validDimensions (si_Dimension i)) issues)"

definition parseScenarioResponse :: "gostring \<Rightarrow> goerr + scenarioPreflightResponse" where
  "parseScenarioResponse raw =
     (let bad = (\<lambda>m. Inl \<lparr>er_msg = errMalformedScenarioResponse @ m, er_is = [errMalformedScenarioResponse]\<rparr>) in
      case unmarshal_scenario_response (ExtractJSON raw) of
        None \<Rightarrow> bad []
      | Some r \<Rightarrow>
          if list_ex out_of_unit [sx_Coverage r, sx_Feasibility r, sx_Isolation r, sx_Chains r]
          then bad '': scores must be in [0, 1]''
          else (case unknown_dimension (sx_Issues r) of
             Some d \<Rightarrow> bad ('': unknown dimension '' @ go_quote d)
           | None \<Rightarrow> Inr r))"

definition computeScenarioAggregate :: "float64 \<Rightarrow> float64 \<Rightarrow> float64 \<Rightarrow> float64 \<Rightarrow> float64" where
  "computeScenarioAggregate coverage feasibility isolation chain =
     fdiv (fadd (fadd (fadd coverage feasibility) isolation) chain) (FNum 4)"

record scenarioEntry =
  se_Name :: gostring
  se_IsDir :: bool
  se_IsSymlink :: bool

definition scenario_candidate :: "scenarioEntry \<Rightarrow> bool" where
  "scenario_candidate e \<longleftrightarrow>
     \<not> se_IsDir e \<and> \<not> se_IsSymlink e \<and> \<not> has_prefix (se_Name e) ''.'' \<and>
     (let ext = to_lower (path_ext (se_Name e)) in ext = ''.yaml'' \<or> ext = ''.yml'')"

text \<open>The loop over the directory: the files read so far and their total size.\<close>

fun read_scenarios ::
    "(gostring \<Rightarrow> goerr + gostring) \<Rightarrow> gostring \<Rightarrow> scenarioEntry list \<Rightarrow> int \<Rightarrow> gostring gomap \<Rightarrow> goerr + gostring gomap" where
  "read_scenarios read dir [] size0 acc = Inr acc"
| "read_scenarios read dir (e # es) size0 acc =
     (if \<not> scenario_candidate e then read_scenarios read dir es size0 acc
      else (case read (join_path [dir, se_Name e]) of
          Inl err \<Rightarrow> Inl (wrap_err (''read scenario file '' @ se_Name e) err)
        | Inr data \<Rightarrow>
            let total1 = size0 + int (length data) in
            if maxScenarioTotalBytes < total1 then Inl (new_err errScenariosTooLarge)
            else read_scenarios read dir es total1 (gm_put (se_Name e) data acc)))"

definition scenarios_request :: "gostring \<Rightarrow> gostring \<Rightarrow> gostring gomap \<Rightarrow> generateRequest" where
  "scenarios_request model specContent yamls =
     \<lparr>gr_SystemPrompt = buildScenarioSystemPrompt,
      gr_Messages = [\<lparr>m_Role = ''user'', m_Content = buildScenarioUserPrompt specContent yamls\<rparr>],
      gr_MaxTokens = 2048, gr_Model = model, gr_CacheControl = Some ''ephemeral'', gr_Temperature = None\<rparr>"

definition scenarios_result :: "float64 \<Rightarrow> scenarioPreflightResponse \<Rightarrow> scenarioResult" where
  "scenarios_result threshold r =
     (let agg = computeScenarioAggregate (sx_Coverage r) (sx_Feasibility r) (sx_Isolation r) (sx_Chains r) in
      \<lparr>sq_Coverage = sx_Coverage r, sq_Feasibility = sx_Feasibility r, sq_Isolation = sx_Isolation r,
       sq_Chains = sx_Chains r, sq_Aggregate = agg, sq_Pass = fleq threshold agg, sq_Issues = sx_Issues r\<rparr>)"

definition CheckScenarios ::
    "'w generate \<Rightarrow> (gostring \<Rightarrow> goerr + scenarioEntry list) \<Rightarrow> (gostring \<Rightarrow> goerr + gostring) \<Rightarrow> gostring \<Rightarrow>
     gostring \<Rightarrow> gostring \<Rightarrow> float64 \<Rightarrow> 'w \<Rightarrow> (goerr + scenarioResult) \<times> 'w" where
  "CheckScenarios generate readDir read model specContent scenarioDir threshold w =
     (case readDir scenarioDir of
        Inl e \<Rightarrow> (Inl (wrap_err ''read scenario dir'' e), w)
      | Inr entries \<Rightarrow>
          (case read_scenarios read scenarioDir entries 0 [] of
             Inl e \<Rightarrow> (Inl e, w)
           | Inr yamls \<Rightarrow>
               if yamls = [] then (Inl (new_err errNoScenarios), w)
               else (case generate (scenarios_request model specContent yamls) w of
                   (Inl e, w1) \<Rightarrow> (Inl (wrap_err ''scenario preflight: generate'' e), w1)
                 | (Inr resp, w1) \<Rightarrow>
                     (case parseScenarioResponse (gp_Content resp) of
                        Inl e \<Rightarrow> (Inl e, w1)
                      | Inr r \<Rightarrow> (Inr (scenarios_result threshold r), w1)))))"

section \<open>The commands\<close>

definition errPreflightFailed :: gostring where
  "errPreflightFailed = ''preflight: spec clarity below threshold''"

definition errScenarioPreflightFailed :: gostring where
  "errScenarioPreflightFailed = ''preflight: scenario quality below threshold''"

definition errInvalidPreflightThreshold :: gostring where
  "errInvalidPreflightThreshold = ''preflight threshold must be between 0.0 and 1.0''"

definition runPreflightCheck ::
    "'w generate \<Rightarrow> gostring \<Rightarrow> gostring \<Rightarrow> float64 \<Rightarrow> 'w \<Rightarrow> goerr option \<times> 'w" where
  "runPreflightCheck generate specContent model threshold w =
     (case preflight_Check generate model specContent threshold w of
        (Inl e, w1) \<Rightarrow> (Some (wrap_err ''preflight check'' e), w1)
      | (Inr r, w1) \<Rightarrow>
          (if \<not> pr_Pass r
           then Some \<lparr>er_msg = errPreflightFailed @ '' ('' @ fmt_f 2 (pr_AggregateScore r) @ '' < '' @ fmt_f 2 threshold @ '')'',
                  er_is = [errPreflightFailed]\<rparr>
           else None, w1))"

definition parseAndCheckPreflight ::
    "(gostring \<Rightarrow> goerr + spec) \<Rightarrow> 'w generate \<Rightarrow> gostring \<Rightarrow> gostring \<Rightarrow> float64 \<Rightarrow> bool \<Rightarrow> 'w \<Rightarrow> (goerr + spec) \<times> 'w" where
  "parseAndCheckPreflight parseFile generate specPath judgeModel threshold skip w =
     (if fless threshold fzero \<or> fless (FNum 1) threshold then (Inl (new_err errInvalidPreflightThreshold), w)
      else (case parseFile specPath of
          Inl e \<Rightarrow> (Inl (wrap_err ''parse spec'' e), w)
        | Inr sp \<Rightarrow>
            if skip then (Inr sp, w)
            else (case runPreflightCheck generate (sp_RawContent sp) judgeModel threshold w of
                (Some e, w1) \<Rightarrow> (Inl e, w1)
              | (None, w1) \<Rightarrow> (Inr sp, w1))))"

definition score_line :: "gostring \<Rightarrow> float64 \<Rightarrow> gostring" where
  "score_line label score = label @ fmt_f 2 score @ [NL]"

definition pad_right :: "nat \<Rightarrow> gostring \<Rightarrow> gostring" where
  "pad_right n s = s @ replicate (n - length s) (CHR '' '')"

definition printPreflightVerbose :: "preflightResult \<Rightarrow> gostring" where
  "printPreflightVerbose r =
     concat (map (\<lambda>(key, label, score).
         ''  '' @ score_line (pad_right 20 label) score @
         (let strengths = lookup_list (pr_Strengths r) key; gaps = lookup_list (pr_Gaps r) key in
          if strengths = [] \<and> gaps = [] then (''    (no details available)'' @ [NL])
          else concat (map (\<lambda>s. (''    '' @ check_mark @ '' '') @ s @ [NL]) strengths) @ concat (map (\<lambda>g. ''    ~ '' @ g @ [NL]) gaps)))
       [(''goal'', ''Goal clarity:'', pr_GoalClarity r), (''constraint'', ''Constraint clarity:'', pr_ConstraintClarity r),
        (''success'', ''Success clarity:'', pr_SuccessClarity r)])"

definition printSpecResult :: "preflightResult \<Rightarrow> float64 \<Rightarrow> bool \<Rightarrow> gostring \<times> goerr option" where
  "printSpecResult r threshold verbose =
     (let scores = (if verbose then printPreflightVerbose r
            else score_line ''  Goal clarity:       '' (pr_GoalClarity r) @
              score_line ''  Constraint clarity: '' (pr_ConstraintClarity r) @
              score_line ''  Success clarity:    '' (pr_SuccessClarity r));
          agg = ''  Aggregate score:    '' @ fmt_f 2 (pr_AggregateScore r) @ '' (threshold: '' @ fmt_f 2 threshold @ '')'' @ [NL]
      in if pr_Pass r then (scores @ agg @ (''  Status: PASS'' @ [NL]), None)
         else (scores @ agg @ (''  Status: WARN '' @ [CHR 0xE2, CHR 0x80, CHR 0x94] @
             '' spec clarity below threshold'' @ [NL]) @ (if pr_Questions r = [] then [] else ([NL] @ ''Suggested clarifications:'' @ [NL]) @ concat (map (\<lambda>q. ''  ? '' @ q @ [NL]) (pr_Questions r))), Some (new_err errPreflightFailed)))"

definition printScenarioPreflight :: "scenarioResult \<Rightarrow> float64 \<Rightarrow> gostring" where
  "printScenarioPreflight r threshold =
     (''Scenario preflight results:'' @ [NL]) @ score_line ''  Coverage:    '' (sq_Coverage r) @ score_line ''  Feasibility: '' (sq_Feasibility r) @
     score_line ''  Isolation:   '' (sq_Isolation r) @ score_line ''  Chains:      '' (sq_Chains r) @
     ''  Aggregate score: '' @ fmt_f 2 (sq_Aggregate r) @ '' (threshold: '' @ fmt_f 2 threshold @ '')'' @ [NL] @
     (if sq_Pass r then (''  Status: PASS'' @ [NL]) else (''  Status: WARN '' @ [CHR 0xE2, CHR 0x80, CHR 0x94] @
        '' scenario quality below threshold'' @ [NL])) @ (if sq_Issues r = [] then [] else ([NL] @ ''Scenario issues:'' @ [NL]) @ concat (map (\<lambda>i. ''  ['' @ si_Scenario i @ ''/'' @ si_Dimension i @ ''] '' @ si_Detail i @ [NL]) (sq_Issues r)))"

text \<open>\<open>octog preflight\<close> after its flags are parsed and its client and model are chosen: the text on the
  standard output and the error that becomes the exit code.\<close>

definition preflightCmd ::
    "'w generate \<Rightarrow> (gostring \<Rightarrow> goerr + spec) \<Rightarrow> (gostring \<Rightarrow> goerr + scenarioEntry list) \<Rightarrow> (gostring \<Rightarrow> goerr + gostring) \<Rightarrow>
     gostring \<Rightarrow> gostring \<Rightarrow> gostring \<Rightarrow> float64 \<Rightarrow> bool \<Rightarrow> 'w \<Rightarrow> gostring \<times> goerr option \<times> 'w" where
  "preflightCmd generate parseFile readDir read model specPath scenarios threshold verbose w =
     (if fless threshold fzero \<or> fless (FNum 1) threshold then ([], Some (new_err errInvalidPreflightThreshold), w)
      else (case parseFile specPath of
          Inl e \<Rightarrow> ([], Some (wrap_err ''parse spec'' e), w)
        | Inr sp \<Rightarrow>
            (case preflight_Check generate model (sp_RawContent sp) threshold w of
               (Inl e, w1) \<Rightarrow> ([], Some e, w1)
             | (Inr r, w1) \<Rightarrow>
                 let (txt, specErr) = printSpecResult r threshold verbose;
                     text1 = ''Preflight results for: '' @ specPath @ [NL] @ txt
                 in if scenarios = [] then (text1, specErr, w1)
                    else (case CheckScenarios generate readDir read model (sp_RawContent sp) scenarios threshold w1 of
                        (Inl e, w2) \<Rightarrow> (text1 @ [NL], Some e, w2)
                      | (Inr sr, w2) \<Rightarrow>
                          (text1 @ [NL] @ printScenarioPreflight sr threshold,
                           (case specErr of Some e \<Rightarrow> Some e
                            | None \<Rightarrow> if sq_Pass sr then None else Some (new_err errScenarioPreflightFailed)), w2)))))"

end
