(* ===== verification/Preflight_Facts.thy ===== *)
theory Preflight_Facts
  imports Preflight
begin

text \<open>
  What a passed check means: the scores are in range and so is their weighted aggregate, the aggregate
  reaches the threshold, and questions come only from dimensions below it; which files a scenario check reads.
\<close>

section \<open>Numbers of a JSON text\<close>

text \<open>A number literal is never one of the special names of the float parser, so no score is NaN.\<close>

fun plain_numbers :: "json \<Rightarrow> bool" where
  "plain_numbers (JNum l) \<longleftrightarrow> parse_special l = None"
| "plain_numbers (JArr vs) \<longleftrightarrow> (\<forall>v \<in> set vs. plain_numbers v)"
| "plain_numbers (JObj ms) \<longleftrightarrow> (\<forall>m \<in> set ms. plain_numbers (snd m))"
| "plain_numbers _ \<longleftrightarrow> True"

lemma special_digit: "is_digit c \<Longrightarrow> parse_special (c # t) = None \<and> parse_special (CHR ''-'' # c # t) = None"
proof -
  have "lower_byte (CHR ''-'') = CHR ''-''" "\<not> is_digit (CHR ''a'')" by code_simp+
  then show "is_digit c \<Longrightarrow> parse_special (c # t) = None \<and> parse_special (CHR ''-'' # c # t) = None"
    by (auto simp: parse_special_def split_sign_def lower_ascii_def is_digit_facts Let_def)
qed

lemma scan_number_plain: "scan_number s = Some (l, rest) \<Longrightarrow> parse_special l = None"
proof -
  assume s: "scan_number s = Some (l, rest)"
  obtain sg s1 where sg: "scan_sign s = (sg, s1)" by fastforce
  obtain i s2 where i: "scan_int s1 = (i, s2)" by fastforce
  have "i \<noteq> []" and l: "\<exists>q. l = sg @ i @ q"
    using s sg i by (auto simp: scan_number_def split: option.splits if_splits)
  moreover have "is_digit (hd i)"
    using i \<open>i \<noteq> []\<close> by (auto simp: scan_int_def take_digits_def split: list.splits if_splits)
      (auto simp: is_digit_def dest: set_takeWhileD)
  ultimately obtain c t where "i = c # t" "is_digit c" by (cases i) auto
  moreover have "sg = [] \<or> sg = ''-''" using sg by (auto simp: scan_sign_def split: list.splits if_splits)
  ultimately show ?thesis using l special_digit by auto
qed

lemma jvalue_plain:
  "jvalue n d s = Some (v, rest) \<Longrightarrow> plain_numbers v"
  "jelems n d s = Some (vs, rest) \<Longrightarrow> \<forall>v \<in> set vs. plain_numbers v"
  "jmembers n d s = Some (ms, rest) \<Longrightarrow> \<forall>m \<in> set ms. plain_numbers (snd m)"
proof (induction n d s and n d s and n d s arbitrary: v rest and vs rest and ms rest rule: jvalue_jelems_jmembers.induct)
  case (2 n d s0)
  then show ?case
    by (auto simp: Let_def split: list.splits if_splits dest: scan_number_plain)
next
  case (4 n d s)
  then show ?case by (auto split: option.splits list.splits if_splits prod.splits)
next
  case (6 n d s0)
  then show ?case by (auto split: option.splits list.splits if_splits prod.splits) fastforce+
qed auto

lemma json_parse_plain: "json_parse s = Some v \<Longrightarrow> plain_numbers v"
  by (auto simp: json_parse_def simp del: jvalue.simps split: option.splits if_splits dest: jvalue_plain(1))

lemma ParseFloat_not_NaN: "parse_special l = None \<Longrightarrow> ParseFloat l \<noteq> Some FNaN"
  by (auto simp: ParseFloat_def split: option.splits float64.splits)

lemma dec_float_not_NaN:
  assumes "\<forall>v \<in> set vs. plain_numbers v" and "x \<noteq> FNaN"
  shows "fold (\<lambda>v acc. case acc of None \<Rightarrow> None | Some x \<Rightarrow> dec_float v x) vs (Some x) \<noteq> Some FNaN"
  using assms
proof (induction vs arbitrary: x)
  case (Cons v vs)
  have n: "fold (\<lambda>v acc. case acc of None \<Rightarrow> None | Some x \<Rightarrow> dec_float v x) vs None = None" by (induction vs) auto
  show ?case
  proof (cases "dec_float v x")
    case None
    with n show ?thesis by simp
  next
    case (Some y)
    then have "y \<noteq> FNaN"
      using Cons.prems ParseFloat_not_NaN by (auto simp: dec_float_def split: json.splits)
    with Cons Some show ?thesis by simp
  qed
qed simp

lemma field_float_not_NaN:
  assumes "plain_numbers (JObj ms)" shows "dec_field dec_float (field_values names ms f) fzero \<noteq> Some FNaN"
  unfolding dec_field_def using assms by (intro dec_float_not_NaN) (auto simp: field_values_def)

lemma dec_object_plain: "dec_object s = Some ms \<Longrightarrow> plain_numbers (JObj ms)"
  using json_parse_plain [of s] by (auto simp: dec_object_def split: option.splits json.splits)

section \<open>Scores in range\<close>

definition in_unit :: "float64 \<Rightarrow> bool" where
  "in_unit f \<longleftrightarrow> fleq fzero f \<and> fleq f (FNum 1)"

lemma in_unit_num: "in_unit f \<longleftrightarrow> (\<exists>v. f = FNum v \<and> 0 \<le> v \<and> v \<le> 1)"
  by (cases f) (auto simp: in_unit_def fleq_constrs)

lemma unit_scores: "f \<noteq> FNaN \<Longrightarrow> \<not> out_of_unit f \<Longrightarrow> in_unit f"
  by (auto simp: out_of_unit_def in_unit_def not_fless)

lemma parseResponse_range:
  assumes "parseResponse raw = Inr r"
  shows "in_unit (pp_GoalClarity r) \<and> in_unit (pp_ConstraintClarity r) \<and> in_unit (pp_SuccessClarity r)"
proof -
  have u: "unmarshal_preflight (ExtractJSON raw) = Some r"
    and o: "\<not> out_of_unit (pp_GoalClarity r)" "\<not> out_of_unit (pp_ConstraintClarity r)" "\<not> out_of_unit (pp_SuccessClarity r)"
    using assms by (auto simp: parseResponse_def split: option.splits if_splits)
  obtain ms where m: "dec_object (ExtractJSON raw) = Some ms" using u by (auto simp: unmarshal_preflight_def split: option.splits)
  note nn = field_float_not_NaN [OF dec_object_plain [OF m], of preflight_fields]
  have "pp_GoalClarity r \<noteq> FNaN \<and> pp_ConstraintClarity r \<noteq> FNaN \<and> pp_SuccessClarity r \<noteq> FNaN"
    using u m nn [of "''goal_clarity''"] nn [of "''constraint_clarity''"] nn [of "''success_clarity''"]
    by (auto simp: unmarshal_preflight_def Let_def split: option.splits)
  with o show ?thesis using unit_scores by blast
qed

section \<open>The aggregate\<close>

lemma weights: "\<exists>a b. fl (2 / 5) = FNum a \<and> fl (3 / 10) = FNum b \<and> 0 \<le> a \<and> 0 \<le> b"
proof -
  have "(1 :: rat) = pow2 0" by simp
  also have "pow2 0 \<le> pow2 900" by (intro pow2_mono) simp
  finally have "(2 / 5 :: rat) \<le> pow2 900" "(3 / 10 :: rat) \<le> pow2 900" by linarith+
  then show ?thesis using fl_finite [of "2 / 5"] fl_finite [of "3 / 10"] by auto
qed

lemma fmul_commute: "fmul (FNum a) (FNum b) = fmul (FNum b) (FNum a)"
  by (simp add: mult.commute)

lemma fmul_nonneg: "0 \<le> a \<Longrightarrow> 0 \<le> b \<Longrightarrow> fleq fzero (fmul (FNum a) (FNum b))"
proof -
  assume "0 \<le> a" "0 \<le> b"
  then have "fleq (fmul (FNum a) (FNum 0)) (fmul (FNum a) (FNum b))" by (intro fmul_mono)
  moreover have "fl 0 = FNum 0" using fl_small_int [of 0] by simp
  ultimately show ?thesis by simp
qed

lemma fl_0: "fl 0 = FNum 0"
  using fl_small_int [of 0] by simp

lemma aggregate_zero: "computeAggregate fzero fzero fzero = fzero"
  using weights by (auto simp: computeAggregate_def fl_0)

lemma aggregate_one: "computeAggregate (FNum 1) (FNum 1) (FNum 1) = FNum 1"
proof -
  have a: "fl (2 / 5) = FNum (3602879701896397 / 9007199254740992)"
    using fl_eval [of "-54" "2 / 5" 7205759403792794] by (simp add: pow2_def abs_less_iff)
  have b: "fl (3 / 10) = FNum (5404319552844595 / 18014398509481984)"
    using fl_eval [of "-54" "3 / 10" 5404319552844595] by (simp add: pow2_def abs_less_iff)
  have "fl (3602879701896397 / 9007199254740992) = FNum (3602879701896397 / 9007199254740992)"
    "fl (5404319552844595 / 18014398509481984) = FNum (5404319552844595 / 18014398509481984)"
    using fwf_fl [of "2 / 5"] fwf_fl [of "3 / 10"] unfolding a b by (simp_all only: fl_wf)
  moreover have "fl (12610078956637389 / 18014398509481984) = FNum (3152519739159347 / 4503599627370496)"
    using fl_eval [of "-53" "12610078956637389 / 18014398509481984" 6305039478318694] by (simp add: pow2_def)
  moreover have "fl (18014398509481983 / 18014398509481984) = FNum 1"
    using fl_eval [of "-53" "18014398509481983 / 18014398509481984" 9007199254740992] by (simp add: pow2_def)
  ultimately show ?thesis by (simp add: computeAggregate_def a b)
qed

text \<open>The aggregate of scores in range is in range, grows with each of the three scores, and a perfect
  specification aggregates to exactly one, so every threshold that the command accepts can be reached.\<close>

theorem computeAggregate_bounds:
  assumes "in_unit g" "in_unit c" "in_unit s"
  shows "in_unit (computeAggregate g c s) \<and>
    computeAggregate (FNum 1) (FNum 1) (FNum 1) = FNum 1 \<and>
    (\<forall>g' c' s'. fleq g g' \<and> fleq c c' \<and> fleq s s' \<and> in_unit g' \<and> in_unit c' \<and> in_unit s' \<longrightarrow>
       fleq (computeAggregate g c s) (computeAggregate g' c' s'))"
proof -
  obtain a b where w: "fl (2 / 5) = FNum a" "fl (3 / 10) = FNum b" "0 \<le> a" "0 \<le> b" using weights by blast
  note one = aggregate_one
  have mono: "fleq (computeAggregate g1 c1 s1) (computeAggregate g2 c2 s2)"
    if le: "fleq g1 g2" "fleq c1 c2" "fleq s1 s2"
      and u1: "in_unit g1" "in_unit c1" "in_unit s1" and u2: "in_unit g2" "in_unit c2" "in_unit s2" for g1 c1 s1 g2 c2 s2
  proof -
    obtain x y z where x: "g1 = FNum x" "c1 = FNum y" "s1 = FNum z" "0 \<le> x" "0 \<le> y" "0 \<le> z"
      using u1 by (auto simp: in_unit_num)
    obtain x' y' z' where x': "g2 = FNum x'" "c2 = FNum y'" "s2 = FNum z'" "0 \<le> x'" "0 \<le> y'" "0 \<le> z'"
      using u2 by (auto simp: in_unit_num)
    have xx: "x \<le> x'" "y \<le> y'" "z \<le> z'" using le x x' by simp_all
    have m: "fleq (fmul (FNum u) (FNum k)) (fmul (FNum v) (FNum k))" if "0 \<le> k" "u \<le> v" for u v k
      using fmul_mono [of k u v] that by (simp only: fmul_commute [of _ k])
    show ?thesis
      unfolding computeAggregate_def w x x'
      by (intro fadd_mono fadd_nonneg fmul_nonneg m xx w x x')
  qed
  have unit1: "in_unit (FNum 1)" "in_unit fzero" by (simp_all add: in_unit_num)
  from aggregate_zero mono [of fzero g fzero c fzero s] mono [of g "FNum 1" c "FNum 1" s "FNum 1"] assms unit1 one
  have "in_unit (computeAggregate g c s)" by (simp add: in_unit_def)
  with mono one assms show ?thesis by blast
qed

theorem computeAggregate_bounds_witness:
  "in_unit (computeAggregate (FNum (1 / 2)) (FNum 1) fzero)"
proof -
  have "in_unit (FNum (1 / 2))" "in_unit (FNum 1)" "in_unit fzero" by (simp_all add: in_unit_def)
  from computeAggregate_bounds [OF this] show ?thesis by blast
qed

section \<open>A passed check\<close>


section \<open>The files of a scenario check\<close>

definition candidate_bytes :: "(gostring \<Rightarrow> goerr + gostring) \<Rightarrow> gostring \<Rightarrow> scenarioEntry list \<Rightarrow> int" where
  "candidate_bytes read dir es =
     sum_list (map (\<lambda>e. case read (join_path [dir, se_Name e]) of Inr d \<Rightarrow> int (length d) | Inl _ \<Rightarrow> 0)
       (filter scenario_candidate es))"

lemma candidate_bytes_simps [simp]:
  "candidate_bytes read dir [] = 0"
  "\<not> scenario_candidate e \<Longrightarrow> candidate_bytes read dir (e # es) = candidate_bytes read dir es"
  "scenario_candidate e \<Longrightarrow> read (join_path [dir, se_Name e]) = Inr d \<Longrightarrow>
     candidate_bytes read dir (e # es) = int (length d) + candidate_bytes read dir es"
  by (simp_all add: candidate_bytes_def)

lemma read_scenarios_ok:
  assumes "read_scenarios read dir es n acc = Inr m" and "distinct (map se_Name es)"
    and "\<forall>e \<in> set es. gm_get acc (se_Name e) = None"
  shows "(\<forall>k. gm_get m k = (case find (\<lambda>e. scenario_candidate e \<and> se_Name e = k) es of
      Some e \<Rightarrow> (case read (join_path [dir, k]) of Inr d \<Rightarrow> Some d | Inl _ \<Rightarrow> None) | None \<Rightarrow> gm_get acc k)) \<and>
    n + candidate_bytes read dir es \<le>
      max n maxScenarioTotalBytes"
  using assms
proof (induction es arbitrary: n acc)
  case (Cons e es)
  show ?case
  proof (cases "scenario_candidate e")
    case False
    with Cons show ?thesis by simp
  next
    case True
    with Cons.prems obtain d where d: "read (join_path [dir, se_Name e]) = Inr d"
      and le: "n + int (length d) \<le> maxScenarioTotalBytes"
      and rec: "read_scenarios read dir es (n + int (length d)) (gm_put (se_Name e) d acc) = Inr m"
      by (auto simp: Let_def split: sum.splits if_splits)
    have "\<forall>e' \<in> set es. gm_get (gm_put (se_Name e) d acc) (se_Name e') = None"
      using Cons.prems(2,3) by (simp add: gm.get_put) (metis image_eqI)
    from Cons.IH [OF rec _ this] Cons.prems(2) have
      g: "\<forall>k. gm_get m k = (case find (\<lambda>e. scenario_candidate e \<and> se_Name e = k) es of
        Some e \<Rightarrow> (case read (join_path [dir, k]) of Inr d \<Rightarrow> Some d | Inl _ \<Rightarrow> None)
        | None \<Rightarrow> gm_get (gm_put (se_Name e) d acc) k)" and
      s: "n + int (length d) + candidate_bytes read dir es \<le> max (n + int (length d)) maxScenarioTotalBytes"
      by auto
    have "find (\<lambda>e'. scenario_candidate e' \<and> se_Name e' = se_Name e) es = None"
      using Cons.prems(2) by (simp add: find_None_iff) (metis image_eqI)
    with g s le True d show ?thesis by (auto simp: gm.get_put split: option.split)
  qed
qed simp

text \<open>A scenario check sends the model exactly the YAML files of the directory that are neither hidden nor
  links nor directories, each under its name, and only when they hold at most five megabytes together.\<close>

theorem CheckScenarios_files:
  assumes "readDir dir = Inr es" and "distinct (map se_Name es)"
    and "CheckScenarios generate readDir read model spec dir threshold w = (Inr res, w1)"
  shows "\<exists>yamls. (\<exists>resp w2. generate (scenarios_request model spec yamls) w = (Inr resp, w2)) \<and> yamls \<noteq> [] \<and>
    (\<forall>k. gm_get yamls k = (case find (\<lambda>e. scenario_candidate e \<and> se_Name e = k) es of
       Some e \<Rightarrow> (case read (join_path [dir, k]) of Inr d \<Rightarrow> Some d | Inl _ \<Rightarrow> None) | None \<Rightarrow> None)) \<and>
    candidate_bytes read dir es \<le>
      maxScenarioTotalBytes \<and>
    (sq_Pass res \<longleftrightarrow> fleq threshold (sq_Aggregate res))"
proof -
  obtain yamls where y: "read_scenarios read dir es 0 [] = Inr yamls" and ne: "yamls \<noteq> []"
    using assms(1,3) by (auto simp: CheckScenarios_def split: sum.splits if_splits)
  obtain resp w2 where g: "generate (scenarios_request model spec yamls) w = (Inr resp, w2)"
    using assms(1,3) y ne by (auto simp: CheckScenarios_def split: sum.splits if_splits prod.splits)
  have p: "sq_Pass res \<longleftrightarrow> fleq threshold (sq_Aggregate res)"
    using assms(1,3) y ne g by (auto simp: CheckScenarios_def scenarios_result_def Let_def split: sum.splits)
  have "(0 :: int) \<le> maxScenarioTotalBytes" by (simp add: maxScenarioTotalBytes_def)
  with read_scenarios_ok [OF y assms(2)] g ne p show ?thesis
    by (intro exI [of _ yamls]) (auto simp: gm_get_def split: option.splits)
qed

section \<open>Witnesses\<close>

text \<open>A model that leaves out every score: they count as zero.\<close>

definition empty_answer :: "unit generate" where
  "empty_answer req w = (Inr (demo_response\<lparr>gp_Content := ''{}''\<rparr>), w)"

definition tiny_spec :: spec where
  "tiny_spec = \<lparr>sp_Title = [], sp_Description = [], sp_Sections = [], sp_RawContent = ''# T'', sp_TestCommand = []\<rparr>"

lemma empty_parses:
  "parseResponse ''{}'' = Inr \<lparr>pp_GoalClarity = fzero, pp_ConstraintClarity = fzero, pp_SuccessClarity = fzero,
     pp_Questions = [], pp_Strengths = [], pp_Gaps = []\<rparr>"
  "parseScenarioResponse ''{}'' = Inr \<lparr>sx_Coverage = fzero, sx_Feasibility = fzero, sx_Isolation = fzero,
     sx_Chains = fzero, sx_Issues = []\<rparr>"
  by code_simp+


definition two_entries :: "scenarioEntry list" where
  "two_entries = [\<lparr>se_Name = ''.swap.yaml'', se_IsDir = False, se_IsSymlink = False\<rparr>,
     \<lparr>se_Name = ''login.yaml'', se_IsDir = False, se_IsSymlink = False\<rparr>]"

theorem CheckScenarios_files_witness:
  "\<exists>yamls. gm_get yamls ''login.yaml'' = Some ''id: login'' \<and> gm_get yamls ''.swap.yaml'' = None"
proof -
  have c: "\<not> scenario_candidate \<lparr>se_Name = ''.swap.yaml'', se_IsDir = False, se_IsSymlink = False\<rparr>"
    "scenario_candidate \<lparr>se_Name = ''login.yaml'', se_IsDir = False, se_IsSymlink = False\<rparr>"
    by code_simp+
  have rd: "read_scenarios (\<lambda>p. Inr ''id: login'') ''s'' two_entries 0 [] = Inr [(''login.yaml'', ''id: login'')]"
    by (simp add: two_entries_def c Let_def maxScenarioTotalBytes_def gm_put_def)
  obtain res where run: "CheckScenarios empty_answer (\<lambda>d. Inr two_entries) (\<lambda>p. Inr ''id: login'') ''o3'' [] ''s'' fzero () =
      (Inr res, ())"
    by (simp add: CheckScenarios_def rd empty_answer_def empty_parses)
  have "distinct (map se_Name two_entries)" by (simp add: two_entries_def)
  from CheckScenarios_files [OF refl this run] obtain yamls where
    "\<forall>k. gm_get yamls k = (case find (\<lambda>e. scenario_candidate e \<and> se_Name e = k) two_entries of
       Some e \<Rightarrow> (case (Inr ''id: login'' :: goerr + gostring) of Inr d \<Rightarrow> Some d | Inl _ \<Rightarrow> None) | None \<Rightarrow> None)"
    by blast
  then show ?thesis by (intro exI [of _ yamls]) (simp add: two_entries_def c)
qed

end
