(* ===== verification/Interview.thy ===== *)
theory Interview
  imports Interview_Prompts Attractor_State Attractor_Tools Gene_Analyze Scenario_Types
begin

text \<open>
  The interview that drafts a specification (\<open>internal/interview\<close>): the reader of the user's messages, the
  conversation loop, the scoring of a draft and the generation of scenarios. The display is the list of its
  events; the spinner is left out. What the reader waits for, the next line or the end of the context, is
  an event of the input; the end of the list is the end of the input.
\<close>

section \<open>Reading a message\<close>

datatype displayEvent =
    AssistantMessage gostring
  | InputPrompt
  | InputSummary int
  | SystemMessage gostring
  | Separator

datatype inputEvent = ILine gostring | ICancel goerr

datatype lineAction = LineContinue | LineSubmit | LineDone

definition rePromptMsg :: gostring where
  "rePromptMsg = (''Enter your response (two blank lines to submit, or type '' @ [CHR 0x22] @ ''done'' @
             [CHR 0x22] @ '' to generate the spec).'')"

text \<open>The action, the new flag of a blank line, and what is displayed.\<close>

definition processLine :: "gostring \<Rightarrow> gostring list \<Rightarrow> bool \<Rightarrow> lineAction \<times> bool \<times> displayEvent list" where
  "processLine line collected prevBlank =
     (let trimmed = trim_space line in
      if equal_fold trimmed ''done'' then (LineDone, False, [])
      else if trimmed \<noteq> [] then (LineContinue, False, [])
      else if prevBlank \<and> collected \<noteq> [] then (LineSubmit, True, [])
      else if collected \<noteq> [] then (LineContinue, True, [])
      else (LineContinue, False, [SystemMessage rePromptMsg]))"

definition joinCollected :: "gostring list \<Rightarrow> gostring" where
  "joinCollected collected = trim_space (str_join [NL] collected)"

definition handleEOF :: "goerr option \<Rightarrow> gostring list \<Rightarrow> goerr + gostring \<times> bool" where
  "handleEOF scanErr collected =
     (case scanErr of Some e \<Rightarrow> Inl (wrap_err ''interview: scanner'' e) | None \<Rightarrow> Inr (joinCollected collected, True))"

text \<open>The result is the message and whether the user is done, with the events that are left.\<close>

fun readMessage ::
    "inputEvent list \<Rightarrow> goerr option \<Rightarrow> gostring list \<Rightarrow> bool \<Rightarrow>
     (goerr + gostring \<times> bool) \<times> inputEvent list \<times> displayEvent list" where
  "readMessage [] scanErr collected prevBlank = (handleEOF scanErr collected, [], [])"
| "readMessage (ICancel e # evs) scanErr collected prevBlank = (Inl (wrap_err ''interview'' e), evs, [])"
| "readMessage (ILine line # evs) scanErr collected prevBlank =
     (case processLine line collected prevBlank of
        (LineDone, _, ds) \<Rightarrow> (Inr (joinCollected collected, True), evs, ds)
      | (LineSubmit, _, ds) \<Rightarrow> (Inr (joinCollected collected, False), evs, ds)
      | (LineContinue, prevBlank', ds) \<Rightarrow>
          (case readMessage evs scanErr
              (if trim_space line \<noteq> [] \<or> collected \<noteq> [] then collected @ [line] else collected) prevBlank' of
             (r, evs', ds') \<Rightarrow> (r, evs', ds @ ds')))"

lemma readMessage_shorter:
  "readMessage evs scanErr collected prevBlank = (Inr (text, False), evs', ds) \<Longrightarrow> length evs' < length evs"
proof (induction evs scanErr collected prevBlank arbitrary: ds rule: readMessage.induct)
  case (1 scanErr collected prevBlank)
  then show ?case by (auto simp: handleEOF_def split: option.splits)
next
  case (3 line evs scanErr collected prevBlank)
  then show ?case
    by (fastforce split: prod.splits lineAction.splits simp: less_Suc_eq)
qed auto

section \<open>The conversation\<close>

definition maxRounds :: nat where "maxRounds = 20"

definition finalInstruction :: gostring where
  "finalInstruction =
     (''The user is done answering questions. Generate the complete NLSpec-format sp'' @
      ''ecification now based on everything discussed.'')"

definition iv_request :: "gostring \<Rightarrow> gostring \<Rightarrow> message list \<Rightarrow> generateRequest" where
  "iv_request model sysPrompt messages =
     \<lparr>gr_SystemPrompt = sysPrompt, gr_Messages = messages, gr_MaxTokens = 0, gr_Model = model,
      gr_CacheControl = None, gr_Temperature = None\<rparr>"

definition iv_user :: "gostring \<Rightarrow> message" where
  "iv_user text = \<lparr>m_Role = ''user'', m_Content = text\<rparr>"

definition iv_assistant :: "gostring \<Rightarrow> message" where
  "iv_assistant text = \<lparr>m_Role = ''assistant'', m_Content = text\<rparr>"

definition turn_display :: "gostring \<Rightarrow> displayEvent list" where
  "turn_display content = [AssistantMessage content, SystemMessage rePromptMsg, InputPrompt]"

text \<open>The cost of the answer and the longer conversation.\<close>

definition processAnswer ::
    "'w generate \<Rightarrow> gostring \<Rightarrow> gostring \<Rightarrow> message list \<Rightarrow> gostring \<Rightarrow> 'w \<Rightarrow>
     (goerr + float64 \<times> message list) \<times> displayEvent list \<times> 'w" where
  "processAnswer generate model sysPrompt messages text w =
     (let lineCount = int (count_list text NL) + 1;
          ds = [InputSummary lineCount, SystemMessage ''Thinking...''];
          messages1 = messages @ [iv_user text]
      in case generate (iv_request model sysPrompt messages1) w of
           (Inl e, w1) \<Rightarrow> (Inl (wrap_err ''interview: generate'' e), ds, w1)
         | (Inr resp, w1) \<Rightarrow>
             (Inr (gp_CostUSD resp, messages1 @ [iv_assistant (gp_Content resp)]),
              ds @ Separator # turn_display (gp_Content resp), w1))"

definition generateFinal ::
    "'w generate \<Rightarrow> gostring \<Rightarrow> gostring \<Rightarrow> message list \<Rightarrow> 'w \<Rightarrow> (gostring \<times> float64 \<times> goerr option) \<times> 'w" where
  "generateFinal generate model sysPrompt messages w =
     (case generate (iv_request model sysPrompt (messages @ [iv_user finalInstruction])) w of
        (Inl e, w1) \<Rightarrow> (([], fzero, Some (wrap_err ''interview: generate'' e)), w1)
      | (Inr resp, w1) \<Rightarrow> ((gp_Content resp, gp_CostUSD resp, None), w1))"

type_synonym 'w iv_result = "(gostring \<times> float64 \<times> goerr option) \<times> displayEvent list \<times> 'w"

text \<open>The end of the loop: the specification with the cost of all calls.\<close>

definition finish_interview ::
    "'w generate \<Rightarrow> gostring \<Rightarrow> gostring \<Rightarrow> bool \<Rightarrow> nat \<Rightarrow> message list \<Rightarrow> float64 \<Rightarrow> displayEvent list \<Rightarrow> 'w \<Rightarrow> 'w iv_result" where
  "finish_interview generate model sysPrompt dn rd messages totalCost ds w =
     (let ds1 = (if maxRounds \<le> rd \<and> \<not> dn
            then ds @ [SystemMessage ''Maximum rounds reached. Generating spec now.''] else ds) in
      case generateFinal generate model sysPrompt messages w of
        ((spec, cost, err), w1) \<Rightarrow> ((spec, fadd totalCost cost, err), ds1, w1))"

text \<open>A round: an empty message asks nothing.\<close>

definition answer_round ::
    "'w generate \<Rightarrow> gostring \<Rightarrow> gostring \<Rightarrow> gostring \<Rightarrow> nat \<Rightarrow> message list \<Rightarrow> float64 \<Rightarrow> 'w \<Rightarrow>
     (goerr + nat \<times> message list \<times> float64) \<times> displayEvent list \<times> 'w" where
  "answer_round generate model sysPrompt text rd messages totalCost w =
     (if text \<noteq> [] \<and> rd < maxRounds
      then (case processAnswer generate model sysPrompt messages text w of
          (Inl e, ds, w1) \<Rightarrow> (Inl e, ds, w1)
        | (Inr (cost, messages1), ds, w1) \<Rightarrow> (Inr (rd + 1, messages1, fadd totalCost cost), ds, w1))
      else (Inr (rd, messages, totalCost), [], w))"

function iv_loop ::
    "'w generate \<Rightarrow> gostring \<Rightarrow> gostring \<Rightarrow> goerr option \<Rightarrow> inputEvent list \<Rightarrow> nat \<Rightarrow> message list \<Rightarrow> float64 \<Rightarrow>
     displayEvent list \<Rightarrow> 'w \<Rightarrow> 'w iv_result" where
  "iv_loop generate model sysPrompt scanErr evs rd messages totalCost ds w =
     (case readMessage evs scanErr [] False of
        (Inl e, _, ds1) \<Rightarrow> (([], totalCost, Some e), ds @ ds1, w)
      | (Inr (text, dn), evs1, ds1) \<Rightarrow>
          (case answer_round generate model sysPrompt text rd messages totalCost w of
             (Inl e, ds2, w1) \<Rightarrow> (([], totalCost, Some e), ds @ ds1 @ ds2, w1)
           | (Inr (rd1, messages1, cost1), ds2, w1) \<Rightarrow>
               if dn \<or> maxRounds \<le> rd1
               then finish_interview generate model sysPrompt dn rd1 messages1 cost1 (ds @ ds1 @ ds2) w1
               else iv_loop generate model sysPrompt scanErr evs1 rd1 messages1 cost1 (ds @ ds1 @ ds2) w1))"
  by pat_completeness auto

termination
  by (relation "measure (\<lambda>(g, m, p, se, evs, rd, ms, tc, ds, w). length evs)")
    (auto dest!: sym [of "(Inr (_, _), _, _)"] readMessage_shorter)

declare iv_loop.simps [simp del]

definition interview_run ::
    "'w generate \<Rightarrow> gostring \<Rightarrow> gostring \<Rightarrow> goerr option \<Rightarrow> inputEvent list \<Rightarrow> message list \<Rightarrow> 'w \<Rightarrow> 'w iv_result" where
  "interview_run generate model sysPrompt scanErr evs messages w =
     (case generate (iv_request model sysPrompt messages) w of
        (Inl e, w1) \<Rightarrow> (([], fzero, Some (wrap_err ''interview: generate'' e)), [], w1)
      | (Inr resp, w1) \<Rightarrow>
          iv_loop generate model sysPrompt scanErr evs 0 (messages @ [iv_assistant (gp_Content resp)])
            (gp_CostUSD resp) (turn_display (gp_Content resp)) w1)"

definition interview_Run ::
    "'w generate \<Rightarrow> gostring \<Rightarrow> goerr option \<Rightarrow> inputEvent list \<Rightarrow> gostring \<Rightarrow> 'w \<Rightarrow> 'w iv_result" where
  "interview_Run generate model scanErr evs initialPrompt w =
     interview_run generate model interviewPrompt scanErr evs [iv_user initialPrompt] w"

definition RunWithSeed ::
    "'w generate \<Rightarrow> gostring \<Rightarrow> goerr option \<Rightarrow> inputEvent list \<Rightarrow> gostring \<Rightarrow> 'w \<Rightarrow> 'w iv_result" where
  "RunWithSeed generate model scanErr evs seedSpec w =
     interview_run generate model seedSystemPrompt scanErr evs
       [iv_user ((''Here is my current spec. Please review it for completeness and ask questions'' @
             '' about anything that'' @ [CHR 0x27] @ ''s missing or ambiguous:'' @ [NL] @ [NL]) @ seedSpec)] w"

section \<open>Scoring a specification\<close>

definition errEmptySpec :: gostring where "errEmptySpec = ''spec content is empty''"
definition iv_errMalformedResponse :: gostring where "iv_errMalformedResponse = ''malformed scoring response''"
definition errIncompleteDimensions :: gostring where
  "errIncompleteDimensions = ''incomplete dimensions in scoring response''"

definition dimensionOrder :: "(gostring \<times> float64) list" where
  "dimensionOrder =
     [(''behavioral_completeness'', fl (1 / 4)), (''interface_precision'', fl (1 / 4)),
      (''defaults_and_boundaries'', fl (1 / 5)), (''acceptance_criteria'', fl (1 / 5)), (''economy'', fl (1 / 10))]"

record dimensionScore =
  dn_Name :: gostring
  dn_Score :: int
  dn_Weight :: float64
  dn_Gaps :: "gostring list"

record completenessResult =
  cr_Dimensions :: "dimensionScore list"
  cr_Overall :: int
  cr_CostUSD :: float64

definition dec_dimension :: "json \<Rightarrow> (gostring \<times> int \<times> gostring list) option" where
  "dec_dimension v =
     (case (case v of JObj ms \<Rightarrow> Some ms | JNull \<Rightarrow> Some [] | _ \<Rightarrow> None) of
        None \<Rightarrow> None
      | Some ms \<Rightarrow>
          let vs = field_values [''name'', ''score'', ''gaps''] ms in
          (case (dec_field dec_string (vs ''name'') [], dec_field dec_int (vs ''score'') 0,
                 dec_field (\<lambda>v _. dec_strings v) (vs ''gaps'') []) of
             (Some n, Some s, Some g) \<Rightarrow> Some (n, s, g)
           | _ \<Rightarrow> None))"

definition unmarshal_scoring :: "gostring \<Rightarrow> (gostring \<times> int \<times> gostring list) list option" where
  "unmarshal_scoring data =
     (case dec_object data of
        None \<Rightarrow> None
      | Some ms \<Rightarrow> dec_field (\<lambda>v _. dec_list dec_dimension v) (field_values [''dimensions''] ms ''dimensions'') [])"

text \<open>\<open>int(math.Round(f))\<close>: halves go away from zero.\<close>

definition round_int :: "float64 \<Rightarrow> int" where
  "round_int f = (case f of FNum r \<Rightarrow> (if 0 \<le> r then \<lfloor>r + 1 / 2\<rfloor> else - \<lfloor>- r + 1 / 2\<rfloor>) | _ \<Rightarrow> - (2 ^ 63))"

definition computeOverall :: "dimensionScore list \<Rightarrow> int" where
  "computeOverall dimensions =
     round_int (fold (\<lambda>d acc. fadd acc (fmul (f_of_int (dn_Score d)) (dn_Weight d))) dimensions fzero)"

text \<open>The index by name keeps the last entry of a name.\<close>

definition pick_dimension :: "(gostring \<times> int \<times> gostring list) list \<Rightarrow> gostring \<times> float64 \<Rightarrow> dimensionScore option" where
  "pick_dimension ds dm =
     map_option (\<lambda>(s, g). \<lparr>dn_Name = fst dm, dn_Score = min (max s 0) 100, dn_Weight = snd dm, dn_Gaps = g\<rparr>)
       (map_of (rev ds) (fst dm))"

definition pick_dimensions :: "(gostring \<times> int \<times> gostring list) list \<Rightarrow> goerr + dimensionScore list" where
  "pick_dimensions ds =
     (if length ds \<noteq> length dimensionOrder then Inl (new_err errIncompleteDimensions)
      else (case dec_all (pick_dimension ds) dimensionOrder of
          None \<Rightarrow> Inl (new_err errIncompleteDimensions)
        | Some dims \<Rightarrow> Inr dims))"

definition scorer_Score :: "'w generate \<Rightarrow> gostring \<Rightarrow> gostring \<Rightarrow> 'w \<Rightarrow> (goerr + completenessResult) \<times> 'w" where
  "scorer_Score generate model specContent w =
     (if trim_space specContent = [] then (Inl (new_err errEmptySpec), w)
      else (case generate
              \<lparr>gr_SystemPrompt = scoringSystemPrompt, gr_Messages = [iv_user specContent], gr_MaxTokens = 4096,
               gr_Model = model, gr_CacheControl = Some ''ephemeral'', gr_Temperature = Some fzero\<rparr> w of
          (Inl e, w1) \<Rightarrow> (Inl (wrap_err ''scorer'' e), w1)
        | (Inr resp, w1) \<Rightarrow>
            (case unmarshal_scoring (ExtractJSON (gp_Content resp)) of
               None \<Rightarrow> (Inl \<lparr>er_msg = iv_errMalformedResponse, er_is = [iv_errMalformedResponse]\<rparr>, w1)
             | Some ds \<Rightarrow>
                 (case pick_dimensions ds of
                    Inl e \<Rightarrow> (Inl e, w1)
                  | Inr dims \<Rightarrow>
                      (Inr \<lparr>cr_Dimensions = dims, cr_Overall = computeOverall dims, cr_CostUSD = gp_CostUSD resp\<rparr>, w1)))))"

section \<open>Generating scenarios\<close>

definition scenarioMaxTokens :: int where "scenarioMaxTokens = 12288"

definition errNoValidScenarios :: gostring where "errNoValidScenarios = ''interview: no valid scenarios generated''"
definition errParseScenarioOutput :: gostring where
  "errParseScenarioOutput = ''interview: failed to parse scenario output''"

text \<open>One file of the answer; the first of two files with the same name is kept.\<close>

definition keep_scenario ::
    "(gostring \<Rightarrow> goerr + scenario) \<Rightarrow> gostring \<times> gostring \<Rightarrow> gostring gomap \<Rightarrow> gostring gomap" where
  "keep_scenario unmarshal nc valid =
     (let cleaned = base_path (fst nc) in
      if str_contains cleaned ''..'' \<or> cleaned = ''.'' then valid
      else (case parseScenario unmarshal (snd nc) of
          Inl _ \<Rightarrow> valid
        | Inr _ \<Rightarrow> if gm_get valid cleaned \<noteq> None then valid else gm_put cleaned (snd nc) valid))"

text \<open>\<open>order\<close> is the order in which Go ranges over the map of the parsed files.\<close>

definition generate_scenarios ::
    "'w generate \<Rightarrow> (gostring \<Rightarrow> goerr + scenario) \<Rightarrow> (files \<Rightarrow> files) \<Rightarrow> gostring \<Rightarrow> gostring \<Rightarrow> 'w \<Rightarrow>
     (goerr + gostring gomap) \<times> float64 \<times> 'w" where
  "generate_scenarios generate unmarshal order model specContent w =
     (if trim_space specContent = [] then (Inl (new_err errEmptySpec), fzero, w)
      else (case generate
              \<lparr>gr_SystemPrompt = scenarioSystemPrompt, gr_Messages = [iv_user specContent],
               gr_MaxTokens = scenarioMaxTokens, gr_Model = model, gr_CacheControl = Some ''ephemeral'',
               gr_Temperature = Some (fl (7 / 10))\<rparr> w of
          (Inl e, w1) \<Rightarrow> (Inl (wrap_err ''scenario generator'' e), fzero, w1)
        | (Inr resp, w1) \<Rightarrow>
            (case ParseFiles (gp_Content resp) of
               Inl e \<Rightarrow> (Inl \<lparr>er_msg = errParseScenarioOutput @ '': '' @ er_msg (file_goerr e),
                   er_is = errParseScenarioOutput # er_is (file_goerr e)\<rparr>, gp_CostUSD resp, w1)
             | Inr raw \<Rightarrow>
                 let valid = fold (keep_scenario unmarshal) (order raw) [] in
                 if valid = [] then (Inl (new_err errNoValidScenarios), gp_CostUSD resp, w1)
                 else (Inr valid, gp_CostUSD resp, w1))))"

section \<open>The command\<close>

definition write_scenario ::
    "'w os \<Rightarrow> gostring \<Rightarrow> gostring \<times> gostring \<Rightarrow> goerr option \<times> 'w \<Rightarrow> goerr option \<times> 'w" where
  "write_scenario wos dir nc st =
     (case st of
        (Some e, w) \<Rightarrow> (Some e, w)
      | (None, w) \<Rightarrow>
          (case os_WriteFile wos (join_path [dir, fst nc]) (snd nc) w of
             (w1, ok) \<Rightarrow> ((if ok then None else Some \<lparr>er_msg = ''write scenario '' @ fst nc, er_is = []\<rparr>), w1)))"

definition writeGeneratedScenarios ::
    "'w generate \<Rightarrow> 'w os \<Rightarrow> (gostring \<Rightarrow> goerr + scenario) \<Rightarrow> (files \<Rightarrow> files) \<Rightarrow> gostring \<Rightarrow> gostring \<Rightarrow> gostring \<Rightarrow> 'w \<Rightarrow>
     float64 \<times> goerr option \<times> 'w" where
  "writeGeneratedScenarios generate wos unmarshal order model specContent outputPath w =
     (case generate_scenarios generate unmarshal order model specContent w of
        (Inl e, cost, w1) \<Rightarrow> (cost, Some (wrap_err ''generate scenarios'' e), w1)
      | (Inr fls, cost, w1) \<Rightarrow>
          let dir = join_path [dir_path outputPath, ''scenarios''] in
          (case os_MkdirAll wos dir w1 of
             (w2, ok) \<Rightarrow>
               if \<not> ok then (cost, Some \<lparr>er_msg = ''create scenarios dir'', er_is = []\<rparr>, w2)
               else (case fold (write_scenario wos dir) (order fls) (None, w2) of (e, w3) \<Rightarrow> (cost, e, w3))))"

definition interviewRun ::
    "'w generate \<Rightarrow> 'w os \<Rightarrow> (gostring \<Rightarrow> goerr + scenario) \<Rightarrow> (files \<Rightarrow> files) \<Rightarrow> gostring \<Rightarrow> gostring \<Rightarrow> gostring \<Rightarrow>
     gostring \<Rightarrow> bool \<Rightarrow> goerr option \<Rightarrow> inputEvent list \<Rightarrow> 'w \<Rightarrow> goerr option \<times> displayEvent list \<times> 'w" where
  "interviewRun generate wos unmarshal order model initialPrompt outputPath seedContent generateScenarios scanErr evs w =
     (case (if seedContent \<noteq> [] then RunWithSeed generate model scanErr evs seedContent w
            else interview_Run generate model scanErr evs initialPrompt w) of
        ((spec, cost, Some e), ds, w1) \<Rightarrow> (Some e, ds, w1)
      | ((spec, cost, None), ds, w1) \<Rightarrow>
          (case os_WriteFile wos outputPath spec w1 of
             (w2, ok) \<Rightarrow>
               if \<not> ok then (Some \<lparr>er_msg = ''write spec'', er_is = []\<rparr>, ds, w2)
               else if generateScenarios
               then (case writeGeneratedScenarios generate wos unmarshal order model spec outputPath w2 of
                   (_, e, w3) \<Rightarrow> (e, ds, w3))
               else (None, ds, w2)))"

end
