(* ===== verification/Interview_Facts.thy ===== *)
theory Interview_Facts
  imports Interview
begin

text \<open>
  The interview ends within its limits, keeps its conversation in the form a model client takes, reads
  messages as documented, scores within range and writes scenarios only to plain names.
\<close>

section \<open>The number of requests\<close>

lemma answer_round_count:
  assumes "\<forall>req w. c (snd (generate req w)) \<le> Suc (c w)"
    and "answer_round generate model sys text rd ms tc w = (r, ds, w1)"
  shows "(case r of Inl e \<Rightarrow> c w1 \<le> Suc (c w) \<and> rd < maxRounds
    | Inr (rd1, ms1, tc1) \<Rightarrow> rd1 \<le> max rd maxRounds \<and> c w1 \<le> c w + (rd1 - rd) \<and> rd \<le> rd1)"
proof -
  have "c w2 \<le> Suc (c w)" if "generate req w = (x, w2)" for req x w2
    using assms(1) that by (metis snd_conv)
  with assms(2) show ?thesis
    by (auto simp: answer_round_def processAnswer_def Let_def split: if_splits prod.splits sum.splits)
qed

lemma finish_count:
  assumes "\<forall>req w. c (snd (generate req w)) \<le> Suc (c w)"
  shows "c (snd (snd (finish_interview generate model sys dn rd ms tc ds w))) \<le> Suc (c w)"
  using assms by (auto simp: finish_interview_def generateFinal_def Let_def split: prod.split sum.split)
    (metis snd_conv)+

lemma iv_loop_count:
  assumes "\<forall>req w. c (snd (generate req w)) \<le> Suc (c w)"
    and "rd \<le> maxRounds"
  shows "c (snd (snd (iv_loop generate model sys scanErr evs rd ms tc ds w))) \<le> c w + (maxRounds - rd) + 1"
  using assms
proof (induction generate model sys scanErr evs rd ms tc ds w rule: iv_loop.induct)
  case (1 generate model sys scanErr evs rd ms tc ds w)
  obtain r evs1 ds1 where m: "readMessage evs scanErr [] False = (r, evs1, ds1)"
    by (cases "readMessage evs scanErr [] False") auto
  show ?case
  proof (cases r)
    case (Inl e)
    then show ?thesis by (simp add: iv_loop.simps m)
  next
    case (Inr td)
    obtain msg dn where td: "td = (msg, dn)" by fastforce
    obtain x ds2 w1 where a: "answer_round generate model sys msg rd ms tc w = (x, ds2, w1)"
      by (cases "answer_round generate model sys msg rd ms tc w") auto
    note bound = answer_round_count [OF "1.prems"(1) a]
    show ?thesis
    proof (cases x)
      case (Inl e)
      with bound have "c w1 \<le> Suc (c w)" by simp
      then have "c w1 \<le> c w + (maxRounds - rd) + 1" by linarith
      with Inl show ?thesis by (subst iv_loop.simps) (simp add: m \<open>r = Inr td\<close> td a)
    next
      case (Inr y)
      obtain rd1 ms1 tc1 where y: "y = (rd1, ms1, tc1)" by (cases y) auto
      have b: "rd1 \<le> maxRounds" "c w1 \<le> c w + (rd1 - rd)" "rd \<le> rd1" using bound Inr y "1.prems"(2) by auto
      show ?thesis
      proof (cases "dn \<or> maxRounds \<le> rd1")
        case True
        have "c (snd (snd (finish_interview generate model sys dn rd1 ms1 tc1 (ds @ ds1 @ ds2) w1))) \<le> Suc (c w1)"
          by (rule finish_count [OF "1.prems"(1)])
        with b True show ?thesis by (subst iv_loop.simps) (simp add: m \<open>r = Inr td\<close> td a Inr y)
      next
        case False
        have "c (snd (snd (iv_loop generate model sys scanErr evs1 rd1 ms1 tc1 (ds @ ds1 @ ds2) w1))) \<le>
            c w1 + (maxRounds - rd1) + 1"
          by (rule "1.IH" [OF m [symmetric] \<open>r = Inr td\<close> td [symmetric] refl a [symmetric] Inr y [symmetric] refl refl False
              "1.prems"(1) b(1)])
        with b False show ?thesis by (subst iv_loop.simps) (simp add: m \<open>r = Inr td\<close> td a Inr y)
      qed
    qed
  qed
qed


definition chatty :: "nat generate" where
  "chatty req w = (Inr (demo_response\<lparr>gp_Content := ''why?''\<rparr>), Suc w)"


section \<open>The conversation\<close>

definition alternates :: "message list \<Rightarrow> bool" where
  "alternates ms \<longleftrightarrow> (\<forall>i < length ms. m_Role (ms ! i) = (if even i then ''user'' else ''assistant''))"

lemma alternates_append:
  "alternates ms \<Longrightarrow> m_Role m = (if even (length ms) then ''user'' else ''assistant'') \<Longrightarrow> alternates (ms @ [m])"
  by (auto simp: alternates_def nth_append less_Suc_eq)

text \<open>A request a chat model accepts: it starts with the opening, the roles alternate, the user speaks last.\<close>

definition chat_request :: "gostring \<Rightarrow> gostring \<Rightarrow> message \<Rightarrow> generateRequest \<Rightarrow> bool" where
  "chat_request model sys opening req \<longleftrightarrow>
     gr_Model req = model \<and> gr_SystemPrompt req = sys \<and> alternates (gr_Messages req) \<and> odd (length (gr_Messages req)) \<and>
     prefix [opening] (gr_Messages req) \<and> length (gr_Messages req) \<le> 43"

definition conversation :: "message \<Rightarrow> nat \<Rightarrow> message list \<Rightarrow> bool" where
  "conversation opening rd ms \<longleftrightarrow> alternates ms \<and> prefix [opening] ms \<and> length ms = 2 * rd + 2"

lemma conversation_ask:
  assumes "conversation opening rd ms" and "rd \<le> maxRounds"
  shows "chat_request model sys opening (iv_request model sys (ms @ [iv_user msg]))"
proof -
  have "alternates (ms @ [iv_user msg])"
    using assms by (intro alternates_append) (simp_all add: conversation_def iv_user_def)
  with assms show ?thesis by (auto simp: chat_request_def iv_request_def conversation_def maxRounds_def iv_user_def)
qed

lemma conversation_answered:
  assumes "conversation opening rd ms"
  shows "conversation opening (Suc rd) (ms @ [iv_user msg, iv_assistant ans])"
proof -
  have "alternates (ms @ [iv_user msg])"
    using assms by (intro alternates_append) (simp_all add: conversation_def iv_user_def)
  then have "alternates ((ms @ [iv_user msg]) @ [iv_assistant ans])"
    by (rule alternates_append) (use assms in \<open>simp_all add: conversation_def iv_assistant_def\<close>)
  with assms show ?thesis by (simp add: conversation_def)
qed

lemma answer_round_cong:
  assumes "\<forall>req w. chat_request model sys opening req \<longrightarrow> generate' req w = generate req w"
    and "conversation opening rd ms"
  shows "answer_round generate' model sys msg rd ms tc w = answer_round generate model sys msg rd ms tc w"
proof (cases "msg \<noteq> [] \<and> rd < maxRounds")
  case True
  then have "generate' (iv_request model sys (ms @ [iv_user msg])) v =
      generate (iv_request model sys (ms @ [iv_user msg])) v" for v
    using assms conversation_ask [OF assms(2)] by simp
  then show ?thesis by (simp add: answer_round_def processAnswer_def Let_def)
next
  case False
  then show ?thesis by (simp only: answer_round_def if_False)
qed

lemma answer_round_conversation:
  assumes "answer_round generate model sys msg rd ms tc w = (Inr (rd1, ms1, tc1), ds, w1)"
    and "conversation opening rd ms" and "rd \<le> maxRounds"
  shows "conversation opening rd1 ms1 \<and> rd1 \<le> maxRounds"
  using assms conversation_answered [OF assms(2)]
  by (auto simp: answer_round_def processAnswer_def Let_def split: if_splits prod.splits sum.splits)

lemma finish_cong:
  assumes "\<forall>req w. chat_request model sys opening req \<longrightarrow> generate' req w = generate req w"
    and "conversation opening rd ms" and "rd \<le> maxRounds"
  shows "finish_interview generate' model sys dn rd ms tc ds w = finish_interview generate model sys dn rd ms tc ds w"
proof -
  have "generate' (iv_request model sys (ms @ [iv_user finalInstruction])) v =
      generate (iv_request model sys (ms @ [iv_user finalInstruction])) v" for v
    using assms(1) conversation_ask [OF assms(2,3)] by simp
  then show ?thesis by (simp add: finish_interview_def generateFinal_def)
qed

lemma iv_loop_cong:
  assumes "\<forall>req w. chat_request model sys opening req \<longrightarrow> generate' req w = generate req w"
    and "conversation opening rd ms" and "rd \<le> maxRounds"
  shows "iv_loop generate' model sys scanErr evs rd ms tc ds w = iv_loop generate model sys scanErr evs rd ms tc ds w"
  using assms
proof (induction generate model sys scanErr evs rd ms tc ds w rule: iv_loop.induct)
  case (1 generate model sys scanErr evs rd ms tc ds w)
  obtain r evs1 ds1 where m: "readMessage evs scanErr [] False = (r, evs1, ds1)"
    by (cases "readMessage evs scanErr [] False") auto
  show ?case
  proof (cases r)
    case (Inl e)
    then show ?thesis by (simp add: iv_loop.simps m)
  next
    case (Inr td)
    obtain msg dn where td: "td = (msg, dn)" by fastforce
    obtain x ds2 w1 where a: "answer_round generate model sys msg rd ms tc w = (x, ds2, w1)"
      by (cases "answer_round generate model sys msg rd ms tc w") auto
    have a': "answer_round generate' model sys msg rd ms tc w = (x, ds2, w1)"
      using answer_round_cong [OF "1.prems"(1,2)] a by simp
    note unfolds = m Inr td a a'
    show ?thesis
    proof (cases x)
      case (Inl e)
      then show ?thesis by (simp add: iv_loop.simps [of generate'] iv_loop.simps [of generate] unfolds)
    next
      case (Inr y)
      obtain rd1 ms1 tc1 where y: "y = (rd1, ms1, tc1)" by (cases y) auto
      have conv: "conversation opening rd1 ms1" "rd1 \<le> maxRounds"
        using answer_round_conversation [OF _ "1.prems"(2,3), of generate model sys msg tc w rd1 ms1 tc1 ds2 w1] a Inr y by simp_all
      show ?thesis
      proof (cases "dn \<or> maxRounds \<le> rd1")
        case True
        then show ?thesis
          using finish_cong [OF "1.prems"(1) conv]
          by (subst (1 2) iv_loop.simps) (simp add: unfolds Inr y)
      next
        case False
        have "iv_loop generate' model sys scanErr evs1 rd1 ms1 tc1 (ds @ ds1 @ ds2) w1 =
            iv_loop generate model sys scanErr evs1 rd1 ms1 tc1 (ds @ ds1 @ ds2) w1"
          by (rule "1.IH" [OF m [symmetric] \<open>r = Inr td\<close> td [symmetric] refl a [symmetric] Inr y [symmetric] refl refl False
              "1.prems"(1) conv])
        with False show ?thesis by (subst (1 2) iv_loop.simps) (simp add: unfolds Inr y)
      qed
    qed
  qed
qed

text \<open>C38. Every request of an interview is one a chat model accepts: it starts with the opening message, the
  roles alternate, the user speaks last, and it holds at most 43 messages; a model that differs only on
  other requests gives the same interview, for every input.\<close>

theorem interview_requests:
  assumes "\<forall>req w. chat_request model sys (iv_user opening) req \<longrightarrow> generate' req w = generate req w"
  shows "interview_run generate' model sys scanErr evs [iv_user opening] w =
    interview_run generate model sys scanErr evs [iv_user opening] w"
proof -
  let ?o = "iv_user opening"
  have "chat_request model sys ?o (iv_request model sys [?o])"
    by (simp add: chat_request_def iv_request_def alternates_def iv_user_def)
  then have first: "generate' (iv_request model sys [?o]) w = generate (iv_request model sys [?o]) w"
    using assms by simp
  have "conversation ?o 0 ([?o] @ [iv_assistant ans])" for ans
    by (auto simp: conversation_def alternates_def iv_user_def iv_assistant_def less_Suc_eq)
  then have "iv_loop generate' model sys scanErr evs 0 ([?o] @ [iv_assistant ans]) tc ds v =
      iv_loop generate model sys scanErr evs 0 ([?o] @ [iv_assistant ans]) tc ds v" for ans tc ds v
    by (intro iv_loop_cong [OF assms]) simp_all
  then show ?thesis by (simp add: interview_run_def first split: prod.split sum.split)
qed

theorem interview_requests_witness:
  "interview_run (\<lambda>req w. if chat_request ''o3'' [] (iv_user ''hi'') req then chatty req w else (Inl demo_err, w))
     ''o3'' [] None [ILine ''a shop'', ILine [], ILine [], ILine ''done''] [iv_user ''hi''] 0 =
   interview_run chatty ''o3'' [] None [ILine ''a shop'', ILine [], ILine [], ILine ''done''] [iv_user ''hi''] 0"
  by (rule interview_requests) simp

section \<open>A message\<close>

definition blank_line :: "gostring \<Rightarrow> bool" where
  "blank_line l \<longleftrightarrow> trim_space l = []"

definition done_line :: "gostring \<Rightarrow> bool" where
  "done_line l \<longleftrightarrow> equal_fold (trim_space l) ''done''"

text \<open>Text that holds no two blank lines in a row, given whether the line before it is blank.\<close>

fun no_double_blank :: "bool \<Rightarrow> gostring list \<Rightarrow> bool" where
  "no_double_blank b [] \<longleftrightarrow> True"
| "no_double_blank b (l # ls) \<longleftrightarrow> \<not> (b \<and> blank_line l) \<and> no_double_blank (blank_line l) ls"

lemma blank_not_done: "blank_line l \<Longrightarrow> \<not> done_line l"
  by (simp add: blank_line_def done_line_def equal_fold_def)

lemma processLine_text:
  assumes "\<not> done_line l" and "collected \<noteq> []"
  shows "processLine l collected b =
    (if blank_line l then if b then (LineSubmit, True, []) else (LineContinue, True, []) else (LineContinue, False, []))"
  using assms by (simp add: processLine_def blank_line_def done_line_def Let_def)

lemma readMessage_block:
  assumes "list_all (Not \<circ> done_line) ls" and "no_double_blank b ls" and "collected \<noteq> []"
    and "blank_line x" "blank_line y" and "ls = [] \<Longrightarrow> \<not> b" and "ls \<noteq> [] \<Longrightarrow> \<not> blank_line (last ls)"
  shows "readMessage (map ILine (ls @ [x, y]) @ evs) scanErr collected b =
    (Inr (joinCollected (collected @ ls @ [x]), False), evs, [])"
  using assms
proof (induction ls arbitrary: collected b)
  case Nil
  then show ?case
    by (simp add: processLine_text blank_not_done)
next
  case (Cons l ls)
  have p: "processLine l collected b = (LineContinue, blank_line l, [])"
    using Cons.prems by (simp add: processLine_text)
  have rest: "readMessage (map ILine (ls @ [x, y]) @ evs) scanErr (collected @ [l]) (blank_line l) =
      (Inr (joinCollected ((collected @ [l]) @ ls @ [x]), False), evs, [])"
    using Cons.prems by (intro Cons.IH) (auto split: if_splits)
  show ?case using Cons.prems(3) rest by (simp add: p)
qed

text \<open>C39. What the reader collects: leading blank lines only repeat the hint; then a text that starts and ends
  with lines of content, holds no line that says done and no two blank lines in a row is submitted by two
  blank lines, in full, inner blank lines included; the lines after it are left for the next message.\<close>

theorem readMessage_spec:
  assumes "list_all blank_line pre" and "list_all (Not \<circ> done_line) (l # ls)" and "no_double_blank False (l # ls)"
    and "\<not> blank_line l" and "\<not> blank_line (last (l # ls))" and "blank_line x" "blank_line y"
  shows "readMessage (map ILine (pre @ (l # ls) @ [x, y]) @ evs) scanErr [] False =
    (Inr (trim_space (str_join [NL] (l # ls @ [x])), False), evs, map (\<lambda>_. SystemMessage rePromptMsg) pre)"
  using assms(1)
proof (induction pre)
  case Nil
  have p: "processLine l [] False = (LineContinue, False, [])"
    using assms(2,4) by (simp add: processLine_def blank_line_def done_line_def Let_def)
  have "trim_space l \<noteq> []" using assms(4) by (simp add: blank_line_def)
  moreover have "readMessage (map ILine (ls @ [x, y]) @ evs) scanErr [l] False =
      (Inr (joinCollected ([l] @ ls @ [x]), False), evs, [])"
    by (rule readMessage_block) (use assms in \<open>auto split: if_splits\<close>)
  ultimately show ?case by (simp add: p joinCollected_def)
next
  case (Cons a pre)
  have "processLine a [] False = (LineContinue, False, [SystemMessage rePromptMsg])" and "trim_space a = []"
    using Cons.prems blank_not_done [of a] by (simp_all add: processLine_def blank_line_def done_line_def Let_def)
  with Cons show ?case by simp
qed

theorem readMessage_spec_witness:
  "readMessage (map ILine [[], ''a shop'', [], ''with users'', [], [], ''done''] @ []) None [] False =
     (Inr (''a shop'' @ [NL, NL] @ ''with users'', False), [ILine ''done''], [SystemMessage rePromptMsg])"
proof -
  have b: "blank_line []" "\<not> blank_line ''a shop''" "\<not> blank_line ''with users''"
    "list_all (Not \<circ> done_line) [''a shop'', [], ''with users'']" "no_double_blank False [''a shop'', [], ''with users'']"
    by code_simp+
  have j: "trim_space (str_join [NL] [''a shop'', [], ''with users'', []]) = ''a shop'' @ [NL, NL] @ ''with users''"
    by code_simp
  show ?thesis
    using readMessage_spec [of "[[]]" "''a shop''" "[[], ''with users'']" "[]" "[]" "[ILine ''done'']" None] b j by simp
qed

section \<open>The score of a draft\<close>

lemma f_of_int_small: "0 \<le> s \<Longrightarrow> s \<le> 100 \<Longrightarrow> f_of_int s = FNum (of_int s)"
  using fl_small_int [of s] by (simp add: f_of_int_def)

definition weighted :: "int list \<Rightarrow> float64" where
  "weighted ss = fold (\<lambda>(s, w) acc. fadd acc (fmul (f_of_int s) w)) (zip ss (map snd dimensionOrder)) fzero"

lemma weight_values:
  "fl (1 / 4) = FNum (1 / 4)" "fl (1 / 5) = FNum (3602879701896397 / 18014398509481984)"
  "fl (1 / 10) = FNum (3602879701896397 / 36028797018963968)"
  using fl_dyadic [of 1 "- 2"] fl_eval [of "-55" "1 / 5" 7205759403792794] fl_eval [of "-56" "1 / 10" 7205759403792794]
  by (simp_all add: pow2_def abs_less_iff)

lemma weighted_full: "weighted [100, 100, 100, 100, 100] = FNum 100"
proof -
  have "fl 25 = FNum 25" "fl 50 = FNum 50" "fl 70 = FNum 70" "fl 90 = FNum 90" "fl 100 = FNum 100"
    using fl_small_int [of 25] fl_small_int [of 50] fl_small_int [of 70] fl_small_int [of 90] fl_small_int [of 100]
    by simp_all
  moreover have "fl (100 * (3602879701896397 / 18014398509481984)) = FNum 20"
    using fl_eval [of "-48" "100 * (3602879701896397 / 18014398509481984)" 5629499534213120] by (simp add: pow2_def abs_less_iff)
  moreover have "fl (100 * (3602879701896397 / 36028797018963968)) = FNum 10"
    using fl_eval [of "-49" "100 * (3602879701896397 / 36028797018963968)" 5629499534213120] by (simp add: pow2_def abs_less_iff)
  ultimately show ?thesis
    by (simp add: weighted_def dimensionOrder_def f_of_int_small weight_values)
qed

lemma weighted_zero: "weighted [0, 0, 0, 0, 0] = FNum 0"
proof -
  have "fl 0 = FNum 0" using fl_small_int [of 0] by simp
  then show ?thesis by (simp add: weighted_def dimensionOrder_def f_of_int_small weight_values)
qed

lemma product_mono:
  assumes "0 \<le> s" "s \<le> t" "t \<le> 100" "0 \<le> v"
  shows "fleq (fmul (f_of_int s) (FNum v)) (fmul (f_of_int t) (FNum v)) \<and> fleq fzero (fmul (f_of_int s) (FNum v))"
proof -
  have "fleq (fmul (FNum v) (FNum (of_int s))) (fmul (FNum v) (FNum (of_int t)))"
    "fleq (fmul (FNum v) (FNum 0)) (fmul (FNum v) (FNum (of_int s)))"
    using assms by (intro fmul_mono; simp)+
  moreover have "fl 0 = FNum 0" using fl_small_int [of 0] by simp
  ultimately show ?thesis using assms by (simp add: f_of_int_small mult.commute)
qed

lemma product_nonneg: "0 \<le> s \<Longrightarrow> s \<le> 100 \<Longrightarrow> 0 \<le> v \<Longrightarrow> fleq fzero (fmul (f_of_int s) (FNum v))"
  using product_mono [of s s v] by simp

lemma weighted_mono:
  assumes "length ss = 5" and "list_all2 (\<lambda>s t. 0 \<le> s \<and> s \<le> t \<and> t \<le> 100) ss ts"
  shows "fleq (weighted ss) (weighted ts)"
proof -
  obtain a b c d e where ss: "ss = [a, b, c, d, e]" using assms(1) by (auto simp: numeral_eq_Suc length_Suc_conv)
  obtain a' b' c' d' e' where ts: "ts = [a', b', c', d', e']"
    using assms(2) unfolding ss by (auto simp: list_all2_Cons1)
  have le: "0 \<le> a \<and> a \<le> a' \<and> a' \<le> 100" "0 \<le> b \<and> b \<le> b' \<and> b' \<le> 100" "0 \<le> c \<and> c \<le> c' \<and> c' \<le> 100"
    "0 \<le> d \<and> d \<le> d' \<and> d' \<le> 100" "0 \<le> e \<and> e \<le> e' \<and> e' \<le> 100"
    using assms(2) unfolding ss ts by simp_all
  have z: "fleq fzero fzero" by simp
  note pm = product_mono [THEN conjunct1] product_nonneg
  show ?thesis
    unfolding ss ts weighted_def dimensionOrder_def weight_values using le
    by (simp del: fadd.simps fmul.simps)
      (intro fadd_mono fadd_nonneg pm z conjI; use le in simp)
qed

lemma round_int_mono: "fleq (FNum a) (FNum b) \<Longrightarrow> round_int (FNum a) \<le> round_int (FNum b)"
proof (cases "0 \<le> a")
  case True
  moreover assume "fleq (FNum a) (FNum b)"
  ultimately show ?thesis by (simp add: round_int_def floor_mono)
next
  case False
  assume ab: "fleq (FNum a) (FNum b)"
  show ?thesis
  proof (cases "0 \<le> b")
    case True
    have "0 \<le> \<lfloor>- a + 1 / 2\<rfloor>" "0 \<le> \<lfloor>b + 1 / 2\<rfloor>" using False True by simp_all
    then have "- \<lfloor>- a + 1 / 2\<rfloor> \<le> \<lfloor>b + 1 / 2\<rfloor>" by linarith
    with True False show ?thesis by (simp only: round_int_def float64.case if_True if_False)
  next
    case b: False
    have "\<lfloor>- b + 1 / 2\<rfloor> \<le> \<lfloor>- a + 1 / 2\<rfloor>" using ab by (intro floor_mono) simp
    with b False show ?thesis by (simp add: round_int_def)
  qed
qed

lemma round_int_ends: "round_int (FNum 100) = 100" "round_int (FNum 0) = 0"
proof -
  have "\<lfloor>(201 :: rat) / 2\<rfloor> = 100" "\<lfloor>(1 :: rat) / 2\<rfloor> = 0" by (rule floor_unique; simp)+
  then show "round_int (FNum 100) = 100" "round_int (FNum 0) = 0" by (simp_all add: round_int_def)
qed

lemma pick_dimensions_order:
  assumes "pick_dimensions ds = Inr dims"
  shows "map dn_Name dims = map fst dimensionOrder \<and> map dn_Weight dims = map snd dimensionOrder \<and>
    (\<forall>d \<in> set dims. 0 \<le> dn_Score d \<and> dn_Score d \<le> 100)"
proof -
  have all: "list_all (\<lambda>dm. pick_dimension ds dm \<noteq> None) dimensionOrder"
    and dims: "dims = map (\<lambda>dm. the (pick_dimension ds dm)) dimensionOrder"
    using assms by (auto simp: pick_dimensions_def dec_all_def Let_def list_all_iff o_def split: if_splits)
  have "dn_Name (the (pick_dimension ds dm)) = fst dm \<and> dn_Weight (the (pick_dimension ds dm)) = snd dm \<and>
      0 \<le> dn_Score (the (pick_dimension ds dm)) \<and> dn_Score (the (pick_dimension ds dm)) \<le> 100"
    if "dm \<in> set dimensionOrder" for dm
    using all that by (auto simp: list_all_iff pick_dimension_def)
  then show ?thesis unfolding dims by (auto simp: o_def)
qed

lemma overall_weighted:
  assumes "map dn_Weight dims = map snd dimensionOrder"
  shows "computeOverall dims = round_int (weighted (map dn_Score dims))"
proof -
  have "fold (\<lambda>(s, w) acc. fadd acc (fmul (f_of_int s) w)) (zip (map dn_Score dims) (map dn_Weight dims)) z =
      fold (\<lambda>d acc. fadd acc (fmul (f_of_int (dn_Score d)) (dn_Weight d))) dims z" for z
    by (induction dims arbitrary: z) simp_all
  then show ?thesis by (simp add: computeOverall_def weighted_def assms [symmetric])
qed

text \<open>A score that comes back lists the five dimensions in their fixed order, each between 0 and 100
  whatever the model claimed, and an overall score between 0 and 100 that is 100 when all of them are.\<close>

theorem scorer_Score_range:
  assumes "scorer_Score generate model specContent w = (Inr res, w1)"
  shows "map dn_Name (cr_Dimensions res) = map fst dimensionOrder \<and>
    (\<forall>d \<in> set (cr_Dimensions res). 0 \<le> dn_Score d \<and> dn_Score d \<le> 100) \<and>
    0 \<le> cr_Overall res \<and> cr_Overall res \<le> 100 \<and>
    ((\<forall>d \<in> set (cr_Dimensions res). dn_Score d = 100) \<longrightarrow> cr_Overall res = 100)"
proof -
  obtain ds where p: "pick_dimensions ds = Inr (cr_Dimensions res)"
    and o: "cr_Overall res = computeOverall (cr_Dimensions res)"
    using assms by (auto simp: scorer_Score_def split: if_splits prod.splits sum.splits option.splits)
  let ?ss = "map dn_Score (cr_Dimensions res)"
  note order = pick_dimensions_order [OF p]
  have len: "length ?ss = 5"
    using arg_cong [OF conjunct1 [OF order], of length] by (simp add: dimensionOrder_def)
  then obtain a b c d e where ss: "?ss = [a, b, c, d, e]" by (auto simp: numeral_eq_Suc length_Suc_conv)
  have r: "\<forall>s \<in> set ?ss. 0 \<le> s \<and> s \<le> 100" using order by simp
  have ov: "cr_Overall res = round_int (weighted ?ss)" using o order overall_weighted by simp
  have hi: "fleq (weighted ?ss) (FNum 100)"
    using weighted_mono [OF len, of "[100, 100, 100, 100, 100]"] r unfolding ss weighted_full by simp
  have lo: "fleq (FNum 0) (weighted ?ss)"
    using weighted_mono [of "[0, 0, 0, 0, 0]" ?ss] r unfolding ss weighted_zero by simp
  from hi lo obtain v where v: "weighted ?ss = FNum v" by (cases "weighted ?ss") (auto simp: gofloat)
  have "0 \<le> cr_Overall res" "cr_Overall res \<le> 100"
    using round_int_mono [of 0 v] round_int_mono [of v 100] hi lo unfolding ov v round_int_ends by simp_all
  moreover have "cr_Overall res = 100" if "\<forall>d \<in> set (cr_Dimensions res). dn_Score d = 100"
  proof -
    have "\<forall>s \<in> set ?ss. s = 100" using that by simp
    then have "?ss = [100, 100, 100, 100, 100]" unfolding ss by simp
    then show ?thesis unfolding ov by (simp add: weighted_full round_int_ends)
  qed
  ultimately show ?thesis using order by blast
qed

definition scoring_reply :: gostring where
  "scoring_reply =
     (''{'' @ [CHR 0x22] @ ''dimensions'' @ [CHR 0x22] @ '': [{'' @ [CHR 0x22] @ ''name'' @
      [CHR 0x22] @ '': '' @ [CHR 0x22] @ ''behavioral_completeness'' @ [CHR 0x22] @ '', '' @
      [CHR 0x22] @ ''score'' @ [CHR 0x22] @ '': 120}, {'' @ [CHR 0x22] @ ''name'' @ [CHR 0x22] @
      '': '' @ [CHR 0x22] @ ''interface_precision'' @ [CHR 0x22] @ '', '' @ [CHR 0x22] @
      ''score'' @ [CHR 0x22] @ '': 80}, {'' @ [CHR 0x22] @ ''name'' @ [CHR 0x22] @ '': '' @
      [CHR 0x22] @ ''defaults_and_boundaries'' @ [CHR 0x22] @ '', '' @ [CHR 0x22] @ ''score'' @
      [CHR 0x22] @ '': 100}, {'' @ [CHR 0x22] @ ''name'' @ [CHR 0x22] @ '': '' @ [CHR 0x22] @
      ''acceptance_criteria'' @ [CHR 0x22] @ '', '' @ [CHR 0x22] @ ''score'' @ [CHR 0x22] @
      '': -3}, {'' @ [CHR 0x22] @ ''name'' @ [CHR 0x22] @ '': '' @ [CHR 0x22] @ ''economy'' @
      [CHR 0x22] @ '', '' @ [CHR 0x22] @ ''score'' @ [CHR 0x22] @ '': 50}]}'')"

definition score_model :: "unit generate" where
  "score_model req w = (Inr (demo_response\<lparr>gp_Content := scoring_reply\<rparr>), w)"

lemma scoring_reply_parsed:
  "unmarshal_scoring (ExtractJSON scoring_reply) =
     Some [(''behavioral_completeness'', 120, []), (''interface_precision'', 80, []),
       (''defaults_and_boundaries'', 100, []), (''acceptance_criteria'', - 3, []), (''economy'', 50, [])]"
  by code_simp

theorem scorer_Score_range_witness:
  "\<exists>res. scorer_Score score_model ''o3'' ''# Spec'' () = (Inr res, ()) \<and>
     map dn_Score (cr_Dimensions res) = [100, 80, 100, 0, 50] \<and> cr_Overall res \<le> 100"
proof -
  have t: "trim_space ''# Spec'' \<noteq> []" by code_simp
  obtain res where run: "scorer_Score score_model ''o3'' ''# Spec'' () = (Inr res, ())"
    and d: "map dn_Score (cr_Dimensions res) = [100, 80, 100, 0, 50]"
    using t by (simp add: scorer_Score_def score_model_def scoring_reply_parsed pick_dimensions_def dimensionOrder_def
        dec_all_def pick_dimension_def Let_def)
  from scorer_Score_range [OF run] run d show ?thesis by (intro exI [of _ res]) simp
qed

section \<open>Generated scenarios\<close>

lemma base_path_plain:
  assumes "p \<noteq> []" and "\<not> is_rooted p"
  shows "SEP \<notin> set (base_path p) \<and> base_path p \<noteq> []"
proof -
  define q where "q = dropWhile (\<lambda>c. c = SEP) (rev p)"
  have "hd p \<in> set p" "hd p \<noteq> SEP" using assms by (cases p; simp add: is_rooted_def)+
  then have "q \<noteq> []" unfolding q_def dropWhile_eq_Nil_conv by auto
  moreover from this have "hd q \<noteq> SEP" unfolding q_def by (rule hd_dropWhile)
  ultimately have b: "takeWhile (\<lambda>c. c \<noteq> SEP) q \<noteq> []" by (cases q) simp_all
  have "SEP \<notin> set (takeWhile (\<lambda>c. c \<noteq> SEP) q)" by (auto dest: set_takeWhileD)
  with b show ?thesis using assms(1) by (simp add: base_path_def q_def [symmetric] Let_def)
qed

text \<open>What is kept: plain names, contents that load.\<close>

definition kept_ok :: "(gostring \<Rightarrow> goerr + scenario) \<Rightarrow> gostring gomap \<Rightarrow> bool" where
  "kept_ok unmarshal valid \<longleftrightarrow> gm_wf valid \<and>
     (\<forall>(n, c) \<in> set valid. normal_comp n \<and> \<not> str_contains n ''..'' \<and> (\<exists>sc. parseScenario unmarshal c = Inr sc))"

lemma keep_scenario_ok:
  assumes "kept_ok unmarshal valid" and "fst nc \<noteq> []" and "validatePath (fst nc) = None"
  shows "kept_ok unmarshal (keep_scenario unmarshal nc valid)"
proof -
  have b: "SEP \<notin> set (base_path (fst nc))" "base_path (fst nc) \<noteq> []"
    using base_path_plain [OF assms(2)] assms(3) by (simp_all add: validatePath_ups)
  have dd: "str_contains dotdot ''..''" by code_simp
  show ?thesis
  proof (cases "keep_scenario unmarshal nc valid = valid")
    case True
    with assms(1) show ?thesis by simp
  next
    case False
    then obtain sc where n: "\<not> str_contains (base_path (fst nc)) ''..''" "base_path (fst nc) \<noteq> ''.''"
      and l: "parseScenario unmarshal (snd nc) = Inr sc"
      and k: "keep_scenario unmarshal nc valid = gm_put (base_path (fst nc)) (snd nc) valid"
      unfolding keep_scenario_def Let_def by (auto split: if_splits sum.splits)
    have "normal_comp (base_path (fst nc))" using b n dd by (auto simp: normal_comp_def)
    with assms(1) n(1) l show ?thesis
      using gm_put_set [of "base_path (fst nc)" "snd nc" valid] unfolding k kept_ok_def
      by (auto simp: gm.wf_put)
  qed
qed

lemma keep_all_ok:
  assumes "kept_ok unmarshal valid" and "\<forall>nc \<in> set ncs. fst nc \<noteq> [] \<and> validatePath (fst nc) = None"
  shows "kept_ok unmarshal (fold (keep_scenario unmarshal) ncs valid)"
  using assms by (induction ncs arbitrary: valid) (auto intro: keep_scenario_ok)

lemma over_one:
  assumes "normal_comp n" shows "over base n = base @ [n]"
proof -
  have "split_on SEP n = [n]" using assms by (intro split_on_no_sep) (simp add: normal_comp_def)
  then show ?thesis using assms by (simp add: over_def clean_step_def normal_comp_def)
qed

text \<open>C40. Whatever the model answers, and in whatever order the files are taken, the generated scenarios have
  plain names, so that they are written into the scenario directory itself, and every one of them loads.\<close>

theorem generated_scenarios_safe:
  assumes "generate_scenarios generate unmarshal order model spec w = (Inr fls, cost, w1)"
    and "\<forall>m. set (order m) = set m"
  shows "fls \<noteq> [] \<and> gm_wf fls \<and>
    (\<forall>(n, c) \<in> set fls. normal_comp n \<and> (\<exists>sc. parseScenario unmarshal c = Inr sc)) \<and>
    (list_all normal_comp base \<and> base \<noteq> [] \<longrightarrow>
      (\<forall>(n, c) \<in> set fls. join_path [abs_of base, n] = abs_of (base @ [n])))"
proof -
  obtain resp :: generateResponse and raw where raw: "ParseFiles (gp_Content resp) = Inr raw"
    and fls: "fls = fold (keep_scenario unmarshal) (order raw) []" "fls \<noteq> []"
    using assms(1) unfolding generate_scenarios_def Let_def
    by (simp split: if_splits prod.splits sum.splits)
  obtain r where "ParseFilesWithMetadata (gp_Content resp) = Inr r" "raw = pr_Files r"
    using raw by (auto simp: ParseFiles_def split: sum.splits)
  with Parse_safe have "\<forall>nc \<in> set raw. fst nc \<noteq> [] \<and> validatePath (fst nc) = None" by fastforce
  then have "kept_ok unmarshal fls"
    unfolding fls using assms(2) by (intro keep_all_ok) (simp_all add: kept_ok_def gm_wf_def)
  moreover have "join_path [abs_of base, n] = abs_of (base @ [n])"
    if "list_all normal_comp base" "base \<noteq> []" "normal_comp n" for n
    using that over_one [of n base] by (simp add: join_abs_of)
  ultimately show ?thesis using fls(2) by (auto simp: kept_ok_def)
qed

definition scenario_reply :: gostring where
  "scenario_reply =
     (''=== FILE: scenarios/login.yaml ==='' @ [NL] @ ''id: login'' @ [NL] @ ''=== END FILE ==='' @
      [NL])"

definition scenario_model :: "unit generate" where
  "scenario_model req w = (Inr (demo_response\<lparr>gp_Content := scenario_reply\<rparr>), w)"

definition load_any :: "gostring \<Rightarrow> goerr + scenario" where
  "load_any data = Inr \<lparr>sc_ID = ''login'', sc_Description = [], sc_Type = [], sc_Weight = None, sc_Component = [],
     sc_Tier = 1, sc_Setup = [], sc_Steps = [], sc_SatisfactionCriteria = []\<rparr>"

theorem generated_scenarios_safe_witness:
  "\<exists>fls. fst (generate_scenarios scenario_model load_any id ''o3'' ''# Spec'' ()) = Inr fls \<and> fls \<noteq> [] \<and>
     (\<forall>(n, c) \<in> set fls. normal_comp n)"
proof -
  have t: "trim_space ''# Spec'' \<noteq> []" by code_simp
  have p: "ParseFiles scenario_reply = Inr [(''scenarios/login.yaml'', ''id: login'' @ [NL])]" by code_simp
  have b: "base_path ''scenarios/login.yaml'' = ''login.yaml''" "\<not> str_contains ''login.yaml'' ''..''" by code_simp+
  have run: "generate_scenarios scenario_model load_any id ''o3'' ''# Spec'' () =
      (Inr [(''login.yaml'', ''id: login'' @ [NL])], gp_CostUSD demo_response, ())"
    using t by (simp add: generate_scenarios_def scenario_model_def p keep_scenario_def b parseScenario_def load_any_def
        Let_def gm_get_def gm_put_def)
  from generated_scenarios_safe [OF run] show ?thesis by (simp add: run)
qed

end
