(* ===== verification/Octog_Config.thy ===== *)
theory Octog_Config
  imports Go_Bufio Go_Path Llm Prelude
begin

text \<open>
  The configuration of the command line (\<open>cmd/octog/main.go\<close>, \<open>internal/paths/paths.go\<close>): where the files
  are, the config file with its reader, its writer and the interactive editor, the environment it fills, and
  the choice of the provider and of the models. The environment is a map; an unset variable reads as the
  empty string.
\<close>

section \<open>Directories\<close>

definition Getenv :: "gostring gomap \<Rightarrow> gostring \<Rightarrow> gostring" where
  "Getenv env k = (case gm_get env k of None \<Rightarrow> [] | Some v \<Rightarrow> v)"

text \<open>\<open>base\<close> is \<open>os.UserConfigDir\<close>.\<close>

definition ConfigDir :: "gostring gomap \<Rightarrow> goerr + gostring \<Rightarrow> goerr + gostring" where
  "ConfigDir env base =
     (let override = Getenv env ''OCTOG_CONFIG_DIR'' in
      if override \<noteq> [] then Inr override
      else (case base of Inl e \<Rightarrow> Inl (wrap_err ''resolve config dir'' e) | Inr b \<Rightarrow> Inr (join_path [b, ''octopusgarden''])))"

definition ConfigFile :: "gostring gomap \<Rightarrow> goerr + gostring \<Rightarrow> goerr + gostring" where
  "ConfigFile env base =
     (case ConfigDir env base of Inl e \<Rightarrow> Inl e | Inr dir \<Rightarrow> Inr (join_path [dir, ''config'']))"

definition DataDir :: "gostring gomap \<Rightarrow> goerr + gostring \<Rightarrow> goerr + gostring" where
  "DataDir env base =
     (let override = Getenv env ''OCTOG_CONFIG_DIR''; xdgData = Getenv env ''XDG_DATA_HOME'' in
      if override \<noteq> [] then Inr override
      else if xdgData \<noteq> [] then Inr (join_path [xdgData, ''octopusgarden''])
      else (case base of Inl e \<Rightarrow> Inl (wrap_err ''resolve data dir'' e) | Inr b \<Rightarrow> Inr (join_path [b, ''octopusgarden''])))"

definition StorePath :: "gostring gomap \<Rightarrow> goerr + gostring \<Rightarrow> goerr + gostring" where
  "StorePath env base =
     (case DataDir env base of Inl e \<Rightarrow> Inl e | Inr dir \<Rightarrow> Inr (join_path [dir, ''runs.db'']))"

section \<open>Lines of the config file\<close>

definition configKeys :: "gostring list" where
  "configKeys = [''ANTHROPIC_API_KEY'', ''OPENAI_API_KEY'', ''OPENAI_BASE_URL'']"

definition configAllowedKeys :: "gostring list" where
  "configAllowedKeys = [''ANTHROPIC_API_KEY'', ''OPENAI_API_KEY'', ''OPENAI_BASE_URL'']"

definition configClearValue :: gostring where "configClearValue = ''-''"

text \<open>The key and the value of a line; none for blank lines, comments and lines without an equals sign.\<close>

definition config_line :: "gostring \<Rightarrow> (gostring \<times> gostring) option" where
  "config_line line =
     (let trimmed = trim_space line in
      if trimmed = [] \<or> has_prefix trimmed ''#'' then None
      else (case str_cut trimmed ''='' of
          (key, value, ok) \<Rightarrow> if ok then Some (trim_space key, trim_space value) else None))"

section \<open>Loading\<close>

text \<open>\<open>os.Setenv\<close> refuses a value that holds a zero byte.\<close>

definition Setenv :: "gostring \<Rightarrow> gostring \<Rightarrow> gostring gomap \<Rightarrow> (gostring gomap) option" where
  "Setenv k v env = (if CHR 0x00 \<in> set v then None else Some (gm_put k v env))"

fun load_lines :: "gostring list \<Rightarrow> gostring gomap \<Rightarrow> goerr option \<times> gostring gomap" where
  "load_lines [] env = (None, env)"
| "load_lines (l # ls) env =
     (case config_line l of
        None \<Rightarrow> load_lines ls env
      | Some (key, value) \<Rightarrow>
          if \<not> List.member configAllowedKeys key then load_lines ls env
          else if Getenv env key = [] then
            (case Setenv key value env of
               None \<Rightarrow> (Some \<lparr>er_msg = ''setenv '' @ key, er_is = []\<rparr>, env)
             | Some env1 \<Rightarrow> load_lines ls env1)
          else load_lines ls env)"

text \<open>\<open>stat\<close> says whether the file exists, \<open>opened\<close> is its content.\<close>

definition loadConfig ::
    "goerr + gostring \<Rightarrow> (gostring \<Rightarrow> goerr + bool) \<Rightarrow> (gostring \<Rightarrow> goerr + gostring) \<Rightarrow> gostring gomap \<Rightarrow>
     goerr option \<times> gostring gomap" where
  "loadConfig base stat opened env =
     (case ConfigFile env base of
        Inl e \<Rightarrow> (Some e, env)
      | Inr path \<Rightarrow>
          (case stat path of
             Inl e \<Rightarrow> (Some (wrap_err ''stat config'' e), env)
           | Inr False \<Rightarrow> (None, env)
           | Inr True \<Rightarrow>
               (case opened path of
                  Inl e \<Rightarrow> (Some (wrap_err ''open config'' e), env)
                | Inr data \<Rightarrow>
                    (case scan_lines MaxScanTokenSize data of
                       (ls, tooLong) \<Rightarrow>
                         (case load_lines ls env of
                            (Some e, env1) \<Rightarrow> (Some e, env1)
                          | (None, env1) \<Rightarrow> (if tooLong then Some (new_err errTooLong) else None, env1))))))"

section \<open>Provider and models\<close>

definition errInvalidProvider :: gostring where
  "errInvalidProvider = (''--provider must be '' @ [CHR 0x22] @ ''anthropic'' @ [CHR 0x22] @ '' or '' @
             [CHR 0x22] @ ''openai'' @ [CHR 0x22])"

definition errAmbiguousProvider :: gostring where
  "errAmbiguousProvider = (''both ANTHROPIC_API_KEY and OPENAI_API_KEY are set; use --provider to disambi'' @
             ''guate'')"

definition errNoAPIKey :: gostring where
  "errNoAPIKey = (''no API key found: set ANTHROPIC_API_KEY or OPENAI_API_KEY (env var, config f'' @
             ''ile, or `octog configure`)'')"

definition errMissingAnthropicKey :: gostring where
  "errMissingAnthropicKey = ''ANTHROPIC_API_KEY not set (use env var, config file, or `octog configure`)''"

definition errMissingOpenAIKey :: gostring where
  "errMissingOpenAIKey = ''OPENAI_API_KEY not set (use env var, config file, or `octog configure`)''"

definition resolveProvider :: "gostring gomap \<Rightarrow> gostring \<Rightarrow> goerr + gostring" where
  "resolveProvider env provider =
     (if provider \<noteq> [] then
        (if provider = ''anthropic'' \<or> provider = ''openai'' then Inr provider else Inl (new_err errInvalidProvider))
      else
        let hasAnthropic = Getenv env ''ANTHROPIC_API_KEY'' \<noteq> []; hasOpenAI = Getenv env ''OPENAI_API_KEY'' \<noteq> [] in
        if hasAnthropic \<and> hasOpenAI then Inl (new_err errAmbiguousProvider)
        else if hasAnthropic then Inr ''anthropic''
        else if hasOpenAI then Inr ''openai''
        else Inl (new_err errNoAPIKey))"

text \<open>The client with what it is constructed from: the key, the base URL and whether calls are free.\<close>

datatype llmClient = OpenAIClient gostring gostring bool | AnthropicClient gostring

definition newLLMClient :: "gostring gomap \<Rightarrow> gostring \<Rightarrow> goerr + llmClient \<times> gostring" where
  "newLLMClient env provider =
     (case resolveProvider env provider of
        Inl e \<Rightarrow> Inl e
      | Inr resolved \<Rightarrow>
          if resolved = ''openai'' then
            (let apiKey = Getenv env ''OPENAI_API_KEY''; baseURL = Getenv env ''OPENAI_BASE_URL'' in
             if apiKey = [] then Inl (new_err errMissingOpenAIKey)
             else Inr (OpenAIClient apiKey baseURL (baseURL \<noteq> []), resolved))
          else
            (let apiKey = Getenv env ''ANTHROPIC_API_KEY'' in
             if apiKey = [] then Inl (new_err errMissingAnthropicKey) else Inr (AnthropicClient apiKey, resolved)))"

definition defaultModel :: "gostring \<Rightarrow> gostring" where
  "defaultModel provider = (if provider = ''openai'' then ''gpt-5.2'' else ''claude-sonnet-4-6'')"

definition defaultJudgeModel :: "gostring \<Rightarrow> gostring" where
  "defaultJudgeModel provider = (if provider = ''openai'' then ''gpt-5-nano'' else ''claude-haiku-4-5'')"

definition applyModelDefaults :: "gostring \<Rightarrow> gostring \<Rightarrow> gostring \<Rightarrow> gostring \<times> gostring" where
  "applyModelDefaults model judgeModel provider =
     (if model = [] then defaultModel provider else model,
      if judgeModel = [] then defaultJudgeModel provider else judgeModel)"

definition errInvalidThreshold :: gostring where "errInvalidThreshold = ''--threshold must be between 0 and 100''"
definition errNoJudgeModelPricing :: gostring where "errNoJudgeModelPricing = ''judge model has no pricing entry''"

definition validateJudgeFlags :: "float64 \<Rightarrow> gostring \<Rightarrow> goerr option" where
  "validateJudgeFlags threshold judgeModel =
     (if fless threshold fzero \<or> fless (FNum 100) threshold then Some (new_err errInvalidThreshold)
      else if \<not> HasModelPricing judgeModel then Some (wrap_err judgeModel (new_err errNoJudgeModelPricing))
      else None)"

section \<open>The config file\<close>

definition maskValue :: "gostring \<Rightarrow> gostring" where
  "maskValue value =
     (if 16 \<le> length value then take 4 value @ ''...'' @ drop (length value - 4) value else ''****'')"

definition config_values :: "gostring list \<Rightarrow> gostring gomap" where
  "config_values ls = fold (\<lambda>l m. case config_line l of None \<Rightarrow> m | Some (k, v) \<Rightarrow> gm_put k v m) ls []"

text \<open>\<open>file\<close> is the content, if the file exists.\<close>

definition readConfigFile :: "goerr + gostring option \<Rightarrow> goerr + gostring gomap \<times> gostring list" where
  "readConfigFile file =
     (case file of
        Inl e \<Rightarrow> Inl (wrap_err ''open config'' e)
      | Inr None \<Rightarrow> Inr ([], [])
      | Inr (Some data) \<Rightarrow>
          (case scan_lines MaxScanTokenSize data of
             (ls, tooLong) \<Rightarrow>
               if tooLong then Inl (wrap_err ''read config'' (new_err errTooLong)) else Inr (config_values ls, ls)))"

text \<open>A line of the original file in the new one, and the key it has dealt with.\<close>

definition rewrite_line :: "gostring gomap \<Rightarrow> gostring \<Rightarrow> gostring option \<times> gostring option" where
  "rewrite_line values line =
     (case config_line line of
        None \<Rightarrow> (Some line, None)
      | Some (key, _) \<Rightarrow>
          (case gm_get values key of
             Some v \<Rightarrow> (Some (key @ ''='' @ v), Some key)
           | None \<Rightarrow> if List.member configAllowedKeys key then (None, Some key) else (Some line, None)))"

definition written_keys :: "gostring gomap \<Rightarrow> gostring list \<Rightarrow> gostring list" where
  "written_keys values ls = List.map_filter (snd \<circ> rewrite_line values) ls"

definition appended_lines :: "gostring gomap \<Rightarrow> gostring list \<Rightarrow> gostring list" where
  "appended_lines values ls =
     List.map_filter (\<lambda>key. if List.member (written_keys values ls) key then None
       else map_option (\<lambda>v. key @ ''='' @ v) (gm_get values key)) configKeys"

definition config_lines :: "gostring gomap \<Rightarrow> gostring list \<Rightarrow> gostring list" where
  "config_lines values ls = List.map_filter (fst \<circ> rewrite_line values) ls @ appended_lines values ls"

definition config_content :: "gostring gomap \<Rightarrow> gostring list \<Rightarrow> gostring" where
  "config_content values ls = str_join [NL] (config_lines values ls) @ [NL]"

definition writeConfigFile ::
    "(gostring \<Rightarrow> 'w \<Rightarrow> 'w \<times> bool) \<Rightarrow> (gostring \<Rightarrow> gostring \<Rightarrow> 'w \<Rightarrow> 'w \<times> bool) \<Rightarrow> gostring \<Rightarrow> gostring gomap \<Rightarrow>
     gostring list \<Rightarrow> 'w \<Rightarrow> goerr option \<times> 'w" where
  "writeConfigFile mkdirAll writeFile path values originalLines w =
     (case mkdirAll (dir_path path) w of
        (w1, ok) \<Rightarrow>
          if \<not> ok then (Some \<lparr>er_msg = ''create config dir'', er_is = []\<rparr>, w1)
          else (case writeFile path (config_content values originalLines) w1 of
              (w2, ok2) \<Rightarrow> (if ok2 then None else Some \<lparr>er_msg = ''write config'', er_is = []\<rparr>, w2)))"

section \<open>Editing\<close>

definition edit_value :: "gostring \<Rightarrow> gostring \<Rightarrow> gostring gomap \<Rightarrow> gostring gomap" where
  "edit_value key input newValues =
     (if input = configClearValue then AList.delete key newValues
      else if input \<noteq> [] then gm_put key input newValues
      else newValues)"

text \<open>The keys are asked in order until the input ends; each prompt shows the masked current value.\<close>

fun ask_keys ::
    "gostring list \<Rightarrow> gostring gomap \<Rightarrow> gostring list \<Rightarrow> gostring gomap \<Rightarrow> gostring \<Rightarrow> gostring gomap \<times> gostring" where
  "ask_keys [] values inputs newValues txt = (newValues, txt)"
| "ask_keys (key # keys) values inputs newValues txt =
     (let current = Getenv values key;
          prompt = (if current \<noteq> [] then maskValue current else ''not set'');
          txt1 = txt @ key @ '' ['' @ prompt @ '']: ''
      in case inputs of
           [] \<Rightarrow> (newValues, txt1)
         | i # is \<Rightarrow> ask_keys keys values is (edit_value key (trim_space i) newValues) txt1)"

definition configureInteractive ::
    "(gostring \<Rightarrow> 'w \<Rightarrow> 'w \<times> bool) \<Rightarrow> (gostring \<Rightarrow> gostring \<Rightarrow> 'w \<Rightarrow> 'w \<times> bool) \<Rightarrow> (gostring \<Rightarrow> 'w \<Rightarrow> goerr + gostring option) \<Rightarrow>
     gostring \<Rightarrow> gostring \<Rightarrow> 'w \<Rightarrow> gostring \<times> goerr option \<times> 'w" where
  "configureInteractive mkdirAll writeFile readFile input cfgPath w =
     (case readConfigFile (readFile cfgPath w) of
        Inl e \<Rightarrow> ([], Some e, w)
      | Inr (values, originalLines) \<Rightarrow>
          let txt0 = [NL] @ ''OctopusGarden Configuration'' @ [NL] @ ''Config file: '' @ cfgPath @ [NL, NL];
              (inputs, tooLong) = scan_lines MaxScanTokenSize input;
              (newValues, txt1) = ask_keys configKeys values inputs (gm_copy [] values) txt0
          in if tooLong \<and> length inputs < length configKeys
             then (txt1, Some (wrap_err ''read input'' (new_err errTooLong)), w)
             else
               let txt2 = txt1 @ [NL] @
                 (if Getenv newValues ''ANTHROPIC_API_KEY'' = [] \<and> Getenv newValues ''OPENAI_API_KEY'' = []
                  then (''Warning: no API key configured. Run '' @ [CHR 0x27] @ ''octog configure'' @
             [CHR 0x27] @ '' to add one.'' @ [NL] @ [NL]) else [])
               in (case writeConfigFile mkdirAll writeFile cfgPath newValues originalLines w of
                   (Some e, w1) \<Rightarrow> (txt2, Some e, w1)
                 | (None, w1) \<Rightarrow> (txt2 @ ''Configuration saved to '' @ cfgPath @ [NL], None, w1)))"

end
