(* ===== verification/Octog_Config_Facts.thy ===== *)
theory Octog_Config_Facts
  imports Octog_Config
begin

text \<open>
  The config file survives an edit: what \<open>writeConfigFile\<close> writes is read back as the edited values, whatever
  the comments, the spacing, the line ends and the repetitions of the original.
\<close>

section \<open>Trimmed strings\<close>

definition trimmed :: "gostring \<Rightarrow> bool" where
  "trimmed s \<longleftrightarrow> (\<forall>w \<in> set white_runes. \<not> prefix w s \<and> \<not> suffix w s)"

lemma trim_trimmed: "trimmed s \<Longrightarrow> trim_space s = s"
proof -
  assume t: "trimmed s"
  then have l: "trim_left s = s"
    unfolding trim_left_def by (intro strip_lead_no) (auto simp: trimmed_def list_all_iff)
  have "list_all (\<lambda>w. w = [] \<or> \<not> prefix w (rev s)) (map rev white_runes)"
    using t by (auto simp: trimmed_def list_all_iff suffix_to_prefix)
  then show ?thesis
    by (simp add: trim_space_def l trim_right_def strip_lead_no)
qed

lemma trimmed_trim: "trimmed (trim_space s)"
proof -
  let ?t = "trim_left s"
  have r: "\<not> suffix w (trim_right ?t)" if "w \<in> set white_runes" for w
    using strip_lead_done [of "map rev white_runes" "rev ?t"] that white_runes_ne
    by (auto simp: trim_right_def suffix_to_prefix list_all_iff)
  have l: "\<not> prefix w (trim_right ?t)" if "w \<in> set white_runes" for w
  proof
    assume "prefix w (trim_right ?t)"
    then have "prefix w ?t" using trim_right_prefix prefix_order.trans by blast
    then show False
      using strip_lead_done [of white_runes s] that white_runes_ne by (auto simp: trim_left_def list_all_iff)
  qed
  show ?thesis using l r by (auto simp: trimmed_def trim_space_def)
qed

lemma white_no_eq: "w \<in> set white_runes \<Longrightarrow> CHR ''='' \<notin> set w"
  by (auto simp: white_runes_def)

lemma trimmed_pair: "trimmed k \<Longrightarrow> trimmed v \<Longrightarrow> trimmed (k @ ''='' @ v)"
proof -
  assume k: "trimmed k" and v: "trimmed v"
  have "\<not> prefix w (k @ ''='' @ v)" if w: "w \<in> set white_runes" for w
  proof
    assume "prefix w (k @ ''='' @ v)"
    then consider "prefix w k" | us where "w = k @ us" "prefix us (''='' @ v)" "us \<noteq> []"
      by (metis append_Nil2 prefix_append prefix_order.order_refl)
    then show False
      using k w white_no_eq [OF w] by cases (auto simp: trimmed_def prefix_Cons)
  qed
  moreover have "\<not> suffix w (k @ ''='' @ v)" if w: "w \<in> set white_runes" for w
  proof
    assume "suffix w (k @ ''='' @ v)"
    then have "prefix (rev w) (rev v @ CHR ''='' # rev k)" by (simp add: suffix_to_prefix)
    then consider "prefix (rev w) (rev v)" | us where "rev w = rev v @ us" "prefix us (CHR ''='' # rev k)" "us \<noteq> []"
      by (metis append_Nil2 prefix_append prefix_order.order_refl)
    then show False
    proof cases
      case 1
      with v w show False by (auto simp: trimmed_def suffix_to_prefix)
    next
      case 2
      then have "CHR ''='' \<in> set (rev w)" by (auto simp: prefix_Cons)
      with white_no_eq [OF w] show False by simp
    qed
  qed
  ultimately show ?thesis by (simp add: trimmed_def)
qed

section \<open>A carriage return at the end of a line\<close>

lemma white_cr: "w \<in> set white_runes \<Longrightarrow> CHR 0x0D \<in> set w \<Longrightarrow> w = [CHR 0x0D]"
  by (auto simp: white_runes_def)

lemma white_has_cr: "[CHR 0x0D] \<in> set white_runes"
  by (simp add: white_runes_def)

lemma trim_right_cr: "trim_right (s @ [CHR 0x0D]) = trim_right s"
proof -
  have "find (\<lambda>w. w \<noteq> [] \<and> prefix w (CHR 0x0D # rev s)) (map rev white_runes) = Some [CHR 0x0D]"
    by (simp add: white_runes_def)
  then show ?thesis
    unfolding trim_right_def by (subst strip_lead.simps) simp
qed

lemma strip_lead_cr:
  "strip_lead white_runes (s @ [CHR 0x0D]) =
     (if strip_lead white_runes s = [] then [] else strip_lead white_runes s @ [CHR 0x0D])"
proof (induction "length s" arbitrary: s rule: less_induct)
  case less
  show ?case
  proof (cases "s = []")
    case True
    have "find (\<lambda>w. w \<noteq> [] \<and> prefix w [CHR 0x0D]) white_runes = Some [CHR 0x0D]"
      by (simp add: white_runes_def)
    with True show ?thesis by (subst strip_lead.simps) simp
  next
    case False
    have P: "(w \<noteq> [] \<and> prefix w (s @ [CHR 0x0D])) = (w \<noteq> [] \<and> prefix w s)" if "w \<in> set white_runes" for w
      using that False white_cr [OF that] by (auto simp: prefix_append prefix_Cons)
    have f: "find (\<lambda>w. w \<noteq> [] \<and> prefix w (s @ [CHR 0x0D])) white_runes = find (\<lambda>w. w \<noteq> [] \<and> prefix w s) white_runes"
      using P by (intro find_cong) auto
    show ?thesis
    proof (cases "find (\<lambda>w. w \<noteq> [] \<and> prefix w s) white_runes")
      case None
      then have "strip_lead white_runes s = s" by (subst strip_lead.simps) simp
      moreover have "strip_lead white_runes (s @ [CHR 0x0D]) = s @ [CHR 0x0D]"
        using None f by (subst strip_lead.simps) simp
      ultimately show ?thesis using False by simp
    next
      case (Some w)
      then have w: "w \<noteq> []" "prefix w s" by (auto simp: find_Some_iff)
      then have le: "length w \<le> length s" "0 < length w" using prefix_length_le by auto
      then have lt: "length (drop (length w) s) < length s" unfolding length_drop by linarith
      have "strip_lead white_runes (drop (length w) s @ [CHR 0x0D]) =
          (if strip_lead white_runes (drop (length w) s) = [] then []
           else strip_lead white_runes (drop (length w) s) @ [CHR 0x0D])"
        by (rule less [OF lt])
      moreover have "strip_lead white_runes s = strip_lead white_runes (drop (length w) s)"
        using Some by (subst strip_lead.simps) simp
      moreover have "strip_lead white_runes (s @ [CHR 0x0D]) = strip_lead white_runes (drop (length w) s @ [CHR 0x0D])"
        using Some f le by (subst strip_lead.simps) simp
      ultimately show ?thesis by simp
    qed
  qed
qed

lemma trim_space_cr: "trim_space (s @ [CHR 0x0D]) = trim_space s"
  using trim_right_cr [of "strip_lead white_runes s"]
  by (auto simp: trim_space_def trim_left_def strip_lead_cr)

lemma config_line_drop_cr [simp]: "config_line (drop_cr l) = config_line l"
proof (cases "l \<noteq> [] \<and> last l = CHR 0x0D")
  case True
  then have "l = drop_cr l @ [CHR 0x0D]" by (simp add: drop_cr_def) (metis append_butlast_last_id)
  then have "trim_space (drop_cr l) = trim_space l" by (metis trim_space_cr)
  then show ?thesis by (simp add: config_line_def)
qed (auto simp: drop_cr_def)

section \<open>Reading lines\<close>

lemma config_line_SomeD:
  assumes "config_line l = Some (k, v)"
  shows "trimmed k \<and> trimmed v \<and> CHR ''='' \<notin> set k \<and> \<not> prefix ''#'' k"
proof -
  let ?t = "trim_space l"
  from assms obtain p q where c: "str_cut ?t ''='' = (p, q, True)" and h: "\<not> prefix ''#'' ?t"
    and k: "k = trim_space p" and v: "v = trim_space q"
    by (auto simp: config_line_def Let_def split: if_splits prod.splits)
  from c have p: "p = takeWhile (\<lambda>x. x \<noteq> CHR ''='') ?t"
    by (auto simp: str_cut_def str_index_single takeWhile_eq_take [symmetric] split: if_splits)
  then have "prefix p ?t" by (simp add: takeWhile_is_prefix)
  then have "trim_left p = p"
    unfolding trim_left_def using trimmed_trim [of l]
    by (intro strip_lead_no) (auto simp: trimmed_def list_all_iff dest: prefix_order.trans)
  then have "prefix k p" by (simp add: k trim_space_def trim_right_prefix)
  then have "\<not> prefix ''#'' k" using h \<open>prefix p ?t\<close> prefix_order.trans by blast
  moreover have "CHR ''='' \<notin> set k"
    using trim_space_set [of p] set_takeWhileD by (fastforce simp: p k)
  ultimately show ?thesis by (simp add: k v trimmed_trim)
qed

lemma config_line_pair:
  assumes "trimmed k" "trimmed v" "CHR ''='' \<notin> set k" "\<not> prefix ''#'' k"
  shows "config_line (k @ ''='' @ v) = Some (k, v)"
proof -
  have "\<not> prefix ''#'' (k @ ''='' @ v)" using assms(4) by (cases k) auto
  moreover have "takeWhile (\<lambda>x. x \<noteq> CHR ''='') (k @ CHR ''='' # v) = k"
    using assms(3) by (subst takeWhile_append2) auto
  then have "str_cut (k @ ''='' @ v) ''='' = (k, v, True)"
    by (simp add: str_cut_def str_index_single)
  moreover have "trim_space (k @ ''='' @ v) = k @ ''='' @ v"
    by (intro trim_trimmed trimmed_pair assms)
  ultimately show ?thesis
    using assms by (simp add: config_line_def trim_trimmed)
qed

lemma config_values_get:
  "gm_get (config_values ls) k = map_of (rev (List.map_filter config_line ls)) k"
proof (induction ls rule: rev_induct)
  case (snoc l ls)
  then show ?case
    by (auto simp: config_values_def map_filter_append map_filter_simps split: option.splits prod.splits)
qed (simp add: config_values_def map_filter_simps)

lemma config_values_cr [simp]: "config_values (map drop_cr ls) = config_values ls"
  by (simp add: config_values_def fold_map comp_def)

lemma map_of_all_good:
  assumes "\<And>k v. (k, v) \<in> set xs \<Longrightarrow> g k = Some v" and "\<And>k. g k \<noteq> None \<Longrightarrow> k \<in> fst ` set xs"
  shows "map_of xs k = g k"
proof (cases "map_of xs k")
  case None
  then have "k \<notin> fst ` set xs" by (simp add: map_of_eq_None_iff)
  with assms(2) [of k] None show ?thesis by (cases "g k") auto
next
  case (Some v)
  then show ?thesis using assms(1) [of k v] by (auto dest: map_of_SomeD)
qed

section \<open>Writing and reading back\<close>

text \<open>What the edited values keep: outside the known keys they are those of the file, inside they are trimmed.\<close>

definition edited_from :: "gostring gomap \<Rightarrow> gostring list \<Rightarrow> bool" where
  "edited_from values ls \<longleftrightarrow>
     (\<forall>k. k \<notin> set configKeys \<longrightarrow> gm_get values k = gm_get (config_values ls) k) \<and>
     (\<forall>k v. gm_get values k = Some v \<longrightarrow> trimmed v)"

lemma allowed_configKeys [simp]: "k \<in> set configAllowedKeys \<longleftrightarrow> k \<in> set configKeys"
  by (simp add: configAllowedKeys_def configKeys_def)

lemma configKeys_ok: "k \<in> set configKeys \<Longrightarrow> trimmed k \<and> CHR ''='' \<notin> set k \<and> \<not> prefix ''#'' k"
proof -
  have t: "list_all (\<lambda>k. trim_space k = k \<and> CHR ''='' \<notin> set k \<and> \<not> prefix ''#'' k) configKeys"
    by (simp add: configKeys_def trim_space_plain plain_byte_code white_runes_def)
  show "k \<in> set configKeys \<Longrightarrow> trimmed k \<and> CHR ''='' \<notin> set k \<and> \<not> prefix ''#'' k"
    using t trimmed_trim [of k] by (auto simp: list_all_iff)
qed

lemma config_lines_values:
  assumes e: "edited_from values ls"
  shows "gm_get (config_values (config_lines values ls)) k = gm_get values k"
proof -
  let ?kept = "List.map_filter (fst \<circ> rewrite_line values) ls"
  let ?ps = "List.map_filter config_line (config_lines values ls)"
  have file_key: "gm_get (config_values ls) k' \<noteq> None" if "config_line l = Some (k', v')" "l \<in> set ls" for l k' v'
  proof -
    have "(k', v') \<in> set (List.map_filter config_line ls)" using that by (auto simp: set_map_filter)
    then have "k' \<in> fst ` set (rev (List.map_filter config_line ls))" by (metis fst_conv imageI set_rev)
    then show ?thesis by (simp only: config_values_get map_of_eq_None_iff not_not)
  qed
  have pair: "config_line (k' @ ''='' @ v') = Some (k', v')"
    if "config_line l = Some (k', u) \<or> k' \<in> set configKeys" "gm_get values k' = Some v'" for l k' u v'
    using that e config_line_SomeD [of l k' u] configKeys_ok [of k']
    by (auto simp: edited_from_def intro!: config_line_pair simp del: append_Cons)
  have good: "gm_get values k' = Some v'" if kv: "(k', v') \<in> set ?ps" for k' v'
  proof -
    from kv obtain l where l: "l \<in> set (config_lines values ls)" "config_line l = Some (k', v')"
      by (auto simp: set_map_filter)
    then consider (kept) x where "x \<in> set ls" "fst (rewrite_line values x) = Some l"
      | (new) key v where "key \<in> set configKeys" "gm_get values key = Some v" "l = key @ ''='' @ v"
      by (auto simp: config_lines_def appended_lines_def set_map_filter split: if_splits)
    then show ?thesis
    proof cases
      case kept
      show ?thesis
      proof (cases "config_line x")
        case None
        then show ?thesis using kept l by (auto simp: rewrite_line_def)
      next
        case (Some kw)
        obtain k2 w where kw: "kw = (k2, w)" by (cases kw)
        show ?thesis
        proof (cases "gm_get values k2")
          case None
          then have "k2 \<notin> set configKeys" using kept Some kw by (auto simp: rewrite_line_def split: if_splits)
          then have "gm_get values k2 = gm_get (config_values ls) k2" using e by (simp add: edited_from_def)
          with None file_key [OF Some [unfolded kw] kept(1)] show ?thesis by simp
        next
          case v2: (Some v2)
          then have "l = k2 @ ''='' @ v2" using kept Some kw by (auto simp: rewrite_line_def)
          then show ?thesis using l pair [of x k2 w v2] Some kw v2 by auto
        qed
      qed
    next
      case new
      then show ?thesis using l pair [of _ key _ v] by auto
    qed
  qed
  have all: "k' \<in> fst ` set ?ps" if some: "gm_get values k' \<noteq> None" for k'
  proof -
    from some obtain v' where v': "gm_get values k' = Some v'" by auto
    show ?thesis
    proof (cases "\<exists>x \<in> set ls. \<exists>w. config_line x = Some (k', w)")
      case True
      then obtain x w where x: "x \<in> set ls" "config_line x = Some (k', w)" by auto
      then have "k' @ ''='' @ v' \<in> set (config_lines values ls)"
        using v' by (auto simp: config_lines_def set_map_filter rewrite_line_def intro!: bexI [of _ x])
      then show ?thesis using pair [of x k' w v'] x v' by (force simp: set_map_filter image_iff)
    next
      case False
      then have none: "gm_get (config_values ls) k' = None"
        by (auto simp: config_values_get map_of_eq_None_iff set_map_filter)
      then have known: "k' \<in> set configKeys" using e v' by (auto simp: edited_from_def)
      have "k' \<notin> set (written_keys values ls)"
        using False by (auto simp: written_keys_def set_map_filter rewrite_line_def split: option.splits prod.splits if_splits)
      then have "k' @ ''='' @ v' \<in> set (config_lines values ls)"
        using v' known by (auto simp: config_lines_def appended_lines_def set_map_filter intro!: bexI [of _ k'])
      then show ?thesis using pair [of _ k' _ v'] known v' by (force simp: set_map_filter image_iff)
    qed
  qed
  show ?thesis
    unfolding config_values_get using good all by (intro map_of_all_good) auto
qed

lemma raw_lines_content:
  assumes "\<forall>l \<in> set ls. NL \<notin> set l"
  shows "raw_lines (str_join [NL] ls @ [NL]) = (if ls = [] then [[]] else ls)"
proof (cases "ls = []")
  case False
  have "str_join [NL] ls @ [NL] = str_join [NL] (ls @ [[]])"
    using False by (induction ls rule: induct_list012) auto
  then have "split_on NL (str_join [NL] ls @ [NL]) = ls @ [[]]"
    using assms by (simp add: split_on_join)
  with False show ?thesis by (simp add: raw_lines_def)
qed (simp add: raw_lines_def)

lemma scan_lines_NL: "l \<in> set (fst (scan_lines n s)) \<Longrightarrow> NL \<notin> set l"
proof -
  assume "l \<in> set (fst (scan_lines n s))"
  then obtain x where x: "x \<in> set (split_on NL s)" and l: "l = drop_cr x"
    by (auto simp: scan_lines_def raw_lines_def Let_def split: if_splits dest!: set_takeWhileD in_set_butlastD)
  show ?thesis
    using split_on_parts [OF x] by (auto simp: l drop_cr_def dest: in_set_butlastD)
qed

text \<open>Keys and values are parts of lines, so they hold no line break.\<close>

lemma config_line_set: "config_line l = Some (k, v) \<Longrightarrow> set k \<union> set v \<subseteq> set l"
proof -
  assume "config_line l = Some (k, v)"
  then obtain p q where c: "str_cut (trim_space l) ''='' = (p, q, True)" and k: "k = trim_space p" and v: "v = trim_space q"
    by (auto simp: config_line_def Let_def split: if_splits prod.splits)
  then have "set p \<union> set q \<subseteq> set (trim_space l)"
    by (auto simp: str_cut_def split: option.splits dest: in_set_takeD in_set_dropD)
  then show ?thesis
    using trim_space_set [of l] trim_space_set [of p] trim_space_set [of q] by (auto simp: k v)
qed

lemma rewritten_NL:
  assumes "\<forall>l \<in> set ls. NL \<notin> set l" and "\<And>k v. gm_get values k = Some v \<Longrightarrow> NL \<notin> set v"
    and "l \<in> set (config_lines values ls)"
  shows "NL \<notin> set l"
proof -
  have k: "NL \<notin> set k" if "config_line x = Some (k, w)" "x \<in> set ls" for x k w
    using config_line_set [OF that(1)] that(2) assms(1) by auto
  have "NL \<notin> set key" if "key \<in> set configKeys" for key
    using that by (auto simp: configKeys_def)
  with assms k show ?thesis
    by (fastforce simp: config_lines_def appended_lines_def set_map_filter rewrite_line_def
        split: option.splits prod.splits if_splits)
qed

lemma read_back:
  assumes e: "edited_from values ls" and nl: "\<forall>l \<in> set ls. NL \<notin> set l"
    and vals: "\<And>k v. gm_get values k = Some v \<Longrightarrow> NL \<notin> set v"
    and fits: "\<forall>l \<in> set (config_lines values ls). length l < MaxScanTokenSize"
  shows "\<exists>m ls'. readConfigFile (Inr (Some (config_content values ls))) = Inr (m, ls') \<and>
    (\<forall>k. gm_get m k = gm_get values k)"
proof -
  let ?L = "config_lines values ls"
  let ?R = "raw_lines (config_content values ls)"
  have r: "?R = (if ?L = [] then [[]] else ?L)"
    using rewritten_NL [OF nl vals] unfolding config_content_def by (intro raw_lines_content) auto
  have "\<forall>l \<in> set ?R. length l < MaxScanTokenSize"
    using fits by (auto simp: r MaxScanTokenSize_def)
  then have "scan_lines MaxScanTokenSize (config_content values ls) = (map drop_cr ?R, False)"
    by (simp add: scan_lines_def Let_def takeWhile_eq_all list_all_iff)
  moreover have "config_values ?R = config_values ?L"
    by (simp add: r config_values_def config_line_def)
  ultimately show ?thesis
    using config_lines_values [OF e] by (simp add: readConfigFile_def)
qed

section \<open>Editing\<close>

lemma edit_value_get:
  "gm_get (edit_value key i m) k =
     (if k \<noteq> key \<or> i = [] then gm_get m k else if i = configClearValue then None else Some i)"
  by (auto simp: edit_value_def configClearValue_def gm_get_def gm_put_def AList.delete_conv AList.update_conv)

lemma ask_keys_text: "fst (ask_keys keys values inputs m t) = fst (ask_keys keys values inputs m t')"
  by (induction keys arbitrary: inputs m t t') (auto simp: Let_def split: list.splits)

lemma config_values_wf: "gm_wf (config_values ls)"
proof (induction ls rule: rev_induct)
  case (snoc l ls)
  then show ?case by (auto simp: config_values_def split: option.splits)
qed (simp add: config_values_def)

lemma config_values_edited: "edited_from (config_values ls) ls"
proof -
  have "trimmed v" if "gm_get (config_values ls) k = Some v" for k v
    using that config_line_SomeD
    by (fastforce simp: config_values_get set_map_filter dest!: map_of_SomeD)
  then show ?thesis by (auto simp: edited_from_def)
qed

lemma config_values_NL: "gm_get (config_values ls) k = Some v \<Longrightarrow> \<forall>l \<in> set ls. NL \<notin> set l \<Longrightarrow> NL \<notin> set v"
  using config_line_set
  by (fastforce simp: config_values_get set_map_filter dest!: map_of_SomeD)

text \<open>The answers keep the edited values well formed.\<close>

definition edit_ok :: "gostring list \<Rightarrow> gostring gomap \<Rightarrow> bool" where
  "edit_ok ls m \<longleftrightarrow> edited_from m ls \<and> (\<forall>k v. gm_get m k = Some v \<longrightarrow> NL \<notin> set v)"

lemma edit_value_ok:
  assumes "edit_ok ls m" and "key \<in> set configKeys" and "NL \<notin> set i"
  shows "edit_ok ls (edit_value key (trim_space i) m)"
  using assms trimmed_trim [of i] trim_space_set [of i]
  by (auto simp: edit_ok_def edited_from_def edit_value_get split: if_splits)

lemma ask_keys_ok:
  "edit_ok ls m \<Longrightarrow> set keys \<subseteq> set configKeys \<Longrightarrow> \<forall>i \<in> set inputs. NL \<notin> set i \<Longrightarrow>
    edit_ok ls (fst (ask_keys keys values inputs m t))"
proof (induction keys arbitrary: inputs m t)
  case (Cons key keys)
  then show ?case by (cases inputs) (simp_all add: Let_def edit_value_ok)
qed simp

text \<open>The values after the edit, from the file and the answers.\<close>

definition answered :: "gostring list \<Rightarrow> gostring \<Rightarrow> gostring gomap" where
  "answered ls input =
     fst (ask_keys configKeys (config_values ls) (fst (scan_lines MaxScanTokenSize input))
       (gm_copy [] (config_values ls)) [])"

lemma answered_ok: "\<forall>l \<in> set ls. NL \<notin> set l \<Longrightarrow> edit_ok ls (answered ls input)"
proof -
  assume nl: "\<forall>l \<in> set ls. NL \<notin> set l"
  have get: "gm_get (gm_copy [] (config_values ls)) k = gm_get (config_values ls) k" for k
    by (simp add: gm_get_copy config_values_wf split: option.split)
  then have "edit_ok ls (gm_copy [] (config_values ls))"
    using config_values_edited [of ls] config_values_NL [OF _ nl] by (simp add: edit_ok_def edited_from_def)
  then show ?thesis
    unfolding answered_def by (rule ask_keys_ok) (auto dest: scan_lines_NL)
qed

text \<open>The one file the command edits: its content, when it exists.\<close>

definition one_mkdir :: "gostring \<Rightarrow> gostring option \<Rightarrow> gostring option \<times> bool" where
  "one_mkdir d w = (w, True)"

definition one_write :: "gostring \<Rightarrow> gostring \<Rightarrow> gostring option \<Rightarrow> gostring option \<times> bool" where
  "one_write p c w = (Some c, True)"

definition one_read :: "gostring \<Rightarrow> gostring option \<Rightarrow> goerr + gostring option" where
  "one_read p w = Inr w"

text \<open>C35. \<open>octog configure\<close> round trip: whatever the config file holds (comments, blanks, foreign keys, keys that
  occur more than once, spaces around the equals sign, carriage returns), when \<open>configureInteractive\<close> saves it
  and the written lines fit the scanner, \<open>readConfigFile\<close> reads from the new file exactly the old values with
  the answers applied.\<close>

theorem configure_roundtrip:
  assumes old: "readConfigFile (one_read path w) = Inr (values, ls)"
    and run: "configureInteractive one_mkdir one_write one_read input path w = (screen, None, w')"
    and fits: "\<forall>l \<in> set (config_lines (answered ls input) ls). length l < MaxScanTokenSize"
  shows "\<exists>m ls'. readConfigFile (one_read path w') = Inr (m, ls') \<and>
    (\<forall>k. gm_get m k = gm_get (answered ls input) k)"
proof -
  have vals: "values = config_values ls" and "ls = [] \<or> (\<exists>s. ls = fst (scan_lines MaxScanTokenSize s))"
    using old
    by (auto simp: readConfigFile_def one_read_def config_values_def split: option.splits if_splits prod.splits)
      (metis fst_conv)
  then have nl: "\<forall>l \<in> set ls. NL \<notin> set l" using scan_lines_NL by auto
  obtain inputs tooLong where i: "scan_lines MaxScanTokenSize input = (inputs, tooLong)" by fastforce
  have f: "fst (ask_keys configKeys values inputs (gm_copy [] values) t) = answered ls input" for t
    unfolding answered_def i fst_conv vals by (rule ask_keys_text)
  have "w' = Some (config_content (answered ls input) ls)"
    using run unfolding configureInteractive_def old i
    by (auto simp: Let_def case_prod_unfold f writeConfigFile_def one_mkdir_def one_write_def split: if_splits)
  then show ?thesis
    using read_back [of "answered ls input" ls] answered_ok [OF nl, of input] nl fits
    by (simp add: edit_ok_def one_read_def)
qed

text \<open>A file with a comment, a foreign key and a key that occurs twice; the first answer is a new key.\<close>

definition old_config :: gostring where
  "old_config = (''# keys'' @ [NL] @ ''OPENAI_API_KEY = a'' @ [NL] @ ''X=1'' @ [NL] @
             ''OPENAI_API_KEY=b'' @ [NL])"

definition old_lines :: "gostring list" where
  "old_lines = [''# keys'', ''OPENAI_API_KEY = a'', ''X=1'', ''OPENAI_API_KEY=b'']"

definition new_lines :: "gostring list" where
  "new_lines = [''# keys'', ''OPENAI_API_KEY=b'', ''X=1'', ''OPENAI_API_KEY=b'', ''ANTHROPIC_API_KEY=k'']"

lemma old_scan: "scan_lines MaxScanTokenSize old_config = (old_lines, False)"
  by (simp add: scan_lines_def raw_lines_def old_config_def old_lines_def MaxScanTokenSize_def drop_cr_def)

lemma input_scan: "scan_lines MaxScanTokenSize (''k'' @ [NL]) = ([''k''], False)"
  by (simp add: scan_lines_def raw_lines_def MaxScanTokenSize_def drop_cr_def)

lemma old_values: "config_values old_lines = [(''OPENAI_API_KEY'', ''b''), (''X'', ''1'')]"
  by code_simp

lemma old_answered: "answered old_lines (''k'' @ [NL]) =
    [(''OPENAI_API_KEY'', ''b''), (''X'', ''1''), (''ANTHROPIC_API_KEY'', ''k'')]"
  unfolding answered_def input_scan fst_conv old_values by code_simp

lemma old_rewritten: "config_lines (answered old_lines (''k'' @ [NL])) old_lines = new_lines"
  unfolding old_answered by code_simp

definition new_config :: gostring where "new_config = str_join [NL] new_lines @ [NL]"

lemma old_run:
  "configureInteractive one_mkdir one_write one_read (''k'' @ [NL]) ''/c/config'' (Some old_config) =
     (fst (configureInteractive one_mkdir one_write one_read (''k'' @ [NL]) ''/c/config'' (Some old_config)),
      None, Some new_config)"
proof -
  let ?v = "config_values old_lines"
  have r: "readConfigFile (one_read ''/c/config'' (Some old_config)) = Inr (?v, old_lines)"
    by (simp add: readConfigFile_def one_read_def old_scan)
  have f: "fst (ask_keys configKeys ?v [''k''] (gm_copy [] ?v) t) = answered old_lines (''k'' @ [NL])" for t
    unfolding answered_def input_scan fst_conv by (rule ask_keys_text)
  have c: "config_content (answered old_lines (''k'' @ [NL])) old_lines = new_config"
    unfolding config_content_def old_rewritten new_config_def ..
  show ?thesis
    unfolding configureInteractive_def r input_scan
    by (simp add: Let_def case_prod_unfold f [simplified] writeConfigFile_def one_mkdir_def one_write_def c [simplified])
qed

theorem configure_roundtrip_witness:
  "\<exists>m ls'. readConfigFile (one_read ''/c/config'' (Some new_config)) = Inr (m, ls') \<and>
    gm_get m ''OPENAI_API_KEY'' = Some ''b'' \<and> gm_get m ''X'' = Some ''1'' \<and> gm_get m ''ANTHROPIC_API_KEY'' = Some ''k''"
proof -
  have r: "readConfigFile (one_read ''/c/config'' (Some old_config)) = Inr (config_values old_lines, old_lines)"
    by (simp add: readConfigFile_def one_read_def old_scan)
  have "\<forall>l \<in> set (config_lines (answered old_lines (''k'' @ [NL])) old_lines). length l < MaxScanTokenSize"
    unfolding old_rewritten by (simp add: new_lines_def MaxScanTokenSize_def)
  from configure_roundtrip [OF r old_run this] show ?thesis
    unfolding old_answered by (force simp: gm_get_def)
qed

section \<open>A key that occurs twice\<close>

text \<open>
  The run takes the first occurrence of a key, the editor shows and keeps the last one: saving without any
  change makes the run see another value.
\<close>

lemma Getenv_put [simp]: "Getenv (gm_put k v env) k' = (if k' = k then v else Getenv env k')"
  by (simp add: Getenv_def)

lemma load_first:
  assumes "Getenv env k = []" and "k \<in> set configKeys" and "v \<noteq> []" and "CHR 0x00 \<notin> set v"
    and "config_line l = Some (k, v)"
  shows "Getenv (snd (load_lines (l # ls) env)) k = v"
proof -
  have keep: "Getenv (snd (load_lines xs e)) k = v" if "Getenv e k = v" for xs e
    using that
  proof (induction xs arbitrary: e)
    case (Cons x xs)
    have "Getenv (gm_put a b e) k = v" if "Getenv e a = []" for a b
      using that Cons.prems assms(3) by auto
    then show ?case by (auto simp: Setenv_def Cons.IH Cons.prems split: option.split)
  qed simp
  show ?thesis using assms keep [of "gm_put k v env" ls] by (simp add: Setenv_def)
qed

lemma duplicate_key_changes:
  "Getenv (snd (load_lines old_lines [])) ''OPENAI_API_KEY'' = ''a'' \<and>
   config_lines (config_values old_lines) old_lines = butlast new_lines \<and>
   Getenv (snd (load_lines (butlast new_lines) [])) ''OPENAI_API_KEY'' = ''b''"
proof (intro conjI)
  show "Getenv (snd (load_lines old_lines [])) ''OPENAI_API_KEY'' = ''a''" by code_simp
  show "config_lines (config_values old_lines) old_lines = butlast new_lines" unfolding old_values by code_simp
  show "Getenv (snd (load_lines (butlast new_lines) [])) ''OPENAI_API_KEY'' = ''b''" by code_simp
qed

end
