(* ===== verification/Spec2Isabelle.thy ===== *)
theory Spec2Isabelle
  imports
    Convergence Escalation Oscillation Toposort Fileparse Regression Feedback Llm Languages Prompts
    Prompt_Format Diagnosis Spec_Doc Attractor_State Attractor_Containers Attractor_Tools Attractor_Run
    Attractor_Loop Attractor_Frame Attractor_Invariants Attractor_Reach Attractor_Composed Attractor_Compose_Facts
    Scenario_Types Scenario_Runner Scenario_Judge Scenario_Exec Validate_Cmd Octog_Run
    Lint_Core Lint_Rules Lint_Spec Lint_Scenario Lint_Facts Lint_Docs
    Gene_Model Gene_Facts Gene_Analyze Gene_Scan
    Llm_Providers Llm_Agent Llm_Facts Tool_Race Preflight Preflight_Facts
    Interview_Prompts Interview Interview_Facts Octog_Config Octog_Config_Facts
begin

text \<open>
  A verification library for octopusgarden, a Go program that lets a language model write software until
  the software satisfies a set of scenarios. A run (\<open>octog run\<close>) reads a specification and a directory of
  scenarios; the attractor (\<open>internal/attractor\<close>) asks the model for the files of the program, writes
  them, builds and starts a container, and calls a validator; the validator runs the scenarios' steps
  against the container and has a model judge what it observes; the judged scores and the report of the
  failures go into the next request, until the score reaches the threshold, the budget is spent, the
  search stalls, or the iterations are used up.

  The Go language and its standard library. \<open>Prelude\<close> has errors (a message and the sentinels
  \<open>errors.Is\<close> finds) and maps (association lists behind the locale \<open>finite_map\<close>, with the order of the
  list as the order of a \<open>range\<close>); \<open>Go_Strings\<close>, \<open>Go_Utf8\<close>, \<open>Go_Path\<close>, \<open>Go_Float\<close> (binary64 with
  rounding to nearest even), \<open>Go_Parse\<close> (\<open>strconv.ParseFloat\<close>), \<open>Go_Json\<close>, \<open>Go_Time\<close>
  (\<open>time.ParseDuration\<close>) and \<open>Go_Format\<close> (the verb \<open>%g\<close>) are the parts of the library the program
  relies on. A Go string is a list of bytes. \<open>int\<close> is unbounded here: the counters stay far below 2 to
  the 63, and no proof uses wrap-around.

  The attractor. \<open>Convergence\<close> (\<open>convergence.go\<close>), \<open>Escalation\<close> (\<open>escalation.go\<close>), \<open>Oscillation\<close>,
  \<open>Toposort\<close>, \<open>Fileparse\<close>, \<open>Regression\<close>, \<open>Languages\<close>, \<open>Diagnosis\<close> (\<open>diagnosis.go\<close>, \<open>triage.go\<close>) and
  \<open>Attractor_Tools\<close> (\<open>tools.go\<close>) model one file each; \<open>Feedback\<close>, \<open>Prompts\<close> and \<open>Prompt_Format\<close> model
  \<open>prompts.go\<close>. \<open>attractor.go\<close> is \<open>Attractor_State\<close> (options, the run state, the interfaces to the
  outside), \<open>Attractor_Containers\<close> (services and the restart cell), \<open>Attractor_Run\<close> (generation, test
  command, validation, scoring), \<open>Attractor_Loop\<close> (the iteration and the loop) and \<open>Attractor_Composed\<close>
  (the component-wise path and \<open>Run\<close>). The outside world is a value of an arbitrary type that every call
  transforms; a validator and an agent are interaction trees, so that restarts and tool calls happen in
  the attractor's state. The model adds two fields to the state, the handles of the running containers
  and sessions, which make the deferred cleanups visible. The loop needs no fuel: its recursion is over
  the iterations that are left.

  The scenarios. \<open>Scenario_Types\<close> (\<open>types.go\<close>, \<open>loader.go\<close>), \<open>Scenario_Runner\<close> (\<open>runner.go\<close>,
  \<open>jsonpath.go\<close>, \<open>timeout.go\<close>), \<open>Scenario_Exec\<close> (\<open>exec.go\<close>, \<open>http.go\<close>, \<open>sources.go\<close>) and
  \<open>Scenario_Judge\<close> (\<open>judge.go\<close>). \<open>Validate_Cmd\<close> and \<open>Octog_Run\<close> model what \<open>cmd/octog/main.go\<close> builds
  around them: executors, validators, reports, and the run command that puts all together. \<open>Spec_Doc\<close>
  is \<open>internal/spec\<close>; \<open>Llm\<close> is the client-independent part of \<open>internal/llm\<close>.

  The linter. \<open>Lint_Core\<close> (\<open>diagnostic.go\<close>, \<open>varcheck.go\<close>), \<open>Lint_Rules\<close> (the rule table of \<open>rules.go\<close>),
  \<open>Lint_Spec\<close> (\<open>spec.go\<close>) and \<open>Lint_Scenario\<close> (\<open>scenario.go\<close>, on the nodes of the YAML parser). \<open>Lint_Facts\<close>
  and \<open>Lint_Docs\<close> relate it to the rest: a scenario without a finding on its variables does not refer
  to an unbound one at run time, what the linter accepts the runner does not reject as malformed, and
  every finding has a documented rule, up to a list of exceptions.

  Genes. \<open>Gene_Model\<close> (\<open>internal/gene/gene.go\<close>), \<open>Gene_Analyze\<close> (\<open>analyze.go\<close>) and \<open>Gene_Scan\<close> (\<open>scan.go\<close>) model
  the guide that is extracted from an exemplar, on top of \<open>Go_Json_Print\<close> (\<open>json.Marshal\<close> and its indented
  form, with the proof that the parser reads back what it prints), \<open>Go_Rfc3339\<close> (times in JSON) and
  \<open>Go_Bufio\<close> (the line scanner). \<open>Gene_Facts\<close> shows that the validation ends and accepts exactly the
  well-named, closed and acyclic component lists, relates it to the attractor's sort, and that a saved
  gene loads as it was. The search for cycles has a depth bound of one more than all names there are;
  \<open>dfs_ends\<close> shows it is never reached.

  The providers. \<open>Llm_Providers\<close> (\<open>anthropic.go\<close>, \<open>openai.go\<close>, \<open>metrics.go\<close>) models the two clients over a record of
  what the SDKs do (a stream of events, a call, the passing of time): requests, retries after transient
  errors, usage and cost, and how a judge's answer is read. \<open>Llm_Agent\<close> is \<open>AgentLoop\<close>, a tree that ends or
  calls a tool, and its adapter to the attractor's agent; a turn may make at most three requests, the turns
  are counted down from the limit. \<open>Llm_Facts\<close> has the round trip of the judge. The tool calls of a turn
  run in parallel: \<open>Tool_Race\<close> has the steps of \<open>handleWriteFile\<close> before and inside the lock as a step
  relation, shows that calls on different files leave disk and tracking equal in every interleaving, and
  that two calls on one file need not.

  Around a run. \<open>Preflight\<close> (\<open>internal/preflight\<close> and its command) scores specifications and scenario
  directories with a model and gates the run; \<open>Interview\<close> and \<open>Interview_Prompts\<close> (\<open>internal/interview\<close> and its
  command) are the conversation that drafts a specification, its scoring, and the generated scenario
  files; \<open>Octog_Config\<close> (\<open>internal/paths\<close> and parts of \<open>main.go\<close>) is the config file with its reader, writer
  and editor, the environment, and the choice of provider and models. Their \<open>_Facts\<close> theories show, among
  others, that an interview ends after at most 22 requests of alternating roles, that no run gets past the
  gate without a passing score, and that what \<open>octog configure\<close> saves is read back. The interview's reader
  gets the lines and the interrupts as one list of events, which bounds its recursion.

  What the lemmas show. About the loop: \<open>Attractor_Frame\<close> has one locale per kind of frame condition,
  interpreted on the operations of the model; \<open>Attractor_Invariants\<close> what an iteration guarantees,
  cleanup included; \<open>Attractor_Reach\<close> the loop as an inductive step relation, the equality of the two,
  and the invariant of the reachable states, from which the meaning of a run's result follows;
  \<open>Attractor_Compose_Facts\<close> the same for the composed path. About the parts: functional specifications,
  round trips between what one part writes and another reads (file blocks, the report of the failures,
  patches, JSON values, shell words), containment of every written path, refinement of the escalation
  by an abstract policy, soundness of the topological sort. About validation: that runs and scores fit
  together, that every active scenario is scored once with a restart between any two, that the report
  carries the scores back, and when perfect scores aggregate to exactly 100. Several theorems state
  behaviour the code's comments do not promise, such as a container that does not start and is
  validated all the same (\<open>start_failure_counts_twice\<close>) or a composition that is accepted unseen
  (\<open>unvalidated_composition\<close>).

  Not modelled. The providers' SDKs, the Docker client and the drivers of browsers, gRPC, WebSockets and
  terminals are third-party packages and are parameters of the model; YAML decoding and the SQLite store
  likewise. Tracing, logging, progress output, flag parsing and terminal styling do not influence
  results. The parallel variant of scoring runs scenarios concurrently against one target and is left
  out. A context is a flag of the world. In \<open>Llm_Agent\<close> a tool call takes effect as a whole, in an order the
  SDK record gives; only \<open>Tool_Race\<close> has the interleaving of parallel calls, for the one tool that writes.
  Elsewhere goroutines, locks and timers have no counterpart, since the loops are sequential.
\<close>

end
